(* ===== verification/Prelude.thy ===== *)
theory Prelude
  imports Complex_Main "HOL-Library.AList" "HOL-Library.Sublist"
begin

text \<open>
  Shared vocabulary of the development: Python values and exceptions, time, strings,
  dictionaries, rounding, and the two interfaces (locales) that several components rely on.

  Conventions used in every theory:
  \<^item> a Python \<open>float\<close> is an exact rational (\<open>flt\<close>): finite floats are rationals, and
    comparisons and \<open>min\<close>/\<open>max\<close> are exact; the rounding of float arithmetic, NaN and
    the infinities are not modelled (an infinite value the code itself creates is written out);
  \<^item> an aware \<open>datetime\<close> is its UTC instant in microseconds (\<open>instant\<close>), a calendar
    date is its day number (\<open>day\<close>); the clock is an argument, read once per operation;
  \<^item> the text of an f-string is kept symbolically, as the list of its literal parts and
    interpolated values (\<open>ptext\<close>): the code never inspects such text, it only passes it on;
  \<^item> a method of a mutable object takes the object's state and gives an \<open>outcome\<close>: the value
    returned or the exception raised, and in both cases the state it leaves behind;
  \<^item> logging is not modelled, and a \<open>with lock\<close> block is one atomic step.
\<close>

section \<open>Values\<close>

type_synonym flt = rat
type_synonym instant = int
type_synonym day = int

abbreviation second_us :: int where "second_us \<equiv> 1000000"
abbreviation hour_us :: int where "hour_us \<equiv> 3600000000"
abbreviation day_us :: int where "day_us \<equiv> 86400000000"

text \<open>Where the code itself handles or creates a float that is not finite.\<close>

datatype xflt = Fin flt | PosInf | NegInf | NotANumber

text \<open>
  A Python \<open>datetime\<close> where its zone matters: its wall clock in microseconds, and for an aware one
  the offset of its zone. Subtracting a naive from an aware one (or the reverse) raises.
\<close>

datatype py_datetime = Naive int | Aware int int

text \<open>
  The fragments of an f-string: literal text (also an interpolated \<open>str\<close>), an interpolated
  int or float, a float with \<open>n\<close> decimals, a float as a percentage with \<open>n\<close> decimals,
  the ISO format of an instant, its \<open>str\<close>, the ISO format of a date, and the ISO format of a
  \<open>datetime\<close> with or without zone.
\<close>

datatype frag =
    Lit string
  | FInt int
  | FFloat flt
  | FFix nat flt
  | FPercent nat flt
  | FIso instant
  | FTime instant
  | FDay day
  | FIsoDt py_datetime

type_synonym ptext = "frag list"

text \<open>A dynamically typed value, as \<open>json.loads\<close> gives it back.\<close>

datatype pyv =
    PNone
  | PBool bool
  | PInt int
  | PFloat flt
  | PStr ptext
  | PList "pyv list"
  | PDict "(string \<times> pyv) list"

abbreviation pstr :: "string \<Rightarrow> pyv" where "pstr s \<equiv> PStr [Lit s]"

fun truthy :: "pyv \<Rightarrow> bool" where
  "truthy PNone = False"
| "truthy (PBool b) = b"
| "truthy (PInt i) = (i \<noteq> 0)"
| "truthy (PFloat x) = (x \<noteq> 0)"
| "truthy (PStr t) = (t \<noteq> [] \<and> t \<noteq> [Lit []])"
| "truthy (PList xs) = (xs \<noteq> [])"
| "truthy (PDict d) = (d \<noteq> [])"

text \<open>Python's numeric reading of a value: \<open>bool\<close> is a subtype of \<open>int\<close>.\<close>

fun as_flt :: "pyv \<Rightarrow> flt option" where
  "as_flt (PInt i) = Some (of_int i)"
| "as_flt (PFloat x) = Some x"
| "as_flt (PBool b) = Some (if b then 1 else 0)"
| "as_flt _ = None"

fun as_int :: "pyv \<Rightarrow> int option" where
  "as_int (PInt i) = Some i"
| "as_int (PBool b) = Some (if b then 1 else 0)"
| "as_int _ = None"

text \<open>\<open>d.get(key, default)\<close>.\<close>

definition dget_or :: "('k \<times> 'v) list \<Rightarrow> 'k \<Rightarrow> 'v \<Rightarrow> 'v" where
  "dget_or d k v = (case map_of d k of Some w \<Rightarrow> w | None \<Rightarrow> v)"

lemma dget_or_simps [simp]:
  "dget_or [] k v = v"
  "dget_or ((j, w) # d) k v = (if j = k then w else dget_or d k v)"
  by (simp_all add: dget_or_def)

text \<open>A value or its default.\<close>

definition or_default :: "'a option \<Rightarrow> 'a \<Rightarrow> 'a" where
  "or_default x d = (case x of Some v \<Rightarrow> v | None \<Rightarrow> d)"

lemma or_default_simps [simp]: "or_default (Some v) d = v" "or_default None d = d"
  by (simp_all add: or_default_def)

section \<open>Outcomes of methods\<close>

datatype pyexn =
    ValueError
  | RuntimeError
  | AttributeError
  | TypeError
  | KeyError
  | IndexError
  | ZeroDivisionError
  | OSError
  | TokenRefreshError bool

datatype ('s, 'a) outcome = Ret 'a 's | Exc pyexn 's

fun state_of :: "('s, 'a) outcome \<Rightarrow> 's" where
  "state_of (Ret a s) = s"
| "state_of (Exc e s) = s"

fun raised :: "('s, 'a) outcome \<Rightarrow> bool" where
  "raised (Ret a s) = False"
| "raised (Exc e s) = True"

text \<open>Sequencing: the rest of a method runs only when the part before it returned.\<close>

fun and_then :: "('s, 'a) outcome \<Rightarrow> ('a \<Rightarrow> 's \<Rightarrow> ('s, 'b) outcome) \<Rightarrow> ('s, 'b) outcome" where
  "and_then (Ret a s) f = f a s"
| "and_then (Exc e s) f = Exc e s"

lemma and_then_split:
  "P (and_then m f) \<longleftrightarrow>
     (\<forall>a s. m = Ret a s \<longrightarrow> P (f a s)) \<and> (\<forall>e s. m = Exc e s \<longrightarrow> P (Exc e s))"
  by (cases m) auto

lemma and_then_Ret_iff:
  "and_then m f = Ret b t \<longleftrightarrow> (\<exists>a s. m = Ret a s \<and> f a s = Ret b t)"
  by (cases m) auto

lemma and_then_inv:
  assumes "Q (state_of m)" and "\<And>a s. m = Ret a s \<Longrightarrow> Q s \<Longrightarrow> Q (state_of (f a s))"
  shows "Q (state_of (and_then m f))"
  using assms by (cases m) auto

section \<open>Datetimes\<close>

fun dt_instant :: "py_datetime \<Rightarrow> instant" where
  "dt_instant (Naive w) = w"
| "dt_instant (Aware w off) = w - off"

fun dt_day :: "py_datetime \<Rightarrow> day" where
  "dt_day (Naive w) = w div day_us"
| "dt_day (Aware w off) = w div day_us"

fun dt_naive :: "py_datetime \<Rightarrow> bool" where
  "dt_naive (Naive w) = True"
| "dt_naive (Aware w off) = False"

text \<open>\<open>if ts.tzinfo is None: ts = ts.replace(tzinfo=timezone.utc)\<close>.\<close>

fun dt_as_utc :: "py_datetime \<Rightarrow> py_datetime" where
  "dt_as_utc (Naive w) = Aware w 0"
| "dt_as_utc (Aware w off) = Aware w off"

text \<open>\<open>(a - b)\<close> in microseconds.\<close>

fun dt_diff :: "py_datetime \<Rightarrow> py_datetime \<Rightarrow> pyexn + int" where
  "dt_diff (Naive a) (Naive b) = Inr (a - b)"
| "dt_diff (Aware a oa) (Aware b ob) = Inr ((a - oa) - (b - ob))"
| "dt_diff _ _ = Inl TypeError"

lemma dt_as_utc_simps [simp]:
  "dt_instant (dt_as_utc d) = dt_instant d" "dt_day (dt_as_utc d) = dt_day d" "\<not> dt_naive (dt_as_utc d)"
  by (cases d; simp)+

section \<open>Strings\<close>

text \<open>
  \<open>str.strip\<close>, \<open>str.upper\<close> and \<open>str.lower\<close> on ASCII text (other characters of Isabelle's
  8-bit \<open>char\<close> are left alone by the case maps).
\<close>

definition py_isspace :: "char \<Rightarrow> bool" where
  "py_isspace c = (let n = (of_char c :: nat) in (9 \<le> n \<and> n \<le> 13) \<or> (28 \<le> n \<and> n \<le> 32))"

definition py_upper_char :: "char \<Rightarrow> char" where
  "py_upper_char c =
     (let n = (of_char c :: nat) in if 97 \<le> n \<and> n \<le> 122 then char_of (n - 32) else c)"

definition py_lower_char :: "char \<Rightarrow> char" where
  "py_lower_char c =
     (let n = (of_char c :: nat) in if 65 \<le> n \<and> n \<le> 90 then char_of (n + 32) else c)"

definition py_upper :: "string \<Rightarrow> string" where
  "py_upper s = map py_upper_char s"

definition py_lower :: "string \<Rightarrow> string" where
  "py_lower s = map py_lower_char s"

definition py_strip :: "string \<Rightarrow> string" where
  "py_strip s = rev (dropWhile py_isspace (rev (dropWhile py_isspace s)))"

definition py_rstrip_slash :: "string \<Rightarrow> string" where
  "py_rstrip_slash s = rev (dropWhile (\<lambda>c. c = CHR ''/'') (rev s))"

lemma py_upper_char_idem [simp]: "py_upper_char (py_upper_char c) = py_upper_char c"
proof (cases "97 \<le> (of_char c :: nat) \<and> (of_char c :: nat) \<le> 122")
  case True
  then have "(of_char c :: nat) - 32 < 256" by linarith
  then have "(of_char (char_of ((of_char c :: nat) - 32) :: char) :: nat) = of_char c - 32"
    by simp
  with True show ?thesis by (auto simp: py_upper_char_def Let_def)
qed (auto simp: py_upper_char_def Let_def)

lemma py_upper_idem [simp]: "py_upper (py_upper s) = py_upper s"
  by (simp add: py_upper_def)

lemma py_isspace_upper [simp]: "py_isspace (py_upper_char c) = py_isspace c"
proof (cases "97 \<le> (of_char c :: nat) \<and> (of_char c :: nat) \<le> 122")
  case True
  then have "(of_char c :: nat) - 32 < 256" by linarith
  then have "(of_char (char_of ((of_char c :: nat) - 32) :: char) :: nat) = of_char c - 32"
    by simp
  with True show ?thesis by (auto simp: py_upper_char_def py_isspace_def Let_def)
qed (auto simp: py_upper_char_def Let_def)

lemma py_strip_upper: "py_strip (py_upper s) = py_upper (py_strip s)"
proof -
  have drop: "dropWhile py_isspace (map py_upper_char t) = map py_upper_char (dropWhile py_isspace t)" for t
    by (induction t) auto
  show ?thesis by (simp add: py_strip_def py_upper_def drop rev_map)
qed

section \<open>Decimal numerals\<close>

text \<open>\<open>str(n)\<close> of an int.\<close>

fun py_str_nat :: "nat \<Rightarrow> string" where
  "py_str_nat n =
     (if n < 10 then [char_of (48 + n)] else py_str_nat (n div 10) @ [char_of (48 + n mod 10)])"

declare py_str_nat.simps [simp del]

definition py_str_int :: "int \<Rightarrow> string" where
  "py_str_int i = (if i < 0 then CHR ''-'' # py_str_nat (nat (- i)) else py_str_nat (nat i))"

text \<open>The numeral determines the number.\<close>

definition nat_of_digits :: "string \<Rightarrow> nat" where
  "nat_of_digits s = foldl (\<lambda>n c. 10 * n + (of_char c - 48)) 0 s"

lemma of_char_of_digit: "d < 10 \<Longrightarrow> (of_char (char_of (48 + d) :: char) :: nat) = 48 + d"
  by simp

lemma nat_of_digits_str [simp]: "nat_of_digits (py_str_nat n) = n"
proof (induction n rule: py_str_nat.induct)
  case (1 n)
  show ?case
  proof (cases "n < 10")
    case True
    then show ?thesis
      using of_char_of_digit [OF True] by (subst py_str_nat.simps) (simp add: nat_of_digits_def)
  next
    case False
    then have "nat_of_digits (py_str_nat n) = 10 * nat_of_digits (py_str_nat (n div 10)) + n mod 10"
      using of_char_of_digit [of "n mod 10"] by (subst py_str_nat.simps) (simp add: nat_of_digits_def)
    with 1 False show ?thesis by simp
  qed
qed

lemma py_str_nat_inject [simp]: "py_str_nat m = py_str_nat n \<longleftrightarrow> m = n"
  by (metis nat_of_digits_str)

lemma py_str_nat_hd: "\<exists>(d::nat) rest. d < 10 \<and> py_str_nat n = char_of (48 + d) # rest"
proof (induction n rule: py_str_nat.induct)
  case (1 n)
  show ?case
  proof (cases "n < 10")
    case True
    then show ?thesis by (subst py_str_nat.simps) auto
  next
    case False
    then obtain d :: nat and rest where "d < 10" "py_str_nat (n div 10) = char_of (48 + d) # rest" using 1 by blast
    with False show ?thesis by (subst py_str_nat.simps) auto
  qed
qed

lemma py_str_nat_no_sign: "py_str_nat n \<noteq> CHR ''-'' # s"
proof
  assume eq: "py_str_nat n = CHR ''-'' # s"
  obtain d :: nat and rest where d: "d < 10" "py_str_nat n = char_of (48 + d) # rest" using py_str_nat_hd by blast
  with eq have "(of_char (char_of (48 + d) :: char) :: nat) = of_char (CHR ''-'')" by simp
  with of_char_of_digit [OF d(1)] show False by simp
qed

lemma py_str_int_inject [simp]: "py_str_int i = py_str_int j \<longleftrightarrow> i = j"
  using py_str_nat_no_sign [of "nat i"] py_str_nat_no_sign [of "nat j"]
  by (auto simp: py_str_int_def not_less) (metis eq_nat_nat_iff minus_equation_iff neg_0_le_iff_le order.strict_implies_order)+

section \<open>Rounding\<close>

text \<open>Python's \<open>round(x, 2)\<close>: to the nearest hundredth, halves to the even one.\<close>

definition round_half_even :: "flt \<Rightarrow> int" where
  "round_half_even x =
     (let f = \<lfloor>x\<rfloor>; d = x - of_int f in
      if d < 1/2 then f else if d > 1/2 then f + 1 else if even f then f else f + 1)"

definition py_round2 :: "flt \<Rightarrow> flt" where
  "py_round2 x = of_int (round_half_even (x * 100)) / 100"

text \<open>\<open>round(x, n)\<close>.\<close>

definition py_round :: "nat \<Rightarrow> flt \<Rightarrow> flt" where
  "py_round n x = of_int (round_half_even (x * 10 ^ n)) / 10 ^ n"

lemma round_half_even_of_int [simp]: "round_half_even (of_int i) = i"
  by (simp add: round_half_even_def)

lemma round_half_even_ge:
  assumes "of_int i \<le> x"
  shows "i \<le> round_half_even x"
proof -
  have "i \<le> \<lfloor>x\<rfloor>" using assms by (simp add: le_floor_iff)
  then show ?thesis by (auto simp: round_half_even_def Let_def)
qed

lemma round_half_even_le:
  assumes "x \<le> of_int i"
  shows "round_half_even x \<le> i"
proof (cases "x = of_int i")
  case False
  with assms have "\<lfloor>x\<rfloor> < i" by (simp add: floor_less_iff)
  then show ?thesis by (auto simp: round_half_even_def Let_def)
qed simp

text \<open>Rounding to hundredths keeps a value between two bounds that are themselves hundredths.\<close>

lemma py_round2_between:
  assumes "of_int a / 100 \<le> x" and "x \<le> of_int b / 100"
  shows "of_int a / 100 \<le> py_round2 x" and "py_round2 x \<le> of_int b / 100"
proof -
  have "of_int a \<le> x * 100" "x * 100 \<le> of_int b"
    using assms by (simp_all add: field_simps)
  then have "a \<le> round_half_even (x * 100)" "round_half_even (x * 100) \<le> b"
    by (simp_all add: round_half_even_ge round_half_even_le)
  then show "of_int a / 100 \<le> py_round2 x" "py_round2 x \<le> of_int b / 100"
    by (simp_all add: py_round2_def divide_right_mono)
qed

text \<open>Rounding moves a value by at most half a hundredth.\<close>

lemma round_half_even_near: "\<bar>of_int (round_half_even x) - x\<bar> \<le> 1/2"
proof -
  define f :: rat where "f = of_int \<lfloor>x\<rfloor>"
  have le: "f \<le> x" "x < f + 1" unfolding f_def by linarith+
  have "of_int (round_half_even x) = f \<and> x - f \<le> 1/2 \<or> of_int (round_half_even x) = f + 1 \<and> 1/2 \<le> x - f"
    by (auto simp: round_half_even_def Let_def f_def)
  with le show ?thesis by (auto simp: abs_if)
qed

lemma py_round2_near: "\<bar>py_round2 x - x\<bar> \<le> 1/200"
proof -
  have "py_round2 x - x = (of_int (round_half_even (x * 100)) - x * 100) / 100"
    by (simp add: py_round2_def field_simps)
  then have "\<bar>py_round2 x - x\<bar> = \<bar>of_int (round_half_even (x * 100)) - x * 100\<bar> / 100"
    by (simp only: abs_divide abs_numeral)
  moreover have "\<bar>of_int (round_half_even (x * 100)) - x * 100\<bar> / 100 \<le> (1/2) / 100"
    by (rule divide_right_mono[OF round_half_even_near]) simp
  ultimately show ?thesis by simp
qed

section \<open>Dictionaries\<close>

text \<open>
  A Python dict is the list of its entries in insertion order: assigning to a present key
  keeps its place, a new key goes to the end. The interface below is what the components rely
  on: the code's \<open>d.get(k)\<close>, \<open>d[k] = v\<close>, \<open>del d[k]\<close> and the key order.
\<close>

locale dictionary =
  fixes get :: "'m \<Rightarrow> 'k \<Rightarrow> 'v option"
    and put :: "'k \<Rightarrow> 'v \<Rightarrow> 'm \<Rightarrow> 'm"
    and del :: "'k \<Rightarrow> 'm \<Rightarrow> 'm"
    and keys :: "'m \<Rightarrow> 'k list"
  assumes get_put: "get (put k v m) j = (if j = k then Some v else get m j)"
    and get_del: "get (del k m) j = (if j = k then None else get m j)"
    and keys_get: "k \<in> set (keys m) \<longleftrightarrow> get m k \<noteq> None"
    and keys_put: "keys (put k v m) = (if get m k = None then keys m @ [k] else keys m)"
begin

lemma get_put_same: "get (put k v m) k = Some v"
  by (simp add: get_put)

lemma get_put_other: "j \<noteq> k \<Longrightarrow> get (put k v m) j = get m j"
  by (simp add: get_put)

lemma distinct_keys_put: "distinct (keys m) \<Longrightarrow> distinct (keys (put k v m))"
  by (simp add: keys_put keys_get)

lemma get_put_put: "get (put k v (put k w m)) = get (put k v m)"
  by (rule ext) (simp add: get_put)

lemma get_del_put: "get m k = None \<Longrightarrow> get (del k (put k v m)) = get m"
  by (rule ext) (auto simp: get_put get_del)

end

lemma map_of_keys_iff: "k \<in> fst ` set m \<longleftrightarrow> map_of m k \<noteq> None"
  by (metis map_of_eq_None_iff)

interpretation pydict: dictionary map_of AList.update AList.delete "map fst"
  by unfold_locales
    (simp_all add: update_conv' delete_conv' update_keys map_of_keys_iff split: if_splits)

lemmas dict_simps = pydict.get_put pydict.get_del

section \<open>Machines with an invariant\<close>

text \<open>
  A component whose operations each keep a predicate keeps it over every sequence of
  operations, and at every moment of the sequence.
\<close>

locale invariant_machine =
  fixes step :: "'s \<Rightarrow> 'e \<Rightarrow> 's"
    and ok :: "'e \<Rightarrow> bool"
    and inv :: "'s \<Rightarrow> bool"
  assumes step_inv: "inv s \<Longrightarrow> ok e \<Longrightarrow> inv (step s e)"
begin

lemma run_inv: "inv s \<Longrightarrow> list_all ok es \<Longrightarrow> inv (foldl step s es)"
  by (induction es arbitrary: s) (auto intro: step_inv)

lemma run_inv_prefix: "inv s \<Longrightarrow> list_all ok es \<Longrightarrow> inv (foldl step s (take n es))"
  by (rule run_inv) (auto simp: list_all_iff dest: in_set_takeD)

end

text \<open>A machine whose operations relate the states before and after by a preorder.\<close>

locale monotone_machine =
  fixes step :: "'s \<Rightarrow> 'e \<Rightarrow> 's"
    and ok :: "'e \<Rightarrow> bool"
    and rel :: "'s \<Rightarrow> 's \<Rightarrow> bool"
  assumes rel_refl: "rel s s"
    and rel_trans: "rel s t \<Longrightarrow> rel t u \<Longrightarrow> rel s u"
    and step_rel: "ok e \<Longrightarrow> rel s (step s e)"
begin

lemma run_rel: "list_all ok es \<Longrightarrow> rel s (foldl step s es)"
  by (induction es arbitrary: s) (auto intro: rel_refl rel_trans step_rel)

end

section \<open>Slices\<close>

text \<open>\<open>xs[-n:]\<close>.\<close>

definition py_last :: "int \<Rightarrow> 'a list \<Rightarrow> 'a list" where
  "py_last n xs = (if n > 0 then drop (length xs - nat n) xs else drop (nat (- n)) xs)"

section \<open>Lists of numbers\<close>

lemma sum_list_nonneg_ge_member:
  fixes xs :: "'a::ordered_ab_group_add list"
  assumes "\<And>x. x \<in> set xs \<Longrightarrow> 0 \<le> x" and "y \<in> set xs"
  shows "y \<le> sum_list xs"
  using assms member_le_sum_list[of y xs] by (simp add: member_le_sum_list)

end
