(* ===== verification/ConnState.thy ===== *)
theory ConnState
  imports Prelude
begin

text \<open>
  The shared connection state machine of \<open>adapters/ctrader/connection_state.py\<close>: the eleven
  lifecycle states, the table of allowed transitions, and \<open>ConnectionStateManager\<close> with its
  change callbacks. A callback is a function on an abstract world \<open>'w\<close> (whatever the
  subscribers change) that may raise; callbacks do not re-enter the manager.
\<close>

section \<open>States and the transition table\<close>

datatype conn_state =
    DISCONNECTED
  | CONNECTING
  | CONNECTED
  | APP_AUTHENTICATING
  | ACCT_AUTHENTICATING
  | AUTHENTICATED
  | SUSPENDED
  | SUBSCRIBING
  | DEGRADED
  | RECONNECTING
  | FAILED

instantiation conn_state :: enum
begin

definition enum_conn_state :: "conn_state list" where
  "enum_conn_state =
     [DISCONNECTED, CONNECTING, CONNECTED, APP_AUTHENTICATING, ACCT_AUTHENTICATING,
      AUTHENTICATED, SUSPENDED, SUBSCRIBING, DEGRADED, RECONNECTING, FAILED]"

definition enum_all_conn_state :: "(conn_state \<Rightarrow> bool) \<Rightarrow> bool" where
  "enum_all_conn_state P = list_all P enum_class.enum"

definition enum_ex_conn_state :: "(conn_state \<Rightarrow> bool) \<Rightarrow> bool" where
  "enum_ex_conn_state P = list_ex P enum_class.enum"

instance
proof
  show univ: "(UNIV :: conn_state set) = set enum_class.enum"
    using conn_state.exhaust by (auto simp: enum_conn_state_def)
  show "distinct (enum_class.enum :: conn_state list)"
    by (simp add: enum_conn_state_def)
  show "enum_class.enum_all P = Ball UNIV P" for P :: "conn_state \<Rightarrow> bool"
    by (simp add: enum_all_conn_state_def list_all_iff univ)
  show "enum_class.enum_ex P = Bex UNIV P" for P :: "conn_state \<Rightarrow> bool"
    by (simp add: enum_ex_conn_state_def list_ex_iff univ)
qed

end

definition valid_transitions :: "(conn_state \<times> conn_state) list" where
  "valid_transitions =
    [(DISCONNECTED, CONNECTING),
     (CONNECTING, CONNECTED),
     (CONNECTING, FAILED),
     (CONNECTING, DISCONNECTED),
     (CONNECTED, APP_AUTHENTICATING),
     (CONNECTED, DISCONNECTED),
     (CONNECTED, RECONNECTING),
     (APP_AUTHENTICATING, ACCT_AUTHENTICATING),
     (APP_AUTHENTICATING, FAILED),
     (APP_AUTHENTICATING, RECONNECTING),
     (ACCT_AUTHENTICATING, AUTHENTICATED),
     (ACCT_AUTHENTICATING, FAILED),
     (ACCT_AUTHENTICATING, RECONNECTING),
     (AUTHENTICATED, DEGRADED),
     (AUTHENTICATED, RECONNECTING),
     (AUTHENTICATED, DISCONNECTED),
     (AUTHENTICATED, FAILED),
     (AUTHENTICATED, SUSPENDED),
     (AUTHENTICATED, SUBSCRIBING),
     (SUSPENDED, CONNECTING),
     (SUSPENDED, DISCONNECTED),
     (SUBSCRIBING, AUTHENTICATED),
     (SUBSCRIBING, RECONNECTING),
     (DEGRADED, AUTHENTICATED),
     (DEGRADED, RECONNECTING),
     (DEGRADED, DISCONNECTED),
     (DEGRADED, FAILED),
     (RECONNECTING, CONNECTING),
     (RECONNECTING, CONNECTED),
     (RECONNECTING, APP_AUTHENTICATING),
     (RECONNECTING, FAILED),
     (RECONNECTING, DISCONNECTED),
     (FAILED, DISCONNECTED),
     (FAILED, CONNECTING),
     (FAILED, RECONNECTING),
     (FAILED, CONNECTED),
     (FAILED, APP_AUTHENTICATING),
     (DISCONNECTED, DISCONNECTED),
     (CONNECTING, CONNECTING),
     (CONNECTED, CONNECTED),
     (AUTHENTICATED, AUTHENTICATED),
     (SUSPENDED, SUSPENDED),
     (SUBSCRIBING, SUBSCRIBING),
     (DEGRADED, DEGRADED),
     (RECONNECTING, RECONNECTING),
     (FAILED, FAILED)]"

definition is_valid_transition :: "conn_state \<Rightarrow> conn_state \<Rightarrow> bool" where
  "is_valid_transition current target = List.member valid_transitions (current, target)"

text \<open>Which states a given state is entered from.\<close>

lemma into_AUTHENTICATED:
  "is_valid_transition s AUTHENTICATED \<longleftrightarrow>
     s \<in> {ACCT_AUTHENTICATING, SUBSCRIBING, DEGRADED, AUTHENTICATED}"
  by (cases s) (simp_all add: is_valid_transition_def valid_transitions_def)

lemma into_DEGRADED: "is_valid_transition s DEGRADED \<longleftrightarrow> s \<in> {AUTHENTICATED, DEGRADED}"
  by (cases s) (simp_all add: is_valid_transition_def valid_transitions_def)

lemma into_SUBSCRIBING: "is_valid_transition s SUBSCRIBING \<longleftrightarrow> s \<in> {AUTHENTICATED, SUBSCRIBING}"
  by (cases s) (simp_all add: is_valid_transition_def valid_transitions_def)

lemma into_ACCT_AUTHENTICATING:
  "is_valid_transition s ACCT_AUTHENTICATING \<longleftrightarrow> s = APP_AUTHENTICATING"
  by (cases s) (simp_all add: is_valid_transition_def valid_transitions_def)

lemma into_DISCONNECTED:
  "is_valid_transition s DISCONNECTED \<longleftrightarrow>
     s \<notin> {APP_AUTHENTICATING, ACCT_AUTHENTICATING, SUBSCRIBING}"
  by (cases s) (simp_all add: is_valid_transition_def valid_transitions_def)

lemmas into_session = into_AUTHENTICATED into_DEGRADED into_SUBSCRIBING

section \<open>The manager\<close>

type_synonym 'w callback = "conn_state \<Rightarrow> conn_state \<Rightarrow> ptext \<Rightarrow> pyv \<Rightarrow> 'w \<Rightarrow> ('w, unit) outcome"

record 'w conn_manager =
  cm_name :: string
  cm_state :: conn_state
  cm_callbacks :: "'w callback list"

definition cm_init :: "string \<Rightarrow> 'w conn_manager" where
  "cm_init name = \<lparr>cm_name = name, cm_state = DISCONNECTED, cm_callbacks = []\<rparr>"

definition cm_is_operational :: "'w conn_manager \<Rightarrow> bool" where
  "cm_is_operational m \<longleftrightarrow> cm_state m = AUTHENTICATED \<or> cm_state m = DEGRADED"

definition cm_is_authenticated :: "'w conn_manager \<Rightarrow> bool" where
  "cm_is_authenticated m \<longleftrightarrow> cm_state m = AUTHENTICATED"

definition cm_is_failed :: "'w conn_manager \<Rightarrow> bool" where
  "cm_is_failed m \<longleftrightarrow> cm_state m = FAILED"

text \<open>The callback loop: an exception is caught and the loop goes on.\<close>

fun cm_fire ::
  "'w callback list \<Rightarrow> conn_state \<Rightarrow> conn_state \<Rightarrow> ptext \<Rightarrow> pyv \<Rightarrow> 'w \<Rightarrow> 'w" where
  "cm_fire [] old new reason metadata w = w"
| "cm_fire (cb # cbs) old new reason metadata w =
     cm_fire cbs old new reason metadata (state_of (cb old new reason metadata w))"

definition cm_transition_to ::
  "conn_state \<Rightarrow> ptext \<Rightarrow> pyv option \<Rightarrow> 'w conn_manager \<times> 'w \<Rightarrow> bool \<times> 'w conn_manager \<times> 'w" where
  "cm_transition_to new reason metadata = (\<lambda>(m, w).
     let old = cm_state m in
     if \<not> is_valid_transition old new then (False, m, w)
     else
       let m' = m\<lparr>cm_state := new\<rparr>;
           md = (case metadata of Some d \<Rightarrow> (if truthy d then d else PDict []) | None \<Rightarrow> PDict []);
           w' = (if old \<noteq> new then cm_fire (cm_callbacks m) old new reason md w else w)
       in (True, m', w'))"

definition cm_on_state_change :: "'w callback \<Rightarrow> 'w conn_manager \<Rightarrow> 'w conn_manager" where
  "cm_on_state_change cb m = m\<lparr>cm_callbacks := cm_callbacks m @ [cb]\<rparr>"

definition cm_reset :: "'w conn_manager \<times> 'w \<Rightarrow> bool \<times> 'w conn_manager \<times> 'w" where
  "cm_reset = cm_transition_to DISCONNECTED [Lit ''manual_reset''] None"

lemma cm_transition_to_accepted [simp]:
  "fst (cm_transition_to new r md (m, w)) = is_valid_transition (cm_state m) new"
  by (simp add: cm_transition_to_def Let_def)

lemma cm_transition_to_state [simp]:
  "cm_state (fst (snd (cm_transition_to new r md (m, w)))) =
     (if is_valid_transition (cm_state m) new then new else cm_state m)"
  by (simp add: cm_transition_to_def Let_def)

lemma cm_transition_to_callbacks [simp]:
  "cm_callbacks (fst (snd (cm_transition_to new r md (m, w)))) = cm_callbacks m"
  by (simp add: cm_transition_to_def Let_def)

section \<open>Runs\<close>

text \<open>
  The states a manager goes through when it is asked for a sequence of transitions: a rejected
  request adds nothing, an accepted one (self-transitions included) adds its target.
\<close>

fun cm_visited :: "conn_state \<Rightarrow> conn_state list \<Rightarrow> conn_state list" where
  "cm_visited s [] = [s]"
| "cm_visited s (r # rs) = (if is_valid_transition s r then s # cm_visited r rs else cm_visited s rs)"

fun cm_run :: "conn_state list \<Rightarrow> 'w conn_manager \<times> 'w \<Rightarrow> 'w conn_manager \<times> 'w" where
  "cm_run [] mw = mw"
| "cm_run (r # rs) mw = cm_run rs (snd (cm_transition_to r [] None mw))"

inductive conn_trace :: "conn_state list \<Rightarrow> bool" where
  trace_start: "conn_trace [DISCONNECTED]"
| trace_step: "conn_trace p \<Longrightarrow> is_valid_transition (last p) t \<Longrightarrow> conn_trace (p @ [t])"

inductive_cases conn_trace_snocE: "conn_trace (p @ [t])"

lemma cm_visited_not_Nil [simp]: "cm_visited s rs \<noteq> []"
  by (induction rs arbitrary: s) auto

lemma cm_visited_last: "cm_state (fst (cm_run rs (m, w))) = last (cm_visited (cm_state m) rs)"
proof (induction rs arbitrary: m w)
  case (Cons r rs)
  obtain m' w' where mw: "snd (cm_transition_to r [] None (m, w)) = (m', w')"
    by (cases "snd (cm_transition_to r [] None (m, w))") auto
  then have "cm_state m' = (if is_valid_transition (cm_state m) r then r else cm_state m)"
    using cm_transition_to_state [of r "[]" None m w] by (simp add: mw)
  then show ?case using Cons.IH [of m' w'] by (simp add: mw)
qed simp

lemma conn_trace_extend:
  "conn_trace (p @ [s]) \<Longrightarrow> conn_trace (p @ cm_visited s rs)"
proof (induction rs arbitrary: p s)
  case (Cons r rs)
  show ?case
  proof (cases "is_valid_transition s r")
    case True
    with Cons.prems have "conn_trace ((p @ [s]) @ [r])"
      by (metis trace_step last_snoc)
    from Cons.IH [OF this] True show ?thesis by simp
  qed (simp add: Cons)
qed simp

lemma conn_trace_visited: "conn_trace (cm_visited DISCONNECTED rs)"
  using conn_trace_extend [of "[]" DISCONNECTED rs] trace_start by simp

section \<open>Sessions\<close>

text \<open>The states in which account authentication has completed on the current connection.\<close>

definition in_session :: "conn_state \<Rightarrow> bool" where
  "in_session s \<longleftrightarrow> s \<in> {AUTHENTICATED, DEGRADED, SUBSCRIBING}"

text \<open>
  A trace that ends in a session splits into an arbitrary part, the application and account
  handshake in that order, and a part that never leaves the session.
\<close>

definition handshake_before :: "conn_state list \<Rightarrow> bool" where
  "handshake_before p \<longleftrightarrow>
     (\<exists>u v. p = u @ [APP_AUTHENTICATING, ACCT_AUTHENTICATING, AUTHENTICATED] @ v \<and>
            list_all in_session v)"

lemma session_entry:
  assumes "is_valid_transition s t" and "in_session t" and "\<not> in_session s"
  shows "s = ACCT_AUTHENTICATING \<and> t = AUTHENTICATED"
  using assms by (auto simp: in_session_def into_session)

lemma conn_trace_last2:
  assumes "conn_trace p" and "last p = ACCT_AUTHENTICATING"
  shows "\<exists>u. p = u @ [APP_AUTHENTICATING, ACCT_AUTHENTICATING]"
  using assms
proof (induction rule: conn_trace.induct)
  case (trace_step p t)
  then have "last p = APP_AUTHENTICATING" "p \<noteq> []"
    by (auto simp: into_ACCT_AUTHENTICATING elim: conn_trace.cases)
  then show ?case using trace_step.prems by (metis append_butlast_last_id append_assoc append_Cons append_Nil last_snoc)
qed simp

lemma conn_trace_handshake:
  assumes "conn_trace p" and "in_session (last p)"
  shows "handshake_before p"
  using assms
proof (induction rule: conn_trace.induct)
  case trace_start
  then show ?case by (simp add: in_session_def)
next
  case (trace_step p t)
  show ?case
  proof (cases "in_session (last p)")
    case True
    with trace_step.IH obtain u v where
      "p = u @ [APP_AUTHENTICATING, ACCT_AUTHENTICATING, AUTHENTICATED] @ v" "list_all in_session v"
      unfolding handshake_before_def by blast
    with trace_step.prems show ?thesis
      unfolding handshake_before_def by (intro exI [of _ u] exI [of _ "v @ [t]"]) simp
  next
    case False
    with session_entry trace_step.hyps(2) trace_step.prems
    have acct: "last p = ACCT_AUTHENTICATING" and t: "t = AUTHENTICATED" by auto
    from conn_trace_last2 [OF trace_step.hyps(1) acct] obtain u
      where "p = u @ [APP_AUTHENTICATING, ACCT_AUTHENTICATING]" by blast
    with t show ?thesis
      unfolding handshake_before_def by (intro exI [of _ u] exI [of _ "[]"]) simp
  qed
qed

section \<open>Recovery\<close>

text \<open>A sequence of requests that brings a manager back to \<open>AUTHENTICATED\<close> from any state.\<close>

definition handshake_path :: "conn_state list" where
  "handshake_path = [CONNECTED, APP_AUTHENTICATING, ACCT_AUTHENTICATING, AUTHENTICATED]"

fun recovery_path :: "conn_state \<Rightarrow> conn_state list" where
  "recovery_path DISCONNECTED = CONNECTING # handshake_path"
| "recovery_path CONNECTING = handshake_path"
| "recovery_path CONNECTED = tl handshake_path"
| "recovery_path APP_AUTHENTICATING = tl (tl handshake_path)"
| "recovery_path ACCT_AUTHENTICATING = [AUTHENTICATED]"
| "recovery_path AUTHENTICATED = []"
| "recovery_path SUSPENDED = CONNECTING # handshake_path"
| "recovery_path SUBSCRIBING = [AUTHENTICATED]"
| "recovery_path DEGRADED = [AUTHENTICATED]"
| "recovery_path RECONNECTING = handshake_path"
| "recovery_path FAILED = handshake_path"

section \<open>Properties\<close>

text \<open>
  C31. A connection is only ever operational (authenticated or degraded) after the application
  handshake followed by the account handshake on that same connection: in every run of
  transition requests from the initial state that ends operational, the visited states end with
  APP_AUTHENTICATING, ACCT_AUTHENTICATING, AUTHENTICATED and then states of that session only.
\<close>

theorem conn_operational_after_handshake:
  assumes "cm_is_operational (fst (cm_run rs (cm_init name, w)))"
  shows "handshake_before (cm_visited DISCONNECTED rs)"
proof -
  have "in_session (last (cm_visited DISCONNECTED rs))"
    using assms cm_visited_last [of rs "cm_init name" w]
    by (auto simp: cm_is_operational_def in_session_def cm_init_def)
  with conn_trace_visited show ?thesis by (rule conn_trace_handshake)
qed

theorem conn_operational_after_handshake_witness:
  "cm_is_operational (fst (cm_run (CONNECTING # AUTHENTICATED # handshake_path @ [DEGRADED])
      (cm_init ''spot'' :: unit conn_manager, ()))) \<and>
   handshake_before (cm_visited DISCONNECTED (CONNECTING # AUTHENTICATED # handshake_path @ [DEGRADED]))"
proof -
  have h: "cm_is_operational (fst (cm_run (CONNECTING # AUTHENTICATED # handshake_path @ [DEGRADED])
      (cm_init ''spot'' :: unit conn_manager, ())))"
    by (simp add: cm_is_operational_def cm_visited_last cm_init_def handshake_path_def
        is_valid_transition_def valid_transitions_def del: cm_run.simps)
  show ?thesis using h conn_operational_after_handshake [OF h] by blast
qed

text \<open>
  No state is a trap: from every one of the eleven states (FAILED and SUSPENDED included)
  there is a sequence of at most five requests, every one of them accepted, after which the
  manager is authenticated.
\<close>

theorem conn_recoverable:
  "cm_state (fst (cm_run (recovery_path (cm_state m)) (m, w))) = AUTHENTICATED \<and>
   cm_visited (cm_state m) (recovery_path (cm_state m)) = cm_state m # recovery_path (cm_state m) \<and>
   length (recovery_path (cm_state m)) \<le> 5"
  unfolding cm_visited_last
  by (cases "cm_state m")
    (simp_all add: handshake_path_def is_valid_transition_def valid_transitions_def)

definition logging_callback :: "nat set \<Rightarrow> nat \<Rightarrow> nat list callback" where
  "logging_callback bad i old new reason md w =
     (if i \<in> bad then Exc RuntimeError (w @ [i]) else Ret () (w @ [i]))"

lemma cm_fire_logging:
  "cm_fire (map (logging_callback bad) is) old new r md w = w @ is"
proof (induction "is" arbitrary: w)
  case (Cons i rest)
  have "state_of (logging_callback bad i old new r md w) = w @ [i]"
    by (simp add: logging_callback_def)
  with Cons show ?case by simp
qed simp

text \<open>
  Callbacks are isolated from each other: on an accepted change of state every registered
  callback runs exactly once, in the order of registration, also when callbacks before it
  raise; a rejected request and a self-transition run none. (The world is the log to which
  callback number i appends; those in \<open>bad\<close> raise afterwards.)
\<close>

theorem conn_callbacks_isolated:
  "cm_callbacks m = map (logging_callback bad) ids \<Longrightarrow>
   snd (snd (cm_transition_to new r md (m, w))) =
     (if is_valid_transition (cm_state m) new \<and> cm_state m \<noteq> new then w @ ids else w)"
  by (simp add: cm_transition_to_def Let_def cm_fire_logging)

theorem conn_callbacks_isolated_witness:
  "snd (snd (cm_transition_to CONNECTING [] None
     ((cm_init ''trade'')\<lparr>cm_callbacks := map (logging_callback {0}) [0, 1, 2]\<rparr>, []))) = [0, 1, 2]"
  by (subst conn_callbacks_isolated [of _ "{0}" "[0, 1, 2]"])
    (simp_all add: cm_init_def is_valid_transition_def valid_transitions_def)

text \<open>
  \<open>reset\<close> is not limited to FAILED, as its docstring says: it succeeds, and disconnects, in
  every state but APP_AUTHENTICATING, ACCT_AUTHENTICATING and SUBSCRIBING, where it is rejected
  and leaves manager and subscribers alone.
\<close>

theorem conn_reset_domain:
  "cm_reset (m, w) =
     (if cm_state m \<in> {APP_AUTHENTICATING, ACCT_AUTHENTICATING, SUBSCRIBING} then (False, m, w)
      else (True, m\<lparr>cm_state := DISCONNECTED\<rparr>,
            if cm_state m = DISCONNECTED then w
            else cm_fire (cm_callbacks m) (cm_state m) DISCONNECTED [Lit ''manual_reset''] (PDict []) w))"
  by (auto simp: cm_reset_def cm_transition_to_def into_DISCONNECTED Let_def)

end
