(* ===== verification/Reconnect.thy ===== *)
theory Reconnect
  imports Prelude
begin

text \<open>
  Error classification (\<open>adapters/ctrader/error_classifier.py\<close>) and the reconnect strategy with
  decorrelated jitter (\<open>adapters/ctrader/reconnect_strategy.py\<close>). The pseudo-random draw of
  \<open>random.uniform(a, b)\<close>, documented as \<open>a + (b - a) * random()\<close>, is the argument \<open>u\<close>, the value
  of \<open>random()\<close>.
\<close>

section \<open>Error classification\<close>

datatype error_tier = TIER_1_TRANSIENT | TIER_2_BACKOFF | TIER_3A_OPERATION | TIER_3B_SYSTEM

record classified_error =
  ce_raw_code :: string
  ce_raw_description :: string
  ce_tier :: error_tier
  ce_action :: string
  ce_retry_after_ms :: int
  ce_is_recoverable :: bool

definition tier_rules :: "(string \<times> error_tier \<times> string \<times> int \<times> bool) list" where
  "tier_rules =
    [(''CONNECTION_LOST'', TIER_1_TRANSIENT, ''reconnect'', 0, True),
     (''HEARTBEAT_TIMEOUT'', TIER_1_TRANSIENT, ''reconnect'', 0, True),
     (''TCP_RESET'', TIER_1_TRANSIENT, ''reconnect'', 0, True),
     (''DNS_FAILURE'', TIER_1_TRANSIENT, ''reconnect'', 0, True),
     (''SERVER_NOT_READY'', TIER_2_BACKOFF, ''retry'', 5000, True),
     (''REQUEST_TIMEOUT'', TIER_2_BACKOFF, ''retry'', 1000, True),
     (''TOO_MANY_REQUESTS'', TIER_2_BACKOFF, ''retry'', 10000, True),
     (''SERVICE_UNAVAILABLE'', TIER_2_BACKOFF, ''retry'', 30000, True),
     (''INVALID_VOLUME'', TIER_3A_OPERATION, ''reject_request'', 0, False),
     (''INVALID_SYMBOL'', TIER_3A_OPERATION, ''reject_request'', 0, False),
     (''INSUFFICIENT_FUNDS'', TIER_3A_OPERATION, ''reject_request'', 0, False),
     (''MARKET_CLOSED'', TIER_3A_OPERATION, ''reject_request'', 0, False),
     (''BAD_REQUEST'', TIER_3A_OPERATION, ''reject_request'', 0, False),
     (''NOT_LOGGED_IN'', TIER_3B_SYSTEM, ''halt'', 0, False),
     (''AUTH_EXPIRED'', TIER_3B_SYSTEM, ''halt'', 0, False),
     (''TOKEN_INVALIDATED'', TIER_3B_SYSTEM, ''halt'', 0, False),
     (''ACCOUNT_DISABLED'', TIER_3B_SYSTEM, ''halt'', 0, False),
     (''MAX_RETRIES_EXCEEDED'', TIER_3B_SYSTEM, ''halt'', 0, False)]"

definition classify_error :: "string \<Rightarrow> string \<Rightarrow> classified_error" where
  "classify_error code description =
     (let stripped = py_upper (py_strip code);
          normalized = (if stripped = [] then ''UNKNOWN'' else stripped);
          (tier, action, retry_after, recoverable) =
            dget_or tier_rules normalized (TIER_3A_OPERATION, ''reject_request'', 0, False)
      in \<lparr>ce_raw_code = normalized, ce_raw_description = description, ce_tier = tier,
          ce_action = action, ce_retry_after_ms = retry_after, ce_is_recoverable = recoverable\<rparr>)"

section \<open>The strategy\<close>

datatype reconnect_action = RETRY | NO_RETRY | HALT

record reconnect_decision =
  rd_action :: reconnect_action
  rd_sleep_seconds :: flt
  rd_reason :: ptext
  rd_attempt :: int

record reconnect_strategy =
  rs_base :: flt
  rs_cap :: flt
  rs_max_attempts :: int
  rs_prev_sleep :: flt

definition BASE_SLEEP_S :: flt where "BASE_SLEEP_S = 1"
definition CAP_SLEEP_S :: flt where "CAP_SLEEP_S = 60"
definition DEFAULT_MAX_ATTEMPTS :: int where "DEFAULT_MAX_ATTEMPTS = 10"

definition rs_init :: "flt \<Rightarrow> flt \<Rightarrow> int \<Rightarrow> reconnect_strategy" where
  "rs_init base cap max_attempts =
     \<lparr>rs_base = base, rs_cap = cap, rs_max_attempts = max_attempts, rs_prev_sleep = base\<rparr>"

definition rs_reset :: "reconnect_strategy \<Rightarrow> reconnect_strategy" where
  "rs_reset s = s\<lparr>rs_prev_sleep := rs_base s\<rparr>"

definition rs_compute_sleep :: "flt \<Rightarrow> flt \<Rightarrow> reconnect_strategy \<Rightarrow> flt \<times> reconnect_strategy" where
  "rs_compute_sleep multiplier u s =
     (let upper = rs_prev_sleep s * multiplier * 3;
          drawn = rs_base s + (max (rs_base s) upper - rs_base s) * u;
          sleep = min (rs_cap s) drawn
      in (py_round2 sleep, s\<lparr>rs_prev_sleep := sleep\<rparr>))"

text \<open>The argument \<open>error\<close>: a code with its description, or an already classified error.\<close>

datatype error_arg = ErrorCode string string | Classified classified_error

fun classified_of :: "error_arg \<Rightarrow> classified_error" where
  "classified_of (Classified c) = c"
| "classified_of (ErrorCode code description) = classify_error code description"

definition rs_decide ::
  "error_arg \<Rightarrow> int \<Rightarrow> flt \<Rightarrow> reconnect_strategy \<Rightarrow> reconnect_decision \<times> reconnect_strategy" where
  "rs_decide error attempt u s =
     (let c = classified_of error in
      if attempt \<ge> rs_max_attempts s then
        (\<lparr>rd_action = NO_RETRY, rd_sleep_seconds = 0,
          rd_reason = [Lit ''max_attempts_reached ('', FInt attempt, Lit ''/'', FInt (rs_max_attempts s), Lit '')''],
          rd_attempt = attempt\<rparr>, s)
      else case ce_tier c of
        TIER_1_TRANSIENT \<Rightarrow>
          (let (sleep, s') = rs_compute_sleep 1 u s in
           (\<lparr>rd_action = RETRY, rd_sleep_seconds = sleep,
             rd_reason = [Lit ''tier_1_transient:'', Lit (ce_raw_code c)], rd_attempt = attempt\<rparr>, s'))
      | TIER_2_BACKOFF \<Rightarrow>
          (let (sleep, s') = rs_compute_sleep 2 u s in
           (\<lparr>rd_action = RETRY, rd_sleep_seconds = sleep,
             rd_reason = [Lit ''tier_2_backoff:'', Lit (ce_raw_code c)], rd_attempt = attempt\<rparr>, s'))
      | TIER_3A_OPERATION \<Rightarrow>
          (\<lparr>rd_action = NO_RETRY, rd_sleep_seconds = 0,
            rd_reason = [Lit ''tier_3a_operation:'', Lit (ce_raw_code c)], rd_attempt = attempt\<rparr>, s)
      | TIER_3B_SYSTEM \<Rightarrow>
          (\<lparr>rd_action = HALT, rd_sleep_seconds = 0,
            rd_reason = [Lit ''tier_3b_system:'', Lit (ce_raw_code c)], rd_attempt = attempt\<rparr>, s))"

section \<open>Bounds of the jitter\<close>

text \<open>The state invariant: the last sleep lies between base and cap.\<close>

definition rs_inv :: "reconnect_strategy \<Rightarrow> bool" where
  "rs_inv s \<longleftrightarrow> rs_base s \<le> rs_prev_sleep s \<and> rs_prev_sleep s \<le> rs_cap s"

lemma rs_compute_sleep_bounds:
  fixes k :: flt
  assumes "rs_base s \<le> rs_cap s" and "0 \<le> u" and "u \<le> 1"
  defines "prev' \<equiv> rs_prev_sleep (snd (rs_compute_sleep k u s))"
  shows "rs_base s \<le> prev'" and "prev' \<le> rs_cap s" and "prev' \<le> max (rs_base s) (rs_prev_sleep s * k * 3)"
proof -
  let ?hi = "max (rs_base s) (rs_prev_sleep s * k * 3)"
  have up: "0 \<le> (?hi - rs_base s) * u" using assms(2) by (intro mult_nonneg_nonneg) auto
  have "(?hi - rs_base s) * u \<le> (?hi - rs_base s) * 1"
    using assms(3) by (intro mult_left_mono) auto
  then have down: "rs_base s + (?hi - rs_base s) * u \<le> ?hi" by simp
  have eq: "prev' = min (rs_cap s) (rs_base s + (?hi - rs_base s) * u)"
    by (simp add: prev'_def rs_compute_sleep_def Let_def)
  show "rs_base s \<le> prev'" using up assms(1) by (simp add: eq)
  show "prev' \<le> rs_cap s" by (simp add: eq)
  show "prev' \<le> ?hi" using down by (simp add: eq min.coboundedI2)
qed

lemma rs_compute_sleep_frame [simp]:
  "rs_base (snd (rs_compute_sleep k u s)) = rs_base s"
  "rs_cap (snd (rs_compute_sleep k u s)) = rs_cap s"
  "rs_max_attempts (snd (rs_compute_sleep k u s)) = rs_max_attempts s"
  by (simp_all add: rs_compute_sleep_def Let_def)

lemma rs_compute_sleep_fst:
  "fst (rs_compute_sleep k u s) = py_round2 (rs_prev_sleep (snd (rs_compute_sleep k u s)))"
  by (simp add: rs_compute_sleep_def Let_def)

lemma rs_decide_state:
  "snd (rs_decide e n u s) \<in> {s, snd (rs_compute_sleep 1 u s), snd (rs_compute_sleep 2 u s)}"
  by (auto simp: rs_decide_def Let_def split: error_tier.splits prod.splits)

lemma rs_decide_frame [simp]:
  "rs_base (snd (rs_decide e n u s)) = rs_base s"
  "rs_cap (snd (rs_decide e n u s)) = rs_cap s"
  "rs_max_attempts (snd (rs_decide e n u s)) = rs_max_attempts s"
  using rs_decide_state [of e n u s] by auto

lemma rs_decide_inv:
  assumes "rs_inv s" "0 \<le> u" "u \<le> 1"
  shows "rs_inv (snd (rs_decide e n u s))"
proof -
  have "rs_base s \<le> rs_cap s" using assms(1) by (simp add: rs_inv_def)
  from rs_compute_sleep_bounds [OF this assms(2,3)] assms(1) rs_decide_state [of e n u s]
  show ?thesis by (auto simp: rs_inv_def)
qed

lemma rs_decide_cases:
  "rd_action (fst (rs_decide e n u s)) = RETRY \<and>
     rd_sleep_seconds (fst (rs_decide e n u s)) = py_round2 (rs_prev_sleep (snd (rs_decide e n u s))) \<or>
   rd_action (fst (rs_decide e n u s)) \<noteq> RETRY \<and>
     rd_sleep_seconds (fst (rs_decide e n u s)) = 0 \<and> snd (rs_decide e n u s) = s"
  by (auto simp: rs_decide_def rs_compute_sleep_fst Let_def split_beta split: error_tier.splits)

lemma rs_reset_inv: "rs_inv s \<Longrightarrow> rs_inv (rs_reset s)"
  by (auto simp: rs_inv_def rs_reset_def)

lemma rs_reset_frame [simp]:
  "rs_base (rs_reset s) = rs_base s" "rs_cap (rs_reset s) = rs_cap s"
  by (simp_all add: rs_reset_def)

text \<open>The operations a client calls, and runs of them.\<close>

datatype rs_event = Decide error_arg int flt | ResetJitter

fun rs_step :: "reconnect_strategy \<Rightarrow> rs_event \<Rightarrow> reconnect_strategy" where
  "rs_step s (Decide e n u) = snd (rs_decide e n u s)"
| "rs_step s ResetJitter = rs_reset s"

fun rs_event_ok :: "rs_event \<Rightarrow> bool" where
  "rs_event_ok (Decide e n u) = (0 \<le> u \<and> u \<le> 1)"
| "rs_event_ok ResetJitter = True"

definition rs_run_inv :: "flt \<Rightarrow> flt \<Rightarrow> reconnect_strategy \<Rightarrow> bool" where
  "rs_run_inv base cap s \<longleftrightarrow> rs_inv s \<and> rs_base s = base \<and> rs_cap s = cap"

interpretation rs_machine: invariant_machine rs_step rs_event_ok "rs_run_inv base cap" for base cap
proof
  fix s e
  assume "rs_run_inv base cap s" "rs_event_ok e"
  then show "rs_run_inv base cap (rs_step s e)"
    by (cases e) (auto simp: rs_run_inv_def intro: rs_decide_inv rs_reset_inv)
qed

section \<open>Properties\<close>

text \<open>
  Retry sleeps are always within the configured band: after any sequence of decisions and
  resets, a RETRY decision sleeps at least the base and at most the cap (rounding to hundredths
  included), and every other decision sleeps zero and leaves the jitter state alone.
\<close>

theorem reconnect_sleep_in_band:
  fixes a b n :: int
  assumes "a \<le> b" and "list_all rs_event_ok es" and "0 \<le> u" and "u \<le> 1"
  defines "s \<equiv> foldl rs_step (rs_init (of_int a / 100) (of_int b / 100) n) es"
  shows "if rd_action (fst (rs_decide e k u s)) = RETRY
         then of_int a / 100 \<le> rd_sleep_seconds (fst (rs_decide e k u s)) \<and>
              rd_sleep_seconds (fst (rs_decide e k u s)) \<le> of_int b / 100
         else rd_sleep_seconds (fst (rs_decide e k u s)) = 0 \<and> snd (rs_decide e k u s) = s"
proof -
  have "rs_run_inv (of_int a / 100) (of_int b / 100) (rs_init (of_int a / 100) (of_int b / 100) n)"
    using assms(1) by (simp add: rs_run_inv_def rs_inv_def rs_init_def divide_right_mono)
  from rs_machine.run_inv [OF this assms(2)]
  have inv: "rs_inv s" "rs_base s = of_int a / 100" "rs_cap s = of_int b / 100"
    by (simp_all add: s_def rs_run_inv_def)
  have "rs_inv (snd (rs_decide e k u s))"
    using inv(1) assms(3,4) by (rule rs_decide_inv)
  then have "of_int a / 100 \<le> rs_prev_sleep (snd (rs_decide e k u s))"
      "rs_prev_sleep (snd (rs_decide e k u s)) \<le> of_int b / 100"
    by (simp_all add: rs_inv_def inv)
  from py_round2_between [OF this] show ?thesis
    using rs_decide_cases [of e k u s] by auto
qed

theorem reconnect_sleep_in_band_witness:
  "let s = foldl rs_step (rs_init (of_int 100 / 100) (of_int 6000 / 100) 10)
             [Decide (ErrorCode ''tcp_reset'' '''') 1 (1/2), ResetJitter] in
   rd_action (fst (rs_decide (ErrorCode ''SERVER_NOT_READY'' '''') 2 1 s)) = RETRY \<and>
   of_int 100 / 100 \<le> rd_sleep_seconds (fst (rs_decide (ErrorCode ''SERVER_NOT_READY'' '''') 2 1 s)) \<and>
   rd_sleep_seconds (fst (rs_decide (ErrorCode ''SERVER_NOT_READY'' '''') 2 1 s)) \<le> of_int 6000 / 100"
proof -
  define s where "s = foldl rs_step (rs_init (of_int 100 / 100) (of_int 6000 / 100) 10)
             [Decide (ErrorCode ''tcp_reset'' '''') 1 (1/2), ResetJitter]"
  have max: "rs_max_attempts s = 10" by (simp add: s_def rs_reset_def rs_init_def)
  have tier: "ce_tier (classify_error ''SERVER_NOT_READY'' '''') = TIER_2_BACKOFF" by code_simp
  have act: "rd_action (fst (rs_decide (ErrorCode ''SERVER_NOT_READY'' '''') 2 1 s)) = RETRY"
    by (simp add: rs_decide_def max tier split_beta)
  from reconnect_sleep_in_band [of 100 6000 "[Decide (ErrorCode ''tcp_reset'' '''') 1 (1/2), ResetJitter]" 1
      "ErrorCode ''SERVER_NOT_READY'' ''''" 2 10] act
  show ?thesis by (simp add: s_def Let_def)
qed

lemma tier_rules_recoverable:
  "map_of tier_rules k = Some (tier, act, ms, rec) \<Longrightarrow> rec \<longleftrightarrow> tier \<in> {TIER_1_TRANSIENT, TIER_2_BACKOFF}"
proof -
  have "list_all (\<lambda>(k, tier, act, ms, rec). rec \<longleftrightarrow> tier \<in> {TIER_1_TRANSIENT, TIER_2_BACKOFF}) tier_rules"
    by (simp add: tier_rules_def)
  moreover assume "map_of tier_rules k = Some (tier, act, ms, rec)"
  then have "(k, tier, act, ms, rec) \<in> set tier_rules" by (rule map_of_SomeD)
  ultimately show ?thesis by (auto simp: list_all_iff)
qed

lemma classify_recoverable:
  "ce_is_recoverable (classify_error code d) \<longleftrightarrow>
     ce_tier (classify_error code d) \<in> {TIER_1_TRANSIENT, TIER_2_BACKOFF}"
  unfolding classify_error_def dget_or_def Let_def
  by (auto split: option.splits prod.splits dest: tier_rules_recoverable)

text \<open>
  The decision table. A retry happens exactly when attempts are left and the (normalised)
  code is one of the recoverable ones, a halt exactly when attempts are left and the code is a
  system error; at or past the attempt limit even a system error is reported as NO_RETRY.
  Unknown codes never retry.
\<close>

theorem reconnect_decision_table:
  "(rd_action (fst (rs_decide (ErrorCode code d) n u s)) = RETRY \<longleftrightarrow>
      n < rs_max_attempts s \<and> ce_is_recoverable (classify_error code d)) \<and>
   (rd_action (fst (rs_decide (ErrorCode code d) n u s)) = HALT \<longleftrightarrow>
      n < rs_max_attempts s \<and> ce_tier (classify_error code d) = TIER_3B_SYSTEM) \<and>
   (map_of tier_rules (py_upper (py_strip code)) = None \<longrightarrow>
      rd_action (fst (rs_decide (ErrorCode code d) n u s)) = NO_RETRY)"
proof -
  have unknown: "ce_tier (classify_error code d) = TIER_3A_OPERATION"
    if "map_of tier_rules (py_upper (py_strip code)) = None"
  proof -
    have "map_of tier_rules ''UNKNOWN'' = None" by (simp add: tier_rules_def)
    with that show ?thesis by (simp add: classify_error_def dget_or_def Let_def)
  qed
  have "rd_action (fst (rs_decide (ErrorCode code d) n u s)) =
      (if n \<ge> rs_max_attempts s then NO_RETRY
       else case ce_tier (classify_error code d) of TIER_1_TRANSIENT \<Rightarrow> RETRY | TIER_2_BACKOFF \<Rightarrow> RETRY
            | TIER_3A_OPERATION \<Rightarrow> NO_RETRY | TIER_3B_SYSTEM \<Rightarrow> HALT)"
    by (simp add: rs_decide_def Let_def split_beta split: error_tier.splits)
  with unknown show ?thesis
    by (auto simp: classify_recoverable split: error_tier.splits)
qed

theorem reconnect_decision_table_witness:
  "rd_action (fst (rs_decide (ErrorCode '' not_logged_in '' '''') 3 0 (rs_init 1 60 10))) = HALT \<and>
   rd_action (fst (rs_decide (ErrorCode ''whatever'' '''') 3 0 (rs_init 1 60 10))) = NO_RETRY"
proof -
  have a: "ce_tier (classify_error '' not_logged_in '' '''') = TIER_3B_SYSTEM" by code_simp
  have b: "map_of tier_rules (py_upper (py_strip ''whatever'')) = None" by code_simp
  show ?thesis
    using a b reconnect_decision_table [of "'' not_logged_in ''" "''''" 3 0 "rs_init 1 60 10"]
      reconnect_decision_table [of "''whatever''" "''''" 3 0 "rs_init 1 60 10"]
    by (simp add: rs_init_def)
qed

fun rs_decides :: "(error_arg \<times> int \<times> flt) list \<Rightarrow> reconnect_strategy \<Rightarrow> reconnect_strategy" where
  "rs_decides [] s = s"
| "rs_decides ((e, n, u) # ds) s = rs_decides ds (snd (rs_decide e n u s))"

definition tier_factor :: "error_arg \<Rightarrow> flt" where
  "tier_factor e = (if ce_tier (classified_of e) = TIER_2_BACKOFF then 6 else 3)"

lemma rs_decide_growth:
  assumes "rs_inv s" "0 \<le> rs_base s" "0 \<le> u" "u \<le> 1"
  shows "rs_prev_sleep (snd (rs_decide e n u s)) \<le> tier_factor e * rs_prev_sleep s"
proof -
  have base: "rs_base s \<le> rs_prev_sleep s" "rs_base s \<le> rs_cap s" "0 \<le> rs_prev_sleep s"
    using assms(1,2) by (auto simp: rs_inv_def)
  have "rs_prev_sleep (snd (rs_compute_sleep k u s)) \<le> k * 3 * rs_prev_sleep s" if "1 \<le> k" for k
  proof -
    have "1 * rs_prev_sleep s \<le> (k * 3) * rs_prev_sleep s"
      using that base(3) by (intro mult_right_mono) auto
    with base(1) have "max (rs_base s) (rs_prev_sleep s * k * 3) \<le> k * 3 * rs_prev_sleep s"
      by (simp add: mult_ac)
    with rs_compute_sleep_bounds(3) [OF base(2) assms(3,4), of k] show ?thesis by linarith
  qed
  from this [of 1] this [of 2] base(3) show ?thesis
    by (auto simp: rs_decide_def tier_factor_def Let_def split_beta split: error_tier.splits)
qed

text \<open>
  Backoff is bounded by an exponential envelope: after a reset, the n-th consecutive
  decision leaves a sleep of at most base times 6 to the n (3 to the n if only transient errors
  are seen), whatever the random draws are.
\<close>

theorem reconnect_backoff_envelope:
  assumes "0 \<le> base" and "base \<le> cap" and "list_all (\<lambda>(e, n, u). 0 \<le> u \<and> u \<le> 1) ds"
  shows "rs_prev_sleep (rs_decides ds (rs_reset (rs_init base cap m)))
         \<le> base * prod_list (map (tier_factor \<circ> fst) ds)"
proof -
  have "rs_prev_sleep (rs_decides ds s) \<le> rs_prev_sleep s * prod_list (map (tier_factor \<circ> fst) ds)"
    if "rs_inv s" "0 \<le> rs_base s" for s
    using assms(3) that
  proof (induction ds arbitrary: s)
    case (Cons d ds)
    obtain e n u where d: "d = (e, n, u)" by (cases d)
    let ?s = "snd (rs_decide e n u s)" and ?P = "prod_list (map (tier_factor \<circ> fst) ds)"
    have u: "0 \<le> u" "u \<le> 1" using Cons.prems(1) by (simp_all add: d)
    have pos: "0 \<le> ?P" by (intro prod_list_nonneg) (auto simp: tier_factor_def)
    have "rs_prev_sleep (rs_decides ds ?s) \<le> rs_prev_sleep ?s * ?P"
    proof (rule Cons.IH)
      show "list_all (\<lambda>(e, n, u). 0 \<le> u \<and> u \<le> 1) ds" using Cons.prems(1) by simp
      show "rs_inv ?s" using Cons.prems(2) u by (rule rs_decide_inv)
      show "0 \<le> rs_base ?s" using Cons.prems(3) by simp
    qed
    also have "\<dots> \<le> (tier_factor e * rs_prev_sleep s) * ?P"
      using rs_decide_growth [OF Cons.prems(2,3) u] pos by (intro mult_right_mono)
    finally show ?case by (simp add: d mult_ac comp_def)
  qed simp
  from this [of "rs_reset (rs_init base cap m)"] assms(1,2) show ?thesis
    by (simp add: rs_reset_def rs_init_def rs_inv_def)
qed

theorem reconnect_backoff_envelope_witness:
  "rs_prev_sleep (rs_decides [(ErrorCode ''TCP_RESET'' '''', 1, 1), (ErrorCode ''SERVER_NOT_READY'' '''', 2, 1)]
     (rs_reset (rs_init 1 60 10))) \<le> 18"
proof -
  have t: "tier_factor (ErrorCode ''TCP_RESET'' '''') = 3" "tier_factor (ErrorCode ''SERVER_NOT_READY'' '''') = 6"
    by code_simp+
  show ?thesis
    using reconnect_backoff_envelope [of 1 60 "[(ErrorCode ''TCP_RESET'' '''', 1, 1),
        (ErrorCode ''SERVER_NOT_READY'' '''', 2, 1)]" 10] by (simp add: t)
qed

end
