(* ===== verification/Gates.thy ===== *)
theory Gates
  imports Prelude
begin

text \<open>
  The quality gates of \<open>confidence/gates.py\<close>: spread, session, volatility and the news stub.
  A context dictionary is a record of optional entries (an absent key is \<open>None\<close>).
\<close>

section \<open>Data\<close>

record gate_check =
  gc_gate_name :: string
  gc_passed :: bool
  gc_reason :: ptext
  gc_boost :: flt

record gate_config =
  default_max_spread :: flt
  symbol_max_spreads :: "(string \<times> flt) list"
  london_open :: int
  london_close :: int
  ny_open :: int
  ny_close :: int
  asia_open :: int
  asia_close :: int
  min_atr_multiplier :: flt
  max_atr_multiplier :: flt
  atr_lookback_default :: flt
  volatility_min_atr :: "(string \<times> flt) list"
  volatility_max_atr :: "(string \<times> flt) list"

definition gate_config_default :: gate_config where
  "gate_config_default =
     \<lparr>default_max_spread = 2, symbol_max_spreads = [],
      london_open = 8, london_close = 17, ny_open = 13, ny_close = 22, asia_open = 0, asia_close = 8,
      min_atr_multiplier = 1/2, max_atr_multiplier = 3, atr_lookback_default = 1,
      volatility_min_atr = [], volatility_max_atr = []\<rparr>"

record gate_ctx =
  gx_symbol :: "string option"
  gx_spread :: "flt option"
  gx_hour_utc :: "int option"
  gx_atr :: "flt option"

abbreviation gate_pass :: "string \<Rightarrow> gate_check" where
  "gate_pass name \<equiv> \<lparr>gc_gate_name = name, gc_passed = True, gc_reason = [], gc_boost = 0\<rparr>"

abbreviation gate_result :: "string \<Rightarrow> bool \<Rightarrow> ptext \<Rightarrow> gate_check" where
  "gate_result name p r \<equiv> \<lparr>gc_gate_name = name, gc_passed = p, gc_reason = r, gc_boost = 0\<rparr>"

section \<open>The gates\<close>

definition spread_threshold :: "gate_config \<Rightarrow> string \<Rightarrow> flt" where
  "spread_threshold cfg symbol = dget_or (symbol_max_spreads cfg) symbol (default_max_spread cfg)"

definition spread_gate_check :: "gate_config \<Rightarrow> gate_ctx \<Rightarrow> gate_check" where
  "spread_gate_check cfg ctx =
     (let symbol = or_default (gx_symbol ctx) []; spread = or_default (gx_spread ctx) 0;
          max_spread = dget_or (symbol_max_spreads cfg) symbol (default_max_spread cfg)
      in if spread > max_spread
         then gate_result ''spread'' False
                [Lit ''Spread '', FFix 1 spread, Lit '' pips exceeds max '', FFix 1 max_spread,
                 Lit '' for '', Lit symbol]
         else gate_pass ''spread'')"

definition session_in_range :: "int \<Rightarrow> int \<Rightarrow> int \<Rightarrow> bool" where
  "session_in_range hour open_h close_h =
     (if open_h \<le> close_h then open_h \<le> hour \<and> hour < close_h
      else hour \<ge> open_h \<or> hour < close_h)"

definition session_gate_check :: "gate_config \<Rightarrow> gate_ctx \<Rightarrow> gate_check" where
  "session_gate_check cfg ctx =
     (let hour = or_default (gx_hour_utc ctx) 0;
          in_session = session_in_range hour (asia_open cfg) (asia_close cfg)
                     \<or> session_in_range hour (london_open cfg) (london_close cfg)
                     \<or> session_in_range hour (ny_open cfg) (ny_close cfg)
      in if \<not> in_session
         then gate_result ''session'' False [Lit ''Hour '', FInt hour, Lit '' UTC outside all trading sessions'']
         else gate_pass ''session'')"

text \<open>The provider is an optional callable; the ATR it gives may be missing.\<close>

definition volatility_gate_check ::
  "gate_config \<Rightarrow> (string \<Rightarrow> flt option) option \<Rightarrow> gate_ctx \<Rightarrow> gate_check" where
  "volatility_gate_check cfg provider ctx =
     (let symbol = or_default (gx_symbol ctx) [];
          atr0 = or_default (gx_atr ctx) 0;
          atr_opt = (case provider of Some f \<Rightarrow> (if atr0 \<le> 0 then f symbol else Some atr0)
                     | None \<Rightarrow> Some atr0)
      in case atr_opt of
           None \<Rightarrow> gate_result ''volatility'' True [Lit ''No ATR data available, gate skipped'']
         | Some atr \<Rightarrow>
             if atr \<le> 0 then gate_result ''volatility'' True [Lit ''No ATR data available, gate skipped'']
             else
               let min_atr = dget_or (volatility_min_atr cfg) symbol 0;
                   max_atr = map_of (volatility_max_atr cfg) symbol
               in if min_atr > 0 \<or> max_atr \<noteq> None then
                    (if atr < min_atr then
                       gate_result ''volatility'' False
                         [Lit ''ATR '', FFix 4 atr, Lit '' below minimum '', FFloat min_atr, Lit '' for '', Lit symbol]
                     else if (case max_atr of Some m \<Rightarrow> atr > m | None \<Rightarrow> False) then
                       gate_result ''volatility'' False
                         [Lit ''ATR '', FFix 4 atr, Lit '' above maximum '', FFloat (the max_atr), Lit '' for '', Lit symbol]
                     else
                       gate_result ''volatility'' True
                         [Lit ''ATR '', FFix 4 atr, Lit '' within range for '', Lit symbol])
                  else
                    let default = atr_lookback_default cfg in
                    if atr < 1/100 \<and> default \<ge> 1/100 then
                      gate_result ''volatility'' True
                        [Lit ''ATR '', FFix 5 atr, Lit '' appears to be in price domain while lookback default '',
                         FFloat default, Lit '' is in a different scale - multiplier check skipped (domain mismatch)'']
                    else
                      let ratio = (if default > 0 then atr / default else 0) in
                      if ratio < min_atr_multiplier cfg then
                        gate_result ''volatility'' False
                          [Lit ''ATR ratio '', FFix 2 ratio, Lit '' below minimum '', FFix 1 (min_atr_multiplier cfg)]
                      else if ratio > max_atr_multiplier cfg then
                        gate_result ''volatility'' False
                          [Lit ''ATR ratio '', FFix 2 ratio, Lit '' above maximum '', FFix 1 (max_atr_multiplier cfg)]
                      else gate_pass ''volatility'')"

definition news_gate_check :: "gate_ctx \<Rightarrow> gate_check" where
  "news_gate_check ctx = gate_result ''news_blackout'' True [Lit ''News gate stub - no calendar configured'']"

section \<open>Lemmas\<close>

lemma spread_gate_passed:
  "gc_passed (spread_gate_check cfg \<lparr>gx_symbol = Some symb, gx_spread = Some sp, gx_hour_utc = h, gx_atr = a\<rparr>)
     \<longleftrightarrow> sp \<le> spread_threshold cfg symb"
  by (simp add: spread_gate_check_def spread_threshold_def Let_def)

text \<open>
  On the 24-hour clock the range test with its midnight wrap-around is the half-open circular
  interval from the opening to the closing hour.
\<close>

lemma mod24_cases:
  fixes d :: int
  assumes "-24 < d" and "d < 24"
  shows "d mod 24 = (if d < 0 then d + 24 else d)"
proof (cases "d < 0")
  case True
  then have "d mod 24 = (d + 24) mod 24" by simp
  also have "\<dots> = d + 24" using True assms(1) by (intro mod_pos_pos_trivial) auto
  finally show ?thesis using True by simp
qed (use assms in \<open>simp add: mod_pos_pos_trivial\<close>)

lemma session_in_range_circular:
  assumes "0 \<le> h" "h < 24" "0 \<le> a" "a < 24" "0 \<le> b" "b < 24"
  shows "session_in_range h a b \<longleftrightarrow> (h - a) mod 24 < (b - a) mod 24"
proof -
  have "-24 < h - a" "h - a < 24" "-24 < b - a" "b - a < 24"
    using assms by simp_all
  then have "(h - a) mod 24 = (if h - a < 0 then h - a + 24 else h - a)"
    "(b - a) mod 24 = (if b - a < 0 then b - a + 24 else b - a)"
    by (simp_all only: mod24_cases)
  with assms show ?thesis by (auto simp: session_in_range_def)
qed

section \<open>Properties\<close>

text \<open>
  With the default configuration the session gate covers the clock but for two hours: of the
  hours 0 to 23 it rejects exactly 22 and 23 UTC (the three sessions overlap or touch
  everywhere else).
\<close>

theorem session_gate_default_gap:
  assumes "0 \<le> h" and "h < 24"
  shows "gc_passed (session_gate_check gate_config_default (ctx\<lparr>gx_hour_utc := Some h\<rparr>)) \<longleftrightarrow> h \<noteq> 22 \<and> h \<noteq> 23"
  using assms by (auto simp: session_gate_check_def session_in_range_def gate_config_default_def Let_def)

theorem session_gate_default_gap_witness:
  "gc_passed (session_gate_check gate_config_default
     (\<lparr>gx_symbol = None, gx_spread = None, gx_hour_utc = None, gx_atr = None\<rparr>\<lparr>gx_hour_utc := Some 21\<rparr>))"
  by (subst session_gate_default_gap) simp_all

definition effective_atr :: "(string \<Rightarrow> flt option) option \<Rightarrow> string \<Rightarrow> flt \<Rightarrow> flt" where
  "effective_atr provider symbol atr =
     (case provider of Some f \<Rightarrow> (if atr \<le> 0 then or_default (f symbol) 0 else atr) | None \<Rightarrow> atr)"

text \<open>
  What the volatility gate lets through, over all its branches: without a positive ATR (from
  the context or the provider) it passes; with per-symbol bounds configured it passes exactly
  inside the closed interval; without them exactly when the ATR is below 0.01 while the lookback
  default is not (the price-domain guard), or its ratio to a positive default lies between the
  two multipliers.
\<close>

theorem volatility_gate_spec:
  "gc_passed (volatility_gate_check cfg provider ctx) =
     (let symb = or_default (gx_symbol ctx) []; atr = effective_atr provider symb (or_default (gx_atr ctx) 0);
          lo = dget_or (volatility_min_atr cfg) symb 0; hi = map_of (volatility_max_atr cfg) symb;
          dflt = atr_lookback_default cfg; ratio = (if dflt > 0 then atr / dflt else 0)
      in atr \<le> 0 \<or>
         (if lo > 0 \<or> hi \<noteq> None then lo \<le> atr \<and> (hi = None \<or> atr \<le> the hi)
          else (atr < 1/100 \<and> dflt \<ge> 1/100) \<or> (min_atr_multiplier cfg \<le> ratio \<and> ratio \<le> max_atr_multiplier cfg)))"
  unfolding volatility_gate_check_def effective_atr_def Let_def
  by (auto split: option.splits)

theorem volatility_gate_spec_witness:
  "gc_passed (volatility_gate_check (gate_config_default\<lparr>volatility_min_atr := [(''EURUSD'', 5)]\<rparr>) None
     \<lparr>gx_symbol = Some ''EURUSD'', gx_spread = None, gx_hour_utc = None, gx_atr = Some 6\<rparr>) \<and>
   \<not> gc_passed (volatility_gate_check (gate_config_default\<lparr>volatility_min_atr := [(''EURUSD'', 5)]\<rparr>) None
     \<lparr>gx_symbol = Some ''EURUSD'', gx_spread = None, gx_hour_utc = None, gx_atr = Some 4\<rparr>)"
  unfolding volatility_gate_spec by (simp add: gate_config_default_def effective_atr_def Let_def)

end
