(* ===== verification/Policy.thy ===== *)
theory Policy
  imports Gates
begin

text \<open>
  The behavioural policy layer: conviction scores and kill-criterion rows
  (\<open>core/conviction.py\<close>), the kill-criteria checker (\<open>policy/kill_criteria.py\<close>) and the
  streak and drawdown size multiplier (\<open>policy/behavioral.py\<close>). All of it is pure.
\<close>

section \<open>Conviction scores\<close>

text \<open>Here a float may be infinite or not a number: the clamp is what removes those.\<close>

fun clamp_unit :: "xflt \<Rightarrow> flt" where
  "clamp_unit NotANumber = 0"
| "clamp_unit PosInf = 1"
| "clamp_unit NegInf = 0"
| "clamp_unit (Fin v) = (if v < 0 then 0 else if v > 1 then 1 else v)"

record conviction_vector =
  strategy_score :: flt
  confluence_score :: flt
  regime_fit :: flt
  freshness :: flt

definition conviction_make :: "xflt \<Rightarrow> xflt \<Rightarrow> xflt \<Rightarrow> xflt \<Rightarrow> conviction_vector" where
  "conviction_make s c r f =
     \<lparr>strategy_score = clamp_unit s, confluence_score = clamp_unit c,
      regime_fit = clamp_unit r, freshness = clamp_unit f\<rparr>"

definition conviction_weights :: "(string \<times> flt) list" where
  "conviction_weights =
     [(''strategy_score'', 4/10), (''confluence_score'', 25/100), (''regime_fit'', 25/100), (''freshness'', 1/10)]"

definition conviction_components :: "conviction_vector \<Rightarrow> (string \<times> flt) list" where
  "conviction_components v =
     [(''strategy_score'', strategy_score v), (''confluence_score'', confluence_score v),
      (''regime_fit'', regime_fit v), (''freshness'', freshness v)]"

text \<open>\<open>sum(components[name] * WEIGHTS[name] for name in components)\<close>; a missing weight is a KeyError.\<close>

fun weighted_sum :: "(string \<times> flt) list \<Rightarrow> (string \<times> flt) list \<Rightarrow> pyexn + flt" where
  "weighted_sum [] w = Inr 0"
| "weighted_sum ((name, x) # cs) w =
     (case map_of w name of None \<Rightarrow> Inl KeyError
      | Some k \<Rightarrow> (case weighted_sum cs w of Inl e \<Rightarrow> Inl e | Inr t \<Rightarrow> Inr (x * k + t)))"

definition final_score :: "(string \<times> flt) list \<Rightarrow> conviction_vector \<Rightarrow> pyexn + flt" where
  "final_score w v = weighted_sum (conviction_components v) w"

lemma clamp_unit_range: "0 \<le> clamp_unit x" "clamp_unit x \<le> 1"
  by (cases x; simp)+

section \<open>Kill criteria\<close>

record kill_criterion =
  kc_name :: string
  kc_triggered :: bool
  kc_value :: flt
  kc_threshold :: flt
  kc_evidence :: ptext

definition kill_criterion_str :: "kill_criterion \<Rightarrow> ptext" where
  "kill_criterion_str c =
     [Lit (kc_name c), Lit '': '', Lit (if kc_triggered c then ''FAIL'' else ''PASS''),
      Lit '' value='', FFix 4 (kc_value c), Lit '' threshold='', FFix 4 (kc_threshold c), Lit '' ('']
     @ kc_evidence c @ [Lit '')'']"

definition DEFAULT_MAX_SPREAD_BPS :: flt where "DEFAULT_MAX_SPREAD_BPS = 2"
definition DEFAULT_MACRO_EVENT_BUFFER_MINUTES :: int where "DEFAULT_MACRO_EVENT_BUFFER_MINUTES = 30"

record strategy_kill_config =
  sk_min_confluence :: "flt option"
  sk_adx_range :: "(flt \<times> flt) option"
  sk_session_window :: "(int \<times> int) option"

record kill_checker =
  max_spread_bps :: flt
  macro_event_buffer_minutes :: int
  strategy_config :: strategy_kill_config

definition kill_checker_init :: "flt option \<Rightarrow> int option \<Rightarrow> strategy_kill_config \<Rightarrow> kill_checker" where
  "kill_checker_init spread macro sc =
     \<lparr>max_spread_bps = or_default spread DEFAULT_MAX_SPREAD_BPS,
      macro_event_buffer_minutes = or_default macro DEFAULT_MACRO_EVENT_BUFFER_MINUTES,
      strategy_config = sc\<rparr>"

record kill_ctx =
  kx_symbol :: "string option"
  kx_spread_bps :: "flt option"
  kx_hour_utc :: "int option"
  kx_adx :: "flt option"
  kx_confluence_score :: "flt option"
  kx_strategy_name :: "string option"

definition check_spread :: "kill_checker \<Rightarrow> string \<Rightarrow> flt \<Rightarrow> kill_criterion" where
  "check_spread k symbol spread_bps =
     (let threshold = max_spread_bps k; triggered = spread_bps > threshold in
      \<lparr>kc_name = ''spread'', kc_triggered = triggered, kc_value = spread_bps, kc_threshold = threshold,
       kc_evidence =
         [Lit ''Spread '', FFloat spread_bps,
          Lit (if triggered then '' bps exceeds max '' else '' bps within max ''),
          FFloat threshold, Lit '' bps for '', Lit symbol]\<rparr>)"

definition check_macro_event_buffer :: kill_criterion where
  "check_macro_event_buffer =
     \<lparr>kc_name = ''macro_event_buffer'', kc_triggered = False, kc_value = 0, kc_threshold = 0,
      kc_evidence = [Lit ''News feed not integrated'']\<rparr>"

definition check_min_confluence :: "string \<Rightarrow> flt \<Rightarrow> flt \<Rightarrow> kill_criterion" where
  "check_min_confluence strategy score minimum =
     (let triggered = score < minimum in
      \<lparr>kc_name = ''min_confluence'', kc_triggered = triggered, kc_value = score, kc_threshold = minimum,
       kc_evidence =
         [Lit ''Confluence '', FFloat score, Lit (if triggered then '' below minimum '' else '' above minimum ''),
          FFloat minimum, Lit '' for strategy '', Lit strategy]\<rparr>)"

definition check_adx_range :: "string \<Rightarrow> flt \<Rightarrow> flt \<Rightarrow> flt \<Rightarrow> kill_criterion" where
  "check_adx_range strategy adx lo hi =
     (let (triggered, word) =
        (if adx < lo then (True, '' below range ['') else if adx > hi then (True, '' above range ['')
         else (False, '' within range [''))
      in \<lparr>kc_name = ''adx_range'', kc_triggered = triggered, kc_value = adx, kc_threshold = lo,
          kc_evidence = [Lit ''ADX '', FFloat adx, Lit word, FFloat lo, Lit '', '', FFloat hi,
                         Lit ''] for strategy '', Lit strategy]\<rparr>)"

definition kill_in_window :: "int \<Rightarrow> int \<Rightarrow> int \<Rightarrow> bool" where
  "kill_in_window hour start_h end_h =
     (if start_h \<le> end_h then start_h \<le> hour \<and> hour < end_h
      else hour \<ge> start_h \<or> hour < end_h)"

definition check_session_window :: "string \<Rightarrow> int \<Rightarrow> int \<Rightarrow> int \<Rightarrow> kill_criterion" where
  "check_session_window strategy hour start_h end_h =
     (let triggered = \<not> kill_in_window hour start_h end_h in
      \<lparr>kc_name = ''session_window'', kc_triggered = triggered, kc_value = of_int hour,
       kc_threshold = of_int start_h,
       kc_evidence =
         [Lit ''Hour '', FInt hour, Lit (if triggered then '' UTC outside window ['' else '' UTC inside window [''),
          FInt start_h, Lit '', '', FInt end_h, Lit ''] for strategy '', Lit strategy]\<rparr>)"

definition kill_check :: "kill_checker \<Rightarrow> kill_ctx \<Rightarrow> kill_criterion list" where
  "kill_check k ctx =
     (let symbol = or_default (kx_symbol ctx) [];
          spread_bps = or_default (kx_spread_bps ctx) 0;
          hour = or_default (kx_hour_utc ctx) 0;
          adx = or_default (kx_adx ctx) 0;
          score = or_default (kx_confluence_score ctx) 0;
          strategy = or_default (kx_strategy_name ctx) ''unknown'';
          sc = strategy_config k
      in [check_spread k symbol spread_bps, check_macro_event_buffer]
         @ (case sk_min_confluence sc of Some m \<Rightarrow> [check_min_confluence strategy score m] | None \<Rightarrow> [])
         @ (case sk_adx_range sc of Some (lo, hi) \<Rightarrow> [check_adx_range strategy adx lo hi] | None \<Rightarrow> [])
         @ (case sk_session_window sc of Some (a, b) \<Rightarrow> [check_session_window strategy hour a b] | None \<Rightarrow> []))"

definition any_triggered :: "kill_criterion list \<Rightarrow> bool" where
  "any_triggered results = list_ex kc_triggered results"

section \<open>Behavioural size multiplier\<close>

definition DEFAULT_STREAK_LOSS_THRESHOLDS :: "(int \<times> flt) list" where
  "DEFAULT_STREAK_LOSS_THRESHOLDS = [(3, 1/2), (5, 1/4)]"

definition DEFAULT_DD_THRESHOLDS :: "(flt \<times> flt) list" where
  "DEFAULT_DD_THRESHOLDS = [(3, 1/2), (5, 1/4)]"

record behavioral_policy =
  streak_loss_thresholds :: "(int \<times> flt) list"
  dd_thresholds :: "(flt \<times> flt) list"
  min_multiplier :: flt
  max_multiplier :: flt

record behavioral_result =
  br_multiplier :: flt
  br_adjustments :: "ptext list"

definition behavioral_init ::
  "(int \<times> flt) list option \<Rightarrow> (flt \<times> flt) list option \<Rightarrow> flt option \<Rightarrow> flt option \<Rightarrow> behavioral_policy" where
  "behavioral_init streak dd lo hi =
     \<lparr>streak_loss_thresholds = or_default streak DEFAULT_STREAK_LOSS_THRESHOLDS,
      dd_thresholds = or_default dd DEFAULT_DD_THRESHOLDS,
      min_multiplier = or_default lo (1/4), max_multiplier = or_default hi 1\<rparr>"

definition behavioral_default :: behavioral_policy where
  "behavioral_default = behavioral_init None None None None"

text \<open>\<open>min(matching)\<close> over a non-empty list, and 1.0 when nothing matches.\<close>

definition matching_multiplier :: "flt list \<Rightarrow> flt" where
  "matching_multiplier ms = (if ms = [] then 1 else fold min (tl ms) (hd ms))"

definition streak_matching :: "behavioral_policy \<Rightarrow> int \<Rightarrow> flt list" where
  "streak_matching p losses =
     map snd (filter (\<lambda>(threshold, mult). losses \<ge> threshold) (streak_loss_thresholds p))"

definition dd_matching :: "behavioral_policy \<Rightarrow> flt \<Rightarrow> flt list" where
  "dd_matching p dd = map snd (filter (\<lambda>(threshold, mult). dd > threshold) (dd_thresholds p))"

definition behavioral_evaluate ::
  "behavioral_policy \<Rightarrow> flt \<Rightarrow> int option \<Rightarrow> flt option \<Rightarrow> behavioral_result" where
  "behavioral_evaluate p base_size consecutive_losses daily_drawdown_pct =
     (let losses = or_default consecutive_losses 0;
          dd = or_default daily_drawdown_pct 0;
          sm = streak_matching p losses;
          streak_m = matching_multiplier sm;
          adj1 = (if sm = [] then [] else
            [[Lit ''Streak cooldown: '', FInt losses, Lit '' consecutive losses -> '', FFloat streak_m, Lit ''x'']]);
          dm = dd_matching p dd;
          dd_m = matching_multiplier dm;
          adj2 = (if dm = [] then [] else
            [[Lit ''DD cooldown: '', FFix 1 dd, Lit ''% daily drawdown -> '', FFloat dd_m, Lit ''x'']]);
          m = min streak_m dd_m
      in \<lparr>br_multiplier = max (min_multiplier p) (min (max_multiplier p) m),
          br_adjustments = adj1 @ adj2\<rparr>)"

lemma matching_multiplier_Min: "ms \<noteq> [] \<Longrightarrow> matching_multiplier ms = Min (set ms)"
  by (cases ms) (simp_all add: matching_multiplier_def Min.set_eq_fold flip: list.set(2))

lemma matching_multiplier_antimono:
  assumes "set ms \<subseteq> set ns" and "\<And>m. m \<in> set ns \<Longrightarrow> m \<le> 1"
  shows "matching_multiplier ns \<le> matching_multiplier ms"
proof (cases "ms = []")
  case True
  show ?thesis
  proof (cases "ns = []")
    case False
    then have "Min (set ns) \<in> set ns" by (intro Min_in) auto
    with assms(2) False True show ?thesis
      by (simp add: matching_multiplier_Min) (simp add: matching_multiplier_def)
  qed (simp add: True)
next
  case False
  with assms(1) have "ns \<noteq> []" by auto
  with False assms(1) show ?thesis by (auto simp: matching_multiplier_Min)
qed

section \<open>Properties\<close>

text \<open>
  A signal is killed exactly when one of its configured limits is crossed: the spread is
  above the maximum, or the confluence is below its minimum, or the ADX is outside its closed
  range, or the hour is outside the session window. The macro-event stub never kills, and a limit
  that is not configured never does.
\<close>

theorem kill_check_any_triggered:
  "any_triggered (kill_check k ctx) \<longleftrightarrow>
     or_default (kx_spread_bps ctx) 0 > max_spread_bps k \<or>
     (\<exists>m. sk_min_confluence (strategy_config k) = Some m \<and> or_default (kx_confluence_score ctx) 0 < m) \<or>
     (\<exists>lo hi. sk_adx_range (strategy_config k) = Some (lo, hi) \<and>
        \<not> (lo \<le> or_default (kx_adx ctx) 0 \<and> or_default (kx_adx ctx) 0 \<le> hi)) \<or>
     (\<exists>a b. sk_session_window (strategy_config k) = Some (a, b) \<and>
        \<not> kill_in_window (or_default (kx_hour_utc ctx) 0) a b)"
  unfolding any_triggered_def kill_check_def Let_def
  by (auto simp: check_spread_def check_macro_event_buffer_def check_min_confluence_def
      check_adx_range_def check_session_window_def Let_def not_le split: option.splits)

text \<open>
  The session window of the kill criteria and the session gate of the confidence engine are
  the same test, and on the 24-hour clock it is the half-open circular interval from the start
  to the end hour; in particular a window whose ends coincide kills at every hour.
\<close>

theorem kill_window_circular:
  assumes "0 \<le> h" "h < 24" "0 \<le> a" "a < 24" "0 \<le> b" "b < 24"
  shows "kill_in_window h a b = session_in_range h a b \<and>
     (kill_in_window h a b \<longleftrightarrow> (h - a) mod 24 < (b - a) mod 24) \<and>
     \<not> kill_in_window h a a"
  using session_in_range_circular [OF assms]
  by (simp add: kill_in_window_def session_in_range_def)

theorem kill_window_circular_witness:
  "kill_in_window 2 22 6 = session_in_range 2 22 6 \<and>
   (kill_in_window 2 22 6 \<longleftrightarrow> (2 - 22) mod 24 < (6 - 22) mod (24 :: int)) \<and> \<not> kill_in_window 2 22 22"
  by (rule kill_window_circular) simp_all

text \<open>
  The behavioural policy only dampens: the multiplier lies between the configured floor and
  ceiling, and it never grows when the losing streak or the daily drawdown grows (for threshold
  tables whose multipliers are at most 1, as the default tables are).
\<close>

theorem behavioral_bounded_antitone:
  assumes "min_multiplier p \<le> max_multiplier p"
    and "\<And>t m. (t, m) \<in> set (streak_loss_thresholds p) \<Longrightarrow> m \<le> 1"
    and "\<And>t m. (t, m) \<in> set (dd_thresholds p) \<Longrightarrow> m \<le> 1"
    and "l1 \<le> l2" and "d1 \<le> d2"
  shows "min_multiplier p \<le> br_multiplier (behavioral_evaluate p sz (Some l1) (Some d1)) \<and>
         br_multiplier (behavioral_evaluate p sz (Some l1) (Some d1)) \<le> max_multiplier p \<and>
         br_multiplier (behavioral_evaluate p sz (Some l2) (Some d2))
           \<le> br_multiplier (behavioral_evaluate p sz (Some l1) (Some d1))"
proof -
  have "matching_multiplier (streak_matching p l2) \<le> matching_multiplier (streak_matching p l1)"
    using assms(2,4) by (intro matching_multiplier_antimono) (auto simp: streak_matching_def)
  moreover have "matching_multiplier (dd_matching p d2) \<le> matching_multiplier (dd_matching p d1)"
    using assms(3,5) by (intro matching_multiplier_antimono) (auto simp: dd_matching_def)
  ultimately show ?thesis
    using assms(1) by (auto simp: behavioral_evaluate_def Let_def min_def max_def)
qed

theorem behavioral_bounded_antitone_witness:
  "br_multiplier (behavioral_evaluate behavioral_default 1 (Some 5) (Some 4))
     \<le> br_multiplier (behavioral_evaluate behavioral_default 1 (Some 3) (Some 1))"
proof -
  have "min_multiplier behavioral_default \<le> max_multiplier behavioral_default"
    by (simp add: behavioral_default_def behavioral_init_def)
  moreover have "m \<le> 1" if "(t, m) \<in> set (streak_loss_thresholds behavioral_default)" for t m
    using that by (auto simp: behavioral_default_def behavioral_init_def DEFAULT_STREAK_LOSS_THRESHOLDS_def)
  moreover have "m \<le> 1" if "(t, m) \<in> set (dd_thresholds behavioral_default)" for t m
    using that by (auto simp: behavioral_default_def behavioral_init_def DEFAULT_DD_THRESHOLDS_def)
  ultimately show ?thesis
    using behavioral_bounded_antitone [of behavioral_default 3 5 1 4 1] by simp
qed

text \<open>
  The conviction score is a score: with weights that are not negative and sum to one over
  the four components (the default ones do), every vector built from arbitrary floats,
  infinities and NaN included, has a final score between 0 and 1, and no KeyError.
\<close>

theorem conviction_final_score_unit:
  assumes "map_of w ''strategy_score'' = Some a" "map_of w ''confluence_score'' = Some b"
    "map_of w ''regime_fit'' = Some c" "map_of w ''freshness'' = Some d"
    and "0 \<le> a" "0 \<le> b" "0 \<le> c" "0 \<le> d" and "a + b + c + d = 1"
  shows "\<exists>x. final_score w (conviction_make s cf r f) = Inr x \<and> 0 \<le> x \<and> x \<le> 1"
proof -
  define x where "x = clamp_unit s * a + (clamp_unit cf * b + (clamp_unit r * c + clamp_unit f * d))"
  have "final_score w (conviction_make s cf r f) = Inr x"
    by (simp add: final_score_def conviction_components_def conviction_make_def assms(1-4) x_def)
  moreover have "0 \<le> x"
    unfolding x_def by (intro add_nonneg_nonneg mult_nonneg_nonneg clamp_unit_range assms)
  moreover have "x \<le> 1 * a + (1 * b + (1 * c + 1 * d))"
    unfolding x_def by (intro add_mono mult_right_mono clamp_unit_range assms)
  ultimately show ?thesis using assms(9) by simp
qed

theorem conviction_final_score_unit_witness:
  "\<exists>x. final_score conviction_weights (conviction_make (Fin 3) NotANumber PosInf (Fin (1/2))) = Inr x \<and> 0 \<le> x \<and> x \<le> 1"
  by (rule conviction_final_score_unit [where a = "4/10" and b = "25/100" and c = "25/100" and d = "1/10"])
    (simp_all add: conviction_weights_def)

end
