(* ===== verification/Models.thy ===== *)
theory Models
  imports Prelude
begin

text \<open>
  Trading data shared by the guards: directions (\<open>core/types.py\<close>), order and position states,
  the trade signal and the symbol metadata (\<open>adapters/ctrader/models.py\<close>), and the canonical
  pip-size lookup (\<open>utils/pip_value.py\<close>).
\<close>

section \<open>Data\<close>

datatype trade_direction = LONG | SHORT | NEUTRAL

fun direction_value :: "trade_direction \<Rightarrow> string" where
  "direction_value LONG = ''long''"
| "direction_value SHORT = ''short''"
| "direction_value NEUTRAL = ''neutral''"

datatype position_status =
    ENTRY_PENDING
  | OPEN
  | TP_HIT
  | SL_HIT
  | TIMEOUT_CLOSE
  | MANUAL_CLOSE
  | CLOSED

fun position_status_value :: "position_status \<Rightarrow> string" where
  "position_status_value ENTRY_PENDING = ''entry_pending''"
| "position_status_value OPEN = ''open''"
| "position_status_value TP_HIT = ''tp_hit''"
| "position_status_value SL_HIT = ''sl_hit''"
| "position_status_value TIMEOUT_CLOSE = ''timeout_close''"
| "position_status_value MANUAL_CLOSE = ''manual_close''"
| "position_status_value CLOSED = ''closed''"

definition position_is_closed :: "position_status \<Rightarrow> bool" where
  "position_is_closed s = List.member [TP_HIT, SL_HIT, TIMEOUT_CLOSE, MANUAL_CLOSE, CLOSED] s"

record trade_signal =
  sig_symbol :: string
  sig_direction :: trade_direction
  sig_entry_price :: flt
  sig_stop_loss :: flt
  sig_take_profit_1 :: flt
  sig_take_profit_2 :: flt
  sig_take_profit_3 :: flt
  sig_volume :: flt
  sig_confidence :: flt
  sig_rationale :: ptext
  sig_strategy_id :: string

record symbol_info =
  pip_size :: flt
  pip_value_per_lot :: flt
  lot_size :: int
  contract_size :: flt

section \<open>Pip sizes\<close>

definition DEFAULT_PIP :: flt where "DEFAULT_PIP = 1/10000"
definition JPY_PIP :: flt where "JPY_PIP = 1/100"
definition XAU_PIP :: flt where "XAU_PIP = 1/10"
definition XAG_PIP :: flt where "XAG_PIP = 1/1000"
definition CRYPTO_PIP :: flt where "CRYPTO_PIP = 1"

definition non_default_symbols :: "string list" where
  "non_default_symbols =
     [''XAUUSD'', ''GOLD'', ''XAU'', ''XAGUSD'', ''SILVER'', ''XAG'',
      ''BTCUSD'', ''ETHUSD'', ''BTCUSDT'', ''ETHUSDT'']"

definition pip_value_for_symbol :: "string \<Rightarrow> pyexn + flt" where
  "pip_value_for_symbol symbol =
     (let symb = py_upper (py_strip symbol) in
      if symb = [] then Inl ValueError
      else if List.member [''XAUUSD'', ''GOLD'', ''XAU''] symb then Inr XAU_PIP
      else if List.member [''XAGUSD'', ''SILVER'', ''XAG''] symb then Inr XAG_PIP
      else if List.member non_default_symbols symb \<or>
              (prefix ''BTC'' symb \<or> prefix ''ETH'' symb) \<and> (suffix ''USD'' symb \<or> suffix ''USDT'' symb)
        then Inr CRYPTO_PIP
      else if sublist ''JPY'' symb then Inr JPY_PIP
      else Inr DEFAULT_PIP)"

section \<open>Symbol metadata\<close>

abbreviation fx_info :: "flt \<Rightarrow> flt \<Rightarrow> symbol_info" where
  "fx_info pip val \<equiv> \<lparr>pip_size = pip, pip_value_per_lot = val, lot_size = 100000, contract_size = 100000\<rparr>"

definition SYMBOL_METADATA :: "(string \<times> symbol_info) list" where
  "SYMBOL_METADATA =
     [(''EURUSD'', fx_info (1/10000) 10),
      (''GBPUSD'', fx_info (1/10000) 10),
      (''USDJPY'', fx_info (1/100) (13/2)),
      (''XAUUSD'', \<lparr>pip_size = 1/10, pip_value_per_lot = 10, lot_size = 100, contract_size = 100\<rparr>),
      (''AUDUSD'', fx_info (1/10000) 10),
      (''USDCHF'', fx_info (1/10000) 10),
      (''USDCAD'', fx_info (1/10000) 10)]"

definition DEFAULT_SYMBOL_INFO :: symbol_info where
  "DEFAULT_SYMBOL_INFO = fx_info (1/10000) 10"

definition get_symbol_info :: "string \<Rightarrow> pyexn + symbol_info" where
  "get_symbol_info symbol =
     (case pip_value_for_symbol symbol of
        Inl e \<Rightarrow> Inl e
      | Inr canonical \<Rightarrow>
          (case map_of SYMBOL_METADATA (py_upper symbol) of
             Some info \<Rightarrow>
               if pip_size info \<noteq> canonical
               then Inr \<lparr>pip_size = canonical, pip_value_per_lot = pip_value_per_lot info,
                         lot_size = lot_size info, contract_size = contract_size info\<rparr>
               else Inr info
           | None \<Rightarrow>
               Inr \<lparr>pip_size = canonical, pip_value_per_lot = pip_value_per_lot DEFAULT_SYMBOL_INFO,
                    lot_size = lot_size DEFAULT_SYMBOL_INFO,
                    contract_size = contract_size DEFAULT_SYMBOL_INFO\<rparr>))"

definition from_live_symbol_info :: "flt \<Rightarrow> int \<Rightarrow> flt \<Rightarrow> flt \<Rightarrow> symbol_info" where
  "from_live_symbol_info live_pip live_lot live_contract value_per_lot =
     \<lparr>pip_size = live_pip, pip_value_per_lot = value_per_lot, lot_size = live_lot,
      contract_size = live_contract\<rparr>"

lemma pip_value_cases:
  "pip_value_for_symbol s = Inl ValueError \<and> py_strip s = [] \<or>
   (\<exists>p \<in> {XAU_PIP, XAG_PIP, CRYPTO_PIP, JPY_PIP, DEFAULT_PIP}. pip_value_for_symbol s = Inr p) \<and> py_strip s \<noteq> []"
  by (simp add: pip_value_for_symbol_def Let_def py_upper_def)

lemma pip_value_pos: "pip_value_for_symbol s = Inr p \<Longrightarrow> 0 < p"
  using pip_value_cases [of s]
  by (auto simp: XAU_PIP_def XAG_PIP_def CRYPTO_PIP_def JPY_PIP_def DEFAULT_PIP_def)

lemma pip_value_upper [simp]: "pip_value_for_symbol (py_upper s) = pip_value_for_symbol s"
  by (simp add: pip_value_for_symbol_def py_strip_upper Let_def)

lemma metadata_value_pos: "map_of SYMBOL_METADATA s = Some info \<Longrightarrow> 0 < pip_value_per_lot info"
  by (auto simp: SYMBOL_METADATA_def split: if_splits)

lemma get_symbol_info_cases:
  "get_symbol_info s = Inl ValueError \<and> py_strip s = [] \<or>
   (\<exists>info. get_symbol_info s = Inr info \<and> pip_value_for_symbol s = Inr (pip_size info) \<and>
      0 < pip_value_per_lot info) \<and> py_strip s \<noteq> []"
proof (cases "pip_value_for_symbol s")
  case (Inl e)
  then show ?thesis using pip_value_cases [of s] by (auto simp: get_symbol_info_def)
next
  case (Inr p)
  then have "py_strip s \<noteq> []" using pip_value_cases [of s] by auto
  with Inr show ?thesis
    by (auto simp: get_symbol_info_def DEFAULT_SYMBOL_INFO_def split: option.split dest: metadata_value_pos)
qed

section \<open>Properties\<close>

text \<open>
  Symbol metadata is total, case-insensitive and canonical: \<open>get_symbol_info\<close> fails (with a
  ValueError) exactly on blank symbols, otherwise its pip size is the one of
  \<open>pip_value_for_symbol\<close>, strictly positive, and the letter case of the symbol never matters.
\<close>

theorem symbol_info_canonical:
  "(get_symbol_info s = Inl ValueError \<longleftrightarrow> py_strip s = []) \<and>
   (py_strip s \<noteq> [] \<longrightarrow> (\<exists>info. get_symbol_info s = Inr info \<and>
      pip_value_for_symbol s = Inr (pip_size info) \<and> 0 < pip_size info \<and> 0 < pip_value_per_lot info)) \<and>
   get_symbol_info (py_upper s) = get_symbol_info s"
proof -
  have "get_symbol_info (py_upper s) = get_symbol_info s"
    by (cases "pip_value_for_symbol s") (simp_all add: get_symbol_info_def)
  then show ?thesis using get_symbol_info_cases [of s] pip_value_pos by auto
qed

theorem symbol_info_canonical_witness:
  "py_strip ''xauusd'' \<noteq> [] \<and> (\<exists>info. get_symbol_info ''xauusd'' = Inr info \<and> 0 < pip_size info)"
proof -
  have "py_strip ''xauusd'' \<noteq> []" by code_simp
  with symbol_info_canonical [of "''xauusd''"] show ?thesis by auto
qed

lemma SYMBOL_METADATA_canonical:
  "list_all (\<lambda>(s, info). pip_value_for_symbol s = Inr (pip_size info)) SYMBOL_METADATA"
  by code_simp

text \<open>
  The static metadata table never contradicts the canonical pip sizes: for every listed
  symbol the two agree, so the override branch of \<open>get_symbol_info\<close> is dead and the table's row
  is returned as it is.
\<close>

theorem symbol_metadata_consistent:
  assumes "map_of SYMBOL_METADATA (py_upper s) = Some info"
  shows "get_symbol_info s = Inr info"
proof -
  have "(py_upper s, info) \<in> set SYMBOL_METADATA" using assms by (rule map_of_SomeD)
  then have "pip_value_for_symbol (py_upper s) = Inr (pip_size info)"
    using SYMBOL_METADATA_canonical by (auto simp: list_all_iff)
  with assms show ?thesis by (simp add: get_symbol_info_def)
qed

theorem symbol_metadata_consistent_witness:
  "get_symbol_info ''usdjpy'' = Inr (fx_info (1/100) (13/2))"
proof (rule symbol_metadata_consistent)
  show "map_of SYMBOL_METADATA (py_upper ''usdjpy'') = Some (fx_info (1/100) (13/2))" by code_simp
qed

end
