(* ===== verification/KillSwitch.thy ===== *)
theory KillSwitch
  imports Prelude
begin

text \<open>
  The kill switch manager of \<open>adapters/ctrader/kill_switch.py\<close>: the harness guard, the two
  serialisable state classes, the in-memory fast path, the persisted files and the audit log,
  and every operation. The fields of the two state classes hold dynamically typed values
  (\<open>pyv\<close>), because \<open>from_dict\<close> takes what the JSON file holds without checking types. An
  operation gets the environment of its call: process variables, resolved state directory,
  clock, and whether file writes and appends succeed.
\<close>

section \<open>Environment and files\<close>

record ks_env =
  env_vars :: "(string \<times> string) list"
  env_resolved_dir :: "string option" \<comment> \<open>\<open>Path(state_dir).resolve()\<close>; None when it raises\<close>
  env_tmpdir :: "string option" \<comment> \<open>\<open>tempfile.gettempdir()\<close>; None when it raises\<close>
  env_now :: instant
  env_write_ok :: bool
  env_append_ok :: bool

text \<open>What a state file holds: JSON text is kept as the value \<open>json.loads\<close> gives.\<close>

datatype ks_file =
    NoFile
  | Unreadable
  | Corrupt string \<comment> \<open>not JSON; the message of the decode error\<close>
  | Json pyv

record ks_disk =
  dk_state :: ks_file
  dk_strategies :: ks_file
  dk_history :: "pyv list"

definition HARNESS_ENV_VARS :: "string list" where
  "HARNESS_ENV_VARS = [''AYUMI_HARNESS'', ''AYUMI_HARNESS_GUARD_USE_LOCAL_ROOT'']"

definition ks_is_harness_mode :: "ks_env \<Rightarrow> bool" where
  "ks_is_harness_mode env =
     list_ex (\<lambda>var. List.member [''1'', ''true'', ''yes''] (py_lower (py_strip (dget_or (env_vars env) var []))))
       HARNESS_ENV_VARS"

definition ks_is_production_state_dir :: "ks_env \<Rightarrow> bool" where
  "ks_is_production_state_dir env =
     (case env_resolved_dir env of
        None \<Rightarrow> True
      | Some resolved \<Rightarrow>
          \<not> list_ex (\<lambda>p. let p' = py_rstrip_slash p in resolved = p' \<or> prefix (p' @ ''/'') resolved)
              ((case env_tmpdir env of Some t \<Rightarrow> [t] | None \<Rightarrow> [])
               @ [''/tmp'', ''/private/tmp'', ''/var/folders'']))"

definition ks_unsafe :: "ks_env \<Rightarrow> bool" where
  "ks_unsafe env \<longleftrightarrow> ks_is_harness_mode env \<and> ks_is_production_state_dir env"

section \<open>State classes\<close>

abbreviation STATE_VERSION :: int where "STATE_VERSION \<equiv> 1"
abbreviation MODE_KILL :: pyv where "MODE_KILL \<equiv> pstr ''kill''"
abbreviation MODE_FREEZE :: pyv where "MODE_FREEZE \<equiv> pstr ''freeze''"
abbreviation LEVEL_GLOBAL :: pyv where "LEVEL_GLOBAL \<equiv> pstr ''global''"
abbreviation LEVEL_STRATEGY :: pyv where "LEVEL_STRATEGY \<equiv> pstr ''strategy''"
abbreviation py_iso :: "instant \<Rightarrow> pyv" where "py_iso t \<equiv> PStr [FIso t]"
abbreviation py_empty :: pyv where "py_empty \<equiv> pstr []"

definition AUTO_FREEZE_CONSECUTIVE_LOSSES :: int where "AUTO_FREEZE_CONSECUTIVE_LOSSES = 3"
definition AUTO_FREEZE_DAILY_DD_PCT :: flt where "AUTO_FREEZE_DAILY_DD_PCT = 3/2"
definition AUTO_FREEZE_SLIPPAGE_PIPS :: flt where "AUTO_FREEZE_SLIPPAGE_PIPS = 5"

record strategy_freeze_state =
  sf_strategy_id :: pyv
  sf_frozen :: pyv
  sf_reason :: pyv
  sf_triggered_by :: pyv
  sf_triggered_at :: pyv
  sf_consecutive_losses :: pyv
  sf_daily_dd_pct :: pyv
  sf_last_slippage_pips :: pyv
  sf_metadata :: pyv

definition sf_new :: "string \<Rightarrow> strategy_freeze_state" where
  "sf_new sid =
     \<lparr>sf_strategy_id = pstr sid, sf_frozen = PBool False, sf_reason = py_empty, sf_triggered_by = py_empty,
      sf_triggered_at = PNone, sf_consecutive_losses = PInt 0, sf_daily_dd_pct = PFloat 0,
      sf_last_slippage_pips = PFloat 0, sf_metadata = PDict []\<rparr>"

definition sf_to_dict :: "strategy_freeze_state \<Rightarrow> pyv" where
  "sf_to_dict st = PDict
     [(''strategy_id'', sf_strategy_id st), (''frozen'', sf_frozen st), (''reason'', sf_reason st),
      (''triggered_by'', sf_triggered_by st), (''triggered_at'', sf_triggered_at st),
      (''consecutive_losses'', sf_consecutive_losses st), (''daily_dd_pct'', sf_daily_dd_pct st),
      (''last_slippage_pips'', sf_last_slippage_pips st), (''metadata'', sf_metadata st)]"

fun sf_from_dict :: "pyv \<Rightarrow> pyexn + strategy_freeze_state" where
  "sf_from_dict (PDict d) = Inr
     \<lparr>sf_strategy_id = dget_or d ''strategy_id'' py_empty, sf_frozen = dget_or d ''frozen'' (PBool False),
      sf_reason = dget_or d ''reason'' py_empty, sf_triggered_by = dget_or d ''triggered_by'' py_empty,
      sf_triggered_at = dget_or d ''triggered_at'' PNone,
      sf_consecutive_losses = dget_or d ''consecutive_losses'' (PInt 0),
      sf_daily_dd_pct = dget_or d ''daily_dd_pct'' (PFloat 0),
      sf_last_slippage_pips = dget_or d ''last_slippage_pips'' (PFloat 0),
      sf_metadata = dget_or d ''metadata'' (PDict [])\<rparr>"
| "sf_from_dict _ = Inl AttributeError"

record global_kill_state =
  gk_version :: pyv
  gk_active :: pyv
  gk_level :: pyv
  gk_mode :: pyv
  gk_reason :: pyv
  gk_triggered_by :: pyv
  gk_triggered_at :: pyv
  gk_positions_closed :: pyv
  gk_close_count :: pyv
  gk_metadata :: pyv

definition gk_default :: global_kill_state where
  "gk_default =
     \<lparr>gk_version = PInt STATE_VERSION, gk_active = PBool False, gk_level = LEVEL_GLOBAL, gk_mode = MODE_KILL,
      gk_reason = py_empty, gk_triggered_by = py_empty, gk_triggered_at = PNone,
      gk_positions_closed = PBool False, gk_close_count = PInt 0, gk_metadata = PDict []\<rparr>"

definition gk_to_dict :: "global_kill_state \<Rightarrow> pyv" where
  "gk_to_dict g = PDict
     [(''version'', gk_version g), (''active'', gk_active g), (''level'', gk_level g), (''mode'', gk_mode g),
      (''reason'', gk_reason g), (''triggered_by'', gk_triggered_by g), (''triggered_at'', gk_triggered_at g),
      (''positions_closed'', gk_positions_closed g), (''close_count'', gk_close_count g),
      (''metadata'', gk_metadata g)]"

fun gk_from_dict :: "pyv \<Rightarrow> pyexn + global_kill_state" where
  "gk_from_dict (PDict d) = Inr
     \<lparr>gk_version = dget_or d ''version'' (PInt STATE_VERSION), gk_active = dget_or d ''active'' (PBool False),
      gk_level = dget_or d ''level'' LEVEL_GLOBAL, gk_mode = dget_or d ''mode'' MODE_KILL,
      gk_reason = dget_or d ''reason'' py_empty, gk_triggered_by = dget_or d ''triggered_by'' py_empty,
      gk_triggered_at = dget_or d ''triggered_at'' PNone,
      gk_positions_closed = dget_or d ''positions_closed'' (PBool False),
      gk_close_count = dget_or d ''close_count'' (PInt 0), gk_metadata = dget_or d ''metadata'' (PDict [])\<rparr>"
| "gk_from_dict _ = Inl AttributeError"

lemma gk_from_to_dict [simp]: "gk_from_dict (gk_to_dict g) = Inr g"
  by (simp add: gk_to_dict_def)

lemma sf_from_to_dict [simp]: "sf_from_dict (sf_to_dict st) = Inr st"
  by (simp add: sf_to_dict_def)

section \<open>The manager\<close>

record kill_switch =
  ks_disabled :: bool
  ks_state :: global_kill_state
  ks_killed_cache :: bool
  ks_frozen_cache :: bool
  ks_strategies :: "(string \<times> strategy_freeze_state) list"
  ks_disk :: ks_disk

type_synonym 'a ks_result = "(kill_switch, 'a) outcome"

subsection \<open>Persistence\<close>

definition ks_assert_no_harness_write :: "ks_env \<Rightarrow> kill_switch \<Rightarrow> unit ks_result" where
  "ks_assert_no_harness_write env ks =
     (if \<not> ks_is_harness_mode env then Ret () ks
      else if \<not> ks_is_production_state_dir env then Ret () ks
      else Exc RuntimeError ks)"

definition ks_save_state :: "ks_env \<Rightarrow> kill_switch \<Rightarrow> unit ks_result" where
  "ks_save_state env ks =
     and_then (ks_assert_no_harness_write env ks) (\<lambda>_ ks.
       Ret () (if env_write_ok env
               then ks\<lparr>ks_disk := (ks_disk ks)\<lparr>dk_state := Json (gk_to_dict (ks_state ks))\<rparr>\<rparr> else ks))"

definition ks_append_history :: "ks_env \<Rightarrow> pyv \<Rightarrow> kill_switch \<Rightarrow> unit ks_result" where
  "ks_append_history env event ks =
     and_then (ks_assert_no_harness_write env ks) (\<lambda>_ ks.
       Ret () (if env_append_ok env
               then ks\<lparr>ks_disk := (ks_disk ks)\<lparr>dk_history := dk_history (ks_disk ks) @ [event]\<rparr>\<rparr> else ks))"

definition ks_strategies_dict :: "(string \<times> strategy_freeze_state) list \<Rightarrow> pyv" where
  "ks_strategies_dict sts = PDict
     [(''version'', PInt STATE_VERSION),
      (''strategies'', PDict (map (\<lambda>(sid, st). (sid, sf_to_dict st)) sts))]"

definition ks_save_strategy_states :: "ks_env \<Rightarrow> kill_switch \<Rightarrow> unit ks_result" where
  "ks_save_strategy_states env ks =
     and_then (ks_assert_no_harness_write env ks) (\<lambda>_ ks.
       Ret () (if env_write_ok env
               then ks\<lparr>ks_disk := (ks_disk ks)\<lparr>dk_strategies := Json (ks_strategies_dict (ks_strategies ks))\<rparr>\<rparr>
               else ks))"

definition ks_load_state :: "ks_env \<Rightarrow> kill_switch \<Rightarrow> unit ks_result" where
  "ks_load_state env ks =
     (case dk_state (ks_disk ks) of
        NoFile \<Rightarrow> Ret () ks
      | Unreadable \<Rightarrow> Exc OSError ks
      | Json data \<Rightarrow>
          (case gk_from_dict data of
             Inl e \<Rightarrow> Exc e ks
           | Inr g \<Rightarrow> Ret () (ks\<lparr>ks_state := g\<rparr>))
      | Corrupt err \<Rightarrow>
          and_then
            (ks_save_state env
               (ks\<lparr>ks_state := gk_default\<lparr>gk_active := PBool True, gk_mode := MODE_KILL,
                   gk_reason := pstr ''corrupt_state_file'', gk_triggered_by := pstr ''system_fail_safe'',
                   gk_triggered_at := py_iso (env_now env)\<rparr>\<rparr>))
            (\<lambda>_. ks_append_history env (PDict
               [(''ts'', py_iso (env_now env)), (''event'', pstr ''fail_safe_activated''),
                (''level'', LEVEL_GLOBAL), (''mode'', MODE_KILL), (''reason'', pstr ''corrupt_state_file''),
                (''triggered_by'', pstr ''system_fail_safe''), (''error'', pstr err)])))"

fun sf_load_all :: "(string \<times> pyv) list \<Rightarrow> pyexn + (string \<times> strategy_freeze_state) list" where
  "sf_load_all [] = Inr []"
| "sf_load_all ((sid, data) # rest) =
     (case sf_from_dict data of Inl e \<Rightarrow> Inl e
      | Inr st \<Rightarrow> (case sf_load_all rest of Inl e \<Rightarrow> Inl e | Inr sts \<Rightarrow> Inr ((sid, st) # sts)))"

definition ks_load_strategy_states :: "kill_switch \<Rightarrow> unit ks_result" where
  "ks_load_strategy_states ks =
     (case dk_strategies (ks_disk ks) of
        NoFile \<Rightarrow> Ret () ks
      | Unreadable \<Rightarrow> Exc OSError ks
      | Corrupt err \<Rightarrow> Ret () ks
      | Json (PDict d) \<Rightarrow>
          (case dget_or d ''strategies'' (PDict []) of
             PDict strategies \<Rightarrow>
               (case sf_load_all strategies of
                  Inl e \<Rightarrow> Exc e ks
                | Inr sts \<Rightarrow> Ret () (ks\<lparr>ks_strategies := sts\<rparr>))
           | _ \<Rightarrow> Exc AttributeError ks)
      | Json _ \<Rightarrow> Exc AttributeError ks)"

text \<open>Construction; the class-level default of \<open>_disabled\<close> is True.\<close>

definition ks_init :: "ks_env \<Rightarrow> bool option \<Rightarrow> ks_disk \<Rightarrow> unit ks_result" where
  "ks_init env disabled disk =
     (let ks = \<lparr>ks_disabled = (case disabled of Some b \<Rightarrow> b | None \<Rightarrow> True), ks_state = gk_default,
                ks_killed_cache = False, ks_frozen_cache = False, ks_strategies = [], ks_disk = disk\<rparr>
      in if ks_is_harness_mode env \<and> ks_is_production_state_dir env then Exc RuntimeError ks
         else and_then (ks_load_state env ks) (\<lambda>_ ks.
           ks_load_strategy_states
             (ks\<lparr>ks_killed_cache := truthy (gk_active (ks_state ks)) \<and> gk_mode (ks_state ks) = MODE_KILL,
                 ks_frozen_cache := truthy (gk_active (ks_state ks)) \<and> gk_mode (ks_state ks) = MODE_FREEZE\<rparr>)))"

subsection \<open>Queries\<close>

definition ks_is_globally_killed :: "kill_switch \<Rightarrow> bool" where
  "ks_is_globally_killed ks = (if ks_disabled ks then False else ks_killed_cache ks)"

definition ks_is_globally_frozen :: "kill_switch \<Rightarrow> bool" where
  "ks_is_globally_frozen ks = (if ks_disabled ks then False else ks_frozen_cache ks)"

definition ks_is_active :: "kill_switch \<Rightarrow> bool" where
  "ks_is_active ks = (if ks_disabled ks then False else truthy (gk_active (ks_state ks)))"

definition ks_get_status :: "kill_switch \<Rightarrow> pyv" where
  "ks_get_status ks = gk_to_dict (ks_state ks)"

definition ks_is_strategy_frozen :: "string \<Rightarrow> kill_switch \<Rightarrow> bool" where
  "ks_is_strategy_frozen sid ks =
     (case map_of (ks_strategies ks) sid of None \<Rightarrow> False | Some st \<Rightarrow> truthy (sf_frozen st))"

definition ks_get_strategy_status :: "string \<Rightarrow> kill_switch \<Rightarrow> pyv" where
  "ks_get_strategy_status sid ks =
     (case map_of (ks_strategies ks) sid of
        None \<Rightarrow> PDict [(''strategy_id'', pstr sid), (''frozen'', PBool False), (''registered'', PBool False)]
      | Some st \<Rightarrow> (case sf_to_dict st of PDict d \<Rightarrow> PDict (AList.update ''registered'' (PBool True) d) | v \<Rightarrow> v))"

definition ks_get_all_frozen_strategies :: "kill_switch \<Rightarrow> string list" where
  "ks_get_all_frozen_strategies ks = map fst (filter (\<lambda>(sid, st). truthy (sf_frozen st)) (ks_strategies ks))"

subsection \<open>Global activation\<close>

definition ks_activate_global_kill :: "ks_env \<Rightarrow> ptext \<Rightarrow> string \<Rightarrow> bool \<Rightarrow> kill_switch \<Rightarrow> unit ks_result" where
  "ks_activate_global_kill env reason triggered_by close_positions ks =
     (if ks_disabled ks then Ret () ks
      else
        let now = env_now env; was_active = gk_active (ks_state ks);
            ks1 = ks\<lparr>ks_state :=
                      \<lparr>gk_version = PInt STATE_VERSION, gk_active = PBool True, gk_level = LEVEL_GLOBAL,
                       gk_mode = MODE_KILL, gk_reason = PStr reason, gk_triggered_by = pstr triggered_by,
                       gk_triggered_at = py_iso now, gk_positions_closed = PBool (\<not> close_positions),
                       gk_close_count = PInt 0, gk_metadata = PDict []\<rparr>,
                     ks_killed_cache := True, ks_frozen_cache := False\<rparr>
        in and_then (ks_save_state env ks1) (\<lambda>_. ks_append_history env (PDict
             [(''ts'', py_iso now), (''event'', pstr ''activated''), (''level'', LEVEL_GLOBAL),
              (''mode'', MODE_KILL), (''reason'', PStr reason), (''triggered_by'', pstr triggered_by),
              (''close_positions'', PBool close_positions), (''was_reactivation'', was_active)])))"

definition ks_activate_global_freeze :: "ks_env \<Rightarrow> ptext \<Rightarrow> string \<Rightarrow> kill_switch \<Rightarrow> unit ks_result" where
  "ks_activate_global_freeze env reason triggered_by ks =
     (if ks_disabled ks then Ret () ks
      else
        let now = env_now env; was_active = gk_active (ks_state ks);
            ks1 = ks\<lparr>ks_state :=
                      \<lparr>gk_version = PInt STATE_VERSION, gk_active = PBool True, gk_level = LEVEL_GLOBAL,
                       gk_mode = MODE_FREEZE, gk_reason = PStr reason, gk_triggered_by = pstr triggered_by,
                       gk_triggered_at = py_iso now, gk_positions_closed = PBool True,
                       gk_close_count = PInt 0, gk_metadata = PDict []\<rparr>,
                     ks_killed_cache := False, ks_frozen_cache := True\<rparr>
        in and_then (ks_save_state env ks1) (\<lambda>_. ks_append_history env (PDict
             [(''ts'', py_iso now), (''event'', pstr ''activated''), (''level'', LEVEL_GLOBAL),
              (''mode'', MODE_FREEZE), (''reason'', PStr reason), (''triggered_by'', pstr triggered_by),
              (''was_reactivation'', was_active)])))"

definition ks_activate_profit_target_freeze ::
  "ks_env \<Rightarrow> string \<Rightarrow> flt option \<Rightarrow> flt option \<Rightarrow> kill_switch \<Rightarrow> bool ks_result" where
  "ks_activate_profit_target_freeze env triggered_by current_balance target_pct ks =
     (let reason = (case (current_balance, target_pct) of
            (Some b, Some t) \<Rightarrow> [Lit ''ftmo_target_reached (balance='', FFix 2 b, Lit '', target_pct='', FFix 4 t, Lit '')'']
          | _ \<Rightarrow> [Lit ''ftmo_target_reached''])
      in and_then (ks_activate_global_freeze env reason triggered_by ks) (\<lambda>_ ks. Ret True ks))"

definition ks_deactivate :: "ks_env \<Rightarrow> ptext \<Rightarrow> kill_switch \<Rightarrow> unit ks_result" where
  "ks_deactivate env reason ks =
     (if \<not> truthy (gk_active (ks_state ks)) then Ret () ks
      else
        let now = env_now env; prev_mode = gk_mode (ks_state ks); prev_reason = gk_reason (ks_state ks);
            ks1 = ks\<lparr>ks_state := gk_default, ks_killed_cache := False, ks_frozen_cache := False\<rparr>
        in and_then (ks_save_state env ks1) (\<lambda>_. ks_append_history env (PDict
             [(''ts'', py_iso now), (''event'', pstr ''deactivated''), (''level'', LEVEL_GLOBAL),
              (''previous_mode'', prev_mode), (''previous_reason'', prev_reason), (''reason'', PStr reason)])))"

subsection \<open>Per-strategy freeze\<close>

abbreviation ks_put :: "string \<Rightarrow> strategy_freeze_state \<Rightarrow> kill_switch \<Rightarrow> kill_switch" where
  "ks_put sid st ks \<equiv> ks\<lparr>ks_strategies := AList.update sid st (ks_strategies ks)\<rparr>"

definition ks_register_strategy :: "ks_env \<Rightarrow> string \<Rightarrow> kill_switch \<Rightarrow> unit ks_result" where
  "ks_register_strategy env sid ks =
     (if map_of (ks_strategies ks) sid = None
      then ks_save_strategy_states env (ks_put sid (sf_new sid) ks)
      else Ret () ks)"

definition ks_freeze_strategy :: "ks_env \<Rightarrow> string \<Rightarrow> ptext \<Rightarrow> string \<Rightarrow> kill_switch \<Rightarrow> bool ks_result" where
  "ks_freeze_strategy env sid reason triggered_by ks =
     (let st = dget_or (ks_strategies ks) sid (sf_new sid);
          ks1 = (if map_of (ks_strategies ks) sid = None then ks_put sid st ks else ks)
      in if truthy (sf_frozen st) then Ret False ks1
         else
           let now = env_now env;
               ks2 = ks_put sid (st\<lparr>sf_frozen := PBool True, sf_reason := PStr reason,
                        sf_triggered_by := pstr triggered_by, sf_triggered_at := py_iso now\<rparr>) ks1
           in and_then (ks_save_strategy_states env ks2) (\<lambda>_ ks3.
              and_then (ks_append_history env (PDict
                 [(''ts'', py_iso now), (''event'', pstr ''strategy_frozen''), (''level'', LEVEL_STRATEGY),
                  (''strategy_id'', pstr sid), (''reason'', PStr reason), (''triggered_by'', pstr triggered_by)])
                 ks3) (\<lambda>_ ks4. Ret True ks4)))"

definition ks_unfreeze_strategy :: "ks_env \<Rightarrow> string \<Rightarrow> ptext \<Rightarrow> kill_switch \<Rightarrow> bool ks_result" where
  "ks_unfreeze_strategy env sid reason ks =
     (case map_of (ks_strategies ks) sid of
        None \<Rightarrow> Ret False ks
      | Some st \<Rightarrow>
          if \<not> truthy (sf_frozen st) then Ret False ks
          else
            let now = env_now env; prev_reason = sf_reason st;
                ks1 = ks_put sid (st\<lparr>sf_frozen := PBool False, sf_reason := py_empty,
                        sf_triggered_by := py_empty, sf_triggered_at := PNone,
                        sf_consecutive_losses := PInt 0, sf_daily_dd_pct := PFloat 0\<rparr>) ks
            in and_then (ks_save_strategy_states env ks1) (\<lambda>_ ks2.
               and_then (ks_append_history env (PDict
                  [(''ts'', py_iso now), (''event'', pstr ''strategy_unfrozen''), (''level'', LEVEL_STRATEGY),
                   (''strategy_id'', pstr sid), (''previous_reason'', prev_reason), (''reason'', PStr reason)])
                  ks2) (\<lambda>_ ks3. Ret True ks3)))"

definition ks_auto_freeze ::
  "ks_env \<Rightarrow> string \<Rightarrow> strategy_freeze_state \<Rightarrow> ptext \<Rightarrow> string \<Rightarrow> kill_switch \<Rightarrow> unit ks_result" where
  "ks_auto_freeze env sid st reason trigger ks =
     (let now = env_now env;
          st' = st\<lparr>sf_frozen := PBool True, sf_reason := PStr reason,
                   sf_triggered_by := pstr (''auto_freeze:'' @ trigger), sf_triggered_at := py_iso now\<rparr>
      in and_then (ks_save_strategy_states env (ks_put sid st' ks)) (\<lambda>_.
         ks_append_history env (PDict
           [(''ts'', py_iso now), (''event'', pstr ''strategy_auto_frozen''), (''level'', LEVEL_STRATEGY),
            (''strategy_id'', pstr sid), (''reason'', PStr reason), (''trigger'', pstr trigger),
            (''consecutive_losses'', sf_consecutive_losses st'), (''daily_dd_pct'', sf_daily_dd_pct st'),
            (''slippage_pips'', sf_last_slippage_pips st')])))"

definition ks_check_auto_freeze ::
  "ks_env \<Rightarrow> string \<Rightarrow> int \<Rightarrow> flt \<Rightarrow> flt \<Rightarrow> kill_switch \<Rightarrow> bool ks_result" where
  "ks_check_auto_freeze env sid consecutive_losses daily_dd_pct slippage_pips ks =
     (let st = (dget_or (ks_strategies ks) sid (sf_new sid))
                 \<lparr>sf_consecutive_losses := PInt consecutive_losses, sf_daily_dd_pct := PFloat daily_dd_pct,
                  sf_last_slippage_pips := PFloat slippage_pips\<rparr>;
          ks1 = ks_put sid st ks
      in if truthy (sf_frozen st) then Ret False ks1
         else if consecutive_losses \<ge> AUTO_FREEZE_CONSECUTIVE_LOSSES then
           and_then (ks_auto_freeze env sid st
             [Lit ''auto: '', FInt consecutive_losses, Lit '' consecutive losses''] ''consecutive_losses'' ks1)
             (\<lambda>_ ks. Ret True ks)
         else if daily_dd_pct \<ge> AUTO_FREEZE_DAILY_DD_PCT then
           and_then (ks_auto_freeze env sid st
             [Lit ''auto: daily DD '', FFix 2 daily_dd_pct, Lit ''% >= '', FFloat AUTO_FREEZE_DAILY_DD_PCT, Lit ''%'']
             ''daily_dd'' ks1) (\<lambda>_ ks. Ret True ks)
         else if slippage_pips \<ge> AUTO_FREEZE_SLIPPAGE_PIPS then
           and_then (ks_auto_freeze env sid st
             [Lit ''auto: slippage '', FFix 1 slippage_pips, Lit '' pips >= '', FFloat AUTO_FREEZE_SLIPPAGE_PIPS]
             ''slippage'' ks1) (\<lambda>_ ks. Ret True ks)
         else Ret False ks1)"

definition ks_record_positions_closed :: "ks_env \<Rightarrow> int \<Rightarrow> kill_switch \<Rightarrow> unit ks_result" where
  "ks_record_positions_closed env count ks =
     (let ks1 = ks\<lparr>ks_state := (ks_state ks)\<lparr>gk_positions_closed := PBool True, gk_close_count := PInt count\<rparr>\<rparr>
      in and_then (ks_save_state env ks1) (\<lambda>_. ks_append_history env (PDict
           [(''ts'', py_iso (env_now env)), (''event'', pstr ''positions_closed''), (''count'', PInt count)])))"

subsection \<open>Operations as events\<close>

datatype ks_op =
    OpKill ptext string bool
  | OpFreeze ptext string
  | OpProfitTarget string "flt option" "flt option"
  | OpDeactivate ptext
  | OpRegister string
  | OpFreezeStrategy string ptext string
  | OpUnfreezeStrategy string ptext
  | OpCheckAutoFreeze string int flt flt
  | OpPositionsClosed int

fun ks_step :: "kill_switch \<Rightarrow> ks_env \<times> ks_op \<Rightarrow> kill_switch" where
  "ks_step ks (env, OpKill r b c) = state_of (ks_activate_global_kill env r b c ks)"
| "ks_step ks (env, OpFreeze r b) = state_of (ks_activate_global_freeze env r b ks)"
| "ks_step ks (env, OpProfitTarget b x t) = state_of (ks_activate_profit_target_freeze env b x t ks)"
| "ks_step ks (env, OpDeactivate r) = state_of (ks_deactivate env r ks)"
| "ks_step ks (env, OpRegister sid) = state_of (ks_register_strategy env sid ks)"
| "ks_step ks (env, OpFreezeStrategy sid r b) = state_of (ks_freeze_strategy env sid r b ks)"
| "ks_step ks (env, OpUnfreezeStrategy sid r) = state_of (ks_unfreeze_strategy env sid r ks)"
| "ks_step ks (env, OpCheckAutoFreeze sid n d p) = state_of (ks_check_auto_freeze env sid n d p ks)"
| "ks_step ks (env, OpPositionsClosed n) = state_of (ks_record_positions_closed env n ks)"

end
