(* ===== verification/KillSwitchSafety.thy ===== *)
theory KillSwitchSafety
  imports KillSwitch
begin

text \<open>
  Correctness of the kill switch manager: coherence of the cached flags, the latching of an
  activation, what survives a restart, the audit log, strategy isolation, the auto-freeze rule
  and the harness guard. Every property of runs is an instance of the machine interfaces of the
  prelude on \<open>ks_step\<close>.
\<close>

section \<open>Frame lemmas\<close>

lemma state_of_save [simp]:
  "state_of (ks_save_state env ks) =
     (if \<not> ks_unsafe env \<and> env_write_ok env
      then ks\<lparr>ks_disk := (ks_disk ks)\<lparr>dk_state := Json (gk_to_dict (ks_state ks))\<rparr>\<rparr> else ks)"
  by (simp add: ks_save_state_def ks_assert_no_harness_write_def ks_unsafe_def)

lemma state_of_append [simp]:
  "state_of (ks_append_history env ev ks) =
     (if \<not> ks_unsafe env \<and> env_append_ok env
      then ks\<lparr>ks_disk := (ks_disk ks)\<lparr>dk_history := dk_history (ks_disk ks) @ [ev]\<rparr>\<rparr> else ks)"
  by (simp add: ks_append_history_def ks_assert_no_harness_write_def ks_unsafe_def)

lemma state_of_save_strategies [simp]:
  "state_of (ks_save_strategy_states env ks) =
     (if \<not> ks_unsafe env \<and> env_write_ok env
      then ks\<lparr>ks_disk := (ks_disk ks)\<lparr>dk_strategies := Json (ks_strategies_dict (ks_strategies ks))\<rparr>\<rparr> else ks)"
  by (simp add: ks_save_strategy_states_def ks_assert_no_harness_write_def ks_unsafe_def)

text \<open>The persistence calls either all return (safe environment) or all raise.\<close>

lemma persist_Ret:
  "\<not> ks_unsafe env \<Longrightarrow> ks_save_state env ks = Ret ()
     (if env_write_ok env then ks\<lparr>ks_disk := (ks_disk ks)\<lparr>dk_state := Json (gk_to_dict (ks_state ks))\<rparr>\<rparr> else ks)"
  "\<not> ks_unsafe env \<Longrightarrow> ks_append_history env ev ks = Ret ()
     (if env_append_ok env then ks\<lparr>ks_disk := (ks_disk ks)\<lparr>dk_history := dk_history (ks_disk ks) @ [ev]\<rparr>\<rparr> else ks)"
  "\<not> ks_unsafe env \<Longrightarrow> ks_save_strategy_states env ks = Ret ()
     (if env_write_ok env
      then ks\<lparr>ks_disk := (ks_disk ks)\<lparr>dk_strategies := Json (ks_strategies_dict (ks_strategies ks))\<rparr>\<rparr> else ks)"
  by (auto simp: ks_save_state_def ks_append_history_def ks_save_strategy_states_def
      ks_assert_no_harness_write_def ks_unsafe_def)

lemma persist_Exc:
  "ks_unsafe env \<Longrightarrow> ks_save_state env ks = Exc RuntimeError ks"
  "ks_unsafe env \<Longrightarrow> ks_append_history env ev ks = Exc RuntimeError ks"
  "ks_unsafe env \<Longrightarrow> ks_save_strategy_states env ks = Exc RuntimeError ks"
  by (auto simp: ks_save_state_def ks_append_history_def ks_save_strategy_states_def
      ks_assert_no_harness_write_def ks_unsafe_def)

lemmas persist = persist_Ret persist_Exc

text \<open>
  The state an operation leaves behind, written as a memory update followed by the writes that
  went through.
\<close>

definition save_global :: "ks_env \<Rightarrow> pyv \<Rightarrow> kill_switch \<Rightarrow> kill_switch" where
  "save_global env ev ks =
     (if ks_unsafe env then ks
      else ks\<lparr>ks_disk := (ks_disk ks)
        \<lparr>dk_state := (if env_write_ok env then Json (gk_to_dict (ks_state ks)) else dk_state (ks_disk ks)),
         dk_history := dk_history (ks_disk ks) @ (if env_append_ok env then [ev] else [])\<rparr>\<rparr>)"

definition save_strategy :: "ks_env \<Rightarrow> pyv \<Rightarrow> kill_switch \<Rightarrow> kill_switch" where
  "save_strategy env ev ks =
     (if ks_unsafe env then ks
      else ks\<lparr>ks_disk := (ks_disk ks)
        \<lparr>dk_strategies := (if env_write_ok env then Json (ks_strategies_dict (ks_strategies ks))
                            else dk_strategies (ks_disk ks)),
         dk_history := dk_history (ks_disk ks) @ (if env_append_ok env then [ev] else [])\<rparr>\<rparr>)"

lemma save_global_eq:
  "state_of (and_then (ks_save_state env ks) (\<lambda>_. ks_append_history env ev)) = save_global env ev ks"
  by (cases "ks_unsafe env") (simp_all add: persist save_global_def)

lemma save_strategy_eq:
  "state_of (and_then (ks_save_strategy_states env ks) (\<lambda>_. ks_append_history env ev)) = save_strategy env ev ks"
  by (cases "ks_unsafe env") (simp_all add: persist save_strategy_def)

lemma state_of_return [simp]: "state_of (and_then m (\<lambda>_ s. Ret b s)) = state_of m"
  by (cases m) auto

lemma and_then_assoc_return:
  "and_then m (\<lambda>a s. and_then (f a s) (\<lambda>_ t. Ret b t)) = and_then (and_then m f) (\<lambda>_ t. Ret b t)"
  by (cases m) auto

lemma save_frames [simp]:
  "ks_disabled (save_global env ev ks) = ks_disabled ks" "ks_disabled (save_strategy env ev ks) = ks_disabled ks"
  "ks_state (save_global env ev ks) = ks_state ks" "ks_state (save_strategy env ev ks) = ks_state ks"
  "ks_killed_cache (save_global env ev ks) = ks_killed_cache ks"
  "ks_killed_cache (save_strategy env ev ks) = ks_killed_cache ks"
  "ks_frozen_cache (save_global env ev ks) = ks_frozen_cache ks"
  "ks_frozen_cache (save_strategy env ev ks) = ks_frozen_cache ks"
  "ks_strategies (save_global env ev ks) = ks_strategies ks"
  "ks_strategies (save_strategy env ev ks) = ks_strategies ks"
  by (simp_all add: save_global_def save_strategy_def)

text \<open>Each operation as one of: nothing, a global write, a strategy write, an unsaved memory update.\<close>

lemma kill_state:
  "state_of (ks_activate_global_kill env r b c ks) =
     (if ks_disabled ks then ks
      else save_global env
        (PDict [(''ts'', py_iso (env_now env)), (''event'', pstr ''activated''), (''level'', LEVEL_GLOBAL),
          (''mode'', MODE_KILL), (''reason'', PStr r), (''triggered_by'', pstr b),
          (''close_positions'', PBool c), (''was_reactivation'', gk_active (ks_state ks))])
        (ks\<lparr>ks_state := \<lparr>gk_version = PInt STATE_VERSION, gk_active = PBool True, gk_level = LEVEL_GLOBAL,
             gk_mode = MODE_KILL, gk_reason = PStr r, gk_triggered_by = pstr b,
             gk_triggered_at = py_iso (env_now env), gk_positions_closed = PBool (\<not> c),
             gk_close_count = PInt 0, gk_metadata = PDict []\<rparr>,
            ks_killed_cache := True, ks_frozen_cache := False\<rparr>))"
  by (simp add: ks_activate_global_kill_def Let_def save_global_eq)

lemma freeze_state:
  "state_of (ks_activate_global_freeze env r b ks) =
     (if ks_disabled ks then ks
      else save_global env
        (PDict [(''ts'', py_iso (env_now env)), (''event'', pstr ''activated''), (''level'', LEVEL_GLOBAL),
          (''mode'', MODE_FREEZE), (''reason'', PStr r), (''triggered_by'', pstr b),
          (''was_reactivation'', gk_active (ks_state ks))])
        (ks\<lparr>ks_state := \<lparr>gk_version = PInt STATE_VERSION, gk_active = PBool True, gk_level = LEVEL_GLOBAL,
             gk_mode = MODE_FREEZE, gk_reason = PStr r, gk_triggered_by = pstr b,
             gk_triggered_at = py_iso (env_now env), gk_positions_closed = PBool True,
             gk_close_count = PInt 0, gk_metadata = PDict []\<rparr>,
            ks_killed_cache := False, ks_frozen_cache := True\<rparr>))"
  by (simp add: ks_activate_global_freeze_def Let_def save_global_eq)

lemma profit_state:
  "\<exists>r. state_of (ks_activate_profit_target_freeze env b x t ks) = state_of (ks_activate_global_freeze env r b ks)"
  by (auto simp: ks_activate_profit_target_freeze_def Let_def)

lemma deactivate_state:
  "state_of (ks_deactivate env r ks) =
     (if \<not> truthy (gk_active (ks_state ks)) then ks
      else save_global env
        (PDict [(''ts'', py_iso (env_now env)), (''event'', pstr ''deactivated''), (''level'', LEVEL_GLOBAL),
          (''previous_mode'', gk_mode (ks_state ks)), (''previous_reason'', gk_reason (ks_state ks)),
          (''reason'', PStr r)])
        (ks\<lparr>ks_state := gk_default, ks_killed_cache := False, ks_frozen_cache := False\<rparr>))"
  by (simp add: ks_deactivate_def Let_def save_global_eq)

lemma closed_state:
  "state_of (ks_record_positions_closed env n ks) =
     save_global env
       (PDict [(''ts'', py_iso (env_now env)), (''event'', pstr ''positions_closed''), (''count'', PInt n)])
       (ks\<lparr>ks_state := (ks_state ks)\<lparr>gk_positions_closed := PBool True, gk_close_count := PInt n\<rparr>\<rparr>)"
  by (simp add: ks_record_positions_closed_def Let_def save_global_eq)

lemma freeze_strategy_state:
  "\<exists>ev. state_of (ks_freeze_strategy env sid r b ks) =
     (let st = dget_or (ks_strategies ks) sid (sf_new sid) in
      if truthy (sf_frozen st) then ks
      else save_strategy env ev (ks_put sid (st\<lparr>sf_frozen := PBool True, sf_reason := PStr r,
             sf_triggered_by := pstr b, sf_triggered_at := py_iso (env_now env)\<rparr>) ks))"
proof (cases "map_of (ks_strategies ks) sid")
  case None
  have "AList.update sid st (AList.update sid st' (ks_strategies ks)) = AList.update sid st (ks_strategies ks)"
    for st st' using None by (induction "ks_strategies ks" arbitrary: ks) (auto simp: fun_eq_iff update_nonempty)
  with None show ?thesis
    by (auto simp: ks_freeze_strategy_def Let_def and_then_assoc_return save_strategy_eq sf_new_def dget_or_def)
next
  case (Some st)
  then show ?thesis
    by (auto simp: ks_freeze_strategy_def Let_def and_then_assoc_return save_strategy_eq dget_or_def)
qed

lemma register_state:
  "state_of (ks_register_strategy env sid ks) =
     (if map_of (ks_strategies ks) sid \<noteq> None then ks
      else if \<not> ks_unsafe env \<and> env_write_ok env
      then (ks_put sid (sf_new sid) ks)\<lparr>ks_disk := (ks_disk ks)
             \<lparr>dk_strategies := Json (ks_strategies_dict (AList.update sid (sf_new sid) (ks_strategies ks)))\<rparr>\<rparr>
      else ks_put sid (sf_new sid) ks)"
  by (simp add: ks_register_strategy_def)

lemma unfreeze_strategy_state:
  "\<exists>ev. state_of (ks_unfreeze_strategy env sid r ks) =
     (case map_of (ks_strategies ks) sid of
        None \<Rightarrow> ks
      | Some st \<Rightarrow> if \<not> truthy (sf_frozen st) then ks
          else save_strategy env ev (ks_put sid (st\<lparr>sf_frozen := PBool False, sf_reason := py_empty,
                 sf_triggered_by := py_empty, sf_triggered_at := PNone,
                 sf_consecutive_losses := PInt 0, sf_daily_dd_pct := PFloat 0\<rparr>) ks))"
  by (auto simp: ks_unfreeze_strategy_def Let_def and_then_assoc_return save_strategy_eq split: option.split)

text \<open>The strategy entry \<open>check_auto_freeze\<close> starts from, with the counters of this call.\<close>

definition auto_entry :: "string \<Rightarrow> int \<Rightarrow> flt \<Rightarrow> flt \<Rightarrow> kill_switch \<Rightarrow> strategy_freeze_state" where
  "auto_entry sid n d p ks = (dget_or (ks_strategies ks) sid (sf_new sid))
     \<lparr>sf_consecutive_losses := PInt n, sf_daily_dd_pct := PFloat d, sf_last_slippage_pips := PFloat p\<rparr>"

definition auto_trigger :: "int \<Rightarrow> flt \<Rightarrow> flt \<Rightarrow> bool" where
  "auto_trigger n d p \<longleftrightarrow> 3 \<le> n \<or> 3/2 \<le> d \<or> 5 \<le> p"

lemma update_update_same: "AList.update k v (AList.update k w xs) = AList.update k v xs"
  by (induction xs) auto

lemma auto_freeze_state:
  "\<exists>ev r t. state_of (ks_auto_freeze env sid st reason trigger ks) =
     save_strategy env ev (ks_put sid (st\<lparr>sf_frozen := PBool True, sf_reason := r,
        sf_triggered_by := t, sf_triggered_at := py_iso (env_now env)\<rparr>) ks)"
  by (auto simp: ks_auto_freeze_def Let_def save_strategy_eq)

lemma check_auto_state:
  "\<exists>ev r t. state_of (ks_check_auto_freeze env sid n d p ks) =
     (let st = auto_entry sid n d p ks in
      if truthy (sf_frozen st) \<or> \<not> auto_trigger n d p then ks_put sid st ks
      else save_strategy env ev (ks_put sid (st\<lparr>sf_frozen := PBool True, sf_reason := PStr r,
             sf_triggered_by := PStr t, sf_triggered_at := py_iso (env_now env)\<rparr>) ks))"
  by (auto simp: ks_check_auto_freeze_def Let_def auto_entry_def auto_trigger_def ks_auto_freeze_def
      save_strategy_eq update_update_same AUTO_FREEZE_CONSECUTIVE_LOSSES_def AUTO_FREEZE_DAILY_DD_PCT_def
      AUTO_FREEZE_SLIPPAGE_PIPS_def)

section \<open>Coherence of the fast path\<close>

text \<open>The cached flags say what the serialisable state says.\<close>

definition ks_coherent :: "kill_switch \<Rightarrow> bool" where
  "ks_coherent ks \<longleftrightarrow>
     ks_killed_cache ks = (truthy (gk_active (ks_state ks)) \<and> gk_mode (ks_state ks) = MODE_KILL) \<and>
     ks_frozen_cache ks = (truthy (gk_active (ks_state ks)) \<and> gk_mode (ks_state ks) = MODE_FREEZE)"

lemma put_frames [simp]:
  "ks_coherent (ks_put sid st ks) = ks_coherent ks"
  "ks_coherent (ks\<lparr>ks_disk := d\<rparr>) = ks_coherent ks"
  "ks_coherent (save_strategy env ev ks) = ks_coherent ks"
  "ks_coherent (save_global env ev ks) = ks_coherent ks"
  by (simp_all add: ks_coherent_def)

text \<open>The part of the state the strategy operations never touch.\<close>

definition global_part :: "kill_switch \<Rightarrow> bool \<times> global_kill_state \<times> bool \<times> bool" where
  "global_part ks = (ks_disabled ks, ks_state ks, ks_killed_cache ks, ks_frozen_cache ks)"

fun global_op :: "ks_op \<Rightarrow> bool" where
  "global_op (OpKill _ _ _) = True"
| "global_op (OpFreeze _ _) = True"
| "global_op (OpProfitTarget _ _ _) = True"
| "global_op (OpDeactivate _) = True"
| "global_op (OpPositionsClosed _) = True"
| "global_op _ = False"

lemma global_part_frames [simp]:
  "global_part (ks_put sid st ks) = global_part ks"
  "global_part (ks\<lparr>ks_disk := d\<rparr>) = global_part ks"
  "global_part (save_strategy env ev ks) = global_part ks"
  by (simp_all add: global_part_def)

lemma strategy_op_global_part:
  assumes "\<not> global_op op"
  shows "global_part (ks_step ks (env, op)) = global_part ks"
proof (cases op)
  case (OpRegister sid)
  then show ?thesis by (simp add: register_state)
next
  case (OpFreezeStrategy sid r b)
  then show ?thesis using freeze_strategy_state[of env sid r b ks] by (auto simp: Let_def split: if_splits)
next
  case (OpUnfreezeStrategy sid r)
  then show ?thesis using unfreeze_strategy_state[of env sid r ks] by (auto split: option.splits if_splits)
next
  case (OpCheckAutoFreeze sid n d p)
  then show ?thesis using check_auto_state[of env sid n d p ks] by (auto simp: Let_def split: if_splits)
qed (use assms in auto)

lemma coherent_global_part: "global_part ks = global_part ks' \<Longrightarrow> ks_coherent ks = ks_coherent ks'"
  by (simp add: global_part_def ks_coherent_def)

lemma freeze_coherent:
  "ks_coherent ks \<Longrightarrow> ks_coherent (state_of (ks_activate_global_freeze env r b ks))"
  unfolding freeze_state by (simp add: ks_coherent_def)

lemma kill_coherent:
  "ks_coherent ks \<Longrightarrow> ks_coherent (state_of (ks_activate_global_kill env r b c ks))"
  unfolding kill_state by (simp add: ks_coherent_def)

lemma deactivate_coherent: "ks_coherent ks \<Longrightarrow> ks_coherent (state_of (ks_deactivate env r ks))"
  unfolding deactivate_state by (simp add: ks_coherent_def gk_default_def)

lemma closed_coherent: "ks_coherent ks \<Longrightarrow> ks_coherent (state_of (ks_record_positions_closed env n ks))"
  unfolding closed_state by (simp add: ks_coherent_def)

lemma coherent_step: "ks_coherent ks \<Longrightarrow> ks_coherent (ks_step ks (env, op))"
proof (cases "global_op op")
  case False
  then show "ks_coherent ks \<Longrightarrow> ?thesis" using coherent_global_part strategy_op_global_part by blast
next
  case True
  assume c: "ks_coherent ks"
  show ?thesis
  proof (cases op)
    case (OpProfitTarget b x t)
    obtain r where "state_of (ks_activate_profit_target_freeze env b x t ks)
        = state_of (ks_activate_global_freeze env r b ks)" using profit_state by blast
    then show ?thesis using OpProfitTarget freeze_coherent[OF c] by simp
  qed (use True c in \<open>simp_all add: freeze_coherent kill_coherent deactivate_coherent closed_coherent\<close>)
qed

interpretation coherent_machine: invariant_machine ks_step "\<lambda>_. True" ks_coherent
  by unfold_locales (metis coherent_step surj_pair)

lemma load_state_frames:
  "ks_load_state env ks = Ret u ks' \<Longrightarrow> ks_disabled ks' = ks_disabled ks \<and> ks_strategies ks' = ks_strategies ks"
  by (auto simp: ks_load_state_def and_then_Ret_iff ks_save_state_def ks_append_history_def
      ks_assert_no_harness_write_def split: ks_file.splits sum.splits if_splits)

lemma load_strategies_frames:
  "ks_load_strategy_states ks = Ret u ks' \<Longrightarrow> global_part ks' = global_part ks \<and> ks_disk ks' = ks_disk ks"
  by (auto simp: ks_load_strategy_states_def global_part_def split: ks_file.splits sum.splits pyv.splits)

lemma init_coherent:
  assumes "ks_init env dis disk = Ret u ks"
  shows "ks_coherent ks"
proof -
  obtain ks1 where "ks_load_strategy_states
      (ks1\<lparr>ks_killed_cache := truthy (gk_active (ks_state ks1)) \<and> gk_mode (ks_state ks1) = MODE_KILL,
           ks_frozen_cache := truthy (gk_active (ks_state ks1)) \<and> gk_mode (ks_state ks1) = MODE_FREEZE\<rparr>) = Ret u ks"
    using assms by (auto simp: ks_init_def Let_def and_then_Ret_iff split: if_splits)
  from load_strategies_frames[OF this] show ?thesis by (auto simp: global_part_def ks_coherent_def)
qed

text \<open>
  C23. From construction on, after any sequence of operations under any environments (failed
  writes and refused harness writes included), the two cached flags read by
  \<open>is_globally_killed\<close> and \<open>is_globally_frozen\<close> agree with the state that \<open>is_active\<close> and
  \<open>get_status\<close> read: the switch is active with mode kill exactly when it reports killed, with
  mode freeze exactly when it reports frozen, and never both.
\<close>

theorem kill_switch_cache_coherent:
  assumes "ks_init env dis disk = Ret u ks0"
  shows "let ks = foldl ks_step ks0 es in
     ks_is_globally_killed ks = (ks_is_active ks \<and> gk_mode (ks_state ks) = MODE_KILL)
   \<and> ks_is_globally_frozen ks = (ks_is_active ks \<and> gk_mode (ks_state ks) = MODE_FREEZE)
   \<and> \<not> (ks_is_globally_killed ks \<and> ks_is_globally_frozen ks)"
proof -
  have "ks_coherent (foldl ks_step ks0 es)"
    by (rule coherent_machine.run_inv[OF init_coherent[OF assms]]) (simp add: list_all_iff)
  then show ?thesis
    by (auto simp: Let_def ks_coherent_def ks_is_globally_killed_def ks_is_globally_frozen_def ks_is_active_def)
qed

section \<open>An activation latches\<close>

text \<open>Trading is blocked globally: the switch is on and reports killed or frozen.\<close>

definition ks_blocked :: "kill_switch \<Rightarrow> bool" where
  "ks_blocked ks \<longleftrightarrow> ks_is_active ks \<and> (ks_is_globally_killed ks \<or> ks_is_globally_frozen ks)"

fun not_deactivate :: "ks_env \<times> ks_op \<Rightarrow> bool" where
  "not_deactivate (_, OpDeactivate _) = False"
| "not_deactivate _ = True"

lemmas ks_queries = ks_is_active_def ks_is_globally_killed_def ks_is_globally_frozen_def

lemma blocked_global_part: "global_part ks = global_part ks' \<Longrightarrow> ks_blocked ks = ks_blocked ks'"
  by (simp add: global_part_def ks_blocked_def ks_queries)

lemma freeze_blocked: "ks_blocked (state_of (ks_activate_global_freeze env r b ks)) = (\<not> ks_disabled ks)"
  unfolding freeze_state by (simp add: ks_blocked_def ks_queries)

lemma kill_blocked: "ks_blocked (state_of (ks_activate_global_kill env r b c ks)) = (\<not> ks_disabled ks)"
  unfolding kill_state by (simp add: ks_blocked_def ks_queries)

lemma closed_blocked: "ks_blocked (state_of (ks_record_positions_closed env n ks)) = ks_blocked ks"
  unfolding closed_state by (simp add: ks_blocked_def ks_queries)

lemma blocked_enabled: "ks_blocked ks \<Longrightarrow> \<not> ks_disabled ks"
  by (simp add: ks_blocked_def ks_is_active_def split: if_splits)

lemma blocked_step:
  assumes "ks_blocked ks" and "not_deactivate (env, op)"
  shows "ks_blocked (ks_step ks (env, op))"
proof (cases "global_op op")
  case False
  then show ?thesis using blocked_global_part strategy_op_global_part assms(1) by blast
next
  case True
  note enabled = blocked_enabled[OF assms(1)]
  show ?thesis
  proof (cases op)
    case (OpProfitTarget b x t)
    obtain r where "state_of (ks_activate_profit_target_freeze env b x t ks)
        = state_of (ks_activate_global_freeze env r b ks)" using profit_state by blast
    then show ?thesis using OpProfitTarget enabled by (simp add: freeze_blocked)
  qed (use True assms enabled in \<open>simp_all add: freeze_blocked kill_blocked closed_blocked\<close>)
qed

interpretation blocked_machine: invariant_machine ks_step not_deactivate ks_blocked
  by unfold_locales (metis blocked_step surj_pair)

text \<open>
  C3. An enabled kill switch latches: after a global kill, whatever its environment (a failed or
  refused write included), every further sequence of operations that contains no
  \<open>deactivate\<close> leaves the switch active and reporting killed or frozen.
\<close>

theorem kill_switch_latches:
  assumes "\<not> ks_disabled ks" and "list_all not_deactivate es"
  shows "let ks' = foldl ks_step (ks_step ks (env, OpKill r b c)) es in
     ks_is_active ks' \<and> (ks_is_globally_killed ks' \<or> ks_is_globally_frozen ks')"
proof -
  have "ks_blocked (ks_step ks (env, OpKill r b c))" using assms(1) by (simp add: kill_blocked)
  from blocked_machine.run_inv[OF this assms(2)] show ?thesis by (simp add: Let_def ks_blocked_def)
qed

section \<open>Durability\<close>

text \<open>
  The disk agrees with memory: the state file loads to the state in memory, and the strategy
  file loads to the same set of frozen strategies (its counters may be older).
\<close>

definition loads_state :: "ks_file \<Rightarrow> global_kill_state \<Rightarrow> bool" where
  "loads_state f g \<longleftrightarrow> (f = NoFile \<and> g = gk_default) \<or> (\<exists>v. f = Json v \<and> gk_from_dict v = Inr g)"

definition disk_strategies :: "ks_file \<Rightarrow> (string \<times> strategy_freeze_state) list option" where
  "disk_strategies f =
     (case f of
        NoFile \<Rightarrow> Some [] | Corrupt _ \<Rightarrow> Some [] | Unreadable \<Rightarrow> None
      | Json (PDict d) \<Rightarrow> (case dget_or d ''strategies'' (PDict []) of
            PDict ss \<Rightarrow> (case sf_load_all ss of Inl e \<Rightarrow> None | Inr sts \<Rightarrow> Some sts) | _ \<Rightarrow> None)
      | Json _ \<Rightarrow> None)"

definition frozen_in :: "(string \<times> strategy_freeze_state) list \<Rightarrow> string \<Rightarrow> bool" where
  "frozen_in sts sid = (case map_of sts sid of None \<Rightarrow> False | Some st \<Rightarrow> truthy (sf_frozen st))"

definition ks_durable :: "kill_switch \<Rightarrow> bool" where
  "ks_durable ks \<longleftrightarrow> loads_state (dk_state (ks_disk ks)) (ks_state ks) \<and>
     (\<exists>sts. disk_strategies (dk_strategies (ks_disk ks)) = Some sts \<and> frozen_in sts = frozen_in (ks_strategies ks))"

text \<open>The environments in which a write reaches the disk.\<close>

fun persists :: "ks_env \<times> ks_op \<Rightarrow> bool" where
  "persists (env, _) = (\<not> ks_unsafe env \<and> env_write_ok env)"

lemma sf_load_all_to_dict [simp]:
  "sf_load_all (map (\<lambda>(sid, st). (sid, sf_to_dict st)) sts) = Inr sts"
  by (induction sts) auto

lemma disk_strategies_saved [simp]: "disk_strategies (Json (ks_strategies_dict sts)) = Some sts"
  by (simp add: disk_strategies_def ks_strategies_dict_def)

lemma loads_saved [simp]: "loads_state (Json (gk_to_dict g)) g"
  by (simp add: loads_state_def)

lemma frozen_in_update:
  "frozen_in (AList.update sid st sts) = (frozen_in sts)(sid := truthy (sf_frozen st))"
  by (rule ext) (simp add: frozen_in_def dict_simps)

lemma durable_save_global:
  "ks_durable ks0 \<Longrightarrow> ks_disk ks = ks_disk ks0 \<Longrightarrow> ks_strategies ks = ks_strategies ks0 \<Longrightarrow>
   \<not> ks_unsafe env \<Longrightarrow> env_write_ok env \<Longrightarrow> ks_durable (save_global env ev ks)"
  by (simp add: ks_durable_def save_global_def)

lemma durable_save_strategy:
  "ks_durable ks0 \<Longrightarrow> ks_disk ks = ks_disk ks0 \<Longrightarrow> ks_state ks = ks_state ks0 \<Longrightarrow>
   \<not> ks_unsafe env \<Longrightarrow> env_write_ok env \<Longrightarrow> ks_durable (save_strategy env ev ks)"
  by (simp add: ks_durable_def save_strategy_def)

lemma durable_put_same:
  "ks_durable ks \<Longrightarrow> truthy (sf_frozen st) = frozen_in (ks_strategies ks) sid \<Longrightarrow> ks_durable (ks_put sid st ks)"
  by (auto simp: ks_durable_def frozen_in_update)

lemma frozen_entry: "truthy (sf_frozen (auto_entry sid n d p ks)) = frozen_in (ks_strategies ks) sid"
  by (simp add: auto_entry_def frozen_in_def dget_or_def sf_new_def split: option.split)

lemma frozen_start: "truthy (sf_frozen (dget_or (ks_strategies ks) sid (sf_new sid))) = frozen_in (ks_strategies ks) sid"
  by (simp add: frozen_in_def dget_or_def sf_new_def split: option.split)

lemma freeze_durable:
  "ks_durable ks \<Longrightarrow> persists (env, op) \<Longrightarrow> ks_durable (state_of (ks_activate_global_freeze env r b ks))"
  unfolding freeze_state by (auto intro: durable_save_global)

lemma durable_step:
  assumes "ks_durable ks" and ok: "persists (env, op)"
  shows "ks_durable (ks_step ks (env, op))"
proof (cases op)
  case (OpKill r b c)
  then show ?thesis using assms by (auto simp: kill_state intro: durable_save_global)
next
  case (OpFreeze r b)
  then show ?thesis using assms by (simp add: freeze_durable)
next
  case (OpProfitTarget b x t)
  obtain r where "state_of (ks_activate_profit_target_freeze env b x t ks)
      = state_of (ks_activate_global_freeze env r b ks)" using profit_state by blast
  then show ?thesis using OpProfitTarget assms freeze_durable by simp
next
  case (OpDeactivate r)
  then show ?thesis using assms by (auto simp: deactivate_state intro: durable_save_global)
next
  case (OpPositionsClosed n)
  then show ?thesis using assms by (auto simp: closed_state intro: durable_save_global)
next
  case (OpRegister sid)
  then show ?thesis using assms by (auto simp: register_state ks_durable_def)
next
  case (OpFreezeStrategy sid r b)
  then show ?thesis using assms freeze_strategy_state[of env sid r b ks]
    by (auto simp: Let_def split: if_splits simp: durable_save_strategy[of ks])
next
  case (OpUnfreezeStrategy sid r)
  then show ?thesis using assms unfreeze_strategy_state[of env sid r ks]
    by (auto split: option.splits if_splits simp: durable_save_strategy[of ks])
next
  case (OpCheckAutoFreeze sid n d p)
  let ?st = "auto_entry sid n d p ks"
  have "ks_durable (ks_put sid ?st ks)"
    using assms(1) frozen_entry by (rule durable_put_same)
  then show ?thesis using OpCheckAutoFreeze assms check_auto_state[of env sid n d p ks]
    by (auto simp: Let_def split: if_splits simp: durable_save_strategy[of ks])
qed

interpretation durable_machine: invariant_machine ks_step persists ks_durable
  by unfold_locales (metis durable_step surj_pair)

text \<open>What a restart on the same directory gives.\<close>

lemma load_strategies_result:
  "disk_strategies (dk_strategies (ks_disk ks)) = Some sts \<Longrightarrow> ks_strategies ks = [] \<Longrightarrow>
   ks_load_strategy_states ks = Ret () (ks\<lparr>ks_strategies := sts\<rparr>)"
  by (auto simp: disk_strategies_def ks_load_strategy_states_def split: ks_file.splits pyv.splits sum.splits)

lemma load_state_result:
  "loads_state (dk_state (ks_disk ks)) g \<Longrightarrow> ks_state ks = gk_default \<Longrightarrow>
   ks_load_state env ks = Ret () (ks\<lparr>ks_state := g\<rparr>)"
  by (auto simp: loads_state_def ks_load_state_def)

lemma durable_restart:
  assumes "ks_durable ks" and "\<not> ks_unsafe env"
  shows "\<exists>ks'. ks_init env (Some (ks_disabled ks)) (ks_disk ks) = Ret () ks' \<and> ks_disk ks' = ks_disk ks \<and>
     ks_disabled ks' = ks_disabled ks \<and> ks_state ks' = ks_state ks \<and> ks_coherent ks' \<and>
     frozen_in (ks_strategies ks') = frozen_in (ks_strategies ks)"
proof -
  obtain sts where sts: "disk_strategies (dk_strategies (ks_disk ks)) = Some sts"
      "frozen_in sts = frozen_in (ks_strategies ks)"
    and ld: "loads_state (dk_state (ks_disk ks)) (ks_state ks)"
    using assms(1) by (auto simp: ks_durable_def)
  let ?ks0 = "\<lparr>ks_disabled = ks_disabled ks, ks_state = gk_default, ks_killed_cache = False,
                ks_frozen_cache = False, ks_strategies = [], ks_disk = ks_disk ks\<rparr>"
  have l: "ks_load_state env ?ks0 = Ret () (?ks0\<lparr>ks_state := ks_state ks\<rparr>)"
    by (rule load_state_result) (simp_all add: ld)
  show ?thesis
    using assms(2) sts l
    by (auto simp: ks_init_def Let_def ks_unsafe_def load_strategies_result ks_coherent_def)
qed

text \<open>
  C13. Crash recovery: from a manager whose files agree with its memory, after any sequence
  of operations whose writes succeed, restarting on the same directory succeeds and gives the
  same global state (killed, frozen, active, status) and the same frozen strategies.
\<close>

theorem kill_switch_restart_restores:
  assumes "ks_durable ks0" and "list_all persists es" and "\<not> ks_unsafe env"
    and "ks = foldl ks_step ks0 es" and "ks_coherent ks0"
  shows "\<exists>ks'. ks_init env (Some (ks_disabled ks)) (ks_disk ks) = Ret () ks' \<and>
     ks_get_status ks' = ks_get_status ks \<and>
     ks_is_globally_killed ks' = ks_is_globally_killed ks \<and>
     ks_is_globally_frozen ks' = ks_is_globally_frozen ks \<and>
     ks_is_active ks' = ks_is_active ks \<and>
     (\<forall>sid. ks_is_strategy_frozen sid ks' = ks_is_strategy_frozen sid ks)"
proof -
  have d: "ks_durable ks" and c: "ks_coherent ks"
    using durable_machine.run_inv[OF assms(1,2)] coherent_machine.run_inv[OF assms(5), of es] assms(4)
    by (simp_all add: list_all_iff)
  obtain ks' where r: "ks_init env (Some (ks_disabled ks)) (ks_disk ks) = Ret () ks'"
      "ks_disabled ks' = ks_disabled ks" "ks_state ks' = ks_state ks" "ks_coherent ks'"
      "frozen_in (ks_strategies ks') = frozen_in (ks_strategies ks)"
    using durable_restart[OF d assms(3)] by blast
  have f: "ks_is_strategy_frozen sid k = frozen_in (ks_strategies k) sid" for sid k
    by (simp add: ks_is_strategy_frozen_def frozen_in_def)
  have "ks_killed_cache ks' = ks_killed_cache ks" "ks_frozen_cache ks' = ks_frozen_cache ks"
    using c r(3,4) by (simp_all add: ks_coherent_def)
  then show ?thesis using r(1,2,3,5) by (auto simp: ks_queries ks_get_status_def f)
qed

section \<open>Construction, fail-safe defaults and the harness guard\<close>

lemma init_of_load:
  assumes "\<not> ks_unsafe env"
    and "ks_load_state env \<lparr>ks_disabled = dis, ks_state = gk_default, ks_killed_cache = False,
           ks_frozen_cache = False, ks_strategies = [], ks_disk = disk\<rparr> = Ret () ks1"
    and "disk_strategies (dk_strategies (ks_disk ks1)) = Some sts" and "ks_strategies ks1 = []"
  shows "ks_init env (Some dis) disk = Ret () (ks1
     \<lparr>ks_killed_cache := truthy (gk_active (ks_state ks1)) \<and> gk_mode (ks_state ks1) = MODE_KILL,
      ks_frozen_cache := truthy (gk_active (ks_state ks1)) \<and> gk_mode (ks_state ks1) = MODE_FREEZE,
      ks_strategies := sts\<rparr>)"
proof -
  have "\<not> (ks_is_harness_mode env \<and> ks_is_production_state_dir env)"
    using assms(1) by (simp add: ks_unsafe_def)
  then show ?thesis
    using assms(2-4) by (simp only: ks_init_def Let_def option.case if_False and_then.simps)
      (simp add: load_strategies_result)
qed

text \<open>The state a corrupt file is replaced with.\<close>

definition gk_fail_safe :: "ks_env \<Rightarrow> global_kill_state" where
  "gk_fail_safe env = gk_default\<lparr>gk_active := PBool True, gk_mode := MODE_KILL,
     gk_reason := pstr ''corrupt_state_file'', gk_triggered_by := pstr ''system_fail_safe'',
     gk_triggered_at := py_iso (env_now env)\<rparr>"

lemma save_global_Ret:
  "\<not> ks_unsafe env \<Longrightarrow>
   and_then (ks_save_state env ks) (\<lambda>_. ks_append_history env ev) = Ret () (save_global env ev ks)"
  by (simp add: persist_Ret save_global_def)

lemma load_corrupt:
  assumes "\<not> ks_unsafe env" and "dk_state (ks_disk ks) = Corrupt err"
  shows "\<exists>ev. ks_load_state env ks = Ret () (save_global env ev (ks\<lparr>ks_state := gk_fail_safe env\<rparr>))"
  by (rule exI) (simp add: ks_load_state_def assms(2) gk_fail_safe_def save_global_Ret[OF assms(1)])


lemma unsafe_step_disk:
  assumes "ks_unsafe env"
  shows "ks_disk (ks_step ks (env, op)) = ks_disk ks"
proof (cases op)
  case (OpProfitTarget b x t)
  obtain r where "state_of (ks_activate_profit_target_freeze env b x t ks)
      = state_of (ks_activate_global_freeze env r b ks)" using profit_state by blast
  then show ?thesis using OpProfitTarget assms by (simp add: freeze_state save_global_def)
next
  case (OpFreezeStrategy sid r b)
  then show ?thesis using assms freeze_strategy_state[of env sid r b ks]
    by (auto simp: Let_def save_strategy_def split: if_splits)
next
  case (OpUnfreezeStrategy sid r)
  then show ?thesis using assms unfreeze_strategy_state[of env sid r ks]
    by (auto simp: save_strategy_def split: option.splits if_splits)
next
  case (OpCheckAutoFreeze sid n d p)
  then show ?thesis using assms check_auto_state[of env sid n d p ks]
    by (auto simp: Let_def save_strategy_def split: if_splits)
qed (use assms in \<open>simp_all add: kill_state freeze_state deactivate_state closed_state register_state save_global_def\<close>)

text \<open>The audit log only grows.\<close>

definition log_extends :: "kill_switch \<Rightarrow> kill_switch \<Rightarrow> bool" where
  "log_extends ks ks' \<longleftrightarrow> prefix (dk_history (ks_disk ks)) (dk_history (ks_disk ks'))"

lemma log_extends_saves [simp]:
  "ks_disk ks' = ks_disk ks \<Longrightarrow> log_extends ks (save_global env ev ks')"
  "ks_disk ks' = ks_disk ks \<Longrightarrow> log_extends ks (save_strategy env ev ks')"
  by (simp_all add: log_extends_def save_global_def save_strategy_def)

lemma log_extends_same: "ks_disk ks' = ks_disk ks \<Longrightarrow> log_extends ks ks'"
  by (simp add: log_extends_def)

lemma freeze_log: "log_extends ks (state_of (ks_activate_global_freeze env r b ks))"
  unfolding freeze_state by (simp add: log_extends_same)

lemma log_step: "log_extends ks (ks_step ks (env, op))"
proof (cases op)
  case (OpProfitTarget b x t)
  obtain r where "state_of (ks_activate_profit_target_freeze env b x t ks)
      = state_of (ks_activate_global_freeze env r b ks)" using profit_state by blast
  then show ?thesis using OpProfitTarget freeze_log by simp
next
  case (OpFreezeStrategy sid r b)
  then show ?thesis using freeze_strategy_state[of env sid r b ks]
    by (auto simp: Let_def log_extends_same split: if_splits)
next
  case (OpUnfreezeStrategy sid r)
  then show ?thesis using unfreeze_strategy_state[of env sid r ks]
    by (auto simp: log_extends_same split: option.splits if_splits)
next
  case (OpCheckAutoFreeze sid n d p)
  then show ?thesis using check_auto_state[of env sid n d p ks]
    by (auto simp: Let_def log_extends_same split: if_splits)
next
  case (OpRegister sid)
  then show ?thesis by (simp add: register_state log_extends_def)
qed (simp_all add: kill_state freeze_log deactivate_state closed_state log_extends_same)

interpretation log_machine: monotone_machine ks_step "\<lambda>_. True" log_extends
proof unfold_locales
  fix s t u :: kill_switch and e :: "ks_env \<times> ks_op"
  show "log_extends s s" by (simp add: log_extends_def)
  show "log_extends s t \<Longrightarrow> log_extends t u \<Longrightarrow> log_extends s u"
    unfolding log_extends_def by (rule prefix_order.trans)
  show "log_extends s (ks_step s e)" using log_step by (cases e) simp
qed

text \<open>The audit log is append-only over every sequence of operations and environments.\<close>

theorem kill_switch_audit_append_only:
  "prefix (dk_history (ks_disk ks)) (dk_history (ks_disk (foldl ks_step ks es)))"
  using log_machine.run_rel[of es ks] by (simp add: log_extends_def list_all_iff)

text \<open>
  A harness process whose state directory is not under a temporary directory cannot
  construct a manager, and no sequence of operations of one that exists changes any of its files.
\<close>

theorem kill_switch_harness_refused:
  assumes "ks_unsafe env"
  shows "raised (ks_init env d disk) \<and> ks_disk (foldl ks_step ks (map (Pair env) ops)) = ks_disk ks"
proof
  show "raised (ks_init env d disk)" using assms by (simp add: ks_init_def ks_unsafe_def)
  show "ks_disk (foldl ks_step ks (map (Pair env) ops)) = ks_disk ks"
    by (induction ops arbitrary: ks) (simp_all add: unsafe_step_disk[OF assms])
qed

section \<open>Strategies\<close>

fun op_strategy :: "ks_op \<Rightarrow> string option" where
  "op_strategy (OpRegister sid) = Some sid"
| "op_strategy (OpFreezeStrategy sid _ _) = Some sid"
| "op_strategy (OpUnfreezeStrategy sid _) = Some sid"
| "op_strategy (OpCheckAutoFreeze sid _ _ _) = Some sid"
| "op_strategy _ = None"

lemma other_strategy_step:
  assumes "op_strategy op \<noteq> Some sid"
  shows "map_of (ks_strategies (ks_step ks (env, op))) sid = map_of (ks_strategies ks) sid"
proof (cases op)
  case (OpProfitTarget b x t)
  obtain r where "state_of (ks_activate_profit_target_freeze env b x t ks)
      = state_of (ks_activate_global_freeze env r b ks)" using profit_state by blast
  then show ?thesis using OpProfitTarget by (simp add: freeze_state)
next
  case (OpRegister s)
  then show ?thesis using assms by (simp add: register_state dict_simps)
next
  case (OpFreezeStrategy s r b)
  then show ?thesis using assms freeze_strategy_state[of env s r b ks]
    by (auto simp: Let_def dict_simps split: if_splits)
next
  case (OpUnfreezeStrategy s r)
  then show ?thesis using assms unfreeze_strategy_state[of env s r ks]
    by (auto simp: dict_simps split: option.splits if_splits)
next
  case (OpCheckAutoFreeze s n d p)
  then show ?thesis using assms check_auto_state[of env s n d p ks]
    by (auto simp: Let_def dict_simps split: if_splits)
qed (simp_all add: kill_state freeze_state deactivate_state closed_state)

lemma other_strategies_run:
  "list_all (\<lambda>(env, op). op_strategy op \<noteq> Some sid) es \<Longrightarrow>
   map_of (ks_strategies (foldl ks_step ks es)) sid = map_of (ks_strategies ks) sid"
  by (induction es arbitrary: ks) (auto simp: other_strategy_step)

text \<open>
  Strategy freezes are isolated: a sequence of operations none of which names a strategy
  leaves the status of that strategy as it was, global kills and deactivations included; and
  no operation on a strategy changes what the global switch reports.
\<close>

theorem kill_switch_strategy_isolation:
  assumes "list_all (\<lambda>(env, op). op_strategy op \<noteq> Some sid) es" and "op_strategy op = Some s"
  shows "ks_get_strategy_status sid (foldl ks_step ks es) = ks_get_strategy_status sid ks \<and>
     ks_is_strategy_frozen sid (foldl ks_step ks es) = ks_is_strategy_frozen sid ks \<and>
     ks_get_status (ks_step ks (env, op)) = ks_get_status ks \<and>
     ks_is_globally_killed (ks_step ks (env, op)) = ks_is_globally_killed ks \<and>
     ks_is_globally_frozen (ks_step ks (env, op)) = ks_is_globally_frozen ks"
proof -
  have "\<not> global_op op" using assms(2) by (cases op) auto
  from strategy_op_global_part[OF this, of ks env] show ?thesis
    by (simp add: ks_get_strategy_status_def ks_is_strategy_frozen_def other_strategies_run[OF assms(1)]
        global_part_def ks_get_status_def ks_queries)
qed

text \<open>
  The auto-freeze rule: the check returns True and freezes the strategy, persisting it,
  exactly when the strategy was not frozen and has at least 3 consecutive losses, a daily
  drawdown of at least 1.5 percent or at least 5 pips of slippage; otherwise it returns False,
  leaves the frozen flag and writes nothing. In both cases the counters are recorded.
\<close>

theorem kill_switch_auto_freeze_rule:
  assumes "\<not> ks_unsafe env"
  shows "\<exists>ks' st. ks_check_auto_freeze env sid n d p ks =
       Ret (\<not> ks_is_strategy_frozen sid ks \<and> (3 \<le> n \<or> 3/2 \<le> d \<or> 5 \<le> p)) ks' \<and>
     ks_is_strategy_frozen sid ks' = (ks_is_strategy_frozen sid ks \<or> 3 \<le> n \<or> 3/2 \<le> d \<or> 5 \<le> p) \<and>
     map_of (ks_strategies ks') sid = Some st \<and> sf_consecutive_losses st = PInt n \<and>
     sf_daily_dd_pct st = PFloat d \<and> sf_last_slippage_pips st = PFloat p \<and>
     (if \<not> ks_is_strategy_frozen sid ks \<and> (3 \<le> n \<or> 3/2 \<le> d \<or> 5 \<le> p) \<and> env_write_ok env
      then disk_strategies (dk_strategies (ks_disk ks')) = Some (ks_strategies ks')
      else dk_strategies (ks_disk ks') = dk_strategies (ks_disk ks))"
proof -
  have f: "ks_is_strategy_frozen sid ks = truthy (sf_frozen (auto_entry sid n d p ks))"
    by (simp add: frozen_entry ks_is_strategy_frozen_def frozen_in_def)
  have ret: "ks_check_auto_freeze env sid n d p ks =
      Ret (\<not> truthy (sf_frozen (auto_entry sid n d p ks)) \<and> auto_trigger n d p) (state_of (ks_check_auto_freeze env sid n d p ks))"
    using assms by (simp add: ks_check_auto_freeze_def Let_def auto_entry_def auto_trigger_def ks_auto_freeze_def
        persist_Ret AUTO_FREEZE_CONSECUTIVE_LOSSES_def AUTO_FREEZE_DAILY_DD_PCT_def AUTO_FREEZE_SLIPPAGE_PIPS_def)
  have cnt: "sf_consecutive_losses (auto_entry sid n d p ks) = PInt n"
    "sf_daily_dd_pct (auto_entry sid n d p ks) = PFloat d" "sf_last_slippage_pips (auto_entry sid n d p ks) = PFloat p"
    by (simp_all add: auto_entry_def)
  show ?thesis unfolding f auto_trigger_def[symmetric]
    using check_auto_state[of env sid n d p ks] ret assms
    by (cases "truthy (sf_frozen (auto_entry sid n d p ks)) \<or> \<not> auto_trigger n d p")
      (auto simp: Let_def dict_simps ks_is_strategy_frozen_def cnt save_strategy_def)
qed

text \<open>
  A global freeze on top of a global kill whose positions are still open replaces it: the
  switch reports frozen and no longer killed, and the record says the positions are closed, with
  a count of zero, although no close was recorded.
\<close>

theorem kill_switch_freeze_overrides_kill:
  assumes "\<not> ks_disabled ks" and "ks' = ks_step (ks_step ks (e1, OpKill r1 b1 True)) (e2, OpFreeze r2 b2)"
  shows "\<not> ks_is_globally_killed ks' \<and> ks_is_globally_frozen ks' \<and>
     gk_positions_closed (ks_state (ks_step ks (e1, OpKill r1 b1 True))) = PBool False \<and>
     gk_positions_closed (ks_state ks') = PBool True \<and> gk_close_count (ks_state ks') = PInt 0"
  using assms by (simp add: kill_state freeze_state ks_queries)

section \<open>Concrete instances\<close>

text \<open>A production process whose writes succeed, a harness process, and a fresh manager.\<close>

definition prod_env :: ks_env where
  "prod_env = \<lparr>env_vars = [], env_resolved_dir = Some ''/srv/ayumi/data/kill_switches'',
     env_tmpdir = Some ''/tmp'', env_now = 1000, env_write_ok = True, env_append_ok = True\<rparr>"

definition harness_env :: ks_env where
  "harness_env = prod_env\<lparr>env_vars := [(''AYUMI_HARNESS'', '' True '')]\<rparr>"

definition blank_disk :: ks_disk where
  "blank_disk = \<lparr>dk_state = NoFile, dk_strategies = NoFile, dk_history = []\<rparr>"

definition fresh_ks :: kill_switch where
  "fresh_ks = \<lparr>ks_disabled = False, ks_state = gk_default, ks_killed_cache = False, ks_frozen_cache = False,
     ks_strategies = [], ks_disk = blank_disk\<rparr>"

lemma prod_env_safe: "\<not> ks_unsafe prod_env"
  by (simp add: ks_unsafe_def ks_is_harness_mode_def HARNESS_ENV_VARS_def prod_env_def py_lower_def py_strip_def)

lemma harness_env_unsafe: "ks_unsafe harness_env"
  by code_simp

lemma fresh_ks_init: "ks_init prod_env (Some False) blank_disk = Ret () fresh_ks"
  by (simp add: init_of_load[OF prod_env_safe, where ?ks1.0 = fresh_ks and sts = "[]"] fresh_ks_def blank_disk_def
      ks_load_state_def disk_strategies_def gk_default_def)

lemma fresh_ks_durable: "ks_durable fresh_ks"
  by (simp add: ks_durable_def fresh_ks_def blank_disk_def loads_state_def disk_strategies_def)

lemma fresh_ks_coherent: "ks_coherent fresh_ks"
  by (rule init_coherent[OF fresh_ks_init])

lemma fresh_ks_enabled: "\<not> ks_disabled fresh_ks"
  by (simp add: fresh_ks_def)

definition sample_ops :: "(ks_env \<times> ks_op) list" where
  "sample_ops = [(prod_env, OpFreezeStrategy ''orb'' [Lit ''manual''] ''api''),
     (prod_env, OpKill [Lit ''drawdown''] ''ftmo_guard'' True),
     (prod_env, OpCheckAutoFreeze ''fade'' 1 0 0)]"

lemma sample_ops_persist: "list_all persists sample_ops" and sample_ops_latched: "list_all not_deactivate sample_ops"
  by (simp_all add: sample_ops_def prod_env_safe) (simp_all add: prod_env_def)

theorem kill_switch_cache_coherent_witness:
  "let ks = foldl ks_step fresh_ks sample_ops in
     ks_is_globally_killed ks = (ks_is_active ks \<and> gk_mode (ks_state ks) = MODE_KILL)
   \<and> ks_is_globally_frozen ks = (ks_is_active ks \<and> gk_mode (ks_state ks) = MODE_FREEZE)
   \<and> \<not> (ks_is_globally_killed ks \<and> ks_is_globally_frozen ks)"
  by (rule kill_switch_cache_coherent[OF fresh_ks_init])

theorem kill_switch_latches_witness:
  "let ks' = foldl ks_step (ks_step fresh_ks (prod_env, OpKill [Lit ''x''] ''api'' True)) sample_ops in
     ks_is_active ks' \<and> (ks_is_globally_killed ks' \<or> ks_is_globally_frozen ks')"
  by (rule kill_switch_latches[OF fresh_ks_enabled sample_ops_latched])

theorem kill_switch_restart_restores_witness:
  "\<exists>ks ks'. ks = foldl ks_step fresh_ks sample_ops \<and>
     ks_init prod_env (Some (ks_disabled ks)) (ks_disk ks) = Ret () ks' \<and>
     ks_is_globally_killed ks' = ks_is_globally_killed ks \<and> ks_is_strategy_frozen ''orb'' ks' = ks_is_strategy_frozen ''orb'' ks"
  using kill_switch_restart_restores[OF fresh_ks_durable sample_ops_persist prod_env_safe refl fresh_ks_coherent]
  by blast


theorem kill_switch_harness_refused_witness:
  "raised (ks_init harness_env None blank_disk) \<and>
   ks_disk (foldl ks_step fresh_ks (map (Pair harness_env) [OpKill [] ''api'' True, OpRegister ''orb''])) = blank_disk"
  using kill_switch_harness_refused[OF harness_env_unsafe, of None blank_disk fresh_ks
      "[OpKill [] ''api'' True, OpRegister ''orb'']"]
  by (simp add: fresh_ks_def)

theorem kill_switch_strategy_isolation_witness:
  "ks_is_strategy_frozen ''gap'' (foldl ks_step fresh_ks sample_ops) = ks_is_strategy_frozen ''gap'' fresh_ks \<and>
   ks_is_globally_killed (ks_step fresh_ks (prod_env, OpRegister ''gap'')) = ks_is_globally_killed fresh_ks"
  using kill_switch_strategy_isolation[of "''gap''" sample_ops "OpRegister ''gap''" "''gap''" fresh_ks prod_env]
  by (simp add: sample_ops_def)

theorem kill_switch_auto_freeze_rule_witness:
  "\<exists>ks'. ks_check_auto_freeze prod_env ''orb'' 3 0 0 fresh_ks = Ret True ks' \<and> ks_is_strategy_frozen ''orb'' ks'"
  using kill_switch_auto_freeze_rule[OF prod_env_safe, of "''orb''" 3 0 0 fresh_ks]
  by (auto simp: fresh_ks_def ks_is_strategy_frozen_def)

theorem kill_switch_freeze_overrides_kill_witness:
  "\<exists>ks'. ks' = ks_step (ks_step fresh_ks (prod_env, OpKill [] ''api'' True)) (prod_env, OpFreeze [] ''ftmo'') \<and>
     \<not> ks_is_globally_killed ks' \<and> ks_is_globally_frozen ks'"
  using kill_switch_freeze_overrides_kill[OF fresh_ks_enabled refl] by blast

end
