(* ===== verification/FtmoParams.thy ===== *)
theory FtmoParams
  imports Prelude
begin

text \<open>The canonical FTMO parameters of \<open>risk/ftmo_params.py\<close>, shared by the guards.\<close>

definition FTMO_DAILY_DD_LIMIT_PCT :: flt where "FTMO_DAILY_DD_LIMIT_PCT = 3/100"
definition FTMO_TOTAL_DD_LIMIT_PCT :: flt where "FTMO_TOTAL_DD_LIMIT_PCT = 1/10"
definition FTMO_REFERENCE_ACCOUNT_SIZE :: flt where "FTMO_REFERENCE_ACCOUNT_SIZE = 10000"
definition FTMO_RISK_PER_TRADE_PCT :: flt where "FTMO_RISK_PER_TRADE_PCT = 5/1000"
definition FTMO_MAX_CONCURRENT_POSITIONS :: int where "FTMO_MAX_CONCURRENT_POSITIONS = 3"
definition FTMO_MAX_TRADES_PER_DAY :: int where "FTMO_MAX_TRADES_PER_DAY = 10"
definition FTMO_MIN_RISK_REWARD :: flt where "FTMO_MIN_RISK_REWARD = 3/2"
definition FTMO_BEST_DAY_CAP_PCT :: flt where "FTMO_BEST_DAY_CAP_PCT = 1/2"
definition FTMO_BEST_DAY_ENFORCE_PCT :: flt where "FTMO_BEST_DAY_ENFORCE_PCT = 2/5"

lemmas ftmo_params = FTMO_DAILY_DD_LIMIT_PCT_def FTMO_TOTAL_DD_LIMIT_PCT_def FTMO_REFERENCE_ACCOUNT_SIZE_def
  FTMO_RISK_PER_TRADE_PCT_def FTMO_MAX_CONCURRENT_POSITIONS_def FTMO_MAX_TRADES_PER_DAY_def
  FTMO_MIN_RISK_REWARD_def FTMO_BEST_DAY_CAP_PCT_def FTMO_BEST_DAY_ENFORCE_PCT_def

end
