(* ===== verification/FtmoGuard.thy ===== *)
theory FtmoGuard
  imports KillSwitchSafety FtmoParams
begin

text \<open>
  The FTMO rule guard of \<open>risk/ftmo_guard.py\<close>. The guard talks to its kill switch only through the protocol
  \<open>KillSwitchLike\<close>: here a record of operations, with the laws the guard relies on in the locale
  \<open>kill_switch_api\<close>, interpreted on the kill switch manager. The time zone database is a
  parameter \<open>tz\<close>: the offset from UTC of America/Toronto at an instant.
\<close>

section \<open>Types\<close>

datatype challenge_type = ONE_STEP | TWO_STEP

definition CHALLENGE_DAILY_LOSS_PCT :: "challenge_type \<Rightarrow> flt" where
  "CHALLENGE_DAILY_LOSS_PCT c = (case c of ONE_STEP \<Rightarrow> FTMO_DAILY_DD_LIMIT_PCT * 100 | TWO_STEP \<Rightarrow> 5)"

definition trading_date :: "(instant \<Rightarrow> int) \<Rightarrow> instant \<Rightarrow> day" where
  "trading_date tz now = (now + tz now) div day_us"

datatype ftmo_breach_type =
    DAILY_LOSS
  | POSITION_LIMIT
  | DD_REDUCE
  | DD_FREEZE
  | BEST_DAY_RULE
  | TRAILING_DD_FLOOR

datatype ftmo_action = ALLOW | REDUCE_50 | FREEZE | KILL

text \<open>The actions in the order of severity.\<close>

instantiation ftmo_action :: linorder
begin

definition severity :: "ftmo_action \<Rightarrow> nat" where
  "severity a = (case a of ALLOW \<Rightarrow> 0 | REDUCE_50 \<Rightarrow> 1 | FREEZE \<Rightarrow> 2 | KILL \<Rightarrow> 3)"

definition less_eq_ftmo_action :: "ftmo_action \<Rightarrow> ftmo_action \<Rightarrow> bool" where
  "less_eq_ftmo_action a b \<longleftrightarrow> severity a \<le> severity b"

definition less_ftmo_action :: "ftmo_action \<Rightarrow> ftmo_action \<Rightarrow> bool" where
  "less_ftmo_action a b \<longleftrightarrow> severity a < severity b"

instance
  by standard (auto simp: less_eq_ftmo_action_def less_ftmo_action_def severity_def split: ftmo_action.splits)

end

text \<open>The protocol \<open>KillSwitchLike\<close>.\<close>

record 'k kill_switch_like =
  kl_activate_global_freeze :: "ptext \<Rightarrow> string \<Rightarrow> 'k \<Rightarrow> ('k, unit) outcome"
  kl_activate_global_kill :: "ptext \<Rightarrow> string \<Rightarrow> bool \<Rightarrow> 'k \<Rightarrow> ('k, unit) outcome"
  kl_is_active :: "'k \<Rightarrow> bool"

record breach_event =
  be_ts :: instant
  be_type :: ftmo_breach_type
  be_detail :: ptext
  be_action :: ftmo_action
  be_daily_loss_pct :: flt
  be_dd_pct :: flt
  be_open_positions :: int

record day_pnl =
  dp_date :: day
  dp_pnl :: flt

record ftmo_state =
  fs_starting_balance :: flt
  fs_peak_balance :: flt
  fs_current_balance :: flt
  fs_daily_loss_pct :: flt
  fs_daily_loss_date :: "day option"
  fs_open_position_count :: int
  fs_current_dd_pct :: flt
  fs_action_level :: ftmo_action
  fs_breach_history :: "breach_event list"
  fs_daily_pnl :: flt
  fs_daily_pnl_date :: "day option"
  fs_daily_pnl_history :: "day_pnl list"
  fs_challenge_type :: challenge_type
  fs_highest_midnight_balance :: flt

record ftmo_guard =
  fg_max_daily_loss_pct :: flt
  fg_max_positions :: int
  fg_dd_reduce_pct :: flt
  fg_dd_freeze_pct :: flt
  fg_best_day_cap_pct :: flt
  fg_challenge_type :: challenge_type
  fg_trailing_dd_enabled :: bool
  fg_state :: ftmo_state

section \<open>Operations\<close>

abbreviation MAX_PNL_HISTORY :: nat where "MAX_PNL_HISTORY \<equiv> 60"

definition fg_init ::
  "(instant \<Rightarrow> int) \<Rightarrow> instant \<Rightarrow> flt \<Rightarrow> flt option \<Rightarrow> int \<Rightarrow> flt \<Rightarrow> flt \<Rightarrow> flt \<Rightarrow> challenge_type \<Rightarrow> bool
   \<Rightarrow> pyexn + ftmo_guard" where
  "fg_init tz now starting_balance max_daily_loss_pct max_positions dd_reduce dd_freeze cap ctype trailing =
     (if dd_reduce \<ge> dd_freeze then Inl ValueError
      else case (case max_daily_loss_pct of
                   Some p \<Rightarrow> (if p \<le> 0 then None else Some p)
                 | None \<Rightarrow> Some (CHALLENGE_DAILY_LOSS_PCT ctype)) of
        None \<Rightarrow> Inl ValueError
      | Some loss_pct \<Rightarrow> Inr
          \<lparr>fg_max_daily_loss_pct = loss_pct, fg_max_positions = max_positions, fg_dd_reduce_pct = dd_reduce,
           fg_dd_freeze_pct = dd_freeze, fg_best_day_cap_pct = cap, fg_challenge_type = ctype,
           fg_trailing_dd_enabled = trailing,
           fg_state =
             \<lparr>fs_starting_balance = starting_balance, fs_peak_balance = starting_balance,
              fs_current_balance = starting_balance, fs_daily_loss_pct = 0,
              fs_daily_loss_date = Some (trading_date tz now), fs_open_position_count = 0,
              fs_current_dd_pct = 0, fs_action_level = ALLOW, fs_breach_history = [], fs_daily_pnl = 0,
              fs_daily_pnl_date = Some (trading_date tz now), fs_daily_pnl_history = [],
              fs_challenge_type = ctype, fs_highest_midnight_balance = starting_balance\<rparr>\<rparr>)"

text \<open>Construction with the default parameters.\<close>

definition fg_default :: "(instant \<Rightarrow> int) \<Rightarrow> instant \<Rightarrow> flt \<Rightarrow> pyexn + ftmo_guard" where
  "fg_default tz now starting_balance =
     fg_init tz now starting_balance None FTMO_MAX_CONCURRENT_POSITIONS 8 9 FTMO_BEST_DAY_CAP_PCT ONE_STEP False"

definition fg_set_action :: "ftmo_action \<Rightarrow> ftmo_state \<Rightarrow> ftmo_state" where
  "fg_set_action action st =
     (let old = fs_action_level st in
      if action = ALLOW then st\<lparr>fs_action_level := action\<rparr>
      else if old = FREEZE \<and> action = REDUCE_50 then st
      else if old = KILL \<and> action \<noteq> KILL then st
      else st\<lparr>fs_action_level := action\<rparr>)"

definition fg_push_day :: "day \<Rightarrow> ftmo_state \<Rightarrow> ftmo_state" where
  "fg_push_day date st =
     (let history = fs_daily_pnl_history st @ [\<lparr>dp_date = date, dp_pnl = fs_daily_pnl st\<rparr>]
      in st\<lparr>fs_daily_pnl_history :=
              (if length history > MAX_PNL_HISTORY then drop (length history - MAX_PNL_HISTORY) history
               else history)\<rparr>)"

definition fg_compute_floor :: "ftmo_guard \<Rightarrow> flt" where
  "fg_compute_floor g =
     (case fg_challenge_type g of
        ONE_STEP \<Rightarrow> fs_highest_midnight_balance (fg_state g)
      | TWO_STEP \<Rightarrow> fs_starting_balance (fg_state g)) * (1 - FTMO_TOTAL_DD_LIMIT_PCT)"

definition fg_is_trailing_floor_breached :: "ftmo_guard \<Rightarrow> bool" where
  "fg_is_trailing_floor_breached g \<longleftrightarrow> fs_current_balance (fg_state g) < fg_compute_floor g"

definition fg_positive_days :: "ftmo_state \<Rightarrow> flt list" where
  "fg_positive_days st =
     filter (\<lambda>pnl. pnl > 0) (map dp_pnl (fs_daily_pnl_history st))
     @ (if fs_daily_pnl st > 0 then [fs_daily_pnl st] else [])"

definition fg_check_best_day_rule :: "ftmo_guard \<Rightarrow> ptext option" where
  "fg_check_best_day_rule g =
     (let days = fg_positive_days (fg_state g) in
      if length days < 2 then None
      else
        let total = sum_list days; best = Max (set days);
            ratio = (if total > 0 then best / total else 0)
        in if ratio > fg_best_day_cap_pct g
           then Some [Lit ''Best day profit '', FFix 2 best, Lit '' is '', FPercent 1 ratio,
                      Lit '' of total positive-days profit '', FFix 2 total, Lit '' (cap: '',
                      FPercent 0 (fg_best_day_cap_pct g), Lit '')'']
           else None)"

definition fg_record_daily_pnl :: "(instant \<Rightarrow> int) \<Rightarrow> instant \<Rightarrow> flt \<Rightarrow> day option \<Rightarrow> ftmo_guard \<Rightarrow> ftmo_guard" where
  "fg_record_daily_pnl tz now pnl date g =
     (let date = (case date of Some d \<Rightarrow> d | None \<Rightarrow> trading_date tz now);
          st = fg_state g;
          st1 = (if fs_daily_pnl_date st \<noteq> Some date
                 then (case fs_daily_pnl_date st of Some d \<Rightarrow> fg_push_day d st | None \<Rightarrow> st)
                        \<lparr>fs_daily_pnl := 0, fs_daily_pnl_date := Some date\<rparr>
                 else st)
      in g\<lparr>fg_state := st1\<lparr>fs_daily_pnl := fs_daily_pnl st1 + pnl\<rparr>\<rparr>)"

definition fg_record_midnight_balance :: "flt \<Rightarrow> ftmo_guard \<Rightarrow> ftmo_guard" where
  "fg_record_midnight_balance balance g =
     (if balance > fs_highest_midnight_balance (fg_state g)
      then g\<lparr>fg_state := (fg_state g)\<lparr>fs_highest_midnight_balance := balance\<rparr>\<rparr> else g)"

text \<open>
  The methods that may call the kill switch act on the guard together with the kill switch it
  was given (\<open>None\<close>: no kill switch). \<open>clock\<close> is the wall clock of the breach record.
\<close>

type_synonym ('k, 'a) fg_result = "(ftmo_guard \<times> 'k option, 'a) outcome"

definition fg_call :: "('k \<Rightarrow> ('k, unit) outcome) \<Rightarrow> ftmo_guard \<Rightarrow> 'k option \<Rightarrow> ('k, unit) fg_result" where
  "fg_call f g k =
     (case k of
        None \<Rightarrow> Ret () (g, None)
      | Some ks \<Rightarrow> (case f ks of Ret _ ks' \<Rightarrow> Ret () (g, Some ks') | Exc e ks' \<Rightarrow> Exc e (g, Some ks')))"

definition fg_breach ::
  "'k kill_switch_like \<Rightarrow> instant \<Rightarrow> ftmo_breach_type \<Rightarrow> ptext \<Rightarrow> ftmo_action \<Rightarrow> ftmo_guard \<times> 'k option
   \<Rightarrow> ('k, unit) fg_result" where
  "fg_breach api clock btype detail action gk =
     (let (g, k) = gk; st = fg_state g;
          event = \<lparr>be_ts = clock, be_type = btype, be_detail = detail, be_action = action,
                   be_daily_loss_pct = fs_daily_loss_pct st, be_dd_pct = fs_current_dd_pct st,
                   be_open_positions = fs_open_position_count st\<rparr>;
          st1 = fg_set_action action (st\<lparr>fs_breach_history := fs_breach_history st @ [event]\<rparr>);
          g1 = g\<lparr>fg_state := st1\<rparr>
      in if action = FREEZE then
           fg_call (kl_activate_global_freeze api (Lit ''FTMO: '' # detail) ''ftmo_guard'') g1 k
         else if action = KILL then
           fg_call (kl_activate_global_kill api (Lit ''FTMO: '' # detail) ''ftmo_guard'' True) g1 k
         else Ret () (g1, k))"

text \<open>The parts of \<open>update\<close>: the reset at the change of the trading date, the metrics, the rules.\<close>

definition fg_daily_reset :: "day \<Rightarrow> ftmo_state \<Rightarrow> ftmo_state" where
  "fg_daily_reset today st =
     (if fs_daily_loss_date st \<noteq> Some today then
        let st1 = (case fs_daily_pnl_date st of
                     Some d \<Rightarrow> (if d \<noteq> today then fg_push_day d st else st)
                   | None \<Rightarrow> st);
            st2 = st1\<lparr>fs_daily_loss_pct := 0, fs_daily_loss_date := Some today,
                      fs_daily_pnl := 0, fs_daily_pnl_date := Some today\<rparr>
        in if fs_action_level st2 = FREEZE then fg_set_action ALLOW st2 else st2
      else st)"

definition fg_metrics :: "flt \<Rightarrow> int \<Rightarrow> ftmo_state \<Rightarrow> ftmo_state" where
  "fg_metrics current_balance open_positions st =
     (let peak = (if current_balance > fs_peak_balance st then current_balance else fs_peak_balance st);
          start = fs_starting_balance st
      in st\<lparr>fs_current_balance := current_balance,
            fs_open_position_count := open_positions,
            fs_peak_balance := peak,
            fs_daily_loss_pct := (if start > 0 then max 0 ((start - current_balance) / start * 100)
                                  else fs_daily_loss_pct st),
            fs_current_dd_pct := (if peak > 0 then max 0 ((peak - current_balance) / peak * 100) else 0)\<rparr>)"

definition fg_check_rules :: "flt \<Rightarrow> int \<Rightarrow> ftmo_guard \<Rightarrow> (ftmo_breach_type \<times> ptext \<times> ftmo_action) option" where
  "fg_check_rules current_balance open_positions g =
     (let st = fg_state g in
      case fg_check_best_day_rule g of
        Some violation \<Rightarrow> Some (BEST_DAY_RULE, violation, FREEZE)
      | None \<Rightarrow>
          if fs_daily_loss_pct st \<ge> fg_max_daily_loss_pct g then
            Some (DAILY_LOSS, [Lit ''Daily loss '', FFix 2 (fs_daily_loss_pct st), Lit ''% >= limit '',
                               FFloat (fg_max_daily_loss_pct g), Lit ''%''], FREEZE)
          else if fg_trailing_dd_enabled g \<and> fg_is_trailing_floor_breached g then
            Some (TRAILING_DD_FLOOR, [Lit ''Balance '', FFix 2 current_balance, Lit '' < trailing floor '',
                                      FFix 2 (fg_compute_floor g)], FREEZE)
          else if fs_current_dd_pct st \<ge> fg_dd_freeze_pct g then
            Some (DD_FREEZE, [Lit ''Drawdown '', FFix 2 (fs_current_dd_pct st), Lit ''% >= freeze threshold '',
                              FFloat (fg_dd_freeze_pct g), Lit ''%''], FREEZE)
          else if fs_current_dd_pct st \<ge> fg_dd_reduce_pct g then
            Some (DD_REDUCE, [Lit ''Drawdown '', FFix 2 (fs_current_dd_pct st), Lit ''% >= reduce threshold '',
                              FFloat (fg_dd_reduce_pct g), Lit ''%''], REDUCE_50)
          else if open_positions > fg_max_positions g then
            Some (POSITION_LIMIT, [Lit ''Positions '', FInt open_positions, Lit '' > max '',
                                   FInt (fg_max_positions g)], FREEZE)
          else None)"

definition fg_update ::
  "'k kill_switch_like \<Rightarrow> (instant \<Rightarrow> int) \<Rightarrow> instant \<Rightarrow> instant \<Rightarrow> flt \<Rightarrow> int \<Rightarrow> ftmo_guard \<times> 'k option
   \<Rightarrow> ('k, ftmo_action) fg_result" where
  "fg_update api tz clock now current_balance open_positions gk =
     (let (g, k) = gk;
          g1 = g\<lparr>fg_state := fg_metrics current_balance open_positions
                                (fg_daily_reset (trading_date tz now) (fg_state g))\<rparr>
      in case fg_check_rules current_balance open_positions g1 of
           Some (btype, detail, action) \<Rightarrow>
             and_then (fg_breach api clock btype detail action (g1, k))
               (\<lambda>_ (g2, k2). Ret (fs_action_level (fg_state g2)) (g2, k2))
         | None \<Rightarrow>
             let g2 = (if fs_action_level (fg_state g1) \<noteq> ALLOW
                       then g1\<lparr>fg_state := fg_set_action ALLOW (fg_state g1)\<rparr> else g1)
             in Ret (fs_action_level (fg_state g2)) (g2, k))"

definition fg_should_allow_new_position :: "ftmo_guard \<Rightarrow> bool \<times> ptext" where
  "fg_should_allow_new_position g =
     (let st = fg_state g; level = fs_action_level st in
      if level = FREEZE then
        (False, [Lit ''FTMO freeze active: daily_loss='', FFix 2 (fs_daily_loss_pct st), Lit ''%, dd='',
                 FFix 2 (fs_current_dd_pct st), Lit ''%''])
      else if level = KILL then (False, [Lit ''FTMO kill active - all positions should be closed''])
      else if fs_open_position_count st \<ge> fg_max_positions g then
        (False, [Lit ''Position limit reached: '', FInt (fs_open_position_count st), Lit ''/'', FInt (fg_max_positions g)])
      else if level = REDUCE_50 then (True, [Lit ''FTMO reduce mode - halve position size''])
      else (True, [Lit ''OK'']))"

definition fg_get_size_multiplier :: "ftmo_guard \<Rightarrow> flt" where
  "fg_get_size_multiplier g =
     (let level = fs_action_level (fg_state g) in
      if level = FREEZE \<or> level = KILL then 0 else if level = REDUCE_50 then 1/2 else 1)"

section \<open>The effect of an update on the guard\<close>

text \<open>
  The guard part of an update does not depend on the kill switch; the result differs only when
  the kill switch raises.
\<close>

definition fg_after ::
  "(instant \<Rightarrow> int) \<Rightarrow> instant \<Rightarrow> instant \<Rightarrow> flt \<Rightarrow> int \<Rightarrow> ftmo_guard \<Rightarrow> ftmo_guard" where
  "fg_after tz clock now balance positions g =
     (let g1 = g\<lparr>fg_state := fg_metrics balance positions (fg_daily_reset (trading_date tz now) (fg_state g))\<rparr>;
          st = fg_state g1
      in case fg_check_rules balance positions g1 of
           Some (btype, detail, action) \<Rightarrow>
             g1\<lparr>fg_state := fg_set_action action (st\<lparr>fs_breach_history := fs_breach_history st @
                [\<lparr>be_ts = clock, be_type = btype, be_detail = detail, be_action = action,
                  be_daily_loss_pct = fs_daily_loss_pct st, be_dd_pct = fs_current_dd_pct st,
                  be_open_positions = fs_open_position_count st\<rparr>]\<rparr>)\<rparr>
         | None \<Rightarrow> g1\<lparr>fg_state := fg_set_action ALLOW st\<rparr>)"

lemma set_action_ALLOW [simp]: "fg_set_action ALLOW st = st\<lparr>fs_action_level := ALLOW\<rparr>"
  by (simp add: fg_set_action_def)

lemma set_action_FREEZE [simp]:
  "fs_action_level (fg_set_action FREEZE st) = (if fs_action_level st = KILL then KILL else FREEZE)"
  by (simp add: fg_set_action_def Let_def)

lemma set_action_REDUCE [simp]:
  "fs_action_level (fg_set_action REDUCE_50 st) =
     (if fs_action_level st = FREEZE \<or> fs_action_level st = KILL then fs_action_level st else REDUCE_50)"
  by (simp add: fg_set_action_def Let_def)

lemma fg_call_guard [simp]: "fst (state_of (fg_call f g k)) = g"
  by (simp add: fg_call_def split: option.split outcome.split)

lemma fg_call_Ret: "fg_call f g k = Ret u gk \<Longrightarrow> fst gk = g"
  by (auto simp: fg_call_def split: option.splits outcome.splits)

lemma fg_update_guard: "fst (state_of (fg_update api tz clock now b n (g, k))) = fg_after tz clock now b n g"
proof -
  let ?g1 = "g\<lparr>fg_state := fg_metrics b n (fg_daily_reset (trading_date tz now) (fg_state g))\<rparr>"
  have fst_then: "fst (state_of (and_then m (\<lambda>_ (g2, k2). Ret (f g2) (g2, k2)))) = fst (state_of m)"
    for m :: "('k, unit) fg_result" and f :: "ftmo_guard \<Rightarrow> ftmo_action"
    by (cases m) (auto split: prod.split)
  show ?thesis
    by (cases "fg_check_rules b n ?g1")
      (auto simp: fg_update_def fg_after_def Let_def fst_then fg_breach_def split: prod.split)
qed

lemma fg_update_action:
  "fg_update api tz clock now b n (g, k) = Ret a gk \<Longrightarrow> a = fs_action_level (fg_state (fst gk))"
  by (auto simp: fg_update_def Let_def and_then_Ret_iff split: option.splits prod.splits if_splits)

lemma fg_update_Ret:
  "fg_update api tz clock now b n (g, k) = Ret a gk \<Longrightarrow>
   fst gk = fg_after tz clock now b n g \<and> a = fs_action_level (fg_state (fg_after tz clock now b n g))"
  using fg_update_guard[of api tz clock now b n g k] fg_update_action[of api tz clock now b n g k a gk] by simp

text \<open>Without a kill switch the update always returns.\<close>

lemma fg_breach_None: "\<exists>g'. fg_breach api clock bt d a (g, None) = Ret () (g', None)"
  by (simp add: fg_breach_def fg_call_def Let_def)

lemma fg_update_None: "\<exists>a gk. fg_update api tz clock now b n (g, None) = Ret a gk"
proof -
  let ?g1 = "g\<lparr>fg_state := fg_metrics b n (fg_daily_reset (trading_date tz now) (fg_state g))\<rparr>"
  show ?thesis
  proof (cases "fg_check_rules b n ?g1")
    case (Some v)
    obtain bt d a where v: "v = (bt, d, a)" by (cases v)
    obtain g' where "fg_breach api clock bt d a (?g1, None) = Ret () (g', None)"
      using fg_breach_None by blast
    then show ?thesis using Some v by (simp add: fg_update_def Let_def)
  qed (simp add: fg_update_def Let_def)
qed

section \<open>The best-day rule\<close>

text \<open>The rule over the P&L of the days: at least two positive days, the best above its share.\<close>

definition best_day_violated :: "flt \<Rightarrow> flt list \<Rightarrow> bool" where
  "best_day_violated cap days =
     (let pos = filter (\<lambda>x. 0 < x) days in 2 \<le> length pos \<and> cap * sum_list pos < Max (set pos))"

definition pnl_days :: "ftmo_state \<Rightarrow> flt list" where
  "pnl_days st = map dp_pnl (fs_daily_pnl_history st) @ [fs_daily_pnl st]"

lemma positive_days: "fg_positive_days st = filter (\<lambda>x. 0 < x) (pnl_days st)"
  by (simp add: fg_positive_days_def pnl_days_def)

lemma sum_list_pos:
  fixes xs :: "flt list"
  assumes "\<And>x. x \<in> set xs \<Longrightarrow> 0 < x" and "xs \<noteq> []"
  shows "0 < sum_list xs"
  using assms(2,1) by (induction xs rule: list_nonempty_induct) (auto intro: add_pos_pos)

lemma best_day_rule_iff:
  "fg_check_best_day_rule g \<noteq> None \<longleftrightarrow> best_day_violated (fg_best_day_cap_pct g) (pnl_days (fg_state g))"
proof -
  let ?pos = "fg_positive_days (fg_state g)"
  have "0 < sum_list ?pos" if "2 \<le> length ?pos"
    using that by (intro sum_list_pos) (auto simp: positive_days)
  then show ?thesis
    by (auto simp: fg_check_best_day_rule_def best_day_violated_def Let_def positive_days[symmetric] pos_less_divide_eq
        not_less_eq_eq)
qed

text \<open>With the default cap of one half, two positive days of different profit already violate it.\<close>

lemma two_positive_days_violate:
  assumes "filter (\<lambda>x. 0 < x) days = [x, y]" and "x \<noteq> y"
  shows "best_day_violated (1/2) days"
  using assms by (auto simp: best_day_violated_def max_def field_simps)

section \<open>What an update decides\<close>

text \<open>The daily P&L list after the reset of this update, the last entry being today's.\<close>

definition rolled_days :: "day \<Rightarrow> ftmo_state \<Rightarrow> flt list" where
  "rolled_days today st =
     (if fs_daily_loss_date st = Some today then pnl_days st
      else if fs_daily_pnl_date st = None \<or> fs_daily_pnl_date st = Some today
      then map dp_pnl (fs_daily_pnl_history st) @ [0]
      else drop (length (pnl_days st) - 60) (pnl_days st) @ [0])"

lemma reset_frames [simp]:
  "fs_starting_balance (fg_daily_reset d st) = fs_starting_balance st"
  "fs_peak_balance (fg_daily_reset d st) = fs_peak_balance st"
  "fs_highest_midnight_balance (fg_daily_reset d st) = fs_highest_midnight_balance st"
  "fs_challenge_type (fg_daily_reset d st) = fs_challenge_type st"
  "fs_breach_history (fg_daily_reset d st) = fs_breach_history st"
  "fs_current_balance (fg_daily_reset d st) = fs_current_balance st"
  "fs_daily_loss_pct (fg_daily_reset d st) = (if fs_daily_loss_date st = Some d then fs_daily_loss_pct st else 0)"
  "fs_action_level (fg_daily_reset d st) =
     (if fs_daily_loss_date st \<noteq> Some d \<and> fs_action_level st = FREEZE then ALLOW else fs_action_level st)"
  by (auto simp: fg_daily_reset_def fg_push_day_def Let_def split: option.split)

lemma pnl_days_reset [simp]: "pnl_days (fg_daily_reset today st) = rolled_days today st"
  by (auto simp: rolled_days_def pnl_days_def fg_daily_reset_def fg_push_day_def Let_def drop_map
      split: option.split)

lemma metrics_frames [simp]:
  "fs_starting_balance (fg_metrics b n st) = fs_starting_balance st"
  "fs_peak_balance (fg_metrics b n st) = max (fs_peak_balance st) b"
  "fs_current_balance (fg_metrics b n st) = b"
  "fs_open_position_count (fg_metrics b n st) = n"
  "fs_action_level (fg_metrics b n st) = fs_action_level st"
  "fs_highest_midnight_balance (fg_metrics b n st) = fs_highest_midnight_balance st"
  "fs_daily_pnl_history (fg_metrics b n st) = fs_daily_pnl_history st"
  "fs_daily_loss_date (fg_metrics b n st) = fs_daily_loss_date st"
  "pnl_days (fg_metrics b n st) = pnl_days st"
  by (simp_all add: fg_metrics_def Let_def max_def pnl_days_def)

definition loss_pct :: "day \<Rightarrow> flt \<Rightarrow> ftmo_state \<Rightarrow> flt" where
  "loss_pct today b st =
     (if fs_starting_balance st > 0 then max 0 ((fs_starting_balance st - b) / fs_starting_balance st * 100)
      else if fs_daily_loss_date st = Some today then fs_daily_loss_pct st else 0)"

definition dd_pct :: "flt \<Rightarrow> ftmo_state \<Rightarrow> flt" where
  "dd_pct b st = (let peak = max (fs_peak_balance st) b in
     if peak > 0 then max 0 ((peak - b) / peak * 100) else 0)"

lemma metrics_pcts [simp]:
  "fs_daily_loss_pct (fg_metrics b n (fg_daily_reset today st)) = loss_pct today b st"
  "fs_current_dd_pct (fg_metrics b n (fg_daily_reset today st)) = dd_pct b st"
  by (simp_all add: fg_metrics_def loss_pct_def dd_pct_def Let_def max_def)

text \<open>The conditions under which an update must freeze.\<close>

definition must_freeze :: "day \<Rightarrow> flt \<Rightarrow> ftmo_guard \<Rightarrow> bool" where
  "must_freeze today b g \<longleftrightarrow>
     best_day_violated (fg_best_day_cap_pct g) (rolled_days today (fg_state g)) \<or>
     fg_max_daily_loss_pct g \<le> loss_pct today b (fg_state g) \<or>
     fg_trailing_dd_enabled g \<and> b < fg_compute_floor g \<or>
     fg_dd_freeze_pct g \<le> dd_pct b (fg_state g)"

definition update_action :: "day \<Rightarrow> flt \<Rightarrow> int \<Rightarrow> ftmo_guard \<Rightarrow> ftmo_action" where
  "update_action today b n g =
     (if must_freeze today b g then FREEZE
      else if fg_dd_reduce_pct g \<le> dd_pct b (fg_state g)
      then (if fs_action_level (fg_state g) = FREEZE \<and> fs_daily_loss_date (fg_state g) = Some today
            then FREEZE else REDUCE_50)
      else if fg_max_positions g < n then FREEZE
      else ALLOW)"

lemma floor_frame [simp]:
  "fg_compute_floor (g\<lparr>fg_state := fg_metrics b n (fg_daily_reset d (fg_state g))\<rparr>) = fg_compute_floor g"
  by (cases "fg_challenge_type g") (simp_all add: fg_compute_floor_def)

lemma check_rules_action:
  fixes g :: ftmo_guard and b n today
  defines "g1 \<equiv> g\<lparr>fg_state := fg_metrics b n (fg_daily_reset today (fg_state g))\<rparr>"
  shows "(case fg_check_rules b n g1 of None \<Rightarrow> ALLOW | Some (t, d, a) \<Rightarrow> a) =
     (if must_freeze today b g then FREEZE else if fg_dd_reduce_pct g \<le> dd_pct b (fg_state g) then REDUCE_50
      else if fg_max_positions g < n then FREEZE else ALLOW)"
  using best_day_rule_iff[of g1] unfolding g1_def
  by (auto simp: fg_check_rules_def must_freeze_def fg_is_trailing_floor_breached_def Let_def split: option.split)

lemma after_action:
  "fs_action_level (fg_state g) \<noteq> KILL \<Longrightarrow>
   fs_action_level (fg_state (fg_after tz clock now b n g)) = update_action (trading_date tz now) b n g"
  using check_rules_action[where g = g and b = b and n = n and today = "trading_date tz now"]
  by (auto simp: fg_after_def update_action_def Let_def fg_set_action_def split: option.splits prod.splits if_splits)

section \<open>Runs of the guard\<close>

datatype 'e fg_event =
    FUpdate 'e instant instant flt int
  | FRecordPnl instant flt "day option"
  | FMidnight flt

text \<open>\<open>api e\<close> is the kill switch protocol in the environment of the event.\<close>

fun fg_step ::
  "('e \<Rightarrow> 'k kill_switch_like) \<Rightarrow> (instant \<Rightarrow> int) \<Rightarrow> ftmo_guard \<times> 'k option \<Rightarrow> 'e fg_event \<Rightarrow> ftmo_guard \<times> 'k option"
where
  "fg_step api tz gk (FUpdate e clock now b n) = state_of (fg_update (api e) tz clock now b n gk)"
| "fg_step api tz (g, k) (FRecordPnl now pnl date) = (fg_record_daily_pnl tz now pnl date g, k)"
| "fg_step api tz (g, k) (FMidnight b) = (fg_record_midnight_balance b g, k)"

definition fg_inv :: "ftmo_guard \<Rightarrow> bool" where
  "fg_inv g \<longleftrightarrow> (let st = fg_state g in
     fs_action_level st \<noteq> KILL \<and> fs_starting_balance st \<le> fs_peak_balance st \<and>
     fs_current_balance st \<le> fs_peak_balance st \<and> length (fs_daily_pnl_history st) \<le> 60 \<and>
     fs_starting_balance st \<le> fs_highest_midnight_balance st \<and>
     0 \<le> fs_daily_loss_pct st \<and> 0 \<le> fs_current_dd_pct st)"

lemma push_day_length: "length (fs_daily_pnl_history (fg_push_day d st)) \<le> 60"
  by (simp add: fg_push_day_def Let_def)

lemma push_day_frames [simp]:
  "fs_starting_balance (fg_push_day d st) = fs_starting_balance st"
  "fs_peak_balance (fg_push_day d st) = fs_peak_balance st"
  "fs_current_balance (fg_push_day d st) = fs_current_balance st"
  "fs_highest_midnight_balance (fg_push_day d st) = fs_highest_midnight_balance st"
  "fs_daily_loss_pct (fg_push_day d st) = fs_daily_loss_pct st"
  "fs_current_dd_pct (fg_push_day d st) = fs_current_dd_pct st"
  "fs_action_level (fg_push_day d st) = fs_action_level st"
  by (simp_all add: fg_push_day_def Let_def)

lemma reset_history_length:
  "length (fs_daily_pnl_history st) \<le> 60 \<Longrightarrow> length (fs_daily_pnl_history (fg_daily_reset d st)) \<le> 60"
  by (auto simp: fg_daily_reset_def Let_def push_day_length split: option.split)

lemma set_action_frames [simp]:
  "fs_starting_balance (fg_set_action a st) = fs_starting_balance st"
  "fs_peak_balance (fg_set_action a st) = fs_peak_balance st"
  "fs_current_balance (fg_set_action a st) = fs_current_balance st"
  "fs_highest_midnight_balance (fg_set_action a st) = fs_highest_midnight_balance st"
  "fs_daily_loss_pct (fg_set_action a st) = fs_daily_loss_pct st"
  "fs_current_dd_pct (fg_set_action a st) = fs_current_dd_pct st"
  "fs_daily_pnl_history (fg_set_action a st) = fs_daily_pnl_history st"
  "fs_open_position_count (fg_set_action a st) = fs_open_position_count st"
  by (simp_all add: fg_set_action_def Let_def)

text \<open>The fields of the guard an update leaves, its action level apart.\<close>

lemma after_frames:
  "fs_starting_balance (fg_state (fg_after tz clock now b n g)) = fs_starting_balance (fg_state g)"
  "fs_peak_balance (fg_state (fg_after tz clock now b n g)) = max (fs_peak_balance (fg_state g)) b"
  "fs_current_balance (fg_state (fg_after tz clock now b n g)) = b"
  "fs_open_position_count (fg_state (fg_after tz clock now b n g)) = n"
  "fs_highest_midnight_balance (fg_state (fg_after tz clock now b n g)) = fs_highest_midnight_balance (fg_state g)"
  "fs_daily_loss_pct (fg_state (fg_after tz clock now b n g)) = loss_pct (trading_date tz now) b (fg_state g)"
  "fs_current_dd_pct (fg_state (fg_after tz clock now b n g)) = dd_pct b (fg_state g)"
  "fs_daily_pnl_history (fg_state (fg_after tz clock now b n g)) = fs_daily_pnl_history (fg_daily_reset (trading_date tz now) (fg_state g))"
  "fg_challenge_type (fg_after tz clock now b n g) = fg_challenge_type g"
  unfolding fg_after_def by (auto simp: Let_def split: option.split)

lemma after_params [simp]:
  "fg_max_positions (fg_after tz clock now b n g) = fg_max_positions g"
  "fg_max_daily_loss_pct (fg_after tz clock now b n g) = fg_max_daily_loss_pct g"
  "fg_best_day_cap_pct (fg_after tz clock now b n g) = fg_best_day_cap_pct g"
  unfolding fg_after_def by (auto simp: Let_def split: option.split)

lemma reset_date: "fs_daily_loss_date (fg_daily_reset d st) = Some d"
  by (auto simp: fg_daily_reset_def Let_def)

lemma set_action_date: "fs_daily_loss_date (fg_set_action a st) = fs_daily_loss_date st"
  by (simp add: fg_set_action_def Let_def)

lemma after_date: "fs_daily_loss_date (fg_state (fg_after tz clock now b n g)) = Some (trading_date tz now)"
  unfolding fg_after_def by (auto simp: Let_def reset_date set_action_date split: option.split)

lemma update_action_not_KILL: "update_action d b n g \<noteq> KILL"
  by (simp add: update_action_def)

lemma after_inv: "fg_inv g \<Longrightarrow> fg_inv (fg_after tz clock now b n g)"
  using reset_history_length[of "fg_state g" "trading_date tz now"]
  by (auto simp: fg_inv_def Let_def after_frames after_action update_action_not_KILL loss_pct_def dd_pct_def max_def)

lemma fg_step_inv: "fg_inv (fst gk) \<Longrightarrow> fg_inv (fst (fg_step api tz gk ev))"
proof (cases gk)
  case (Pair g k)
  assume i: "fg_inv (fst gk)"
  show ?thesis
  proof (cases ev)
    case (FUpdate e clock now b n)
    then show ?thesis using i Pair by (simp add: fg_update_guard after_inv)
  next
    case (FRecordPnl now pnl date)
    have "length (fs_daily_pnl_history (fg_state (fg_record_daily_pnl tz now pnl date g))) \<le> 60"
      using i Pair by (auto simp: fg_record_daily_pnl_def Let_def fg_inv_def push_day_length split: option.split)
    then show ?thesis using i Pair FRecordPnl
      by (auto simp: fg_inv_def fg_record_daily_pnl_def Let_def split: option.splits)
  next
    case (FMidnight b)
    then show ?thesis using i Pair by (auto simp: fg_inv_def fg_record_midnight_balance_def Let_def)
  qed
qed

interpretation ftmo_machine: invariant_machine "fg_step api tz" "\<lambda>_. True" "\<lambda>gk. fg_inv (fst gk)" for api tz
  by unfold_locales (rule fg_step_inv)

lemma fg_init_inv:
  "fg_init tz now start lp mp dr df cap ct tr = Inr g \<Longrightarrow> fg_inv g"
  by (auto simp: fg_init_def fg_inv_def Let_def split: if_splits option.splits)

end
