(* ===== verification/FtmoSafety.thy ===== *)
theory FtmoSafety
  imports FtmoGuard
begin

text \<open>
  Correctness of the FTMO guard: the decision of an update, the invariant of its runs, the
  trailing floor, gating, and, through the interface \<open>kill_switch_api\<close>, what a frozen guard
  implies for the kill switch.
\<close>

section \<open>The kill switch interface\<close>

text \<open>
  What a client of \<open>KillSwitchLike\<close> relies on: activations of an enabled switch block trading,
  also when the call raises, and neither enable nor disable the switch; a switch that is blocked
  reports active.
\<close>

locale kill_switch_api =
  fixes api :: "'e \<Rightarrow> 'k kill_switch_like"
    and blocked :: "'k \<Rightarrow> bool"
    and enabled :: "'k \<Rightarrow> bool"
  assumes freeze_blocks: "enabled k \<Longrightarrow> blocked (state_of (kl_activate_global_freeze (api e) r b k))"
    and kill_blocks: "enabled k \<Longrightarrow> blocked (state_of (kl_activate_global_kill (api e) r b c k))"
    and freeze_enabled: "enabled (state_of (kl_activate_global_freeze (api e) r b k)) = enabled k"
    and kill_enabled: "enabled (state_of (kl_activate_global_kill (api e) r b c k)) = enabled k"
    and blocked_active: "blocked k \<Longrightarrow> kl_is_active (api e) k"
begin

lemma call_switch:
  "snd (state_of (fg_call f g (Some ks))) = Some (state_of (f ks))"
  by (simp add: fg_call_def split: outcome.split)

lemma breach_switch:
  assumes "enabled ks"
  shows "\<exists>ks'. snd (state_of (fg_breach (api e) clock t d a (g, Some ks))) = Some ks' \<and> enabled ks' \<and>
     (blocked ks' \<or> a \<noteq> FREEZE \<and> a \<noteq> KILL \<and> ks' = ks)"
  using assms
  by (auto simp: fg_breach_def Let_def call_switch freeze_blocks kill_blocks freeze_enabled kill_enabled)

text \<open>An update blocks the switch or leaves it alone; it leaves it alone only when it does not freeze.\<close>

lemma update_switch:
  assumes "enabled ks"
  shows "\<exists>ks'. snd (state_of (fg_update (api e) tz clock now b n (g, Some ks))) = Some ks' \<and> enabled ks' \<and>
     (blocked ks' \<or> ks' = ks \<and>
       (fs_action_level (fg_state (fg_after tz clock now b n g)) = FREEZE \<longrightarrow> fs_action_level (fg_state g) = FREEZE))"
proof -
  let ?g1 = "g\<lparr>fg_state := fg_metrics b n (fg_daily_reset (trading_date tz now) (fg_state g))\<rparr>"
  have then_state: "snd (state_of (and_then m (\<lambda>_ (g2, k2). Ret (f g2) (g2, k2)))) = snd (state_of m)"
    for m :: "('k, unit) fg_result" and f :: "ftmo_guard \<Rightarrow> ftmo_action"
    by (cases m) (auto split: prod.split)
  show ?thesis
  proof (cases "fg_check_rules b n ?g1")
    case None
    then show ?thesis using assms by (auto simp: fg_update_def fg_after_def Let_def)
  next
    case (Some v)
    obtain t d a where v: "v = (t, d, a)" by (cases v)
    obtain ks' where ks': "snd (state_of (fg_breach (api e) clock t d a (?g1, Some ks))) = Some ks'" "enabled ks'"
      "blocked ks' \<or> a \<noteq> FREEZE \<and> a \<noteq> KILL \<and> ks' = ks"
      using breach_switch[OF assms] by blast
    have "fs_action_level (fg_state g) = FREEZE"
      if "fs_action_level (fg_state (fg_after tz clock now b n g)) = FREEZE" "a \<noteq> FREEZE" "a \<noteq> KILL"
      using that Some v by (auto simp: fg_after_def Let_def fg_set_action_def split: if_splits)
    then show ?thesis using ks' Some v by (auto simp: fg_update_def Let_def then_state)
  qed
qed

lemma step_switch:
  assumes "enabled ks"
  shows "\<exists>ks'. snd (fg_step api tz (g, Some ks) ev) = Some ks' \<and> enabled ks' \<and>
     (blocked ks' \<or> ks' = ks \<and>
       (fs_action_level (fg_state (fst (fg_step api tz (g, Some ks) ev))) = FREEZE \<longrightarrow>
        fs_action_level (fg_state g) = FREEZE))"
proof (cases ev)
  case (FUpdate e clock now b n)
  then show ?thesis using update_switch[OF assms, of e tz clock now b n g] by (simp add: fg_update_guard)
next
  case (FRecordPnl now pnl date)
  have "fs_action_level (fg_state (fg_record_daily_pnl tz now pnl date g)) = fs_action_level (fg_state g)"
    by (auto simp: fg_record_daily_pnl_def Let_def split: option.split)
  then show ?thesis using assms FRecordPnl by simp
next
  case (FMidnight b)
  then show ?thesis using assms by (simp add: fg_record_midnight_balance_def)
qed

text \<open>A frozen guard comes with a blocked switch, and a blocked switch stays blocked.\<close>

lemma frozen_blocked_run:
  assumes "enabled ks" and "fs_action_level (fg_state g) = FREEZE \<longrightarrow> blocked ks"
    and "foldl (fg_step api tz) (g, Some ks) es = (g', k')"
  shows "\<exists>ks'. k' = Some ks' \<and> enabled ks' \<and> (fs_action_level (fg_state g') = FREEZE \<longrightarrow> blocked ks') \<and>
     (blocked ks \<longrightarrow> blocked ks')"
  using assms
proof (induction es arbitrary: g ks)
  case Nil
  then show ?case by auto
next
  case (Cons ev es)
  obtain g1 k1 where s: "fg_step api tz (g, Some ks) ev = (g1, k1)" by fastforce
  obtain ks1 where "k1 = Some ks1" "enabled ks1" "fs_action_level (fg_state g1) = FREEZE \<longrightarrow> blocked ks1"
      "blocked ks \<longrightarrow> blocked ks1"
    using step_switch[OF Cons.prems(1), of tz g ev] Cons.prems(2) s by auto
  then show ?case using Cons.IH[of ks1 g1] Cons.prems(3) s by auto
qed

end

text \<open>The kill switch manager as a \<open>KillSwitchLike\<close>, in the environment of the call.\<close>

definition ks_like :: "ks_env \<Rightarrow> kill_switch kill_switch_like" where
  "ks_like env =
     \<lparr>kl_activate_global_freeze = ks_activate_global_freeze env,
      kl_activate_global_kill = ks_activate_global_kill env,
      kl_is_active = ks_is_active\<rparr>"

lemma freeze_keeps_disabled: "ks_disabled (state_of (ks_activate_global_freeze env r b ks)) = ks_disabled ks"
  unfolding freeze_state by simp

lemma kill_keeps_disabled: "ks_disabled (state_of (ks_activate_global_kill env r b c ks)) = ks_disabled ks"
  unfolding kill_state by simp

lemma blocked_is_active: "ks_blocked ks \<Longrightarrow> ks_is_active ks"
  by (simp add: ks_blocked_def)

interpretation ks_api: kill_switch_api ks_like ks_blocked "\<lambda>ks. \<not> ks_disabled ks"
  by unfold_locales
    (simp_all add: ks_like_def freeze_blocked kill_blocked freeze_keeps_disabled kill_keeps_disabled blocked_is_active)

section \<open>The decision of an update\<close>

lemma loss_threshold:
  assumes "0 < fs_starting_balance st" and "0 < p"
  shows "p \<le> loss_pct today b st \<longleftrightarrow> b \<le> (1 - p / 100) * fs_starting_balance st"
proof -
  have "p \<le> loss_pct today b st \<longleftrightarrow> p \<le> (fs_starting_balance st - b) / fs_starting_balance st * 100"
    using assms by (simp add: loss_pct_def max_def)
  also have "\<dots> \<longleftrightarrow> p * fs_starting_balance st \<le> (fs_starting_balance st - b) * 100"
    using assms(1) by (simp add: field_simps)
  also have "\<dots> \<longleftrightarrow> b \<le> (1 - p / 100) * fs_starting_balance st" by (simp add: field_simps)
  finally show ?thesis .
qed

lemma dd_threshold:
  assumes "0 < fs_peak_balance st" and "0 < p"
  shows "p \<le> dd_pct b st \<longleftrightarrow> b \<le> (1 - p / 100) * max (fs_peak_balance st) b"
proof -
  let ?m = "max (fs_peak_balance st) b"
  have m: "0 < ?m" using assms(1) by (simp add: max_def)
  have "p \<le> dd_pct b st \<longleftrightarrow> p \<le> (?m - b) / ?m * 100"
    using assms m by (simp add: dd_pct_def Let_def max_def)
  also have "\<dots> \<longleftrightarrow> p * ?m \<le> (?m - b) * 100"
    using m by (simp add: field_simps)
  also have "\<dots> \<longleftrightarrow> b \<le> (1 - p / 100) * ?m" by (simp add: field_simps)
  finally show ?thesis .
qed

text \<open>
  C1. The decision of \<open>update\<close>, in terms of balances: with \<open>peak\<close> the highest balance seen,
  this one included, an update freezes exactly when the best-day rule is violated, the balance is
  at or under the daily-loss level of the starting balance, under the max-loss floor (when
  enabled), at or under the freeze level of the peak, or (above the reduce level) too many
  positions are open; at or under the reduce level it halves sizes, unless it was already
  frozen on the same trading date; otherwise it allows trading, whatever the level was before.
\<close>

theorem ftmo_update_decision:
  fixes g b
  assumes "fg_update api tz clock now b n (g, k) = Ret a gk'"
    and "fs_action_level (fg_state g) \<noteq> KILL"
    and "0 < fs_starting_balance (fg_state g)" and "0 < fs_peak_balance (fg_state g)"
    and "0 < fg_max_daily_loss_pct g" and "0 < fg_dd_reduce_pct g" and "0 < fg_dd_freeze_pct g"
  shows "a = (let today = trading_date tz now; start = fs_starting_balance (fg_state g);
                  peak = max (fs_peak_balance (fg_state g)) b in
     if best_day_violated (fg_best_day_cap_pct g) (rolled_days today (fg_state g)) \<or>
        b \<le> (1 - fg_max_daily_loss_pct g / 100) * start \<or>
        fg_trailing_dd_enabled g \<and> b < fg_compute_floor g \<or>
        b \<le> (1 - fg_dd_freeze_pct g / 100) * peak then FREEZE
     else if b \<le> (1 - fg_dd_reduce_pct g / 100) * peak
     then (if fs_action_level (fg_state g) = FREEZE \<and> fs_daily_loss_date (fg_state g) = Some today
           then FREEZE else REDUCE_50)
     else if fg_max_positions g < n then FREEZE else ALLOW)"
  using fg_update_Ret[OF assms(1)] assms(2-)
  by (simp add: after_action update_action_def must_freeze_def loss_threshold dd_threshold Let_def)

text \<open>A guard with the default parameters, as constructed at time zero (UTC dates).\<close>

definition utc :: "instant \<Rightarrow> int" where "utc t = 0"

definition demo_guard :: ftmo_guard where
  "demo_guard =
     \<lparr>fg_max_daily_loss_pct = 3, fg_max_positions = 3, fg_dd_reduce_pct = 8, fg_dd_freeze_pct = 9,
      fg_best_day_cap_pct = 1/2, fg_challenge_type = ONE_STEP, fg_trailing_dd_enabled = False,
      fg_state =
        \<lparr>fs_starting_balance = 10000, fs_peak_balance = 10000, fs_current_balance = 10000,
         fs_daily_loss_pct = 0, fs_daily_loss_date = Some 0, fs_open_position_count = 0,
         fs_current_dd_pct = 0, fs_action_level = ALLOW, fs_breach_history = [], fs_daily_pnl = 0,
         fs_daily_pnl_date = Some 0, fs_daily_pnl_history = [], fs_challenge_type = ONE_STEP,
         fs_highest_midnight_balance = 10000\<rparr>\<rparr>"

lemma demo_guard_default: "fg_default utc 0 10000 = Inr demo_guard"
  by (simp add: fg_default_def fg_init_def demo_guard_def CHALLENGE_DAILY_LOSS_PCT_def ftmo_params
      trading_date_def utc_def)

theorem ftmo_update_decision_witness:
  "\<exists>gk'. fg_update (ks_like prod_env) utc 0 0 9600 1 (demo_guard, None) = Ret FREEZE gk'"
proof -
  obtain a gk' where r: "fg_update (ks_like prod_env) utc 0 0 9600 1 (demo_guard, None) = Ret a gk'"
    using fg_update_None by blast
  have "a = FREEZE"
    using ftmo_update_decision[OF r] by (simp add: demo_guard_def Let_def)
  then show ?thesis using r by blast
qed

section \<open>Runs\<close>

text \<open>
  C24. From construction on, over every sequence of updates, P&L records and midnight records
  (kill switch exceptions included), the guard is never in KILL, its peak is at least the
  starting and the current balance, the P&L history has at most 60 days, and the recorded
  percentages are not negative.
\<close>

theorem ftmo_run_invariant:
  assumes "fg_init tz now start lp mp dr df cap ct tr = Inr g"
  shows "let st = fg_state (fst (foldl (fg_step api tz) (g, k) es)) in
     fs_action_level st \<noteq> KILL \<and> fs_starting_balance st \<le> fs_peak_balance st \<and>
     fs_current_balance st \<le> fs_peak_balance st \<and> length (fs_daily_pnl_history st) \<le> 60 \<and>
     0 \<le> fs_daily_loss_pct st \<and> 0 \<le> fs_current_dd_pct st"
proof -
  have "fg_inv (fst (foldl (fg_step api tz) (g, k) es))"
    by (rule ftmo_machine.run_inv) (simp_all add: fg_init_inv[OF assms] list_all_iff)
  then show ?thesis by (simp add: fg_inv_def Let_def)
qed

theorem ftmo_run_invariant_witness:
  "let st = fg_state (fst (foldl (fg_step ks_like utc) (demo_guard, Some fresh_ks)
       [FUpdate prod_env 0 0 10900 2, FMidnight 10900, FRecordPnl 0 5 None])) in
     fs_action_level st \<noteq> KILL \<and> fs_starting_balance st \<le> fs_peak_balance st \<and>
     fs_current_balance st \<le> fs_peak_balance st \<and> length (fs_daily_pnl_history st) \<le> 60 \<and>
     0 \<le> fs_daily_loss_pct st \<and> 0 \<le> fs_current_dd_pct st"
  by (rule ftmo_run_invariant[OF demo_guard_default[unfolded fg_default_def]])

text \<open>
  C14. A guard that freezes blocks its kill switch, and only an explicit deactivation lifts
  that: from construction with an enabled manager, over every run, whenever the guard is frozen
  the manager is active and reports killed or frozen; and once it does, every further run of the
  guard leaves it so, although the guard itself goes back to ALLOW when the metrics recover.
\<close>

theorem ftmo_freeze_blocks_kill_switch:
  assumes "fg_init tz now start lp mp dr df cap ct tr = Inr g" and "\<not> ks_disabled ks"
    and "foldl (fg_step ks_like tz) (g, Some ks) es = (g', k')"
    and "foldl (fg_step ks_like tz) (g', k') es' = (g'', k'')"
  shows "\<exists>ks' ks''. k' = Some ks' \<and> k'' = Some ks'' \<and>
     (fs_action_level (fg_state g') = FREEZE \<longrightarrow> ks_is_active ks' \<and> ks_blocked ks') \<and>
     (ks_blocked ks' \<longrightarrow> ks_is_active ks'' \<and> ks_blocked ks'')"
proof -
  have "fs_action_level (fg_state g) \<noteq> FREEZE"
    using assms(1) by (auto simp: fg_init_def split: if_splits option.splits)
  then obtain ks' where 1: "k' = Some ks'" "\<not> ks_disabled ks'" "fs_action_level (fg_state g') = FREEZE \<longrightarrow> ks_blocked ks'"
    using ks_api.frozen_blocked_run[OF assms(2) _ assms(3)] by blast
  then obtain ks'' where "k'' = Some ks''" "ks_blocked ks' \<longrightarrow> ks_blocked ks''"
    using ks_api.frozen_blocked_run[OF 1(2) 1(3)] assms(4) by blast
  then show ?thesis using 1 blocked_is_active by blast
qed

theorem ftmo_freeze_blocks_kill_switch_witness:
  "\<exists>g' k' ks'. foldl (fg_step ks_like utc) (demo_guard, Some fresh_ks) [FUpdate prod_env 0 0 9600 1] = (g', k') \<and>
     fs_action_level (fg_state g') = FREEZE \<and> k' = Some ks' \<and> ks_blocked ks'"
proof -
  obtain g' k' where r: "foldl (fg_step ks_like utc) (demo_guard, Some fresh_ks) [FUpdate prod_env 0 0 9600 1] = (g', k')"
    by fastforce
  have "g' = fg_after utc 0 0 9600 1 demo_guard"
    using r fg_update_guard[of "ks_like prod_env" utc 0 0 9600 1 demo_guard "Some fresh_ks"] by simp
  moreover have "3 \<le> loss_pct 0 9600 (fg_state demo_guard)"
    by (simp add: loss_pct_def demo_guard_def)
  ultimately have "fs_action_level (fg_state g') = FREEZE"
    by (simp add: after_action update_action_def must_freeze_def demo_guard_def trading_date_def utc_def)
  moreover have nil: "foldl (fg_step ks_like utc) (g', k') [] = (g', k')" by simp
  ultimately show ?thesis
    using ftmo_freeze_blocks_kill_switch[OF demo_guard_default[unfolded fg_default_def] fresh_ks_enabled r nil] r
    by blast
qed

text \<open>
  What the gate says after an update: a position is allowed exactly when the action is
  below FREEZE and fewer than the maximal number of positions is open, and the size multiplier
  is 1, one half or 0 for ALLOW, REDUCE_50 and FREEZE, so an allowed position has a positive size.
\<close>

theorem ftmo_gate_after_update:
  assumes "fg_update api tz clock now b n (g, k) = Ret a (g', k')" and "fs_action_level (fg_state g) \<noteq> KILL"
  shows "fst (fg_should_allow_new_position g') = (a < FREEZE \<and> n < fg_max_positions g) \<and>
     fg_get_size_multiplier g' = (if a = ALLOW then 1 else if a = REDUCE_50 then 1/2 else 0) \<and>
     (fst (fg_should_allow_new_position g') \<longrightarrow> 0 < fg_get_size_multiplier g')"
proof -
  have g': "g' = fg_after tz clock now b n g" and a: "a = fs_action_level (fg_state g')" and k: "a \<noteq> KILL"
    using fg_update_Ret[OF assms(1)] after_action[OF assms(2)] by (simp_all add: update_action_not_KILL)
  have "fg_max_positions g' = fg_max_positions g" "fs_open_position_count (fg_state g') = n"
    by (simp_all add: g' after_frames)
  then show ?thesis using k unfolding a
    by (cases "fs_action_level (fg_state g')")
      (auto simp: fg_should_allow_new_position_def fg_get_size_multiplier_def Let_def less_ftmo_action_def severity_def)
qed

theorem ftmo_gate_after_update_witness:
  "\<exists>a g' k'. fg_update (ks_like prod_env) utc 0 0 9800 3 (demo_guard, None) = Ret a (g', k') \<and>
     \<not> fst (fg_should_allow_new_position g')"
proof -
  obtain a gk' where r: "fg_update (ks_like prod_env) utc 0 0 9800 3 (demo_guard, None) = Ret a gk'"
    using fg_update_None by blast
  obtain g' k' where "gk' = (g', k')" by fastforce
  with r have r': "fg_update (ks_like prod_env) utc 0 0 9800 3 (demo_guard, None) = Ret a (g', k')" by simp
  show ?thesis using ftmo_gate_after_update[OF r'] r' by (simp add: demo_guard_def)
qed

section \<open>The daily loss and the best day\<close>

lemma init_params:
  assumes "fg_default tz now start = Inr g"
  shows "fg_max_daily_loss_pct g = 3 \<and> fg_best_day_cap_pct g = 1/2 \<and> fs_starting_balance (fg_state g) = start \<and>
     fs_action_level (fg_state g) = ALLOW \<and> fs_daily_pnl_history (fg_state g) = [] \<and> fs_daily_pnl (fg_state g) = 0 \<and>
     fs_daily_pnl_date (fg_state g) = Some (trading_date tz now) \<and> fs_daily_loss_date (fg_state g) = Some (trading_date tz now)"
  using assms by (auto simp: fg_default_def fg_init_def CHALLENGE_DAILY_LOSS_PCT_def ftmo_params split: if_splits)

text \<open>
  The daily loss is not per day: it is measured against the starting balance of the
  account, so with a balance at or under 97 percent of it every update, on every later trading
  date, freezes, although the date change lifted the freeze and nothing was lost that day.
\<close>

theorem ftmo_daily_loss_not_daily:
  assumes "fg_update api tz c1 now1 b n (g, k) = Ret a1 (g1, k1)"
    and "fg_update api tz c2 now2 b m (g1, k1) = Ret a2 gk2"
    and "trading_date tz now1 \<noteq> trading_date tz now2"
    and "fs_action_level (fg_state g) \<noteq> KILL" and "0 < fs_starting_balance (fg_state g)"
    and "fg_max_daily_loss_pct g = 3" and "b \<le> 97/100 * fs_starting_balance (fg_state g)"
  shows "a1 = FREEZE \<and> a2 = FREEZE \<and> fs_action_level (fg_daily_reset (trading_date tz now2) (fg_state g1)) = ALLOW"
proof -
  have g1: "g1 = fg_after tz c1 now1 b n g" and a1: "a1 = fs_action_level (fg_state g1)"
    using fg_update_Ret[OF assms(1)] by simp_all
  have "3 \<le> loss_pct d b (fg_state g)" for d
    using assms(5,7) by (simp add: loss_threshold)
  then have f1: "a1 = FREEZE"
    using assms(4,6) a1 g1 by (simp add: after_action update_action_def must_freeze_def)
  have par: "fg_max_daily_loss_pct g1 = 3" "fs_starting_balance (fg_state g1) = fs_starting_balance (fg_state g)"
    "fs_daily_loss_date (fg_state g1) = Some (trading_date tz now1)"
    using assms(6) by (simp_all add: g1 after_frames after_date)
  have "3 \<le> loss_pct d b (fg_state g1)" for d
    using assms(5,7) par by (simp add: loss_threshold)
  then have "a2 = FREEZE"
    using fg_update_Ret[OF assms(2)] f1 a1 par(1) by (simp add: after_action update_action_def must_freeze_def)
  then show ?thesis using f1 a1 par(3) assms(3) by simp
qed

theorem ftmo_daily_loss_not_daily_witness:
  "\<exists>gk1 gk2. fg_update (ks_like prod_env) utc 0 0 9700 0 (demo_guard, None) = Ret FREEZE gk1 \<and>
     fg_update (ks_like prod_env) utc 0 (3 * day_us) 9700 0 gk1 = Ret FREEZE gk2"
proof -
  obtain a1 gk1 where r1: "fg_update (ks_like prod_env) utc 0 0 9700 0 (demo_guard, None) = Ret a1 gk1"
    using fg_update_None by blast
  have "snd gk1 = None" using r1
    by (auto simp: fg_update_def fg_breach_def fg_call_def Let_def split: option.splits prod.splits if_splits)
  then obtain g1 where g1: "gk1 = (g1, None)" by (cases gk1) simp
  obtain a2 gk2 where r2: "fg_update (ks_like prod_env) utc 0 (3 * day_us) 9700 0 (g1, None) = Ret a2 gk2"
    using fg_update_None by blast
  show ?thesis
    using ftmo_daily_loss_not_daily[OF r1[unfolded g1] r2] r1 r2 g1
    by (simp add: demo_guard_def trading_date_def utc_def)
qed

text \<open>
  The best-day rule with its default cap of one half freezes any account after its first two
  profitable days, unless both made exactly the same profit: on the first update after those
  days, whatever the balance, the positions, the dates and the level before.
\<close>

theorem ftmo_two_profitable_days_freeze:
  assumes "fg_default tz now0 start = Inr g"
    and "0 < x" and "0 < y" and "x \<noteq> y" and "d1 \<noteq> d2" and "trading_date tz now \<noteq> d2"
    and "fg_update api tz clock now b n
           (fg_record_daily_pnl tz t2 y (Some d2) (fg_record_daily_pnl tz t1 x (Some d1) g), k) = Ret a gk'"
  shows "a = FREEZE"
proof -
  let ?g2 = "fg_record_daily_pnl tz t2 y (Some d2) (fg_record_daily_pnl tz t1 x (Some d1) g)"
  have g2: "fs_action_level (fg_state ?g2) = ALLOW" "fg_best_day_cap_pct ?g2 = 1/2"
    "filter (\<lambda>v. 0 < v) (map dp_pnl (fs_daily_pnl_history (fg_state ?g2))) = [x]"
    "length (fs_daily_pnl_history (fg_state ?g2)) \<le> 2" "fs_daily_pnl (fg_state ?g2) = y"
    "fs_daily_pnl_date (fg_state ?g2) = Some d2"
    using init_params[OF assms(1)] assms(2-5)
    by (auto simp: fg_record_daily_pnl_def fg_push_day_def Let_def)
  have "filter (\<lambda>v. 0 < v) (rolled_days (trading_date tz now) (fg_state ?g2)) = [x, y]"
    using g2(3-6) assms(3,6) by (auto simp: rolled_days_def pnl_days_def)
  then have "best_day_violated (fg_best_day_cap_pct ?g2) (rolled_days (trading_date tz now) (fg_state ?g2))"
    unfolding g2(2) by (rule two_positive_days_violate[OF _ assms(4)])
  then have "must_freeze (trading_date tz now) b ?g2" unfolding must_freeze_def by blast
  then show ?thesis
    using fg_update_Ret[OF assms(7)] g2(1) by (simp add: after_action update_action_def)
qed

theorem ftmo_two_profitable_days_freeze_witness:
  "\<exists>gk'. fg_update (ks_like prod_env) utc 0 (2 * day_us) 10300 0
     (fg_record_daily_pnl utc 0 200 (Some 1) (fg_record_daily_pnl utc 0 100 (Some 0) demo_guard), None) = Ret FREEZE gk'"
proof -
  let ?g = "fg_record_daily_pnl utc 0 200 (Some 1) (fg_record_daily_pnl utc 0 100 (Some 0) demo_guard)"
  obtain a gk' where r: "fg_update (ks_like prod_env) utc 0 (2 * day_us) 10300 0 (?g, None) = Ret a gk'"
    using fg_update_None by blast
  have "a = FREEZE"
    by (rule ftmo_two_profitable_days_freeze[OF demo_guard_default _ _ _ _ _ r])
      (simp_all add: trading_date_def utc_def)
  then show ?thesis using r by simp
qed

text \<open>
  A closed trade recorded on a new trading date before the first update of that date is
  lost: recording it moves the P&L date to the new date, and the reset of the update then clears
  the day's P&L without adding it to the history, because the dates agree.
\<close>

theorem ftmo_pnl_lost_at_reset:
  assumes "fs_daily_pnl_date (fg_state g) = Some d0" and "fs_daily_loss_date (fg_state g) = Some d0"
    and "trading_date tz now \<noteq> d0"
    and "g1 = fg_record_daily_pnl tz now pnl None g"
    and "fg_update api tz clock now b n (g1, k) = Ret a (g2, k2)"
  shows "fs_daily_pnl (fg_state g1) = pnl \<and> fs_daily_pnl (fg_state g2) = 0 \<and>
     fs_daily_pnl_history (fg_state g2) = fs_daily_pnl_history (fg_state g1)"
proof -
  have g1: "fs_daily_pnl (fg_state g1) = pnl" "fs_daily_pnl_date (fg_state g1) = Some (trading_date tz now)"
    "fs_daily_loss_date (fg_state g1) = Some d0"
    using assms(1-4) by (auto simp: fg_record_daily_pnl_def fg_push_day_def Let_def)
  have r: "fs_daily_pnl (fg_daily_reset (trading_date tz now) (fg_state g1)) = 0"
    "fs_daily_pnl_history (fg_daily_reset (trading_date tz now) (fg_state g1)) = fs_daily_pnl_history (fg_state g1)"
    using g1 assms(3) by (simp_all add: fg_daily_reset_def Let_def)
  have "fs_daily_pnl (fg_set_action a' st) = fs_daily_pnl st" for a' st by (simp add: fg_set_action_def Let_def)
  moreover have "fs_daily_pnl (fg_metrics b n st) = fs_daily_pnl st" for st by (simp add: fg_metrics_def Let_def)
  ultimately have "fs_daily_pnl (fg_state (fg_after tz clock now b n g1)) = 0"
    using r(1) by (auto simp: fg_after_def Let_def split: option.split)
  then show ?thesis using g1(1) fg_update_Ret[OF assms(5)] r(2) by (simp add: after_frames)
qed

theorem ftmo_pnl_lost_at_reset_witness:
  "\<exists>a g2 k2. fg_update (ks_like prod_env) utc 0 day_us 10500 0 (fg_record_daily_pnl utc day_us 500 None demo_guard, None) = Ret a (g2, k2) \<and>
     fs_daily_pnl (fg_state g2) = 0"
proof -
  let ?g1 = "fg_record_daily_pnl utc day_us 500 None demo_guard"
  obtain a gk2 where r: "fg_update (ks_like prod_env) utc 0 day_us 10500 0 (?g1, None) = Ret a gk2"
    using fg_update_None by blast
  obtain g2 k2 where "gk2 = (g2, k2)" by fastforce
  with r have r': "fg_update (ks_like prod_env) utc 0 day_us 10500 0 (?g1, None) = Ret a (g2, k2)" by simp
  have "fs_daily_pnl (fg_state g2) = 0"
    using ftmo_pnl_lost_at_reset[OF _ _ _ refl r', of 0] by (simp add: demo_guard_def trading_date_def utc_def)
  then show ?thesis using r' by blast
qed

section \<open>The trailing floor\<close>

definition floor_rises :: "ftmo_guard \<times> 'k option \<Rightarrow> ftmo_guard \<times> 'k option \<Rightarrow> bool" where
  "floor_rises gk gk' \<longleftrightarrow> fg_compute_floor (fst gk) \<le> fg_compute_floor (fst gk') \<and>
     fg_trailing_dd_enabled (fst gk') = fg_trailing_dd_enabled (fst gk)"

lemma record_pnl_floor: "fg_compute_floor (fg_record_daily_pnl tz now pnl date g) = fg_compute_floor g"
  by (cases "fg_challenge_type g") (auto simp: fg_compute_floor_def fg_record_daily_pnl_def Let_def split: option.split)

lemma midnight_floor: "fg_compute_floor g \<le> fg_compute_floor (fg_record_midnight_balance b g)"
  by (cases "fg_challenge_type g") (auto simp: fg_compute_floor_def fg_record_midnight_balance_def ftmo_params)

lemma after_floor: "fg_compute_floor (fg_after tz clock now b n g) = fg_compute_floor g"
  by (cases "fg_challenge_type g") (simp_all add: fg_compute_floor_def after_frames)

lemma trailing_frames:
  "fg_trailing_dd_enabled (fg_after tz clock now b n g) = fg_trailing_dd_enabled g"
  "fg_trailing_dd_enabled (fg_record_daily_pnl tz now pnl date g) = fg_trailing_dd_enabled g"
  "fg_trailing_dd_enabled (fg_record_midnight_balance b g) = fg_trailing_dd_enabled g"
  unfolding fg_after_def by (auto simp: Let_def fg_record_daily_pnl_def fg_record_midnight_balance_def split: option.split)

interpretation floor_machine: monotone_machine "fg_step api tz" "\<lambda>_. True" floor_rises for api tz
proof unfold_locales
  fix gk :: "ftmo_guard \<times> 'b option" and ev
  show "floor_rises gk (fg_step api tz gk ev)"
    by (cases gk; cases ev) (simp_all add: floor_rises_def fg_update_guard record_pnl_floor midnight_floor after_floor trailing_frames)
qed (auto simp: floor_rises_def)

text \<open>
  The max-loss floor never falls: over every run from construction it stays at or above 90
  percent of the starting balance and only rises, and with the floor enabled an update that does
  not freeze leaves a balance at or above it.
\<close>

theorem ftmo_floor_monotone:
  assumes "fg_init tz now start lp mp dr df cap ct True = Inr g"
    and "foldl (fg_step api tz) (g, k) es = (g', k')"
    and "fg_update (api e) tz clock now' b n (g', k') = Ret a gk''" and "a \<noteq> FREEZE"
  shows "9/10 * start \<le> fg_compute_floor g' \<and> fg_compute_floor g' \<le> b \<and>
     fg_compute_floor (fst gk'') = fg_compute_floor g'"
proof -
  have "floor_rises (g, k) (foldl (fg_step api tz) (g, k) es)"
    by (rule floor_machine.run_rel) (simp add: list_all_iff)
  then have 1: "fg_compute_floor g \<le> fg_compute_floor g'" "fg_trailing_dd_enabled g' = fg_trailing_dd_enabled g"
    by (simp_all add: floor_rises_def assms(2))
  have 2: "fg_compute_floor g = 9/10 * start" "fg_trailing_dd_enabled g"
    using assms(1) by (auto simp: fg_init_def fg_compute_floor_def ftmo_params split: if_splits option.splits challenge_type.split)
  have "fg_inv g'" using ftmo_machine.run_inv[of "(g, k)" es api tz] fg_init_inv[OF assms(1)] assms(2)
    by (simp add: list_all_iff)
  then have "fs_action_level (fg_state g') \<noteq> KILL" by (simp add: fg_inv_def Let_def)
  moreover have en: "fg_trailing_dd_enabled g'"
    using 1 2 by simp
  ultimately have "\<not> b < fg_compute_floor g'"
    using fg_update_Ret[OF assms(3)] assms(4) by (auto simp: after_action update_action_def must_freeze_def split: if_splits)
  then show ?thesis using 1 2 fg_update_Ret[OF assms(3)] by (simp add: after_floor)
qed

theorem ftmo_floor_monotone_witness:
  "\<exists>gk''. fg_update (ks_like prod_env) utc 0 0 11000 0
     (fg_record_midnight_balance 12000 (demo_guard\<lparr>fg_trailing_dd_enabled := True\<rparr>), None) = Ret ALLOW gk'' \<and>
     9000 \<le> fg_compute_floor (fst gk'')"
proof -
  let ?g = "demo_guard\<lparr>fg_trailing_dd_enabled := True\<rparr>"
  let ?m = "fg_record_midnight_balance 12000 ?g"
  have g: "fg_init utc 0 10000 None 3 8 9 (1/2) ONE_STEP True = Inr ?g"
    by (simp add: fg_init_def demo_guard_def CHALLENGE_DAILY_LOSS_PCT_def ftmo_params trading_date_def utc_def)
  have m: "foldl (fg_step (\<lambda>_::unit. ks_like prod_env) utc) (?g, None) [FMidnight 12000] = (?m, None)"
    by simp
  obtain a gk'' where r: "fg_update (ks_like prod_env) utc 0 0 11000 0 (?m, None) = Ret a gk''"
    using fg_update_None by blast
  have "a = ALLOW"
    using fg_update_Ret[OF r]
    by (simp add: after_action update_action_def must_freeze_def best_day_violated_def rolled_days_def pnl_days_def
        loss_pct_def dd_pct_def fg_compute_floor_def ftmo_params fg_record_midnight_balance_def demo_guard_def
        trading_date_def utc_def)
  then show ?thesis using ftmo_floor_monotone[OF g m r] r by auto
qed

end
