(* ===== verification/RiskGuard.thy ===== *)
theory RiskGuard
  imports Gates Models FtmoSafety
begin

text \<open>
  The live risk guard of \<open>adapters/ctrader/risk_guard.py\<close>: the FTMO profile, the chain of checks
  before a trade, daily tracking on a trading day that rolls at 17:00 America/Toronto, the two
  kinds of circuit breaker, balance synchronisation, and the persisted state.

  The guard's state file is modelled as the typed payload \<open>_save_state\<close> writes, with keys that
  may be missing; a file that is not JSON or not an object restores nothing. Saving may fail to
  create its temporary file, which raises, or fail later, which is logged. Callbacks are called
  in order and their exceptions are swallowed, so only the fact of the call is recorded.
\<close>

section \<open>Environment\<close>

record risk_env =
  re_now :: instant
  re_tz :: "instant \<Rightarrow> int" \<comment> \<open>offset of America/Toronto\<close>
  re_tmp_ok :: bool \<comment> \<open>the directory and the temporary file can be created\<close>
  re_write_ok :: bool
  re_ks :: ks_env \<comment> \<open>environment of a kill switch call\<close>

section \<open>Data\<close>

datatype risk_limit_type =
    LDailyLoss
  | LTotalDrawdown
  | LMaxTrades
  | LMaxPositions
  | LMinRiskReward
  | LPositionSize
  | LSpread

record risk_limit_result =
  rl_allowed :: bool
  rl_limit_type :: risk_limit_type
  rl_message :: ptext
  rl_current_value :: xflt
  rl_limit_value :: flt

record ftmo_profile =
  fp_risk_per_trade_pct :: flt
  fp_daily_loss_limit_pct :: flt
  fp_total_drawdown_limit_pct :: flt
  fp_max_trades_per_day :: int
  fp_max_positions :: int
  fp_min_risk_reward :: flt
  fp_best_day_rule_max_pct :: flt
  fp_best_day_enforce_pct :: flt

definition FTMO_PROFILE_CHALLENGE :: ftmo_profile where
  "FTMO_PROFILE_CHALLENGE =
     \<lparr>fp_risk_per_trade_pct = FTMO_RISK_PER_TRADE_PCT, fp_daily_loss_limit_pct = FTMO_DAILY_DD_LIMIT_PCT,
      fp_total_drawdown_limit_pct = FTMO_TOTAL_DD_LIMIT_PCT, fp_max_trades_per_day = FTMO_MAX_TRADES_PER_DAY,
      fp_max_positions = FTMO_MAX_CONCURRENT_POSITIONS, fp_min_risk_reward = FTMO_MIN_RISK_REWARD,
      fp_best_day_rule_max_pct = FTMO_BEST_DAY_CAP_PCT, fp_best_day_enforce_pct = FTMO_BEST_DAY_ENFORCE_PCT\<rparr>"

text \<open>The validation of a profile; its warning on the worst-case risk is not modelled.\<close>

definition ftmo_profile_check :: "ftmo_profile \<Rightarrow> pyexn + ftmo_profile" where
  "ftmo_profile_check p =
     (if fp_risk_per_trade_pct p \<le> 0 then Inl ValueError
      else if fp_daily_loss_limit_pct p \<le> 0 then Inl ValueError
      else if fp_max_trades_per_day p \<le> 0 then Inl ValueError
      else Inr p)"

record ftmo_config =
  rc_daily_loss_limit_pct :: flt
  rc_total_drawdown_limit_pct :: flt
  rc_max_trades_per_day :: int
  rc_max_positions :: int
  rc_min_risk_reward :: flt
  rc_max_position_size_pct :: flt
  rc_best_day_rule_max_pct :: flt
  rc_best_day_enforce_pct :: flt

definition ftmo_config_default :: ftmo_config where
  "ftmo_config_default =
     \<lparr>rc_daily_loss_limit_pct = fp_daily_loss_limit_pct FTMO_PROFILE_CHALLENGE,
      rc_total_drawdown_limit_pct = fp_total_drawdown_limit_pct FTMO_PROFILE_CHALLENGE,
      rc_max_trades_per_day = fp_max_trades_per_day FTMO_PROFILE_CHALLENGE,
      rc_max_positions = fp_max_positions FTMO_PROFILE_CHALLENGE,
      rc_min_risk_reward = fp_min_risk_reward FTMO_PROFILE_CHALLENGE,
      rc_max_position_size_pct = fp_risk_per_trade_pct FTMO_PROFILE_CHALLENGE,
      rc_best_day_rule_max_pct = fp_best_day_rule_max_pct FTMO_PROFILE_CHALLENGE,
      rc_best_day_enforce_pct = fp_best_day_enforce_pct FTMO_PROFILE_CHALLENGE\<rparr>"

record daily_stats =
  ds_date :: day
  ds_trades_count :: int
  ds_wins :: int
  ds_losses :: int
  ds_pnl :: flt
  ds_best_day_profit :: flt
  ds_positive_days_pnl :: flt

definition DEFAULT_SYMBOL_SPREADS :: "(string \<times> flt) list" where
  "DEFAULT_SYMBOL_SPREADS =
     [(''EURUSD'', 1), (''GBPUSD'', 2), (''USDJPY'', 1), (''XAUUSD'', 30), (''AUDUSD'', 2), (''USDCHF'', 2),
      (''USDCAD'', 2)]"

text \<open>The payload of the state file.\<close>

record risk_payload =
  rp_peak_balance :: "flt option"
  rp_current_balance :: "flt option"
  rp_daily_start_balance :: "flt option"
  rp_current_day :: "day option"
  rp_daily_trade_count :: "int option"
  rp_total_trades :: "int option"
  rp_circuit_breaker_triggered :: "bool option"
  rp_blocked_until :: "instant option"

datatype risk_file = RFMissing | RFBad | RFPayload risk_payload

record risk_guard =
  rg_config :: ftmo_config
  rg_starting_balance :: flt
  rg_peak_balance :: flt
  rg_current_balance :: flt
  rg_daily_start_balance :: flt
  rg_current_day :: "day option"
  rg_daily_stats :: "daily_stats list"
  rg_callbacks :: "nat list"
  rg_calls :: "(nat \<times> risk_limit_type \<times> flt \<times> flt) list" \<comment> \<open>the callback calls made, in order\<close>
  rg_daily_trade_count :: int
  rg_total_trades :: int
  rg_blocked_until :: "instant option"
  rg_circuit_breaker_triggered :: bool
  rg_per_strategy_pnl :: "(string \<times> flt) list"
  rg_live_balance_active :: bool
  rg_gate_config :: gate_config
  rg_kill_switch :: "kill_switch option" \<comment> \<open>the injected kill switch\<close>
  rg_default_disk :: ks_disk \<comment> \<open>the files of the default kill switch directory\<close>
  rg_file :: risk_file

type_synonym 'a rg_result = "(risk_guard, 'a) outcome"

section \<open>Time\<close>

definition current_trading_day :: "risk_env \<Rightarrow> day" where
  "current_trading_day env =
     (let local = re_now env + re_tz env (re_now env); today = local div day_us;
          hour = (local mod day_us) div hour_us
      in if hour \<ge> 17 then today else today - 1)"

definition next_utc_midnight :: "instant \<Rightarrow> instant" where
  "next_utc_midnight now = ((now + day_us) div day_us) * day_us"

section \<open>Persistence\<close>

definition rg_payload :: "risk_guard \<Rightarrow> risk_payload" where
  "rg_payload g =
     \<lparr>rp_peak_balance = Some (rg_peak_balance g), rp_current_balance = Some (rg_current_balance g),
      rp_daily_start_balance = Some (rg_daily_start_balance g), rp_current_day = rg_current_day g,
      rp_daily_trade_count = Some (rg_daily_trade_count g), rp_total_trades = Some (rg_total_trades g),
      rp_circuit_breaker_triggered = Some (rg_circuit_breaker_triggered g),
      rp_blocked_until = rg_blocked_until g\<rparr>"

definition rg_save_state :: "risk_env \<Rightarrow> risk_guard \<Rightarrow> unit rg_result" where
  "rg_save_state env g =
     (if \<not> re_tmp_ok env then Exc OSError g
      else if re_write_ok env then Ret () (g\<lparr>rg_file := RFPayload (rg_payload g)\<rparr>)
      else Ret () g)"

text \<open>The fresh state both sanity gates fall back to; the day is an argument.\<close>

definition rg_fresh :: "day \<Rightarrow> risk_guard \<Rightarrow> risk_guard" where
  "rg_fresh today g =
     g\<lparr>rg_peak_balance := rg_starting_balance g, rg_current_balance := rg_starting_balance g,
       rg_daily_start_balance := rg_starting_balance g, rg_daily_trade_count := 0, rg_total_trades := 0,
       rg_circuit_breaker_triggered := False, rg_blocked_until := None, rg_current_day := Some today\<rparr>"

text \<open>An exception inside the restore is caught, so the restore always returns.\<close>

definition rg_restore_state :: "risk_env \<Rightarrow> risk_guard \<Rightarrow> risk_guard" where
  "rg_restore_state env g =
     (case rg_file g of
        RFMissing \<Rightarrow> g
      | RFBad \<Rightarrow> g
      | RFPayload raw \<Rightarrow>
          let g1 = g\<lparr>rg_peak_balance := or_default (rp_peak_balance raw) (rg_peak_balance g),
                     rg_current_balance := or_default (rp_current_balance raw) (rg_current_balance g),
                     rg_daily_start_balance := or_default (rp_daily_start_balance raw) (rg_daily_start_balance g)\<rparr>;
              tol = rg_starting_balance g1 * 5;
              stale = list_ex (\<lambda>v. \<bar>v - rg_starting_balance g1\<bar> > tol)
                        [rg_peak_balance g1, rg_current_balance g1, rg_daily_start_balance g1];
              sanity_max = rg_starting_balance g1 * 2
          in if stale then state_of (rg_save_state env (rg_fresh (current_trading_day env) g1))
             else if rg_daily_start_balance g1 > sanity_max \<or> rg_peak_balance g1 > sanity_max
             then state_of (rg_save_state env (rg_fresh (re_now env div day_us) g1))
             else
               let g2 = g1\<lparr>rg_current_day := rp_current_day raw,
                           rg_daily_trade_count := or_default (rp_daily_trade_count raw) 0,
                           rg_total_trades := or_default (rp_total_trades raw) 0,
                           rg_circuit_breaker_triggered := or_default (rp_circuit_breaker_triggered raw) False,
                           rg_blocked_until := rp_blocked_until raw\<rparr>;
                   today = current_trading_day env
               in if rg_current_day g2 \<noteq> None \<and> rg_current_day g2 \<noteq> Some today
                  then g2\<lparr>rg_current_day := Some today, rg_daily_start_balance := rg_current_balance g2,
                          rg_daily_trade_count := 0,
                          rg_blocked_until :=
                            (case rg_blocked_until g2 of
                               Some b \<Rightarrow> (if re_now env \<ge> b then None else Some b) | None \<Rightarrow> None)\<rparr>
                  else g2)"

definition rg_init ::
  "risk_env \<Rightarrow> ftmo_config option \<Rightarrow> flt \<Rightarrow> (string \<times> flt) list \<Rightarrow> flt \<Rightarrow> ks_disk \<Rightarrow> risk_file \<Rightarrow> risk_guard" where
  "rg_init env cfg starting_balance symbol_spreads default_spread default_disk file =
     rg_restore_state env
       \<lparr>rg_config = or_default cfg ftmo_config_default, rg_starting_balance = starting_balance,
        rg_peak_balance = starting_balance, rg_current_balance = starting_balance,
        rg_daily_start_balance = starting_balance, rg_current_day = None, rg_daily_stats = [],
        rg_callbacks = [], rg_calls = [], rg_daily_trade_count = 0, rg_total_trades = 0,
        rg_blocked_until = None, rg_circuit_breaker_triggered = False, rg_per_strategy_pnl = [],
        rg_live_balance_active = False,
        rg_gate_config = gate_config_default
          \<lparr>default_max_spread := default_spread,
           symbol_max_spreads := fold (\<lambda>(k, v). AList.update k v) symbol_spreads DEFAULT_SYMBOL_SPREADS\<rparr>,
        rg_kill_switch = None, rg_default_disk = default_disk, rg_file = file\<rparr>"

section \<open>Breakers\<close>

text \<open>
  The kill switch call of a breach. Without an injected manager one is constructed on the default
  directory, with the class default of its administrative flag. Every exception is swallowed.
\<close>

definition rg_activate_kill :: "risk_env \<Rightarrow> string \<Rightarrow> risk_guard \<Rightarrow> risk_guard" where
  "rg_activate_kill env reason g =
     (case rg_kill_switch g of
        Some ks \<Rightarrow>
          g\<lparr>rg_kill_switch := Some (state_of (ks_activate_global_kill (re_ks env) [Lit reason] ''risk_guard'' True ks))\<rparr>
      | None \<Rightarrow>
          g\<lparr>rg_default_disk :=
              ks_disk (state_of (and_then (ks_init (re_ks env) None (rg_default_disk g))
                (\<lambda>_. ks_activate_global_kill (re_ks env) [Lit reason] ''risk_guard'' True)))\<rparr>)"

definition rg_trigger_circuit_breaker ::
  "risk_env \<Rightarrow> risk_limit_type \<Rightarrow> flt \<Rightarrow> flt \<Rightarrow> risk_guard \<Rightarrow> unit rg_result" where
  "rg_trigger_circuit_breaker env ltype current limit g =
     (let g1 = (if ltype = LDailyLoss
                then g\<lparr>rg_blocked_until := Some (next_utc_midnight (re_now env))\<rparr>
                else g\<lparr>rg_circuit_breaker_triggered := True, rg_blocked_until := None\<rparr>)
      in and_then (rg_save_state env g1) (\<lambda>_ g2.
           let g3 = (if ltype = LDailyLoss then rg_activate_kill env ''ftmo_daily_loss_limit'' g2
                     else if ltype = LTotalDrawdown then rg_activate_kill env ''ftmo_total_drawdown'' g2
                     else g2)
           in Ret () (g3\<lparr>rg_calls := rg_calls g3 @ map (\<lambda>c. (c, ltype, current, limit)) (rg_callbacks g3)\<rparr>)))"

section \<open>Daily tracking\<close>

definition rg_get_best_day_profit :: "risk_guard \<Rightarrow> flt" where
  "rg_get_best_day_profit g =
     (let ps = map ds_pnl (filter (\<lambda>s. ds_pnl s > 0) (rg_daily_stats g)) in if ps = [] then 0 else Max (set ps))"

definition rg_check_best_day_rule :: "risk_env \<Rightarrow> daily_stats \<Rightarrow> risk_guard \<Rightarrow> risk_guard" where
  "rg_check_best_day_rule env stats g =
     (let positive_days = map ds_pnl (filter (\<lambda>s. ds_pnl s > 0) (rg_daily_stats g)) in
      if length positive_days < 2 then g
      else
        let total = sum_list positive_days; best = Max (set positive_days);
            best_day_pct = (if total > 0 then best / total else 0)
        in if best_day_pct > rc_best_day_enforce_pct (rg_config g)
           then g\<lparr>rg_blocked_until := Some (next_utc_midnight (re_now env))\<rparr> else g)"

definition rg_record_daily_stats :: "risk_env \<Rightarrow> risk_guard \<Rightarrow> risk_guard" where
  "rg_record_daily_stats env g =
     (case rg_current_day g of
        None \<Rightarrow> g
      | Some d \<Rightarrow>
          let stats = \<lparr>ds_date = d, ds_trades_count = rg_daily_trade_count g, ds_wins = 0, ds_losses = 0,
                       ds_pnl = rg_current_balance g - rg_daily_start_balance g, ds_best_day_profit = 0,
                       ds_positive_days_pnl = 0\<rparr>;
              g1 = g\<lparr>rg_daily_stats := rg_daily_stats g @ [stats]\<rparr>
          in if ds_pnl stats > 0
             then (if ds_pnl stats > rg_get_best_day_profit g1 then rg_check_best_day_rule env stats g1 else g1)
             else g1)"

definition rg_update_daily_tracking :: "risk_env \<Rightarrow> risk_guard \<Rightarrow> risk_guard" where
  "rg_update_daily_tracking env g =
     (let today = current_trading_day env in
      case rg_current_day g of
        None \<Rightarrow> g\<lparr>rg_current_day := Some today, rg_daily_start_balance := rg_current_balance g,
                  rg_daily_trade_count := 0\<rparr>
      | Some d \<Rightarrow>
          if today \<noteq> d
          then (rg_record_daily_stats env g)
                 \<lparr>rg_current_day := Some today, rg_daily_start_balance := rg_current_balance g,
                  rg_daily_trade_count := 0\<rparr>
          else g)"

section \<open>Checks\<close>

abbreviation rl_deny :: "risk_limit_type \<Rightarrow> ptext \<Rightarrow> xflt \<Rightarrow> flt \<Rightarrow> risk_limit_result" where
  "rl_deny t msg cur lmt \<equiv>
     \<lparr>rl_allowed = False, rl_limit_type = t, rl_message = msg, rl_current_value = cur, rl_limit_value = lmt\<rparr>"

abbreviation rl_pass :: "risk_limit_type \<Rightarrow> ptext \<Rightarrow> risk_limit_result" where
  "rl_pass t msg \<equiv>
     \<lparr>rl_allowed = True, rl_limit_type = t, rl_message = msg, rl_current_value = Fin 0, rl_limit_value = 0\<rparr>"

definition time_blocked :: "risk_env \<Rightarrow> risk_guard \<Rightarrow> instant option" where
  "time_blocked env g =
     (case rg_blocked_until g of Some b \<Rightarrow> (if re_now env < b then Some b else None) | None \<Rightarrow> None)"

definition rg_calculate_risk_reward :: "trade_signal \<Rightarrow> flt" where
  "rg_calculate_risk_reward sg =
     (let risk = \<bar>sig_entry_price sg - sig_stop_loss sg\<bar>; reward = \<bar>sig_take_profit_1 sg - sig_entry_price sg\<bar>
      in if risk = 0 then 0 else reward / risk)"

definition rg_check_signal :: "risk_env \<Rightarrow> trade_signal \<Rightarrow> risk_guard \<Rightarrow> risk_limit_result" where
  "rg_check_signal env sg g =
     (if rg_circuit_breaker_triggered g then
        rl_deny LDailyLoss [Lit ''Circuit breaker triggered - trading paused''] (Fin 1) 1
      else case time_blocked env g of
        Some b \<Rightarrow> rl_deny LDailyLoss [Lit ''Trading blocked until '', FTime b] (Fin 0) 0
      | None \<Rightarrow>
          let rr = rg_calculate_risk_reward sg; min_rr = rc_min_risk_reward (rg_config g) in
          if rr < min_rr then
            rl_deny LMinRiskReward [Lit ''Risk:Reward '', FFix 2 rr, Lit '' below minimum '', FFloat min_rr] (Fin rr) min_rr
          else rl_pass LMinRiskReward [Lit ''Signal approved''])"

definition rg_spread_verdict :: "string \<Rightarrow> flt \<Rightarrow> risk_guard \<Rightarrow> risk_limit_result option" where
  "rg_spread_verdict symbol spread g =
     (let res = spread_gate_check (rg_gate_config g)
            \<lparr>gx_symbol = Some symbol, gx_spread = Some spread, gx_hour_utc = None, gx_atr = None\<rparr>;
          threshold = spread_threshold (rg_gate_config g) symbol
      in if \<not> gc_passed res
         then Some (rl_deny LSpread
           [Lit ''spread_too_wide: '', Lit symbol, Lit '' spread='', FFix 2 spread, Lit '' threshold='', FFix 2 threshold]
           (Fin spread) threshold)
         else None)"

definition rg_check_spread :: "string \<Rightarrow> flt \<Rightarrow> risk_guard \<Rightarrow> risk_limit_result" where
  "rg_check_spread symbol spread g =
     (if spread \<le> 0 \<or> symbol = [] then rl_pass LSpread [Lit ''No spread data - skipping spread gate'']
      else case rg_spread_verdict symbol spread g of
        Some r \<Rightarrow> r
      | None \<Rightarrow> rl_pass LSpread [Lit ''Spread within limits''])"

text \<open>A trade request: the arguments of \<open>check_trade_allowed\<close>.\<close>

record trade_request =
  tr_direction :: trade_direction
  tr_volume :: flt
  tr_entry_price :: flt
  tr_stop_loss :: flt
  tr_take_profit :: flt
  tr_account_balance :: "flt option"
  tr_symbol :: "string option"
  tr_spread :: flt

text \<open>Pip size and value: from the metadata when a symbol is given, else from the price level.\<close>

definition rg_pip_info :: "trade_request \<Rightarrow> pyexn + flt \<times> flt" where
  "rg_pip_info req =
     (case tr_symbol req of
        Some symbol \<Rightarrow>
          if symbol \<noteq> [] then
            (case get_symbol_info symbol of Inl e \<Rightarrow> Inl e | Inr info \<Rightarrow> Inr (pip_size info, pip_value_per_lot info))
          else Inr (if \<bar>tr_entry_price req\<bar> > 50
                    then (if \<bar>tr_entry_price req\<bar> > 1000 then (1/100, 1) else (1/100, 13/2)) else (1/10000, 10))
      | None \<Rightarrow>
          Inr (if \<bar>tr_entry_price req\<bar> > 50
               then (if \<bar>tr_entry_price req\<bar> > 1000 then (1/100, 1) else (1/100, 13/2)) else (1/10000, 10)))"

definition rg_risk_pct :: "trade_request \<Rightarrow> flt \<times> flt \<Rightarrow> risk_guard \<Rightarrow> xflt" where
  "rg_risk_pct req info g =
     (let (pip, value) = info; sl_distance = \<bar>tr_entry_price req - tr_stop_loss req\<bar>;
          sl_pips = (if pip > 0 then sl_distance / pip else 0);
          risk_amount = tr_volume req * sl_pips * value
      in if rg_current_balance g > 0 then Fin (risk_amount / rg_current_balance g) else PosInf)"

text \<open>\<open>risk_pct > limit\<close>; the percentage is finite or positive infinity.\<close>

fun xflt_gt :: "xflt \<Rightarrow> flt \<Rightarrow> bool" where
  "xflt_gt (Fin x) y = (x > y)"
| "xflt_gt PosInf y = True"
| "xflt_gt NegInf y = False"
| "xflt_gt NotANumber y = False"

fun xflt_percent :: "xflt \<Rightarrow> frag" where
  "xflt_percent (Fin x) = FFix 2 (x * 100)"
| "xflt_percent _ = Lit ''inf''"

text \<open>The checks after daily tracking, on the tracked state.\<close>

definition rg_size_checks :: "trade_request \<Rightarrow> risk_guard \<Rightarrow> risk_limit_result rg_result" where
  "rg_size_checks req g =
     (case rg_pip_info req of
        Inl e \<Rightarrow> Exc e g
      | Inr info \<Rightarrow>
          let risk_pct = rg_risk_pct req info g; epsilon = 1/10000;
              max_pct = rc_max_position_size_pct (rg_config g);
              risk = \<bar>tr_entry_price req - tr_stop_loss req\<bar>;
              reward = \<bar>tr_take_profit req - tr_entry_price req\<bar>
          in if xflt_gt risk_pct (max_pct + epsilon) then
               Ret (rl_deny LPositionSize
                 [Lit ''Position risk '', xflt_percent risk_pct, Lit ''% > max '', FFloat (max_pct * 100), Lit ''%'']
                 risk_pct max_pct) g
             else if risk = 0 \<or> reward / risk < rc_min_risk_reward (rg_config g) then
               Ret (rl_deny LMinRiskReward
                 [Lit ''Risk:Reward below minimum '', FFloat (rc_min_risk_reward (rg_config g))] (Fin 0) 0) g
             else Ret (rl_pass LPositionSize [Lit ''Trade allowed'']) g)"

definition rg_daily_loss :: "risk_guard \<Rightarrow> flt" where
  "rg_daily_loss g =
     (if rg_daily_trade_count g > 0
      then (if rg_starting_balance g > 0
            then (rg_daily_start_balance g - rg_current_balance g) / rg_starting_balance g else 0)
      else 0)"

definition rg_drawdown :: "risk_guard \<Rightarrow> flt" where
  "rg_drawdown g =
     (if rg_starting_balance g > 0
      then (rg_starting_balance g - rg_current_balance g) / rg_starting_balance g else 0)"

definition rg_limit_checks :: "risk_env \<Rightarrow> trade_request \<Rightarrow> risk_guard \<Rightarrow> risk_limit_result rg_result" where
  "rg_limit_checks env req g =
     (let loss = rg_daily_loss g; loss_limit = rc_daily_loss_limit_pct (rg_config g);
          dd = rg_drawdown g; dd_limit = rc_total_drawdown_limit_pct (rg_config g);
          max_trades = rc_max_trades_per_day (rg_config g)
      in if rg_daily_trade_count g > 0 \<and> loss \<ge> loss_limit then
           and_then (rg_trigger_circuit_breaker env LDailyLoss loss loss_limit g) (\<lambda>_.
             Ret (rl_deny LDailyLoss
               [Lit ''Daily loss limit '', FFix 2 (loss * 100), Lit ''% >= '', FFloat (loss_limit * 100), Lit ''%'']
               (Fin loss) loss_limit))
         else if dd \<ge> dd_limit then
           and_then (rg_trigger_circuit_breaker env LTotalDrawdown dd dd_limit g) (\<lambda>_.
             Ret (rl_deny LTotalDrawdown
               [Lit ''Total drawdown '', FFix 2 (dd * 100), Lit ''% >= '', FFloat (dd_limit * 100), Lit ''%'']
               (Fin dd) dd_limit))
         else if rg_daily_trade_count g \<ge> max_trades then
           Ret (rl_deny LMaxTrades
             [Lit ''Daily trade count '', FInt (rg_daily_trade_count g), Lit '' >= '', FInt max_trades]
             (Fin (of_int (rg_daily_trade_count g))) (of_int max_trades)) g
         else rg_size_checks req g)"

definition rg_check_trade_allowed :: "risk_env \<Rightarrow> trade_request \<Rightarrow> risk_guard \<Rightarrow> risk_limit_result rg_result" where
  "rg_check_trade_allowed env req g0 =
     (let g = (case tr_account_balance req of
                 Some b \<Rightarrow> (if b \<noteq> 0 then g0\<lparr>rg_current_balance := b\<rparr> else g0) | None \<Rightarrow> g0);
          spread_verdict = (case tr_symbol req of
                 Some symbol \<Rightarrow> (if tr_spread req > 0 \<and> symbol \<noteq> []
                                 then rg_spread_verdict symbol (tr_spread req) g else None)
               | None \<Rightarrow> None)
      in if rg_circuit_breaker_triggered g then
           Ret (rl_deny LDailyLoss [Lit ''Circuit breaker triggered - trading paused''] (Fin 0) 0) g
         else case spread_verdict of
           Some r \<Rightarrow> Ret r g
         | None \<Rightarrow>
             (case time_blocked env g of
                Some b \<Rightarrow> Ret (rl_deny LDailyLoss [Lit ''Trading blocked until '', FTime b] (Fin 0) 0) g
              | None \<Rightarrow> rg_limit_checks env req (rg_update_daily_tracking env g)))"

section \<open>Recording, balances and resets\<close>

definition rg_record_trade :: "risk_env \<Rightarrow> flt \<Rightarrow> bool \<Rightarrow> int \<Rightarrow> risk_guard \<Rightarrow> unit rg_result" where
  "rg_record_trade env pnl is_win increment g =
     (let g1 = g\<lparr>rg_total_trades := rg_total_trades g + increment,
                 rg_daily_trade_count := rg_daily_trade_count g + increment\<rparr>;
          g2 = (if rg_current_balance g1 > rg_peak_balance g1
                then g1\<lparr>rg_peak_balance := rg_current_balance g1\<rparr> else g1);
          g3 = rg_update_daily_tracking env g2;
          loss = (rg_daily_start_balance g3 - rg_current_balance g3) / rg_starting_balance g3
      in and_then
           (if rg_daily_trade_count g3 > 0 \<and> rg_starting_balance g3 > 0 \<and>
               loss \<ge> rc_daily_loss_limit_pct (rg_config g3)
            then rg_trigger_circuit_breaker env LDailyLoss loss (rc_daily_loss_limit_pct (rg_config g3)) g3
            else Ret () g3)
           (\<lambda>_. rg_save_state env))"

definition rg_record_strategy_trade :: "string \<Rightarrow> flt \<Rightarrow> risk_guard \<Rightarrow> risk_guard" where
  "rg_record_strategy_trade sid pnl g =
     g\<lparr>rg_per_strategy_pnl :=
         AList.update sid (dget_or (rg_per_strategy_pnl g) sid 0 + pnl) (rg_per_strategy_pnl g)\<rparr>"

definition rg_set_kill_switch :: "kill_switch \<Rightarrow> risk_guard \<Rightarrow> risk_guard" where
  "rg_set_kill_switch ks g = g\<lparr>rg_kill_switch := Some ks\<rparr>"

definition rg_update_balance :: "flt \<Rightarrow> risk_guard \<Rightarrow> risk_guard" where
  "rg_update_balance new_balance g =
     (if rg_live_balance_active g then g
      else g\<lparr>rg_current_balance := new_balance,
             rg_peak_balance := (if new_balance > rg_peak_balance g then new_balance else rg_peak_balance g)\<rparr>)"

definition rg_sync_live_balance :: "risk_env \<Rightarrow> flt \<Rightarrow> risk_guard \<Rightarrow> unit rg_result" where
  "rg_sync_live_balance env balance g =
     rg_save_state env
       (g\<lparr>rg_live_balance_active := True, rg_current_balance := balance,
          rg_peak_balance := (if balance > rg_peak_balance g then balance else rg_peak_balance g)\<rparr>)"

definition rg_disable_live_balance :: "risk_guard \<Rightarrow> risk_guard" where
  "rg_disable_live_balance g = g\<lparr>rg_live_balance_active := False\<rparr>"

definition rg_reset_daily_tracking :: "risk_guard \<Rightarrow> risk_guard" where
  "rg_reset_daily_tracking g = g\<lparr>rg_daily_start_balance := rg_current_balance g, rg_daily_trade_count := 0\<rparr>"

definition rg_reset_circuit_breaker :: "risk_env \<Rightarrow> risk_guard \<Rightarrow> bool rg_result" where
  "rg_reset_circuit_breaker env g =
     (if rg_blocked_until g \<noteq> None then Ret False g
      else if \<not> rg_circuit_breaker_triggered g then Ret True g
      else and_then (rg_save_state env (g\<lparr>rg_circuit_breaker_triggered := False\<rparr>)) (\<lambda>_. Ret True))"

definition rg_register_callback :: "nat \<Rightarrow> risk_guard \<Rightarrow> risk_guard" where
  "rg_register_callback c g = g\<lparr>rg_callbacks := rg_callbacks g @ [c]\<rparr>"

section \<open>Queries\<close>

definition rg_current_drawdown_pct :: "risk_guard \<Rightarrow> flt" where
  "rg_current_drawdown_pct g =
     (if rg_starting_balance g \<le> 0 then 0
      else (rg_starting_balance g - rg_current_balance g) / rg_starting_balance g)"

definition rg_current_daily_loss_pct :: "risk_guard \<Rightarrow> pyexn + flt" where
  "rg_current_daily_loss_pct g =
     (if rg_daily_start_balance g = 0 then Inl ZeroDivisionError
      else Inr ((rg_daily_start_balance g - rg_current_balance g) / rg_daily_start_balance g))"

definition rg_is_blocked :: "risk_env \<Rightarrow> risk_guard \<Rightarrow> bool" where
  "rg_is_blocked env g =
     (if rg_circuit_breaker_triggered g then True
      else case rg_blocked_until g of Some b \<Rightarrow> re_now env < b | None \<Rightarrow> False)"

record risk_stats =
  rs_total_trades :: int
  rs_daily_trades :: int
  rs_current_balance :: flt
  rs_peak_balance :: flt
  rs_daily_loss_pct :: flt
  rs_total_drawdown_pct :: flt
  rs_is_blocked :: bool
  rs_per_strategy_pnl :: "(string \<times> flt) list"

definition rg_get_stats :: "risk_env \<Rightarrow> risk_guard \<Rightarrow> pyexn + risk_stats" where
  "rg_get_stats env g =
     (case rg_current_daily_loss_pct g of
        Inl e \<Rightarrow> Inl e
      | Inr loss \<Rightarrow> Inr
          \<lparr>rs_total_trades = rg_total_trades g, rs_daily_trades = rg_daily_trade_count g,
           rs_current_balance = rg_current_balance g, rs_peak_balance = rg_peak_balance g,
           rs_daily_loss_pct = loss, rs_total_drawdown_pct = rg_current_drawdown_pct g,
           rs_is_blocked = rg_is_blocked env g, rs_per_strategy_pnl = rg_per_strategy_pnl g\<rparr>)"

section \<open>Operations as events\<close>

datatype risk_op =
    RCheckTrade trade_request
  | RRecordTrade flt bool int
  | RStrategyTrade string flt
  | RUpdateBalance flt
  | RSyncBalance flt
  | RDisableLive
  | RResetDaily
  | RResetBreaker
  | RRegister nat

fun rg_step :: "risk_guard \<Rightarrow> risk_env \<times> risk_op \<Rightarrow> risk_guard" where
  "rg_step g (env, RCheckTrade req) = state_of (rg_check_trade_allowed env req g)"
| "rg_step g (env, RRecordTrade pnl w n) = state_of (rg_record_trade env pnl w n g)"
| "rg_step g (env, RStrategyTrade sid pnl) = rg_record_strategy_trade sid pnl g"
| "rg_step g (env, RUpdateBalance b) = rg_update_balance b g"
| "rg_step g (env, RSyncBalance b) = state_of (rg_sync_live_balance env b g)"
| "rg_step g (env, RDisableLive) = rg_disable_live_balance g"
| "rg_step g (env, RResetDaily) = rg_reset_daily_tracking g"
| "rg_step g (env, RResetBreaker) = state_of (rg_reset_circuit_breaker env g)"
| "rg_step g (env, RRegister c) = rg_register_callback c g"

end
