(* ===== verification/RiskSafety.thy ===== *)
theory RiskSafety
  imports RiskGuard
begin

text \<open>
  Correctness of the risk guard: what an allowed trade satisfies, the two breakers and their
  resets, the kill switch of a breach, live-balance mode, the best-day rule, and the round trip
  of the persisted state.
\<close>

section \<open>What an allowed trade satisfies\<close>

lemma trigger_denies:
  "and_then (rg_trigger_circuit_breaker env t c l g) (\<lambda>_. Ret r) = Ret r' g' \<Longrightarrow> r' = r"
  by (cases "rg_trigger_circuit_breaker env t c l g") auto

lemma size_checks_allowed:
  assumes "rg_size_checks req g = Ret r g'" and "rl_allowed r"
  shows "g' = g \<and> 0 < rg_current_balance g \<and> tr_entry_price req \<noteq> tr_stop_loss req \<and>
     (\<exists>pip val. rg_pip_info req = Inr (pip, val) \<and>
        tr_volume req * (if pip > 0 then \<bar>tr_entry_price req - tr_stop_loss req\<bar> / pip else 0) * val
          \<le> (rc_max_position_size_pct (rg_config g) + 1/10000) * rg_current_balance g) \<and>
     rc_min_risk_reward (rg_config g) * \<bar>tr_entry_price req - tr_stop_loss req\<bar> \<le> \<bar>tr_take_profit req - tr_entry_price req\<bar>"
proof -
  obtain pip val where info: "rg_pip_info req = Inr (pip, val)"
    using assms(1) by (cases "rg_pip_info req") (auto simp: rg_size_checks_def)
  let ?risk = "\<bar>tr_entry_price req - tr_stop_loss req\<bar>" and ?reward = "\<bar>tr_take_profit req - tr_entry_price req\<bar>"
  let ?amount = "tr_volume req * (if pip > 0 then ?risk / pip else 0) * val"
  have a: "g' = g" "\<not> xflt_gt (rg_risk_pct req (pip, val) g) (rc_max_position_size_pct (rg_config g) + 1/10000)"
    "?risk \<noteq> 0" "\<not> ?reward / ?risk < rc_min_risk_reward (rg_config g)"
    using assms info by (auto simp: rg_size_checks_def Let_def split: if_splits)
  then have b: "0 < rg_current_balance g"
    by (auto simp: rg_risk_pct_def Let_def split: if_splits)
  then have "?amount / rg_current_balance g \<le> rc_max_position_size_pct (rg_config g) + 1/10000"
    using a(2) by (simp add: rg_risk_pct_def Let_def)
  then have "?amount \<le> (rc_max_position_size_pct (rg_config g) + 1/10000) * rg_current_balance g"
    using b by (simp add: pos_divide_le_eq)
  moreover have "rc_min_risk_reward (rg_config g) * ?risk \<le> ?reward"
    using a(3,4) by (simp add: not_less pos_le_divide_eq)
  ultimately show ?thesis using a(1,3) b info by auto
qed

lemma limit_checks_allowed:
  assumes "rg_limit_checks env req g = Ret r g'" and "rl_allowed r"
  shows "rg_size_checks req g = Ret r g' \<and> (0 < rg_daily_trade_count g \<longrightarrow> rg_daily_loss g < rc_daily_loss_limit_pct (rg_config g)) \<and>
     rg_drawdown g < rc_total_drawdown_limit_pct (rg_config g) \<and>
     rg_daily_trade_count g < rc_max_trades_per_day (rg_config g)"
  using assms by (auto simp: rg_limit_checks_def Let_def split: if_splits dest: trigger_denies)

lemma tracking_frames [simp]:
  "rg_config (rg_update_daily_tracking env g) = rg_config g"
  "rg_starting_balance (rg_update_daily_tracking env g) = rg_starting_balance g"
  "rg_current_balance (rg_update_daily_tracking env g) = rg_current_balance g"
  "rg_peak_balance (rg_update_daily_tracking env g) = rg_peak_balance g"
  "rg_circuit_breaker_triggered (rg_update_daily_tracking env g) = rg_circuit_breaker_triggered g"
  "rg_kill_switch (rg_update_daily_tracking env g) = rg_kill_switch g"
  "rg_live_balance_active (rg_update_daily_tracking env g) = rg_live_balance_active g"
  "rg_file (rg_update_daily_tracking env g) = rg_file g"
  "rg_gate_config (rg_update_daily_tracking env g) = rg_gate_config g"
  "rg_current_day (rg_update_daily_tracking env g) = Some (current_trading_day env)"
  by (auto simp: rg_update_daily_tracking_def rg_record_daily_stats_def rg_check_best_day_rule_def Let_def
      split: option.split)

definition with_balance :: "trade_request \<Rightarrow> risk_guard \<Rightarrow> risk_guard" where
  "with_balance req g = (case tr_account_balance req of
     Some b \<Rightarrow> (if b \<noteq> 0 then g\<lparr>rg_current_balance := b\<rparr> else g) | None \<Rightarrow> g)"

lemma with_balance_frames [simp]:
  "rg_config (with_balance req g) = rg_config g"
  "rg_starting_balance (with_balance req g) = rg_starting_balance g"
  "rg_circuit_breaker_triggered (with_balance req g) = rg_circuit_breaker_triggered g"
  "rg_blocked_until (with_balance req g) = rg_blocked_until g"
  "rg_kill_switch (with_balance req g) = rg_kill_switch g"
  "rg_live_balance_active (with_balance req g) = rg_live_balance_active g"
  "rg_gate_config (with_balance req g) = rg_gate_config g"
  "rg_daily_trade_count (with_balance req g) = rg_daily_trade_count g"
  "rg_current_day (with_balance req g) = rg_current_day g"
  "rg_daily_start_balance (with_balance req g) = rg_daily_start_balance g"
  by (auto simp: with_balance_def split: option.split)

lemma time_blocked_with_balance [simp]: "time_blocked env (with_balance req g) = time_blocked env g"
  by (simp add: time_blocked_def)

lemma check_trade_unfold:
  "rg_check_trade_allowed env req g =
     (if rg_circuit_breaker_triggered g then
        Ret (rl_deny LDailyLoss [Lit ''Circuit breaker triggered - trading paused''] (Fin 0) 0) (with_balance req g)
      else case (case tr_symbol req of
                   Some symbol \<Rightarrow> (if tr_spread req > 0 \<and> symbol \<noteq> []
                                   then rg_spread_verdict symbol (tr_spread req) (with_balance req g) else None)
                 | None \<Rightarrow> None) of
         Some r \<Rightarrow> Ret r (with_balance req g)
       | None \<Rightarrow>
           (case time_blocked env g of
              Some b \<Rightarrow> Ret (rl_deny LDailyLoss [Lit ''Trading blocked until '', FTime b] (Fin 0) 0) (with_balance req g)
            | None \<Rightarrow> rg_limit_checks env req (rg_update_daily_tracking env (with_balance req g))))"
  unfolding rg_check_trade_allowed_def Let_def with_balance_def[symmetric]
  by (simp only: with_balance_frames time_blocked_with_balance)

lemma spread_verdict_denies: "rg_spread_verdict symbol sp g = Some r \<Longrightarrow> \<not> rl_allowed r"
  by (auto simp: rg_spread_verdict_def Let_def split: if_splits)

lemma spread_verdict_None:
  "rg_spread_verdict symbol sp g = None \<longleftrightarrow> sp \<le> spread_threshold (rg_gate_config g) symbol"
  by (simp add: rg_spread_verdict_def spread_gate_check_def spread_threshold_def Let_def)

lemma spread_verdict_Some:
  "rg_spread_verdict symbol sp g = Some r \<Longrightarrow> spread_threshold (rg_gate_config g) symbol < sp"
  using spread_verdict_None[of symbol sp g] by auto

text \<open>
  C2. A trade the guard allows satisfies every limit at once: no breaker is set and no time
  block is running, the spread (when given) is within its threshold, on the trading day of the
  check the loss since the start of the day is under the daily limit of the starting balance (if
  anything was traded), the balance is above the total drawdown limit, the trade count below the
  maximum, the stop-loss cost is at most the size limit plus 0.01 percent of a positive balance,
  the stop differs from the entry and the reward is at least the minimum multiple of the risk.
\<close>

theorem risk_allowed_within_limits:
  assumes "rg_check_trade_allowed env req g = Ret r g'" and "rl_allowed r" and "0 < rg_starting_balance g"
  shows "\<not> rg_is_blocked env g \<and>
     (\<forall>symbol. tr_symbol req = Some symbol \<and> symbol \<noteq> [] \<and> 0 < tr_spread req \<longrightarrow>
        tr_spread req \<le> spread_threshold (rg_gate_config g) symbol) \<and>
     rg_current_day g' = Some (current_trading_day env) \<and>
     (0 < rg_daily_trade_count g' \<longrightarrow>
        rg_daily_start_balance g' - rg_current_balance g' < rc_daily_loss_limit_pct (rg_config g) * rg_starting_balance g) \<and>
     (1 - rc_total_drawdown_limit_pct (rg_config g)) * rg_starting_balance g < rg_current_balance g' \<and>
     rg_daily_trade_count g' < rc_max_trades_per_day (rg_config g) \<and>
     0 < rg_current_balance g' \<and> tr_entry_price req \<noteq> tr_stop_loss req \<and>
     (\<exists>pip val. rg_pip_info req = Inr (pip, val) \<and>
        tr_volume req * (if pip > 0 then \<bar>tr_entry_price req - tr_stop_loss req\<bar> / pip else 0) * val
          \<le> (rc_max_position_size_pct (rg_config g) + 1/10000) * rg_current_balance g') \<and>
     rc_min_risk_reward (rg_config g) * \<bar>tr_entry_price req - tr_stop_loss req\<bar> \<le> \<bar>tr_take_profit req - tr_entry_price req\<bar>"
proof -
  let ?t = "rg_update_daily_tracking env (with_balance req g)"
  have nb: "\<not> rg_circuit_breaker_triggered g" "time_blocked env g = None"
    and sp: "\<forall>symbol. tr_symbol req = Some symbol \<and> symbol \<noteq> [] \<and> 0 < tr_spread req \<longrightarrow>
        tr_spread req \<le> spread_threshold (rg_gate_config g) symbol"
    and lc: "rg_limit_checks env req ?t = Ret r g'"
    using assms(1,2) unfolding check_trade_unfold
    by (auto simp: spread_verdict_None split: if_splits option.splits dest: spread_verdict_denies)
  note l = limit_checks_allowed[OF lc assms(2)]
  have g': "g' = ?t" using size_checks_allowed[of req ?t r g'] l assms(2) by blast
  have "\<not> rg_is_blocked env g"
    using nb by (auto simp: rg_is_blocked_def time_blocked_def split: option.splits if_splits)
  moreover have "0 < rg_daily_trade_count ?t \<longrightarrow>
      rg_daily_start_balance ?t - rg_current_balance ?t < rc_daily_loss_limit_pct (rg_config g) * rg_starting_balance g"
    using l assms(3) by (auto simp: rg_daily_loss_def pos_divide_less_eq)
  moreover have "(1 - rc_total_drawdown_limit_pct (rg_config g)) * rg_starting_balance g < rg_current_balance ?t"
    using l assms(3) by (simp add: rg_drawdown_def pos_divide_less_eq algebra_simps)
  moreover have "rg_daily_trade_count ?t < rc_max_trades_per_day (rg_config g)" using l by simp
  moreover note size_checks_allowed[of req ?t r g']
  ultimately show ?thesis using sp l assms(2) unfolding g' by simp
qed

text \<open>A process at noon in Toronto (offset minus five hours), a fresh guard and a request.\<close>

definition toronto_winter :: "instant \<Rightarrow> int" where "toronto_winter t = - 5 * hour_us"

definition demo_env :: risk_env where
  "demo_env = \<lparr>re_now = 17 * hour_us, re_tz = toronto_winter, re_tmp_ok = True, re_write_ok = True, re_ks = prod_env\<rparr>"

definition demo_risk :: risk_guard where
  "demo_risk = rg_init demo_env None 10000 [] 2 blank_disk RFMissing"

definition demo_request :: trade_request where
  "demo_request = \<lparr>tr_direction = LONG, tr_volume = 1/10, tr_entry_price = 11/10, tr_stop_loss = 1098/1000,
     tr_take_profit = 1104/1000, tr_account_balance = None, tr_symbol = Some ''EURUSD'', tr_spread = 1/2\<rparr>"

lemma demo_symbol: "get_symbol_info ''EURUSD'' = Inr (fx_info (1/10000) 10)"
  by code_simp

lemma demo_risk_simps:
  "rg_starting_balance demo_risk = 10000" "rg_current_balance demo_risk = 10000"
  "rg_daily_trade_count demo_risk = 0" "rg_config demo_risk = ftmo_config_default"
  "rg_circuit_breaker_triggered demo_risk = False" "rg_blocked_until demo_risk = None"
  "rg_current_day demo_risk = None" "rg_daily_start_balance demo_risk = 10000"
  "rg_kill_switch demo_risk = None" "rg_live_balance_active demo_risk = False"
  "rg_gate_config demo_risk = gate_config_default\<lparr>symbol_max_spreads := DEFAULT_SYMBOL_SPREADS\<rparr>"
  "rg_peak_balance demo_risk = 10000" "rg_file demo_risk = RFMissing" "rg_callbacks demo_risk = []"
  by (simp_all add: demo_risk_def rg_init_def rg_restore_state_def gate_config_default_def)

lemmas config_default = ftmo_config_default_def FTMO_PROFILE_CHALLENGE_def ftmo_params

lemma demo_allowed:
  "\<exists>r g'. rg_check_trade_allowed demo_env demo_request demo_risk = Ret r g' \<and> rl_allowed r"
proof -
  have "rg_limit_checks demo_env demo_request (rg_update_daily_tracking demo_env demo_risk) =
      Ret (rl_pass LPositionSize [Lit ''Trade allowed'']) (rg_update_daily_tracking demo_env demo_risk)"
    by (simp add: rg_limit_checks_def Let_def rg_daily_loss_def rg_drawdown_def rg_size_checks_def rg_pip_info_def
        demo_request_def demo_symbol rg_risk_pct_def demo_risk_simps config_default rg_update_daily_tracking_def)
  moreover have "rg_spread_verdict ''EURUSD'' (1/2) demo_risk = None"
    by (simp add: spread_verdict_None demo_risk_simps spread_threshold_def DEFAULT_SYMBOL_SPREADS_def)
  moreover have "with_balance demo_request demo_risk = demo_risk" by (simp add: with_balance_def demo_request_def)
  ultimately show ?thesis
    unfolding check_trade_unfold by (simp add: demo_risk_simps time_blocked_def demo_request_def)
qed

theorem risk_allowed_within_limits_witness:
  "\<exists>r g'. rg_check_trade_allowed demo_env demo_request demo_risk = Ret r g' \<and>
     9000 < rg_current_balance g' \<and> rg_daily_trade_count g' < 10"
proof -
  obtain r g' where r: "rg_check_trade_allowed demo_env demo_request demo_risk = Ret r g'" "rl_allowed r"
    using demo_allowed by blast
  show ?thesis using risk_allowed_within_limits[OF r] r(1)
    by (auto simp: demo_risk_simps config_default)
qed

section \<open>The breakers\<close>

lemma save_state_of [simp]:
  "state_of (rg_save_state env g) =
     (if re_tmp_ok env \<and> re_write_ok env then g\<lparr>rg_file := RFPayload (rg_payload g)\<rparr> else g)"
  by (simp add: rg_save_state_def)

lemma activate_kill_frames [simp]:
  "rg_circuit_breaker_triggered (rg_activate_kill env r g) = rg_circuit_breaker_triggered g"
  "rg_blocked_until (rg_activate_kill env r g) = rg_blocked_until g"
  "rg_current_balance (rg_activate_kill env r g) = rg_current_balance g"
  "rg_live_balance_active (rg_activate_kill env r g) = rg_live_balance_active g"
  "rg_callbacks (rg_activate_kill env r g) = rg_callbacks g"
  "rg_calls (rg_activate_kill env r g) = rg_calls g"
  by (simp_all add: rg_activate_kill_def split: option.split)

lemma trigger_fields:
  "rg_circuit_breaker_triggered (state_of (rg_trigger_circuit_breaker env t c l g)) =
     (t \<noteq> LDailyLoss \<or> rg_circuit_breaker_triggered g)"
  "rg_blocked_until (state_of (rg_trigger_circuit_breaker env t c l g)) =
     (if t = LDailyLoss then Some (next_utc_midnight (re_now env)) else None)"
  "rg_current_balance (state_of (rg_trigger_circuit_breaker env t c l g)) = rg_current_balance g"
  "rg_live_balance_active (state_of (rg_trigger_circuit_breaker env t c l g)) = rg_live_balance_active g"
  by (auto simp: rg_trigger_circuit_breaker_def Let_def rg_save_state_def)

lemma size_checks_state [simp]: "state_of (rg_size_checks req g) = g"
  by (simp add: rg_size_checks_def Let_def split: sum.split)

lemma state_of_then_ret [simp]: "state_of (and_then m (\<lambda>_. Ret b)) = state_of m"
  by (cases m) auto

lemma limit_checks_state:
  "state_of (rg_limit_checks env req g) =
     (if rg_daily_trade_count g > 0 \<and> rc_daily_loss_limit_pct (rg_config g) \<le> rg_daily_loss g
      then state_of (rg_trigger_circuit_breaker env LDailyLoss (rg_daily_loss g) (rc_daily_loss_limit_pct (rg_config g)) g)
      else if rc_total_drawdown_limit_pct (rg_config g) \<le> rg_drawdown g
      then state_of (rg_trigger_circuit_breaker env LTotalDrawdown (rg_drawdown g)
             (rc_total_drawdown_limit_pct (rg_config g)) g)
      else g)"
  by (simp add: rg_limit_checks_def Let_def)

lemma check_trade_state:
  "state_of (rg_check_trade_allowed env req g) =
     (if rg_is_blocked env g \<or> (\<exists>symbol. tr_symbol req = Some symbol \<and> symbol \<noteq> [] \<and> 0 < tr_spread req \<and>
           spread_threshold (rg_gate_config g) symbol < tr_spread req)
      then with_balance req g
      else state_of (rg_limit_checks env req (rg_update_daily_tracking env (with_balance req g))))"
  unfolding check_trade_unfold
  by (auto simp: rg_is_blocked_def time_blocked_def spread_verdict_None not_le split: option.splits
      dest: spread_verdict_Some)

text \<open>
  The best-day rule is dead code: the day's statistics are appended before its profit is compared
  with the best profit of all recorded days, so it is never strictly greater.
\<close>

lemma best_day_upper: "s \<in> set (rg_daily_stats g) \<Longrightarrow> 0 < ds_pnl s \<Longrightarrow> ds_pnl s \<le> rg_get_best_day_profit g"
  by (auto simp: rg_get_best_day_profit_def Let_def filter_empty_conv)

lemma record_stats_blocked: "rg_blocked_until (rg_record_daily_stats env g) = rg_blocked_until g"
proof (cases "rg_current_day g")
  case (Some d)
  let ?stats = "\<lparr>ds_date = d, ds_trades_count = rg_daily_trade_count g, ds_wins = 0, ds_losses = 0,
     ds_pnl = rg_current_balance g - rg_daily_start_balance g, ds_best_day_profit = 0, ds_positive_days_pnl = 0\<rparr>"
  have "\<not> rg_get_best_day_profit (g\<lparr>rg_daily_stats := rg_daily_stats g @ [?stats]\<rparr>) < ds_pnl ?stats" if "0 < ds_pnl ?stats"
    using best_day_upper[of ?stats "g\<lparr>rg_daily_stats := rg_daily_stats g @ [?stats]\<rparr>"] that by simp
  then have "rg_record_daily_stats env g = g\<lparr>rg_daily_stats := rg_daily_stats g @ [?stats]\<rparr>"
    unfolding rg_record_daily_stats_def Let_def Some option.case by presburger
  then show ?thesis by simp
qed (simp add: rg_record_daily_stats_def)

lemma tracking_blocked [simp]: "rg_blocked_until (rg_update_daily_tracking env g) = rg_blocked_until g"
  by (cases "rg_current_day g") (simp_all add: rg_update_daily_tracking_def record_stats_blocked Let_def)

text \<open>The state \<open>record_trade\<close> examines.\<close>

definition recorded :: "risk_env \<Rightarrow> int \<Rightarrow> risk_guard \<Rightarrow> risk_guard" where
  "recorded env n g = rg_update_daily_tracking env
     (g\<lparr>rg_total_trades := rg_total_trades g + n, rg_daily_trade_count := rg_daily_trade_count g + n,
        rg_peak_balance := max (rg_peak_balance g) (rg_current_balance g)\<rparr>)"

lemma recorded_frames [simp]:
  "rg_config (recorded env n g) = rg_config g"
  "rg_starting_balance (recorded env n g) = rg_starting_balance g"
  "rg_current_balance (recorded env n g) = rg_current_balance g"
  "rg_circuit_breaker_triggered (recorded env n g) = rg_circuit_breaker_triggered g"
  "rg_kill_switch (recorded env n g) = rg_kill_switch g"
  "rg_live_balance_active (recorded env n g) = rg_live_balance_active g"
  "rg_blocked_until (recorded env n g) = rg_blocked_until g"
  by (simp_all add: recorded_def)

definition daily_breach :: "risk_guard \<Rightarrow> bool" where
  "daily_breach g \<longleftrightarrow> rg_daily_trade_count g > 0 \<and> rg_starting_balance g > 0 \<and>
     rc_daily_loss_limit_pct (rg_config g) \<le> (rg_daily_start_balance g - rg_current_balance g) / rg_starting_balance g"

lemma record_trade_unfold:
  "rg_record_trade env pnl w n g =
     (let g3 = recorded env n g in
      and_then (if daily_breach g3
                then rg_trigger_circuit_breaker env LDailyLoss
                       ((rg_daily_start_balance g3 - rg_current_balance g3) / rg_starting_balance g3)
                       (rc_daily_loss_limit_pct (rg_config g3)) g3
                else Ret () g3) (\<lambda>_. rg_save_state env))"
proof -
  let ?g1 = "g\<lparr>rg_total_trades := rg_total_trades g + n, rg_daily_trade_count := rg_daily_trade_count g + n\<rparr>"
  have "(if rg_current_balance ?g1 > rg_peak_balance ?g1
         then ?g1\<lparr>rg_peak_balance := rg_current_balance ?g1\<rparr> else ?g1) =
        g\<lparr>rg_total_trades := rg_total_trades g + n, rg_daily_trade_count := rg_daily_trade_count g + n,
          rg_peak_balance := max (rg_peak_balance g) (rg_current_balance g)\<rparr>"
    by (cases g) (simp add: max_def)
  then show ?thesis unfolding rg_record_trade_def recorded_def daily_breach_def Let_def by presburger
qed

text \<open>An invariant that saving keeps survives \<open>record_trade\<close> when it survives the trigger.\<close>

lemma record_trade_inv:
  assumes "\<And>h. Q h \<Longrightarrow> Q (state_of (rg_save_state env h))" and "Q (recorded env n g)"
    and "\<And>c l. daily_breach (recorded env n g) \<Longrightarrow> Q (state_of (rg_trigger_circuit_breaker env LDailyLoss c l (recorded env n g)))"
  shows "Q (state_of (rg_record_trade env pnl w n g))"
  unfolding record_trade_unfold Let_def
  by (rule and_then_inv) (use assms in auto)

text \<open>The breaker fields over the operations.\<close>

lemmas rg_simple_defs = rg_record_strategy_trade_def rg_update_balance_def rg_sync_live_balance_def
  rg_disable_live_balance_def rg_reset_daily_tracking_def rg_register_callback_def rg_set_kill_switch_def

fun not_reset :: "risk_env \<times> risk_op \<Rightarrow> bool" where
  "not_reset (_, RResetBreaker) = False"
| "not_reset _ = True"

lemma triggered_blocked: "rg_circuit_breaker_triggered g \<Longrightarrow> rg_is_blocked env g"
  by (simp add: rg_is_blocked_def)

lemma check_blocked_state: "rg_is_blocked env g \<Longrightarrow> state_of (rg_check_trade_allowed env req g) = with_balance req g"
  by (simp add: check_trade_state)

lemma check_blocked_denies:
  "rg_is_blocked env g \<Longrightarrow> \<exists>r. rg_check_trade_allowed env req g = Ret r (with_balance req g) \<and> \<not> rl_allowed r"
  unfolding check_trade_unfold
  by (auto simp: rg_is_blocked_def time_blocked_def split: option.split dest: spread_verdict_denies)

lemma signal_blocked_denies: "rg_is_blocked env g \<Longrightarrow> \<not> rl_allowed (rg_check_signal env sg g)"
  by (auto simp: rg_check_signal_def rg_is_blocked_def time_blocked_def split: option.split)

lemma triggered_step:
  assumes "rg_circuit_breaker_triggered g" and "not_reset (env, op)"
  shows "rg_circuit_breaker_triggered (rg_step g (env, op))"
proof (cases op)
  case (RCheckTrade req)
  then show ?thesis using assms by (simp add: check_blocked_state triggered_blocked)
next
  case (RRecordTrade pnl w n)
  have "rg_circuit_breaker_triggered (state_of (rg_record_trade env pnl w n g))"
    by (rule record_trade_inv) (use assms(1) in \<open>simp_all add: trigger_fields\<close>)
  then show ?thesis using RRecordTrade by simp
qed (use assms in \<open>simp_all add: rg_simple_defs\<close>)

interpretation drawdown_latch: invariant_machine rg_step not_reset rg_circuit_breaker_triggered
  by unfold_locales (metis triggered_step surj_pair)

text \<open>
  C25. The drawdown breaker is permanent: once set, over any operations and at any times, every
  signal and every trade is refused until \<open>reset_circuit_breaker\<close> is called.
\<close>

theorem risk_drawdown_breaker_latches:
  assumes "rg_circuit_breaker_triggered g" and "list_all not_reset es"
  shows "\<exists>r g'. rg_check_trade_allowed env req (foldl rg_step g es) = Ret r g' \<and> \<not> rl_allowed r \<and>
     \<not> rl_allowed (rg_check_signal env sg (foldl rg_step g es))"
proof -
  have "rg_is_blocked env (foldl rg_step g es)"
    by (rule triggered_blocked) (rule drawdown_latch.run_inv[OF assms])
  then show ?thesis using check_blocked_denies signal_blocked_denies by blast
qed

definition locked_out :: "risk_guard \<Rightarrow> bool" where
  "locked_out g \<longleftrightarrow> rg_circuit_breaker_triggered g \<and> rg_blocked_until g \<noteq> None"

lemma locked_out_step: "locked_out g \<Longrightarrow> locked_out (rg_step g (env, op))"
proof (cases op)
  case (RCheckTrade req)
  then show "locked_out g \<Longrightarrow> ?thesis" by (simp add: check_blocked_state triggered_blocked locked_out_def)
next
  case (RRecordTrade pnl w n)
  assume l: "locked_out g"
  have "locked_out (state_of (rg_record_trade env pnl w n g))"
    by (rule record_trade_inv) (use l in \<open>simp_all add: trigger_fields locked_out_def\<close>)
  then show ?thesis using RRecordTrade by simp
qed (simp_all add: rg_simple_defs locked_out_def rg_reset_circuit_breaker_def)

interpretation lockout: invariant_machine rg_step "\<lambda>_. True" locked_out
  by unfold_locales (metis locked_out_step surj_pair)

text \<open>
  A lockout no reset can end: when the drawdown breaker is set and a trade is then recorded
  on a daily loss at the limit, the guard holds both kinds of block, and from there on, over any
  operations and at any later time, the reset returns False and every trade is refused, although
  the daily block has expired.
\<close>

theorem risk_lockout_forever:
  assumes "rg_circuit_breaker_triggered g" and "daily_breach (recorded env n g)"
    and "g' = foldl rg_step (rg_step g (env, RRecordTrade pnl w n)) es"
  shows "rg_reset_circuit_breaker env' g' = Ret False g' \<and>
     (\<exists>r g''. rg_check_trade_allowed env' req g' = Ret r g'' \<and> \<not> rl_allowed r)"
proof -
  have "locked_out (rg_step g (env, RRecordTrade pnl w n))"
  proof -
    have "locked_out (state_of (rg_record_trade env pnl w n g))"
      unfolding record_trade_unfold Let_def if_P[OF assms(2)]
      by (rule and_then_inv) (use assms(1) in \<open>simp_all add: trigger_fields locked_out_def\<close>)
    then show ?thesis by simp
  qed
  then have l: "locked_out g'" unfolding assms(3) by (rule lockout.run_inv) (simp add: list_all_iff)
  then have "rg_is_blocked env' g'" by (simp add: locked_out_def triggered_blocked)
  then obtain r where "rg_check_trade_allowed env' req g' = Ret r (with_balance req g')" "\<not> rl_allowed r"
    using check_blocked_denies by blast
  moreover have "rg_reset_circuit_breaker env' g' = Ret False g'"
    using l by (simp add: rg_reset_circuit_breaker_def locked_out_def)
  ultimately show ?thesis by blast
qed

lemma next_utc_midnight_mono: "t \<le> t' \<Longrightarrow> next_utc_midnight t \<le> next_utc_midnight t'"
  by (simp add: next_utc_midnight_def zdiv_mono1)

lemma next_utc_midnight_after: "t < next_utc_midnight t \<and> next_utc_midnight t \<le> t + day_us"
proof -
  have "(t + day_us) mod day_us < day_us" "0 \<le> (t + day_us) mod day_us" by simp_all
  then show ?thesis
    unfolding next_utc_midnight_def using div_mult_mod_eq[of "t + day_us" day_us] by linarith
qed

definition blocked_from :: "instant \<Rightarrow> risk_guard \<Rightarrow> bool" where
  "blocked_from t g \<longleftrightarrow> (\<exists>b. rg_blocked_until g = Some b \<and> next_utc_midnight t \<le> b)"

fun in_day :: "instant \<Rightarrow> risk_env \<times> risk_op \<Rightarrow> bool" where
  "in_day t (env, _) \<longleftrightarrow> t \<le> re_now env \<and> re_now env < next_utc_midnight t"

lemma blocked_from_blocks: "blocked_from t g \<Longrightarrow> re_now env < next_utc_midnight t \<Longrightarrow> rg_is_blocked env g"
  by (auto simp: blocked_from_def rg_is_blocked_def)

lemma blocked_from_step:
  assumes "blocked_from t g" and "in_day t (env, op)"
  shows "blocked_from t (rg_step g (env, op))"
proof (cases op)
  case (RCheckTrade req)
  then show ?thesis using assms blocked_from_blocks[OF assms(1)]
    by (simp add: check_blocked_state blocked_from_def)
next
  case (RRecordTrade pnl w n)
  have "blocked_from t (state_of (rg_record_trade env pnl w n g))"
    by (rule record_trade_inv)
      (use assms in \<open>simp_all add: trigger_fields blocked_from_def next_utc_midnight_mono\<close>)
  then show ?thesis using RRecordTrade by simp
next
  case RResetBreaker
  then show ?thesis using assms by (auto simp: blocked_from_def rg_reset_circuit_breaker_def)
qed (use assms in \<open>simp_all add: rg_simple_defs blocked_from_def\<close>)

interpretation daily_block: invariant_machine rg_step "in_day t" "blocked_from t" for t
  by unfold_locales (metis blocked_from_step surj_pair)

text \<open>
  A daily loss at the limit, found when a trade is recorded, stops trading for the rest of
  the UTC day: whatever is done between that moment and the next UTC midnight, resets included,
  every signal and every trade is refused and \<open>reset_circuit_breaker\<close> returns False.
\<close>

theorem risk_daily_loss_blocks_until_midnight:
  assumes "daily_breach (recorded env n g)"
    and "g' = foldl rg_step (rg_step g (env, RRecordTrade pnl w n)) es"
    and "list_all (in_day (re_now env)) es" and "re_now env \<le> re_now env'"
    and "re_now env' < next_utc_midnight (re_now env)"
  shows "rg_reset_circuit_breaker env' g' = Ret False g' \<and> \<not> rl_allowed (rg_check_signal env' sg g') \<and>
     (\<exists>r g''. rg_check_trade_allowed env' req g' = Ret r g'' \<and> \<not> rl_allowed r)"
proof -
  have "blocked_from (re_now env) (state_of (rg_record_trade env pnl w n g))"
    unfolding record_trade_unfold Let_def if_P[OF assms(1)]
    by (rule and_then_inv) (simp_all add: trigger_fields blocked_from_def)
  then have l: "blocked_from (re_now env) g'"
    unfolding assms(2) by (intro daily_block.run_inv[OF _ assms(3)]) simp
  then have b: "rg_is_blocked env' g'" using assms(5) by (rule blocked_from_blocks)
  then obtain r where "rg_check_trade_allowed env' req g' = Ret r (with_balance req g')" "\<not> rl_allowed r"
    using check_blocked_denies by blast
  moreover have "rg_reset_circuit_breaker env' g' = Ret False g'"
    using l by (auto simp: rg_reset_circuit_breaker_def blocked_from_def)
  ultimately show ?thesis using b signal_blocked_denies by blast
qed

section \<open>The kill switch of a breach\<close>

lemma trigger_switch:
  assumes "re_tmp_ok env" and "t = LDailyLoss \<or> t = LTotalDrawdown"
    and "rg_kill_switch g = Some ks" and "\<not> ks_disabled ks"
  shows "\<exists>ks'. rg_kill_switch (state_of (rg_trigger_circuit_breaker env t c l g)) = Some ks' \<and>
     \<not> ks_disabled ks' \<and> ks_blocked ks'"
  using assms
  by (auto simp: rg_trigger_circuit_breaker_def Let_def rg_save_state_def rg_activate_kill_def kill_keeps_disabled kill_blocked)

definition switch_linked :: "risk_guard \<Rightarrow> bool" where
  "switch_linked g \<longleftrightarrow> (\<exists>ks. rg_kill_switch g = Some ks \<and> \<not> ks_disabled ks \<and>
     (rg_circuit_breaker_triggered g \<or> rg_blocked_until g \<noteq> None \<longrightarrow> ks_blocked ks))"

fun tmp_ok :: "risk_env \<times> risk_op \<Rightarrow> bool" where
  "tmp_ok (env, _) = re_tmp_ok env"

lemma switch_linked_trigger:
  "re_tmp_ok env \<Longrightarrow> t = LDailyLoss \<or> t = LTotalDrawdown \<Longrightarrow> switch_linked g \<Longrightarrow>
   switch_linked (state_of (rg_trigger_circuit_breaker env t c l g))"
  unfolding switch_linked_def using trigger_switch by blast

lemma switch_linked_save: "switch_linked g \<Longrightarrow> switch_linked (state_of (rg_save_state env g))"
  by (simp add: switch_linked_def)

lemma switch_linked_step:
  assumes "switch_linked g" and "tmp_ok (env, op)"
  shows "switch_linked (rg_step g (env, op))"
proof (cases op)
  case (RCheckTrade req)
  have 1: "switch_linked (with_balance req g)" using assms(1) by (simp add: switch_linked_def)
  have "switch_linked (rg_update_daily_tracking env (with_balance req g))" using assms(1) by (simp add: switch_linked_def)
  then have "switch_linked (state_of (rg_limit_checks env req (rg_update_daily_tracking env (with_balance req g))))"
    using assms(2) by (simp add: limit_checks_state switch_linked_trigger)
  then show ?thesis using RCheckTrade 1 by (simp add: check_trade_state)
next
  case (RRecordTrade pnl w n)
  have "switch_linked (recorded env n g)" using assms(1) by (simp add: switch_linked_def)
  then have "switch_linked (state_of (rg_record_trade env pnl w n g))"
    using assms(2) switch_linked_save
    by (rule_tac record_trade_inv[where Q = switch_linked]) (simp_all add: switch_linked_trigger del: save_state_of)
  then show ?thesis using RRecordTrade by simp
next
  case RResetBreaker
  then show ?thesis using assms by (auto simp: switch_linked_def rg_reset_circuit_breaker_def rg_save_state_def)
qed (use assms in \<open>simp_all add: rg_simple_defs switch_linked_def\<close>)

interpretation switch_link: invariant_machine rg_step tmp_ok switch_linked
  by unfold_locales (metis switch_linked_step surj_pair)

text \<open>
  C15. A breach reaches the kill switch: from a guard with an injected, enabled manager and no
  block, over any operations whose state saves can create their file, whenever the guard is
  blocked (by drawdown, by daily loss, or by both) the manager is active and killed or frozen.
\<close>

theorem risk_breach_kills_switch:
  assumes "rg_kill_switch g = Some ks" and "\<not> ks_disabled ks"
    and "\<not> rg_circuit_breaker_triggered g" and "rg_blocked_until g = None"
    and "list_all tmp_ok es" and "rg_is_blocked env (foldl rg_step g es)"
  shows "\<exists>ks'. rg_kill_switch (foldl rg_step g es) = Some ks' \<and> ks_is_active ks' \<and>
     (ks_is_globally_killed ks' \<or> ks_is_globally_frozen ks')"
proof -
  have "switch_linked g" using assms(1-4) by (simp add: switch_linked_def)
  from switch_link.run_inv[OF this assms(5)] assms(6) show ?thesis
    by (auto simp: switch_linked_def rg_is_blocked_def ks_blocked_def split: if_splits option.splits)
qed

text \<open>
  When the directory or the temporary file of the state cannot be created, a breach raises
  before the kill switch is called: recording the trade raises OSError, the time block is set in
  memory, and the injected manager is left as it was.
\<close>

theorem risk_unsaved_breach_skips_switch:
  assumes "\<not> re_tmp_ok env" and "daily_breach (recorded env n g)"
  shows "\<exists>g'. rg_record_trade env pnl w n g = Exc OSError g' \<and> rg_kill_switch g' = rg_kill_switch g \<and>
     rg_blocked_until g' = Some (next_utc_midnight (re_now env)) \<and> rg_calls g' = rg_calls (recorded env n g)"
  using assms by (simp add: record_trade_unfold Let_def rg_trigger_circuit_breaker_def rg_save_state_def)

lemma init_disabled_disk:
  assumes "\<And>err. dk_state disk \<noteq> Corrupt err"
  shows "ks_disk (state_of (and_then (ks_init env None disk) (\<lambda>_. ks_activate_global_kill env r b c))) = disk"
proof -
  let ?ks0 = "\<lparr>ks_disabled = True, ks_state = gk_default, ks_killed_cache = False, ks_frozen_cache = False,
     ks_strategies = [], ks_disk = disk\<rparr>"
  have load: "ks_disk (state_of (ks_load_state env ?ks0)) = disk \<and> ks_disabled (state_of (ks_load_state env ?ks0))"
    using assms by (simp add: ks_load_state_def split: ks_file.split sum.split)
  have strat: "ks_disk (state_of (ks_load_strategy_states k)) = ks_disk k \<and>
      ks_disabled (state_of (ks_load_strategy_states k)) = ks_disabled k" for k
    by (auto simp: ks_load_strategy_states_def split: ks_file.split pyv.split sum.split)
  have init: "ks_disk (state_of (ks_init env None disk)) = disk \<and> ks_disabled (state_of (ks_init env None disk))"
  proof (cases "ks_is_harness_mode env \<and> ks_is_production_state_dir env")
    case False
    show ?thesis
    proof (cases "ks_load_state env ?ks0")
      case (Ret u k)
      then show ?thesis using load strat False by (simp add: ks_init_def Let_def)
    next
      case (Exc e k)
      then show ?thesis using load False by (simp add: ks_init_def Let_def)
    qed
  qed (simp add: ks_init_def Let_def)
  show ?thesis
    by (cases "ks_init env None disk") (use init in \<open>simp_all add: kill_state\<close>)
qed

text \<open>
  Without an injected manager a breach activates nothing: the manager it constructs on the
  default directory has the class default, administratively disabled, so the files of that
  directory, whatever valid state they hold, stay as they are.
\<close>

theorem risk_default_switch_suppressed:
  assumes "rg_kill_switch g = None" and "\<And>err. dk_state (rg_default_disk g) \<noteq> Corrupt err"
  shows "rg_kill_switch (state_of (rg_trigger_circuit_breaker env t c l g)) = None \<and>
     rg_default_disk (state_of (rg_trigger_circuit_breaker env t c l g)) = rg_default_disk g"
  using assms init_disabled_disk[OF assms(2)]
  by (auto simp: rg_trigger_circuit_breaker_def Let_def rg_save_state_def rg_activate_kill_def)

section \<open>Live-balance mode\<close>

fun not_live_change :: "risk_env \<times> risk_op \<Rightarrow> bool" where
  "not_live_change (_, RSyncBalance _) = False"
| "not_live_change (_, RDisableLive) = False"
| "not_live_change (_, RCheckTrade req) = (tr_account_balance req = None)"
| "not_live_change _ = True"

definition live_at :: "flt \<Rightarrow> risk_guard \<Rightarrow> bool" where
  "live_at b g \<longleftrightarrow> rg_live_balance_active g \<and> rg_current_balance g = b"

lemma live_at_step:
  assumes "live_at b g" and "not_live_change (env, op)"
  shows "live_at b (rg_step g (env, op))"
proof (cases op)
  case (RCheckTrade req)
  then have "with_balance req g = g" using assms(2) by (simp add: with_balance_def)
  then show ?thesis using RCheckTrade assms(1)
    by (simp add: check_trade_state limit_checks_state live_at_def trigger_fields)
next
  case (RRecordTrade pnl w n)
  have "live_at b (state_of (rg_record_trade env pnl w n g))"
    by (rule record_trade_inv[where Q = "live_at b"]) (use assms(1) in \<open>simp_all add: trigger_fields live_at_def\<close>)
  then show ?thesis using RRecordTrade by simp
next
  case RResetBreaker
  then show ?thesis using assms by (auto simp: live_at_def rg_reset_circuit_breaker_def rg_save_state_def)
qed (use assms in \<open>simp_all add: rg_simple_defs live_at_def\<close>)

interpretation live_mode: invariant_machine rg_step not_live_change "live_at b" for b
  by unfold_locales (metis live_at_step surj_pair)

text \<open>
  Once a live balance is synchronised it is authoritative: whatever paper recalculations,
  trades, checks without an explicit balance and resets follow, the balance stays the
  synchronised one until the next synchronisation or until live mode is turned off.
\<close>

theorem risk_live_balance_authoritative:
  assumes "list_all not_live_change es"
  shows "rg_current_balance (foldl rg_step (rg_step g (env, RSyncBalance b)) es) = b"
proof -
  have "live_at b (rg_step g (env, RSyncBalance b))" by (simp add: rg_simple_defs live_at_def)
  from live_mode.run_inv[OF this assms] show ?thesis by (simp add: live_at_def)
qed

section \<open>The best-day rule\<close>

text \<open>
  The best-day rule of the risk guard never takes effect: closing a trading day appends the
  day's statistics before comparing its profit with the best recorded one, so the comparison is
  never strict, the rule is not evaluated, and the roll-over sets no block whatever the profits.
\<close>

theorem risk_best_day_never_blocks:
  "rg_blocked_until (rg_update_daily_tracking env g) = rg_blocked_until g \<and>
   rg_daily_stats (rg_update_daily_tracking env g) =
     (case rg_current_day g of
        Some d \<Rightarrow> (if d = current_trading_day env then rg_daily_stats g
          else rg_daily_stats g @ [\<lparr>ds_date = d, ds_trades_count = rg_daily_trade_count g, ds_wins = 0, ds_losses = 0,
                 ds_pnl = rg_current_balance g - rg_daily_start_balance g, ds_best_day_profit = 0, ds_positive_days_pnl = 0\<rparr>])
      | None \<Rightarrow> rg_daily_stats g)"
proof -
  have "rg_daily_stats (rg_check_best_day_rule e s h) = rg_daily_stats h" for e s h
    by (simp add: rg_check_best_day_rule_def Let_def)
  then show ?thesis
    by (intro conjI tracking_blocked)
      (cases "rg_current_day g"; simp add: rg_update_daily_tracking_def rg_record_daily_stats_def Let_def)
qed

section \<open>Restart\<close>

definition sane_state :: "risk_guard \<Rightarrow> bool" where
  "sane_state g \<longleftrightarrow> (let s = rg_starting_balance g in
     \<bar>rg_peak_balance g - s\<bar> \<le> s * 5 \<and> \<bar>rg_current_balance g - s\<bar> \<le> s * 5 \<and> \<bar>rg_daily_start_balance g - s\<bar> \<le> s * 5 \<and>
     rg_daily_start_balance g \<le> s * 2 \<and> rg_peak_balance g \<le> s * 2)"

text \<open>
  What a restart with the same starting balance restores after a successful save: with
  balances inside the sanity bounds, both breakers, the balances and the total count come back;
  the daily start and count come back on the same trading day and are reset on another one,
  where a time block that has expired is also lifted (and one that has not is kept). Outside
  the bounds everything starts afresh, the permanent breaker included.
\<close>

theorem risk_restart_restores:
  assumes "re_tmp_ok env" and "re_write_ok env" and "rg_save_state env g = Ret () g1"
    and "rg_current_day g = Some d"
    and "h = rg_init env' (Some cfg) (rg_starting_balance g) sp dsp disk (rg_file g1)"
  shows "if sane_state g then
       rg_peak_balance h = rg_peak_balance g \<and> rg_current_balance h = rg_current_balance g \<and>
       rg_total_trades h = rg_total_trades g \<and>
       rg_circuit_breaker_triggered h = rg_circuit_breaker_triggered g \<and>
       rg_current_day h = Some (current_trading_day env') \<and>
       rg_is_blocked env' h = rg_is_blocked env' g \<and>
       (if d = current_trading_day env'
        then rg_daily_start_balance h = rg_daily_start_balance g \<and> rg_daily_trade_count h = rg_daily_trade_count g \<and>
             rg_blocked_until h = rg_blocked_until g
        else rg_daily_start_balance h = rg_current_balance g \<and> rg_daily_trade_count h = 0)
     else rg_current_balance h = rg_starting_balance g \<and> \<not> rg_circuit_breaker_triggered h \<and>
       rg_blocked_until h = None \<and> rg_total_trades h = 0"
proof -
  have f: "rg_file g1 = RFPayload (rg_payload g)"
    using assms(1-3) by (auto simp: rg_save_state_def)
  let ?i = "\<lparr>rg_config = or_default (Some cfg) ftmo_config_default, rg_starting_balance = rg_starting_balance g,
        rg_peak_balance = rg_starting_balance g, rg_current_balance = rg_starting_balance g,
        rg_daily_start_balance = rg_starting_balance g, rg_current_day = None, rg_daily_stats = [],
        rg_callbacks = [], rg_calls = [], rg_daily_trade_count = 0, rg_total_trades = 0,
        rg_blocked_until = None, rg_circuit_breaker_triggered = False, rg_per_strategy_pnl = [],
        rg_live_balance_active = False,
        rg_gate_config = gate_config_default
          \<lparr>default_max_spread := dsp,
           symbol_max_spreads := fold (\<lambda>(k, v). AList.update k v) sp DEFAULT_SYMBOL_SPREADS\<rparr>,
        rg_kill_switch = None, rg_default_disk = disk, rg_file = RFPayload (rg_payload g)\<rparr>"
  have h: "h = rg_restore_state env' ?i" using assms(5) f by (simp add: rg_init_def)
  show ?thesis
  proof (cases "sane_state g")
    case True
    then show ?thesis unfolding h using assms(4)
      by (auto simp: rg_restore_state_def rg_payload_def sane_state_def Let_def not_less rg_is_blocked_def
          split: option.split)
  next
    case False
    then show ?thesis unfolding h
      by (auto simp: rg_restore_state_def rg_payload_def sane_state_def Let_def not_le rg_fresh_def)
  qed
qed

section \<open>Concrete instances\<close>

text \<open>A guard that lost 10 percent today, with its breaker set, and a process that cannot save.\<close>

definition lost_risk :: risk_guard where
  "lost_risk = demo_risk\<lparr>rg_current_balance := 9000, rg_current_day := Some (current_trading_day demo_env),
     rg_circuit_breaker_triggered := True\<rparr>"

definition nosave_env :: risk_env where "nosave_env = demo_env\<lparr>re_tmp_ok := False\<rparr>"

lemma lost_risk_breach:
  "daily_breach (recorded demo_env 1 lost_risk)" "daily_breach (recorded nosave_env 1 lost_risk)"
proof -
  have "current_trading_day nosave_env = current_trading_day demo_env"
    by (simp add: current_trading_day_def nosave_env_def demo_env_def)
  then show "daily_breach (recorded demo_env 1 lost_risk)" "daily_breach (recorded nosave_env 1 lost_risk)"
    by (simp_all add: daily_breach_def recorded_def rg_update_daily_tracking_def lost_risk_def demo_risk_simps config_default)
qed

theorem risk_drawdown_breaker_latches_witness:
  "\<exists>r g'. rg_check_trade_allowed demo_env demo_request (foldl rg_step lost_risk [(demo_env, RUpdateBalance 10000), (demo_env, RResetDaily)])
     = Ret r g' \<and> \<not> rl_allowed r"
proof -
  have "rg_circuit_breaker_triggered lost_risk" by (simp add: lost_risk_def)
  then show ?thesis
    using risk_drawdown_breaker_latches[of lost_risk "[(demo_env, RUpdateBalance 10000), (demo_env, RResetDaily)]"]
    by simp blast
qed

theorem risk_lockout_forever_witness:
  "\<exists>g'. g' = foldl rg_step (rg_step lost_risk (demo_env, RRecordTrade (-1000) False 1)) [(demo_env, RResetBreaker)] \<and>
     rg_reset_circuit_breaker (demo_env\<lparr>re_now := 100 * day_us\<rparr>) g' = Ret False g'"
proof -
  have "rg_circuit_breaker_triggered lost_risk" by (simp add: lost_risk_def)
  from risk_lockout_forever[OF this lost_risk_breach(1) refl] show ?thesis by blast
qed

theorem risk_daily_loss_blocks_until_midnight_witness:
  "\<exists>g'. g' = foldl rg_step (rg_step (lost_risk\<lparr>rg_circuit_breaker_triggered := False\<rparr>) (demo_env, RRecordTrade (-1000) False 1))
      [(demo_env, RResetBreaker)] \<and>
     rg_reset_circuit_breaker (demo_env\<lparr>re_now := 20 * hour_us\<rparr>) g' = Ret False g'"
proof -
  have b: "daily_breach (recorded demo_env 1 (lost_risk\<lparr>rg_circuit_breaker_triggered := False\<rparr>))"
    by (simp add: daily_breach_def recorded_def rg_update_daily_tracking_def lost_risk_def demo_risk_simps config_default)
  have t: "list_all (in_day (re_now demo_env)) [(demo_env, RResetBreaker)]"
    "re_now demo_env \<le> re_now (demo_env\<lparr>re_now := 20 * hour_us\<rparr>)"
    "re_now (demo_env\<lparr>re_now := 20 * hour_us\<rparr>) < next_utc_midnight (re_now demo_env)"
    by (simp_all add: demo_env_def next_utc_midnight_def)
  show ?thesis using risk_daily_loss_blocks_until_midnight[OF b refl t] by blast
qed

theorem risk_breach_kills_switch_witness:
  "\<exists>ks'. rg_kill_switch (foldl rg_step (lost_risk\<lparr>rg_circuit_breaker_triggered := False, rg_kill_switch := Some fresh_ks\<rparr>)
       [(demo_env, RRecordTrade (-1000) False 1)]) = Some ks' \<and> ks_is_active ks'"
proof -
  let ?g = "lost_risk\<lparr>rg_circuit_breaker_triggered := False, rg_kill_switch := Some fresh_ks\<rparr>"
  have b: "daily_breach (recorded demo_env 1 ?g)"
    by (simp add: daily_breach_def recorded_def rg_update_daily_tracking_def lost_risk_def demo_risk_simps config_default)
  have "rg_blocked_until (state_of (rg_record_trade demo_env (-1000) False 1 ?g)) = Some (next_utc_midnight (re_now demo_env))"
    unfolding record_trade_unfold Let_def if_P[OF b]
    by (rule and_then_inv) (simp_all add: trigger_fields)
  then have blk: "rg_is_blocked demo_env (foldl rg_step ?g [(demo_env, RRecordTrade (-1000) False 1)])"
    by (simp add: rg_is_blocked_def next_utc_midnight_after)
  have tmp: "list_all tmp_ok [(demo_env, RRecordTrade (-1000) False 1)]" by (simp add: demo_env_def)
  have g: "rg_kill_switch ?g = Some fresh_ks" "\<not> rg_circuit_breaker_triggered ?g" "rg_blocked_until ?g = None"
    by (simp_all add: lost_risk_def demo_risk_simps)
  show ?thesis using risk_breach_kills_switch[OF g(1) fresh_ks_enabled g(2,3) tmp blk] by blast
qed

theorem risk_unsaved_breach_skips_switch_witness:
  "\<exists>g'. rg_record_trade nosave_env (-1000) False 1 lost_risk = Exc OSError g' \<and> rg_kill_switch g' = rg_kill_switch lost_risk"
proof -
  have "\<not> re_tmp_ok nosave_env" by (simp add: nosave_env_def)
  from risk_unsaved_breach_skips_switch[OF this lost_risk_breach(2)] show ?thesis by blast
qed

theorem risk_default_switch_suppressed_witness:
  "rg_default_disk (state_of (rg_trigger_circuit_breaker demo_env LTotalDrawdown (1/10) (1/10) demo_risk)) = rg_default_disk demo_risk"
  using risk_default_switch_suppressed[of demo_risk]
  by (simp add: demo_risk_simps) (simp add: demo_risk_def rg_init_def rg_restore_state_def blank_disk_def)

theorem risk_live_balance_authoritative_witness:
  "rg_current_balance (foldl rg_step (rg_step demo_risk (demo_env, RSyncBalance 9876))
     [(demo_env, RUpdateBalance 10000), (demo_env, RRecordTrade 5 True 1)]) = 9876"
  by (rule risk_live_balance_authoritative) simp

theorem risk_restart_restores_witness:
  "\<exists>g1. rg_save_state demo_env lost_risk = Ret () g1 \<and>
     rg_current_balance (rg_init demo_env (Some ftmo_config_default) 10000 [] 2 blank_disk (rg_file g1)) = 9000 \<and>
     rg_circuit_breaker_triggered (rg_init demo_env (Some ftmo_config_default) 10000 [] 2 blank_disk (rg_file g1))"
proof -
  have e: "re_tmp_ok demo_env" "re_write_ok demo_env" by (simp_all add: demo_env_def)
  then obtain g1 where g1: "rg_save_state demo_env lost_risk = Ret () g1" by (simp add: rg_save_state_def)
  have "rg_current_day lost_risk = Some (current_trading_day demo_env)" by (simp add: lost_risk_def)
  from risk_restart_restores[OF e g1 this refl, of demo_env ftmo_config_default "[]" 2 blank_disk] g1
  show ?thesis by (simp add: sane_state_def lost_risk_def demo_risk_simps)
qed

end
