(* ===== verification/Portfolio.thy ===== *)
theory Portfolio
  imports RiskSafety
begin

text \<open>
  The portfolio risk guard of \<open>adapters/ctrader/portfolio_risk_guard.py\<close>, the facade that feeds
  canonical signals (\<open>engine/protocol.py\<close>) to one shared risk guard and keeps per-strategy
  statistics.
\<close>

section \<open>Data\<close>

record strategy_risk_stats =
  ss_strategy_id :: string
  ss_pnl :: flt
  ss_trade_count :: int
  ss_wins :: int
  ss_losses :: int

definition ss_win_rate :: "strategy_risk_stats \<Rightarrow> flt" where
  "ss_win_rate s = (if ss_trade_count s > 0 then of_int (ss_wins s) / of_int (ss_trade_count s) else 0)"

text \<open>A direction as it arrives: the enum, another object with a \<open>value\<close>, or anything else by its text.\<close>

datatype dyn_direction = DirEnum trade_direction | DirValue string | DirText string

record canonical_signal =
  cs_strategy_id :: string
  cs_symbol :: string
  cs_direction :: dyn_direction
  cs_confidence :: flt
  cs_entry_price :: flt
  cs_stop_loss :: flt
  cs_take_profit_1 :: "flt option"
  cs_take_profit_2 :: "flt option"
  cs_take_profit_3 :: "flt option"
  cs_rationale :: ptext

definition convert_direction :: "dyn_direction \<Rightarrow> trade_direction" where
  "convert_direction d =
     (case d of
        DirEnum t \<Rightarrow> t
      | _ \<Rightarrow> let value = (case d of DirValue v \<Rightarrow> v | DirText v \<Rightarrow> v | DirEnum t \<Rightarrow> []) in
          if value = ''long'' then LONG else if value = ''short'' then SHORT else NEUTRAL)"

text \<open>\<open>x or default\<close> on an optional number.\<close>

definition or_num :: "flt option \<Rightarrow> flt \<Rightarrow> flt" where
  "or_num x d = (case x of Some v \<Rightarrow> (if v \<noteq> 0 then v else d) | None \<Rightarrow> d)"

definition to_trade_signal :: "canonical_signal \<Rightarrow> trade_signal" where
  "to_trade_signal s =
     \<lparr>sig_symbol = cs_symbol s, sig_direction = convert_direction (cs_direction s),
      sig_entry_price = cs_entry_price s, sig_stop_loss = cs_stop_loss s,
      sig_take_profit_1 = or_num (cs_take_profit_1 s) 0, sig_take_profit_2 = or_num (cs_take_profit_2 s) 0,
      sig_take_profit_3 = or_num (cs_take_profit_3 s) 0, sig_volume = 1/10, sig_confidence = cs_confidence s,
      sig_rationale = cs_rationale s, sig_strategy_id = cs_strategy_id s\<rparr>"

record portfolio_guard =
  pg_guard :: risk_guard
  pg_starting_balance :: flt
  pg_strategy_stats :: "(string \<times> strategy_risk_stats) list"

type_synonym 'a pg_result = "(portfolio_guard, 'a) outcome"

section \<open>Operations\<close>

definition pg_init :: "risk_env \<Rightarrow> ftmo_config option \<Rightarrow> flt \<Rightarrow> ks_disk \<Rightarrow> risk_file \<Rightarrow> portfolio_guard" where
  "pg_init env cfg starting_balance default_disk file =
     \<lparr>pg_guard = rg_init env cfg starting_balance [] 2 default_disk file,
      pg_starting_balance = starting_balance, pg_strategy_stats = []\<rparr>"

text \<open>A call of the inner guard.\<close>

definition pg_lift :: "'a rg_result \<Rightarrow> portfolio_guard \<Rightarrow> 'a pg_result" where
  "pg_lift m pg = (case m of Ret a g \<Rightarrow> Ret a (pg\<lparr>pg_guard := g\<rparr>) | Exc e g \<Rightarrow> Exc e (pg\<lparr>pg_guard := g\<rparr>))"

definition pg_check_signal :: "risk_env \<Rightarrow> canonical_signal \<Rightarrow> portfolio_guard \<Rightarrow> risk_limit_result" where
  "pg_check_signal env s pg = rg_check_signal env (to_trade_signal s) (pg_guard pg)"

definition pg_check_trade_allowed ::
  "risk_env \<Rightarrow> canonical_signal \<Rightarrow> flt \<Rightarrow> portfolio_guard \<Rightarrow> risk_limit_result pg_result" where
  "pg_check_trade_allowed env s volume pg =
     pg_lift (rg_check_trade_allowed env
       \<lparr>tr_direction = convert_direction (cs_direction s), tr_volume = volume, tr_entry_price = cs_entry_price s,
        tr_stop_loss = cs_stop_loss s, tr_take_profit = or_num (cs_take_profit_1 s) (cs_entry_price s),
        tr_account_balance = None, tr_symbol = None, tr_spread = 0\<rparr> (pg_guard pg)) pg"

definition pg_update_balance :: "flt \<Rightarrow> portfolio_guard \<Rightarrow> portfolio_guard" where
  "pg_update_balance b pg = pg\<lparr>pg_guard := rg_update_balance b (pg_guard pg)\<rparr>"

definition pg_record_trade :: "risk_env \<Rightarrow> string \<Rightarrow> flt \<Rightarrow> bool \<Rightarrow> portfolio_guard \<Rightarrow> unit pg_result" where
  "pg_record_trade env sid pnl is_win pg =
     and_then (pg_lift (rg_record_trade env pnl is_win 1 (pg_guard pg)) pg) (\<lambda>_ pg.
       let g = rg_record_strategy_trade sid pnl (pg_guard pg);
           stats = dget_or (pg_strategy_stats pg) sid
             \<lparr>ss_strategy_id = sid, ss_pnl = 0, ss_trade_count = 0, ss_wins = 0, ss_losses = 0\<rparr>;
           stats1 = stats\<lparr>ss_trade_count := ss_trade_count stats + 1, ss_pnl := ss_pnl stats + pnl\<rparr>;
           stats2 = (if is_win then stats1\<lparr>ss_wins := ss_wins stats1 + 1\<rparr>
                     else stats1\<lparr>ss_losses := ss_losses stats1 + 1\<rparr>)
       in Ret () (pg\<lparr>pg_guard := g, pg_strategy_stats := AList.update sid stats2 (pg_strategy_stats pg)\<rparr>))"

definition pg_get_portfolio_state :: "risk_env \<Rightarrow> portfolio_guard \<Rightarrow> pyexn + risk_stats" where
  "pg_get_portfolio_state env pg = rg_get_stats env (pg_guard pg)"

definition pg_current_balance :: "risk_env \<Rightarrow> portfolio_guard \<Rightarrow> pyexn + flt" where
  "pg_current_balance env pg =
     (case rg_get_stats env (pg_guard pg) of Inl e \<Rightarrow> Inl e | Inr st \<Rightarrow> Inr (rs_current_balance st))"

definition pg_is_blocked :: "risk_env \<Rightarrow> portfolio_guard \<Rightarrow> bool" where
  "pg_is_blocked env pg = rg_is_blocked env (pg_guard pg)"

definition pg_register_callback :: "nat \<Rightarrow> portfolio_guard \<Rightarrow> portfolio_guard" where
  "pg_register_callback c pg = pg\<lparr>pg_guard := rg_register_callback c (pg_guard pg)\<rparr>"

definition pg_reset :: "risk_env \<Rightarrow> portfolio_guard \<Rightarrow> unit pg_result" where
  "pg_reset env pg =
     and_then (pg_lift (rg_reset_circuit_breaker env (pg_guard pg)) pg) (\<lambda>_ pg.
       Ret () (pg\<lparr>pg_guard := rg_reset_daily_tracking (pg_guard pg), pg_strategy_stats := []\<rparr>))"

section \<open>Statistics\<close>

datatype pg_event =
    PCheck canonical_signal flt
  | PBalance flt
  | PRecord string flt bool

fun pg_step :: "portfolio_guard \<Rightarrow> risk_env \<times> pg_event \<Rightarrow> portfolio_guard" where
  "pg_step pg (env, PCheck s v) = state_of (pg_check_trade_allowed env s v pg)"
| "pg_step pg (env, PBalance b) = pg_update_balance b pg"
| "pg_step pg (env, PRecord sid pnl w) = state_of (pg_record_trade env sid pnl w pg)"

fun entry_ok :: "string \<Rightarrow> strategy_risk_stats option \<Rightarrow> flt option \<Rightarrow> bool" where
  "entry_ok sid None p = (p = None)"
| "entry_ok sid (Some st) p = (ss_strategy_id st = sid \<and> ss_trade_count st = ss_wins st + ss_losses st \<and>
     0 \<le> ss_wins st \<and> 0 \<le> ss_losses st \<and> p = Some (ss_pnl st))"

definition stats_consistent :: "portfolio_guard \<Rightarrow> bool" where
  "stats_consistent pg \<longleftrightarrow>
     (\<forall>sid. entry_ok sid (map_of (pg_strategy_stats pg) sid) (map_of (rg_per_strategy_pnl (pg_guard pg)) sid))"

lemma trigger_strategy_pnl:
  "rg_per_strategy_pnl (state_of (rg_trigger_circuit_breaker env t c l g)) = rg_per_strategy_pnl g"
  by (auto simp: rg_trigger_circuit_breaker_def Let_def rg_save_state_def rg_activate_kill_def split: option.split)

lemma tracking_strategy_pnl [simp]:
  "rg_per_strategy_pnl (rg_update_daily_tracking env g) = rg_per_strategy_pnl g"
  "rg_per_strategy_pnl (with_balance req g) = rg_per_strategy_pnl g"
  "rg_per_strategy_pnl (recorded env n g) = rg_per_strategy_pnl g"
proof -
  show t: "rg_per_strategy_pnl (rg_update_daily_tracking env g) = rg_per_strategy_pnl g" for g
    by (auto simp: rg_update_daily_tracking_def rg_record_daily_stats_def rg_check_best_day_rule_def Let_def
        split: option.split)
  show "rg_per_strategy_pnl (with_balance req g) = rg_per_strategy_pnl g"
    by (auto simp: with_balance_def split: option.split)
  show "rg_per_strategy_pnl (recorded env n g) = rg_per_strategy_pnl g" by (simp add: recorded_def t)
qed

lemma check_strategy_pnl:
  "rg_per_strategy_pnl (state_of (rg_check_trade_allowed env req g)) = rg_per_strategy_pnl g"
  by (simp add: check_trade_state limit_checks_state trigger_strategy_pnl)

lemma record_strategy_pnl:
  "rg_per_strategy_pnl (state_of (rg_record_trade env pnl w n g)) = rg_per_strategy_pnl g"
  by (rule record_trade_inv[where Q = "\<lambda>h. rg_per_strategy_pnl h = rg_per_strategy_pnl g"])
    (simp_all add: trigger_strategy_pnl)

lemma stats_consistent_cong:
  "stats_consistent pg \<Longrightarrow> rg_per_strategy_pnl (pg_guard pg') = rg_per_strategy_pnl (pg_guard pg) \<Longrightarrow>
   pg_strategy_stats pg' = pg_strategy_stats pg \<Longrightarrow> stats_consistent pg'"
  by (simp add: stats_consistent_def)

lemma lift_strategy:
  "pg_strategy_stats (state_of (pg_lift m pg)) = pg_strategy_stats pg"
  "pg_guard (state_of (pg_lift m pg)) = state_of m"
  by (cases m; simp add: pg_lift_def)+

lemma record_entry_frame:
  "map_of (rg_per_strategy_pnl (rg_record_strategy_trade sid pnl g)) s =
     (if s = sid then Some (dget_or (rg_per_strategy_pnl g) sid 0 + pnl) else map_of (rg_per_strategy_pnl g) s)"
  by (simp add: rg_record_strategy_trade_def dict_simps)

lemma record_entry_ok:
  fixes sid :: string
  assumes "\<forall>s. entry_ok s (map_of stats s) (map_of pnls s)"
  defines "st \<equiv> dget_or stats sid
     \<lparr>ss_strategy_id = sid, ss_pnl = 0, ss_trade_count = 0, ss_wins = 0, ss_losses = 0\<rparr>"
  shows "ss_strategy_id st = sid" "ss_trade_count st = ss_wins st + ss_losses st" "0 \<le> ss_wins st" "0 \<le> ss_losses st"
    "dget_or pnls sid 0 = ss_pnl st"
  using spec[OF assms(1), of sid] unfolding st_def
  by (cases "map_of stats sid"; simp add: dget_or_def)+

lemma record_consistent:
  assumes "stats_consistent pg"
  shows "stats_consistent (state_of (pg_record_trade env sid pnl w pg))"
  unfolding pg_record_trade_def
proof (rule and_then_inv)
  show c: "stats_consistent (state_of (pg_lift (rg_record_trade env pnl w 1 (pg_guard pg)) pg))"
    by (rule stats_consistent_cong[OF assms]) (simp_all add: lift_strategy record_strategy_pnl)
next
  fix u pg1 assume "stats_consistent pg1"
  then show "stats_consistent (state_of (let g = rg_record_strategy_trade sid pnl (pg_guard pg1);
           stats = dget_or (pg_strategy_stats pg1) sid
             \<lparr>ss_strategy_id = sid, ss_pnl = 0, ss_trade_count = 0, ss_wins = 0, ss_losses = 0\<rparr>;
           stats1 = stats\<lparr>ss_trade_count := ss_trade_count stats + 1, ss_pnl := ss_pnl stats + pnl\<rparr>;
           stats2 = (if w then stats1\<lparr>ss_wins := ss_wins stats1 + 1\<rparr>
                     else stats1\<lparr>ss_losses := ss_losses stats1 + 1\<rparr>)
       in Ret () (pg1\<lparr>pg_guard := g, pg_strategy_stats := AList.update sid stats2 (pg_strategy_stats pg1)\<rparr>)))"
    unfolding stats_consistent_def by (auto simp: Let_def dict_simps record_entry_frame record_entry_ok)
qed

lemma consistent_step: "stats_consistent pg \<Longrightarrow> stats_consistent (pg_step pg (env, ev))"
proof (cases ev)
  case (PCheck s v)
  assume c: "stats_consistent pg"
  have "stats_consistent (state_of (pg_check_trade_allowed env s v pg))"
    by (rule stats_consistent_cong[OF c]) (simp_all add: pg_check_trade_allowed_def lift_strategy check_strategy_pnl)
  then show ?thesis using PCheck by simp
next
  case (PBalance b)
  assume c: "stats_consistent pg"
  show ?thesis using PBalance
    by (simp add: stats_consistent_cong[OF c] pg_update_balance_def rg_update_balance_def)
next
  case (PRecord sid pnl w)
  assume "stats_consistent pg"
  then show ?thesis using PRecord record_consistent by simp
qed

interpretation portfolio_stats: invariant_machine pg_step "\<lambda>_. True" stats_consistent
  by unfold_locales (metis consistent_step surj_pair)

lemma restore_strategy_pnl: "rg_per_strategy_pnl (rg_restore_state env g) = rg_per_strategy_pnl g"
  by (auto simp: rg_restore_state_def Let_def rg_save_state_def rg_fresh_def split: risk_file.split)

lemma init_consistent: "stats_consistent (pg_init env cfg start disk file)"
  by (simp add: stats_consistent_def pg_init_def rg_init_def restore_strategy_pnl)

text \<open>
  The two books of a portfolio agree: over every run of checks, balance updates and
  recorded trades from construction (saves that fail included), every strategy with statistics
  has as many trades as wins and losses together, its profit is the one the shared risk guard
  holds for it, and a strategy without statistics has no profit there either.
\<close>

theorem portfolio_books_agree:
  "let pg = foldl pg_step (pg_init env cfg start disk file) es in
   case map_of (pg_strategy_stats pg) sid of
     None \<Rightarrow> map_of (rg_per_strategy_pnl (pg_guard pg)) sid = None
   | Some st \<Rightarrow> ss_trade_count st = ss_wins st + ss_losses st \<and> 0 \<le> ss_wins st \<and> 0 \<le> ss_losses st \<and>
       map_of (rg_per_strategy_pnl (pg_guard pg)) sid = Some (ss_pnl st)"
proof -
  have "stats_consistent (foldl pg_step (pg_init env cfg start disk file) es)"
    by (rule portfolio_stats.run_inv[OF init_consistent]) (simp add: list_all_iff)
  then show ?thesis unfolding stats_consistent_def Let_def by (auto dest: spec[of _ sid] split: option.split)
qed

text \<open>
  A canonical signal without a first take profit is never tradable: the facade then uses the
  entry price as the target, so with a positive minimal reward the trade is refused, although
  the stop, the size and every account limit may be in order.
\<close>

theorem portfolio_no_target_refused:
  assumes "or_num (cs_take_profit_1 s) 0 = 0" and "0 < rc_min_risk_reward (rg_config (pg_guard pg))"
    and "pg_check_trade_allowed env s volume pg = Ret r pg'"
  shows "\<not> rl_allowed r"
proof
  assume allowed: "rl_allowed r"
  let ?req = "\<lparr>tr_direction = convert_direction (cs_direction s), tr_volume = volume, tr_entry_price = cs_entry_price s,
        tr_stop_loss = cs_stop_loss s, tr_take_profit = or_num (cs_take_profit_1 s) (cs_entry_price s),
        tr_account_balance = None, tr_symbol = None, tr_spread = 0\<rparr>"
  have tp: "or_num (cs_take_profit_1 s) (cs_entry_price s) = cs_entry_price s"
    using assms(1) by (auto simp: or_num_def split: option.splits if_splits)
  obtain g' where "rg_check_trade_allowed env ?req (pg_guard pg) = Ret r g'"
    using assms(3) by (auto simp: pg_check_trade_allowed_def pg_lift_def split: outcome.splits)
  then have lc: "rg_limit_checks env ?req (rg_update_daily_tracking env (with_balance ?req (pg_guard pg))) = Ret r g'"
    using allowed unfolding check_trade_unfold by (auto split: if_splits option.splits)
  have "rc_min_risk_reward (rg_config (pg_guard pg)) * \<bar>cs_entry_price s - cs_stop_loss s\<bar> \<le> 0"
    and "cs_entry_price s \<noteq> cs_stop_loss s"
    using size_checks_allowed[OF conjunct1[OF limit_checks_allowed[OF lc allowed]] allowed] tp by simp_all
  then show False using assms(2) by (simp add: mult_le_0_iff)
qed

definition no_target_signal :: canonical_signal where
  "no_target_signal = \<lparr>cs_strategy_id = ''orb'', cs_symbol = ''EURUSD'', cs_direction = DirText ''long'', cs_confidence = 8/10,
     cs_entry_price = 11/10, cs_stop_loss = 1098/1000, cs_take_profit_1 = None, cs_take_profit_2 = None,
     cs_take_profit_3 = None, cs_rationale = []\<rparr>"

theorem portfolio_no_target_refused_witness:
  "\<exists>r pg'. pg_check_trade_allowed demo_env no_target_signal (1/10)
       \<lparr>pg_guard = demo_risk, pg_starting_balance = 10000, pg_strategy_stats = []\<rparr> = Ret r pg' \<and> \<not> rl_allowed r"
proof -
  let ?pg = "\<lparr>pg_guard = demo_risk, pg_starting_balance = 10000, pg_strategy_stats = []\<rparr>"
  have "\<not> raised (pg_check_trade_allowed demo_env no_target_signal (1/10) ?pg)"
    by (simp add: pg_check_trade_allowed_def pg_lift_def check_trade_unfold demo_risk_simps time_blocked_def
        with_balance_def rg_limit_checks_def Let_def rg_daily_loss_def rg_drawdown_def rg_size_checks_def rg_pip_info_def
        no_target_signal_def rg_update_daily_tracking_def config_default or_num_def)
  then obtain r pg' where r: "pg_check_trade_allowed demo_env no_target_signal (1/10) ?pg = Ret r pg'"
    by (cases "pg_check_trade_allowed demo_env no_target_signal (1/10) ?pg") auto
  have tp: "or_num (cs_take_profit_1 no_target_signal) 0 = 0" by (simp add: no_target_signal_def or_num_def)
  have mr: "0 < rc_min_risk_reward (rg_config (pg_guard ?pg))" by (simp add: demo_risk_simps config_default)
  show ?thesis using portfolio_no_target_refused[OF tp mr r] r by blast
qed

text \<open>
  \<open>reset\<close> does not lift a daily-loss block, although it clears the trade count and the
  statistics: while a time block runs, every signal and trade is still refused after it.
\<close>

theorem portfolio_reset_keeps_daily_block:
  assumes "rg_blocked_until (pg_guard pg) = Some b" and "re_now env' < b" and "pg_reset env pg = Ret u pg'"
  shows "pg_is_blocked env' pg' \<and> \<not> rl_allowed (pg_check_signal env' s pg') \<and> pg_strategy_stats pg' = [] \<and>
     rg_daily_trade_count (pg_guard pg') = 0"
proof -
  have g: "pg_guard pg' = rg_reset_daily_tracking (pg_guard pg)" "pg_strategy_stats pg' = []"
    using assms(1,3) by (auto simp: pg_reset_def rg_reset_circuit_breaker_def pg_lift_def)
  then have b: "rg_is_blocked env' (pg_guard pg')"
    using assms(1,2) by (simp add: rg_is_blocked_def rg_reset_daily_tracking_def)
  then show ?thesis using g signal_blocked_denies
    by (simp add: pg_is_blocked_def pg_check_signal_def rg_reset_daily_tracking_def)
qed

theorem portfolio_reset_keeps_daily_block_witness:
  "\<exists>pg'. pg_reset demo_env \<lparr>pg_guard = lost_risk\<lparr>rg_blocked_until := Some day_us\<rparr>, pg_starting_balance = 10000,
       pg_strategy_stats = []\<rparr> = Ret () pg' \<and> pg_is_blocked demo_env pg'"
proof -
  let ?pg = "\<lparr>pg_guard = lost_risk\<lparr>rg_blocked_until := Some day_us\<rparr>, pg_starting_balance = 10000, pg_strategy_stats = []\<rparr>"
  obtain pg' where r: "pg_reset demo_env ?pg = Ret () pg'"
    by (simp add: pg_reset_def rg_reset_circuit_breaker_def pg_lift_def)
  have b: "rg_blocked_until (pg_guard ?pg) = Some day_us" and t: "re_now demo_env < day_us"
    by (simp_all add: demo_env_def)
  show ?thesis using portfolio_reset_keeps_daily_block[OF b t r] r by blast
qed

end
