(* ===== verification/Recovery.thy ===== *)
theory Recovery
  imports KillSwitchSafety "HOL-Library.Multiset"
begin

text \<open>
  The recovery protocol of \<open>risk/recovery_protocol.py\<close>: reconciliation of positions, margin
  check, unfreeze through the kill switch manager at half risk, and the cooldown after which full
  risk is restored. Times are unix seconds. The iteration order of a Python set of strings is a
  parameter \<open>iter\<close>, of which only \<open>set_order\<close> is assumed: it lists each element once.
\<close>

definition COOLDOWN_DURATION_SEC :: int where "COOLDOWN_DURATION_SEC = 3600"
definition COOLDOWN_RISK_MULTIPLIER :: flt where "COOLDOWN_RISK_MULTIPLIER = 1/2"
definition FULL_RISK_MULTIPLIER :: flt where "FULL_RISK_MULTIPLIER = 1"
definition MIN_MARGIN_LEVEL_PCT :: flt where "MIN_MARGIN_LEVEL_PCT = 200"

lemmas recovery_consts = COOLDOWN_DURATION_SEC_def COOLDOWN_RISK_MULTIPLIER_def FULL_RISK_MULTIPLIER_def
  MIN_MARGIN_LEVEL_PCT_def

section \<open>Data\<close>

record position_info =
  pi_symbol :: string
  pi_volume :: flt
  pi_side :: string

definition pi_key :: "position_info \<Rightarrow> string" where
  "pi_key p = pi_symbol p @ '':'' @ pi_side p"

datatype mismatch =
    MissingInBroker string string flt
  | UnexpectedInBroker string string flt
  | VolumeMismatch string string flt flt

record reconciliation_result =
  rr_matched :: bool
  rr_local_positions :: "position_info list"
  rr_broker_positions :: "position_info list"
  rr_mismatches :: "mismatch list"

record margin_info =
  mi_available_margin :: flt
  mi_used_margin :: flt
  mi_margin_level_pct :: flt

record cooldown_state =
  cd_strategy_id :: string
  cd_started_at :: flt
  cd_risk_multiplier :: flt
  cd_duration_sec :: int

definition cd_is_expired :: "flt \<Rightarrow> cooldown_state \<Rightarrow> bool" where
  "cd_is_expired now cd \<longleftrightarrow> now - cd_started_at cd \<ge> of_int (cd_duration_sec cd)"

definition cd_remaining_sec :: "flt \<Rightarrow> cooldown_state \<Rightarrow> flt" where
  "cd_remaining_sec now cd = max 0 (of_int (cd_duration_sec cd) - (now - cd_started_at cd))"

record recovery_result =
  rv_success :: bool
  rv_strategy_id :: string
  rv_step :: string
  rv_reconciliation :: "reconciliation_result option"
  rv_margin :: "margin_info option"
  rv_risk_multiplier :: flt
  rv_message :: ptext

record recovery_protocol =
  rp_ks :: kill_switch
  rp_cooldowns :: "(string \<times> cooldown_state) list"

section \<open>Operations\<close>

text \<open>\<open>{p.key(): p for p in positions}\<close>: a later position replaces an earlier one of the same key.\<close>

definition position_map :: "position_info list \<Rightarrow> (string \<times> position_info) list" where
  "position_map ps = fold (\<lambda>p. AList.update (pi_key p) p) ps []"

definition compare_key ::
  "(string \<times> position_info) list \<Rightarrow> (string \<times> position_info) list \<Rightarrow> string \<Rightarrow> mismatch list" where
  "compare_key local_map broker_map key =
     (case (map_of local_map key, map_of broker_map key) of
        (Some l, None) \<Rightarrow> [MissingInBroker (pi_symbol l) (pi_side l) (pi_volume l)]
      | (None, Some b) \<Rightarrow> [UnexpectedInBroker (pi_symbol b) (pi_side b) (pi_volume b)]
      | (Some l, Some b) \<Rightarrow>
          if \<bar>pi_volume l - pi_volume b\<bar> > 1/100
          then [VolumeMismatch (pi_symbol l) (pi_side l) (pi_volume l) (pi_volume b)] else []
      | (None, None) \<Rightarrow> [])"

definition reconcile_positions ::
  "(string list \<Rightarrow> string list) \<Rightarrow> position_info list \<Rightarrow> position_info list \<Rightarrow> reconciliation_result" where
  "reconcile_positions iter local_positions broker_positions =
     (let local_map = position_map local_positions; broker_map = position_map broker_positions;
          all_keys = iter (remdups (map fst local_map @ map fst broker_map));
          mismatches = concat (map (compare_key local_map broker_map) all_keys)
      in \<lparr>rr_matched = (length mismatches = 0), rr_local_positions = local_positions,
          rr_broker_positions = broker_positions, rr_mismatches = mismatches\<rparr>)"

definition verify_margin :: "margin_info \<Rightarrow> bool" where
  "verify_margin m \<longleftrightarrow> mi_margin_level_pct m \<ge> MIN_MARGIN_LEVEL_PCT"

definition execute_recovery ::
  "(string list \<Rightarrow> string list) \<Rightarrow> ks_env \<Rightarrow> flt \<Rightarrow> string \<Rightarrow> position_info list \<Rightarrow> margin_info
   \<Rightarrow> position_info list option \<Rightarrow> recovery_protocol \<Rightarrow> (recovery_protocol, recovery_result) outcome" where
  "execute_recovery iter env now sid broker_positions margin local_positions rp =
     (let rec = reconcile_positions iter (case local_positions of Some ps \<Rightarrow> ps | None \<Rightarrow> []) broker_positions in
      if \<not> rr_matched rec then
        Ret \<lparr>rv_success = False, rv_strategy_id = sid, rv_step = ''reconciliation'',
             rv_reconciliation = Some rec, rv_margin = None, rv_risk_multiplier = FULL_RISK_MULTIPLIER,
             rv_message = [Lit ''Position reconciliation failed: '', FInt (int (length (rr_mismatches rec))),
                           Lit '' mismatches detected'']\<rparr> rp
      else if \<not> verify_margin margin then
        Ret \<lparr>rv_success = False, rv_strategy_id = sid, rv_step = ''margin_verification'',
             rv_reconciliation = Some rec, rv_margin = Some margin, rv_risk_multiplier = FULL_RISK_MULTIPLIER,
             rv_message = [Lit ''Margin verification failed: margin level '', FFix 1 (mi_margin_level_pct margin),
                           Lit ''% < '', FFix 1 MIN_MARGIN_LEVEL_PCT, Lit ''%'']\<rparr> rp
      else
        (case ks_unfreeze_strategy env sid [Lit ''recovery_protocol''] (rp_ks rp) of
           Exc e ks \<Rightarrow> Exc e (rp\<lparr>rp_ks := ks\<rparr>)
         | Ret _ ks \<Rightarrow>
             let cooldown = \<lparr>cd_strategy_id = sid, cd_started_at = now,
                             cd_risk_multiplier = COOLDOWN_RISK_MULTIPLIER, cd_duration_sec = COOLDOWN_DURATION_SEC\<rparr>
             in Ret \<lparr>rv_success = True, rv_strategy_id = sid, rv_step = ''gradual_unfreeze'',
                     rv_reconciliation = Some rec, rv_margin = Some margin,
                     rv_risk_multiplier = COOLDOWN_RISK_MULTIPLIER,
                     rv_message = [Lit (''Strategy '' @ [CHR 0x27]), Lit sid, Lit (CHR 0x27 # '' recovered - unfrozen at ''),
                                   FFix 0 (COOLDOWN_RISK_MULTIPLIER * 100), Lit ''% risk. Cooldown: '',
                                   FInt COOLDOWN_DURATION_SEC, Lit ''s.'']\<rparr>
                  (rp\<lparr>rp_ks := ks, rp_cooldowns := AList.update sid cooldown (rp_cooldowns rp)\<rparr>)))"

definition check_cooldown_complete :: "flt \<Rightarrow> string \<Rightarrow> recovery_protocol \<Rightarrow> bool" where
  "check_cooldown_complete now sid rp =
     (case map_of (rp_cooldowns rp) sid of None \<Rightarrow> False | Some cd \<Rightarrow> cd_is_expired now cd)"

definition restore_full_risk :: "flt \<Rightarrow> string \<Rightarrow> recovery_protocol \<Rightarrow> bool \<times> recovery_protocol" where
  "restore_full_risk now sid rp =
     (case map_of (rp_cooldowns rp) sid of
        None \<Rightarrow> (False, rp)
      | Some cd \<Rightarrow>
          if \<not> cd_is_expired now cd then (False, rp)
          else (True, rp\<lparr>rp_cooldowns := AList.delete sid (rp_cooldowns rp)\<rparr>))"

definition get_risk_multiplier :: "flt \<Rightarrow> string \<Rightarrow> recovery_protocol \<Rightarrow> flt" where
  "get_risk_multiplier now sid rp =
     (case map_of (rp_cooldowns rp) sid of
        Some cd \<Rightarrow> (if \<not> cd_is_expired now cd then cd_risk_multiplier cd else FULL_RISK_MULTIPLIER)
      | None \<Rightarrow> FULL_RISK_MULTIPLIER)"

definition get_cooldown_state :: "flt \<Rightarrow> string \<Rightarrow> recovery_protocol \<Rightarrow> cooldown_state option" where
  "get_cooldown_state now sid rp =
     (case map_of (rp_cooldowns rp) sid of
        Some cd \<Rightarrow> (if \<not> cd_is_expired now cd then Some cd else None) | None \<Rightarrow> None)"

definition get_all_cooldowns :: "flt \<Rightarrow> recovery_protocol \<Rightarrow> (string \<times> cooldown_state) list" where
  "get_all_cooldowns now rp = filter (\<lambda>(sid, cd). \<not> cd_is_expired now cd) (rp_cooldowns rp)"

section \<open>Reconciliation\<close>

text \<open>What is assumed of the iteration order of a set: it lists the elements.\<close>

definition set_order :: "(string list \<Rightarrow> string list) \<Rightarrow> bool" where
  "set_order iter \<longleftrightarrow> (\<forall>ks. mset (iter ks) = mset ks)"

text \<open>The last position of a key in a list.\<close>

definition last_position :: "position_info list \<Rightarrow> string \<Rightarrow> position_info option" where
  "last_position ps k = find (\<lambda>p. pi_key p = k) (rev ps)"

lemma map_of_position_map_acc:
  "map_of (fold (\<lambda>p. AList.update (pi_key p) p) ps acc) k =
     (case last_position ps k of Some p \<Rightarrow> Some p | None \<Rightarrow> map_of acc k)"
proof (induction ps arbitrary: acc rule: rev_induct)
  case (snoc p ps)
  then show ?case by (simp add: last_position_def dict_simps)
qed (simp add: last_position_def)

lemma map_of_position_map: "map_of (position_map ps) k = last_position ps k"
  by (simp add: position_map_def map_of_position_map_acc split: option.split)

text \<open>Both books agree on a key: absent in both, or present in both within 0.01 lot.\<close>

definition keys_agree :: "position_info list \<Rightarrow> position_info list \<Rightarrow> string \<Rightarrow> bool" where
  "keys_agree ls bs k = (case (last_position ls k, last_position bs k) of
     (None, None) \<Rightarrow> True | (Some l, Some b) \<Rightarrow> \<bar>pi_volume l - pi_volume b\<bar> \<le> 1/100 | _ \<Rightarrow> False)"

lemma compare_key_nil: "compare_key (position_map ls) (position_map bs) k = [] \<longleftrightarrow> keys_agree ls bs k"
  by (auto simp: compare_key_def keys_agree_def map_of_position_map split: option.split)

lemma matched_iff:
  assumes "set_order iter"
  shows "rr_matched (reconcile_positions iter ls bs) \<longleftrightarrow> (\<forall>k. keys_agree ls bs k)"
proof -
  have it: "set (iter ks) = set ks" for ks
    using assms by (metis set_order_def set_mset_mset)
  have out: "keys_agree ls bs k" if "k \<notin> fst ` set (position_map ls) \<union> fst ` set (position_map bs)" for k
    using that by (simp add: keys_agree_def map_of_keys_iff map_of_position_map)
  have "rr_matched (reconcile_positions iter ls bs) \<longleftrightarrow>
      (\<forall>k\<in>fst ` set (position_map ls) \<union> fst ` set (position_map bs). keys_agree ls bs k)"
    by (simp add: reconcile_positions_def Let_def it compare_key_nil ball_Un)
  then show ?thesis using out by blast
qed

section \<open>What a recovery does\<close>

lemma unfreeze_safe:
  assumes "\<not> ks_unsafe env"
  shows "\<exists>b ks'. ks_unfreeze_strategy env sid r ks = Ret b ks' \<and> \<not> ks_is_strategy_frozen sid ks' \<and>
     (\<forall>s. s \<noteq> sid \<longrightarrow> ks_is_strategy_frozen s ks' = ks_is_strategy_frozen s ks) \<and> global_part ks' = global_part ks"
proof -
  have g: "global_part (state_of (ks_unfreeze_strategy env sid r ks)) = global_part ks"
    using strategy_op_global_part[of "OpUnfreezeStrategy sid r" ks env] by simp
  have o: "ks_is_strategy_frozen s (state_of (ks_unfreeze_strategy env sid r ks)) = ks_is_strategy_frozen s ks" if "s \<noteq> sid" for s
    using other_strategy_step[of "OpUnfreezeStrategy sid r" s ks env] that by (simp add: ks_is_strategy_frozen_def)
  have "\<not> raised (ks_unfreeze_strategy env sid r ks)"
    using assms by (simp add: ks_unfreeze_strategy_def Let_def persist_Ret split: option.split)
  then obtain b where ret: "ks_unfreeze_strategy env sid r ks = Ret b (state_of (ks_unfreeze_strategy env sid r ks))"
    by (cases "ks_unfreeze_strategy env sid r ks") auto
  have "\<not> ks_is_strategy_frozen sid (state_of (ks_unfreeze_strategy env sid r ks))"
  proof (cases "map_of (ks_strategies ks) sid")
    case None
    then show ?thesis by (simp add: ks_unfreeze_strategy_def ks_is_strategy_frozen_def)
  next
    case (Some st)
    show ?thesis
    proof (cases "truthy (sf_frozen st)")
      case True
      then show ?thesis using Some unfreeze_strategy_state[of env sid r ks]
        by (auto simp: ks_is_strategy_frozen_def dict_simps)
    next
      case False
      then show ?thesis using Some by (simp add: ks_unfreeze_strategy_def ks_is_strategy_frozen_def)
    qed
  qed
  then show ?thesis using g o ret by metis
qed

text \<open>
  C16. A recovery succeeds exactly when both books agree on every symbol and side (within
  0.01 lot, the last position of each list counting) and the margin level is at least 200
  percent. On success the strategy is not frozen, is in cooldown from now at half risk, other
  strategies and the global switch are as before; on failure nothing has changed at all.
\<close>

theorem recovery_success_iff:
  assumes "set_order iter" and "\<not> ks_unsafe env"
  shows "\<exists>res rp'. execute_recovery iter env now sid bs margin (Some ls) rp = Ret res rp' \<and>
     rv_success res = ((\<forall>k. keys_agree ls bs k) \<and> 200 \<le> mi_margin_level_pct margin) \<and>
     (if rv_success res
      then \<not> ks_is_strategy_frozen sid (rp_ks rp') \<and> get_risk_multiplier now sid rp' = 1/2 \<and>
           (\<forall>s. s \<noteq> sid \<longrightarrow> ks_is_strategy_frozen s (rp_ks rp') = ks_is_strategy_frozen s (rp_ks rp) \<and>
                             get_risk_multiplier now s rp' = get_risk_multiplier now s rp) \<and>
           ks_is_globally_killed (rp_ks rp') = ks_is_globally_killed (rp_ks rp) \<and>
           ks_is_globally_frozen (rp_ks rp') = ks_is_globally_frozen (rp_ks rp)
      else rp' = rp)"
proof -
  note m = matched_iff[OF assms(1), of ls bs]
  obtain b ks' where u: "ks_unfreeze_strategy env sid [Lit ''recovery_protocol''] (rp_ks rp) = Ret b ks'"
    "\<not> ks_is_strategy_frozen sid ks'" "\<forall>s. s \<noteq> sid \<longrightarrow> ks_is_strategy_frozen s ks' = ks_is_strategy_frozen s (rp_ks rp)"
    "global_part ks' = global_part (rp_ks rp)"
    using unfreeze_safe[OF assms(2)] by blast
  have "ks_is_globally_killed ks' = ks_is_globally_killed (rp_ks rp)"
    "ks_is_globally_frozen ks' = ks_is_globally_frozen (rp_ks rp)"
    using u(4) by (simp_all add: global_part_def ks_queries)
  then show ?thesis using m u(1-3)
    by (auto simp: execute_recovery_def Let_def verify_margin_def recovery_consts get_risk_multiplier_def
        cd_is_expired_def dict_simps)
qed

text \<open>
  The timeline after a successful recovery at time t: the multiplier is one half strictly
  before t + 3600 seconds and 1 from then on; restoring full risk is refused before that moment
  and, from then on, succeeds once and forgets the cooldown.
\<close>

theorem recovery_cooldown_timeline:
  assumes "execute_recovery iter env t sid bs margin ls rp = Ret res rp'" and "rv_success res"
  shows "get_risk_multiplier now sid rp' = (if now < t + 3600 then 1/2 else 1) \<and>
     check_cooldown_complete now sid rp' = (t + 3600 \<le> now) \<and>
     (now < t + 3600 \<longrightarrow> restore_full_risk now sid rp' = (False, rp')) \<and>
     (t + 3600 \<le> now \<longrightarrow> fst (restore_full_risk now sid rp') \<and>
        \<not> fst (restore_full_risk later sid (snd (restore_full_risk now sid rp'))) \<and>
        get_risk_multiplier later sid (snd (restore_full_risk now sid rp')) = 1)"
proof -
  have "map_of (rp_cooldowns rp') sid = Some \<lparr>cd_strategy_id = sid, cd_started_at = t,
      cd_risk_multiplier = 1/2, cd_duration_sec = 3600\<rparr>"
    using assms
    by (auto simp: execute_recovery_def Let_def recovery_consts dict_simps split: if_splits outcome.splits)
  then show ?thesis
    by (auto simp: get_risk_multiplier_def check_cooldown_complete_def restore_full_risk_def cd_is_expired_def
        recovery_consts dict_simps)
qed

text \<open>
  Reconciliation compares one position per symbol and side: any number of earlier positions
  of the same key on either side is ignored, so the books are reported as matched although the
  volumes of all but the last position of the local list are unknown to the broker.
\<close>

theorem recovery_duplicates_collapse:
  assumes "set_order iter" and "\<forall>p\<in>set ps. pi_key p = pi_key q"
  shows "rr_matched (reconcile_positions iter (ps @ [q]) [q])"
proof -
  have "last_position (ps @ [q]) k = last_position [q] k" for k
    using assms(2) by (auto simp: last_position_def find_None_iff)
  then have "keys_agree (ps @ [q]) [q] k" for k
    by (auto simp: keys_agree_def split: option.split)
  then show ?thesis by (simp add: matched_iff[OF assms(1)])
qed

section \<open>Concrete instances\<close>

lemma set_order_id: "set_order (\<lambda>ks. ks)"
  by (simp add: set_order_def)

definition long_eur :: "flt \<Rightarrow> position_info" where
  "long_eur v = \<lparr>pi_symbol = ''EURUSD'', pi_volume = v, pi_side = ''buy''\<rparr>"

definition frozen_rp :: recovery_protocol where
  "frozen_rp = \<lparr>rp_ks = foldl ks_step fresh_ks sample_ops, rp_cooldowns = []\<rparr>"

definition ample_margin :: margin_info where
  "ample_margin = \<lparr>mi_available_margin = 5000, mi_used_margin = 1000, mi_margin_level_pct = 600\<rparr>"

lemma long_eur_agree: "keys_agree [long_eur 1] [long_eur 1] k"
  by (simp add: keys_agree_def last_position_def)

theorem recovery_success_iff_witness:
  "\<exists>res rp'. execute_recovery (\<lambda>ks. ks) prod_env 0 ''orb'' [long_eur 1] ample_margin (Some [long_eur 1]) frozen_rp = Ret res rp' \<and>
     rv_success res \<and> \<not> ks_is_strategy_frozen ''orb'' (rp_ks rp')"
  using recovery_success_iff[OF set_order_id prod_env_safe, of 0 "''orb''" "[long_eur 1]" ample_margin "[long_eur 1]" frozen_rp]
  by (auto simp: long_eur_agree ample_margin_def split: if_splits)

theorem recovery_cooldown_timeline_witness:
  "\<exists>res rp'. execute_recovery (\<lambda>ks. ks) prod_env 0 ''orb'' [] ample_margin None frozen_rp = Ret res rp' \<and>
     get_risk_multiplier 3599 ''orb'' rp' = 1/2 \<and> get_risk_multiplier 3600 ''orb'' rp' = 1"
proof -
  obtain b ks' where "ks_unfreeze_strategy prod_env ''orb'' [Lit ''recovery_protocol''] (rp_ks frozen_rp) = Ret b ks'"
    using unfreeze_safe[OF prod_env_safe] by blast
  then obtain res rp' where r: "execute_recovery (\<lambda>ks. ks) prod_env 0 ''orb'' [] ample_margin None frozen_rp = Ret res rp'"
      "rv_success res"
    by (simp add: execute_recovery_def Let_def reconcile_positions_def position_map_def verify_margin_def
        ample_margin_def recovery_consts)
  show ?thesis
    using recovery_cooldown_timeline[OF r, of 3599] recovery_cooldown_timeline[OF r, of 3600] r(1) by auto
qed

theorem recovery_duplicates_collapse_witness:
  "rr_matched (reconcile_positions (\<lambda>ks. ks) ([long_eur 5, long_eur 9] @ [long_eur 1]) [long_eur 1])"
  by (rule recovery_duplicates_collapse[OF set_order_id]) (simp add: long_eur_def pi_key_def)

end
