(* ===== verification/BarBuilder.thy ===== *)
theory BarBuilder
  imports Prelude
begin

text \<open>
  The aggregation of ticks into bars of \<open>adapters/ctrader/bar_builder.py\<close>. The key string
  \<open>SYMBOL:period\<close> is the pair of its parts; a timestamp is its UTC instant, so \<open>ts.minute\<close> is
  the minute of the UTC hour. The set of timeframes is the list of its elements, and its
  iteration order at a tick is a parameter \<open>iter\<close>. The bar-close callback may be absent; its
  calls are recorded and its exceptions, which the code swallows, have no effect.
\<close>

abbreviation minute_us :: int where "minute_us \<equiv> 60000000"

definition DEFAULT_MAX_BARS :: int where "DEFAULT_MAX_BARS = 500"
definition BURST_MULTIPLIER :: flt where "BURST_MULTIPLIER = 3/2"

record tick =
  tk_bid :: flt
  tk_ask :: flt
  tk_mid :: flt
  tk_timestamp :: instant

record bar =
  bar_time :: instant
  bar_open :: flt
  bar_high :: flt
  bar_low :: flt
  bar_close :: flt
  bar_volume :: int

type_synonym bar_key = "string \<times> int"

record bar_builder =
  bb_max_bars :: int
  bb_bars :: "(bar_key \<times> bar list) list"
  bb_current_bar :: "(bar_key \<times> bar option) list"
  bb_timeframes :: "int list"
  bb_burst_mode :: bool
  bb_has_callback :: bool
  bb_calls :: "(bar_key \<times> bar) list" \<comment> \<open>the callback calls made, in order\<close>

type_synonym 'a bb_result = "(bar_builder, 'a) outcome"

definition bb_init :: "int \<Rightarrow> bar_builder" where
  "bb_init max_bars =
     \<lparr>bb_max_bars = max_bars, bb_bars = [], bb_current_bar = [], bb_timeframes = [],
      bb_burst_mode = False, bb_has_callback = False, bb_calls = []\<rparr>"

definition bb_add_timeframe :: "string \<Rightarrow> int \<Rightarrow> bar_builder \<Rightarrow> bar_builder" where
  "bb_add_timeframe symbol period bb =
     bb\<lparr>bb_timeframes := List.insert period (bb_timeframes bb),
        bb_bars := (if map_of (bb_bars bb) (symbol, period) = None
                    then AList.update (symbol, period) [] (bb_bars bb) else bb_bars bb)\<rparr>"

definition bb_set_burst_mode :: "bool \<Rightarrow> bar_builder \<Rightarrow> bar_builder" where
  "bb_set_burst_mode enabled bb = bb\<lparr>bb_burst_mode := enabled\<rparr>"

text \<open>\<open>int(x)\<close> truncates toward zero.\<close>

definition py_trunc :: "flt \<Rightarrow> int" where
  "py_trunc x = (if x \<ge> 0 then \<lfloor>x\<rfloor> else \<lceil>x\<rceil>)"

definition bb_effective_max_bars :: "bar_builder \<Rightarrow> int" where
  "bb_effective_max_bars bb =
     (if bb_burst_mode bb then py_trunc (of_int (bb_max_bars bb) * BURST_MULTIPLIER) else bb_max_bars bb)"

definition bar_period_start :: "instant \<Rightarrow> int \<Rightarrow> pyexn + instant" where
  "bar_period_start ts period =
     (if period = 0 then Inl ZeroDivisionError
      else let minute = (ts div minute_us) mod 60 in
        Inr ((ts - ts mod minute_us) - (minute mod period) * minute_us))"

definition assert_bar_integrity :: "bar \<Rightarrow> pyexn + unit" where
  "assert_bar_integrity b =
     (if \<not> bar_high b \<ge> max (bar_open b) (bar_close b) then Inl ValueError
      else if \<not> bar_low b \<le> min (bar_open b) (bar_close b) then Inl ValueError
      else Inr ())"

definition bb_store_bar :: "bar_key \<Rightarrow> bar \<Rightarrow> bar_builder \<Rightarrow> unit bb_result" where
  "bb_store_bar key b bb =
     (case assert_bar_integrity b of
        Inl e \<Rightarrow> Exc e bb
      | Inr _ \<Rightarrow>
          let bars = dget_or (bb_bars bb) key [] @ [b]; limit = bb_effective_max_bars bb;
              kept = (if int (length bars) > limit then py_last limit bars else bars)
          in Ret () (bb\<lparr>bb_bars := AList.update key kept (bb_bars bb)\<rparr>))"

definition new_bar :: "tick \<Rightarrow> instant \<Rightarrow> bar" where
  "new_bar t time =
     \<lparr>bar_time = time, bar_open = tk_mid t, bar_high = tk_ask t, bar_low = tk_bid t, bar_close = tk_mid t, bar_volume = 1\<rparr>"

definition extend_bar :: "tick \<Rightarrow> bar \<Rightarrow> bar" where
  "extend_bar t b =
     \<lparr>bar_time = bar_time b, bar_open = bar_open b, bar_high = max (bar_high b) (tk_ask t),
      bar_low = min (bar_low b) (tk_bid t), bar_close = tk_mid t, bar_volume = bar_volume b + 1\<rparr>"

definition bb_forming :: "bar_key \<Rightarrow> bar_builder \<Rightarrow> bar option" where
  "bb_forming key bb = dget_or (bb_current_bar bb) key None"

definition bb_put_current :: "bar_key \<Rightarrow> bar option \<Rightarrow> bar_builder \<Rightarrow> bar_builder" where
  "bb_put_current key b bb = bb\<lparr>bb_current_bar := AList.update key b (bb_current_bar bb)\<rparr>"

definition bb_update_bar :: "bar_key \<Rightarrow> tick \<Rightarrow> instant \<Rightarrow> bar_builder \<Rightarrow> bool bb_result" where
  "bb_update_bar key t time bb =
     (case bb_forming key bb of
        Some current \<Rightarrow>
          if bar_time current = time then Ret False (bb_put_current key (Some (extend_bar t current)) bb)
          else and_then (bb_store_bar key current bb) (\<lambda>_ bb.
                 Ret True (bb_put_current key (Some (new_bar t time)) bb))
      | None \<Rightarrow> Ret False (bb_put_current key (Some (new_bar t time)) bb))"

fun bb_tick_loop :: "tick \<Rightarrow> string \<Rightarrow> int list \<Rightarrow> bar_key list \<Rightarrow> bar_builder \<Rightarrow> bar_key list bb_result" where
  "bb_tick_loop t symbol [] completed bb = Ret completed bb"
| "bb_tick_loop t symbol (tf # tfs) completed bb =
     (let key = (symbol, tf);
          bb1 = (if map_of (bb_bars bb) key = None then bb\<lparr>bb_bars := AList.update key [] (bb_bars bb)\<rparr> else bb)
      in case bar_period_start (tk_timestamp t) tf of
           Inl e \<Rightarrow> Exc e bb1
         | Inr time \<Rightarrow>
             and_then (bb_update_bar key t time bb1) (\<lambda>fin.
               bb_tick_loop t symbol tfs (if fin then completed @ [key] else completed)))"

definition bb_fire :: "bar_key list \<Rightarrow> bar_builder \<Rightarrow> bar_builder" where
  "bb_fire keys bb =
     bb\<lparr>bb_calls := bb_calls bb @
        concat (map (\<lambda>key. let bars = dget_or (bb_bars bb) key [] in
                      if bars \<noteq> [] \<and> bb_has_callback bb then [(key, last bars)] else []) keys)\<rparr>"

definition bb_process_tick :: "(int list \<Rightarrow> int list) \<Rightarrow> tick \<Rightarrow> string \<Rightarrow> bar_builder \<Rightarrow> bar_key list bb_result" where
  "bb_process_tick iter t symbol bb =
     and_then (bb_tick_loop t symbol (iter (bb_timeframes bb)) [] bb) (\<lambda>keys bb. Ret keys (bb_fire keys bb))"

definition bb_get_bars :: "string \<Rightarrow> int \<Rightarrow> bar_builder \<Rightarrow> bar list" where
  "bb_get_bars symbol period bb = dget_or (bb_bars bb) (symbol, period) []"

definition bb_get_bars_including_forming :: "string \<Rightarrow> int \<Rightarrow> bar_builder \<Rightarrow> bar list" where
  "bb_get_bars_including_forming symbol period bb =
     dget_or (bb_bars bb) (symbol, period) [] @
     (case bb_forming (symbol, period) bb of Some b \<Rightarrow> [b] | None \<Rightarrow> [])"

definition bb_bar_count :: "string \<Rightarrow> int \<Rightarrow> bar_builder \<Rightarrow> nat" where
  "bb_bar_count symbol period bb = length (dget_or (bb_bars bb) (symbol, period) [])"

definition bb_total_bar_count :: "bar_builder \<Rightarrow> nat" where
  "bb_total_bar_count bb = sum_list (map (length \<circ> snd) (bb_bars bb))"

definition bb_preload_bars :: "string \<Rightarrow> int \<Rightarrow> bar list \<Rightarrow> bar_builder \<Rightarrow> bar_builder" where
  "bb_preload_bars symbol period bars bb =
     bb\<lparr>bb_bars := AList.update (symbol, period) (py_last (bb_effective_max_bars bb) bars) (bb_bars bb),
        bb_timeframes := List.insert period (bb_timeframes bb)\<rparr>"

fun bb_finalize_loop :: "bar_key list \<Rightarrow> bar_key list \<Rightarrow> bar_builder \<Rightarrow> bar_key list bb_result" where
  "bb_finalize_loop [] finalized bb = Ret finalized bb"
| "bb_finalize_loop (key # keys) finalized bb =
     (case bb_forming key bb of
        Some b \<Rightarrow>
          and_then (bb_store_bar key b bb) (\<lambda>_ bb.
            bb_finalize_loop keys (finalized @ [key]) (bb_put_current key None bb))
      | None \<Rightarrow> bb_finalize_loop keys finalized bb)"

definition bb_finalize_all :: "bar_builder \<Rightarrow> bar_key list bb_result" where
  "bb_finalize_all bb = bb_finalize_loop (map fst (bb_current_bar bb)) [] bb"

section \<open>Well-formed builders\<close>

definition bar_ok :: "bar \<Rightarrow> bool" where
  "bar_ok b \<longleftrightarrow> bar_low b \<le> min (bar_open b) (bar_close b) \<and> max (bar_open b) (bar_close b) \<le> bar_high b"

definition sane_tick :: "tick \<Rightarrow> bool" where
  "sane_tick t \<longleftrightarrow> tk_bid t \<le> tk_mid t \<and> tk_mid t \<le> tk_ask t"

text \<open>The largest number of bars a key may hold, burst mode included.\<close>

definition bar_limit :: "bar_builder \<Rightarrow> int" where
  "bar_limit bb = (bb_max_bars bb * 3) div 2"

definition bb_wf :: "int \<Rightarrow> bar_builder \<Rightarrow> bool" where
  "bb_wf n bb \<longleftrightarrow> bb_max_bars bb = n \<and> 1 \<le> n \<and> 0 \<notin> set (bb_timeframes bb) \<and>
     (\<forall>k b. bb_forming k bb = Some b \<longrightarrow> bar_ok b) \<and>
     (\<forall>k. list_all bar_ok (dget_or (bb_bars bb) k []) \<and> int (length (dget_or (bb_bars bb) k [])) \<le> bar_limit bb)"

lemma wf_forming: "bb_wf n bb \<Longrightarrow> bb_forming k bb = Some b \<Longrightarrow> bar_ok b"
  unfolding bb_wf_def by blast

lemma wf_bars:
  "bb_wf n bb \<Longrightarrow> list_all bar_ok (dget_or (bb_bars bb) k []) \<and> int (length (dget_or (bb_bars bb) k [])) \<le> bar_limit bb"
  unfolding bb_wf_def by blast

lemma integrity_iff: "assert_bar_integrity b = Inr () \<longleftrightarrow> bar_ok b"
  by (auto simp: assert_bar_integrity_def bar_ok_def)

lemma new_bar_ok: "sane_tick t \<Longrightarrow> bar_ok (new_bar t time)"
  by (simp add: sane_tick_def bar_ok_def new_bar_def)

lemma extend_bar_ok: "sane_tick t \<Longrightarrow> bar_ok b \<Longrightarrow> bar_ok (extend_bar t b)"
  by (auto simp: sane_tick_def bar_ok_def extend_bar_def)

lemma dget_update: "dget_or (AList.update j v d) k e = (if k = j then v else dget_or d k e)"
  by (simp add: dget_or_def dict_simps)

lemma forming_put [simp]: "bb_forming k (bb_put_current j b bb) = (if k = j then b else bb_forming k bb)"
  by (simp add: bb_forming_def bb_put_current_def dget_update)

lemma forming_bars [simp]: "bb_forming k (bb\<lparr>bb_bars := bs\<rparr>) = bb_forming k bb"
  by (simp add: bb_forming_def)

lemma put_current_frames [simp]:
  "bb_bars (bb_put_current j b bb) = bb_bars bb" "bb_max_bars (bb_put_current j b bb) = bb_max_bars bb"
  "bb_timeframes (bb_put_current j b bb) = bb_timeframes bb" "bar_limit (bb_put_current j b bb) = bar_limit bb"
  "bb_burst_mode (bb_put_current j b bb) = bb_burst_mode bb"
  by (simp_all add: bb_put_current_def bar_limit_def)

lemma wf_put: "bb_wf n bb \<Longrightarrow> (\<And>x. b = Some x \<Longrightarrow> bar_ok x) \<Longrightarrow> bb_wf n (bb_put_current k b bb)"
  by (auto simp: bb_wf_def)

lemma wf_put_Some: "bb_wf n bb \<Longrightarrow> bar_ok x \<Longrightarrow> bb_wf n (bb_put_current k (Some x) bb)"
  by (rule wf_put) auto

lemma wf_put_None: "bb_wf n bb \<Longrightarrow> bb_wf n (bb_put_current k None bb)"
  by (rule wf_put) auto

lemma effective_limit:
  assumes "1 \<le> bb_max_bars bb"
  shows "1 \<le> bb_effective_max_bars bb \<and> bb_effective_max_bars bb \<le> bar_limit bb"
proof -
  have "py_trunc (of_int (bb_max_bars bb) * BURST_MULTIPLIER) = (bb_max_bars bb * 3) div 2"
    using assms floor_divide_of_int_eq[of "bb_max_bars bb * 3" 2, where ?'a = rat]
    by (simp add: py_trunc_def BURST_MULTIPLIER_def)
  then show ?thesis using assms by (auto simp: bb_effective_max_bars_def bar_limit_def)
qed

lemma py_last_length: "1 \<le> n \<Longrightarrow> int (length (py_last n xs)) \<le> n"
  by (simp add: py_last_def)

lemma py_last_all: "list_all P xs \<Longrightarrow> list_all P (py_last n xs)"
  by (auto simp: py_last_def list_all_iff dest: in_set_dropD)

text \<open>Storing a sound bar succeeds, keeps the builder sound and touches only its key.\<close>

lemma store_wf:
  assumes "bb_wf n bb" and "bar_ok b"
  shows "\<exists>bb'. bb_store_bar k b bb = Ret () bb' \<and> bb_wf n bb' \<and> bb_current_bar bb' = bb_current_bar bb \<and>
     bb_timeframes bb' = bb_timeframes bb"
proof -
  let ?bars = "dget_or (bb_bars bb) k [] @ [b]" and ?limit = "bb_effective_max_bars bb"
  let ?kept = "if int (length ?bars) > ?limit then py_last ?limit ?bars else ?bars"
  have l: "1 \<le> ?limit" "?limit \<le> bar_limit bb" using effective_limit assms(1) by (simp_all add: bb_wf_def)
  have k: "list_all bar_ok ?kept" "int (length ?kept) \<le> bar_limit bb"
    using assms(2) wf_bars[OF assms(1), of k] l py_last_all[of bar_ok ?bars ?limit] py_last_length[OF l(1), of ?bars]
    by auto
  have "bb_store_bar k b bb = Ret () (bb\<lparr>bb_bars := AList.update k ?kept (bb_bars bb)\<rparr>)"
    using assms(2) integrity_iff[of b] by (simp add: bb_store_bar_def Let_def)
  moreover have "bb_wf n (bb\<lparr>bb_bars := AList.update k ?kept (bb_bars bb)\<rparr>)"
    using assms(1) k by (auto simp: bb_wf_def dget_update bar_limit_def)
  ultimately show ?thesis by simp
qed

lemma update_bar_wf:
  assumes "bb_wf n bb" and "sane_tick t"
  shows "\<exists>c bb'. bb_update_bar k t time bb = Ret c bb' \<and> bb_wf n bb' \<and> bb_timeframes bb' = bb_timeframes bb"
proof (cases "bb_forming k bb")
  case None
  then show ?thesis using assms by (auto simp: bb_update_bar_def wf_put_Some new_bar_ok)
next
  case (Some b)
  then have b: "bar_ok b" using assms(1) by (rule wf_forming[rotated])
  show ?thesis
  proof (cases "bar_time b = time")
    case True
    then show ?thesis using Some assms b by (auto simp: bb_update_bar_def wf_put_Some extend_bar_ok)
  next
    case False
    obtain bb' where "bb_store_bar k b bb = Ret () bb'" "bb_wf n bb'" "bb_timeframes bb' = bb_timeframes bb"
      using store_wf[OF assms(1) b] by blast
    then show ?thesis using Some False assms(2) by (auto simp: bb_update_bar_def wf_put_Some new_bar_ok)
  qed
qed

lemma wf_register: "bb_wf n bb \<Longrightarrow> map_of (bb_bars bb) k = None \<Longrightarrow> bb_wf n (bb\<lparr>bb_bars := AList.update k [] (bb_bars bb)\<rparr>)"
  by (auto simp: bb_wf_def dget_update bar_limit_def)

lemma tick_loop_wf:
  assumes "bb_wf n bb" and "sane_tick t" and "0 \<notin> set tfs"
  shows "\<exists>ks bb'. bb_tick_loop t symbol tfs completed bb = Ret ks bb' \<and> bb_wf n bb' \<and> bb_timeframes bb' = bb_timeframes bb"
  using assms(1,3)
proof (induction tfs arbitrary: completed bb)
  case (Cons tf tfs)
  let ?bb1 = "if map_of (bb_bars bb) (symbol, tf) = None
     then bb\<lparr>bb_bars := AList.update (symbol, tf) [] (bb_bars bb)\<rparr> else bb"
  have wf1: "bb_wf n ?bb1" using Cons.prems(1) wf_register by simp
  obtain time where time: "bar_period_start (tk_timestamp t) tf = Inr time"
    using Cons.prems(2) by (simp add: bar_period_start_def Let_def)
  obtain c bb2 where u: "bb_update_bar (symbol, tf) t time ?bb1 = Ret c bb2" "bb_wf n bb2"
      "bb_timeframes bb2 = bb_timeframes ?bb1"
    using update_bar_wf[OF wf1 assms(2)] by blast
  then obtain ks bb' where "bb_tick_loop t symbol tfs (if c then completed @ [(symbol, tf)] else completed) bb2 = Ret ks bb'"
      "bb_wf n bb'" "bb_timeframes bb' = bb_timeframes bb2"
    using Cons.IH[OF u(2)] Cons.prems(2) by fastforce
  then show ?case using u time by (simp add: Let_def)
qed simp

lemma fire_frames [simp]:
  "bb_wf n (bb_fire ks bb) = bb_wf n bb" "bb_timeframes (bb_fire ks bb) = bb_timeframes bb"
  by (simp_all add: bb_fire_def bb_wf_def bb_forming_def bar_limit_def)

lemma process_tick_wf:
  assumes "bb_wf n bb" and "sane_tick t" and "\<And>xs. set (iter xs) = set xs"
  shows "\<exists>ks bb'. bb_process_tick iter t symbol bb = Ret ks bb' \<and> bb_wf n bb'"
proof -
  have "0 \<notin> set (iter (bb_timeframes bb))" using assms(1,3) by (simp add: bb_wf_def)
  then obtain ks bb' where "bb_tick_loop t symbol (iter (bb_timeframes bb)) [] bb = Ret ks bb'" "bb_wf n bb'"
    using tick_loop_wf[OF assms(1,2)] by blast
  then show ?thesis by (simp add: bb_process_tick_def)
qed

lemma finalize_loop_wf:
  "bb_wf n bb \<Longrightarrow> \<exists>ks' bb'. bb_finalize_loop ks completed bb = Ret ks' bb' \<and> bb_wf n bb'"
proof (induction ks arbitrary: completed bb)
  case (Cons k ks)
  show ?case
  proof (cases "bb_forming k bb")
    case (Some b)
    then have "bar_ok b" using Cons.prems by (rule wf_forming[rotated])
    then obtain bb' where "bb_store_bar k b bb = Ret () bb'" "bb_wf n bb'"
      using store_wf[OF Cons.prems] by blast
    then show ?thesis using Some Cons.IH[OF wf_put_None] by simp
  qed (simp add: Cons.IH[OF Cons.prems])
qed simp

section \<open>Runs of the builder\<close>

datatype bb_event =
    BAdd string int
  | BBurst bool
  | BPreload string int "bar list"
  | BTick tick string
  | BFinalize

text \<open>A method of the builder as an outcome; the plain methods always return.\<close>

fun bb_exec :: "(int list \<Rightarrow> int list) \<Rightarrow> bb_event \<Rightarrow> bar_builder \<Rightarrow> bar_key list bb_result" where
  "bb_exec iter (BAdd symbol p) bb = Ret [] (bb_add_timeframe symbol p bb)"
| "bb_exec iter (BBurst b) bb = Ret [] (bb_set_burst_mode b bb)"
| "bb_exec iter (BPreload symbol p bars) bb = Ret [] (bb_preload_bars symbol p bars bb)"
| "bb_exec iter (BTick t symbol) bb = bb_process_tick iter t symbol bb"
| "bb_exec iter BFinalize bb = bb_finalize_all bb"

text \<open>The inputs the code expects: bid at most mid at most ask, sound history, a real period.\<close>

fun sane_event :: "bb_event \<Rightarrow> bool" where
  "sane_event (BAdd _ p) = (p \<noteq> 0)"
| "sane_event (BBurst _) = True"
| "sane_event (BPreload _ p bars) = (p \<noteq> 0 \<and> list_all bar_ok bars)"
| "sane_event (BTick t _) = sane_tick t"
| "sane_event BFinalize = True"

lemma wf_cong:
  "bb_max_bars bb' = bb_max_bars bb \<Longrightarrow> 0 \<notin> set (bb_timeframes bb') \<Longrightarrow> bb_current_bar bb' = bb_current_bar bb \<Longrightarrow>
   (\<And>k. dget_or (bb_bars bb') k [] = dget_or (bb_bars bb) k [] \<or>
      list_all bar_ok (dget_or (bb_bars bb') k []) \<and> int (length (dget_or (bb_bars bb') k [])) \<le> bar_limit bb) \<Longrightarrow>
   bb_wf n bb \<Longrightarrow> bb_wf n bb'"
  unfolding bb_wf_def bb_forming_def bar_limit_def by metis

lemma dget_register: "map_of d j = None \<Longrightarrow> dget_or (AList.update j [] d) k [] = dget_or d k []"
  by (cases "k = j") (simp_all add: dget_or_def dict_simps)

lemma add_wf: "bb_wf n bb \<Longrightarrow> p \<noteq> 0 \<Longrightarrow> bb_wf n (bb_add_timeframe symbol p bb)"
  by (rule wf_cong[of _ bb]) (auto simp: bb_add_timeframe_def dget_register bb_wf_def)

lemma preload_wf:
  assumes "bb_wf n bb" and "p \<noteq> 0" and "list_all bar_ok bars"
  shows "bb_wf n (bb_preload_bars symbol p bars bb)"
proof -
  have l: "1 \<le> bb_effective_max_bars bb" "bb_effective_max_bars bb \<le> bar_limit bb"
    using effective_limit assms(1) by (simp_all add: bb_wf_def)
  show ?thesis
    by (rule wf_cong[of _ bb])
      (use assms l py_last_all[OF assms(3)] py_last_length[OF l(1), of bars] in
        \<open>auto simp: bb_preload_bars_def dget_update bb_wf_def\<close>)
qed

lemma exec_wf:
  assumes "bb_wf n bb" and "sane_event ev" and "\<And>xs. set (iter xs) = set xs"
  shows "\<exists>ks bb'. bb_exec iter ev bb = Ret ks bb' \<and> bb_wf n bb'"
proof (cases ev)
  case (BBurst b)
  have "bb_wf n (bb_set_burst_mode b bb)"
    by (rule wf_cong[OF _ _ _ _ assms(1)]) (use assms(1) in \<open>auto simp: bb_set_burst_mode_def bb_wf_def\<close>)
  then show ?thesis using BBurst by simp
next
  case BFinalize
  then show ?thesis using finalize_loop_wf[OF assms(1)] by (simp add: bb_finalize_all_def)
qed (use assms process_tick_wf add_wf preload_wf in \<open>auto\<close>)

definition bb_step :: "(int list \<Rightarrow> int list) \<Rightarrow> bar_builder \<Rightarrow> bb_event \<Rightarrow> bar_builder" where
  "bb_step iter bb ev = state_of (bb_exec iter ev bb)"

definition lists_set :: "(int list \<Rightarrow> int list) \<Rightarrow> bool" where
  "lists_set iter \<longleftrightarrow> (\<forall>xs. set (iter xs) = set xs)"

interpretation bars_machine: invariant_machine "bb_step iter" "\<lambda>ev. sane_event ev \<and> lists_set iter" "bb_wf n" for iter n
proof unfold_locales
  fix bb ev assume "bb_wf n bb" "sane_event ev \<and> lists_set iter"
  then show "bb_wf n (bb_step iter bb ev)"
    using exec_wf[of n bb ev iter] by (auto simp: bb_step_def lists_set_def)
qed

lemma init_wf: "1 \<le> n \<Longrightarrow> bb_wf n (bb_init n)"
  by (simp add: bb_wf_def bb_init_def bb_forming_def bar_limit_def)

text \<open>
  C17. With a positive bar budget and sane inputs (bid at most mid at most ask, non-zero
  periods, sound history) the builder never raises, whatever the order in which it visits its
  timeframes, and after every sequence of calls each finalized and each forming bar satisfies
  low at most open and close at most high, and no key holds more than one and a half budgets.
\<close>

theorem bars_sound:
  assumes "1 \<le> n" and "list_all sane_event es" and "sane_event ev" and "lists_set iter"
    and "bb = foldl (bb_step iter) (bb_init n) es"
  shows "\<not> raised (bb_exec iter ev bb) \<and>
     list_all bar_ok (bb_get_bars_including_forming symbol p bb) \<and>
     int (bb_bar_count symbol p bb) \<le> n * 3 div 2"
proof -
  have wf: "bb_wf n bb" unfolding assms(5)
    by (rule bars_machine.run_inv[OF init_wf[OF assms(1)]]) (use assms(2,4) in \<open>simp add: list_all_iff\<close>)
  have "\<not> raised (bb_exec iter ev bb)"
    using exec_wf[OF wf assms(3), of iter] assms(4) by (auto simp: lists_set_def)
  moreover have "list_all bar_ok (bb_get_bars_including_forming symbol p bb)"
    using wf_bars[OF wf, of "(symbol, p)"] wf_forming[OF wf, of "(symbol, p)"]
    by (auto simp: bb_get_bars_including_forming_def split: option.split)
  moreover have "int (bb_bar_count symbol p bb) \<le> n * 3 div 2"
    using wf_bars[OF wf, of "(symbol, p)"] wf by (simp add: bb_bar_count_def bar_limit_def bb_wf_def)
  ultimately show ?thesis by blast
qed

definition flat_tick :: "flt \<Rightarrow> instant \<Rightarrow> tick" where
  "flat_tick x time = \<lparr>tk_bid = x, tk_ask = x, tk_mid = x, tk_timestamp = time\<rparr>"

lemma lists_set_id: "lists_set (\<lambda>xs. xs)"
  by (simp add: lists_set_def)

theorem bars_sound_witness:
  "\<not> raised (bb_exec (\<lambda>xs. xs) BFinalize (foldl (bb_step (\<lambda>xs. xs)) (bb_init 500)
     [BAdd ''EURUSD'' 15, BTick (flat_tick (11/10) 0) ''EURUSD'', BTick (flat_tick 1 (20 * minute_us)) ''EURUSD'']))"
proof -
  let ?es = "[BAdd ''EURUSD'' 15, BTick (flat_tick (11/10) 0) ''EURUSD'', BTick (flat_tick 1 (20 * minute_us)) ''EURUSD'']"
  have es: "list_all sane_event ?es" by (simp add: sane_tick_def flat_tick_def)
  have n: "(1::int) \<le> 500" and fin: "sane_event BFinalize" by simp_all
  show ?thesis using bars_sound[OF n es fin lists_set_id refl] by blast
qed

section \<open>Period boundaries\<close>

text \<open>
  The start of the bar period: for a period that divides the hour it is the instant rounded
  down to a multiple of the period; for every period of an hour or more it is rounded down to the
  hour, so a bar registered as 120 or 240 minutes long changes every 60 minutes.
\<close>

theorem bar_period_start_hour_cap:
  assumes "0 < p" and "p dvd 60 \<or> 60 \<le> p"
  shows "bar_period_start ts p = Inr (ts - ts mod ((if p < 60 then p else 60) * minute_us))"
proof -
  let ?m = "ts div minute_us" and ?q = "if p < 60 then p else 60"
  have q: "(?m mod 60) mod p = ?m mod ?q"
  proof (cases "p < 60")
    case True
    then show ?thesis using assms(2) by (simp add: mod_mod_cancel)
  next
    case False
    have "0 \<le> ?m mod 60" "?m mod 60 < 60" by simp_all
    then have "(?m mod 60) mod p = ?m mod 60" using False by (simp add: mod_pos_pos_trivial)
    then show ?thesis using False by simp
  qed
  have "ts mod (minute_us * ?q) = minute_us * (?m mod ?q) + ts mod minute_us"
    by (rule zmod_zmult2_eq) (use assms(1) in simp)
  then have "ts mod (?q * minute_us) = minute_us * (?m mod ?q) + ts mod minute_us"
    by (simp only: mult.commute)
  then show ?thesis using assms(1) q by (simp add: bar_period_start_def Let_def)
qed

theorem bar_period_start_hour_cap_witness:
  "bar_period_start (3 * hour_us + 7) 240 = Inr (3 * hour_us) \<and>
   bar_period_start (3 * hour_us + 44 * minute_us) 15 = Inr (3 * hour_us + 30 * minute_us)"
  using bar_period_start_hour_cap[of 240 "3 * hour_us + 7"]
    bar_period_start_hour_cap[of 15 "3 * hour_us + 44 * minute_us"] by simp

section \<open>A malformed bar\<close>

definition poisoned :: "bar_key \<Rightarrow> bar \<Rightarrow> bar list \<Rightarrow> bar_builder \<Rightarrow> bool" where
  "poisoned k b bars bb \<longleftrightarrow> bb_forming k bb = Some b \<and> \<not> bar_ok b \<and> dget_or (bb_bars bb) k [] = bars"

lemma store_other:
  "j \<noteq> k \<Longrightarrow> poisoned k b bars bb \<Longrightarrow> poisoned k b bars (state_of (bb_store_bar j x bb))"
  by (auto simp: poisoned_def bb_store_bar_def Let_def dget_update split: sum.split)

lemma put_other: "j \<noteq> k \<Longrightarrow> poisoned k b bars bb \<Longrightarrow> poisoned k b bars (bb_put_current j x bb)"
  by (simp add: poisoned_def)

lemma update_other:
  assumes "j \<noteq> k" and "poisoned k b bars bb"
  shows "poisoned k b bars (state_of (bb_update_bar j t time bb))"
proof (cases "bb_forming j bb")
  case (Some c)
  show ?thesis
  proof (cases "bar_time c = time")
    case False
    have "poisoned k b bars (state_of (and_then (bb_store_bar j c bb) (\<lambda>_ bb. Ret True (bb_put_current j (Some (new_bar t time)) bb))))"
      by (rule and_then_inv) (use store_other[OF assms] put_other[OF assms(1)] in auto)
    then show ?thesis using Some False by (simp add: bb_update_bar_def)
  qed (use Some put_other[OF assms] in \<open>simp add: bb_update_bar_def\<close>)
qed (use put_other[OF assms] in \<open>simp add: bb_update_bar_def\<close>)

definition registered :: "bar_key \<Rightarrow> bar_builder \<Rightarrow> bar_builder" where
  "registered k bb = (if map_of (bb_bars bb) k = None then bb\<lparr>bb_bars := AList.update k [] (bb_bars bb)\<rparr> else bb)"

lemma register_poisoned: "poisoned k b bars (registered j bb) = poisoned k b bars bb"
  by (simp add: poisoned_def registered_def dget_register)

lemma tick_loop_Cons:
  "bb_tick_loop t symbol (tf # tfs) completed bb =
     (case bar_period_start (tk_timestamp t) tf of
        Inl e \<Rightarrow> Exc e (registered (symbol, tf) bb)
      | Inr time \<Rightarrow> and_then (bb_update_bar (symbol, tf) t time (registered (symbol, tf) bb)) (\<lambda>fin.
          bb_tick_loop t symbol tfs (if fin then completed @ [(symbol, tf)] else completed)))"
  unfolding bb_tick_loop.simps Let_def registered_def by (rule refl)

lemma loop_poisoned:
  assumes "poisoned (symbol, tf) b bars bb"
    and "\<And>time. bar_period_start (tk_timestamp t) tf = Inr time \<Longrightarrow> time \<noteq> bar_time b"
  shows "poisoned (symbol, tf) b bars (state_of (bb_tick_loop t symbol tfs completed bb)) \<and>
     (tf \<in> set tfs \<longrightarrow> raised (bb_tick_loop t symbol tfs completed bb))"
  using assms(1)
proof (induction tfs arbitrary: completed bb)
  case (Cons u tfs)
  let ?bb1 = "registered (symbol, u) bb"
  have p1: "poisoned (symbol, tf) b bars ?bb1" using Cons.prems by (simp add: register_poisoned)
  show ?case
  proof (cases "bar_period_start (tk_timestamp t) u")
    case (Inl e)
    then show ?thesis using p1 by (simp add: tick_loop_Cons del: bb_tick_loop.simps)
  next
    case (Inr time)
    show ?thesis
    proof (cases "u = tf")
      case True
      have "assert_bar_integrity b \<noteq> Inr ()" using p1 integrity_iff by (simp add: poisoned_def)
      then obtain e where "assert_bar_integrity b = Inl e" by (cases "assert_bar_integrity b") auto
      then have "bb_update_bar (symbol, tf) t time ?bb1 = Exc e ?bb1"
        using p1 assms(2) Inr True by (simp add: bb_update_bar_def poisoned_def bb_store_bar_def)
      then show ?thesis using p1 Inr True by (simp add: tick_loop_Cons del: bb_tick_loop.simps)
    next
      case False
      have p2: "poisoned (symbol, tf) b bars (state_of (bb_update_bar (symbol, u) t time ?bb1))"
        by (rule update_other) (use False p1 in simp_all)
      show ?thesis
      proof (cases "bb_update_bar (symbol, u) t time ?bb1")
        case (Ret c bb2)
        then show ?thesis using Inr False Cons.IH[of bb2] p2 by (simp add: tick_loop_Cons del: bb_tick_loop.simps)
      next
        case (Exc e bb2)
        then show ?thesis using Inr False p2 by (simp add: tick_loop_Cons del: bb_tick_loop.simps)
      qed
    qed
  qed
qed (simp add: assms(1))

lemma fire_poisoned [simp]: "poisoned k b bars (bb_fire ks bb) = poisoned k b bars bb"
  by (simp add: poisoned_def bb_fire_def bb_forming_def)

lemma tick_poisoned:
  assumes "poisoned (symbol, tf) b bars bb"
    and "\<And>time. bar_period_start (tk_timestamp t) tf = Inr time \<Longrightarrow> time \<noteq> bar_time b"
  shows "poisoned (symbol, tf) b bars (state_of (bb_process_tick iter t symbol bb)) \<and>
     (tf \<in> set (iter (bb_timeframes bb)) \<longrightarrow> raised (bb_process_tick iter t symbol bb))"
proof -
  have l: "poisoned (symbol, tf) b bars (state_of (bb_tick_loop t symbol (iter (bb_timeframes bb)) [] bb)) \<and>
      (tf \<in> set (iter (bb_timeframes bb)) \<longrightarrow> raised (bb_tick_loop t symbol (iter (bb_timeframes bb)) [] bb))"
    using assms by (rule loop_poisoned)
  show ?thesis
    by (cases "bb_tick_loop t symbol (iter (bb_timeframes bb)) [] bb")
      (use l in \<open>auto simp: bb_process_tick_def\<close>)
qed

text \<open>
  One malformed bar stops its symbol for good: once the forming bar of a key violates its
  own integrity check (a tick whose mid is above its ask is enough), every tick of that symbol
  in another period raises, and after any number of such ticks the malformed bar is still
  forming and no bar of that key has been finalized.
\<close>

theorem bar_poison_persists:
  assumes "bb_forming (symbol, tf) bb = Some b" and "\<not> bar_ok b"
    and "list_all (\<lambda>t. bar_period_start (tk_timestamp t) tf \<noteq> Inr (bar_time b)) ts"
    and "bb' = foldl (bb_step iter) bb (map (\<lambda>t. BTick t symbol) ts)"
    and "tf \<in> set (bb_timeframes bb')" and "lists_set iter"
    and "bar_period_start (tk_timestamp t) tf \<noteq> Inr (bar_time b)"
  shows "bb_forming (symbol, tf) bb' = Some b \<and> bb_get_bars symbol tf bb' = bb_get_bars symbol tf bb \<and>
     raised (bb_process_tick iter t symbol bb')"
proof -
  have "poisoned (symbol, tf) b bars (foldl (bb_step iter) c (map (\<lambda>t. BTick t symbol) ts))"
    if "poisoned (symbol, tf) b bars c" for bars c
    using that assms(3)
  proof (induction ts arbitrary: c)
    case (Cons u ts)
    then have "poisoned (symbol, tf) b bars (state_of (bb_process_tick iter u symbol c))"
      using tick_poisoned[of symbol tf b bars c u iter] by auto
    then show ?case using Cons by (simp add: bb_step_def)
  qed simp
  then have p: "poisoned (symbol, tf) b (bb_get_bars symbol tf bb) bb'"
    using assms(1,2,4) by (simp add: poisoned_def bb_get_bars_def)
  have "raised (bb_process_tick iter t symbol bb')"
    using tick_poisoned[OF p, of t iter] assms(5,6,7) by (auto simp: lists_set_def)
  then show ?thesis using p by (simp add: poisoned_def bb_get_bars_def)
qed

text \<open>A builder whose forming 15-minute bar came from a tick with its mid above its ask.\<close>

definition bad_bar :: bar where
  "bad_bar = \<lparr>bar_time = 0, bar_open = 2, bar_high = 1, bar_low = 1, bar_close = 2, bar_volume = 1\<rparr>"

definition bad_builder :: bar_builder where
  "bad_builder = bb_step (\<lambda>xs. xs) (bb_add_timeframe ''EURUSD'' 15 (bb_init 500))
     (BTick \<lparr>tk_bid = 1, tk_ask = 1, tk_mid = 2, tk_timestamp = 0\<rparr> ''EURUSD'')"

lemma bad_builder_simps:
  "bb_forming (''EURUSD'', 15) bad_builder = Some bad_bar" "bb_timeframes bad_builder = [15]"
  by (simp_all add: bad_builder_def bb_step_def bb_process_tick_def bb_add_timeframe_def bb_init_def
      bar_period_start_def bb_update_bar_def bb_forming_def bb_put_current_def bb_fire_def new_bar_def bad_bar_def Let_def)

theorem bar_poison_persists_witness:
  "raised (bb_process_tick (\<lambda>xs. xs) (flat_tick 1 (20 * minute_us)) ''EURUSD''
     (foldl (bb_step (\<lambda>xs. xs)) bad_builder (map (\<lambda>t. BTick t ''EURUSD'') [])))"
proof -
  have b: "\<not> bar_ok bad_bar" by (simp add: bar_ok_def bad_bar_def)
  have t: "bar_period_start (tk_timestamp (flat_tick 1 (20 * minute_us))) 15 \<noteq> Inr (bar_time bad_bar)"
    by (simp add: bar_period_start_def flat_tick_def bad_bar_def Let_def)
  show ?thesis
    by (rule conjunct2[OF conjunct2[OF bar_poison_persists[OF bad_builder_simps(1) b _ refl _ lists_set_id t]]])
      (simp_all add: bad_builder_simps)
qed

end
