(* ===== verification/Guardrail.thy ===== *)
theory Guardrail
  imports FtmoParams
begin

text \<open>
  The pre-trade guardrail engine of \<open>risk/engine.py\<close>: its configuration with the validation of
  \<open>__post_init__\<close>, blackout windows, order requests, the engine's account state and the ten steps
  of \<open>check_order\<close>. The injectable clock is an argument, the datetime it returned; the text
  of the log messages is not modelled.
\<close>

section \<open>Data\<close>

datatype reject_reason =
    KILL_SWITCH_ACTIVE
  | BLACKOUT_WINDOW
  | TOTAL_DD_BREACH
  | DAILY_DD_STOP
  | MAX_CONCURRENT
  | PER_TRADE_RISK
  | SLIPPAGE
  | INVALID_ORDER

fun reject_value :: "reject_reason \<Rightarrow> string" where
  "reject_value KILL_SWITCH_ACTIVE = ''kill_switch_active''"
| "reject_value BLACKOUT_WINDOW = ''blackout_window''"
| "reject_value TOTAL_DD_BREACH = ''total_dd_breach''"
| "reject_value DAILY_DD_STOP = ''daily_dd_stop''"
| "reject_value MAX_CONCURRENT = ''max_concurrent_positions''"
| "reject_value PER_TRADE_RISK = ''per_trade_risk_exceeded''"
| "reject_value SLIPPAGE = ''slippage_threshold_exceeded''"
| "reject_value INVALID_ORDER = ''invalid_order''"

record guardrail_config =
  gc_max_concurrent_positions :: int
  gc_per_trade_risk_pct :: flt
  gc_slippage_threshold_pips :: flt
  gc_daily_dd_scale_threshold :: flt
  gc_daily_dd_stop_threshold :: flt
  gc_total_dd_stop_threshold :: flt

definition guardrail_config_default :: guardrail_config where
  "guardrail_config_default =
     \<lparr>gc_max_concurrent_positions = 3, gc_per_trade_risk_pct = 5/1000, gc_slippage_threshold_pips = 3,
      gc_daily_dd_scale_threshold = 15/1000, gc_daily_dd_stop_threshold = 25/1000,
      gc_total_dd_stop_threshold = 8/100\<rparr>"

definition guardrail_config_make :: "guardrail_config \<Rightarrow> pyexn + guardrail_config" where
  "guardrail_config_make c =
     (if gc_max_concurrent_positions c < 1 then Inl ValueError
      else if \<not> (0 < gc_per_trade_risk_pct c \<and> gc_per_trade_risk_pct c \<le> 1) then Inl ValueError
      else if gc_slippage_threshold_pips c < 0 then Inl ValueError
      else if \<not> (0 < gc_daily_dd_scale_threshold c \<and>
                  gc_daily_dd_scale_threshold c < gc_daily_dd_stop_threshold c) then Inl ValueError
      else if \<not> (0 < gc_daily_dd_stop_threshold c \<and>
                  gc_daily_dd_stop_threshold c \<le> FTMO_DAILY_DD_LIMIT_PCT) then Inl ValueError
      else if \<not> (0 < gc_total_dd_stop_threshold c \<and>
                  gc_total_dd_stop_threshold c \<le> FTMO_TOTAL_DD_LIMIT_PCT) then Inl ValueError
      else Inr c)"

record blackout_window =
  bw_event_name :: string
  bw_start_utc :: py_datetime
  bw_end_utc :: py_datetime

definition blackout_window_make :: "blackout_window \<Rightarrow> pyexn + blackout_window" where
  "blackout_window_make w =
     (if dt_naive (bw_start_utc w) \<or> dt_naive (bw_end_utc w) then Inl ValueError
      else if dt_instant (bw_start_utc w) \<ge> dt_instant (bw_end_utc w) then Inl ValueError
      else Inr w)"

text \<open>A constructed window has aware bounds, so the comparisons are those of the instants.\<close>

definition bw_contains :: "blackout_window \<Rightarrow> py_datetime \<Rightarrow> bool" where
  "bw_contains w ts =
     (let ts = dt_as_utc ts
      in dt_instant (bw_start_utc w) \<le> dt_instant ts \<and> dt_instant ts \<le> dt_instant (bw_end_utc w))"

record order_request =
  or_symbol :: string
  or_side :: string
  or_size :: flt
  or_entry_price :: flt
  or_stop_loss_price :: flt
  or_risk_amount_usd :: flt
  or_estimated_slippage_pips :: flt
  or_timestamp :: "py_datetime option"

definition order_request_make :: "order_request \<Rightarrow> pyexn + order_request" where
  "order_request_make r =
     (if \<not> List.member [''buy'', ''sell''] (or_side r) then Inl ValueError
      else if or_size r \<le> 0 then Inl ValueError
      else if or_entry_price r \<le> 0 then Inl ValueError
      else if or_stop_loss_price r \<le> 0 then Inl ValueError
      else if or_risk_amount_usd r < 0 then Inl ValueError
      else if or_estimated_slippage_pips r < 0 then Inl ValueError
      else Inr r)"

record check_result =
  cr_allowed :: bool
  cr_reason :: string
  cr_adjusted_size :: "flt option"

record guardrail_engine =
  ge_config :: guardrail_config
  ge_starting_balance :: flt
  ge_current_balance :: flt
  ge_peak_balance :: flt
  ge_daily_pnl :: flt
  ge_total_pnl :: flt
  ge_open_positions :: int
  ge_daily_trade_count :: int
  ge_kill_switch_active :: bool
  ge_kill_switch_reason :: "string option"
  ge_blackout_windows :: "blackout_window list"
  ge_current_date :: day
  ge_daily_dd_limit_pct :: flt
  ge_total_dd_limit_pct :: flt

section \<open>Construction and queries\<close>

definition ge_init ::
  "flt \<Rightarrow> guardrail_config option \<Rightarrow> blackout_window list \<Rightarrow> py_datetime \<Rightarrow> pyexn + guardrail_engine" where
  "ge_init starting_balance cfg windows clock =
     (if starting_balance \<le> 0 then Inl ValueError
      else Inr
        \<lparr>ge_config = (case cfg of Some c \<Rightarrow> c | None \<Rightarrow> guardrail_config_default),
         ge_starting_balance = starting_balance, ge_current_balance = starting_balance,
         ge_peak_balance = starting_balance, ge_daily_pnl = 0, ge_total_pnl = 0, ge_open_positions = 0,
         ge_daily_trade_count = 0, ge_kill_switch_active = False, ge_kill_switch_reason = None,
         ge_blackout_windows = windows, ge_current_date = dt_day clock,
         ge_daily_dd_limit_pct = FTMO_DAILY_DD_LIMIT_PCT, ge_total_dd_limit_pct = FTMO_TOTAL_DD_LIMIT_PCT\<rparr>)"

definition ge_daily_dd_pct :: "guardrail_engine \<Rightarrow> flt" where
  "ge_daily_dd_pct g =
     (if ge_starting_balance g \<le> 0 then 0 else max 0 (- ge_daily_pnl g) / ge_starting_balance g)"

definition ge_total_dd_pct :: "guardrail_engine \<Rightarrow> flt" where
  "ge_total_dd_pct g =
     (if ge_peak_balance g \<le> 0 then 0
      else max 0 (ge_peak_balance g - ge_current_balance g) / ge_peak_balance g)"

section \<open>State updates\<close>

definition ge_maybe_reset_daily :: "py_datetime \<Rightarrow> guardrail_engine \<Rightarrow> guardrail_engine" where
  "ge_maybe_reset_daily ts g =
     (if ge_current_date g \<noteq> dt_day ts
      then g\<lparr>ge_current_date := dt_day ts, ge_daily_pnl := 0, ge_daily_trade_count := 0\<rparr> else g)"

definition ge_update_state ::
  "bool \<Rightarrow> flt \<Rightarrow> py_datetime option \<Rightarrow> py_datetime \<Rightarrow> guardrail_engine \<Rightarrow> guardrail_engine" where
  "ge_update_state position_closed pnl timestamp clock g =
     (let ts = dt_as_utc (case timestamp of Some t \<Rightarrow> t | None \<Rightarrow> clock);
          g1 = ge_maybe_reset_daily ts g;
          g2 = g1\<lparr>ge_daily_pnl := ge_daily_pnl g1 + pnl, ge_total_pnl := ge_total_pnl g1 + pnl,
                  ge_current_balance := ge_current_balance g1 + pnl\<rparr>;
          g3 = (if position_closed \<and> ge_open_positions g2 > 0
                then g2\<lparr>ge_open_positions := ge_open_positions g2 - 1\<rparr> else g2)
      in if ge_current_balance g3 > ge_peak_balance g3
         then g3\<lparr>ge_peak_balance := ge_current_balance g3\<rparr> else g3)"

definition ge_register_open_position :: "guardrail_engine \<Rightarrow> guardrail_engine" where
  "ge_register_open_position g =
     g\<lparr>ge_open_positions := ge_open_positions g + 1, ge_daily_trade_count := ge_daily_trade_count g + 1\<rparr>"

definition ge_reset_daily :: "py_datetime option \<Rightarrow> py_datetime \<Rightarrow> guardrail_engine \<Rightarrow> guardrail_engine" where
  "ge_reset_daily timestamp clock g =
     (let ts = dt_as_utc (case timestamp of Some t \<Rightarrow> t | None \<Rightarrow> clock)
      in g\<lparr>ge_daily_pnl := 0, ge_daily_trade_count := 0, ge_current_date := dt_day ts\<rparr>)"

definition ge_seed_daily_pnl :: "flt \<Rightarrow> guardrail_engine \<Rightarrow> guardrail_engine" where
  "ge_seed_daily_pnl pnl g =
     (let delta = pnl - ge_daily_pnl g;
          g1 = g\<lparr>ge_daily_pnl := pnl, ge_total_pnl := ge_total_pnl g + delta,
                 ge_current_balance := ge_current_balance g + delta\<rparr>
      in if ge_current_balance g1 > ge_peak_balance g1
         then g1\<lparr>ge_peak_balance := ge_current_balance g1\<rparr> else g1)"

definition ge_kill_switch :: "string \<Rightarrow> guardrail_engine \<Rightarrow> guardrail_engine" where
  "ge_kill_switch reason g = g\<lparr>ge_kill_switch_active := True, ge_kill_switch_reason := Some reason\<rparr>"

definition ge_reset_kill_switch :: "guardrail_engine \<Rightarrow> guardrail_engine" where
  "ge_reset_kill_switch g =
     (if \<not> ge_kill_switch_active g then g
      else g\<lparr>ge_kill_switch_active := False, ge_kill_switch_reason := None\<rparr>)"

definition ge_add_blackout_window :: "blackout_window \<Rightarrow> guardrail_engine \<Rightarrow> guardrail_engine" where
  "ge_add_blackout_window w g = g\<lparr>ge_blackout_windows := ge_blackout_windows g @ [w]\<rparr>"

definition ge_clear_blackout_windows :: "guardrail_engine \<Rightarrow> guardrail_engine" where
  "ge_clear_blackout_windows g = g\<lparr>ge_blackout_windows := []\<rparr>"

definition ge_is_in_blackout_at :: "py_datetime \<Rightarrow> guardrail_engine \<Rightarrow> bool" where
  "ge_is_in_blackout_at ts g = list_ex (\<lambda>w. bw_contains w ts) (ge_blackout_windows g)"

definition ge_blackout_at :: "py_datetime \<Rightarrow> guardrail_engine \<Rightarrow> blackout_window option" where
  "ge_blackout_at ts g = find (\<lambda>w. bw_contains w ts) (ge_blackout_windows g)"

definition ge_is_in_blackout :: "py_datetime option \<Rightarrow> py_datetime \<Rightarrow> guardrail_engine \<Rightarrow> bool" where
  "ge_is_in_blackout timestamp clock g =
     (let ts = dt_as_utc (case timestamp of Some t \<Rightarrow> t | None \<Rightarrow> clock)
      in list_ex (\<lambda>w. bw_contains w ts) (ge_blackout_windows g))"

section \<open>The pre-trade check\<close>

definition reject :: "reject_reason \<Rightarrow> check_result" where
  "reject r = \<lparr>cr_allowed = False, cr_reason = reject_value r, cr_adjusted_size = None\<rparr>"

definition EPS :: flt where "EPS = 1/1000000000"

text \<open>Steps 1 to 10, on the state after the daily reset.\<close>

definition ge_check_steps :: "py_datetime \<Rightarrow> order_request \<Rightarrow> guardrail_engine \<Rightarrow> check_result" where
  "ge_check_steps ts r g =
     (let c = ge_config g; total_dd = ge_total_dd_pct g; daily_dd = ge_daily_dd_pct g;
          per_trade_max_usd = ge_current_balance g * gc_per_trade_risk_pct c;
          projected = ge_daily_dd_pct g + or_risk_amount_usd r / ge_starting_balance g
      in if ge_kill_switch_active g then reject KILL_SWITCH_ACTIVE
         else if ge_is_in_blackout_at ts g then reject BLACKOUT_WINDOW
         else if total_dd > ge_total_dd_limit_pct g then reject TOTAL_DD_BREACH
         else if total_dd > gc_total_dd_stop_threshold c then reject TOTAL_DD_BREACH
         else if daily_dd > gc_daily_dd_stop_threshold c then reject DAILY_DD_STOP
         else if ge_open_positions g \<ge> gc_max_concurrent_positions c then reject MAX_CONCURRENT
         else if or_estimated_slippage_pips r > gc_slippage_threshold_pips c then reject SLIPPAGE
         else if or_risk_amount_usd r > per_trade_max_usd then reject PER_TRADE_RISK
         else if projected > ge_daily_dd_limit_pct g + EPS then reject DAILY_DD_STOP
         else if daily_dd > gc_daily_dd_scale_threshold c then
           (let scaled_risk = or_risk_amount_usd r / 2; scaled_size = or_size r * (1/2);
                per_trade_max_usd_scaled = ge_current_balance g * gc_per_trade_risk_pct c
            in if scaled_risk > per_trade_max_usd_scaled then reject PER_TRADE_RISK
               else \<lparr>cr_allowed = True, cr_reason = ''ok'', cr_adjusted_size = Some scaled_size\<rparr>)
         else \<lparr>cr_allowed = True, cr_reason = ''ok'', cr_adjusted_size = None\<rparr>)"

definition ge_check_order ::
  "order_request \<Rightarrow> py_datetime option \<Rightarrow> py_datetime \<Rightarrow> guardrail_engine \<Rightarrow> check_result \<times> guardrail_engine" where
  "ge_check_order r timestamp clock g =
     (let ts = dt_as_utc (case timestamp of Some t \<Rightarrow> t
                          | None \<Rightarrow> (case or_timestamp r of Some t \<Rightarrow> t | None \<Rightarrow> clock));
          g1 = ge_maybe_reset_daily ts g
      in (ge_check_steps ts r g1, g1))"

definition build_ftmo1step_guardrail :: "flt \<Rightarrow> blackout_window list \<Rightarrow> py_datetime \<Rightarrow> pyexn + guardrail_engine" where
  "build_ftmo1step_guardrail starting_balance windows clock =
     ge_init starting_balance (Some guardrail_config_default) windows clock"

definition ge_get_status :: "guardrail_engine \<Rightarrow> (string \<times> pyv) list" where
  "ge_get_status g =
     [(''starting_balance'', PFloat (ge_starting_balance g)), (''current_balance'', PFloat (ge_current_balance g)),
      (''peak_balance'', PFloat (ge_peak_balance g)), (''daily_pnl'', PFloat (ge_daily_pnl g)),
      (''total_pnl'', PFloat (ge_total_pnl g)), (''daily_dd_pct'', PFloat (ge_daily_dd_pct g)),
      (''total_dd_pct'', PFloat (ge_total_dd_pct g)), (''open_positions'', PInt (ge_open_positions g)),
      (''daily_trade_count'', PInt (ge_daily_trade_count g)),
      (''kill_switch_active'', PBool (ge_kill_switch_active g)),
      (''kill_switch_reason'', case ge_kill_switch_reason g of None \<Rightarrow> PNone | Some r \<Rightarrow> pstr r),
      (''ftmo_daily_dd_limit_pct'', PFloat (ge_daily_dd_limit_pct g)),
      (''ftmo_total_dd_limit_pct'', PFloat (ge_total_dd_limit_pct g)),
      (''config'', PDict
        [(''max_concurrent_positions'', PInt (gc_max_concurrent_positions (ge_config g))),
         (''per_trade_risk_pct'', PFloat (gc_per_trade_risk_pct (ge_config g))),
         (''slippage_threshold_pips'', PFloat (gc_slippage_threshold_pips (ge_config g))),
         (''daily_dd_scale_threshold'', PFloat (gc_daily_dd_scale_threshold (ge_config g))),
         (''daily_dd_stop_threshold'', PFloat (gc_daily_dd_stop_threshold (ge_config g))),
         (''total_dd_stop_threshold'', PFloat (gc_total_dd_stop_threshold (ge_config g)))])]"

section \<open>Well-formed engines\<close>

text \<open>Arguments that passed their constructor.\<close>

abbreviation config_valid :: "guardrail_config \<Rightarrow> bool" where
  "config_valid c \<equiv> guardrail_config_make c = Inr c"

abbreviation order_valid :: "order_request \<Rightarrow> bool" where
  "order_valid r \<equiv> order_request_make r = Inr r"

lemma config_valid_bounds:
  assumes "config_valid c"
  shows "1 \<le> gc_max_concurrent_positions c" "0 < gc_per_trade_risk_pct c"
    "0 < gc_daily_dd_scale_threshold c" "gc_daily_dd_scale_threshold c < gc_daily_dd_stop_threshold c"
    "gc_daily_dd_stop_threshold c \<le> FTMO_DAILY_DD_LIMIT_PCT"
    "gc_total_dd_stop_threshold c \<le> FTMO_TOTAL_DD_LIMIT_PCT"
  using assms by (auto simp: guardrail_config_make_def split: if_splits)

lemma config_default_valid: "config_valid guardrail_config_default"
  by (simp add: guardrail_config_make_def guardrail_config_default_def ftmo_params)

lemma order_valid_bounds:
  assumes "order_valid r"
  shows "0 < or_size r" "0 \<le> or_risk_amount_usd r"
  using assms by (auto simp: order_request_make_def split: if_splits)

text \<open>The books of the engine: its limits are the locked ones and its balances fit together.\<close>

definition ge_wf :: "guardrail_engine \<Rightarrow> bool" where
  "ge_wf g \<longleftrightarrow>
     0 < ge_starting_balance g \<and> ge_daily_dd_limit_pct g = FTMO_DAILY_DD_LIMIT_PCT \<and>
     ge_total_dd_limit_pct g = FTMO_TOTAL_DD_LIMIT_PCT \<and>
     ge_current_balance g = ge_starting_balance g + ge_total_pnl g \<and>
     ge_current_balance g \<le> ge_peak_balance g \<and> ge_starting_balance g \<le> ge_peak_balance g \<and>
     0 \<le> ge_open_positions g"

lemma ge_wfD:
  assumes "ge_wf g"
  shows "0 < ge_starting_balance g" "ge_daily_dd_limit_pct g = FTMO_DAILY_DD_LIMIT_PCT"
    "ge_total_dd_limit_pct g = FTMO_TOTAL_DD_LIMIT_PCT" "0 < ge_peak_balance g"
    "ge_current_balance g \<le> ge_peak_balance g"
  using assms by (auto simp: ge_wf_def)

datatype ge_event =
    GCheck order_request "py_datetime option"
  | GClose bool flt "py_datetime option"
  | GOpen
  | GResetDaily "py_datetime option"
  | GSeed flt
  | GKill string
  | GResetKill
  | GAddWindow blackout_window
  | GClearWindows

fun ge_step :: "guardrail_engine \<Rightarrow> py_datetime \<times> ge_event \<Rightarrow> guardrail_engine" where
  "ge_step g (clock, GCheck r ts) = snd (ge_check_order r ts clock g)"
| "ge_step g (clock, GClose c pnl ts) = ge_update_state c pnl ts clock g"
| "ge_step g (clock, GOpen) = ge_register_open_position g"
| "ge_step g (clock, GResetDaily ts) = ge_reset_daily ts clock g"
| "ge_step g (clock, GSeed pnl) = ge_seed_daily_pnl pnl g"
| "ge_step g (clock, GKill reason) = ge_kill_switch reason g"
| "ge_step g (clock, GResetKill) = ge_reset_kill_switch g"
| "ge_step g (clock, GAddWindow w) = ge_add_blackout_window w g"
| "ge_step g (clock, GClearWindows) = ge_clear_blackout_windows g"

lemmas ge_op_defs = ge_maybe_reset_daily_def ge_update_state_def ge_register_open_position_def ge_reset_daily_def
  ge_seed_daily_pnl_def ge_kill_switch_def ge_reset_kill_switch_def ge_add_blackout_window_def
  ge_clear_blackout_windows_def ge_check_order_def

lemma ge_step_wf: "ge_wf g \<Longrightarrow> ge_wf (ge_step g (clock, e))"
  by (cases e) (auto simp: ge_op_defs ge_wf_def Let_def)

lemma ge_step_config: "ge_config (ge_step g (clock, e)) = ge_config g"
  by (cases e) (auto simp: ge_op_defs Let_def)

interpretation guardrail: invariant_machine ge_step "\<lambda>_. True" ge_wf
  by unfold_locales (metis ge_step_wf prod.collapse)

lemma ge_init_wf: "ge_init start cfg ws clock = Inr g \<Longrightarrow> ge_wf g"
  by (auto simp: ge_init_def ge_wf_def split: if_splits)

lemma maybe_reset_wf: "ge_wf g \<Longrightarrow> ge_wf (ge_maybe_reset_daily ts g)"
  by (auto simp: ge_maybe_reset_daily_def ge_wf_def)

lemma maybe_reset_simps [simp]:
  "ge_config (ge_maybe_reset_daily ts g) = ge_config g"
  "ge_starting_balance (ge_maybe_reset_daily ts g) = ge_starting_balance g"
  "ge_kill_switch_active (ge_maybe_reset_daily ts g) = ge_kill_switch_active g"
  "ge_open_positions (ge_maybe_reset_daily ts g) = ge_open_positions g"
  "ge_current_date (ge_maybe_reset_daily ts g) = dt_day ts"
  by (auto simp: ge_maybe_reset_daily_def)

text \<open>
  Over any sequence of operations at any times the books stay in order: the locked limits are the
  FTMO ones, the balance is the starting balance plus the total profit, the peak bounds both, the
  number of open positions is never negative, and the drawdowns are fractions that are not negative.
\<close>

theorem guardrail_run_invariant:
  assumes "ge_init start cfg ws clock = Inr g0" and "g = foldl ge_step g0 es"
  shows "ge_wf g \<and> 0 \<le> ge_daily_dd_pct g \<and> 0 \<le> ge_total_dd_pct g \<and>
     (0 \<le> ge_current_balance g \<longrightarrow> ge_total_dd_pct g \<le> 1)"
proof -
  have "ge_wf g" unfolding assms(2)
    by (rule guardrail.run_inv[OF ge_init_wf[OF assms(1)]]) (simp add: list_all_iff)
  then show ?thesis
    by (auto simp: ge_daily_dd_pct_def ge_total_dd_pct_def ge_wf_def field_simps)
qed

definition demo_clock :: py_datetime where "demo_clock = Aware (20000 * day_us) 0"

definition demo_guardrail :: guardrail_engine where
  "demo_guardrail =
     \<lparr>ge_config = guardrail_config_default, ge_starting_balance = 10000, ge_current_balance = 10000,
      ge_peak_balance = 10000, ge_daily_pnl = 0, ge_total_pnl = 0, ge_open_positions = 0, ge_daily_trade_count = 0,
      ge_kill_switch_active = False, ge_kill_switch_reason = None, ge_blackout_windows = [], ge_current_date = 20000,
      ge_daily_dd_limit_pct = FTMO_DAILY_DD_LIMIT_PCT, ge_total_dd_limit_pct = FTMO_TOTAL_DD_LIMIT_PCT\<rparr>"

lemma demo_guardrail_init: "build_ftmo1step_guardrail 10000 [] demo_clock = Inr demo_guardrail"
  by (simp add: build_ftmo1step_guardrail_def ge_init_def demo_guardrail_def demo_clock_def)

theorem guardrail_run_invariant_witness:
  "ge_wf (foldl ge_step demo_guardrail [(demo_clock, GOpen), (demo_clock, GClose True (- 50) None)])"
  using guardrail_run_invariant[OF demo_guardrail_init[unfolded build_ftmo1step_guardrail_def] refl] by blast

section \<open>The decision of the check\<close>

definition check_time :: "order_request \<Rightarrow> py_datetime option \<Rightarrow> py_datetime \<Rightarrow> py_datetime" where
  "check_time r timestamp clock =
     dt_as_utc (case timestamp of Some t \<Rightarrow> t | None \<Rightarrow> (case or_timestamp r of Some t \<Rightarrow> t | None \<Rightarrow> clock))"

lemma check_order_unfold:
  "ge_check_order r timestamp clock g =
     (let g1 = ge_maybe_reset_daily (check_time r timestamp clock) g
      in (ge_check_steps (check_time r timestamp clock) r g1, g1))"
  by (simp add: ge_check_order_def check_time_def Let_def)

text \<open>What an order has to satisfy, all conditions at once.\<close>

definition within_limits :: "py_datetime \<Rightarrow> order_request \<Rightarrow> guardrail_engine \<Rightarrow> bool" where
  "within_limits ts r g \<longleftrightarrow>
     \<not> ge_kill_switch_active g \<and> (\<forall>w \<in> set (ge_blackout_windows g). \<not> bw_contains w ts) \<and>
     ge_total_dd_pct g \<le> gc_total_dd_stop_threshold (ge_config g) \<and>
     ge_daily_dd_pct g \<le> gc_daily_dd_stop_threshold (ge_config g) \<and>
     ge_open_positions g < gc_max_concurrent_positions (ge_config g) \<and>
     or_estimated_slippage_pips r \<le> gc_slippage_threshold_pips (ge_config g) \<and>
     or_risk_amount_usd r \<le> ge_current_balance g * gc_per_trade_risk_pct (ge_config g) \<and>
     ge_daily_dd_pct g + or_risk_amount_usd r / ge_starting_balance g \<le> FTMO_DAILY_DD_LIMIT_PCT + EPS"

lemma check_steps_spec:
  assumes "ge_wf g" and "config_valid (ge_config g)" and "0 \<le> or_risk_amount_usd r"
  shows "cr_allowed (ge_check_steps ts r g) \<longleftrightarrow> within_limits ts r g"
    and "within_limits ts r g \<Longrightarrow> cr_adjusted_size (ge_check_steps ts r g) =
      (if ge_daily_dd_pct g > gc_daily_dd_scale_threshold (ge_config g) then Some (or_size r / 2) else None)"
    and "\<not> within_limits ts r g \<Longrightarrow> cr_adjusted_size (ge_check_steps ts r g) = None"
proof -
  have half: "or_risk_amount_usd r / 2 \<le> or_risk_amount_usd r" using assms(3) by simp
  have stop: "gc_total_dd_stop_threshold (ge_config g) \<le> ge_total_dd_limit_pct g"
    using config_valid_bounds(6)[OF assms(2)] ge_wfD(3)[OF assms(1)] by simp
  note defs = ge_check_steps_def within_limits_def reject_def Let_def ge_is_in_blackout_at_def list_ex_iff
    ge_wfD(2)[OF assms(1)]
  show "cr_allowed (ge_check_steps ts r g) \<longleftrightarrow> within_limits ts r g"
    using half stop by (auto simp: defs)
  show "within_limits ts r g \<Longrightarrow> cr_adjusted_size (ge_check_steps ts r g) =
      (if ge_daily_dd_pct g > gc_daily_dd_scale_threshold (ge_config g) then Some (or_size r / 2) else None)"
    using half stop by (auto simp: defs)
  show "\<not> within_limits ts r g \<Longrightarrow> cr_adjusted_size (ge_check_steps ts r g) = None"
    using half by (auto simp: defs)
qed

lemma order_verdict:
  assumes "ge_wf g" and "config_valid (ge_config g)" and "order_valid r"
    and "ge_check_order r timestamp clock g = (res, g1)"
  shows "(cr_allowed res \<longleftrightarrow> within_limits (check_time r timestamp clock) r g1) \<and>
     cr_adjusted_size res =
       (if cr_allowed res \<and> ge_daily_dd_pct g1 > gc_daily_dd_scale_threshold (ge_config g1)
        then Some (or_size r / 2) else None)"
proof -
  have g1: "g1 = ge_maybe_reset_daily (check_time r timestamp clock) g"
    and res: "res = ge_check_steps (check_time r timestamp clock) r g1"
    using assms(4) by (auto simp: check_order_unfold Let_def)
  have "ge_wf g1" "config_valid (ge_config g1)"
    using assms(1,2) by (auto simp: g1 maybe_reset_wf)
  note spec = check_steps_spec[OF this order_valid_bounds(2)[OF assms(3)], folded res]
  show ?thesis using spec by (cases "within_limits (check_time r timestamp clock) r g1") (simp_all add: res)
qed

text \<open>
  C18. The verdict of the pre-trade check, for a valid configuration and order on an engine in order: after
  the daily reset the order is allowed exactly when no kill switch or blackout is on, both
  drawdowns are at most their stop thresholds, a slot is free, the slippage and the risk are within
  their caps, and the projected daily drawdown is at most 3 percent (plus the epsilon); the
  size is halved exactly above the scale threshold. The hard 10 percent check and the check of the
  halved risk never decide.
\<close>

theorem guardrail_check_iff:
  assumes "ge_wf g" and "config_valid (ge_config g)" and "order_valid r"
    and "ge_check_order r timestamp clock g = (res, g1)"
  shows "(cr_allowed res \<longleftrightarrow> within_limits (check_time r timestamp clock) r g1) \<and>
     cr_adjusted_size res =
       (if cr_allowed res \<and> ge_daily_dd_pct g1 > gc_daily_dd_scale_threshold (ge_config g1)
        then Some (or_size r / 2) else None)"
  using assms by (rule order_verdict)

definition demo_order :: order_request where
  "demo_order =
     \<lparr>or_symbol = ''EURUSD'', or_side = ''buy'', or_size = 2/10, or_entry_price = 11/10, or_stop_loss_price = 109/100,
      or_risk_amount_usd = 48, or_estimated_slippage_pips = 1, or_timestamp = None\<rparr>"

lemma demo_order_valid: "order_valid demo_order"
  by (simp add: order_request_make_def demo_order_def)

lemmas demo_guardrail_simps = demo_guardrail_def demo_order_def demo_clock_def guardrail_config_default_def
  within_limits_def check_time_def ge_maybe_reset_daily_def ge_daily_dd_pct_def ge_total_dd_pct_def ftmo_params EPS_def

text \<open>An engine with a loss of 2.4 percent today.\<close>

definition tired_guardrail :: guardrail_engine where
  "tired_guardrail = ge_seed_daily_pnl (- 240) demo_guardrail"

lemma tired_guardrail_eq:
  "tired_guardrail =
     demo_guardrail\<lparr>ge_daily_pnl := - 240, ge_total_pnl := - 240, ge_current_balance := 9760\<rparr>"
  by (simp add: tired_guardrail_def ge_seed_daily_pnl_def demo_guardrail_def Let_def)

lemma tired_guardrail_wf: "ge_wf tired_guardrail \<and> config_valid (ge_config tired_guardrail)"
  using config_default_valid by (simp add: tired_guardrail_eq ge_wf_def demo_guardrail_def)

lemma tired_check:
  "ge_check_order demo_order None demo_clock tired_guardrail =
     (fst (ge_check_order demo_order None demo_clock tired_guardrail), tired_guardrail)"
  by (simp add: check_order_unfold tired_guardrail_eq demo_guardrail_simps Let_def)

theorem guardrail_check_iff_witness:
  "cr_allowed (fst (ge_check_order demo_order None demo_clock tired_guardrail)) \<and>
     cr_adjusted_size (fst (ge_check_order demo_order None demo_clock tired_guardrail)) = Some (1/10)"
proof -
  have w: "within_limits (check_time demo_order None demo_clock) demo_order tired_guardrail"
    by (simp add: tired_guardrail_eq demo_guardrail_simps)
  show ?thesis
    using guardrail_check_iff[OF _ _ demo_order_valid tired_check] tired_guardrail_wf w
    by (simp add: tired_guardrail_eq demo_guardrail_simps)
qed

section \<open>The kill switch\<close>

fun not_reset_kill :: "py_datetime \<times> ge_event \<Rightarrow> bool" where
  "not_reset_kill (clock, GResetKill) = False"
| "not_reset_kill _ = True"

interpretation guardrail_kill: invariant_machine ge_step not_reset_kill ge_kill_switch_active
proof
  fix g :: guardrail_engine and e assume "ge_kill_switch_active g" and "not_reset_kill e"
  then show "ge_kill_switch_active (ge_step g e)"
    by (cases "(g, e)" rule: ge_step.cases) (auto simp: ge_op_defs Let_def)
qed

text \<open>
  The kill switch latches: after it was activated, over any operations at any times other than its
  explicit reset, every order is refused with its reason, a daily reset and a recovered drawdown
  notwithstanding.
\<close>

theorem guardrail_kill_latches:
  assumes "list_all not_reset_kill es"
  shows "fst (ge_check_order r timestamp clock (foldl ge_step (ge_kill_switch reason g) es)) = reject KILL_SWITCH_ACTIVE"
proof -
  have "ge_kill_switch_active (foldl ge_step (ge_kill_switch reason g) es)"
    by (rule guardrail_kill.run_inv[OF _ assms]) (simp add: ge_kill_switch_def)
  then show ?thesis by (simp add: check_order_unfold ge_check_steps_def Let_def)
qed

theorem guardrail_kill_latches_witness:
  "fst (ge_check_order demo_order None demo_clock
     (foldl ge_step (ge_kill_switch ''manual'' demo_guardrail) [(demo_clock, GResetDaily None)])) = reject KILL_SWITCH_ACTIVE"
  by (rule guardrail_kill_latches) simp

section \<open>The daily loss limit\<close>

text \<open>
  A trade as the module's usage has it: the order is checked, sent only when allowed, and later
  closed with its profit or loss, at times of the caller's choice.
\<close>

record guarded_trade =
  gt_order :: order_request
  gt_open_time :: py_datetime
  gt_close_time :: py_datetime
  gt_pnl :: flt

definition run_trade :: "guardrail_engine \<Rightarrow> guarded_trade \<Rightarrow> guardrail_engine" where
  "run_trade g t =
     (case ge_check_order (gt_order t) (Some (gt_open_time t)) (gt_open_time t) g of
        (res, g1) \<Rightarrow>
          if cr_allowed res
          then ge_update_state True (gt_pnl t) (Some (gt_close_time t)) (gt_close_time t) (ge_register_open_position g1)
          else g1)"

definition bounded_loss :: "guarded_trade \<Rightarrow> bool" where
  "bounded_loss t \<longleftrightarrow> order_valid (gt_order t) \<and> - or_risk_amount_usd (gt_order t) \<le> gt_pnl t"

definition daily_loss_bounded :: "guardrail_engine \<Rightarrow> bool" where
  "daily_loss_bounded g \<longleftrightarrow>
     ge_wf g \<and> config_valid (ge_config g) \<and> ge_daily_dd_pct g \<le> FTMO_DAILY_DD_LIMIT_PCT + EPS"

lemma daily_dd_pct_le:
  assumes "0 < ge_starting_balance g" and "0 \<le> x"
  shows "ge_daily_dd_pct g \<le> x \<longleftrightarrow> - ge_daily_pnl g \<le> x * ge_starting_balance g"
proof -
  have "0 \<le> x * ge_starting_balance g" using assms by simp
  then show ?thesis using assms by (simp add: ge_daily_dd_pct_def pos_divide_le_eq)
qed

lemma dd_nonneg: "0 \<le> ge_daily_dd_pct g"
  by (simp add: ge_daily_dd_pct_def)

lemma limit_nonneg: "0 \<le> FTMO_DAILY_DD_LIMIT_PCT + EPS"
  by (simp add: ftmo_params EPS_def)

lemma maybe_reset_daily_bounded: "daily_loss_bounded g \<Longrightarrow> daily_loss_bounded (ge_maybe_reset_daily ts g)"
  using limit_nonneg by (auto simp: daily_loss_bounded_def maybe_reset_wf)
    (auto simp: ge_maybe_reset_daily_def ge_daily_dd_pct_def)

lemma update_state_daily_bounded:
  assumes "daily_loss_bounded g" and "0 \<le> risk" and "- risk \<le> pnl"
    and "ge_daily_dd_pct g + risk / ge_starting_balance g \<le> FTMO_DAILY_DD_LIMIT_PCT + EPS"
  shows "daily_loss_bounded (ge_update_state True pnl (Some t) clock (ge_register_open_position g))"
proof -
  let ?g = "ge_maybe_reset_daily (dt_as_utc t) (ge_register_open_position g)"
  let ?u = "ge_update_state True pnl (Some t) clock (ge_register_open_position g)"
  have wf: "ge_wf g" "config_valid (ge_config g)" using assms(1) by (auto simp: daily_loss_bounded_def)
  have pos: "0 < ge_starting_balance g" using wf(1) by (simp add: ge_wf_def)
  have "ge_wf (ge_step (ge_step g (clock, GOpen)) (clock, GClose True pnl (Some t)))"
    by (intro ge_step_wf wf(1))
  then have u: "ge_wf ?u" by simp
  have "- ge_daily_pnl g / ge_starting_balance g \<le> ge_daily_dd_pct g"
    using pos by (simp add: ge_daily_dd_pct_def divide_right_mono del: divide_minus_left)
  then have "- ge_daily_pnl g / ge_starting_balance g + risk / ge_starting_balance g \<le> FTMO_DAILY_DD_LIMIT_PCT + EPS"
    using assms(4) by linarith
  then have le: "- ge_daily_pnl g + risk \<le> (FTMO_DAILY_DD_LIMIT_PCT + EPS) * ge_starting_balance g"
    using pos by (simp add: field_simps)
  have "risk / ge_starting_balance g \<le> FTMO_DAILY_DD_LIMIT_PCT + EPS"
    using assms(4) dd_nonneg[of g] by linarith
  then have lr: "risk \<le> (FTMO_DAILY_DD_LIMIT_PCT + EPS) * ge_starting_balance g"
    using pos by (simp add: pos_divide_le_eq)
  have "- ge_daily_pnl ?u \<le> (FTMO_DAILY_DD_LIMIT_PCT + EPS) * ge_starting_balance ?u"
    using le lr assms(3)
    by (auto simp: ge_update_state_def ge_maybe_reset_daily_def ge_register_open_position_def Let_def)
  moreover have "ge_starting_balance ?u = ge_starting_balance g" "ge_config ?u = ge_config g"
    by (auto simp: ge_update_state_def ge_register_open_position_def Let_def)
  ultimately show ?thesis
    using u wf(2) pos by (simp add: daily_loss_bounded_def daily_dd_pct_le[OF _ limit_nonneg])
qed

lemma run_trade_bounded:
  assumes "daily_loss_bounded g" and "bounded_loss t"
  shows "daily_loss_bounded (run_trade g t)"
proof -
  let ?ts = "check_time (gt_order t) (Some (gt_open_time t)) (gt_open_time t)"
  let ?g = "ge_maybe_reset_daily ?ts g"
  have g1: "daily_loss_bounded ?g" using assms(1) by (rule maybe_reset_daily_bounded)
  have r: "0 \<le> or_risk_amount_usd (gt_order t)" "- or_risk_amount_usd (gt_order t) \<le> gt_pnl t"
    using assms(2) order_valid_bounds(2) by (auto simp: bounded_loss_def)
  show ?thesis
  proof (cases "cr_allowed (ge_check_steps ?ts (gt_order t) ?g)")
    case True
    then have "within_limits ?ts (gt_order t) ?g"
      using check_steps_spec(1)[OF _ _ r(1)] g1 by (simp add: daily_loss_bounded_def)
    then have "ge_daily_dd_pct ?g + or_risk_amount_usd (gt_order t) / ge_starting_balance ?g
        \<le> FTMO_DAILY_DD_LIMIT_PCT + EPS" by (simp add: within_limits_def)
    from update_state_daily_bounded[OF g1 r this] True show ?thesis
      by (simp add: run_trade_def check_order_unfold Let_def)
  next
    case False
    with g1 show ?thesis by (simp add: run_trade_def check_order_unfold Let_def)
  qed
qed

interpretation daily_limit: invariant_machine run_trade bounded_loss daily_loss_bounded
  by unfold_locales (rule run_trade_bounded)

text \<open>
  C4. The purpose of the engine: when each trade is closed before the next one is checked and none loses
  more than the risk stated in its order, the daily drawdown never exceeds the FTMO limit of 3
  percent (plus the epsilon), whatever the trades, their dates and the valid configuration.
\<close>

theorem guardrail_sequential_daily_limit:
  assumes "ge_init start cfg ws clock = Inr g" and "config_valid (ge_config g)" and "list_all bounded_loss ts"
  shows "ge_daily_dd_pct (foldl run_trade g ts) \<le> FTMO_DAILY_DD_LIMIT_PCT + EPS"
proof -
  have "ge_daily_dd_pct g = 0" using assms(1) by (auto simp: ge_init_def ge_daily_dd_pct_def split: if_splits)
  then have "daily_loss_bounded g"
    using ge_init_wf[OF assms(1)] assms(2) limit_nonneg by (simp add: daily_loss_bounded_def)
  then have "daily_loss_bounded (foldl run_trade g ts)" using assms(3) by (rule daily_limit.run_inv)
  then show ?thesis by (simp add: daily_loss_bounded_def)
qed

theorem guardrail_sequential_daily_limit_witness:
  "ge_daily_dd_pct (foldl run_trade demo_guardrail
     [\<lparr>gt_order = demo_order, gt_open_time = demo_clock, gt_close_time = demo_clock, gt_pnl = - 48\<rparr>])
   \<le> FTMO_DAILY_DD_LIMIT_PCT + EPS"
proof (rule guardrail_sequential_daily_limit[OF demo_guardrail_init[unfolded build_ftmo1step_guardrail_def]])
  show "config_valid (ge_config demo_guardrail)" using config_default_valid by (simp add: demo_guardrail_def)
  show "list_all bounded_loss
      [\<lparr>gt_order = demo_order, gt_open_time = demo_clock, gt_close_time = demo_clock, gt_pnl = - 48\<rparr>]"
    using demo_order_valid by (simp add: bounded_loss_def demo_order_def)
qed

text \<open>The order registered \<open>k\<close> times, then every position closed at its full risk.\<close>

definition open_then_lose :: "nat \<Rightarrow> order_request \<Rightarrow> py_datetime \<Rightarrow> guardrail_engine \<Rightarrow> guardrail_engine" where
  "open_then_lose k r ts g =
     (ge_update_state True (- or_risk_amount_usd r) (Some ts) ts ^^ k) ((ge_register_open_position ^^ k) g)"

lemma register_simps [simp]:
  "ge_config ((ge_register_open_position ^^ j) g) = ge_config g"
  "ge_starting_balance ((ge_register_open_position ^^ j) g) = ge_starting_balance g"
  "ge_current_balance ((ge_register_open_position ^^ j) g) = ge_current_balance g"
  "ge_peak_balance ((ge_register_open_position ^^ j) g) = ge_peak_balance g"
  "ge_daily_pnl ((ge_register_open_position ^^ j) g) = ge_daily_pnl g"
  "ge_current_date ((ge_register_open_position ^^ j) g) = ge_current_date g"
  "ge_kill_switch_active ((ge_register_open_position ^^ j) g) = ge_kill_switch_active g"
  "ge_blackout_windows ((ge_register_open_position ^^ j) g) = ge_blackout_windows g"
  "ge_open_positions ((ge_register_open_position ^^ j) g) = ge_open_positions g + int j"
  by (induction j) (auto simp: ge_register_open_position_def)

lemma open_register_wf: "ge_wf g \<Longrightarrow> ge_wf ((ge_register_open_position ^^ j) g)"
  by (induction j) (auto simp: ge_register_open_position_def ge_wf_def)

lemma losing_closes:
  assumes "ge_current_date g = dt_day ts"
  shows "ge_daily_pnl ((ge_update_state True x (Some ts) ts ^^ k) g) = ge_daily_pnl g + of_nat k * x \<and>
     ge_current_date ((ge_update_state True x (Some ts) ts ^^ k) g) = dt_day ts"
  using assms by (induction k) (auto simp: ge_update_state_def ge_maybe_reset_daily_def Let_def algebra_simps)

text \<open>
  The bound needs that order of events. The projection counts the risk of the order alone and not the
  risk of the positions already open, so as long as slots are free the same order is allowed again and
  again, and when all these positions lose their risk the daily loss is the sum.
\<close>

theorem guardrail_open_risk_ignored:
  assumes "ge_wf g" and "config_valid (ge_config g)" and "order_valid r"
    and "ge_check_order r (Some ts) ts g = (res, g1)" and "cr_allowed res"
    and "ge_open_positions g + int k \<le> gc_max_concurrent_positions (ge_config g)" and "j < k"
  shows "cr_allowed (fst (ge_check_order r (Some ts) ts ((ge_register_open_position ^^ j) g1))) \<and>
     ge_daily_pnl (open_then_lose k r ts g1) = ge_daily_pnl g1 - of_nat k * or_risk_amount_usd r"
proof -
  let ?ts = "check_time r (Some ts) ts"
  let ?gj = "(ge_register_open_position ^^ j) g1"
  have g1: "g1 = ge_maybe_reset_daily ?ts g" using assms(4) by (simp add: check_order_unfold Let_def)
  have day: "dt_day ?ts = dt_day ts" by (simp add: check_time_def)
  have wf: "ge_wf g1" "config_valid (ge_config g1)" using assms(1,2) by (simp_all add: g1 maybe_reset_wf)
  have w: "within_limits ?ts r g1" using order_verdict[OF assms(1-4)] assms(5) by blast
  have "ge_maybe_reset_daily ?ts ?gj = ?gj" by (simp add: ge_maybe_reset_daily_def g1)
  moreover have "within_limits ?ts r ?gj"
    using w assms(6,7) unfolding within_limits_def
    by (auto simp: ge_daily_dd_pct_def ge_total_dd_pct_def g1)
  ultimately have "cr_allowed (fst (ge_check_order r (Some ts) ts ?gj))"
    using check_steps_spec(1)[OF open_register_wf[OF wf(1)] _ order_valid_bounds(2)[OF assms(3)]] wf(2)
    by (simp add: check_order_unfold Let_def)
  moreover have "ge_current_date g1 = dt_day ts" by (simp add: g1 day)
  ultimately show ?thesis
    using losing_closes[of "(ge_register_open_position ^^ k) g1" ts k "- or_risk_amount_usd r"]
    by (simp add: open_then_lose_def)
qed

text \<open>
  With the default limits: at a loss of 2.4 percent the third of three orders of 48 dollars is still allowed, and
  when all three lose exactly their stated risk the daily drawdown is 3.84 percent.
\<close>

theorem guardrail_open_risk_ignored_witness:
  "cr_allowed (fst (ge_check_order demo_order (Some demo_clock) demo_clock
      ((ge_register_open_position ^^ 2) tired_guardrail))) \<and>
   FTMO_DAILY_DD_LIMIT_PCT < - ge_daily_pnl (open_then_lose 3 demo_order demo_clock tired_guardrail) / 10000"
proof -
  have chk: "ge_check_order demo_order (Some demo_clock) demo_clock tired_guardrail =
      (fst (ge_check_order demo_order (Some demo_clock) demo_clock tired_guardrail), tired_guardrail)"
    by (simp add: check_order_unfold tired_guardrail_eq demo_guardrail_simps Let_def)
  have ok: "cr_allowed (fst (ge_check_order demo_order (Some demo_clock) demo_clock tired_guardrail))"
    by (simp add: check_order_unfold tired_guardrail_eq demo_guardrail_simps Let_def ge_check_steps_def reject_def
        ge_is_in_blackout_at_def)
  have slots: "ge_open_positions tired_guardrail + int 3 \<le> gc_max_concurrent_positions (ge_config tired_guardrail)"
    by (simp add: tired_guardrail_eq demo_guardrail_def guardrail_config_default_def)
  note claim = guardrail_open_risk_ignored[OF _ _ demo_order_valid chk ok slots]
  have "cr_allowed (fst (ge_check_order demo_order (Some demo_clock) demo_clock
      ((ge_register_open_position ^^ 2) tired_guardrail)))"
    using claim[of 2] tired_guardrail_wf by simp
  moreover have "ge_daily_pnl (open_then_lose 3 demo_order demo_clock tired_guardrail) =
      ge_daily_pnl tired_guardrail - of_nat 3 * or_risk_amount_usd demo_order"
    using claim[of 0] tired_guardrail_wf by simp
  ultimately show ?thesis by (simp add: tired_guardrail_eq demo_order_def ftmo_params)
qed

text \<open>
  The daily loss is kept for one date only, and any other date replaces it, an earlier one too: on an
  engine stopped for the day, the check of an order stamped with another date (say yesterday's
  signal, or the same instant in another zone) forgets the day's loss, and the next order of the
  day is judged as if nothing had been lost.
\<close>

theorem guardrail_other_date_forgets_loss:
  assumes "ge_wf g" and "config_valid (ge_config g)" and "order_valid r"
    and "dt_day t' \<noteq> ge_current_date g" and "dt_day t = ge_current_date g"
    and "ge_check_order r' (Some t') clock g = (res', g1)" and "ge_check_order r (Some t) clock g1 = (res, g2)"
  shows "ge_daily_dd_pct g2 = 0 \<and> ge_total_pnl g2 = ge_total_pnl g \<and>
     (cr_allowed res \<longleftrightarrow> within_limits (dt_as_utc t) r (g\<lparr>ge_daily_pnl := 0\<rparr>))"
proof -
  have g2: "g2 = g\<lparr>ge_daily_pnl := 0, ge_daily_trade_count := 0\<rparr>"
    using assms(4-7) by (auto simp: check_order_unfold Let_def check_time_def ge_maybe_reset_daily_def)
  have res: "res = ge_check_steps (dt_as_utc t) r g2"
    using assms(7) by (auto simp: check_order_unfold check_time_def Let_def)
  have "ge_wf g2" "config_valid (ge_config g2)" using assms(1,2) by (auto simp: g2 ge_wf_def)
  from check_steps_spec(1)[OF this order_valid_bounds(2)[OF assms(3)]]
  show ?thesis unfolding res
    by (simp add: g2 within_limits_def ge_daily_dd_pct_def ge_total_dd_pct_def)
qed

text \<open>A loss of 2.6 percent: stopped for the day, until yesterday's order is checked.\<close>

definition stopped_guardrail :: guardrail_engine where
  "stopped_guardrail = demo_guardrail\<lparr>ge_daily_pnl := - 260, ge_total_pnl := - 260, ge_current_balance := 9740\<rparr>"

definition yesterday :: py_datetime where "yesterday = Aware (19999 * day_us) 0"

theorem guardrail_other_date_forgets_loss_witness:
  "\<not> cr_allowed (fst (ge_check_order demo_order (Some demo_clock) demo_clock stopped_guardrail)) \<and>
   cr_allowed (fst (ge_check_order demo_order (Some demo_clock) demo_clock
     (snd (ge_check_order demo_order (Some yesterday) demo_clock stopped_guardrail))))"
proof -
  have wf: "ge_wf stopped_guardrail" "config_valid (ge_config stopped_guardrail)"
    using config_default_valid by (simp_all add: stopped_guardrail_def demo_guardrail_def ge_wf_def)
  have days: "dt_day yesterday \<noteq> ge_current_date stopped_guardrail" "dt_day demo_clock = ge_current_date stopped_guardrail"
    by (simp_all add: yesterday_def stopped_guardrail_def demo_guardrail_def demo_clock_def)
  have "within_limits (dt_as_utc demo_clock) demo_order (stopped_guardrail\<lparr>ge_daily_pnl := 0\<rparr>)"
    by (simp add: stopped_guardrail_def demo_guardrail_simps)
  moreover have "\<not> cr_allowed (fst (ge_check_order demo_order (Some demo_clock) demo_clock stopped_guardrail))"
    by (simp add: stopped_guardrail_def check_order_unfold demo_guardrail_simps Let_def ge_check_steps_def reject_def
        ge_is_in_blackout_at_def)
  ultimately show ?thesis
    using guardrail_other_date_forgets_loss[OF wf demo_order_valid days prod.collapse[symmetric] prod.collapse[symmetric]]
    by blast
qed

end
