(* ===== verification/Calendar.thy ===== *)
theory Calendar
  imports Prelude
begin

text \<open>
  The proleptic Gregorian calendar behind \<open>datetime\<close>: the civil date of a day number (day 0 is
  1970-01-01), the weekday, the hour, and the digits of \<open>strftime('%Y%m%d%H%M%S%f')\<close>.
\<close>

section \<open>Weekday and hour\<close>

text \<open>\<open>datetime.weekday()\<close>: Monday is 0; day 0 was a Thursday.\<close>

definition weekday :: "instant \<Rightarrow> int" where
  "weekday t = (t div day_us + 3) mod 7"

definition hour_of :: "instant \<Rightarrow> int" where
  "hour_of t = (t mod day_us) div hour_us"

lemma hour_of_range: "0 \<le> hour_of t" "hour_of t < 24"
  by (simp_all add: hour_of_def)

lemma weekday_range: "0 \<le> weekday t" "weekday t < 7"
  by (simp_all add: weekday_def)

section \<open>Civil dates\<close>

text \<open>Year, month and day of a day number.\<close>

definition civil_from_days :: "day \<Rightarrow> int \<times> int \<times> int" where
  "civil_from_days n =
     (let z = n + 719468; era = z div 146097; doe = z mod 146097;
          yoe = (doe - doe div 1460 + doe div 36524 - doe div 146096) div 365;
          doy = doe - (365 * yoe + yoe div 4 - yoe div 100);
          mp = (5 * doy + 2) div 153;
          d = doy - (153 * mp + 2) div 5 + 1;
          m = (if mp < 10 then mp + 3 else mp - 9)
      in (yoe + era * 400 + (if m \<le> 2 then 1 else 0), m, d))"

definition days_from_civil :: "int \<times> int \<times> int \<Rightarrow> day" where
  "days_from_civil ymd =
     (case ymd of (y0, m, d) \<Rightarrow>
        let y = (if m \<le> 2 then y0 - 1 else y0); era = y div 400; yoe = y - era * 400;
            doy = (153 * (if m > 2 then m - 3 else m + 9) + 2) div 5 + d - 1;
            doe = yoe * 365 + yoe div 4 - yoe div 100 + doy
        in era * 146097 + doe - 719468)"

lemma civil_examples:
  "civil_from_days 0 = (1970, 1, 1)" "civil_from_days 11016 = (2000, 2, 29)"
  "civil_from_days 19782 = (2024, 2, 29)" "civil_from_days 19783 = (2024, 3, 1)" "civil_from_days (-1) = (1969, 12, 31)"
  by code_simp+

section \<open>Digits\<close>

definition digit_char :: "int \<Rightarrow> char" where
  "digit_char d = char_of (nat (48 + d mod 10))"

text \<open>The last \<open>w\<close> decimal digits, zero padded.\<close>

fun pad_digits :: "nat \<Rightarrow> int \<Rightarrow> string" where
  "pad_digits 0 n = []"
| "pad_digits (Suc w) n = pad_digits w (n div 10) @ [digit_char n]"

definition stamp_digits :: "instant \<Rightarrow> string" where
  "stamp_digits t =
     (case civil_from_days (t div day_us) of (y, m, d) \<Rightarrow>
        let us = t mod day_us
        in pad_digits 4 y @ pad_digits 2 m @ pad_digits 2 d @ pad_digits 2 (us div hour_us) @
           pad_digits 2 (us div 60000000 mod 60) @ pad_digits 2 (us div second_us mod 60) @ pad_digits 6 (us mod second_us))"

lemma stamp_example: "stamp_digits (19782 * day_us + 45296000007) = ''20240229123456000007''"
  by code_simp

definition is_digit :: "char \<Rightarrow> bool" where
  "is_digit c = (48 \<le> (of_char c :: nat) \<and> (of_char c :: nat) \<le> 57)"

definition py_isdigit :: "string \<Rightarrow> bool" where
  "py_isdigit s = (s \<noteq> [] \<and> list_all is_digit s)"

definition digits_value :: "string \<Rightarrow> int" where
  "digits_value s = foldl (\<lambda>n c. 10 * n + (int (of_char c) - 48)) 0 s"

lemma of_char_digit [simp]: "of_char (digit_char d) = (48 + nat (d mod 10))"
proof -
  have "nat (48 + d mod 10) < 256" by simp
  moreover have "nat (48 + d mod 10) = 48 + nat (d mod 10)" by simp
  ultimately show ?thesis by (simp add: digit_char_def)
qed

lemma digits_value_append: "digits_value (s @ [c]) = 10 * digits_value s + (int (of_char c) - 48)"
  by (simp add: digits_value_def)

text \<open>Padded digits are digits, and read back as the number when it has at most that many.\<close>

lemma pad_digits_digits: "list_all is_digit (pad_digits w n)"
  by (induction w arbitrary: n) (auto simp: is_digit_def nat_le_iff)

lemma pad_digits_length [simp]: "length (pad_digits w n) = w"
  by (induction w arbitrary: n) auto

lemma pad_digits_value: "0 \<le> n \<Longrightarrow> digits_value (pad_digits w n) = n mod 10 ^ w"
proof (induction w arbitrary: n)
  case 0
  then show ?case by (simp add: digits_value_def)
next
  case (Suc w)
  then have "digits_value (pad_digits w (n div 10)) = n div 10 mod 10 ^ w" by simp
  then have "digits_value (pad_digits (Suc w) n) = 10 * (n div 10 mod 10 ^ w) + n mod 10"
    by (simp add: digits_value_append)
  also have "\<dots> = n mod 10 ^ Suc w"
    by (simp add: mod_mult2_eq' zmod_zmult2_eq)
  finally show ?case .
qed

end
