(* ===== verification/Orders.thy ===== *)
theory Orders
  imports Models Calendar
begin

text \<open>
  The order manager of \<open>adapters/ctrader/order_manager.py\<close> with the order and position records of
  \<open>adapters/ctrader/models.py\<close>: sizing, slippage, paper and live execution, the callbacks of the
  broker, price updates with stop loss and take profit, closing, the pending-order timeout.

  Positions and orders are the values of the manager's dicts: an object the code mutates in
  place is replaced under its key. What the live client's \<open>send_order\<close> returned is an argument, as
  are the clock and the random draw of the slippage. Callbacks registered with the manager are
  called in order and their exceptions are swallowed, so the calls are recorded (\<open>om_calls\<close>).
\<close>

section \<open>Data\<close>

datatype order_type = MARKET | LIMIT | STOP

fun order_type_value :: "order_type \<Rightarrow> string" where
  "order_type_value MARKET = ''market''"
| "order_type_value LIMIT = ''limit''"
| "order_type_value STOP = ''stop''"

datatype order_status = PENDING | FILLED | CANCELLED | REJECTED

text \<open>The fields \<open>take_profit_2\<close>, \<open>take_profit_3\<close> and \<open>reason\<close> are set dynamically by the code.\<close>

record order =
  od_order_id :: string
  od_symbol :: string
  od_direction :: trade_direction
  od_order_type :: order_type
  od_volume :: flt
  od_price :: "flt option"
  od_stop_loss :: "flt option"
  od_take_profit :: "flt option"
  od_status :: order_status
  od_created_at :: py_datetime
  od_filled_at :: "py_datetime option"
  od_filled_price :: "flt option"
  od_comment :: ptext
  od_position_id :: "int option"
  od_take_profit_2 :: "flt option"
  od_take_profit_3 :: "flt option"
  od_reason :: string

record position =
  po_position_id :: string
  po_symbol :: string
  po_direction :: trade_direction
  po_volume :: flt
  po_entry_price :: flt
  po_current_price :: flt
  po_stop_loss :: "flt option"
  po_take_profit :: "flt option"
  po_unrealized_pnl :: flt
  po_status :: position_status
  po_opened_at :: py_datetime
  po_closed_at :: "py_datetime option"
  po_closed_price :: "flt option"
  po_closed_pnl :: flt
  po_comment :: ptext
  po_max_favorable_excursion :: flt
  po_max_adverse_excursion :: flt
  po_time_in_trade_sec :: flt
  po_high_water_mark :: flt
  po_low_water_mark :: flt
  po_take_profit_2 :: "flt option"
  po_take_profit_3 :: "flt option"
  po_tp_levels_fired :: "int list"
  po_close_reason :: "string option"

record position_size_config =
  pz_risk_per_trade_pct :: flt
  pz_max_lot_size :: flt
  pz_min_lot_size :: flt
  pz_default_lot_size :: flt

definition position_size_config_default :: position_size_config where
  "position_size_config_default =
     \<lparr>pz_risk_per_trade_pct = 5/1000, pz_max_lot_size = 1, pz_min_lot_size = 1/100, pz_default_lot_size = 1/10\<rparr>"

record pending_timeout_config =
  pt_timeout_seconds :: flt
  pt_check_interval_seconds :: flt

definition pending_timeout_config_default :: pending_timeout_config where
  "pending_timeout_config_default = \<lparr>pt_timeout_seconds = 60, pt_check_interval_seconds = 30\<rparr>"

record slippage_model =
  sm_base_pips :: flt
  sm_random_pips :: flt
  sm_pip_value :: flt

definition slippage_model_default :: slippage_model where
  "slippage_model_default = \<lparr>sm_base_pips = 1/10, sm_random_pips = 2/10, sm_pip_value = 1/10000\<rparr>"

definition sm_apply :: "flt \<Rightarrow> flt \<Rightarrow> trade_direction \<Rightarrow> slippage_model \<Rightarrow> flt" where
  "sm_apply draw price direction sm =
     (let slippage = (sm_base_pips sm + draw * sm_random_pips sm) * sm_pip_value sm
      in if direction = LONG then price + slippage else price - slippage)"

definition sm_apply_with_spread :: "flt \<Rightarrow> flt \<Rightarrow> trade_direction \<Rightarrow> flt \<Rightarrow> slippage_model \<Rightarrow> flt" where
  "sm_apply_with_spread draw price direction spread sm =
     (let price = (if spread > 0 then (if direction = LONG then price + spread / 2 else price - spread / 2) else price)
      in sm_apply draw price direction sm)"

record execution_result =
  er_success :: bool
  er_order :: "order option"
  er_position :: "position option"
  er_error_message :: ptext
  er_rejection_reason :: string
  er_slippage_applied :: flt

text \<open>What the manager reads of the live client: its mode and its connection.\<close>

record api_client =
  ac_is_paper_mode :: bool
  ac_is_connected :: bool

datatype om_payload = CallOrder order | CallPosition position

record order_manager =
  om_positions :: "(string \<times> position) list"
  om_orders :: "(string \<times> order) list"
  om_position_config :: position_size_config
  om_api_client :: "api_client option"
  om_slippage_model :: slippage_model
  om_locally_filled_order_ids :: "string list"
  om_pending_timeout_config :: pending_timeout_config
  om_pending_order_timestamps :: "(string \<times> py_datetime) list"
  om_callbacks :: "(string \<times> nat list) list"
  om_calls :: "(nat \<times> string \<times> om_payload) list" \<comment> \<open>the callback calls made, in order\<close>
  om_wired :: nat \<comment> \<open>how often the three broker callbacks were registered\<close>

section \<open>Callbacks and construction\<close>

definition om_wire_live_callbacks :: "order_manager \<Rightarrow> order_manager" where
  "om_wire_live_callbacks om =
     (case om_api_client om of None \<Rightarrow> om | Some api \<Rightarrow> om\<lparr>om_wired := om_wired om + 1\<rparr>)"

definition om_init ::
  "position_size_config option \<Rightarrow> api_client option \<Rightarrow> pending_timeout_config option \<Rightarrow> order_manager" where
  "om_init cfg api timeout =
     (let om = \<lparr>om_positions = [], om_orders = [], om_position_config = or_default cfg position_size_config_default,
           om_api_client = api, om_slippage_model = slippage_model_default, om_locally_filled_order_ids = [],
           om_pending_timeout_config = or_default timeout pending_timeout_config_default,
           om_pending_order_timestamps = [],
           om_callbacks = [(''on_order_placed'', []), (''on_order_filled'', []), (''on_order_cancelled'', []),
             (''on_order_rejected'', []), (''on_position_opened'', []), (''on_position_closed'', []),
             (''on_order_new'', []), (''on_order_partial_fill'', []), (''on_order_timeout'', [])],
           om_calls = [], om_wired = 0\<rparr>
      in case api of None \<Rightarrow> om
         | Some c \<Rightarrow> if \<not> ac_is_paper_mode c then om_wire_live_callbacks om else om)"

definition om_set_api_client :: "api_client option \<Rightarrow> order_manager \<Rightarrow> order_manager" where
  "om_set_api_client api om =
     (let om = om\<lparr>om_api_client := api\<rparr>
      in case api of None \<Rightarrow> om
         | Some c \<Rightarrow> if \<not> ac_is_paper_mode c then om_wire_live_callbacks om else om)"

definition om_register_callback :: "string \<Rightarrow> nat \<Rightarrow> order_manager \<Rightarrow> order_manager" where
  "om_register_callback event callback om =
     (case map_of (om_callbacks om) event of
        None \<Rightarrow> om
      | Some cs \<Rightarrow> om\<lparr>om_callbacks := AList.update event (cs @ [callback]) (om_callbacks om)\<rparr>)"

definition om_trigger_callback :: "string \<Rightarrow> om_payload \<Rightarrow> order_manager \<Rightarrow> order_manager" where
  "om_trigger_callback event payload om =
     (case map_of (om_callbacks om) event of
        None \<Rightarrow> om
      | Some cs \<Rightarrow> om\<lparr>om_calls := om_calls om @ map (\<lambda>c. (c, event, payload)) cs\<rparr>)"

definition om_put_order :: "order \<Rightarrow> order_manager \<Rightarrow> order_manager" where
  "om_put_order ord om = om\<lparr>om_orders := AList.update (od_order_id ord) ord (om_orders om)\<rparr>"

definition om_put_position :: "position \<Rightarrow> order_manager \<Rightarrow> order_manager" where
  "om_put_position p om = om\<lparr>om_positions := AList.update (po_position_id p) p (om_positions om)\<rparr>"

definition om_clear_stamp :: "order \<Rightarrow> order_manager \<Rightarrow> order_manager" where
  "om_clear_stamp ord om =
     om\<lparr>om_pending_order_timestamps := AList.delete (od_order_id ord) (om_pending_order_timestamps om)\<rparr>"

section \<open>Position size\<close>

definition om_calculate_position_size ::
  "flt \<Rightarrow> flt \<Rightarrow> flt \<Rightarrow> string \<Rightarrow> order_manager \<Rightarrow> pyexn + flt" where
  "om_calculate_position_size account_balance entry_price stop_loss symbol om =
     (let cfg = om_position_config om;
          risk_amount = account_balance * pz_risk_per_trade_pct cfg;
          sl_distance = \<bar>entry_price - stop_loss\<bar>
      in if sl_distance = 0 then Inr (pz_default_lot_size cfg)
         else case get_symbol_info symbol of
             Inl e \<Rightarrow> Inl e
           | Inr info \<Rightarrow>
               let sl_pips = sl_distance / pip_size info
               in if sl_pips = 0 then Inr (pz_default_lot_size cfg)
                  else
                    let lot_size = risk_amount / (sl_pips * pip_value_per_lot info);
                        lot_size = max (pz_min_lot_size cfg) (min lot_size (pz_max_lot_size cfg))
                    in Inr (py_round2 lot_size))"

section \<open>Execution\<close>

text \<open>\<open>order.filled_price or order.price or 0\<close>.\<close>

definition fill_or_price :: "order \<Rightarrow> flt" where
  "fill_or_price ord =
     (case od_filled_price ord of
        Some p \<Rightarrow> (if p \<noteq> 0 then p else or_default (od_price ord) 0)
      | None \<Rightarrow> or_default (od_price ord) 0)"

definition om_create_position_from_order :: "instant \<Rightarrow> order \<Rightarrow> position option" where
  "om_create_position_from_order now ord =
     (if od_status ord \<noteq> FILLED then None
      else Some
        \<lparr>po_position_id = ''POS_'' @ od_order_id ord, po_symbol = od_symbol ord, po_direction = od_direction ord,
         po_volume = od_volume ord, po_entry_price = fill_or_price ord, po_current_price = fill_or_price ord,
         po_stop_loss = od_stop_loss ord, po_take_profit = od_take_profit ord, po_unrealized_pnl = 0,
         po_status = OPEN, po_opened_at = or_default (od_filled_at ord) (Naive now), po_closed_at = None,
         po_closed_price = None, po_closed_pnl = 0, po_comment = od_comment ord, po_max_favorable_excursion = 0,
         po_max_adverse_excursion = 0, po_time_in_trade_sec = 0, po_high_water_mark = 0, po_low_water_mark = 0,
         po_take_profit_2 = od_take_profit_2 ord, po_take_profit_3 = od_take_profit_3 ord, po_tp_levels_fired = [],
         po_close_reason = None\<rparr>)"

definition om_execute_market_order ::
  "instant \<Rightarrow> string \<Rightarrow> trade_direction \<Rightarrow> flt \<Rightarrow> flt option \<Rightarrow> flt option \<Rightarrow> ptext \<Rightarrow> order_manager \<Rightarrow>
     execution_result \<times> order_manager" where
  "om_execute_market_order now symbol direction volume stop_loss take_profit comment om =
     (let ord = \<lparr>od_order_id = ''ORD_'' @ stamp_digits now, od_symbol = symbol, od_direction = direction,
            od_order_type = MARKET, od_volume = volume, od_price = None, od_stop_loss = stop_loss,
            od_take_profit = take_profit, od_status = PENDING, od_created_at = Naive now, od_filled_at = None,
            od_filled_price = None, od_comment = comment, od_position_id = None, od_take_profit_2 = None,
            od_take_profit_3 = None, od_reason = []\<rparr>;
          om1 = om_trigger_callback ''on_order_placed'' (CallOrder ord) (om_put_order ord om);
          ord1 = ord\<lparr>od_status := FILLED, od_filled_at := Some (Naive now), od_filled_price := Some 0\<rparr>;
          om2 = om_put_order ord1 om1;
          pos = om_create_position_from_order now ord1;
          om3 = (case pos of None \<Rightarrow> om2
                 | Some p \<Rightarrow> om_trigger_callback ''on_position_opened'' (CallPosition p) (om_put_position p om2))
      in (\<lparr>er_success = True, er_order = Some ord1, er_position = pos, er_error_message = [], er_rejection_reason = [],
           er_slippage_applied = 0\<rparr>,
          om_trigger_callback ''on_order_filled'' (CallOrder ord1) om3))"

text \<open>The arguments of \<open>execute_paper_order\<close>.\<close>

record paper_args =
  pa_symbol :: string
  pa_direction :: trade_direction
  pa_volume :: flt
  pa_entry_price :: flt
  pa_stop_loss :: "flt option"
  pa_take_profit :: "flt option"
  pa_take_profit_2 :: "flt option"
  pa_take_profit_3 :: "flt option"
  pa_comment :: ptext
  pa_spread :: flt
  pa_bid :: flt
  pa_ask :: flt

definition paper_fill_price :: "flt \<Rightarrow> paper_args \<Rightarrow> slippage_model \<Rightarrow> flt" where
  "paper_fill_price draw a sm =
     (if pa_bid a > 0 \<and> pa_ask a > 0
      then (if pa_direction a = LONG then sm_apply draw (pa_ask a) (pa_direction a) sm
            else sm_apply draw (pa_bid a) (pa_direction a) sm)
      else sm_apply_with_spread draw (pa_entry_price a) (pa_direction a) (pa_spread a) sm)"

definition om_execute_paper_order ::
  "instant \<Rightarrow> flt \<Rightarrow> paper_args \<Rightarrow> order_manager \<Rightarrow> execution_result \<times> order_manager" where
  "om_execute_paper_order now draw a om =
     (let fill_price = paper_fill_price draw a (om_slippage_model om);
          slippage_amount = \<bar>fill_price - pa_entry_price a\<bar>;
          ord = \<lparr>od_order_id = ''PAPER_'' @ stamp_digits now, od_symbol = pa_symbol a, od_direction = pa_direction a,
            od_order_type = MARKET, od_volume = pa_volume a, od_price = Some (pa_entry_price a),
            od_stop_loss = pa_stop_loss a, od_take_profit = pa_take_profit a, od_status = FILLED,
            od_created_at = Naive now, od_filled_at = Some (Naive now), od_filled_price = Some fill_price,
            od_comment = Lit ''[PAPER MODE] '' # pa_comment a, od_position_id = None,
            od_take_profit_2 = pa_take_profit_2 a, od_take_profit_3 = pa_take_profit_3 a, od_reason = []\<rparr>;
          om1 = om_put_order ord om;
          pos = om_create_position_from_order now ord;
          om2 = (case pos of None \<Rightarrow> om1 | Some p \<Rightarrow> om_put_position p om1);
          om3 = om_trigger_callback ''on_order_filled'' (CallOrder ord) om2;
          om4 = (case pos of None \<Rightarrow> om3 | Some p \<Rightarrow> om_trigger_callback ''on_position_opened'' (CallPosition p) om3)
      in (\<lparr>er_success = True, er_order = Some ord, er_position = pos, er_error_message = [], er_rejection_reason = [],
           er_slippage_applied = slippage_amount\<rparr>, om4))"

text \<open>The arguments of \<open>execute_live_order\<close>.\<close>

record live_args =
  la_symbol :: string
  la_direction :: trade_direction
  la_volume :: flt
  la_order_type :: order_type
  la_price :: "flt option"
  la_take_profit_2 :: "flt option"
  la_take_profit_3 :: "flt option"

definition er_failure :: "order option \<Rightarrow> ptext \<Rightarrow> string \<Rightarrow> execution_result" where
  "er_failure ord msg reason =
     \<lparr>er_success = False, er_order = ord, er_position = None, er_error_message = msg, er_rejection_reason = reason,
      er_slippage_applied = 0\<rparr>"

definition er_sent :: "order \<Rightarrow> position option \<Rightarrow> ptext \<Rightarrow> execution_result" where
  "er_sent ord pos msg =
     \<lparr>er_success = True, er_order = Some ord, er_position = pos, er_error_message = msg, er_rejection_reason = [],
      er_slippage_applied = 0\<rparr>"

text \<open>What is done with the order \<open>send_order\<close> returned.\<close>

definition om_live_outcome :: "instant \<Rightarrow> order \<Rightarrow> order_manager \<Rightarrow> execution_result \<times> order_manager" where
  "om_live_outcome now ord om =
     (if od_status ord = FILLED then
        (let pos = om_create_position_from_order now ord;
             om1 = (case pos of None \<Rightarrow> om
                    | Some p \<Rightarrow> om_trigger_callback ''on_position_opened'' (CallPosition p) (om_put_position p om));
             om2 = om_trigger_callback ''on_order_filled'' (CallOrder ord) om1
         in (er_sent ord pos [],
             om2\<lparr>om_locally_filled_order_ids := List.insert (od_order_id ord) (om_locally_filled_order_ids om2)\<rparr>))
      else if od_status ord = REJECTED then
        (er_failure (Some ord)
           (if truthy (PStr (od_comment ord)) then od_comment ord else [Lit ''Order rejected by broker'']) ''broker_rejected'',
         om_trigger_callback ''on_order_rejected'' (CallOrder ord) om)
      else if od_status ord = PENDING \<and> od_reason ord = ''timeout_awaiting_event'' then
        (er_failure (Some ord) [Lit ''Order timed out awaiting cTrader execution event''] ''timeout'', om)
      else
        (er_sent ord None [Lit ''Order sent, awaiting execution report''],
         om\<lparr>om_pending_order_timestamps := AList.update (od_order_id ord) (Naive now) (om_pending_order_timestamps om)\<rparr>))"

text \<open>\<open>sent\<close> is the result of \<open>send_order\<close>, called only when every check before it passed.\<close>

definition om_execute_live_order ::
  "instant \<Rightarrow> order option \<Rightarrow> live_args \<Rightarrow> order_manager \<Rightarrow> execution_result \<times> order_manager" where
  "om_execute_live_order now sent a om =
     (if py_strip (la_symbol a) = [] then (er_failure None [Lit ''Symbol is required''] ''validation_error'', om)
      else if la_volume a \<le> 0 then
        (er_failure None [Lit ''Volume must be positive, got '', FFloat (la_volume a)] ''validation_error'', om)
      else if (la_order_type a = LIMIT \<or> la_order_type a = STOP) \<and> or_default (la_price a) 0 = 0 then
        (er_failure None [Lit ''Price is required for '', Lit (order_type_value (la_order_type a)), Lit '' orders'']
           ''validation_error'', om)
      else case om_api_client om of
          None \<Rightarrow> (er_failure None [Lit ''No live API client connected or paper mode is active''] ''no_live_client'', om)
        | Some api \<Rightarrow>
            if ac_is_paper_mode api
            then (er_failure None [Lit ''No live API client connected or paper mode is active''] ''no_live_client'', om)
            else if \<not> ac_is_connected api
            then (er_failure None [Lit ''cTrader connection not established''] ''not_connected'', om)
            else case sent of
                None \<Rightarrow> (er_failure None [Lit ''Failed to send order via cTrader connection''] ''send_failed'', om)
              | Some ord0 \<Rightarrow>
                  let ord = ord0\<lparr>od_take_profit_2 := la_take_profit_2 a, od_take_profit_3 := la_take_profit_3 a\<rparr>;
                      om1 = om_trigger_callback ''on_order_placed'' (CallOrder ord) (om_put_order ord om)
                  in om_live_outcome now ord om1)"

section \<open>Broker callbacks\<close>

text \<open>The closures registered by \<open>_wire_live_callbacks\<close>.\<close>

definition om_on_filled :: "instant \<Rightarrow> order option \<Rightarrow> order_manager \<Rightarrow> order_manager" where
  "om_on_filled now ordo om =
     (case ordo of None \<Rightarrow> om
      | Some ord \<Rightarrow>
          if od_order_id ord \<in> set (om_locally_filled_order_ids om)
          then om\<lparr>om_locally_filled_order_ids := removeAll (od_order_id ord) (om_locally_filled_order_ids om)\<rparr>
          else if map_of (om_orders om) (od_order_id ord) \<noteq> None then
            (let om1 = om_put_order ord om;
                 om2 = om_clear_stamp ord om1;
                 om3 = (case om_create_position_from_order now ord of None \<Rightarrow> om2
                        | Some p \<Rightarrow> om_trigger_callback ''on_position_opened'' (CallPosition p) (om_put_position p om2))
             in om_trigger_callback ''on_order_filled'' (CallOrder ord) om3)
          else om)"

definition om_on_final :: "string \<Rightarrow> order option \<Rightarrow> order_manager \<Rightarrow> order_manager" where
  "om_on_final event ordo om =
     (case ordo of None \<Rightarrow> om
      | Some ord \<Rightarrow>
          if map_of (om_orders om) (od_order_id ord) \<noteq> None then
            (let om1 = om_put_order ord om;
                 om2 = om_clear_stamp ord om1
             in om_trigger_callback event (CallOrder ord) om2)
          else om)"

definition om_on_rejected :: "order option \<Rightarrow> order_manager \<Rightarrow> order_manager" where
  "om_on_rejected = om_on_final ''on_order_rejected''"

definition om_on_cancelled :: "order option \<Rightarrow> order_manager \<Rightarrow> order_manager" where
  "om_on_cancelled = om_on_final ''on_order_cancelled''"

section \<open>Positions\<close>

definition om_update_position_id :: "string \<Rightarrow> string \<Rightarrow> order_manager \<Rightarrow> order_manager" where
  "om_update_position_id old_id new_id om =
     (case map_of (om_positions om) old_id of
        None \<Rightarrow> om
      | Some p \<Rightarrow> om\<lparr>om_positions :=
          AList.update new_id (p\<lparr>po_position_id := new_id\<rparr>) (AList.delete old_id (om_positions om))\<rparr>)"

text \<open>The identifier a caller passes: the broker's number or a string.\<close>

datatype pid_arg = PidInt int | PidStr string

definition set_tp_levels :: "string \<Rightarrow> flt option \<Rightarrow> flt option \<Rightarrow> order_manager \<Rightarrow> order_manager option" where
  "set_tp_levels key tp2 tp3 om =
     (case map_of (om_positions om) key of
        None \<Rightarrow> None
      | Some p \<Rightarrow> Some (om\<lparr>om_positions :=
          AList.update key (p\<lparr>po_take_profit_2 := tp2, po_take_profit_3 := tp3\<rparr>) (om_positions om)\<rparr>))"

text \<open>Try 2: the orders in insertion order, up to the first whose position is found.\<close>

fun tp_by_broker_id :: "int \<Rightarrow> flt option \<Rightarrow> flt option \<Rightarrow> (string \<times> order) list \<Rightarrow> order_manager \<Rightarrow> order_manager option" where
  "tp_by_broker_id target tp2 tp3 [] om = None"
| "tp_by_broker_id target tp2 tp3 ((order_id, ord) # os) om =
     (if od_position_id ord = Some target
      then (case set_tp_levels (''POS_'' @ order_id) tp2 tp3 om of
              Some om' \<Rightarrow> Some om'
            | None \<Rightarrow> tp_by_broker_id target tp2 tp3 os om)
      else tp_by_broker_id target tp2 tp3 os om)"

definition om_update_position_tp_levels ::
  "pid_arg \<Rightarrow> flt option \<Rightarrow> flt option \<Rightarrow> order_manager \<Rightarrow> bool \<times> order_manager" where
  "om_update_position_tp_levels pid tp2 tp3 om =
     (let direct = (case pid of PidStr s \<Rightarrow> set_tp_levels s tp2 tp3 om | PidInt i \<Rightarrow> None);
          target = (case pid of PidInt i \<Rightarrow> Some i
                    | PidStr s \<Rightarrow> (if py_isdigit s then Some (digits_value s) else None));
          by_broker = (case target of None \<Rightarrow> None | Some i \<Rightarrow> tp_by_broker_id i tp2 tp3 (om_orders om) om);
          by_order = (case pid of PidStr s \<Rightarrow>
                        (if \<not> py_isdigit s then set_tp_levels (''POS_'' @ s) tp2 tp3 om else None)
                      | PidInt i \<Rightarrow> None)
      in case direct of Some om' \<Rightarrow> (True, om')
         | None \<Rightarrow> (case by_broker of Some om' \<Rightarrow> (True, om')
             | None \<Rightarrow> (case by_order of Some om' \<Rightarrow> (True, om') | None \<Rightarrow> (False, om))))"

definition om_resolve_contract_size :: "string \<Rightarrow> flt option \<Rightarrow> flt" where
  "om_resolve_contract_size symbol cs =
     (case cs of
        Some c \<Rightarrow> c
      | None \<Rightarrow> (case get_symbol_info symbol of Inr info \<Rightarrow> contract_size info | Inl e \<Rightarrow> 100000))"

definition check_stop_loss_hit :: "position \<Rightarrow> flt \<Rightarrow> flt \<Rightarrow> bool" where
  "check_stop_loss_hit p bid ask =
     (case po_stop_loss p of
        None \<Rightarrow> False
      | Some sl \<Rightarrow>
          if po_direction p = LONG then (if bid \<le> 0 then False else bid \<le> sl)
          else if ask \<le> 0 then False else ask \<ge> sl)"

definition check_take_profit_hit :: "position \<Rightarrow> flt \<Rightarrow> flt \<Rightarrow> flt \<Rightarrow> bool" where
  "check_take_profit_hit p current_price bid ask =
     (case po_take_profit p of
        None \<Rightarrow> False
      | Some tp \<Rightarrow>
          if po_direction p = LONG then (if ask > 0 then ask else current_price) \<ge> tp
          else (if bid > 0 then bid else current_price) \<le> tp)"

text \<open>The profit of a position at an exit price.\<close>

definition exit_pnl :: "position \<Rightarrow> flt \<Rightarrow> flt \<Rightarrow> flt" where
  "exit_pnl p exit_price cs =
     (if po_direction p = LONG then (exit_price - po_entry_price p) * po_volume p * cs
      else (po_entry_price p - exit_price) * po_volume p * cs)"

definition om_close ::
  "instant \<Rightarrow> string \<Rightarrow> position \<Rightarrow> flt option \<Rightarrow> string \<Rightarrow> flt option \<Rightarrow> order_manager \<Rightarrow> position \<times> order_manager" where
  "om_close now key p exit_price reason cs om =
     (let price = (case exit_price of Some x \<Rightarrow> (if x \<noteq> 0 then x else po_current_price p) | None \<Rightarrow> po_current_price p);
          pnl = exit_pnl p price (om_resolve_contract_size (po_symbol p) cs);
          p' = p\<lparr>po_status := CLOSED, po_closed_at := Some (Naive now), po_closed_price := Some price,
                 po_closed_pnl := pnl, po_close_reason := Some reason\<rparr>
      in (p', om_trigger_callback ''on_position_closed'' (CallPosition p')
                (om\<lparr>om_positions := AList.update key p' (om_positions om)\<rparr>)))"

definition om_update_position ::
  "instant \<Rightarrow> string \<Rightarrow> flt \<Rightarrow> flt \<Rightarrow> flt \<Rightarrow> flt option \<Rightarrow> order_manager \<Rightarrow> position option \<times> order_manager" where
  "om_update_position now position_id current_price bid ask cs om =
     (case map_of (om_positions om) position_id of
        None \<Rightarrow> (None, om)
      | Some p0 \<Rightarrow>
          let size = om_resolve_contract_size (po_symbol p0) cs;
              exit_price = (if po_direction p0 = LONG then (if bid > 0 then bid else current_price)
                            else (if ask > 0 then ask else current_price));
              p = p0\<lparr>po_current_price := current_price, po_unrealized_pnl := exit_pnl p0 exit_price size\<rparr>;
              om1 = om\<lparr>om_positions := AList.update position_id p (om_positions om)\<rparr>
          in if check_stop_loss_hit p bid ask then
               (let (p', om2) = om_close now position_id p (Some (if po_direction p = LONG then bid else ask))
                      ''sl_hit'' (Some size) om1 in (Some p', om2))
             else if check_take_profit_hit p current_price bid ask then
               (let tp_fill = (if po_direction p = LONG then ask else bid);
                    (p', om2) = om_close now position_id p (if tp_fill > 0 then Some tp_fill else po_take_profit p)
                      ''tp_hit'' (Some size) om1 in (Some p', om2))
             else (Some p, om1))"

definition om_close_position ::
  "instant \<Rightarrow> string \<Rightarrow> flt option \<Rightarrow> string \<Rightarrow> flt option \<Rightarrow> order_manager \<Rightarrow> position option \<times> order_manager" where
  "om_close_position now position_id exit_price reason cs om =
     (case map_of (om_positions om) position_id of
        None \<Rightarrow> (None, om)
      | Some p \<Rightarrow>
          (let (p', om') = om_close now position_id p exit_price reason
                 (Some (om_resolve_contract_size (po_symbol p) cs)) om in (Some p', om')))"

section \<open>Queries\<close>

definition om_get_open_positions :: "order_manager \<Rightarrow> position list" where
  "om_get_open_positions om = filter (\<lambda>p. po_status p = OPEN) (map snd (om_positions om))"

definition om_get_position :: "string \<Rightarrow> order_manager \<Rightarrow> position option" where
  "om_get_position position_id om = map_of (om_positions om) position_id"

definition om_get_total_unrealized_pnl :: "order_manager \<Rightarrow> flt" where
  "om_get_total_unrealized_pnl om = sum_list (map po_unrealized_pnl (om_get_open_positions om))"

definition om_get_total_realized_pnl :: "order_manager \<Rightarrow> flt" where
  "om_get_total_realized_pnl om =
     sum_list (map po_closed_pnl (filter (\<lambda>p. position_is_closed (po_status p)) (map snd (om_positions om))))"

definition om_get_pending_orders :: "order_manager \<Rightarrow> order list" where
  "om_get_pending_orders om = filter (\<lambda>ord. od_status ord = PENDING) (map snd (om_orders om))"

definition om_position_count :: "order_manager \<Rightarrow> nat" where
  "om_position_count om = length (om_get_open_positions om)"

section \<open>Pending orders\<close>

text \<open>
  The loop over the time stamps: an age is the difference of an aware and the stored datetime,
  so it may raise.
\<close>

fun timeout_loop ::
  "py_datetime \<Rightarrow> flt \<Rightarrow> (string \<times> py_datetime) list \<Rightarrow> order list \<Rightarrow> order_manager \<Rightarrow> (order_manager, order list) outcome" where
  "timeout_loop now timeout [] expired om = Ret expired om"
| "timeout_loop now timeout ((order_id, placed_at) # rest) expired om =
     (case dt_diff now placed_at of
        Inl e \<Rightarrow> Exc e om
      | Inr age \<Rightarrow>
          if of_int age / 1000000 > timeout then
            (case map_of (om_orders om) order_id of
               None \<Rightarrow> timeout_loop now timeout rest expired om
             | Some ord \<Rightarrow>
                 if od_status ord = PENDING then
                   (let ord' = ord\<lparr>od_status := CANCELLED,
                          od_comment := [Lit ''Timeout: order pending > '', FFloat timeout, Lit ''s'']\<rparr>
                    in timeout_loop now timeout rest (expired @ [ord'])
                         (om\<lparr>om_orders := AList.update order_id ord' (om_orders om)\<rparr>))
                 else timeout_loop now timeout rest expired om)
          else timeout_loop now timeout rest expired om)"

definition om_check_pending_orders_timeout :: "instant \<Rightarrow> order_manager \<Rightarrow> (order_manager, order list) outcome" where
  "om_check_pending_orders_timeout now om =
     and_then (timeout_loop (Aware now 0) (pt_timeout_seconds (om_pending_timeout_config om))
         (om_pending_order_timestamps om) [] om) (\<lambda>expired om.
       let om1 = foldl (\<lambda>om ord. om_clear_stamp ord om) om expired
       in Ret expired (foldl (\<lambda>om ord. om_trigger_callback ''on_order_timeout'' (CallOrder ord) om) om1 expired))"

end
