(* ===== verification/OrderSafety.thy ===== *)
theory OrderSafety
  imports Orders
begin

text \<open>
  Correctness of the order manager: its books over any run of operations and broker events, the
  outcome of a live order, fills, the bracket of stop loss and take profit, sizing and the
  pending-order timeout.
\<close>

section \<open>Runs\<close>

datatype om_event =
    EMarket string trade_direction flt "flt option" "flt option" ptext
  | EPaper flt paper_args
  | ELive "order option" live_args
  | EFilled "order option"
  | ERejected "order option"
  | ECancelled "order option"
  | ERename string string
  | ETpLevels pid_arg "flt option" "flt option"
  | EUpdate string flt flt flt "flt option"
  | EClose string "flt option" string "flt option"
  | ETimeout
  | ERegister string nat
  | EApi "api_client option"

fun om_step :: "order_manager \<Rightarrow> instant \<times> om_event \<Rightarrow> order_manager" where
  "om_step om (now, EMarket s d v sl tp c) = snd (om_execute_market_order now s d v sl tp c om)"
| "om_step om (now, EPaper u a) = snd (om_execute_paper_order now u a om)"
| "om_step om (now, ELive sent a) = snd (om_execute_live_order now sent a om)"
| "om_step om (now, EFilled x) = om_on_filled now x om"
| "om_step om (now, ERejected x) = om_on_rejected x om"
| "om_step om (now, ECancelled x) = om_on_cancelled x om"
| "om_step om (now, ERename i j) = om_update_position_id i j om"
| "om_step om (now, ETpLevels i a b) = snd (om_update_position_tp_levels i a b om)"
| "om_step om (now, EUpdate i p b a cs) = snd (om_update_position now i p b a cs om)"
| "om_step om (now, EClose i x r cs) = snd (om_close_position now i x r cs om)"
| "om_step om (now, ETimeout) = state_of (om_check_pending_orders_timeout now om)"
| "om_step om (now, ERegister e c) = om_register_callback e c om"
| "om_step om (now, EApi api) = om_set_api_client api om"

text \<open>
  A position under its own identifier, open without any trace of a closing, or closed with a time
  and a price.
\<close>

definition position_ok :: "string \<Rightarrow> position \<Rightarrow> bool" where
  "position_ok k p \<longleftrightarrow>
     po_position_id p = k \<and>
     (if po_status p = OPEN then po_closed_at p = None \<and> po_closed_price p = None \<and> po_closed_pnl p = 0
      else po_status p = CLOSED \<and> po_closed_at p \<noteq> None \<and> po_closed_price p \<noteq> None)"

lemma position_ok_frames [simp]:
  "position_ok k (p\<lparr>po_take_profit_2 := a, po_take_profit_3 := b\<rparr>) = position_ok k p"
  "position_ok k (p\<lparr>po_current_price := x, po_unrealized_pnl := y\<rparr>) = position_ok k p"
  by (simp_all add: position_ok_def)

lemma position_ok_rename: "position_ok k p \<Longrightarrow> position_ok j (p\<lparr>po_position_id := j\<rparr>)"
  by (simp add: position_ok_def)

definition positions_ok :: "(string \<times> position) list \<Rightarrow> bool" where
  "positions_ok ps \<longleftrightarrow> distinct (map fst ps) \<and> (\<forall>k p. map_of ps k = Some p \<longrightarrow> position_ok k p)"

definition orders_ok :: "(string \<times> order) list \<Rightarrow> bool" where
  "orders_ok os \<longleftrightarrow> distinct (map fst os) \<and> (\<forall>k x. map_of os k = Some x \<longrightarrow> od_order_id x = k)"

definition stamps_ok :: "(string \<times> py_datetime) list \<Rightarrow> bool" where
  "stamps_ok ts \<longleftrightarrow> distinct (map fst ts) \<and> (\<forall>k t. map_of ts k = Some t \<longrightarrow> dt_naive t)"

definition om_wf :: "order_manager \<Rightarrow> bool" where
  "om_wf om \<longleftrightarrow> positions_ok (om_positions om) \<and> orders_ok (om_orders om) \<and> stamps_ok (om_pending_order_timestamps om)"

lemma positions_ok_update: "positions_ok ps \<Longrightarrow> position_ok k p \<Longrightarrow> positions_ok (AList.update k p ps)"
  by (auto simp: positions_ok_def distinct_update dict_simps split: if_splits)

lemma positions_ok_delete: "positions_ok ps \<Longrightarrow> positions_ok (AList.delete k ps)"
  by (auto simp: positions_ok_def distinct_delete dict_simps split: if_splits)

lemma orders_ok_update: "orders_ok os \<Longrightarrow> od_order_id x = k \<Longrightarrow> orders_ok (AList.update k x os)"
  by (auto simp: orders_ok_def distinct_update dict_simps split: if_splits)

lemma stamps_ok_update: "stamps_ok ts \<Longrightarrow> dt_naive t \<Longrightarrow> stamps_ok (AList.update k t ts)"
  by (auto simp: stamps_ok_def distinct_update dict_simps split: if_splits)

lemma stamps_ok_delete: "stamps_ok ts \<Longrightarrow> stamps_ok (AList.delete k ts)"
  by (auto simp: stamps_ok_def distinct_delete dict_simps split: if_splits)

lemmas books_ok_intros = positions_ok_update positions_ok_delete orders_ok_update stamps_ok_update stamps_ok_delete

lemma trigger_frames [simp]:
  "om_positions (om_trigger_callback e x om) = om_positions om"
  "om_orders (om_trigger_callback e x om) = om_orders om"
  "om_pending_order_timestamps (om_trigger_callback e x om) = om_pending_order_timestamps om"
  "om_locally_filled_order_ids (om_trigger_callback e x om) = om_locally_filled_order_ids om"
  "om_pending_timeout_config (om_trigger_callback e x om) = om_pending_timeout_config om"
  "om_position_config (om_trigger_callback e x om) = om_position_config om"
  "om_callbacks (om_trigger_callback e x om) = om_callbacks om"
  by (simp_all add: om_trigger_callback_def split: option.split)

lemma wire_frames [simp]:
  "om_positions (om_wire_live_callbacks om) = om_positions om"
  "om_orders (om_wire_live_callbacks om) = om_orders om"
  "om_pending_order_timestamps (om_wire_live_callbacks om) = om_pending_order_timestamps om"
  by (simp_all add: om_wire_live_callbacks_def split: option.split)

lemma created_ok: "om_create_position_from_order now x = Some p \<Longrightarrow> position_ok (po_position_id p) p"
  by (auto simp: om_create_position_from_order_def position_ok_def split: if_splits)

lemma created_id: "om_create_position_from_order now x = Some p \<Longrightarrow> po_position_id p = ''POS_'' @ od_order_id x \<and> po_status p = OPEN"
  by (auto simp: om_create_position_from_order_def split: if_splits)

lemma om_wf_put_position: "om_wf om \<Longrightarrow> position_ok (po_position_id p) p \<Longrightarrow> om_wf (om_put_position p om)"
  by (simp add: om_wf_def books_ok_intros om_put_position_def)

lemma om_wf_put_order: "om_wf om \<Longrightarrow> om_wf (om_put_order x om)"
  by (simp add: om_wf_def books_ok_intros om_put_order_def)

lemma om_wf_trigger [simp]: "om_wf (om_trigger_callback e x om) = om_wf om"
  by (simp add: om_wf_def)

lemma om_wf_unstamp: "om_wf om \<Longrightarrow> om_wf (om_clear_stamp x om)"
  by (simp add: om_wf_def books_ok_intros om_clear_stamp_def)

lemma om_wf_local [simp]: "om_wf (om\<lparr>om_locally_filled_order_ids := xs\<rparr>) = om_wf om"
  by (simp add: om_wf_def)

lemmas om_wf_intros = om_wf_put_position om_wf_put_order om_wf_unstamp created_ok

lemma closed_ok: "position_ok k p \<Longrightarrow> om_close now k p x r cs om = (p', om') \<Longrightarrow> position_ok k p'"
  by (auto simp: om_close_def position_ok_def Let_def)

lemma close_frames:
  "om_close now k p x r cs om = (p', om') \<Longrightarrow>
     om_positions om' = AList.update k p' (om_positions om) \<and> om_orders om' = om_orders om \<and>
     om_pending_order_timestamps om' = om_pending_order_timestamps om"
  by (auto simp: om_close_def Let_def)

lemma om_wf_positions:
  "om_wf om \<Longrightarrow> om_positions om' = AList.update k p (om_positions om) \<Longrightarrow> om_orders om' = om_orders om \<Longrightarrow>
     om_pending_order_timestamps om' = om_pending_order_timestamps om \<Longrightarrow> position_ok k p \<Longrightarrow> om_wf om'"
  by (simp add: om_wf_def books_ok_intros)

lemma om_wf_lookup: "om_wf om \<Longrightarrow> map_of (om_positions om) k = Some p \<Longrightarrow> position_ok k p"
  by (simp add: om_wf_def positions_ok_def)

lemma market_wf: "om_wf om \<Longrightarrow> om_wf (snd (om_execute_market_order now s d v sl tp c om))"
  by (auto simp: om_execute_market_order_def Let_def split: option.split intro!: om_wf_intros)

lemma paper_wf: "om_wf om \<Longrightarrow> om_wf (snd (om_execute_paper_order now u a om))"
  by (auto simp: om_execute_paper_order_def Let_def split: option.split intro!: om_wf_intros)

lemma live_outcome_wf:
  assumes "om_wf om"
  shows "om_wf (snd (om_live_outcome now x om))"
proof -
  have "om_wf (om\<lparr>om_pending_order_timestamps := AList.update (od_order_id x) (Naive now) (om_pending_order_timestamps om)\<rparr>)"
    using assms by (simp add: om_wf_def books_ok_intros)
  then show ?thesis
    using assms by (auto simp: om_live_outcome_def Let_def split: option.split intro!: om_wf_intros)
qed

lemma live_wf: "om_wf om \<Longrightarrow> om_wf (snd (om_execute_live_order now sent a om))"
  by (auto simp: om_execute_live_order_def Let_def split: option.split intro!: live_outcome_wf om_wf_intros)

lemma filled_wf: "om_wf om \<Longrightarrow> om_wf (om_on_filled now x om)"
  by (auto simp: om_on_filled_def Let_def split: option.split intro!: om_wf_intros)

lemma final_wf: "om_wf om \<Longrightarrow> om_wf (om_on_final e x om)"
  by (auto simp: om_on_final_def Let_def split: option.split intro!: om_wf_intros)

lemma rename_wf:
  assumes "om_wf om"
  shows "om_wf (om_update_position_id i j om)"
proof (cases "map_of (om_positions om) i")
  case (Some p)
  then have "position_ok j (p\<lparr>po_position_id := j\<rparr>)" using om_wf_lookup[OF assms] position_ok_rename by blast
  with assms Some show ?thesis by (auto simp: om_update_position_id_def om_wf_def books_ok_intros)
qed (use assms in \<open>simp add: om_update_position_id_def\<close>)

lemma set_tp_wf:
  assumes "om_wf om" and "set_tp_levels k a b om = Some om'"
  shows "om_wf om'"
proof -
  obtain p where p: "map_of (om_positions om) k = Some p"
    and om': "om' = om\<lparr>om_positions := AList.update k (p\<lparr>po_take_profit_2 := a, po_take_profit_3 := b\<rparr>) (om_positions om)\<rparr>"
    using assms(2) by (auto simp: set_tp_levels_def split: option.splits)
  have "position_ok k (p\<lparr>po_take_profit_2 := a, po_take_profit_3 := b\<rparr>)"
    using om_wf_lookup[OF assms(1) p] by simp
  with assms(1) show ?thesis by (simp add: om' om_wf_def books_ok_intros)
qed

lemma tp_by_broker_wf: "om_wf om \<Longrightarrow> tp_by_broker_id i a b os om = Some om' \<Longrightarrow> om_wf om'"
  by (induction i a b os om rule: tp_by_broker_id.induct) (auto split: if_splits option.splits dest: set_tp_wf)

lemma tp_levels_wf: "om_wf om \<Longrightarrow> om_wf (snd (om_update_position_tp_levels i a b om))"
  by (auto simp: om_update_position_tp_levels_def Let_def split: option.split pid_arg.split if_splits
      dest: set_tp_wf tp_by_broker_wf)

lemma update_wf:
  assumes "om_wf om"
  shows "om_wf (snd (om_update_position now i price bid ask cs om))"
proof (cases "map_of (om_positions om) i")
  case (Some p0)
  define size where "size = om_resolve_contract_size (po_symbol p0) cs"
  define p where "p = p0\<lparr>po_current_price := price, po_unrealized_pnl := exit_pnl p0
      (if po_direction p0 = LONG then (if bid > 0 then bid else price) else (if ask > 0 then ask else price)) size\<rparr>"
  define om1 where "om1 = om\<lparr>om_positions := AList.update i p (om_positions om)\<rparr>"
  have p: "position_ok i p" using om_wf_lookup[OF assms Some] by (simp add: p_def)
  have om1: "om_wf om1" using assms p by (simp add: om1_def om_wf_def books_ok_intros)
  have close: "om_wf om2" if "om_close now i p x r (Some size) om1 = (p', om2)" for x r p' om2
    using om_wf_positions[OF om1 _ _ _ closed_ok[OF p that]] close_frames[OF that] by blast
  show ?thesis
    using Some om1 close
    by (auto simp: om_update_position_def Let_def size_def[symmetric] p_def[symmetric] om1_def[symmetric] split: prod.split)
qed (use assms in \<open>simp add: om_update_position_def\<close>)

lemma close_wf:
  assumes "om_wf om"
  shows "om_wf (snd (om_close_position now i x r cs om))"
proof (cases "map_of (om_positions om) i")
  case (Some p)
  then show ?thesis
    using om_wf_positions[OF assms _ _ _ closed_ok[OF om_wf_lookup[OF assms Some]]] close_frames
    by (auto simp: om_close_position_def split: prod.split)
qed (use assms in \<open>simp add: om_close_position_def\<close>)

text \<open>Every stored time stamp is naive, so the first one makes the comparison raise.\<close>

lemma timeout_raises:
  assumes "om_wf om"
  shows "om_check_pending_orders_timeout now om =
     (if om_pending_order_timestamps om = [] then Ret [] om else Exc TypeError om)"
proof (cases "om_pending_order_timestamps om")
  case (Cons e rest)
  obtain k t where e: "e = (k, t)" by (cases e)
  have "dt_naive t" using assms Cons e by (auto simp: om_wf_def stamps_ok_def dest: spec[of _ k])
  then obtain w where "t = Naive w" by (cases t) auto
  then show ?thesis using Cons e by (simp add: om_check_pending_orders_timeout_def)
qed (simp add: om_check_pending_orders_timeout_def)

lemma om_step_wf: "om_wf om \<Longrightarrow> om_wf (om_step om (now, e))"
proof (cases e)
  case ETimeout
  then show "om_wf om \<Longrightarrow> om_wf (om_step om (now, e))" by (simp add: timeout_raises)
next
  case (EApi api)
  then show "om_wf om \<Longrightarrow> om_wf (om_step om (now, e))"
    by (auto simp: om_set_api_client_def om_wf_def Let_def split: option.split)
next
  case (ERegister ev c)
  then show "om_wf om \<Longrightarrow> om_wf (om_step om (now, e))"
    by (auto simp: om_register_callback_def om_wf_def split: option.split)
qed (simp_all add: market_wf paper_wf live_wf filled_wf final_wf om_on_rejected_def om_on_cancelled_def rename_wf
    tp_levels_wf update_wf close_wf)

interpretation order_books: invariant_machine om_step "\<lambda>_. True" om_wf
  by unfold_locales (metis om_step_wf prod.collapse)

lemma om_init_wf: "om_wf (om_init cfg api timeout)"
  by (auto simp: om_init_def om_wf_def positions_ok_def orders_ok_def stamps_ok_def Let_def
      om_wire_live_callbacks_def split: option.split)

text \<open>
  C26. The books of the order manager over every run of its operations and of broker events, in any order and
  at any times: positions and orders stand once each under their own identifier, every position is open
  or closed, closed exactly when it has a closing time and price, and an open one has realised nothing.
\<close>

theorem order_books_sound:
  "let om = foldl om_step (om_init cfg api timeout) es in
     distinct (map fst (om_positions om)) \<and>
     (case map_of (om_positions om) k of None \<Rightarrow> True | Some p \<Rightarrow> position_ok k p) \<and>
     (case map_of (om_orders om) k of None \<Rightarrow> True | Some x \<Rightarrow> od_order_id x = k)"
proof -
  have "om_wf (foldl om_step (om_init cfg api timeout) es)"
    by (rule order_books.run_inv[OF om_init_wf]) (simp add: list_all_iff)
  then show ?thesis unfolding Let_def
    by (auto simp: om_wf_def positions_ok_def orders_ok_def split: option.split)
qed

text \<open>
  A pending order never times out: over every run the timeout check either has nothing to look at
  or raises a TypeError, because the stored times are naive and its clock is aware; it changes no
  order and reports none as expired.
\<close>

theorem order_timeout_never_expires:
  "let om = foldl om_step (om_init cfg api timeout) es in
     om_check_pending_orders_timeout now om =
       (if om_pending_order_timestamps om = [] then Ret [] om else Exc TypeError om)"
proof -
  have "om_wf (foldl om_step (om_init cfg api timeout) es)"
    by (rule order_books.run_inv[OF om_init_wf]) (simp add: list_all_iff)
  then show ?thesis unfolding Let_def by (rule timeout_raises)
qed

section \<open>An abstract ledger\<close>

text \<open>
  What the manager promises about positions, without orders, prices and callbacks: a ledger
  of open and closed positions, in which each operation opens one position, settles one, renames
  one, or changes nothing.
\<close>

datatype ledger_entry = LOpen | LSettled flt

type_synonym ledger = "string \<Rightarrow> ledger_entry option"

inductive ledger_step :: "ledger \<Rightarrow> ledger \<Rightarrow> bool" where
  ledger_stutter: "ledger_step m m"
| ledger_open: "ledger_step m (m(''POS_'' @ i \<mapsto> LOpen))"
| ledger_settle: "m k \<noteq> None \<Longrightarrow> ledger_step m (m(k \<mapsto> LSettled x))"
| ledger_rename: "m i = Some e \<Longrightarrow> ledger_step m ((m(i := None))(j \<mapsto> e))"

definition entry_of :: "position \<Rightarrow> ledger_entry" where
  "entry_of p = (if po_status p = OPEN then LOpen else LSettled (po_closed_pnl p))"

definition ledger_of :: "order_manager \<Rightarrow> ledger" where
  "ledger_of om = (\<lambda>k. map_option entry_of (map_of (om_positions om) k))"

lemma entry_of_frames [simp]:
  "entry_of (p\<lparr>po_take_profit_2 := a, po_take_profit_3 := b\<rparr>) = entry_of p"
  "entry_of (p\<lparr>po_current_price := x, po_unrealized_pnl := y\<rparr>) = entry_of p"
  "entry_of (p\<lparr>po_position_id := i\<rparr>) = entry_of p"
  by (simp_all add: entry_of_def)

lemma ledger_cong: "om_positions om' = om_positions om \<Longrightarrow> ledger_of om' = ledger_of om"
  by (simp add: ledger_of_def)

lemma ledger_update:
  "om_positions om' = AList.update k p (om_positions om) \<Longrightarrow> ledger_of om' = (ledger_of om)(k \<mapsto> entry_of p)"
  by (auto simp: ledger_of_def dict_simps)

lemma ledger_open_created:
  assumes "om_create_position_from_order now x = Some p" and "om_positions om' = om_positions (om_put_position p om)"
  shows "ledger_step (ledger_of om) (ledger_of om')"
proof -
  have "om_positions om' = AList.update (''POS_'' @ od_order_id x) p (om_positions om)" and "entry_of p = LOpen"
    using assms created_id[OF assms(1)] by (auto simp: om_put_position_def entry_of_def)
  then show ?thesis using ledger_update ledger_open by metis
qed

lemma ledger_step_close:
  assumes "om_close now k p x r cs om = (p', om')" and "ledger_of om k \<noteq> None"
  shows "ledger_step (ledger_of om) (ledger_of om')"
proof -
  have "entry_of p' = LSettled (po_closed_pnl p')"
    using assms(1) by (auto simp: om_close_def entry_of_def Let_def)
  then show ?thesis using ledger_update close_frames[OF assms(1)] ledger_settle[of "ledger_of om" k] assms(2) by metis
qed

lemma ledger_touch:
  assumes "map_of (om_positions om) k = Some p" and "entry_of p' = entry_of p"
    and "om_positions om' = AList.update k p' (om_positions om)"
  shows "ledger_of om' = ledger_of om"
  unfolding ledger_update[OF assms(3)] by (rule ext) (simp add: ledger_of_def assms)

lemma set_tp_ledger:
  assumes "set_tp_levels k a b om = Some om'"
  shows "ledger_of om' = ledger_of om"
proof -
  obtain p where p: "map_of (om_positions om) k = Some p"
    and om': "om' = om\<lparr>om_positions := AList.update k (p\<lparr>po_take_profit_2 := a, po_take_profit_3 := b\<rparr>) (om_positions om)\<rparr>"
    using assms by (auto simp: set_tp_levels_def split: option.splits)
  show ?thesis by (rule ledger_touch[OF p]) (simp_all add: om')
qed

lemma tp_by_broker_ledger: "tp_by_broker_id i a b os om = Some om' \<Longrightarrow> ledger_of om' = ledger_of om"
  by (induction i a b os om rule: tp_by_broker_id.induct) (auto split: if_splits option.splits dest: set_tp_ledger)

lemma tp_levels_ledger: "ledger_of (snd (om_update_position_tp_levels i a b om)) = ledger_of om"
  by (auto simp: om_update_position_tp_levels_def Let_def split: option.split pid_arg.split if_splits
      dest: set_tp_ledger tp_by_broker_ledger)

lemma live_outcome_ledger:
  assumes "om_positions om1 = om_positions om"
  shows "ledger_step (ledger_of om) (ledger_of (snd (om_live_outcome now x om1)))"
proof (cases "om_create_position_from_order now x")
  case None
  then have "om_positions (snd (om_live_outcome now x om1)) = om_positions om1"
    by (simp add: om_live_outcome_def Let_def)
  then show ?thesis using assms ledger_cong ledger_stutter by metis
next
  case (Some p)
  then have "om_positions (snd (om_live_outcome now x om1)) = om_positions (om_put_position p om)"
    using assms by (auto simp: om_live_outcome_def Let_def om_create_position_from_order_def om_put_position_def split: if_splits)
  then show ?thesis by (rule ledger_open_created[OF Some])
qed

lemma put_order_positions [simp]: "om_positions (om_put_order x om) = om_positions om"
  by (simp add: om_put_order_def)

lemma clear_stamp_positions [simp]: "om_positions (om_clear_stamp x om) = om_positions om"
  by (simp add: om_clear_stamp_def)

lemma live_ledger: "ledger_step (ledger_of om) (ledger_of (snd (om_execute_live_order now sent a om)))"
  by (auto simp: om_execute_live_order_def Let_def intro: ledger_stutter live_outcome_ledger split: option.split)

lemma opened_ledger:
  assumes "om_positions om' = om_positions (case om_create_position_from_order now x of None \<Rightarrow> om | Some p \<Rightarrow> om_put_position p om)"
  shows "ledger_step (ledger_of om) (ledger_of om')"
proof (cases "om_create_position_from_order now x")
  case None
  with assms have "ledger_of om' = ledger_of om" by (intro ledger_cong) simp
  then show ?thesis by (simp add: ledger_stutter)
qed (use assms ledger_open_created in \<open>auto\<close>)

lemma put_position_cong: "om_positions om = om_positions om' \<Longrightarrow> om_positions (om_put_position p om) = om_positions (om_put_position p om')"
  by (simp add: om_put_position_def)

lemma filled_ledger: "ledger_step (ledger_of om) (ledger_of (om_on_filled now ordo om))"
proof (cases ordo)
  case (Some x)
  show ?thesis
  proof (cases "od_order_id x \<notin> set (om_locally_filled_order_ids om) \<and> map_of (om_orders om) (od_order_id x) \<noteq> None")
    case True
    show ?thesis
      by (rule opened_ledger[where x = x and now = now])
        (use True Some in \<open>auto simp: om_on_filled_def Let_def om_put_position_def split: option.split\<close>)
  next
    case False
    with Some have "om_positions (om_on_filled now ordo om) = om_positions om"
      by (auto simp: om_on_filled_def)
    then show ?thesis using ledger_cong ledger_stutter by metis
  qed
qed (simp add: om_on_filled_def ledger_stutter)

lemma update_ledger: "ledger_step (ledger_of om) (ledger_of (snd (om_update_position now i price bid ask cs om)))"
proof (cases "map_of (om_positions om) i")
  case (Some p0)
  define size where "size = om_resolve_contract_size (po_symbol p0) cs"
  define p where "p = p0\<lparr>po_current_price := price, po_unrealized_pnl := exit_pnl p0
      (if po_direction p0 = LONG then (if bid > 0 then bid else price) else (if ask > 0 then ask else price)) size\<rparr>"
  define om1 where "om1 = om\<lparr>om_positions := AList.update i p (om_positions om)\<rparr>"
  have l: "ledger_of om1 = ledger_of om" by (rule ledger_touch[OF Some]) (simp_all add: p_def om1_def)
  moreover have "ledger_of om1 i \<noteq> None" by (simp add: ledger_of_def om1_def dict_simps)
  ultimately have close: "ledger_step (ledger_of om) (ledger_of om2)" if "om_close now i p x r (Some size) om1 = (p', om2)" for x r p' om2
    using ledger_step_close[OF that] by simp
  show ?thesis
    using Some l close ledger_stutter
    by (auto simp: om_update_position_def Let_def size_def[symmetric] p_def[symmetric] om1_def[symmetric] split: prod.split)
qed (simp add: om_update_position_def ledger_stutter)

lemma close_ledger: "ledger_step (ledger_of om) (ledger_of (snd (om_close_position now i x r cs om)))"
proof (cases "map_of (om_positions om) i")
  case (Some p)
  then have "ledger_of om i \<noteq> None" by (simp add: ledger_of_def)
  then show ?thesis using Some ledger_step_close by (auto simp: om_close_position_def split: prod.split)
qed (simp add: om_close_position_def ledger_stutter)

lemma rename_ledger: "ledger_step (ledger_of om) (ledger_of (om_update_position_id i j om))"
proof (cases "map_of (om_positions om) i")
  case (Some p)
  have "ledger_of (om_update_position_id i j om) = ((ledger_of om)(i := None))(j \<mapsto> entry_of p)"
    using Some by (auto simp: om_update_position_id_def ledger_of_def dict_simps)
  then show ?thesis using Some ledger_rename[of "ledger_of om" i "entry_of p" j] by (simp add: ledger_of_def)
qed (simp add: om_update_position_id_def ledger_stutter)

lemma timeout_loop_positions: "om_positions (state_of (timeout_loop now t ts ex om)) = om_positions om"
  by (induction now t ts ex om rule: timeout_loop.induct) (auto simp: Let_def split: sum.split option.split)

lemma timeout_positions: "om_positions (state_of (om_check_pending_orders_timeout now om)) = om_positions om"
proof -
  have "om_positions (foldl (\<lambda>om x. om_clear_stamp x om) om' xs) = om_positions om'"
    "om_positions (foldl (\<lambda>om x. om_trigger_callback e (CallOrder x) om) om' xs) = om_positions om'" for om' xs e
    by (induction xs arbitrary: om') auto
  then show ?thesis
    using timeout_loop_positions[of "Aware now 0" "pt_timeout_seconds (om_pending_timeout_config om)"
        "om_pending_order_timestamps om" "[]" om]
    by (cases "timeout_loop (Aware now 0) (pt_timeout_seconds (om_pending_timeout_config om)) (om_pending_order_timestamps om) [] om")
      (simp_all add: om_check_pending_orders_timeout_def Let_def)
qed

lemma om_frames_ledger: "om_positions om' = om_positions om \<Longrightarrow> ledger_step (ledger_of om) (ledger_of om')"
  using ledger_cong ledger_stutter by metis


section \<open>Live orders\<close>

text \<open>An order that may be sent, and a broker answer that counts as sent.\<close>

definition live_ready :: "live_args \<Rightarrow> order_manager \<Rightarrow> bool" where
  "live_ready a om \<longleftrightarrow>
     py_strip (la_symbol a) \<noteq> [] \<and> 0 < la_volume a \<and>
     (la_order_type a = MARKET \<or> or_default (la_price a) 0 \<noteq> 0) \<and>
     (case om_api_client om of None \<Rightarrow> False | Some api \<Rightarrow> \<not> ac_is_paper_mode api \<and> ac_is_connected api)"

definition answer_accepted :: "order \<Rightarrow> bool" where
  "answer_accepted x \<longleftrightarrow>
     od_status x \<noteq> REJECTED \<and> \<not> (od_status x = PENDING \<and> od_reason x = ''timeout_awaiting_event'')"

lemma live_outcome_result:
  "er_success (fst (om_live_outcome now x om)) \<longleftrightarrow> answer_accepted x"
  "er_position (fst (om_live_outcome now x om)) = om_create_position_from_order now x"
  "om_positions (snd (om_live_outcome now x om)) =
     (case om_create_position_from_order now x of None \<Rightarrow> om_positions om
      | Some p \<Rightarrow> AList.update (po_position_id p) p (om_positions om))"
  by (auto simp: om_live_outcome_def answer_accepted_def er_sent_def er_failure_def Let_def om_put_position_def
      om_create_position_from_order_def)

lemma live_unfold:
  "om_execute_live_order now sent a om =
     (if \<not> live_ready a om then (fst (om_execute_live_order now sent a om), om)
      else case sent of None \<Rightarrow> (er_failure None [Lit ''Failed to send order via cTrader connection''] ''send_failed'', om)
        | Some x \<Rightarrow>
            let x' = x\<lparr>od_take_profit_2 := la_take_profit_2 a, od_take_profit_3 := la_take_profit_3 a\<rparr>
            in om_live_outcome now x' (om_trigger_callback ''on_order_placed'' (CallOrder x') (om_put_order x' om)))"
  by (cases "la_order_type a") (auto simp: om_execute_live_order_def live_ready_def split: option.split)

lemma live_not_ready: "\<not> live_ready a om \<Longrightarrow> \<not> er_success (fst (om_execute_live_order now sent a om)) \<and>
    er_position (fst (om_execute_live_order now sent a om)) = None"
  by (cases "la_order_type a")
    (auto simp: om_execute_live_order_def live_ready_def er_failure_def not_less split: option.split)


section \<open>Fills\<close>

text \<open>
  A fill is booked once when the live order filled at once: the broker's own fill event for that order then
  only clears its mark and touches no order or position. But only once: the next fill event of the same
  order, like a repeated event of any order the manager knows, opens the position again, and a position that
  was closed meanwhile is open, with nothing realised.
\<close>

theorem order_repeated_fill_reopens:
  assumes "map_of (om_orders om) (od_order_id x) \<noteq> None" and "od_status x = FILLED"
    and "od_order_id x \<in> set (om_locally_filled_order_ids om)"
  shows "om_positions (om_on_filled now (Some x) om) = om_positions om \<and>
     om_orders (om_on_filled now (Some x) om) = om_orders om \<and> om_calls (om_on_filled now (Some x) om) = om_calls om \<and>
     (case map_of (om_positions (om_on_filled later (Some x) (om_on_filled now (Some x) om))) (''POS_'' @ od_order_id x) of
        None \<Rightarrow> False | Some p \<Rightarrow> po_status p = OPEN \<and> po_closed_pnl p = 0)"
proof -
  let ?om = "om\<lparr>om_locally_filled_order_ids := removeAll (od_order_id x) (om_locally_filled_order_ids om)\<rparr>"
  have one: "om_on_filled now (Some x) om = ?om" using assms(3) by (simp add: om_on_filled_def)
  obtain p where p: "om_create_position_from_order later x = Some p"
    using assms(2) by (simp add: om_create_position_from_order_def)
  have "om_positions (om_on_filled later (Some x) ?om) = AList.update (po_position_id p) p (om_positions om)"
    using assms(1) p by (simp add: om_on_filled_def Let_def om_put_position_def)
  then show ?thesis
    using one p created_id[OF p] by (auto simp: dict_simps om_create_position_from_order_def split: if_splits)
qed

definition demo_live :: live_args where
  "demo_live = \<lparr>la_symbol = ''EURUSD'', la_direction = LONG, la_volume = 1/10, la_order_type = MARKET, la_price = None,
     la_take_profit_2 = Some (112/100), la_take_profit_3 = None\<rparr>"

definition demo_fill :: order where
  "demo_fill = \<lparr>od_order_id = ''7'', od_symbol = ''EURUSD'', od_direction = LONG, od_order_type = MARKET, od_volume = 1/10,
     od_price = None, od_stop_loss = Some (109/100), od_take_profit = Some (111/100), od_status = FILLED,
     od_created_at = Naive 0, od_filled_at = Some (Naive 0), od_filled_price = Some (11/10), od_comment = [],
     od_position_id = Some 7, od_take_profit_2 = None, od_take_profit_3 = None, od_reason = []\<rparr>"

definition demo_om :: order_manager where
  "demo_om = om_init None (Some \<lparr>ac_is_paper_mode = False, ac_is_connected = True\<rparr>) None"

definition filled_om :: order_manager where
  "filled_om = snd (om_execute_live_order 0 (Some demo_fill) demo_live demo_om)"

lemma demo_live_ready: "live_ready demo_live demo_om"
proof -
  have "py_strip ''EURUSD'' \<noteq> []" by code_simp
  then show ?thesis by (simp add: live_ready_def demo_live_def demo_om_def om_init_def om_wire_live_callbacks_def Let_def)
qed

definition demo_filled :: order where
  "demo_filled = demo_fill\<lparr>od_take_profit_2 := Some (112/100), od_take_profit_3 := None\<rparr>"

lemma filled_om_eq:
  "filled_om = snd (om_live_outcome 0 demo_filled
     (om_trigger_callback ''on_order_placed'' (CallOrder demo_filled) (om_put_order demo_filled demo_om)))"
  unfolding filled_om_def
  by (subst live_unfold) (simp add: demo_live_ready Let_def demo_filled_def, simp add: demo_live_def)

lemma demo_filled_status: "od_status demo_filled = FILLED" "od_order_id demo_filled = ''7''"
  by (simp_all add: demo_filled_def demo_fill_def)

lemma filled_om_simps:
  "map_of (om_orders filled_om) ''7'' \<noteq> None" "''7'' \<in> set (om_locally_filled_order_ids filled_om)"
  unfolding filled_om_eq
  by (simp_all add: om_live_outcome_def demo_filled_status Let_def om_put_order_def om_put_position_def
      om_create_position_from_order_def dict_simps)

theorem order_repeated_fill_reopens_witness:
  "case map_of (om_positions (om_on_filled 2 (Some demo_fill) (om_on_filled 1 (Some demo_fill) filled_om))) ''POS_7'' of
     None \<Rightarrow> False | Some p \<Rightarrow> po_status p = OPEN \<and> po_closed_pnl p = 0"
  using order_repeated_fill_reopens[of filled_om demo_fill 1 2] filled_om_simps by (simp add: demo_fill_def)

text \<open>
  Closing is not idempotent: closing a position that is already closed at another price succeeds again and
  replaces its realised profit, and the callbacks of a closing are called again.
\<close>

theorem order_close_again:
  assumes "map_of (om_positions om) i = Some p" and "x \<noteq> 0" and "y \<noteq> 0"
    and "om_close_position now i (Some x) r cs om = (Some p1, om1)"
    and "om_close_position later i (Some y) r' cs om1 = (Some p2, om2)"
  shows "po_status p1 = CLOSED \<and> po_closed_pnl p1 = exit_pnl p x (om_resolve_contract_size (po_symbol p) cs) \<and>
     map_of (om_positions om2) i = Some p2 \<and> po_closed_pnl p2 = exit_pnl p y (om_resolve_contract_size (po_symbol p) cs) \<and>
     om_calls om2 = om_calls om1 @
       map (\<lambda>c. (c, ''on_position_closed'', CallPosition p2)) (or_default (map_of (om_callbacks om) ''on_position_closed'') [])"
proof -
  have cs: "om_resolve_contract_size s (Some c) = c" for s c by (simp add: om_resolve_contract_size_def)
  have p1: "p1 = p\<lparr>po_status := CLOSED, po_closed_at := Some (Naive now), po_closed_price := Some x,
        po_closed_pnl := exit_pnl p x (om_resolve_contract_size (po_symbol p) cs), po_close_reason := Some r\<rparr>"
    and om1: "map_of (om_positions om1) i = Some p1" "om_callbacks om1 = om_callbacks om"
    using assms(1,2,4) by (auto simp: om_close_position_def om_close_def cs Let_def dict_simps)
  then have "p2 = p1\<lparr>po_status := CLOSED, po_closed_at := Some (Naive later), po_closed_price := Some y,
        po_closed_pnl := exit_pnl p1 y (om_resolve_contract_size (po_symbol p1) cs), po_close_reason := Some r'\<rparr>"
    and "map_of (om_positions om2) i = Some p2"
    and "om_calls om2 = om_calls om1 @
       map (\<lambda>c. (c, ''on_position_closed'', CallPosition p2)) (or_default (map_of (om_callbacks om1) ''on_position_closed'') [])"
    using assms(3,5) by (auto simp: om_close_position_def om_close_def cs Let_def dict_simps om_trigger_callback_def split: option.split)
  then show ?thesis using om1 by (simp add: p1 exit_pnl_def)
qed

lemma filled_position: "map_of (om_positions filled_om) ''POS_7'' = om_create_position_from_order 0 demo_filled"
  unfolding filled_om_eq
  by (simp add: live_outcome_result) (simp add: om_create_position_from_order_def demo_filled_status dict_simps)

lemma eurusd_contract [simp]: "om_resolve_contract_size ''EURUSD'' None = 100000"
proof -
  have "get_symbol_info ''EURUSD'' = Inr (fx_info (1/10000) 10)" by code_simp
  then show ?thesis by (simp add: om_resolve_contract_size_def)
qed

theorem order_close_again_witness:
  "\<exists>p1 om1 p2 om2. om_close_position 5 ''POS_7'' (Some (12/10)) ''manual'' None filled_om = (Some p1, om1) \<and>
     om_close_position 6 ''POS_7'' (Some (13/10)) ''manual'' None om1 = (Some p2, om2) \<and>
     po_closed_pnl p1 = 1000 \<and> po_closed_pnl p2 = 2000"
proof -
  obtain p where p: "map_of (om_positions filled_om) ''POS_7'' = Some p"
    and pp: "po_direction p = LONG" "po_entry_price p = 11/10" "po_volume p = 1/10" "po_symbol p = ''EURUSD''"
    using filled_position by (simp add: om_create_position_from_order_def demo_filled_def demo_fill_def fill_or_price_def)
  obtain p1 om1 where c1: "om_close_position 5 ''POS_7'' (Some (12/10)) ''manual'' None filled_om = (Some p1, om1)"
    using p by (auto simp: om_close_position_def om_close_def Let_def)
  obtain p2 om2 where c2: "om_close_position 6 ''POS_7'' (Some (13/10)) ''manual'' None om1 = (Some p2, om2)"
    using c1 p by (auto simp: om_close_position_def om_close_def Let_def dict_simps split: prod.splits)
  show ?thesis using order_close_again[OF p _ _ c1 c2] c1 c2 pp by (auto simp: exit_pnl_def)
qed

section \<open>Stop loss and take profit\<close>

lemma hit_frames [simp]:
  "check_stop_loss_hit (p\<lparr>po_current_price := x, po_unrealized_pnl := y\<rparr>) bid ask = check_stop_loss_hit p bid ask"
  "check_take_profit_hit (p\<lparr>po_current_price := x, po_unrealized_pnl := y\<rparr>) price bid ask = check_take_profit_hit p price bid ask"
  "exit_pnl (p\<lparr>po_current_price := x, po_unrealized_pnl := y\<rparr>) e c = exit_pnl p e c"
  by (simp_all add: check_stop_loss_hit_def check_take_profit_hit_def exit_pnl_def cong: option.case_cong)

text \<open>
  What a price update does to an open position. The stop loss decides first and needs a quote of the exit side;
  its fill is that quote, so the realised profit is the unrealised profit just computed. A take profit of a
  long position is triggered and filled by the ask, where the unrealised profit and a stop loss use the
  bid: the realised profit is larger than the position is worth by the spread (a short one is the mirror
  image).
\<close>

theorem order_bracket_fill:
  assumes "map_of (om_positions om) i = Some p0" and "po_status p0 = OPEN" and "0 < bid" and "bid \<le> ask"
    and "om_update_position now i price bid ask cs om = (Some p, om')"
    and "csize = om_resolve_contract_size (po_symbol p0) cs"
  shows
    "po_unrealized_pnl p = exit_pnl p0 (if po_direction p0 = LONG then bid else ask) csize \<and>
     (if check_stop_loss_hit p0 bid ask then
        po_status p = CLOSED \<and> po_close_reason p = Some ''sl_hit'' \<and> po_closed_pnl p = po_unrealized_pnl p
      else if check_take_profit_hit p0 price bid ask then
        po_status p = CLOSED \<and> po_close_reason p = Some ''tp_hit'' \<and>
        po_closed_pnl p = po_unrealized_pnl p + (ask - bid) * po_volume p0 * csize
      else po_status p = OPEN \<and> po_closed_pnl p = po_closed_pnl p0) \<and>
     map_of (om_positions om') i = Some p"
proof -
  have cs: "om_resolve_contract_size s (Some c) = c" for s c by (simp add: om_resolve_contract_size_def)
  have ask: "0 < ask" "bid \<noteq> 0" "ask \<noteq> 0" using assms(3,4) by auto
  show ?thesis
  proof (cases "po_direction p0 = LONG")
    case True
    then have "exit_pnl p0 ask csize = exit_pnl p0 bid csize + (ask - bid) * po_volume p0 * csize"
      by (simp add: exit_pnl_def algebra_simps)
    then show ?thesis
      using assms True ask
      by (auto simp: om_update_position_def om_close_def Let_def cs dict_simps split: if_splits)
  next
    case False
    then have "exit_pnl p0 bid csize = exit_pnl p0 ask csize + (ask - bid) * po_volume p0 * csize"
      by (simp add: exit_pnl_def algebra_simps)
    then show ?thesis
      using assms False ask
      by (auto simp: om_update_position_def om_close_def Let_def cs dict_simps split: if_splits)
  qed
qed

lemma update_known:
  assumes "map_of (om_positions om) i = Some p0"
  shows "\<exists>p om'. om_update_position now i price bid ask cs om = (Some p, om')"
  using assms by (simp add: om_update_position_def om_close_def Let_def)

theorem order_bracket_fill_witness:
  "\<exists>p om'. om_update_position 3 ''POS_7'' (111/100) (1109/1000) (1110/1000) None filled_om = (Some p, om') \<and>
     po_close_reason p = Some ''tp_hit'' \<and> po_unrealized_pnl p = 90 \<and> po_closed_pnl p = 100"
proof -
  obtain p0 where p0: "map_of (om_positions filled_om) ''POS_7'' = Some p0"
    and pp: "po_direction p0 = LONG" "po_entry_price p0 = 11/10" "po_volume p0 = 1/10" "po_symbol p0 = ''EURUSD''"
      "po_status p0 = OPEN" "po_stop_loss p0 = Some (109/100)" "po_take_profit p0 = Some (111/100)"
    using filled_position by (simp add: om_create_position_from_order_def demo_filled_def demo_fill_def fill_or_price_def)
  obtain p om' where u: "om_update_position 3 ''POS_7'' (111/100) (1109/1000) (1110/1000) None filled_om = (Some p, om')"
    using update_known[OF p0] by blast
  have hits: "\<not> check_stop_loss_hit p0 (1109/1000) (1110/1000)" "check_take_profit_hit p0 (111/100) (1109/1000) (1110/1000)"
    by (simp_all add: check_stop_loss_hit_def check_take_profit_hit_def pp)
  show ?thesis
    using order_bracket_fill[OF p0 pp(5) _ _ u refl] hits u pp by (auto simp: exit_pnl_def)
qed

section \<open>Paper fills\<close>

text \<open>The price a market order would get without slippage.\<close>

definition quoted_price :: "paper_args \<Rightarrow> flt" where
  "quoted_price a =
     (if 0 < pa_bid a \<and> 0 < pa_ask a then (if pa_direction a = LONG then pa_ask a else pa_bid a)
      else if 0 < pa_spread a
      then (if pa_direction a = LONG then pa_entry_price a + pa_spread a / 2 else pa_entry_price a - pa_spread a / 2)
      else pa_entry_price a)"

lemma paper_fill_eq:
  "paper_fill_price u a slippage_model_default =
     (if pa_direction a = LONG then quoted_price a + (1/10 + u * (2/10)) / 10000
      else quoted_price a - (1/10 + u * (2/10)) / 10000)"
  by (simp add: paper_fill_price_def sm_apply_def sm_apply_with_spread_def quoted_price_def slippage_model_default_def Let_def)

lemma paper_exec_simps:
  "er_position (fst (om_execute_paper_order now u a om)) =
     (case er_order (fst (om_execute_paper_order now u a om)) of None \<Rightarrow> None | Some x \<Rightarrow> om_create_position_from_order now x)"
  "er_order (fst (om_execute_paper_order now u a om)) \<noteq> None"
  by (simp_all add: om_execute_paper_order_def Let_def)

text \<open>
  A paper order is always filled, always against the trader, and by little: a long one between 0.1 and 0.3
  default pips above the quote of its side (the ask, or the entry plus half the spread), any other between
  0.1 and 0.3 below; the position opens at the fill price (when that is not zero) with all three targets.
\<close>

theorem order_paper_fill_adverse:
  assumes "0 \<le> u" and "u < 1" and "om_slippage_model om = slippage_model_default"
    and "om_execute_paper_order now u a om = (res, om')"
  shows "er_success res \<and>
     (case er_position res of None \<Rightarrow> False | Some p \<Rightarrow>
        po_entry_price p = (let f = paper_fill_price u a slippage_model_default in if f \<noteq> 0 then f else pa_entry_price a) \<and>
        po_stop_loss p = pa_stop_loss a \<and> po_take_profit p = pa_take_profit a \<and>
        po_take_profit_2 p = pa_take_profit_2 a \<and> po_take_profit_3 p = pa_take_profit_3 a \<and>
        map_of (om_positions om') (po_position_id p) = Some p) \<and>
     (if pa_direction a = LONG
      then quoted_price a + 1/100000 \<le> paper_fill_price u a slippage_model_default \<and>
           paper_fill_price u a slippage_model_default < quoted_price a + 3/100000
      else quoted_price a - 3/100000 < paper_fill_price u a slippage_model_default \<and>
           paper_fill_price u a slippage_model_default \<le> quoted_price a - 1/100000)"
proof -
  have "1/100000 \<le> (1/10 + u * (2/10)) / 10000" "(1/10 + u * (2/10)) / 10000 < 3/100000"
    using assms(1,2) by (simp_all add: field_simps)
  moreover have "er_success res \<and> (case er_position res of None \<Rightarrow> False | Some p \<Rightarrow>
        po_entry_price p = (let f = paper_fill_price u a slippage_model_default in if f \<noteq> 0 then f else pa_entry_price a) \<and>
        po_stop_loss p = pa_stop_loss a \<and> po_take_profit p = pa_take_profit a \<and>
        po_take_profit_2 p = pa_take_profit_2 a \<and> po_take_profit_3 p = pa_take_profit_3 a \<and>
        map_of (om_positions om') (po_position_id p) = Some p)"
    using assms(3,4)
    by (auto simp: om_execute_paper_order_def om_create_position_from_order_def Let_def om_put_position_def fill_or_price_def
        dict_simps split: if_splits)
  ultimately show ?thesis unfolding paper_fill_eq by auto
qed

definition demo_paper :: paper_args where
  "demo_paper = \<lparr>pa_symbol = ''EURUSD'', pa_direction = LONG, pa_volume = 1/10, pa_entry_price = 11/10, pa_stop_loss = Some (109/100),
     pa_take_profit = Some (112/100), pa_take_profit_2 = None, pa_take_profit_3 = None, pa_comment = [], pa_spread = 0,
     pa_bid = 11/10, pa_ask = 1101/1000\<rparr>"

theorem order_paper_fill_adverse_witness:
  "1101/1000 + 1/100000 \<le> paper_fill_price (1/2) demo_paper slippage_model_default"
proof -
  have "om_slippage_model (om_init None None None) = slippage_model_default" by (simp add: om_init_def Let_def)
  from order_paper_fill_adverse[OF _ _ this prod.collapse[symmetric], of "1/2" 0 demo_paper] show ?thesis
    by (simp add: demo_paper_def quoted_price_def)
qed

section \<open>Position size\<close>

text \<open>
  The size of a position: with bounds in whole hundredths of a lot it is always within them, and when the
  risk budget asks for a size within the bounds, the loss at the stop differs from the budget by at most
  half a hundredth of a lot. It raises only for a blank symbol with a stop away from the entry.
\<close>

theorem order_size_bounds:
  assumes "pz_min_lot_size (om_position_config om) = of_int lo / 100"
    and "pz_max_lot_size (om_position_config om) = of_int hi / 100" and "lo \<le> hi"
    and "entry \<noteq> sl" and "get_symbol_info symbol = Inr info"
    and "per_lot = \<bar>entry - sl\<bar> / pip_size info * pip_value_per_lot info"
  shows "case om_calculate_position_size balance entry sl symbol om of
      Inl e \<Rightarrow> False
    | Inr lots \<Rightarrow> of_int lo / 100 \<le> lots \<and> lots \<le> of_int hi / 100 \<and>
        (let budget = balance * pz_risk_per_trade_pct (om_position_config om) in
         if of_int lo / 100 * per_lot \<le> budget \<and> budget \<le> of_int hi / 100 * per_lot
         then \<bar>lots * per_lot - budget\<bar> \<le> per_lot / 200 else True)"
proof -
  have pos: "0 < pip_size info" "0 < pip_value_per_lot info"
    using get_symbol_info_cases[of symbol] assms(5) pip_value_pos by auto
  then have per_lot: "0 < per_lot" using assms(4,6) by simp
  let ?budget = "balance * pz_risk_per_trade_pct (om_position_config om)"
  define raw where "raw = max (pz_min_lot_size (om_position_config om)) (min (?budget / per_lot) (pz_max_lot_size (om_position_config om)))"
  have lots: "om_calculate_position_size balance entry sl symbol om = Inr (py_round2 raw)"
    using assms(4,5,6) pos by (simp add: om_calculate_position_size_def Let_def raw_def)
  have le: "(of_int lo / 100 :: flt) \<le> of_int hi / 100" using assms(3) by (simp add: divide_right_mono)
  have "of_int lo / 100 \<le> raw" "raw \<le> of_int hi / 100"
    unfolding raw_def assms(1,2) using le by (simp_all add: max.bounded_iff min.coboundedI2 del: divide_le_cancel le_divide_eq_numeral1 divide_le_eq_numeral1)
  note between = py_round2_between[OF this]
  have near: "\<bar>py_round2 raw - raw\<bar> \<le> 1/200" by (rule py_round2_near)
  have "\<bar>py_round2 raw * per_lot - ?budget\<bar> \<le> per_lot / 200"
    if "of_int lo / 100 * per_lot \<le> ?budget" "?budget \<le> of_int hi / 100 * per_lot"
  proof -
    have "of_int lo / 100 \<le> ?budget / per_lot" "?budget / per_lot \<le> of_int hi / 100"
      using that by (simp_all only: pos_le_divide_eq[OF per_lot] pos_divide_le_eq[OF per_lot])
    then have "raw = ?budget / per_lot" unfolding raw_def assms(1,2) by (simp only: min_absorb1 max_absorb2)
    then have "py_round2 raw * per_lot - ?budget = (py_round2 raw - raw) * per_lot"
      using per_lot by (simp add: algebra_simps)
    then have "\<bar>py_round2 raw * per_lot - ?budget\<bar> = \<bar>py_round2 raw - raw\<bar> * per_lot"
      using per_lot by (simp add: abs_mult)
    then show ?thesis using mult_right_mono[OF near less_imp_le[OF per_lot]] by simp
  qed
  with between show ?thesis by (simp add: lots Let_def)
qed

theorem order_size_bounds_witness:
  "case om_calculate_position_size 10000 (11/10) (1098/1000) ''EURUSD'' (om_init None None None) of
     Inl e \<Rightarrow> False | Inr lots \<Rightarrow> 1/100 \<le> lots \<and> lots \<le> 1 \<and> \<bar>lots * 200 - 50\<bar> \<le> 1"
proof -
  have info: "get_symbol_info ''EURUSD'' = Inr (fx_info (1/10000) 10)" by code_simp
  have cfg: "om_position_config (om_init None None None) = position_size_config_default" by (simp add: om_init_def Let_def)
  have "case om_calculate_position_size 10000 (11/10) (1098/1000) ''EURUSD'' (om_init None None None) of
     Inl e \<Rightarrow> False
   | Inr lots \<Rightarrow> of_int 1 / 100 \<le> lots \<and> lots \<le> of_int 100 / 100 \<and>
       (let budget = 10000 * pz_risk_per_trade_pct (om_position_config (om_init None None None)) in
        if of_int 1 / 100 * 200 \<le> budget \<and> budget \<le> of_int 100 / 100 * 200
        then \<bar>lots * 200 - budget\<bar> \<le> 200 / 200 else True)"
    by (rule order_size_bounds[OF _ _ _ _ info]) (simp_all add: cfg position_size_config_default_def)
  then show ?thesis
    by (cases "om_calculate_position_size 10000 (11/10) (1098/1000) ''EURUSD'' (om_init None None None)")
      (simp_all add: cfg position_size_config_default_def Let_def)
qed

end
