(* ===== verification/PosMonitor.thy ===== *)
theory PosMonitor
  imports Orders
begin

text \<open>
  The position monitor of \<open>adapters/ctrader/position_monitor.py\<close>: excursions and water marks per
  tick, time exits, the TP2/TP3 ratchet with its broker amendments, drawdown alerts and the portfolio
  summary. The monitor reads and mutates the positions of the order manager, so its operations take and
  give the manager; the broker feed is two functions of the environment (\<open>resolve_symbol_id\<close> and
  \<open>amend_sl_tp\<close>, which may raise), and the calls of the slot tracker and of the alert callbacks, whose
  exceptions are swallowed, are recorded. The background thread's sleep is not modelled; one round of its
  loop is.
\<close>

section \<open>Data\<close>

record ratchet_action =
  ra_position_id :: string
  ra_level :: int
  ra_new_sl :: flt
  ra_new_tp :: flt
  ra_direction :: string
  ra_entry_price :: flt
  ra_amend_status :: string

record drawdown_alert =
  da_position_id :: string
  da_symbol :: string
  da_level :: string
  da_drawdown :: flt
  da_mfe :: flt
  da_current_pnl :: flt
  da_message :: ptext

datatype monitor_payload = PayloadId string | PayloadAlert drawdown_alert

record position_monitor =
  pm_max_trade_duration_sec :: flt
  pm_check_interval_sec :: flt
  pm_contract_sizes :: "(string \<times> flt) list"
  pm_has_feed :: bool
  pm_has_tracker :: bool
  pm_tracker_calls :: "(string \<times> flt) list"
  pm_amend_calls :: "(string \<times> flt \<times> flt \<times> int) list"
  pm_callbacks :: "(string \<times> nat list) list"
  pm_calls :: "(nat \<times> string \<times> monitor_payload) list"

text \<open>The broker feed during one call of the monitor.\<close>

record feed_env =
  fe_resolve_symbol_id :: "string \<Rightarrow> pyexn + int"
  fe_amend_sl_tp :: "string \<Rightarrow> flt \<Rightarrow> flt \<Rightarrow> int \<Rightarrow> pyexn + bool"

definition pm_init :: "flt \<Rightarrow> flt \<Rightarrow> (string \<times> flt) list \<Rightarrow> bool \<Rightarrow> bool \<Rightarrow> position_monitor" where
  "pm_init max_duration interval contract_sizes feed tracker =
     \<lparr>pm_max_trade_duration_sec = max_duration, pm_check_interval_sec = interval, pm_contract_sizes = contract_sizes,
      pm_has_feed = feed, pm_has_tracker = tracker, pm_tracker_calls = [], pm_amend_calls = [],
      pm_callbacks = [(''on_time_exit'', []), (''on_drawdown_warning'', []), (''on_drawdown_critical'', [])],
      pm_calls = []\<rparr>"

definition pm_contract_size_for :: "position_monitor \<Rightarrow> string \<Rightarrow> flt" where
  "pm_contract_size_for pm symbol = dget_or (pm_contract_sizes pm) symbol 100000"

definition pm_set_market_feed :: "bool \<Rightarrow> position_monitor \<Rightarrow> position_monitor" where
  "pm_set_market_feed feed pm = pm\<lparr>pm_has_feed := feed\<rparr>"

definition pm_set_slot_tracker :: "bool \<Rightarrow> position_monitor \<Rightarrow> position_monitor" where
  "pm_set_slot_tracker tracker pm = pm\<lparr>pm_has_tracker := tracker\<rparr>"

definition pm_register_callback :: "string \<Rightarrow> nat \<Rightarrow> position_monitor \<Rightarrow> position_monitor" where
  "pm_register_callback event callback pm =
     (case map_of (pm_callbacks pm) event of
        None \<Rightarrow> pm
      | Some cs \<Rightarrow> pm\<lparr>pm_callbacks := AList.update event (cs @ [callback]) (pm_callbacks pm)\<rparr>)"

definition pm_trigger_callbacks :: "string \<Rightarrow> monitor_payload \<Rightarrow> position_monitor \<Rightarrow> position_monitor" where
  "pm_trigger_callbacks event payload pm =
     (case map_of (pm_callbacks pm) event of
        None \<Rightarrow> pm
      | Some cs \<Rightarrow> pm\<lparr>pm_calls := pm_calls pm @ map (\<lambda>c. (c, event, payload)) cs\<rparr>)"

section \<open>Per-tick tracking\<close>

definition tick_pnl :: "flt \<Rightarrow> flt \<Rightarrow> flt \<Rightarrow> position \<Rightarrow> flt" where
  "tick_pnl cs bid ask p =
     (if po_direction p = LONG
      then ((if bid > 0 then bid else po_current_price p) - po_entry_price p) * po_volume p * cs
      else (po_entry_price p - (if ask > 0 then ask else po_current_price p)) * po_volume p * cs)"

definition update_excursions :: "flt \<Rightarrow> flt \<Rightarrow> flt \<Rightarrow> position \<Rightarrow> position" where
  "update_excursions cs bid ask p =
     (let current_pnl = tick_pnl cs bid ask p;
          p1 = (if current_pnl > po_max_favorable_excursion p
                then p\<lparr>po_max_favorable_excursion := current_pnl\<rparr> else p)
      in if current_pnl < po_max_adverse_excursion p1
         then p1\<lparr>po_max_adverse_excursion := current_pnl\<rparr> else p1)"

definition update_water_marks :: "flt \<Rightarrow> flt \<Rightarrow> position \<Rightarrow> position" where
  "update_water_marks bid ask p =
     (if po_direction p = LONG then
        (let current = (if bid > 0 then bid else po_current_price p);
             p1 = (if po_high_water_mark p = 0 \<or> current > po_high_water_mark p
                   then p\<lparr>po_high_water_mark := current\<rparr> else p)
         in if po_low_water_mark p1 = 0 \<or> current < po_low_water_mark p1
            then p1\<lparr>po_low_water_mark := current\<rparr> else p1)
      else
        (let current = (if ask > 0 then ask else po_current_price p);
             p1 = (if po_high_water_mark p = 0 \<or> current < po_high_water_mark p
                   then p\<lparr>po_high_water_mark := current\<rparr> else p)
         in if po_low_water_mark p1 = 0 \<or> current > po_low_water_mark p1
            then p1\<lparr>po_low_water_mark := current\<rparr> else p1))"

definition update_time_in_trade :: "instant \<Rightarrow> position \<Rightarrow> position" where
  "update_time_in_trade now p =
     p\<lparr>po_time_in_trade_sec := of_int (now - dt_instant (dt_as_utc (po_opened_at p))) / 1000000\<rparr>"

definition track_position ::
  "position_monitor \<Rightarrow> instant \<Rightarrow> (string \<times> flt) list \<Rightarrow> (string \<times> flt) list \<Rightarrow> (string \<times> flt) list \<Rightarrow> position \<Rightarrow> position" where
  "track_position pm now prices bids asks p =
     (case map_of prices (po_symbol p) of
        None \<Rightarrow> p
      | Some mid_price \<Rightarrow>
          let bid = dget_or bids (po_symbol p) mid_price; ask = dget_or asks (po_symbol p) mid_price
          in update_time_in_trade now
               (update_water_marks bid ask
                 (update_excursions (pm_contract_size_for pm (po_symbol p)) bid ask p)))"

section \<open>The TP2/TP3 ratchet\<close>

type_synonym 'a pm_result = "(position_monitor \<times> position, 'a) outcome"

definition fire_ratchet ::
  "feed_env \<Rightarrow> int \<Rightarrow> flt \<Rightarrow> flt \<Rightarrow> flt \<Rightarrow> position_monitor \<times> position \<Rightarrow> ratchet_action pm_result" where
  "fire_ratchet env level new_sl new_tp entry_price s =
     (case s of (pm, p) \<Rightarrow>
        let act = (\<lambda>status. \<lparr>ra_position_id = po_position_id p, ra_level = level, ra_new_sl = new_sl, ra_new_tp = new_tp,
              ra_direction = direction_value (po_direction p), ra_entry_price = entry_price, ra_amend_status = status\<rparr>)
        in if \<not> pm_has_feed pm then Ret (act ''no_feed'') (pm, p)
           else case fe_resolve_symbol_id env (po_symbol p) of
               Inl e \<Rightarrow> (if List.member [ValueError, KeyError, AttributeError] e
                        then Ret (act ''no_symbol_id'') (pm, p) else Exc e (pm, p))
             | Inr symbol_id \<Rightarrow>
                 let pm1 = pm\<lparr>pm_amend_calls := pm_amend_calls pm @ [(po_position_id p, new_sl, new_tp, symbol_id)]\<rparr>
                 in case fe_amend_sl_tp env (po_position_id p) new_sl new_tp symbol_id of
                      Inl e \<Rightarrow> Ret (act ''amend_failed'') (pm1, p)
                    | Inr amended \<Rightarrow>
                        if \<not> amended then Ret (act ''amend_failed'') (pm1, p)
                        else
                          let p1 = p\<lparr>po_tp_levels_fired := po_tp_levels_fired p @ [level], po_stop_loss := Some new_sl\<rparr>;
                              pm2 = (if pm_has_tracker pm1
                                     then pm1\<lparr>pm_tracker_calls := pm_tracker_calls pm1 @ [(po_position_id p, new_sl)]\<rparr>
                                     else pm1)
                          in Ret (act ''fired'') (pm2, p1))"

definition tp_crossed :: "position \<Rightarrow> flt \<Rightarrow> flt \<Rightarrow> bool" where
  "tp_crossed p price tp_value = (if po_direction p = LONG then price \<ge> tp_value else price \<le> tp_value)"

text \<open>One round of the loop over the levels 2 and 3.\<close>

definition ratchet_level :: "feed_env \<Rightarrow> flt \<Rightarrow> int \<Rightarrow> position_monitor \<times> position \<Rightarrow> ratchet_action list pm_result" where
  "ratchet_level env price level s =
     (let p = snd s in
      case (if level = 2 then po_take_profit_2 p else po_take_profit_3 p) of
        None \<Rightarrow> Ret [] s
      | Some tp_value \<Rightarrow>
          if level \<in> set (po_tp_levels_fired p) then Ret [] s
          else if \<not> tp_crossed p price tp_value then Ret [] s
          else if level = 2 then
            and_then (fire_ratchet env 2 (po_entry_price p) tp_value (po_entry_price p) s) (\<lambda>a s. Ret [a] s)
          else case po_take_profit_2 p of
              None \<Rightarrow> Ret [] s
            | Some tp2 \<Rightarrow> and_then (fire_ratchet env 3 tp2 tp_value (po_entry_price p) s) (\<lambda>a s. Ret [a] s))"

definition maybe_ratchet :: "feed_env \<Rightarrow> flt \<Rightarrow> position_monitor \<times> position \<Rightarrow> ratchet_action list pm_result" where
  "maybe_ratchet env price s =
     and_then (ratchet_level env price 2 s) (\<lambda>a2 s.
     and_then (ratchet_level env price 3 s) (\<lambda>a3 s. Ret (a2 @ a3) s))"

fun check_tp_loop ::
  "feed_env \<Rightarrow> (string \<times> flt) list \<Rightarrow> position list \<Rightarrow> ratchet_action list \<Rightarrow> position_monitor \<times> order_manager \<Rightarrow>
     (position_monitor \<times> order_manager, ratchet_action list) outcome" where
  "check_tp_loop env prices [] actions (pm, om) = Ret actions (pm, om)"
| "check_tp_loop env prices (p # ps) actions (pm, om) =
     (case map_of prices (po_symbol p) of
        None \<Rightarrow> check_tp_loop env prices ps actions (pm, om)
      | Some price \<Rightarrow>
          (case maybe_ratchet env price (pm, p) of
             Exc e (pm1, p1) \<Rightarrow> Exc e (pm1, om_put_position p1 om)
           | Ret as (pm1, p1) \<Rightarrow> check_tp_loop env prices ps (actions @ as) (pm1, om_put_position p1 om)))"

definition pm_check_tp_levels ::
  "feed_env \<Rightarrow> (string \<times> flt) list \<Rightarrow> position_monitor \<times> order_manager \<Rightarrow>
     (position_monitor \<times> order_manager, ratchet_action list) outcome" where
  "pm_check_tp_levels env prices s = check_tp_loop env prices (om_get_open_positions (snd s)) [] s"

text \<open>One tick: the open positions are tracked, then the ratchet runs on them.\<close>

definition pm_update_positions ::
  "feed_env \<Rightarrow> instant \<Rightarrow> (string \<times> flt) list \<Rightarrow> (string \<times> flt) list \<Rightarrow> (string \<times> flt) list \<Rightarrow>
     position_monitor \<times> order_manager \<Rightarrow> (position_monitor \<times> order_manager, ratchet_action list) outcome" where
  "pm_update_positions env now prices bids asks s =
     (case s of (pm, om) \<Rightarrow>
        pm_check_tp_levels env prices
          (pm, foldl (\<lambda>om p. om_put_position (track_position pm now prices bids asks p) om) om (om_get_open_positions om)))"

section \<open>Time exits, alerts and reports\<close>

definition pm_check_time_exits :: "position_monitor \<Rightarrow> order_manager \<Rightarrow> string list" where
  "pm_check_time_exits pm om =
     map po_position_id
       (filter (\<lambda>p. po_time_in_trade_sec p \<ge> pm_max_trade_duration_sec pm) (om_get_open_positions om))"

definition position_drawdown :: "position_monitor \<Rightarrow> position \<Rightarrow> flt" where
  "position_drawdown pm p =
     (let mfe = po_max_favorable_excursion p in
      if mfe > 0 then (mfe - po_unrealized_pnl p) / mfe
      else if po_max_adverse_excursion p < 0 then
        (let notional = po_volume p * pm_contract_size_for pm (po_symbol p)
         in if notional > 0 then \<bar>po_max_adverse_excursion p\<bar> / notional else 0)
      else 0)"

definition make_alert :: "string \<Rightarrow> string \<Rightarrow> flt \<Rightarrow> position \<Rightarrow> drawdown_alert" where
  "make_alert level prefix_text drawdown p =
     \<lparr>da_position_id = po_position_id p, da_symbol = po_symbol p, da_level = level, da_drawdown = py_round 4 drawdown,
      da_mfe = py_round2 (po_max_favorable_excursion p), da_current_pnl = py_round2 (po_unrealized_pnl p),
      da_message = [Lit prefix_text, FPercent 1 drawdown, Lit '' on '', Lit (po_symbol p), Lit '' (MFE='',
        FFix 2 (po_max_favorable_excursion p), Lit '', current='', FFix 2 (po_unrealized_pnl p), Lit '')'']\<rparr>"

definition alert_for :: "position_monitor \<Rightarrow> flt \<Rightarrow> flt \<Rightarrow> position \<Rightarrow> (string \<times> drawdown_alert) option" where
  "alert_for pm warning critical p =
     (let drawdown = position_drawdown pm p in
      if drawdown \<ge> critical then Some (''on_drawdown_critical'', make_alert ''critical'' ''CRITICAL drawdown '' drawdown p)
      else if drawdown \<ge> warning then Some (''on_drawdown_warning'', make_alert ''warning'' ''WARNING drawdown '' drawdown p)
      else None)"

fun alerts_loop :: "flt \<Rightarrow> flt \<Rightarrow> position list \<Rightarrow> drawdown_alert list \<Rightarrow> position_monitor \<Rightarrow> drawdown_alert list \<times> position_monitor" where
  "alerts_loop warning critical [] alerts pm = (alerts, pm)"
| "alerts_loop warning critical (p # ps) alerts pm =
     (case alert_for pm warning critical p of
        None \<Rightarrow> alerts_loop warning critical ps alerts pm
      | Some (event, a) \<Rightarrow>
          alerts_loop warning critical ps (alerts @ [a]) (pm_trigger_callbacks event (PayloadAlert a) pm))"

definition pm_get_portfolio_summary :: "bool \<Rightarrow> bool \<Rightarrow> position_monitor \<Rightarrow> order_manager \<Rightarrow> (string \<times> pyv) list" where
  "pm_get_portfolio_summary killed frozen pm om =
     (let ps = om_get_open_positions om;
          notional = map (\<lambda>p. po_volume p * pm_contract_size_for pm (po_symbol p)) ps;
          by_symbol = foldl (\<lambda>d p. AList.update (po_symbol p) (dget_or d (po_symbol p) 0 + 1) d) [] ps
      in [(''position_count'', PInt (int (length ps))),
          (''total_unrealized_pnl'', PFloat (py_round2 (sum_list (map po_unrealized_pnl ps)))),
          (''total_notional_exposure'', PFloat (py_round2 (sum_list notional))),
          (''positions_by_symbol'', PDict (map (\<lambda>(s, n). (s, PInt n)) by_symbol)),
          (''largest_position_notional'', PFloat (py_round2 (if notional = [] then 0 else Max (set notional)))),
          (''total_mfe'', PFloat (py_round2 (sum_list (map po_max_favorable_excursion ps)))),
          (''total_mae'', PFloat (py_round2 (sum_list (map po_max_adverse_excursion ps)))),
          (''is_killed'', PBool killed), (''is_frozen'', PBool frozen)])"

definition opt_flt :: "flt option \<Rightarrow> pyv" where
  "opt_flt x = (case x of None \<Rightarrow> PNone | Some v \<Rightarrow> PFloat v)"

definition pm_get_position_report :: "string \<Rightarrow> order_manager \<Rightarrow> (string \<times> pyv) list option" where
  "pm_get_position_report position_id om =
     (case om_get_position position_id om of
        None \<Rightarrow> None
      | Some p \<Rightarrow> Some
          [(''position_id'', pstr (po_position_id p)), (''symbol'', pstr (po_symbol p)),
           (''direction'', pstr (direction_value (po_direction p))), (''volume'', PFloat (po_volume p)),
           (''entry_price'', PFloat (po_entry_price p)), (''current_price'', PFloat (po_current_price p)),
           (''unrealized_pnl'', PFloat (py_round2 (po_unrealized_pnl p))),
           (''max_favorable_excursion (MFE)'', PFloat (py_round2 (po_max_favorable_excursion p))),
           (''max_adverse_excursion (MAE)'', PFloat (py_round2 (po_max_adverse_excursion p))),
           (''high_water_mark'', PFloat (po_high_water_mark p)), (''low_water_mark'', PFloat (po_low_water_mark p)),
           (''time_in_trade_sec'', PFloat (py_round 1 (po_time_in_trade_sec p))),
           (''status'', pstr (position_status_value (po_status p))), (''stop_loss'', opt_flt (po_stop_loss p)),
           (''take_profit'', opt_flt (po_take_profit p)),
           (''opened_at'', PStr [FIsoDt (po_opened_at p)])])"

end
