(* ===== verification/PosMonitorSafety.thy ===== *)
theory PosMonitorSafety
  imports PosMonitor
begin

text \<open>
  Correctness of the position monitor: excursions are the extremes of the profits seen, the ratchet
  fires each level at most once, what its stops do when amendments succeed and when one fails, and the
  alerts are those of the open positions.
\<close>

section \<open>Excursions\<close>

definition excursion_run :: "flt \<Rightarrow> (flt \<times> flt) list \<Rightarrow> position \<Rightarrow> position" where
  "excursion_run cs ticks p = foldl (\<lambda>p (bid, ask). update_excursions cs bid ask p) p ticks"

lemma update_excursions_simps [simp]:
  "po_max_favorable_excursion (update_excursions cs bid ask p) =
     max (po_max_favorable_excursion p) (tick_pnl cs bid ask p)"
  "po_max_adverse_excursion (update_excursions cs bid ask p) =
     min (po_max_adverse_excursion p) (tick_pnl cs bid ask p)"
  "tick_pnl cs' b a (update_excursions cs bid ask p) = tick_pnl cs' b a p"
  by (auto simp: update_excursions_def tick_pnl_def Let_def max_def min_def)

lemma excursion_run_extremes:
  "po_max_favorable_excursion (excursion_run cs ticks p) =
     fold max (map (\<lambda>(b, a). tick_pnl cs b a p) ticks) (po_max_favorable_excursion p) \<and>
   po_max_adverse_excursion (excursion_run cs ticks p) =
     fold min (map (\<lambda>(b, a). tick_pnl cs b a p) ticks) (po_max_adverse_excursion p)"
  unfolding excursion_run_def
proof (induction ticks arbitrary: p)
  case (Cons t ts)
  then show ?case by (cases t) (simp add: max.commute min.commute)
qed simp

text \<open>
  The incremental tracking equals the definition of the two excursions: over any ticks the favourable
  one is the largest and the adverse one the smallest of zero and the profits at the ticks, each valued at
  the side of the quote the position would be closed on.
\<close>

theorem monitor_excursions_extremal:
  assumes "po_max_favorable_excursion p = 0" and "po_max_adverse_excursion p = 0"
  shows "po_max_favorable_excursion (excursion_run cs ticks p) =
       Max (insert 0 ((\<lambda>(b, a). tick_pnl cs b a p) ` set ticks)) \<and>
     po_max_adverse_excursion (excursion_run cs ticks p) =
       Min (insert 0 ((\<lambda>(b, a). tick_pnl cs b a p) ` set ticks))"
  using assms excursion_run_extremes[of cs ticks p]
  by (simp only: Max.set_eq_fold[of 0 "map (\<lambda>(b, a). tick_pnl cs b a p) ticks", simplified list.set set_map]
      Min.set_eq_fold[of 0 "map (\<lambda>(b, a). tick_pnl cs b a p) ticks", simplified list.set set_map])

definition demo_position :: position where
  "demo_position = \<lparr>po_position_id = ''POS_1'', po_symbol = ''EURUSD'', po_direction = LONG, po_volume = 1/10, po_entry_price = 11/10,
     po_current_price = 11/10, po_stop_loss = Some (109/100), po_take_profit = Some (111/100), po_unrealized_pnl = 0,
     po_status = OPEN, po_opened_at = Naive 0, po_closed_at = None, po_closed_price = None, po_closed_pnl = 0,
     po_comment = [], po_max_favorable_excursion = 0, po_max_adverse_excursion = 0, po_time_in_trade_sec = 0,
     po_high_water_mark = 0, po_low_water_mark = 0, po_take_profit_2 = Some (112/100), po_take_profit_3 = Some (113/100),
     po_tp_levels_fired = [], po_close_reason = None\<rparr>"

theorem monitor_excursions_extremal_witness:
  "po_max_adverse_excursion (excursion_run 100000 [(109/100, 1091/1000), (112/100, 1121/1000)] demo_position) = - 100"
proof -
  have "po_max_favorable_excursion demo_position = 0" "po_max_adverse_excursion demo_position = 0"
    by (simp_all add: demo_position_def)
  from monitor_excursions_extremal[OF this, of 100000 "[(109/100, 1091/1000), (112/100, 1121/1000)]"] show ?thesis
    by (simp add: tick_pnl_def demo_position_def)
qed

section \<open>The ratchet\<close>

text \<open>Ticks of one position, each with the feed of that moment; an exception ends its tick.\<close>

fun ratchet_run :: "(feed_env \<times> flt) list \<Rightarrow> position_monitor \<times> position \<Rightarrow> ratchet_action list \<times> position_monitor \<times> position" where
  "ratchet_run [] s = ([], s)"
| "ratchet_run ((env, price) # ts) s =
     (case maybe_ratchet env price s of
        Ret as s1 \<Rightarrow> (case ratchet_run ts s1 of (bs, s2) \<Rightarrow> (as @ bs, s2))
      | Exc e s1 \<Rightarrow> ratchet_run ts s1)"

definition fired_actions :: "int \<Rightarrow> ratchet_action list \<Rightarrow> nat" where
  "fired_actions l as = length (filter (\<lambda>a. ra_level a = l \<and> ra_amend_status a = ''fired'') as)"

lemma fired_actions_simps [simp]:
  "fired_actions l [] = 0"
  "fired_actions l (a # as) = (if ra_level a = l \<and> ra_amend_status a = ''fired'' then 1 else 0) + fired_actions l as"
  "fired_actions l (as @ bs) = fired_actions l as + fired_actions l bs"
  by (simp_all add: fired_actions_def)

definition level_ok :: "int \<Rightarrow> position \<Rightarrow> position \<Rightarrow> ratchet_action list \<Rightarrow> bool" where
  "level_ok l p p' as \<longleftrightarrow>
     (p' = p \<and> fired_actions l as = 0 \<or>
      l \<notin> set (po_tp_levels_fired p) \<and> fired_actions l as \<le> 1 \<and>
        (\<exists>sl. p' = p\<lparr>po_tp_levels_fired := po_tp_levels_fired p @ [l], po_stop_loss := Some sl\<rparr>)) \<and>
     (\<forall>k. k \<noteq> l \<longrightarrow> fired_actions k as = 0)"

lemma ratchet_level_ok:
  assumes "l = 2 \<or> l = 3"
  shows "case ratchet_level env price l (pm, p) of
     Ret as (pm', p') \<Rightarrow> level_ok l p p' as
   | Exc e (pm', p') \<Rightarrow> p' = p"
  using assms
  by (auto simp: ratchet_level_def level_ok_def fire_ratchet_def Let_def split: option.split sum.split)

text \<open>A tick of the ladder appends fresh levels only.\<close>

definition fresh_levels :: "position \<Rightarrow> position \<Rightarrow> (int \<Rightarrow> nat) \<Rightarrow> bool" where
  "fresh_levels p p' n \<longleftrightarrow>
     (\<exists>ls. po_tp_levels_fired p' = po_tp_levels_fired p @ ls \<and> distinct ls \<and> set ls \<subseteq> {2, 3} \<and>
        set ls \<inter> set (po_tp_levels_fired p) = {} \<and> (\<forall>l. n l \<le> (if l \<in> set ls then 1 else 0)))"

lemma level_ok_fresh:
  assumes "l = 2 \<or> l = 3" and "level_ok l p p' as"
  shows "fresh_levels p p' (\<lambda>k. fired_actions k as)"
proof (cases "p' = p \<and> fired_actions l as = 0")
  case True
  then have "\<forall>k. fired_actions k as = 0" using assms(2) unfolding level_ok_def by metis
  then show ?thesis using True by (simp add: fresh_levels_def)
next
  case False
  then have "po_tp_levels_fired p' = po_tp_levels_fired p @ [l]" "l \<notin> set (po_tp_levels_fired p)"
    and "\<forall>k. fired_actions k as \<le> (if k \<in> set [l] then 1 else 0)"
    using assms(2) by (auto simp: level_ok_def)
  then show ?thesis using assms(1) unfolding fresh_levels_def by (intro exI[of _ "[l]"]) auto
qed

lemma fresh_levels_refl: "fresh_levels p p (\<lambda>l. 0)"
  by (auto simp: fresh_levels_def)

lemma fresh_levels_trans:
  assumes "fresh_levels p q m" and "fresh_levels q r n"
  shows "fresh_levels p r (\<lambda>l. m l + n l)"
proof -
  obtain ls where ls: "po_tp_levels_fired q = po_tp_levels_fired p @ ls" "distinct ls" "set ls \<subseteq> {2, 3}"
      "set ls \<inter> set (po_tp_levels_fired p) = {}" "\<forall>l. m l \<le> (if l \<in> set ls then 1 else 0)"
    using assms(1) by (auto simp: fresh_levels_def)
  obtain ks where ks: "po_tp_levels_fired r = po_tp_levels_fired q @ ks" "distinct ks" "set ks \<subseteq> {2, 3}"
      "set ks \<inter> set (po_tp_levels_fired q) = {}" "\<forall>l. n l \<le> (if l \<in> set ks then 1 else 0)"
    using assms(2) by (auto simp: fresh_levels_def)
  have "m l + n l \<le> (if l \<in> set (ls @ ks) then 1 else 0)" for l
    using ls(1) ls(5)[THEN spec, of l] ks(4) ks(5)[THEN spec, of l] by (auto split: if_splits)
  then show ?thesis
    unfolding fresh_levels_def using ls ks by (intro exI[of _ "ls @ ks"]) auto
qed

lemma fresh_levels_mono: "fresh_levels p q m \<Longrightarrow> (\<And>l. n l \<le> m l) \<Longrightarrow> fresh_levels p q n"
  unfolding fresh_levels_def by (meson order_trans)

lemma maybe_ratchet_fresh:
  "case maybe_ratchet env price (pm, p) of
     Ret as (pm', p') \<Rightarrow> fresh_levels p p' (\<lambda>l. fired_actions l as)
   | Exc e (pm', p') \<Rightarrow> fresh_levels p p' (\<lambda>l. 0)"
proof (cases "ratchet_level env price 2 (pm, p)")
  case (Ret as s1)
  obtain pm1 p1 where s1: "s1 = (pm1, p1)" by (cases s1)
  have one: "fresh_levels p p1 (\<lambda>l. fired_actions l as)"
    using ratchet_level_ok[where l = 2 and env = env and price = price and pm = pm and p = p] Ret s1 by (auto intro: level_ok_fresh)
  show ?thesis
  proof (cases "ratchet_level env price 3 (pm1, p1)")
    case (Ret bs s2)
    obtain pm2 p2 where s2: "s2 = (pm2, p2)" by (cases s2)
    have "fresh_levels p1 p2 (\<lambda>l. fired_actions l bs)"
      using ratchet_level_ok[where l = 3 and env = env and price = price and pm = pm1 and p = p1] Ret s2 by (auto intro: level_ok_fresh)
    from fresh_levels_trans[OF one this] show ?thesis
      using Ret s2 s1 \<open>ratchet_level env price 2 (pm, p) = Ret as s1\<close> by (simp add: maybe_ratchet_def)
  next
    case (Exc e s2)
    then have "snd s2 = p1" using ratchet_level_ok[where l = 3 and env = env and price = price and pm = pm1 and p = p1] by (auto split: prod.splits)
    then show ?thesis
      using Exc s1 \<open>ratchet_level env price 2 (pm, p) = Ret as s1\<close> fresh_levels_mono[OF one, of "\<lambda>l. 0"]
      by (auto simp: maybe_ratchet_def split: prod.split)
  qed
next
  case (Exc e s1)
  then have "snd s1 = p" using ratchet_level_ok[where l = 2 and env = env and price = price and pm = pm and p = p] by (auto split: prod.splits)
  then show ?thesis using Exc fresh_levels_refl by (auto simp: maybe_ratchet_def split: prod.split)
qed

lemma ratchet_run_fresh: "ratchet_run ts (pm, p) = (as, pm', p') \<Longrightarrow> fresh_levels p p' (\<lambda>l. fired_actions l as)"
proof (induction ts arbitrary: pm p as)
  case Nil
  then show ?case by (simp add: fresh_levels_refl)
next
  case (Cons t ts)
  obtain env price where t: "t = (env, price)" by (cases t)
  show ?case
  proof (cases "maybe_ratchet env price (pm, p)")
    case (Ret as1 s1)
    obtain pm1 p1 where s1: "s1 = (pm1, p1)" by (cases s1)
    obtain bs where bs: "ratchet_run ts (pm1, p1) = (bs, pm', p')" "as = as1 @ bs"
      using Cons.prems Ret t s1 by (auto split: prod.splits)
    have "fresh_levels p p1 (\<lambda>l. fired_actions l as1)"
      using maybe_ratchet_fresh[where env = env and price = price and pm = pm and p = p] Ret s1 by simp
    from fresh_levels_trans[OF this Cons.IH[OF bs(1)]] bs(2) show ?thesis by simp
  next
    case (Exc e s1)
    obtain pm1 p1 where s1: "s1 = (pm1, p1)" by (cases s1)
    have run: "ratchet_run ts (pm1, p1) = (as, pm', p')" using Cons.prems Exc t s1 by simp
    have "fresh_levels p p1 (\<lambda>l. 0)"
      using maybe_ratchet_fresh[where env = env and price = price and pm = pm and p = p] Exc s1 by simp
    from fresh_levels_trans[OF this Cons.IH[OF run]] show ?thesis by simp
  qed
qed

text \<open>
  C21. Idempotency of the ratchet: over any ticks, prices and answers of the broker, errors included, each of
  the levels 2 and 3 is reported as fired at most once, and a position that starts without fired
  levels records each at most once and no other level.
\<close>

theorem monitor_ratchet_fires_once:
  assumes "po_tp_levels_fired p = []" and "ratchet_run ts (pm, p) = (as, pm', p')"
  shows "fired_actions l as \<le> 1 \<and> distinct (po_tp_levels_fired p') \<and> set (po_tp_levels_fired p') \<subseteq> {2, 3} \<and>
     (if l \<in> set (po_tp_levels_fired p') then True else fired_actions l as = 0)"
proof -
  obtain ls where ls: "po_tp_levels_fired p' = ls" "distinct ls" "set ls \<subseteq> {2, 3}"
      "\<forall>l. fired_actions l as \<le> (if l \<in> set ls then 1 else 0)"
    using ratchet_run_fresh[OF assms(2)] assms(1) by (auto simp: fresh_levels_def)
  then show ?thesis using ls(4)[THEN spec, of l] by (auto split: if_splits)
qed

definition good_feed :: feed_env where
  "good_feed = \<lparr>fe_resolve_symbol_id = (\<lambda>s. Inr 1), fe_amend_sl_tp = (\<lambda>i sl tp s. Inr True)\<rparr>"

definition demo_monitor :: position_monitor where
  "demo_monitor = pm_init 14400 5 [] True True"

theorem monitor_ratchet_fires_once_witness:
  "fired_actions 2 (fst (ratchet_run [(good_feed, 112/100), (good_feed, 1125/1000)] (demo_monitor, demo_position))) \<le> 1"
proof -
  obtain as pm' p' where run: "ratchet_run [(good_feed, 112/100), (good_feed, 1125/1000)] (demo_monitor, demo_position) = (as, pm', p')"
    by (metis prod_cases3)
  have "po_tp_levels_fired demo_position = []" by (simp add: demo_position_def)
  from monitor_ratchet_fires_once[OF this run] run show ?thesis by simp
qed

text \<open>
  But an amendment that fails may loosen the stop later. When the price passes both targets of a long
  position in one tick and the broker refuses only the amendment of level 2, level 3 locks the stop at the
  second target; the next accepted tick still fires level 2, and moves the stop back to the entry and the
  target back to the second one.
\<close>

theorem monitor_ratchet_loosens_stop:
  assumes "pm_has_feed pm" and "po_direction p = LONG" and "po_tp_levels_fired p = []"
    and "po_take_profit_2 p = Some t2" and "po_take_profit_3 p = Some t3" and "po_entry_price p < t2" and "t2 < t3"
    and "t3 \<le> price" and "t2 \<le> price'"
    and "fe_resolve_symbol_id env (po_symbol p) = Inr i" and "fe_resolve_symbol_id env' (po_symbol p) = Inr i"
    and "fe_amend_sl_tp env (po_position_id p) (po_entry_price p) t2 i = Inr False"
    and "fe_amend_sl_tp env (po_position_id p) t2 t3 i = Inr True"
    and "fe_amend_sl_tp env' (po_position_id p) (po_entry_price p) t2 i = Inr True"
    and "ratchet_run [(env, price)] (pm, p) = (as, pm1, p1)" and "ratchet_run [(env', price')] (pm1, p1) = (bs, pm2, p2)"
  shows "po_stop_loss p1 = Some t2 \<and> po_stop_loss p2 = Some (po_entry_price p) \<and> po_entry_price p < t2 \<and>
     po_tp_levels_fired p2 = [3, 2] \<and>
     last (pm_amend_calls pm2) = (po_position_id p, po_entry_price p, t2, i)"
proof -
  have r1: "maybe_ratchet env price (pm, p) = Ret as (pm1, p1)"
    and p1: "p1 = p\<lparr>po_tp_levels_fired := [3], po_stop_loss := Some t2\<rparr>" and f1: "pm_has_feed pm1"
    using assms(1-13) assms(15)
    by (auto simp: maybe_ratchet_def ratchet_level_def fire_ratchet_def tp_crossed_def Let_def split: if_splits)
  have "p2 = p1\<lparr>po_tp_levels_fired := [3, 2], po_stop_loss := Some (po_entry_price p)\<rparr>"
    and "last (pm_amend_calls pm2) = (po_position_id p, po_entry_price p, t2, i)"
    using assms(1-11) assms(14,16) f1
    by (auto simp: p1 maybe_ratchet_def ratchet_level_def fire_ratchet_def tp_crossed_def Let_def split: if_splits)
  then show ?thesis using assms(6) by (simp add: p1)
qed

definition flaky_feed :: feed_env where
  "flaky_feed = \<lparr>fe_resolve_symbol_id = (\<lambda>s. Inr 1), fe_amend_sl_tp = (\<lambda>i sl tp s. Inr (tp \<noteq> 112/100))\<rparr>"

theorem monitor_ratchet_loosens_stop_witness:
  "\<exists>as pm1 p1 bs pm2 p2. ratchet_run [(flaky_feed, 113/100)] (demo_monitor, demo_position) = (as, pm1, p1) \<and>
     ratchet_run [(good_feed, 113/100)] (pm1, p1) = (bs, pm2, p2) \<and>
     po_stop_loss p1 = Some (112/100) \<and> po_stop_loss p2 = Some (11/10)"
proof -
  obtain as pm1 p1 where r1: "ratchet_run [(flaky_feed, 113/100)] (demo_monitor, demo_position) = (as, pm1, p1)"
    by (metis prod_cases3)
  obtain bs pm2 p2 where r2: "ratchet_run [(good_feed, 113/100)] (pm1, p1) = (bs, pm2, p2)" by (metis prod_cases3)
  have "po_stop_loss p1 = Some (112/100) \<and> po_stop_loss p2 = Some (po_entry_price demo_position)"
    using monitor_ratchet_loosens_stop[OF _ _ _ _ _ _ _ _ _ _ _ _ _ _ r1 r2, of "112/100" "113/100" 1]
    by (simp add: demo_monitor_def pm_init_def demo_position_def flaky_feed_def good_feed_def)
  then show ?thesis using r1 r2 by (auto simp: demo_position_def)
qed

end
