(* ===== verification/ExecEvents.thy ===== *)
theory ExecEvents
  imports Prelude
begin

text \<open>
  The execution event handler of \<open>adapters/ctrader/execution_event_handler.py\<close>: the map of pending
  orders with their events and results, the registry of late fills, and the routing of execution,
  order-error and general-error messages. A message is the record of the attributes the code
  reads with \<open>getattr\<close> (an absent one is \<open>None\<close>); a \<open>threading.Event\<close> is a number, and
  \<open>eh_set_events\<close> lists the events that were set; \<open>time.monotonic()\<close> is an argument, in seconds. The
  callbacks and the stats recorder may raise, which is swallowed, so their calls are recorded.
\<close>

section \<open>Data\<close>

datatype exec_status = ExPending | ExFilled | ExRejected | ExCancelled | ExTimeout

record order_result =
  ors_status :: exec_status
  ors_order_id :: "ptext option"
  ors_filled_price :: "flt option"
  ors_filled_volume :: "flt option"
  ors_error_code :: "string option"
  ors_error_message :: "string option"

record order_payload =
  op_client_order_id :: "string option"
  op_order_id :: "int option"
  op_execution_price :: "flt option"
  op_executed_volume :: "flt option"

record exec_message =
  em_payload_type :: "int option"
  em_order :: "order_payload option"
  em_execution_type :: "int option"
  em_client_order_id :: "string option"
  em_error_code :: "string option"
  em_description :: "string option"

text \<open>The envelope: its \<open>clientMsgId\<close>.\<close>

type_synonym envelope = "string option"

definition EXECUTION_EVENT_PAYLOAD_TYPES :: "int list" where "EXECUTION_EVENT_PAYLOAD_TYPES = [2126, 2151]"
definition ORDER_ERROR_PAYLOAD_TYPE :: int where "ORDER_ERROR_PAYLOAD_TYPE = 2132"
definition GENERAL_ERROR_PAYLOAD_TYPE :: int where "GENERAL_ERROR_PAYLOAD_TYPE = 2142"
definition EXEC_TYPE_FILLED :: int where "EXEC_TYPE_FILLED = 3"
definition EXEC_TYPE_PARTIAL_FILL :: int where "EXEC_TYPE_PARTIAL_FILL = 11"
definition EXEC_TYPE_CANCELLED :: int where "EXEC_TYPE_CANCELLED = 5"
definition EXEC_TYPE_REJECTED :: int where "EXEC_TYPE_REJECTED = 7"
definition EXEC_TYPE_EXPIRED :: int where "EXEC_TYPE_EXPIRED = 6"

lemmas exec_constants = EXECUTION_EVENT_PAYLOAD_TYPES_def ORDER_ERROR_PAYLOAD_TYPE_def GENERAL_ERROR_PAYLOAD_TYPE_def
  EXEC_TYPE_FILLED_def EXEC_TYPE_PARTIAL_FILL_def EXEC_TYPE_CANCELLED_def EXEC_TYPE_REJECTED_def EXEC_TYPE_EXPIRED_def

record exec_handler =
  eh_pending :: "(string \<times> nat) list"
  eh_results :: "(string \<times> order_result option) list"
  eh_client_order_ids :: "(string \<times> string) list"
  eh_has_stats :: bool
  eh_has_on_filled :: bool
  eh_has_on_rejected :: bool
  eh_late_fill :: "(string \<times> flt \<times> order_result option) list"
  eh_late_fill_by_coid :: "(string \<times> string) list"
  eh_late_fill_ttl :: flt
  eh_unmatched_late_fills_count :: int
  eh_next_event :: nat
  eh_set_events :: "nat list"
  eh_stats_calls :: "string list" \<comment> \<open>the signals recorded as \<open>tp_hit\<close>\<close>
  eh_filled_calls :: "order_result list"
  eh_rejected_calls :: "order_result list"

type_synonym 'a eh_result = "(exec_handler, 'a) outcome"

definition eh_init :: "bool \<Rightarrow> bool \<Rightarrow> bool \<Rightarrow> exec_handler" where
  "eh_init stats on_filled on_rejected =
     \<lparr>eh_pending = [], eh_results = [], eh_client_order_ids = [], eh_has_stats = stats, eh_has_on_filled = on_filled,
      eh_has_on_rejected = on_rejected, eh_late_fill = [], eh_late_fill_by_coid = [], eh_late_fill_ttl = 120,
      eh_unmatched_late_fills_count = 0, eh_next_event = 0, eh_set_events = [], eh_stats_calls = [],
      eh_filled_calls = [], eh_rejected_calls = []\<rparr>"

section \<open>Registration and lookup\<close>

definition eh_register_pending :: "string \<Rightarrow> string option \<Rightarrow> exec_handler \<Rightarrow> nat \<times> exec_handler" where
  "eh_register_pending client_msg_id client_order_id h =
     (let h1 = h\<lparr>eh_next_event := eh_next_event h + 1,
                 eh_pending := AList.update client_msg_id (eh_next_event h) (eh_pending h),
                 eh_results := AList.update client_msg_id None (eh_results h)\<rparr>
      in (eh_next_event h,
          if or_default client_order_id [] \<noteq> []
          then h1\<lparr>eh_client_order_ids := AList.update (or_default client_order_id []) client_msg_id (eh_client_order_ids h1)\<rparr>
          else h1))"

definition eh_get_result :: "string \<Rightarrow> exec_handler \<Rightarrow> order_result option" where
  "eh_get_result client_msg_id h = dget_or (eh_results h) client_msg_id None"

text \<open>The entries of a reverse map that point to an order are removed.\<close>

definition drop_values :: "string \<Rightarrow> (string \<times> string) list \<Rightarrow> (string \<times> string) list" where
  "drop_values client_msg_id d = filter (\<lambda>(co_id, cm_id). cm_id \<noteq> client_msg_id) d"

definition eh_cleanup_pending :: "string \<Rightarrow> exec_handler \<Rightarrow> exec_handler" where
  "eh_cleanup_pending client_msg_id h =
     h\<lparr>eh_pending := AList.delete client_msg_id (eh_pending h),
       eh_results := AList.delete client_msg_id (eh_results h),
       eh_client_order_ids := drop_values client_msg_id (eh_client_order_ids h),
       eh_late_fill := AList.delete client_msg_id (eh_late_fill h),
       eh_late_fill_by_coid := drop_values client_msg_id (eh_late_fill_by_coid h)\<rparr>"

definition eh_consume_terminal_state :: "string \<Rightarrow> string \<Rightarrow> exec_handler \<Rightarrow> exec_handler" where
  "eh_consume_terminal_state client_msg_id client_order_id h =
     h\<lparr>eh_pending := AList.delete client_msg_id (eh_pending h),
       eh_results := AList.delete client_msg_id (eh_results h),
       eh_client_order_ids := drop_values client_msg_id
         (if client_order_id \<noteq> [] then AList.delete client_order_id (eh_client_order_ids h) else eh_client_order_ids h),
       eh_late_fill := AList.delete client_msg_id (eh_late_fill h),
       eh_late_fill_by_coid := drop_values client_msg_id
         (if client_order_id \<noteq> [] then AList.delete client_order_id (eh_late_fill_by_coid h) else eh_late_fill_by_coid h)\<rparr>"

definition eh_register_late_fill :: "flt \<Rightarrow> string \<Rightarrow> string option \<Rightarrow> exec_handler \<Rightarrow> exec_handler" where
  "eh_register_late_fill now client_msg_id client_order_id h =
     (let h1 = h\<lparr>eh_late_fill := AList.update client_msg_id (now + eh_late_fill_ttl h, None) (eh_late_fill h)\<rparr>
      in if or_default client_order_id [] \<noteq> []
         then h1\<lparr>eh_late_fill_by_coid := AList.update (or_default client_order_id []) client_msg_id (eh_late_fill_by_coid h1)\<rparr>
         else h1)"

definition eh_expired :: "flt \<Rightarrow> exec_handler \<Rightarrow> string list" where
  "eh_expired now h = map fst (filter (\<lambda>(k, e, r). now \<ge> e) (eh_late_fill h))"

definition eh_drop_expired :: "flt \<Rightarrow> exec_handler \<Rightarrow> exec_handler" where
  "eh_drop_expired now h =
     foldl (\<lambda>h k. h\<lparr>eh_late_fill := AList.delete k (eh_late_fill h),
                    eh_late_fill_by_coid := drop_values k (eh_late_fill_by_coid h)\<rparr>) h (eh_expired now h)"

definition eh_check_late_fill :: "flt \<Rightarrow> string \<Rightarrow> exec_handler \<Rightarrow> string option \<times> exec_handler" where
  "eh_check_late_fill now client_order_id h =
     (let h1 = eh_drop_expired now h in (map_of (eh_late_fill_by_coid h1) client_order_id, h1))"

definition eh_match_by_client_order_id :: "string \<Rightarrow> exec_handler \<Rightarrow> string option" where
  "eh_match_by_client_order_id client_order_id h =
     (if client_order_id = [] then None
      else case map_of (eh_client_order_ids h) client_order_id of
          Some m \<Rightarrow> Some m
        | None \<Rightarrow> (if map_of (eh_pending h) client_order_id \<noteq> None then Some client_order_id else None))"

section \<open>Handlers\<close>

text \<open>A match counts when it is not the empty string.\<close>

fun nonempty :: "string option \<Rightarrow> string option" where
  "nonempty (Some []) = None"
| "nonempty x = x"

text \<open>The late-fill fallback: the match, whether an expired entry was seen, and the cleaned state.\<close>

definition eh_late_lookup :: "flt \<Rightarrow> string \<Rightarrow> string option \<Rightarrow> exec_handler \<Rightarrow> string option \<times> bool \<times> exec_handler" where
  "eh_late_lookup now client_order_id matched h =
     (if matched = None \<and> client_order_id \<noteq> [] then
        (let pre_present = (map_of (eh_late_fill_by_coid h) client_order_id \<noteq> None);
             (late, h1) = eh_check_late_fill now client_order_id h
         in case nonempty late of Some m \<Rightarrow> (Some m, False, h1) | None \<Rightarrow> (None, pre_present, h1))
      else (matched, False, h))"

text \<open>Result, event and state of a resolved order; the event is looked up after the result is written.\<close>

definition eh_resolve :: "string \<Rightarrow> string \<Rightarrow> order_result \<Rightarrow> exec_handler \<Rightarrow> unit eh_result" where
  "eh_resolve matched_id client_order_id result h =
     (let h1 = h\<lparr>eh_results := AList.update matched_id (Some result) (eh_results h)\<rparr>
      in case map_of (eh_pending h1) matched_id of
           None \<Rightarrow> Exc KeyError h1
         | Some event \<Rightarrow>
             Ret () (eh_consume_terminal_state matched_id client_order_id (h1\<lparr>eh_set_events := eh_set_events h1 @ [event]\<rparr>)))"

definition order_id_text :: "order_payload option \<Rightarrow> ptext" where
  "order_id_text op = (case op of None \<Rightarrow> [] | Some p \<Rightarrow> (case op_order_id p of None \<Rightarrow> [] | Some i \<Rightarrow> if i = 0 then [] else [FInt i]))"

definition eh_build_result :: "exec_message \<Rightarrow> order_payload option \<Rightarrow> int option \<Rightarrow> pyexn + order_result" where
  "eh_build_result message op etype =
     (if etype = Some EXEC_TYPE_PARTIAL_FILL then Inl ValueError
      else if etype = Some EXEC_TYPE_FILLED then
        Inr \<lparr>ors_status = ExFilled, ors_order_id = Some (order_id_text op),
             ors_filled_price = (case op of None \<Rightarrow> None | Some p \<Rightarrow> op_execution_price p),
             ors_filled_volume = (case op of None \<Rightarrow> None | Some p \<Rightarrow> op_executed_volume p),
             ors_error_code = None, ors_error_message = None\<rparr>
      else if etype = Some EXEC_TYPE_CANCELLED then
        Inr \<lparr>ors_status = ExCancelled, ors_order_id = (case op of None \<Rightarrow> None | Some p \<Rightarrow> Some (order_id_text op)),
             ors_filled_price = None, ors_filled_volume = None, ors_error_code = None, ors_error_message = None\<rparr>
      else if etype = Some EXEC_TYPE_REJECTED \<or> etype = Some EXEC_TYPE_EXPIRED then
        Inr \<lparr>ors_status = ExRejected, ors_order_id = (case op of None \<Rightarrow> None | Some p \<Rightarrow> Some (order_id_text op)),
             ors_filled_price = None, ors_filled_volume = None,
             ors_error_code = Some (if or_default (em_error_code message) [] = [] then ''REJECTED'' else or_default (em_error_code message) []),
             ors_error_message = None\<rparr>
      else
        Inr \<lparr>ors_status = ExFilled, ors_order_id = None, ors_filled_price = None, ors_filled_volume = None,
             ors_error_code = None, ors_error_message = None\<rparr>)"

definition eh_notify :: "string \<Rightarrow> order_result \<Rightarrow> exec_handler \<Rightarrow> exec_handler" where
  "eh_notify matched_id result h =
     (let h1 = (if eh_has_stats h \<and> ors_status result = ExFilled
                then h\<lparr>eh_stats_calls := eh_stats_calls h @ [matched_id]\<rparr> else h);
          h2 = (if ors_status result = ExFilled \<and> eh_has_on_filled h1
                then h1\<lparr>eh_filled_calls := eh_filled_calls h1 @ [result]\<rparr> else h1)
      in if ors_status result = ExRejected \<and> eh_has_on_rejected h2
         then h2\<lparr>eh_rejected_calls := eh_rejected_calls h2 @ [result]\<rparr> else h2)"

definition eh_drop_unmatched :: "bool \<Rightarrow> exec_handler \<Rightarrow> exec_handler" where
  "eh_drop_unmatched expired h =
     (if expired then h\<lparr>eh_unmatched_late_fills_count := eh_unmatched_late_fills_count h + 1\<rparr> else h)"

definition eh_on_execution_event :: "flt \<Rightarrow> exec_message \<Rightarrow> exec_handler \<Rightarrow> unit eh_result" where
  "eh_on_execution_event now message h =
     (let op = em_order message;
          client_order_id = (case op of None \<Rightarrow> [] | Some p \<Rightarrow> or_default (op_client_order_id p) []);
          etype = em_execution_type message
      in if etype = Some EXEC_TYPE_PARTIAL_FILL then Ret () h
         else case eh_late_lookup now client_order_id (nonempty (eh_match_by_client_order_id client_order_id h)) h of
             (None, expired, h1) \<Rightarrow> Ret () (eh_drop_unmatched expired h1)
           | (Some matched_id, _, h1) \<Rightarrow>
               (case eh_build_result message op etype of
                  Inl e \<Rightarrow> Exc e h1
                | Inr result \<Rightarrow>
                    and_then (eh_resolve matched_id client_order_id result h1) (\<lambda>_ h2. Ret () (eh_notify matched_id result h2))))"

definition rejected_result :: "exec_message \<Rightarrow> order_result" where
  "rejected_result message =
     \<lparr>ors_status = ExRejected, ors_order_id = None, ors_filled_price = None, ors_filled_volume = None,
      ors_error_code = Some (or_default (em_error_code message) ''UNKNOWN''),
      ors_error_message = Some (or_default (em_description message) [])\<rparr>"

definition eh_on_order_error :: "flt \<Rightarrow> exec_message \<Rightarrow> envelope \<Rightarrow> exec_handler \<Rightarrow> unit eh_result" where
  "eh_on_order_error now message envelope h =
     (let client_order_id = or_default (em_client_order_id message) [];
          client_msg_id = or_default envelope [];
          by_order = nonempty (eh_match_by_client_order_id client_order_id h);
          matched = (if by_order = None \<and> client_msg_id \<noteq> []
                     then (if map_of (eh_pending h) client_msg_id \<noteq> None then Some client_msg_id else None)
                     else by_order)
      in case eh_late_lookup now client_order_id matched h of
           (None, expired, h1) \<Rightarrow> Ret () (eh_drop_unmatched expired h1)
         | (Some matched_id, _, h1) \<Rightarrow>
             and_then (eh_resolve matched_id client_order_id (rejected_result message) h1) (\<lambda>_ h2.
               Ret () (if eh_has_on_rejected h2
                       then h2\<lparr>eh_rejected_calls := eh_rejected_calls h2 @ [rejected_result message]\<rparr> else h2)))"

definition eh_on_general_error :: "exec_message \<Rightarrow> envelope \<Rightarrow> exec_handler \<Rightarrow> unit eh_result" where
  "eh_on_general_error message envelope h =
     (let client_msg_id = or_default envelope []
      in if client_msg_id \<noteq> [] \<and> map_of (eh_pending h) client_msg_id \<noteq> None
         then eh_resolve client_msg_id [] (rejected_result message) h
         else Ret () h)"

definition eh_route :: "flt \<Rightarrow> exec_message \<Rightarrow> envelope \<Rightarrow> exec_handler \<Rightarrow> unit eh_result" where
  "eh_route now message envelope h =
     (case em_payload_type message of
        None \<Rightarrow> Ret () h
      | Some t \<Rightarrow>
          if List.member EXECUTION_EVENT_PAYLOAD_TYPES t then eh_on_execution_event now message h
          else if t = ORDER_ERROR_PAYLOAD_TYPE then eh_on_order_error now message envelope h
          else if t = GENERAL_ERROR_PAYLOAD_TYPE then eh_on_general_error message envelope h
          else Ret () h)"

end
