(* ===== verification/ExecSafety.thy ===== *)
theory ExecSafety
  imports ExecEvents
begin

text \<open>
  Correctness of the execution event handler: the waiters as an abstract machine, what a woken waiter
  can read, the atomic consumption of a terminal event, late fills, and informational events.
\<close>

section \<open>Runs\<close>

datatype eh_op =
    HRegister string "string option"
  | HCleanup string
  | HLate string "string option"
  | HRoute exec_message envelope

fun eh_step :: "exec_handler \<Rightarrow> flt \<times> eh_op \<Rightarrow> exec_handler" where
  "eh_step h (now, HRegister m c) = snd (eh_register_pending m c h)"
| "eh_step h (now, HCleanup m) = eh_cleanup_pending m h"
| "eh_step h (now, HLate m c) = eh_register_late_fill now m c h"
| "eh_step h (now, HRoute msg env) = state_of (eh_route now msg env h)"

section \<open>Frames\<close>

lemma drop_expired_frames [simp]:
  "eh_pending (eh_drop_expired now h) = eh_pending h" "eh_results (eh_drop_expired now h) = eh_results h"
  "eh_client_order_ids (eh_drop_expired now h) = eh_client_order_ids h"
  "eh_set_events (eh_drop_expired now h) = eh_set_events h" "eh_next_event (eh_drop_expired now h) = eh_next_event h"
  "eh_stats_calls (eh_drop_expired now h) = eh_stats_calls h"
  "eh_filled_calls (eh_drop_expired now h) = eh_filled_calls h"
  "eh_rejected_calls (eh_drop_expired now h) = eh_rejected_calls h"
proof -
  have "eh_pending (foldl f h ks) = eh_pending h \<and> eh_results (foldl f h ks) = eh_results h \<and>
      eh_client_order_ids (foldl f h ks) = eh_client_order_ids h \<and> eh_set_events (foldl f h ks) = eh_set_events h \<and>
      eh_next_event (foldl f h ks) = eh_next_event h \<and> eh_stats_calls (foldl f h ks) = eh_stats_calls h \<and>
      eh_filled_calls (foldl f h ks) = eh_filled_calls h \<and> eh_rejected_calls (foldl f h ks) = eh_rejected_calls h"
    if "f = (\<lambda>h k. h\<lparr>eh_late_fill := AList.delete k (eh_late_fill h),
                    eh_late_fill_by_coid := drop_values k (eh_late_fill_by_coid h)\<rparr>)" for f ks
    unfolding that by (induction ks arbitrary: h) auto
  from this[OF refl] show
    "eh_pending (eh_drop_expired now h) = eh_pending h" "eh_results (eh_drop_expired now h) = eh_results h"
    "eh_client_order_ids (eh_drop_expired now h) = eh_client_order_ids h"
    "eh_set_events (eh_drop_expired now h) = eh_set_events h" "eh_next_event (eh_drop_expired now h) = eh_next_event h"
    "eh_stats_calls (eh_drop_expired now h) = eh_stats_calls h"
    "eh_filled_calls (eh_drop_expired now h) = eh_filled_calls h"
    "eh_rejected_calls (eh_drop_expired now h) = eh_rejected_calls h"
    by (simp_all add: eh_drop_expired_def)
qed

text \<open>What the handlers leave alone, as one bundle.\<close>

definition quiet :: "exec_handler \<Rightarrow> exec_handler \<Rightarrow> bool" where
  "quiet h h' \<longleftrightarrow>
     eh_pending h' = eh_pending h \<and> eh_results h' = eh_results h \<and> eh_client_order_ids h' = eh_client_order_ids h \<and>
     eh_set_events h' = eh_set_events h \<and> eh_next_event h' = eh_next_event h \<and> eh_stats_calls h' = eh_stats_calls h \<and>
     eh_filled_calls h' = eh_filled_calls h \<and> eh_rejected_calls h' = eh_rejected_calls h"

lemma quiet_refl [simp]: "quiet h h"
  by (simp add: quiet_def)

lemma late_lookup_quiet: "eh_late_lookup now c m h = (x, b, h') \<Longrightarrow> quiet h h'"
  by (auto simp: eh_late_lookup_def eh_check_late_fill_def quiet_def Let_def split: if_splits option.splits)

lemma drop_unmatched_quiet [simp]: "quiet h (eh_drop_unmatched b h') = quiet h h'"
  by (simp add: eh_drop_unmatched_def quiet_def)

lemma notify_frames [simp]:
  "eh_pending (eh_notify m r h) = eh_pending h" "eh_results (eh_notify m r h) = eh_results h"
  "eh_client_order_ids (eh_notify m r h) = eh_client_order_ids h" "eh_late_fill (eh_notify m r h) = eh_late_fill h"
  "eh_late_fill_by_coid (eh_notify m r h) = eh_late_fill_by_coid h"
  "eh_set_events (eh_notify m r h) = eh_set_events h" "eh_next_event (eh_notify m r h) = eh_next_event h"
  by (simp_all add: eh_notify_def Let_def)

text \<open>
  Every message either is quiet, or resolves one pending order and only then may notify, or raises for an
  order that is not pending and leaves its result behind.
\<close>

definition resolves :: "string \<Rightarrow> exec_handler \<Rightarrow> exec_handler \<Rightarrow> bool" where
  "resolves m h h' \<longleftrightarrow>
     (\<exists>e. map_of (eh_pending h) m = Some e \<and> eh_set_events h' = eh_set_events h @ [e]) \<and>
     eh_pending h' = AList.delete m (eh_pending h) \<and>
     map_of (eh_results h') = (map_of (eh_results h))(m := None) \<and> eh_next_event h' = eh_next_event h"

definition orphans :: "string \<Rightarrow> exec_handler \<Rightarrow> exec_handler \<Rightarrow> bool" where
  "orphans m h h' \<longleftrightarrow>
     map_of (eh_pending h) m = None \<and> eh_pending h' = eh_pending h \<and> eh_set_events h' = eh_set_events h \<and>
     (\<exists>r. map_of (eh_results h') = (map_of (eh_results h))(m \<mapsto> Some r)) \<and> eh_next_event h' = eh_next_event h"

definition handled :: "exec_handler \<Rightarrow> unit eh_result \<Rightarrow> bool" where
  "handled h out \<longleftrightarrow>
     (case out of
        Ret u h' \<Rightarrow> quiet h h' \<or> (\<exists>m. resolves m h h')
      | Exc e h' \<Rightarrow> e = KeyError \<and> (\<exists>m. orphans m h h'))"

lemma resolve_cases:
  assumes "quiet h h1"
  shows "(\<exists>h'. eh_resolve m c r h1 = Ret () h' \<and> resolves m h h') \<or>
     (\<exists>h'. eh_resolve m c r h1 = Exc KeyError h' \<and> orphans m h h')"
  using assms
  by (auto simp: eh_resolve_def quiet_def resolves_def orphans_def eh_consume_terminal_state_def Let_def fun_eq_iff
      dict_simps split: option.split)

lemma resolves_notify [simp]:
  "resolves m h (eh_notify k r h') = resolves m h h'"
  "resolves m h (h'\<lparr>eh_rejected_calls := ys\<rparr>) = resolves m h h'"
  by (simp_all add: resolves_def)

lemma execution_event_cases: "handled h (eh_on_execution_event now msg h)"
proof -
  let ?c = "case em_order msg of None \<Rightarrow> [] | Some p \<Rightarrow> or_default (op_client_order_id p) []"
  obtain x b h1 where l: "eh_late_lookup now ?c (nonempty (eh_match_by_client_order_id ?c h)) h = (x, b, h1)"
    by (metis prod_cases3)
  show ?thesis
  proof (cases "em_execution_type msg = Some EXEC_TYPE_PARTIAL_FILL \<or> x = None")
    case True
    then show ?thesis
      using l late_lookup_quiet[OF l] by (auto simp: eh_on_execution_event_def handled_def Let_def)
  next
    case False
    then obtain m where m: "x = Some m" by auto
    obtain r where r: "eh_build_result msg (em_order msg) (em_execution_type msg) = Inr r"
      using False by (cases "eh_build_result msg (em_order msg) (em_execution_type msg)")
        (auto simp: eh_build_result_def split: if_splits)
    show ?thesis
      using resolve_cases[OF late_lookup_quiet[OF l], where m = m and c = ?c and r = r] l m r False
      by (auto simp: eh_on_execution_event_def handled_def Let_def)
  qed
qed

lemma order_error_cases: "handled h (eh_on_order_error now msg env h)"
proof -
  let ?c = "or_default (em_client_order_id msg) []" and ?i = "or_default env []"
  let ?o = "nonempty (eh_match_by_client_order_id ?c h)"
  let ?m = "if ?o = None \<and> ?i \<noteq> [] then (if map_of (eh_pending h) ?i \<noteq> None then Some ?i else None) else ?o"
  obtain x b h1 where l: "eh_late_lookup now ?c ?m h = (x, b, h1)" by (metis prod_cases3)
  show ?thesis
  proof (cases x)
    case None
    then show ?thesis using l late_lookup_quiet[OF l] by (simp add: eh_on_order_error_def handled_def Let_def)
  next
    case (Some m)
    show ?thesis
      using resolve_cases[OF late_lookup_quiet[OF l], where m = m and c = ?c and r = "rejected_result msg"] l Some
      by (auto simp: eh_on_order_error_def handled_def Let_def)
  qed
qed

lemma general_error_cases: "handled h (eh_on_general_error msg env h)"
  using resolve_cases[OF quiet_refl, where h = h and m = "or_default env []" and c = "[]" and r = "rejected_result msg"]
  by (auto simp: eh_on_general_error_def handled_def Let_def)

lemma route_cases: "handled h (eh_route now msg env h)"
proof (cases "em_payload_type msg")
  case None
  then show ?thesis by (simp add: eh_route_def handled_def)
next
  case (Some t)
  then show ?thesis
    using execution_event_cases order_error_cases general_error_cases
    by (simp add: eh_route_def) (simp add: handled_def)
qed

lemma route_state_cases:
  "quiet h (state_of (eh_route now msg env h)) \<or> (\<exists>m. resolves m h (state_of (eh_route now msg env h))) \<or>
   (\<exists>m. orphans m h (state_of (eh_route now msg env h)))"
  using route_cases[where now = now and msg = msg and env = env and h = h]
  by (cases "eh_route now msg env h") (auto simp: handled_def)

section \<open>The waiters\<close>

text \<open>
  The abstract contract of the handler, without results, correlation maps and registries: a set of waiting
  orders, each with its event, and the list of events set so far.
\<close>

type_synonym waiters = "(string \<Rightarrow> nat option) \<times> nat list"

inductive waiters_step :: "waiters \<Rightarrow> waiters \<Rightarrow> bool" where
  w_idle: "waiters_step (p, w) (p, w)"
| w_register: "waiters_step (p, w) (p(m \<mapsto> e), w)"
| w_cancel: "waiters_step (p, w) (p(m := None), w)"
| w_wake: "p m = Some e \<Longrightarrow> waiters_step (p, w) (p(m := None), w @ [e])"

definition waiters_of :: "exec_handler \<Rightarrow> waiters" where
  "waiters_of h = (map_of (eh_pending h), eh_set_events h)"

lemma map_of_delete_upd: "map_of (AList.delete k d) = (map_of d)(k := None)"
  by (rule ext) (simp add: dict_simps)

lemma map_of_update_upd: "map_of (AList.update k v d) = (map_of d)(k \<mapsto> v)"
  by (rule ext) (simp add: dict_simps)


section \<open>What a waiter reads\<close>

text \<open>Events are handed out once, those of pending orders are not set, and a pending order has no result.\<close>

definition eh_wf :: "exec_handler \<Rightarrow> bool" where
  "eh_wf h \<longleftrightarrow>
     distinct (eh_set_events h) \<and> (\<forall>e \<in> set (eh_set_events h). e < eh_next_event h) \<and>
     (\<forall>m e. map_of (eh_pending h) m = Some e \<longrightarrow>
        e < eh_next_event h \<and> e \<notin> set (eh_set_events h) \<and> eh_get_result m h = None) \<and>
     (\<forall>m k e. map_of (eh_pending h) m = Some e \<longrightarrow> map_of (eh_pending h) k = Some e \<longrightarrow> m = k)"

lemma get_result_eq: "eh_get_result m h = or_default (map_of (eh_results h) m) None"
  by (simp add: eh_get_result_def dget_or_def or_default_def)

lemma register_wf:
  assumes "eh_wf h"
  shows "eh_wf (snd (eh_register_pending m c h))"
proof -
  have old: "map_of (eh_pending h) k = Some e \<Longrightarrow> e < eh_next_event h" for k e using assms by (simp add: eh_wf_def)
  have "e \<noteq> eh_next_event h" if "map_of (eh_pending h) k = Some e \<or> e \<in> set (eh_set_events h)" for k e
    using that assms by (auto simp: eh_wf_def)
  with assms show ?thesis
    unfolding eh_wf_def get_result_eq
    by (auto simp: eh_register_pending_def Let_def dict_simps less_Suc_eq split: if_splits dest: old)
qed

lemma cleanup_wf: "eh_wf h \<Longrightarrow> eh_wf (eh_cleanup_pending m h)"
  unfolding eh_wf_def get_result_eq by (auto simp: eh_cleanup_pending_def dict_simps split: if_splits)

lemma late_wf: "eh_wf h \<Longrightarrow> eh_wf (eh_register_late_fill now m c h)"
  unfolding eh_wf_def get_result_eq by (auto simp: eh_register_late_fill_def Let_def)

lemma quiet_wf: "eh_wf h \<Longrightarrow> quiet h h' \<Longrightarrow> eh_wf h'"
  unfolding eh_wf_def get_result_eq quiet_def by simp

lemma resolves_wf:
  assumes "eh_wf h" and "resolves m h h'"
  shows "eh_wf h'"
proof -
  obtain e where e: "map_of (eh_pending h) m = Some e" "eh_set_events h' = eh_set_events h @ [e]"
    using assms(2) by (auto simp: resolves_def)
  have "k \<noteq> m \<Longrightarrow> map_of (eh_pending h) k \<noteq> Some e" for k using assms(1) e(1) by (auto simp: eh_wf_def)
  with assms e show ?thesis
    unfolding eh_wf_def get_result_eq
    by (auto simp: resolves_def dict_simps split: if_splits)
qed

lemma orphans_wf: "eh_wf h \<Longrightarrow> orphans m h h' \<Longrightarrow> eh_wf h'"
  unfolding eh_wf_def get_result_eq by (auto simp: orphans_def)

lemma eh_step_wf: "eh_wf h \<Longrightarrow> eh_wf (eh_step h (now, op))"
proof (cases op)
  case (HRoute msg env)
  assume wf: "eh_wf h"
  show ?thesis
    using route_state_cases[of h now msg env] quiet_wf[OF wf] resolves_wf[OF wf] orphans_wf[OF wf] HRoute by auto
qed (auto simp: register_wf cleanup_wf late_wf)

interpretation exec_books: invariant_machine eh_step "\<lambda>_. True" eh_wf
  by unfold_locales (metis eh_step_wf prod.collapse)

lemma eh_init_wf: "eh_wf (eh_init a b c)"
  by (simp add: eh_wf_def eh_init_def)

text \<open>
  C20. A waiter never reads its result. Over every run of the handler a pending order has no result; and when a
  message wakes its waiter, the result is already consumed in the same step, so what the waiter gets after its
  event is set is None, which is also what it gets after a timeout. Each event is set at most once.
\<close>

theorem exec_waiter_never_reads_result:
  assumes "h = foldl eh_step (eh_init stats on_filled on_rejected) es" and "map_of (eh_pending h) m = Some e"
    and "h' = eh_step h (now, HRoute msg env)"
  shows "eh_get_result m h = None \<and> eh_get_result m h' = None \<and> e \<notin> set (eh_set_events h) \<and>
     distinct (eh_set_events h') \<and>
     (if e \<in> set (eh_set_events h') then map_of (eh_pending h') m = None else map_of (eh_pending h') m = Some e)"
proof -
  have wf: "eh_wf h" unfolding assms(1)
    by (rule exec_books.run_inv[OF eh_init_wf]) (simp add: list_all_iff)
  have wf': "eh_wf h'" unfolding assms(3) by (rule eh_step_wf[OF wf])
  have pend: "eh_get_result m h = None" "e \<notin> set (eh_set_events h)"
    using wf assms(2) by (auto simp: eh_wf_def)
  have h': "h' = state_of (eh_route now msg env h)" using assms(3) by simp
  consider "quiet h h'" | k where "resolves k h h'" | k where "orphans k h h'"
    using route_state_cases[of h now msg env] h' by blast
  then have "eh_get_result m h' = None \<and>
     (if e \<in> set (eh_set_events h') then map_of (eh_pending h') m = None else map_of (eh_pending h') m = Some e)"
  proof cases
    case 1
    then show ?thesis using pend assms(2) by (simp add: quiet_def get_result_eq)
  next
    case (2 k)
    then obtain d where d: "map_of (eh_pending h) k = Some d" "eh_set_events h' = eh_set_events h @ [d]"
      by (auto simp: resolves_def)
    have "d = e \<longleftrightarrow> k = m" using wf d(1) assms(2) by (auto simp: eh_wf_def)
    then show ?thesis using 2 d pend assms(2) by (auto simp: resolves_def get_result_eq dict_simps)
  next
    case (3 k)
    then show ?thesis using pend assms(2) by (auto simp: orphans_def get_result_eq)
  qed
  with pend wf' show ?thesis by (simp add: eh_wf_def)
qed

definition fill_message :: exec_message where
  "fill_message = \<lparr>em_payload_type = Some 2126,
     em_order = Some \<lparr>op_client_order_id = Some ''c1'', op_order_id = Some 9, op_execution_price = Some (11/10),
       op_executed_volume = Some 1\<rparr>,
     em_execution_type = Some 3, em_client_order_id = None, em_error_code = None, em_description = None\<rparr>"

definition one_pending :: exec_handler where
  "one_pending = foldl eh_step (eh_init False True True) [(0, HRegister ''m1'' (Some ''c1''))]"

lemmas one_pending_simps = one_pending_def eh_init_def eh_register_pending_def

text \<open>A filled order: its waiter is woken, the fill callback got the price, and the waiter finds no result.\<close>

theorem exec_waiter_never_reads_result_witness:
  "let h' = eh_step one_pending (1, HRoute fill_message None)
   in eh_get_result ''m1'' h' = None \<and> 0 \<in> set (eh_set_events h') \<and> length (eh_filled_calls h') = 1"
proof -
  have p: "map_of (eh_pending one_pending) ''m1'' = Some 0"
    by (simp add: one_pending_simps Let_def)
  have "0 \<in> set (eh_set_events (eh_step one_pending (1, HRoute fill_message None))) \<and>
      length (eh_filled_calls (eh_step one_pending (1, HRoute fill_message None))) = 1"
    by code_simp
  then show ?thesis
    using exec_waiter_never_reads_result[OF one_pending_def p refl, of 1 fill_message None] by (simp add: Let_def)
qed

section \<open>Terminal once\<close>

definition message_order :: "exec_message \<Rightarrow> string" where
  "message_order msg = (case em_order msg of None \<Rightarrow> [] | Some p \<Rightarrow> or_default (op_client_order_id p) [])"

lemma drop_values_lookup: "map_of (drop_values m d) c = Some x \<Longrightarrow> x \<noteq> m \<and> (c, x) \<in> set d"
  by (auto simp: drop_values_def dest: map_of_SomeD)

lemma drop_values_delete: "map_of (drop_values m (AList.delete c d)) c = None"
proof (cases "map_of (drop_values m (AList.delete c d)) c")
  case (Some x)
  then have "(c, x) \<in> set (AList.delete c d)" using drop_values_lookup by blast
  then have "c \<in> fst ` set (AList.delete c d)" by (rule rev_image_eqI) simp
  then have "map_of (AList.delete c d) c \<noteq> None" using map_of_keys_iff by metis
  then show ?thesis by (simp add: dict_simps)
qed simp

text \<open>An order identifier that no map knows.\<close>

definition unknown :: "string \<Rightarrow> exec_handler \<Rightarrow> bool" where
  "unknown c h \<longleftrightarrow>
     map_of (eh_client_order_ids h) c = None \<and> map_of (eh_pending h) c = None \<and> map_of (eh_late_fill_by_coid h) c = None"

lemma drop_expired_unknown: "map_of (eh_late_fill_by_coid h) c = None \<Longrightarrow> map_of (eh_late_fill_by_coid (eh_drop_expired now h)) c = None"
proof -
  assume none: "map_of (eh_late_fill_by_coid h) c = None"
  have filt: "map_of d c = None \<Longrightarrow> map_of (drop_values k d) c = None" for k and d :: "(string \<times> string) list"
    by (auto simp: drop_values_def map_of_eq_None_iff)
  have "map_of (eh_late_fill_by_coid (foldl (\<lambda>h k. h\<lparr>eh_late_fill := AList.delete k (eh_late_fill h),
      eh_late_fill_by_coid := drop_values k (eh_late_fill_by_coid h)\<rparr>) h ks)) c = None" for ks
    using none by (induction ks arbitrary: h) (auto simp: filt)
  then show ?thesis by (simp add: eh_drop_expired_def)
qed

lemma unknown_late: "c \<noteq> [] \<Longrightarrow> unknown c h \<Longrightarrow> \<exists>h1. eh_late_lookup now c None h = (None, False, h1) \<and> quiet h h1"
proof -
  assume c: "c \<noteq> []" and u: "unknown c h"
  have "map_of (eh_late_fill_by_coid (eh_drop_expired now h)) c = None"
    using u drop_expired_unknown by (simp add: unknown_def)
  then have "eh_late_lookup now c None h = (None, False, eh_drop_expired now h)"
    using c u by (simp add: eh_late_lookup_def eh_check_late_fill_def Let_def unknown_def)
  moreover have "quiet h (eh_drop_expired now h)" by (simp add: quiet_def)
  ultimately show ?thesis by blast
qed

lemma unknown_execution_quiet:
  assumes "unknown c h" and "c \<noteq> []" and "message_order msg = c"
  shows "\<exists>h'. eh_on_execution_event now msg h = Ret () h' \<and> quiet h h' \<and>
    eh_unmatched_late_fills_count h' = eh_unmatched_late_fills_count h \<or> eh_on_execution_event now msg h = Ret () h"
proof -
  have m: "eh_match_by_client_order_id c h = None"
    using assms(1,2) by (simp add: eh_match_by_client_order_id_def unknown_def)
  obtain h1 where h1: "eh_late_lookup now c None h = (None, False, h1)" "quiet h h1"
    using unknown_late[OF assms(2,1)] by blast
  have "eh_unmatched_late_fills_count (foldl (\<lambda>h k. h\<lparr>eh_late_fill := AList.delete k (eh_late_fill h),
      eh_late_fill_by_coid := drop_values k (eh_late_fill_by_coid h)\<rparr>) h ks) = eh_unmatched_late_fills_count h" for ks
    by (induction ks arbitrary: h) auto
  then have cnt: "eh_unmatched_late_fills_count h1 = eh_unmatched_late_fills_count h"
    using h1(1) assms(2) by (auto simp: eh_late_lookup_def eh_check_late_fill_def eh_drop_expired_def Let_def split: option.splits)
  show ?thesis
    using h1 m cnt assms(3)
    by (auto simp: eh_on_execution_event_def message_order_def Let_def eh_drop_unmatched_def)
qed

text \<open>
  A terminal execution event consumes its order: once it was handled without an exception, the order's two
  identifiers are in none of the maps, and any later execution event for the same client order changes no
  waiter, no result, no other order and calls nobody, so a confirmed fill cannot be turned into a rejection. (The
  client order identifier must not be, by coincidence, the message identifier of another pending order.)
\<close>

theorem exec_terminal_once:
  assumes "eh_match_by_client_order_id (message_order msg) h = Some m" and "m \<noteq> []"
    and "em_execution_type msg \<noteq> Some EXEC_TYPE_PARTIAL_FILL"
    and "message_order msg = m \<or> map_of (eh_pending h) (message_order msg) = None"
    and "eh_on_execution_event now msg h = Ret () h1"
    and "message_order msg' = message_order msg" and "eh_on_execution_event later msg' h1 = out"
  shows "map_of (eh_pending h1) m = None \<and> map_of (eh_results h1) m = None \<and> map_of (eh_late_fill h1) m = None \<and>
     unknown (message_order msg) h1 \<and> \<not> raised out \<and> quiet h1 (state_of out)"
proof -
  let ?c = "message_order msg"
  have c: "?c \<noteq> []" using assms(1) by (auto simp: eh_match_by_client_order_id_def)
  have ne: "nonempty (Some m) = Some m" using assms(2) by (cases m) auto
  obtain r where r: "eh_build_result msg (em_order msg) (em_execution_type msg) = Inr r"
    using assms(3) by (cases "eh_build_result msg (em_order msg) (em_execution_type msg)")
      (auto simp: eh_build_result_def split: if_splits)
  have l: "eh_late_lookup now ?c (Some m) h = (Some m, False, h)" by (simp add: eh_late_lookup_def)
  have "and_then (eh_resolve m ?c r h) (\<lambda>_ h2. Ret () (eh_notify m r h2)) = Ret () h1"
    using assms(1,3,5) ne l r by (simp add: eh_on_execution_event_def message_order_def Let_def)
  then obtain h2 where h2: "eh_resolve m ?c r h = Ret () h2" and h1: "h1 = eh_notify m r h2"
    by (auto simp: and_then_Ret_iff)
  have cons: "\<exists>g. h2 = eh_consume_terminal_state m ?c g \<and> eh_pending g = eh_pending h"
    using h2 by (auto simp: eh_resolve_def Let_def split: option.splits)
  then obtain g where g: "h2 = eh_consume_terminal_state m ?c g" "eh_pending g = eh_pending h" by blast
  have gone: "map_of (eh_pending h1) m = None" "map_of (eh_results h1) m = None" "map_of (eh_late_fill h1) m = None"
    by (simp_all add: h1 g eh_consume_terminal_state_def dict_simps)
  have "map_of (eh_pending h1) ?c = None"
    using assms(4) by (auto simp: h1 g eh_consume_terminal_state_def dict_simps)
  then have u: "unknown ?c h1"
    using c by (simp add: unknown_def h1 g eh_consume_terminal_state_def drop_values_delete)
  from unknown_execution_quiet[OF u c assms(6)[symmetric, THEN sym], of later] show ?thesis
    using gone u assms(7) by auto
qed

definition reject_message :: exec_message where
  "reject_message = fill_message\<lparr>em_execution_type := Some 7\<rparr>"

theorem exec_terminal_once_witness:
  "let h1 = state_of (eh_on_execution_event 1 fill_message one_pending);
       out = eh_on_execution_event 2 reject_message h1
   in quiet h1 (state_of out) \<and> length (eh_filled_calls h1) = 1"
proof -
  define h1 where "h1 = state_of (eh_on_execution_event 1 fill_message one_pending)"
  have ev: "\<not> raised (eh_on_execution_event 1 fill_message one_pending)" by code_simp
  then have r: "eh_on_execution_event 1 fill_message one_pending = Ret () h1"
    by (cases "eh_on_execution_event 1 fill_message one_pending") (auto simp: h1_def)
  have m: "eh_match_by_client_order_id (message_order fill_message) one_pending = Some ''m1''" by code_simp
  have p: "message_order fill_message = ''m1'' \<or> map_of (eh_pending one_pending) (message_order fill_message) = None" by code_simp
  have "message_order reject_message = message_order fill_message"
    by (simp add: reject_message_def message_order_def)
  from exec_terminal_once[OF m _ _ p r this refl, of 2]
  have "quiet h1 (state_of (eh_on_execution_event 2 reject_message h1))"
    by (simp add: fill_message_def exec_constants)
  moreover have "length (eh_filled_calls h1) = 1" unfolding h1_def by code_simp
  ultimately show ?thesis by (simp add: Let_def h1_def)
qed

section \<open>Late fills and informational events\<close>

text \<open>
  A late fill only works while the order is still pending. When the timed-out order was cleaned up before it was
  registered for late fills, a fill that arrives within the grace period is matched, but its handling
  raises a KeyError at the missing event, before the callbacks and before the registry entry is
  consumed: the fill is reported to nobody, and the next event of the order raises again.
\<close>

theorem exec_late_fill_raises:
  assumes "message_order msg = c" and "c \<noteq> []" and "m \<noteq> []" and "em_execution_type msg \<noteq> Some EXEC_TYPE_PARTIAL_FILL"
    and "map_of (eh_client_order_ids h) c = None" and "map_of (eh_pending h) c = None" and "map_of (eh_pending h) m = None"
    and "map_of (eh_late_fill_by_coid (eh_drop_expired now h)) c = Some m"
    and "eh_on_execution_event now msg h = out"
  shows "\<exists>h'. out = Exc KeyError h' \<and> eh_filled_calls h' = eh_filled_calls h \<and> eh_rejected_calls h' = eh_rejected_calls h \<and>
     eh_set_events h' = eh_set_events h \<and> map_of (eh_late_fill_by_coid h') c = Some m"
proof -
  obtain r where r: "eh_build_result msg (em_order msg) (em_execution_type msg) = Inr r"
    using assms(4) by (cases "eh_build_result msg (em_order msg) (em_execution_type msg)")
      (auto simp: eh_build_result_def split: if_splits)
  have n: "eh_match_by_client_order_id c h = None"
    using assms(5,6) by (simp add: eh_match_by_client_order_id_def)
  have ne: "nonempty (Some m) = Some m" using assms(3) by (cases m) auto
  have l: "eh_late_lookup now c None h = (Some m, False, eh_drop_expired now h)"
    using assms(2,8) ne by (simp add: eh_late_lookup_def eh_check_late_fill_def Let_def)
  show ?thesis
    using assms(1,4,7,8,9) n l r
    by (auto simp: eh_on_execution_event_def message_order_def Let_def eh_resolve_def)
qed

definition cleaned_then_late :: exec_handler where
  "cleaned_then_late = foldl eh_step one_pending [(60, HCleanup ''m1''), (60, HLate ''m1'' (Some ''c1''))]"

theorem exec_late_fill_raises_witness:
  "\<exists>h'. eh_on_execution_event 61 fill_message cleaned_then_late = Exc KeyError h' \<and> eh_filled_calls h' = []"
proof -
  have "map_of (eh_late_fill_by_coid (eh_drop_expired 61 cleaned_then_late)) ''c1'' = Some ''m1''"
    "map_of (eh_client_order_ids cleaned_then_late) ''c1'' = None" "map_of (eh_pending cleaned_then_late) ''c1'' = None"
    "map_of (eh_pending cleaned_then_late) ''m1'' = None" "eh_filled_calls cleaned_then_late = []"
    "message_order fill_message = ''c1''" by code_simp+
  then show ?thesis
    using exec_late_fill_raises[of fill_message "''c1''" "''m1''" cleaned_then_late 61, OF _ _ _ _ _ _ _ _ refl]
    by (auto simp: fill_message_def exec_constants)
qed

text \<open>
  An execution type the handler does not know is a fill. In particular the broker's acceptance of a pending order
  (type 2), which precedes its fill, resolves the order as filled without a price or an order number,
  wakes the waiter and calls the fill callback; the real fill that follows finds no order any more.
\<close>

theorem exec_accepted_counts_as_filled:
  assumes "eh_match_by_client_order_id (message_order msg) h = Some m" and "m \<noteq> []"
    and "map_of (eh_pending h) m = Some e" and "eh_has_on_filled h"
    and "em_execution_type msg = Some t" and "t \<notin> {3, 5, 6, 7, 11}"
  shows "\<exists>h' r. eh_on_execution_event now msg h = Ret () h' \<and> eh_set_events h' = eh_set_events h @ [e] \<and>
     eh_filled_calls h' = eh_filled_calls h @ [r] \<and> ors_status r = ExFilled \<and> ors_filled_price r = None \<and>
     ors_order_id r = None \<and> map_of (eh_pending h') m = None"
proof -
  have ne: "nonempty (Some m) = Some m" using assms(2) by (cases m) auto
  have l: "eh_late_lookup now (message_order msg) (Some m) h = (Some m, False, h)" by (simp add: eh_late_lookup_def)
  have b: "eh_build_result msg (em_order msg) (Some t) =
      Inr \<lparr>ors_status = ExFilled, ors_order_id = None, ors_filled_price = None, ors_filled_volume = None,
           ors_error_code = None, ors_error_message = None\<rparr>"
    using assms(6) by (simp add: eh_build_result_def exec_constants)
  show ?thesis
    using assms ne l b
    by (simp add: eh_on_execution_event_def message_order_def Let_def eh_resolve_def exec_constants eh_notify_def
        eh_consume_terminal_state_def dict_simps)
qed

theorem exec_accepted_counts_as_filled_witness:
  "\<exists>h' r. eh_on_execution_event 1 (fill_message\<lparr>em_execution_type := Some 2\<rparr>) one_pending = Ret () h' \<and>
     eh_filled_calls h' = [r] \<and> ors_status r = ExFilled \<and> ors_filled_price r = None"
proof -
  have "eh_match_by_client_order_id (message_order (fill_message\<lparr>em_execution_type := Some 2\<rparr>)) one_pending = Some ''m1''"
    "map_of (eh_pending one_pending) ''m1'' = Some 0" "eh_has_on_filled one_pending" "eh_filled_calls one_pending = []"
    by code_simp+
  then show ?thesis
    using exec_accepted_counts_as_filled[of "fill_message\<lparr>em_execution_type := Some 2\<rparr>" one_pending "''m1''" 0 2 1] by auto
qed

end
