(* ===== verification/SignalStats.thy ===== *)
theory SignalStats
  imports Prelude
begin

text \<open>
  The signal statistics of \<open>signal_engine/signal_stats.py\<close>: the append-only log of opened, closed and
  rejected signals with its aggregation, and the low-frequency heartbeat with its rolling counters.

  A log is the list of its rows, each a dict; the recorder replaces the file atomically, so a row is
  there or not, and an append that fails raises and leaves the log as it was. Rows are those the
  recorder writes (a damaged line is dropped by the reader).
\<close>

section \<open>Rows\<close>

type_synonym stats_row = "(string \<times> pyv) list"
type_synonym stats_log = "stats_row list"

record stats_env =
  se_now :: instant
  se_uuid :: string
  se_dir_ok :: bool \<comment> \<open>the directory of the log can be created\<close>
  se_write_ok :: bool \<comment> \<open>the new content can be written and put in place\<close>

definition VALID_OUTCOMES :: "string list" where
  "VALID_OUTCOMES = [''tp_hit'', ''sl_hit'', ''manual_close'', ''expired'', ''timeout_close'', ''rejected'']"

record signal_record =
  sr_signal_id :: string
  sr_timestamp :: ptext
  sr_strategy :: string
  sr_symbol :: string
  sr_direction :: string
  sr_confidence :: flt
  sr_rationale_tags :: "ptext list"
  sr_confluence_score :: flt
  sr_lots :: flt
  sr_entry_price :: flt
  sr_sl_price :: flt
  sr_tp_price :: flt
  sr_outcome :: "string option"
  sr_pips_realized :: "flt option"
  sr_time_to_close_seconds :: "int option"
  sr_closed_at :: "ptext option"
  sr_rejection_reason :: "string option"
  sr_error_code :: "string option"

text \<open>\<open>asdict(record)\<close>; \<open>opt\<close> reads an optional field.\<close>

definition opt :: "('a \<Rightarrow> pyv) \<Rightarrow> 'a option \<Rightarrow> pyv" where
  "opt f x = (case x of None \<Rightarrow> PNone | Some v \<Rightarrow> f v)"

definition sr_to_row :: "signal_record \<Rightarrow> stats_row" where
  "sr_to_row r =
     [(''signal_id'', pstr (sr_signal_id r)), (''timestamp'', PStr (sr_timestamp r)),
      (''strategy'', pstr (sr_strategy r)), (''symbol'', pstr (sr_symbol r)), (''direction'', pstr (sr_direction r)),
      (''confidence'', PFloat (sr_confidence r)), (''rationale_tags'', PList (map PStr (sr_rationale_tags r))),
      (''confluence_score'', PFloat (sr_confluence_score r)), (''lots'', PFloat (sr_lots r)),
      (''entry_price'', PFloat (sr_entry_price r)), (''sl_price'', PFloat (sr_sl_price r)),
      (''tp_price'', PFloat (sr_tp_price r)), (''outcome'', opt pstr (sr_outcome r)),
      (''pips_realized'', opt PFloat (sr_pips_realized r)),
      (''time_to_close_seconds'', opt PInt (sr_time_to_close_seconds r)), (''closed_at'', opt PStr (sr_closed_at r)),
      (''rejection_reason'', opt pstr (sr_rejection_reason r)), (''error_code'', opt pstr (sr_error_code r))]"

section \<open>Writing\<close>

definition ss_append_line :: "stats_env \<Rightarrow> stats_row \<Rightarrow> stats_log \<Rightarrow> (stats_log, unit) outcome" where
  "ss_append_line env payload rows =
     (if se_dir_ok env \<and> se_write_ok env then Ret () (rows @ [payload]) else Exc OSError rows)"

text \<open>The defaults of the opening line: its outcome, identifier and time stamp.\<close>

definition sr_complete :: "stats_env \<Rightarrow> signal_record \<Rightarrow> signal_record" where
  "sr_complete env r =
     (let r1 = (if sr_outcome r = None then r\<lparr>sr_outcome := Some ''open''\<rparr> else r);
          r2 = (if sr_signal_id r1 = [] then r1\<lparr>sr_signal_id := se_uuid env\<rparr> else r1)
      in if \<not> truthy (PStr (sr_timestamp r2)) then r2\<lparr>sr_timestamp := [FIso (se_now env)]\<rparr> else r2)"

definition ss_record_signal :: "stats_env \<Rightarrow> signal_record \<Rightarrow> stats_log \<Rightarrow> (stats_log, string) outcome" where
  "ss_record_signal env r rows =
     and_then (ss_append_line env (sr_to_row (sr_complete env r)) rows) (\<lambda>_. Ret (sr_signal_id (sr_complete env r)))"

definition row_is :: "string \<Rightarrow> stats_row \<Rightarrow> bool" where
  "row_is signal_id row = (map_of row ''signal_id'' = Some (pstr signal_id))"

definition row_open :: "stats_row \<Rightarrow> bool" where
  "row_open row = List.member [PNone, pstr ''open''] (dget_or row ''outcome'' PNone)"

definition ss_find_open_line :: "string \<Rightarrow> stats_log \<Rightarrow> stats_row option" where
  "ss_find_open_line signal_id rows = List.find (\<lambda>row. row_is signal_id row \<and> row_open row) rows"

definition ss_find_any_line :: "string \<Rightarrow> stats_log \<Rightarrow> stats_row option" where
  "ss_find_any_line signal_id rows = List.find (row_is signal_id) rows"

text \<open>The signal's own fields as a closing row carries them.\<close>

definition ss_existing :: "string \<Rightarrow> stats_log \<Rightarrow> stats_row" where
  "ss_existing signal_id rows =
     (case ss_find_open_line signal_id rows of
        Some row \<Rightarrow> row
      | None \<Rightarrow> (case ss_find_any_line signal_id rows of Some row \<Rightarrow> row | None \<Rightarrow> []))"

definition carried_fields :: "string \<Rightarrow> stats_row \<Rightarrow> stats_row" where
  "carried_fields signal_id existing =
     [(''signal_id'', pstr signal_id), (''timestamp'', dget_or existing ''timestamp'' (pstr [])),
      (''strategy'', dget_or existing ''strategy'' (pstr ''unknown'')),
      (''symbol'', dget_or existing ''symbol'' (pstr ''unknown'')),
      (''direction'', dget_or existing ''direction'' (pstr [])),
      (''confidence'', dget_or existing ''confidence'' (PFloat 0)),
      (''rationale_tags'', dget_or existing ''rationale_tags'' (PList [])),
      (''confluence_score'', dget_or existing ''confluence_score'' (PFloat 0)),
      (''lots'', dget_or existing ''lots'' (PFloat 0)), (''entry_price'', dget_or existing ''entry_price'' (PFloat 0)),
      (''sl_price'', dget_or existing ''sl_price'' (PFloat 0)), (''tp_price'', dget_or existing ''tp_price'' (PFloat 0))]"

definition ss_record_outcome ::
  "stats_env \<Rightarrow> string \<Rightarrow> string \<Rightarrow> flt \<Rightarrow> int \<Rightarrow> stats_log \<Rightarrow> (stats_log, unit) outcome" where
  "ss_record_outcome env signal_id outcome pips time_to_close rows =
     (if outcome \<notin> set VALID_OUTCOMES then Exc ValueError rows
      else ss_append_line env
        (carried_fields signal_id (ss_existing signal_id rows) @
         [(''outcome'', pstr outcome), (''pips_realized'', PFloat pips), (''time_to_close_seconds'', PInt time_to_close),
          (''closed_at'', PStr [FIso (se_now env)])]) rows)"

definition ss_record_rejection ::
  "stats_env \<Rightarrow> string \<Rightarrow> ptext \<Rightarrow> string \<Rightarrow> stats_log \<Rightarrow> (stats_log, unit) outcome" where
  "ss_record_rejection env signal_id reason code rows =
     ss_append_line env
       (carried_fields signal_id (ss_existing signal_id rows) @
        [(''outcome'', pstr ''rejected''), (''pips_realized'', PFloat 0), (''time_to_close_seconds'', PInt 0),
         (''closed_at'', PStr [FIso (se_now env)]), (''rejection_reason'', PStr reason), (''error_code'', pstr code)]) rows"

section \<open>Aggregation\<close>

text \<open>\<open>{**old, **new}\<close>.\<close>

definition dict_merge :: "stats_row \<Rightarrow> stats_row \<Rightarrow> stats_row" where
  "dict_merge old new = fold (\<lambda>(k, v). AList.update k v) new old"

definition merge_row :: "stats_row \<Rightarrow> (pyv \<times> stats_row) list \<Rightarrow> (pyv \<times> stats_row) list" where
  "merge_row row signals =
     (let sid = dget_or row ''signal_id'' PNone in
      if \<not> truthy sid then signals
      else AList.update sid (dict_merge (dget_or signals sid []) row) signals)"

definition ss_signals :: "stats_log \<Rightarrow> (pyv \<times> stats_row) list" where
  "ss_signals rows = fold merge_row rows []"

text \<open>The order of two time stamps as text, used by the \<open>since\<close> filter, is an argument.\<close>

definition ss_keep ::
  "(pyv \<Rightarrow> ptext \<Rightarrow> bool) \<Rightarrow> string option \<Rightarrow> string option \<Rightarrow> ptext option \<Rightarrow> stats_row \<Rightarrow> bool" where
  "ss_keep before strategy symbol since r =
     (if (case strategy of Some s \<Rightarrow> map_of r ''strategy'' \<noteq> Some (pstr s) | None \<Rightarrow> False) then False
      else if (case symbol of Some s \<Rightarrow> map_of r ''symbol'' \<noteq> Some (pstr s) | None \<Rightarrow> False) then False
      else case since of
          None \<Rightarrow> True
        | Some t \<Rightarrow> (let ts = dget_or r ''timestamp'' (pstr []) in \<not> (truthy ts \<and> before ts t)))"

definition has_outcome :: "string list \<Rightarrow> stats_row \<Rightarrow> bool" where
  "has_outcome os r = (\<exists>x \<in> set os. dget_or r ''outcome'' PNone = pstr x)"

definition or_unknown :: "pyv \<Rightarrow> pyv" where
  "or_unknown v = (if truthy v then v else pstr ''unknown'')"

definition count_by :: "string \<Rightarrow> stats_row list \<Rightarrow> (pyv \<times> nat) list" where
  "count_by field rs =
     foldl (\<lambda>d r. let k = or_unknown (dget_or r field PNone) in AList.update k (dget_or d k 0 + 1) d) [] rs"

definition mean :: "flt list \<Rightarrow> flt" where
  "mean xs = (if xs = [] then 0 else sum_list xs / of_nat (length xs))"

record signal_stats =
  st_total_signals :: nat
  st_open_signals :: int
  st_closed_signals :: nat
  st_wins :: nat
  st_losses :: int
  st_rejections :: nat
  st_rejection_rate :: flt
  st_hit_rate :: flt
  st_avg_pips :: flt
  st_avg_time_to_close :: flt
  st_by_strategy :: "(pyv \<times> nat) list"
  st_by_symbol :: "(pyv \<times> nat) list"

definition ss_get_stats ::
  "(pyv \<Rightarrow> ptext \<Rightarrow> bool) \<Rightarrow> string option \<Rightarrow> string option \<Rightarrow> ptext option \<Rightarrow> stats_log \<Rightarrow> signal_stats" where
  "ss_get_stats before strategy symbol since rows =
     (let filtered = filter (ss_keep before strategy symbol since) (map snd (ss_signals rows));
          closed_rows = filter (has_outcome VALID_OUTCOMES) filtered;
          wins = filter (has_outcome [''tp_hit'']) closed_rows;
          rejections = filter (has_outcome [''rejected'']) closed_rows;
          n = length closed_rows
      in \<lparr>st_total_signals = length filtered, st_open_signals = int (length filtered) - int n, st_closed_signals = n,
          st_wins = length wins, st_losses = int n - int (length wins) - int (length rejections),
          st_rejections = length rejections,
          st_rejection_rate = (if closed_rows \<noteq> [] then of_nat (length rejections) / of_nat n else 0),
          st_hit_rate = (if closed_rows \<noteq> [] then of_nat (length wins) / of_nat n else 0),
          st_avg_pips = mean (List.map_filter (\<lambda>r. as_flt (dget_or r ''pips_realized'' PNone)) closed_rows),
          st_avg_time_to_close =
            mean (map of_int (List.map_filter (\<lambda>r. as_int (dget_or r ''time_to_close_seconds'' PNone)) closed_rows)),
          st_by_strategy = count_by ''strategy'' filtered, st_by_symbol = count_by ''symbol'' filtered\<rparr>)"

section \<open>The heartbeat\<close>

record heartbeat_row =
  hr_utc_ts :: instant
  hr_signals_generated :: nat
  hr_regime_filtered :: nat
  hr_traded :: nat
  hr_window_start :: instant

record heartbeat =
  hb_throttle :: int \<comment> \<open>microseconds\<close>
  hb_last_emit_at :: "instant option"
  hb_window_start :: "instant option"
  hb_signals_generated :: nat
  hb_regime_filtered :: nat
  hb_traded :: nat
  hb_log :: "heartbeat_row list"

definition hb_init :: "int \<Rightarrow> heartbeat_row list \<Rightarrow> heartbeat" where
  "hb_init throttle rows =
     \<lparr>hb_throttle = throttle, hb_last_emit_at = None, hb_window_start = None, hb_signals_generated = 0,
      hb_regime_filtered = 0, hb_traded = 0, hb_log = rows\<rparr>"

definition hb_record_signal_generated :: "heartbeat \<Rightarrow> heartbeat" where
  "hb_record_signal_generated h = h\<lparr>hb_signals_generated := hb_signals_generated h + 1\<rparr>"

definition hb_record_regime_filtered :: "heartbeat \<Rightarrow> heartbeat" where
  "hb_record_regime_filtered h = h\<lparr>hb_regime_filtered := hb_regime_filtered h + 1\<rparr>"

definition hb_record_traded :: "heartbeat \<Rightarrow> heartbeat" where
  "hb_record_traded h = h\<lparr>hb_traded := hb_traded h + 1\<rparr>"

definition hb_append_line :: "stats_env \<Rightarrow> heartbeat_row \<Rightarrow> heartbeat \<Rightarrow> heartbeat option" where
  "hb_append_line env payload h =
     (if se_dir_ok env \<and> se_write_ok env then Some (h\<lparr>hb_log := hb_log h @ [payload]\<rparr>) else None)"

text \<open>The row of a heartbeat and the counters after it was written.\<close>

definition hb_payload :: "instant \<Rightarrow> instant \<Rightarrow> heartbeat \<Rightarrow> heartbeat_row" where
  "hb_payload now window_start h =
     \<lparr>hr_utc_ts = now, hr_signals_generated = hb_signals_generated h, hr_regime_filtered = hb_regime_filtered h,
      hr_traded = hb_traded h, hr_window_start = window_start\<rparr>"

definition hb_new_window :: "instant \<Rightarrow> heartbeat \<Rightarrow> heartbeat" where
  "hb_new_window now h =
     h\<lparr>hb_signals_generated := 0, hb_regime_filtered := 0, hb_traded := 0, hb_window_start := Some now\<rparr>"

definition hb_maybe_emit :: "stats_env \<Rightarrow> heartbeat \<Rightarrow> bool \<times> heartbeat" where
  "hb_maybe_emit env h =
     (let now = se_now env in
      if (case hb_last_emit_at h of Some l \<Rightarrow> now - l < hb_throttle h | None \<Rightarrow> False) then (False, h)
      else
        let h1 = (if hb_window_start h = None then h\<lparr>hb_window_start := Some now\<rparr> else h)
        in case hb_append_line env (hb_payload now (or_default (hb_window_start h1) now) h1) h1 of
             None \<Rightarrow> (False, h1)
           | Some h2 \<Rightarrow> (True, hb_new_window now (h2\<lparr>hb_last_emit_at := Some now\<rparr>)))"

definition hb_force_emit :: "stats_env \<Rightarrow> heartbeat \<Rightarrow> bool \<times> heartbeat" where
  "hb_force_emit env h =
     (let now = se_now env; window_start = or_default (hb_window_start h) now
      in case hb_append_line env (hb_payload now window_start h) h of
           None \<Rightarrow> (False, h)
         | Some h1 \<Rightarrow> (True, hb_new_window now h1))"

section \<open>The totals of the aggregation\<close>

lemma count_by_total: "sum_list (map snd (count_by field rs)) = length rs"
proof -
  let ?step = "\<lambda>d r. let k = or_unknown (dget_or r field PNone) in AList.update k (dget_or d k 0 + 1) d"
  have upd: "sum_list (map snd (AList.update k (Suc (dget_or d k 0)) d)) = Suc (sum_list (map snd d))"
    if "distinct (map fst d)" for k :: pyv and d :: "(pyv \<times> nat) list"
    using that by (induction d) (auto simp: dget_or_def map_of_eq_None_iff)
  have "sum_list (map snd (foldl ?step d rs)) = sum_list (map snd d) + length rs"
    if "distinct (map fst d)" for d
    using that by (induction rs arbitrary: d) (simp_all add: Let_def distinct_update upd)
  from this[of "[]"] show ?thesis by (simp add: count_by_def)
qed

lemma exclusive_filters:
  assumes "\<And>x. \<not> (P x \<and> Q x)"
  shows "length (filter P xs) + length (filter Q xs) \<le> length xs"
proof (induction xs)
  case (Cons x xs)
  then show ?case using assms[of x] by auto
qed simp

lemma win_not_rejected: "\<not> (has_outcome [''tp_hit''] r \<and> has_outcome [''rejected''] r)"
  by (auto simp: has_outcome_def)

text \<open>
  The aggregated numbers agree for every log and every filter: open and closed signals make up the
  total, wins, losses and rejections the closed ones, none of them is negative, the rates are
  between 0 and 1, and the counts by strategy and by symbol add up to the total.
\<close>

theorem signal_stats_totals:
  "let st = ss_get_stats before strategy symbol since rows in
     int (st_total_signals st) = st_open_signals st + int (st_closed_signals st) \<and> 0 \<le> st_open_signals st \<and>
     int (st_closed_signals st) = int (st_wins st) + st_losses st + int (st_rejections st) \<and> 0 \<le> st_losses st \<and>
     0 \<le> st_hit_rate st \<and> st_hit_rate st + st_rejection_rate st \<le> 1 \<and> 0 \<le> st_rejection_rate st \<and>
     sum_list (map snd (st_by_strategy st)) = st_total_signals st \<and>
     sum_list (map snd (st_by_symbol st)) = st_total_signals st"
proof -
  define fs where "fs = filter (ss_keep before strategy symbol since) (map snd (ss_signals rows))"
  define cs where "cs = filter (has_outcome VALID_OUTCOMES) fs"
  define w where "w = length (filter (has_outcome [''tp_hit'']) cs)"
  define rj where "rj = length (filter (has_outcome [''rejected'']) cs)"
  have n: "length cs \<le> length fs" by (simp add: cs_def)
  have k: "w + rj \<le> length cs" unfolding w_def rj_def by (rule exclusive_filters[OF win_not_rejected])
  have rates: "(of_nat w :: flt) / of_nat (length cs) + of_nat rj / of_nat (length cs) \<le> 1" if "cs \<noteq> []"
    using k that by (simp add: divide_simps)
  show ?thesis
    unfolding ss_get_stats_def Let_def fs_def[symmetric] cs_def[symmetric] w_def[symmetric] rj_def[symmetric]
    using n k rates by (auto simp: count_by_total)
qed

section \<open>Opening and closing a signal\<close>

lemma dict_merge_Cons [simp]: "dict_merge old ((k, v) # new) = dict_merge (AList.update k v old) new"
  by (simp add: dict_merge_def)

lemma dict_merge_get: "distinct (map fst new) \<Longrightarrow>
    map_of (dict_merge old new) k = (case map_of new k of Some v \<Rightarrow> Some v | None \<Rightarrow> map_of old k)"
proof (induction new arbitrary: old)
  case (Cons e new)
  obtain j v where e: "e = (j, v)" by (cases e)
  have "map_of new j = None" using Cons.prems by (simp add: e map_of_eq_None_iff)
  with Cons show ?case by (auto simp: e dict_simps split: option.split)
qed (simp add: dict_merge_def)

lemma ss_signals_snoc: "ss_signals (rows @ [row]) = merge_row row (ss_signals rows)"
  by (simp add: ss_signals_def)

lemma signal_keys: "fst ` set (ss_signals rows) =
    {sid. truthy sid \<and> (\<exists>row \<in> set rows. dget_or row ''signal_id'' PNone = sid)}"
proof (induction rows rule: rev_induct)
  case (snoc row rows)
  then show ?case by (auto simp: ss_signals_snoc merge_row_def Let_def dom_update[simplified])
qed (simp add: ss_signals_def)

lemma sr_to_row_keys: "distinct (map fst (sr_to_row r))"
  by (simp add: sr_to_row_def)

lemma close_row_keys: "distinct (map fst (carried_fields i e @ [(''outcome'', a), (''pips_realized'', b),
    (''time_to_close_seconds'', c), (''closed_at'', d)]))"
  by (simp add: carried_fields_def)

lemma append_Ret: "ss_append_line env row rows = Ret u rows' \<Longrightarrow> rows' = rows @ [row]"
  by (simp add: ss_append_line_def split: if_splits)


lemma find_last: "list_all (\<lambda>x. \<not> P x) xs \<Longrightarrow> P y \<Longrightarrow> List.find P (xs @ [y]) = Some y"
  by (induction xs) auto

lemma row_is_sid: "row_is i row \<longleftrightarrow> dget_or row ''signal_id'' PNone = pstr i"
  by (auto simp: row_is_def dget_or_def split: option.splits)

lemma signals_fresh: "list_all (\<lambda>row. \<not> row_is i row) rows \<Longrightarrow> map_of (ss_signals rows) (pstr i) = None"
  by (auto simp: map_of_eq_None_iff signal_keys list_all_iff row_is_sid)

lemma signals_distinct: "distinct (map fst (ss_signals rows))"
proof (induction rows rule: rev_induct)
  case (snoc row rows)
  then show ?case by (simp add: ss_signals_snoc merge_row_def Let_def distinct_update)
qed (simp add: ss_signals_def)

lemma truthy_pstr [simp]: "truthy (pstr i) = (i \<noteq> [])"
  by simp

lemma merge_row_id:
  assumes "dget_or row ''signal_id'' PNone = pstr i" and "i \<noteq> []"
  shows "merge_row row sg = AList.update (pstr i) (dict_merge (dget_or sg (pstr i) []) row) sg"
  using assms by (simp add: merge_row_def Let_def)



definition demo_record :: signal_record where
  "demo_record = \<lparr>sr_signal_id = ''POS_1'', sr_timestamp = [], sr_strategy = ''orb'', sr_symbol = ''EURUSD'',
     sr_direction = ''BUY'', sr_confidence = 8/10, sr_rationale_tags = [], sr_confluence_score = 0, sr_lots = 1/10,
     sr_entry_price = 11/10, sr_sl_price = 109/100, sr_tp_price = 112/100, sr_outcome = None,
     sr_pips_realized = None, sr_time_to_close_seconds = None, sr_closed_at = None, sr_rejection_reason = None,
     sr_error_code = None\<rparr>"

definition demo_stats_env :: stats_env where
  "demo_stats_env = \<lparr>se_now = 0, se_uuid = ''u'', se_dir_ok = True, se_write_ok = True\<rparr>"


section \<open>The heartbeat loses no count\<close>

datatype hb_op = HGenerated | HFiltered | HTraded | HMaybe | HForce

fun hb_step :: "heartbeat \<Rightarrow> stats_env \<times> hb_op \<Rightarrow> heartbeat" where
  "hb_step h (env, HGenerated) = hb_record_signal_generated h"
| "hb_step h (env, HFiltered) = hb_record_regime_filtered h"
| "hb_step h (env, HTraded) = hb_record_traded h"
| "hb_step h (env, HMaybe) = snd (hb_maybe_emit env h)"
| "hb_step h (env, HForce) = snd (hb_force_emit env h)"

text \<open>What the rows written and the current window together have counted.\<close>

definition hb_counted :: "heartbeat \<Rightarrow> nat \<times> nat \<times> nat" where
  "hb_counted h =
     (sum_list (map hr_signals_generated (hb_log h)) + hb_signals_generated h,
      sum_list (map hr_regime_filtered (hb_log h)) + hb_regime_filtered h,
      sum_list (map hr_traded (hb_log h)) + hb_traded h)"

definition hb_counts :: "(stats_env \<times> hb_op) list \<Rightarrow> nat \<times> nat \<times> nat" where
  "hb_counts es = (let ops = map snd es in
     (count_list ops HGenerated, count_list ops HFiltered, count_list ops HTraded))"

lemma hb_append_Some:
  "hb_append_line env row h = Some h' \<Longrightarrow> h' = h\<lparr>hb_log := hb_log h @ [row]\<rparr>"
  by (simp add: hb_append_line_def split: if_splits)

lemma hb_emit_counted:
  "hb_counted (snd (hb_maybe_emit env h)) = hb_counted h"
  "hb_counted (snd (hb_force_emit env h)) = hb_counted h"
  by (auto simp: hb_maybe_emit_def hb_force_emit_def hb_counted_def hb_new_window_def hb_payload_def Let_def
      dest!: hb_append_Some split: option.splits)

lemma hb_step_counted:
  "hb_counted (hb_step h (env, e)) = (case hb_counted h of (a, b, c) \<Rightarrow>
     (a + (if e = HGenerated then 1 else 0), b + (if e = HFiltered then 1 else 0), c + (if e = HTraded then 1 else 0)))"
  by (cases e) (auto simp: hb_record_signal_generated_def hb_record_regime_filtered_def hb_record_traded_def
      hb_emit_counted, auto simp: hb_counted_def)

text \<open>
  No count is lost or reported twice: over every run of counter calls, throttled and forced
  heartbeats, whichever writes fail, the rows written so far and the counters of the current window
  together hold exactly the calls made (on top of the rows found at the start).
\<close>

theorem heartbeat_conserves_counts:
  "hb_counted (foldl hb_step (hb_init throttle rows) es) =
     (case (hb_counted (hb_init throttle rows), hb_counts es) of ((a, b, c), (x, y, z)) \<Rightarrow> (a + x, b + y, c + z))"
proof (induction es rule: rev_induct)
  case Nil
  then show ?case by (simp add: hb_counts_def split: prod.split)
next
  case (snoc e es)
  obtain env x where e: "e = (env, x)" by (cases e)
  show ?case using snoc by (cases x) (auto simp: e hb_step_counted hb_counts_def Let_def simp del: hb_step.simps split: prod.splits)
qed


end
