(* ===== verification/Paper.thy ===== *)
theory Paper
  imports Orders RiskSafety SignalStats
begin

text \<open>
  The paper trader of \<open>adapters/ctrader/paper_trader.py\<close>: the component that puts the order manager, the
  live risk guard and a kill switch of its own together. A signal passes the guard's two checks and
  the kill switch before an order is executed; price updates, closings and clean-ups book realised profit,
  tell the guard, and write the signal statistics.

  The trader owns its parts, so they are fields of its state. A part's exception ends the operation where
  it occurs; what the operation wrote before stays. Exceptions of the statistics are swallowed by the
  code, so the statistics end where they fail. Callbacks are recorded calls.
\<close>

section \<open>Data\<close>

text \<open>The signal with its time stamp, which only the statistics read.\<close>

record paper_signal = trade_signal +
  sig_timestamp :: py_datetime

record paper_env =
  pe_risk :: risk_env
  pe_draw :: flt \<comment> \<open>the random draw of the slippage\<close>
  pe_sent :: "order option" \<comment> \<open>what \<open>send_order\<close> of the live client returned\<close>
  pe_stats :: stats_env

record paper_result =
  px_success :: bool
  px_signal :: paper_signal
  px_order :: "order option"
  px_position :: "position option"
  px_rejection_reason :: ptext
  px_risk_guard_result :: "risk_limit_result option"
  px_timestamp :: instant
  px_slippage_applied :: flt

record paper_stats =
  ps_total_signals_processed :: int
  ps_trades_executed :: int
  ps_trades_rejected :: int
  ps_signals_blocked_by_risk :: int
  ps_current_balance :: flt
  ps_starting_balance :: flt
  ps_realized_pnl :: flt
  ps_unrealized_pnl :: flt

datatype paper_payload = CallResult paper_result | CallClosed position

record paper_trader =
  pt_order_manager :: order_manager
  pt_risk_guard :: risk_guard
  pt_live_mode_enabled :: bool
  pt_starting_balance :: flt
  pt_current_balance :: flt
  pt_stats :: paper_stats
  pt_trade_history :: "paper_result list"
  pt_callbacks :: "(string \<times> nat) list"
  pt_calls :: "(nat \<times> string \<times> paper_payload) list"
  pt_last_update :: "instant option"
  pt_kill_switch :: kill_switch
  pt_recorder_ready :: bool \<comment> \<open>the lazily built recorder exists\<close>
  pt_stats_log :: stats_log
  pt_position_signal_id :: "(string \<times> string) list"

type_synonym 'a pt_result = "(paper_trader, 'a) outcome"

definition paper_stats_new :: "flt \<Rightarrow> paper_stats" where
  "paper_stats_new balance =
     \<lparr>ps_total_signals_processed = 0, ps_trades_executed = 0, ps_trades_rejected = 0, ps_signals_blocked_by_risk = 0,
      ps_current_balance = balance, ps_starting_balance = balance, ps_realized_pnl = 0, ps_unrealized_pnl = 0\<rparr>"

definition api_is_live :: "api_client option \<Rightarrow> bool" where
  "api_is_live api = (case api of None \<Rightarrow> False | Some c \<Rightarrow> \<not> ac_is_paper_mode c)"

text \<open>
  Construction. The risk guard is built first, then a kill switch manager on the default directory
  with the class default of its administrative flag; building it may raise.
\<close>

definition pt_init ::
  "paper_env \<Rightarrow> ftmo_config option \<Rightarrow> position_size_config option \<Rightarrow> flt \<Rightarrow> api_client option \<Rightarrow>
     ks_disk \<Rightarrow> risk_file \<Rightarrow> stats_log \<Rightarrow> pyexn + paper_trader" where
  "pt_init env ftmo pos starting_balance api default_disk file rows =
     (let guard = rg_init (pe_risk env) ftmo starting_balance [] 2 default_disk file
      in case ks_init (re_ks (pe_risk env)) None default_disk of
           Exc e ks \<Rightarrow> Inl e
         | Ret u ks \<Rightarrow> Inr
             \<lparr>pt_order_manager = om_init pos api None, pt_risk_guard = guard\<lparr>rg_default_disk := ks_disk ks\<rparr>,
              pt_live_mode_enabled = api_is_live api, pt_starting_balance = starting_balance,
              pt_current_balance = starting_balance, pt_stats = paper_stats_new starting_balance,
              pt_trade_history = [], pt_callbacks = [], pt_calls = [], pt_last_update = None, pt_kill_switch = ks,
              pt_recorder_ready = False, pt_stats_log = rows, pt_position_signal_id = []\<rparr>)"

section \<open>Callbacks and small updates\<close>

definition pt_trigger_callback :: "string \<Rightarrow> paper_payload \<Rightarrow> paper_trader \<Rightarrow> paper_trader" where
  "pt_trigger_callback event payload pt =
     pt\<lparr>pt_calls := pt_calls pt @ map (\<lambda>(evt, c). (c, event, payload)) (filter (\<lambda>(evt, c). evt = event) (pt_callbacks pt))\<rparr>"

definition pt_register_callback :: "string \<Rightarrow> nat \<Rightarrow> paper_trader \<Rightarrow> unit pt_result" where
  "pt_register_callback event callback pt =
     (if \<not> List.member [''on_trade_executed'', ''on_position_closed''] event then Exc ValueError pt
      else Ret () (pt\<lparr>pt_callbacks := pt_callbacks pt @ [(event, callback)]\<rparr>))"

definition pt_set_api_client :: "api_client option \<Rightarrow> paper_trader \<Rightarrow> paper_trader" where
  "pt_set_api_client api pt =
     pt\<lparr>pt_live_mode_enabled := api_is_live api, pt_order_manager := om_set_api_client api (pt_order_manager pt)\<rparr>"

abbreviation pt_on_stats :: "(paper_stats \<Rightarrow> paper_stats) \<Rightarrow> paper_trader \<Rightarrow> paper_trader" where
  "pt_on_stats f pt \<equiv> pt\<lparr>pt_stats := f (pt_stats pt)\<rparr>"

text \<open>A call of the risk guard; an exception ends the operation.\<close>

definition pt_guard :: "'a rg_result \<Rightarrow> paper_trader \<Rightarrow> 'a pt_result" where
  "pt_guard m pt =
     (case m of Ret a g \<Rightarrow> Ret a (pt\<lparr>pt_risk_guard := g\<rparr>) | Exc e g \<Rightarrow> Exc e (pt\<lparr>pt_risk_guard := g\<rparr>))"

section \<open>Signal statistics\<close>

definition pt_get_stats_recorder :: "paper_env \<Rightarrow> paper_trader \<Rightarrow> unit pt_result" where
  "pt_get_stats_recorder env pt =
     (if pt_recorder_ready pt then Ret () pt
      else if se_dir_ok (pe_stats env) then Ret () (pt\<lparr>pt_recorder_ready := True\<rparr>)
      else Exc OSError pt)"

text \<open>A write of the recorder.\<close>

definition pt_log :: "(stats_log, 'a) outcome \<Rightarrow> paper_trader \<Rightarrow> unit pt_result" where
  "pt_log m pt =
     (case m of Ret a rows \<Rightarrow> Ret () (pt\<lparr>pt_stats_log := rows\<rparr>) | Exc e rows \<Rightarrow> Exc e (pt\<lparr>pt_stats_log := rows\<rparr>))"

definition pt_open_record :: "string \<Rightarrow> paper_signal \<Rightarrow> flt \<Rightarrow> signal_record" where
  "pt_open_record signal_id sg volume =
     \<lparr>sr_signal_id = signal_id, sr_timestamp = [FIsoDt (sig_timestamp sg)],
      sr_strategy = (if sig_strategy_id sg \<noteq> [] then sig_strategy_id sg else ''unknown''), sr_symbol = sig_symbol sg,
      sr_direction = (if sig_direction sg = LONG then ''BUY'' else ''SELL''), sr_confidence = sig_confidence sg,
      sr_rationale_tags = (if truthy (PStr (sig_rationale sg)) then [sig_rationale sg] else []),
      sr_confluence_score = 0, sr_lots = volume, sr_entry_price = sig_entry_price sg, sr_sl_price = sig_stop_loss sg,
      sr_tp_price = sig_take_profit_1 sg, sr_outcome = None, sr_pips_realized = None,
      sr_time_to_close_seconds = None, sr_closed_at = None, sr_rejection_reason = None, sr_error_code = None\<rparr>"

definition pt_record_open :: "paper_env \<Rightarrow> paper_signal \<Rightarrow> flt \<Rightarrow> execution_result \<Rightarrow> paper_trader \<Rightarrow> paper_trader" where
  "pt_record_open env sg volume res pt =
     state_of (and_then (pt_get_stats_recorder env pt) (\<lambda>_ pt.
       let position_id = (case er_position res of Some p \<Rightarrow> po_position_id p
             | None \<Rightarrow> (case er_order res of Some ord \<Rightarrow> od_order_id ord | None \<Rightarrow> []));
           signal_id = (if position_id \<noteq> [] then position_id else sig_strategy_id sg);
           pt1 = (if position_id \<noteq> [] \<and> signal_id \<noteq> []
                  then pt\<lparr>pt_position_signal_id := AList.update position_id signal_id (pt_position_signal_id pt)\<rparr> else pt)
       in if signal_id = [] then Ret () pt1
          else pt_log (ss_record_signal (pe_stats env) (pt_open_record signal_id sg volume) (pt_stats_log pt1)) pt1))"

definition map_close_reason_to_outcome :: "string \<Rightarrow> string \<Rightarrow> bool \<Rightarrow> string" where
  "map_close_reason_to_outcome reason status is_win =
     (case List.find (\<lambda>token. sublist token (py_lower reason))
             [''tp_hit'', ''sl_hit'', ''manual_close'', ''expired'', ''timeout_close''] of
        Some token \<Rightarrow> token
      | None \<Rightarrow>
          if sublist ''tp'' (py_lower status) then ''tp_hit''
          else if sublist ''sl'' (py_lower status) then ''sl_hit''
          else if sublist ''timeout'' (py_lower status) then ''timeout_close''
          else if is_win then ''tp_hit'' else ''sl_hit'')"

text \<open>
  The closing row of a position, under the signal remembered for \<open>key\<close> (which is forgotten) or
  \<open>key\<close> itself. Subtracting a naive and an aware time raises, which ends the recording.
\<close>

definition pt_record_close :: "paper_env \<Rightarrow> string \<Rightarrow> position \<Rightarrow> string \<Rightarrow> paper_trader \<Rightarrow> paper_trader" where
  "pt_record_close env key p reason pt =
     (let signal_id = dget_or (pt_position_signal_id pt) key key;
          pt1 = pt\<lparr>pt_position_signal_id := AList.delete key (pt_position_signal_id pt)\<rparr>;
          outcome = map_close_reason_to_outcome reason (position_status_value (po_status p)) (po_closed_pnl p > 0)
      in if signal_id = [] then pt1
         else case dt_diff (or_default (po_closed_at p) (Naive (re_now (pe_risk env)))) (po_opened_at p) of
             Inl e \<Rightarrow> pt1
           | Inr us \<Rightarrow> state_of (and_then (pt_get_stats_recorder env pt1) (\<lambda>_ pt.
               pt_log (ss_record_outcome (pe_stats env) signal_id outcome (po_closed_pnl p) (max 0 (us div second_us))
                 (pt_stats_log pt)) pt)))"

section \<open>Processing a signal\<close>

definition pt_refuse :: "paper_env \<Rightarrow> paper_signal \<Rightarrow> ptext \<Rightarrow> risk_limit_result option \<Rightarrow> paper_result" where
  "pt_refuse env sg reason guard =
     \<lparr>px_success = False, px_signal = sg, px_order = None, px_position = None, px_rejection_reason = reason,
      px_risk_guard_result = guard, px_timestamp = re_now (pe_risk env), px_slippage_applied = 0\<rparr>"

definition pt_trade_request :: "paper_signal \<Rightarrow> flt \<Rightarrow> flt \<Rightarrow> trade_request" where
  "pt_trade_request sg volume balance =
     \<lparr>tr_direction = sig_direction sg, tr_volume = volume, tr_entry_price = sig_entry_price sg,
      tr_stop_loss = sig_stop_loss sg, tr_take_profit = sig_take_profit_1 sg, tr_account_balance = Some balance,
      tr_symbol = Some (sig_symbol sg), tr_spread = 0\<rparr>"

definition pt_execute_order ::
  "paper_env \<Rightarrow> paper_signal \<Rightarrow> flt \<Rightarrow> flt \<Rightarrow> flt \<Rightarrow> flt \<Rightarrow> paper_trader \<Rightarrow> execution_result \<times> order_manager" where
  "pt_execute_order env sg volume spread bid ask pt =
     (let now = re_now (pe_risk env) in
      if pt_live_mode_enabled pt then
        om_execute_live_order now (pe_sent env)
          \<lparr>la_symbol = sig_symbol sg, la_direction = sig_direction sg, la_volume = volume, la_order_type = MARKET,
           la_price = None, la_take_profit_2 = Some (sig_take_profit_2 sg), la_take_profit_3 = Some (sig_take_profit_3 sg)\<rparr>
          (pt_order_manager pt)
      else
        om_execute_paper_order now (pe_draw env)
          \<lparr>pa_symbol = sig_symbol sg, pa_direction = sig_direction sg, pa_volume = volume,
           pa_entry_price = sig_entry_price sg, pa_stop_loss = Some (sig_stop_loss sg),
           pa_take_profit = Some (sig_take_profit_1 sg), pa_take_profit_2 = Some (sig_take_profit_2 sg),
           pa_take_profit_3 = Some (sig_take_profit_3 sg), pa_comment = sig_rationale sg, pa_spread = spread,
           pa_bid = bid, pa_ask = ask\<rparr> (pt_order_manager pt))"

text \<open>After the kill switch: the order, the books, the statistics and the callback.\<close>

definition pt_submit ::
  "paper_env \<Rightarrow> paper_signal \<Rightarrow> flt \<Rightarrow> flt \<Rightarrow> flt \<Rightarrow> flt \<Rightarrow> risk_limit_result \<Rightarrow> paper_trader \<Rightarrow> paper_result \<times> paper_trader" where
  "pt_submit env sg volume spread bid ask guard pt =
     (let (res, om) = pt_execute_order env sg volume spread bid ask pt;
          pt1 = pt\<lparr>pt_order_manager := om\<rparr>
      in if er_success res then
           let pt2 = pt_on_stats (\<lambda>s. s\<lparr>ps_trades_executed := ps_trades_executed s + 1\<rparr>) pt1;
               pt3 = (case er_position res of
                        None \<Rightarrow> pt2
                      | Some p \<Rightarrow>
                          let balance = pt_current_balance pt2 + po_unrealized_pnl p
                          in (pt_on_stats (\<lambda>s. s\<lparr>ps_current_balance := balance\<rparr>) pt2)
                               \<lparr>pt_current_balance := balance, pt_risk_guard := rg_update_balance balance (pt_risk_guard pt2)\<rparr>);
               result = \<lparr>px_success = True, px_signal = sg, px_order = er_order res, px_position = er_position res,
                 px_rejection_reason = [], px_risk_guard_result = Some guard, px_timestamp = re_now (pe_risk env),
                 px_slippage_applied = er_slippage_applied res\<rparr>;
               pt4 = pt_record_open env sg volume res (pt3\<lparr>pt_trade_history := pt_trade_history pt3 @ [result]\<rparr>)
           in (result, pt_trigger_callback ''on_trade_executed'' (CallResult result) pt4)
         else
           let pt2 = pt_on_stats (\<lambda>s. s\<lparr>ps_trades_rejected := ps_trades_rejected s + 1\<rparr>) pt1;
               reason = (if er_rejection_reason res \<noteq> [] then [Lit (er_rejection_reason res)]
                         else if truthy (PStr (er_error_message res)) then er_error_message res
                         else [Lit ''Order execution failed'']);
               result = pt_refuse env sg reason (Some guard)
           in (result, pt2\<lparr>pt_trade_history := pt_trade_history pt2 @ [result]\<rparr>))"

definition pt_volume :: "paper_signal \<Rightarrow> paper_trader \<Rightarrow> pyexn + flt" where
  "pt_volume sg pt =
     (if sig_volume sg > 0 then Inr (sig_volume sg)
      else om_calculate_position_size (pt_current_balance pt) (sig_entry_price sg) (sig_stop_loss sg) (sig_symbol sg)
        (pt_order_manager pt))"

definition pt_blocked :: "paper_trader \<Rightarrow> paper_trader" where
  "pt_blocked = pt_on_stats (\<lambda>s. s\<lparr>ps_signals_blocked_by_risk := ps_signals_blocked_by_risk s + 1\<rparr>)"

definition pt_process_signal :: "paper_env \<Rightarrow> paper_signal \<Rightarrow> flt \<Rightarrow> flt \<Rightarrow> flt \<Rightarrow> paper_trader \<Rightarrow> paper_result pt_result" where
  "pt_process_signal env sg spread bid ask pt0 =
     (let pt = pt_on_stats (\<lambda>s. s\<lparr>ps_total_signals_processed := ps_total_signals_processed s + 1\<rparr>) pt0;
          risk_result = rg_check_signal (pe_risk env) (trade_signal.truncate sg) (pt_risk_guard pt)
      in if \<not> rl_allowed risk_result then
           Ret (pt_refuse env sg (rl_message risk_result) (Some risk_result)) (pt_blocked pt)
         else case pt_volume sg pt of
             Inl e \<Rightarrow> Exc e pt
           | Inr volume \<Rightarrow>
               and_then (pt_guard (rg_check_trade_allowed (pe_risk env)
                   (pt_trade_request sg volume (pt_current_balance pt)) (pt_risk_guard pt)) pt) (\<lambda>trade_check pt1.
                 if \<not> rl_allowed trade_check then
                   Ret (pt_refuse env sg (rl_message trade_check) (Some trade_check)) (pt_blocked pt1)
                 else if ks_is_globally_killed (pt_kill_switch pt1) then
                   Ret (pt_refuse env sg [Lit ''kill_switch_active''] None) pt1
                 else (let (result, pt2) = pt_submit env sg volume spread bid ask risk_result pt1 in Ret result pt2)))"

section \<open>Price updates\<close>

text \<open>What a position closed by a price update adds: profit, the guard, the statistics, the callback.\<close>

definition pt_book_closed :: "paper_env \<Rightarrow> position \<Rightarrow> string \<Rightarrow> paper_trader \<Rightarrow> unit pt_result" where
  "pt_book_closed env p reason pt =
     (let pt1 = pt_on_stats (\<lambda>s. s\<lparr>ps_realized_pnl := ps_realized_pnl s + po_closed_pnl p\<rparr>) pt
      in and_then (pt_guard (rg_record_trade (pe_risk env) (po_closed_pnl p) (po_closed_pnl p > 0) 1 (pt_risk_guard pt1)) pt1)
           (\<lambda>_ pt. Ret () (pt_trigger_callback ''on_position_closed'' (CallClosed p)
              (pt_record_close env (po_position_id p) p reason pt))))"

fun pt_price_loop ::
  "paper_env \<Rightarrow> (string \<times> flt) list \<Rightarrow> (string \<times> flt) list \<Rightarrow> (string \<times> flt) list \<Rightarrow> position list \<Rightarrow> flt \<Rightarrow>
     paper_trader \<Rightarrow> flt pt_result" where
  "pt_price_loop env prices bids asks [] open_pnl pt = Ret open_pnl pt"
| "pt_price_loop env prices bids asks (p # ps) open_pnl pt =
     (case map_of prices (po_symbol p) of
        None \<Rightarrow> pt_price_loop env prices bids asks ps open_pnl pt
      | Some price \<Rightarrow>
          let om = snd (om_update_position (re_now (pe_risk env)) (po_position_id p) price
                (dget_or bids (po_symbol p) 0) (dget_or asks (po_symbol p) 0) None (pt_order_manager pt));
              pt1 = pt\<lparr>pt_order_manager := om\<rparr>
          in case om_get_position (po_position_id p) om of
               None \<Rightarrow> pt_price_loop env prices bids asks ps open_pnl pt1
             | Some q \<Rightarrow>
                 if position_is_closed (po_status q) then
                   and_then (pt_book_closed env q (or_default (po_close_reason q) []) pt1)
                     (\<lambda>_. pt_price_loop env prices bids asks ps open_pnl)
                 else pt_price_loop env prices bids asks ps (open_pnl + po_unrealized_pnl q) pt1)"

definition pt_update_market_prices ::
  "paper_env \<Rightarrow> (string \<times> flt) list \<Rightarrow> (string \<times> flt) list \<Rightarrow> (string \<times> flt) list \<Rightarrow> paper_trader \<Rightarrow> unit pt_result" where
  "pt_update_market_prices env prices bids asks pt =
     and_then (pt_price_loop env prices bids asks (om_get_open_positions (pt_order_manager pt)) 0 pt) (\<lambda>open_pnl pt.
       let balance = pt_starting_balance pt + ps_realized_pnl (pt_stats pt) + open_pnl
       in Ret () ((pt_on_stats (\<lambda>s. s\<lparr>ps_unrealized_pnl := open_pnl, ps_current_balance := balance\<rparr>) pt)
            \<lparr>pt_current_balance := balance, pt_risk_guard := rg_update_balance balance (pt_risk_guard pt),
             pt_last_update := Some (re_now (pe_risk env))\<rparr>))"

section \<open>Closing\<close>

definition pt_close_position :: "paper_env \<Rightarrow> string \<Rightarrow> flt \<Rightarrow> string \<Rightarrow> paper_trader \<Rightarrow> bool pt_result" where
  "pt_close_position env position_id exit_price reason pt =
     (case om_close_position (re_now (pe_risk env)) position_id (Some exit_price) reason None (pt_order_manager pt) of
        (None, om) \<Rightarrow> Ret False (pt\<lparr>pt_order_manager := om\<rparr>)
      | (Some p, om) \<Rightarrow>
          let pt1 = pt_on_stats (\<lambda>s. s\<lparr>ps_realized_pnl := ps_realized_pnl s + po_closed_pnl p,
                ps_current_balance := pt_current_balance pt\<rparr>) (pt\<lparr>pt_order_manager := om\<rparr>)
          in and_then (pt_guard (rg_record_trade (pe_risk env) (po_closed_pnl p) (po_closed_pnl p > 0) 1 (pt_risk_guard pt1)) pt1)
               (\<lambda>_ pt. Ret True (pt_trigger_callback ''on_position_closed'' (CallClosed p)
                  (pt_record_close env position_id p reason pt))))"

fun pt_close_loop :: "paper_env \<Rightarrow> flt \<Rightarrow> string \<Rightarrow> position list \<Rightarrow> paper_trader \<Rightarrow> unit pt_result" where
  "pt_close_loop env exit_price reason [] pt = Ret () pt"
| "pt_close_loop env exit_price reason (p # ps) pt =
     and_then (pt_close_position env (po_position_id p) exit_price reason pt) (\<lambda>_. pt_close_loop env exit_price reason ps)"

definition pt_close_all_positions :: "paper_env \<Rightarrow> flt \<Rightarrow> string \<Rightarrow> paper_trader \<Rightarrow> unit pt_result" where
  "pt_close_all_positions env exit_price reason pt =
     pt_close_loop env exit_price reason (om_get_open_positions (pt_order_manager pt)) pt"

fun pt_clear_loop :: "paper_env \<Rightarrow> position list \<Rightarrow> paper_trader \<Rightarrow> paper_trader" where
  "pt_clear_loop env [] pt = pt"
| "pt_clear_loop env (p # ps) pt =
     (let exit_price = (if po_current_price p \<noteq> 0 then po_current_price p else po_entry_price p);
          om = snd (om_close_position (re_now (pe_risk env)) (po_position_id p) (Some exit_price) ''synthetic_cleanup'' None
                (pt_order_manager pt));
          pt1 = pt\<lparr>pt_order_manager := om\<rparr>
      in pt_clear_loop env ps
           (case om_get_position (po_position_id p) om of
              None \<Rightarrow> pt1
            | Some q \<Rightarrow>
                if position_is_closed (po_status q)
                then pt_on_stats (\<lambda>s. s\<lparr>ps_realized_pnl := ps_realized_pnl s + po_closed_pnl q\<rparr>) pt1 else pt1))"

definition pt_clear_stuck_positions :: "paper_env \<Rightarrow> paper_trader \<Rightarrow> nat \<times> paper_trader" where
  "pt_clear_stuck_positions env pt =
     (let positions = om_get_open_positions (pt_order_manager pt);
          pt1 = pt_clear_loop env positions pt;
          balance = pt_starting_balance pt1 + ps_realized_pnl (pt_stats pt1)
      in (length positions,
          (pt_on_stats (\<lambda>s. s\<lparr>ps_current_balance := balance\<rparr>) pt1)\<lparr>pt_current_balance := balance\<rparr>))"

section \<open>Queries and reset\<close>

definition pt_get_open_positions :: "paper_trader \<Rightarrow> position list" where
  "pt_get_open_positions pt = om_get_open_positions (pt_order_manager pt)"

definition pt_get_stats :: "paper_trader \<Rightarrow> paper_stats" where
  "pt_get_stats pt =
     (pt_stats pt)\<lparr>ps_current_balance := pt_current_balance pt, ps_starting_balance := pt_starting_balance pt\<rparr>"

definition pt_reset :: "paper_env \<Rightarrow> paper_trader \<Rightarrow> unit pt_result" where
  "pt_reset env pt =
     (let pt1 = pt\<lparr>pt_current_balance := pt_starting_balance pt, pt_stats := paper_stats_new (pt_starting_balance pt),
            pt_trade_history := []\<rparr>
      in and_then (pt_guard (rg_reset_circuit_breaker (pe_risk env) (pt_risk_guard pt1)) pt1) (\<lambda>_ pt.
           Ret () (pt\<lparr>pt_risk_guard := rg_reset_daily_tracking (pt_risk_guard pt)\<rparr>)))"

end
