(* ===== verification/PaperBooks.thy ===== *)
theory PaperBooks
  imports Paper OrderSafety
begin

text \<open>
  The books of the paper trader: the value of the order manager's positions, what every operation does
  to it and to the trader's realised profit, the runs of the trader, and what never changes.
\<close>

section \<open>The value of the books\<close>

definition settled_value :: "position \<Rightarrow> flt" where
  "settled_value p = (if position_is_closed (po_status p) then po_closed_pnl p else 0)"

definition open_value :: "position \<Rightarrow> flt" where
  "open_value p = (if po_status p = OPEN then po_unrealized_pnl p else 0)"

definition book_sum :: "(position \<Rightarrow> flt) \<Rightarrow> (string \<times> position) list \<Rightarrow> flt" where
  "book_sum f ps = sum_list (map (\<lambda>(k, p). f p) ps)"

lemma book_sum_simps [simp]: "book_sum f [] = 0" "book_sum f ((k, p) # ps) = f p + book_sum f ps"
  by (simp_all add: book_sum_def)

lemma book_sum_update:
  "book_sum f (AList.update k p ps) = book_sum f ps + f p - (case map_of ps k of None \<Rightarrow> 0 | Some q \<Rightarrow> f q)"
  by (induction ps) (auto split: option.split)

lemma total_realized_eq: "om_get_total_realized_pnl om = book_sum settled_value (om_positions om)"
proof -
  have "sum_list (map po_closed_pnl (filter (\<lambda>p. position_is_closed (po_status p)) (map snd ps))) = book_sum settled_value ps"
    for ps by (induction ps) (auto simp: settled_value_def)
  then show ?thesis by (simp add: om_get_total_realized_pnl_def)
qed

lemma total_unrealized_eq: "om_get_total_unrealized_pnl om = book_sum open_value (om_positions om)"
proof -
  have "sum_list (map po_unrealized_pnl (filter (\<lambda>p. po_status p = OPEN) (map snd ps))) = book_sum open_value ps"
    for ps by (induction ps) (auto simp: open_value_def)
  then show ?thesis by (simp add: om_get_total_unrealized_pnl_def om_get_open_positions_def)
qed

lemma closed_not_open [simp]: "\<not> position_is_closed OPEN" "position_is_closed CLOSED"
  by (simp_all add: position_is_closed_def)

lemma open_values: "po_status p = OPEN \<Longrightarrow> settled_value p = 0"
  by (simp add: settled_value_def)

lemma close_result:
  assumes "om_close now k p x r cs om = (p', om')"
  shows "om_positions om' = AList.update k p' (om_positions om) \<and> po_status p' = CLOSED \<and>
     po_position_id p' = po_position_id p \<and> po_close_reason p' = Some r \<and> po_opened_at p' = po_opened_at p"
  using assms by (auto simp: om_close_def Let_def)

text \<open>What a price update does to the entry of one position.\<close>

lemma update_entry:
  assumes "map_of (om_positions om) k = Some p"
  shows "\<exists>q. map_of (om_positions (snd (om_update_position now k x b a cs om))) k = Some q \<and>
     (po_status p = OPEN \<longrightarrow> po_status q = OPEN \<or> po_status q = CLOSED) \<and>
     (\<forall>f. book_sum f (om_positions (snd (om_update_position now k x b a cs om))) = book_sum f (om_positions om) + f q - f p) \<and>
     (\<forall>j. j \<noteq> k \<longrightarrow> map_of (om_positions (snd (om_update_position now k x b a cs om))) j = map_of (om_positions om) j)"
proof -
  have one: "\<exists>q. map_of ps' k = Some q \<and> (po_status p = OPEN \<longrightarrow> po_status q = OPEN \<or> po_status q = CLOSED) \<and>
      (\<forall>f. book_sum f ps' = book_sum f (om_positions om) + f q - f p) \<and>
      (\<forall>j. j \<noteq> k \<longrightarrow> map_of ps' j = map_of (om_positions om) j)"
    if "ps' = AList.update k q (om_positions om)" "po_status q = po_status p \<or> po_status q = CLOSED" for ps' q
    using that assms by (auto simp: book_sum_update dict_simps)
  have two: "AList.update k q (AList.update k q' ps) = AList.update k q ps" for q q' and ps :: "(string \<times> position) list"
    by (induction ps) auto
  show ?thesis
    using assms unfolding om_update_position_def Let_def
    by (auto simp: two dest!: close_result split: prod.split intro!: one)
qed

section \<open>What the parts of an operation leave alone\<close>

text \<open>The fields the books are about: the order manager, the realised profit and the starting balance.\<close>

definition pt_books :: "paper_trader \<Rightarrow> order_manager \<times> flt \<times> flt" where
  "pt_books pt = (pt_order_manager pt, ps_realized_pnl (pt_stats pt), pt_starting_balance pt)"

definition pt_same :: "paper_trader \<Rightarrow> paper_trader \<Rightarrow> bool" where
  "pt_same pt pt' \<longleftrightarrow> pt_books pt' = pt_books pt \<and> pt_kill_switch pt' = pt_kill_switch pt"

lemma pt_same_simps [simp]:
  "pt_same pt pt"
  "pt_same pt (pt'\<lparr>pt_position_signal_id := a\<rparr>) = pt_same pt pt'"
  "pt_same pt (pt'\<lparr>pt_recorder_ready := b\<rparr>) = pt_same pt pt'"
  "pt_same pt (pt'\<lparr>pt_stats_log := c\<rparr>) = pt_same pt pt'"
  "pt_same pt (pt'\<lparr>pt_risk_guard := d\<rparr>) = pt_same pt pt'"
  "pt_same pt (pt'\<lparr>pt_calls := e\<rparr>) = pt_same pt pt'"
  "pt_same pt (pt'\<lparr>pt_trade_history := h\<rparr>) = pt_same pt pt'"
  "pt_same pt (pt'\<lparr>pt_callbacks := i\<rparr>) = pt_same pt pt'"
  "pt_same pt (pt'\<lparr>pt_current_balance := j\<rparr>) = pt_same pt pt'"
  "pt_same pt (pt'\<lparr>pt_last_update := k\<rparr>) = pt_same pt pt'"
  by (simp_all add: pt_same_def pt_books_def)

lemma pt_same_stats: "ps_realized_pnl s = ps_realized_pnl (pt_stats pt') \<Longrightarrow>
    pt_same pt (pt'\<lparr>pt_stats := s\<rparr>) = pt_same pt pt'"
  by (simp add: pt_same_def pt_books_def)

lemma pt_same_trans: "pt_same a b \<Longrightarrow> pt_same b c \<Longrightarrow> pt_same a c"
  by (simp add: pt_same_def)

lemma pt_guard_same: "pt_same pt pt' \<Longrightarrow> pt_same pt (state_of (pt_guard m pt'))"
  by (cases m) (simp_all add: pt_guard_def)

lemma trigger_same [simp]: "pt_same pt (pt_trigger_callback e x pt') = pt_same pt pt'"
  by (simp add: pt_trigger_callback_def)

lemma recorder_same: "pt_same pt pt' \<Longrightarrow> pt_same pt (state_of (pt_get_stats_recorder env pt'))"
  by (simp add: pt_get_stats_recorder_def)

lemma pt_log_same: "pt_same pt pt' \<Longrightarrow> pt_same pt (state_of (pt_log m pt'))"
  by (cases m) (simp_all add: pt_log_def)

lemma record_open_same: "pt_same pt pt' \<Longrightarrow> pt_same pt (pt_record_open env sg v res pt')"
  unfolding pt_record_open_def
  by (rule and_then_inv[where Q = "pt_same pt"]) (auto simp: Let_def intro: recorder_same pt_log_same)

lemma record_then_log_same:
  "pt_same pt pt' \<Longrightarrow> pt_same pt (state_of (and_then (pt_get_stats_recorder env pt') (\<lambda>_ pt. pt_log (m pt) pt)))"
  by (rule and_then_inv[where Q = "pt_same pt"]) (auto intro: recorder_same pt_log_same)

lemma record_close_same: "pt_same pt pt' \<Longrightarrow> pt_same pt (pt_record_close env k p r pt')"
  unfolding pt_record_close_def by (simp add: Let_def record_then_log_same split: sum.split)

lemma record_and_close_same:
  "pt_same pt pt' \<Longrightarrow> pt_same pt (state_of (and_then (pt_guard m pt') (\<lambda>_ pt. Ret b (pt_trigger_callback e x
     (pt_record_close env k p r pt)))))"
  by (rule and_then_inv[where Q = "pt_same pt"]) (simp_all add: pt_guard_same record_close_same)

text \<open>Booking a closed position: exactly its profit is added, also when the risk guard raises.\<close>

lemma book_closed_same:
  "pt_same (pt_on_stats (\<lambda>s. s\<lparr>ps_realized_pnl := ps_realized_pnl s + po_closed_pnl p\<rparr>) pt)
     (state_of (pt_book_closed env p r pt))"
  unfolding pt_book_closed_def Let_def by (rule record_and_close_same) simp

lemma close_position_same:
  "pt_same (case om_close_position (re_now (pe_risk env)) i (Some x) r None (pt_order_manager pt) of
       (None, om) \<Rightarrow> pt\<lparr>pt_order_manager := om\<rparr>
     | (Some p, om) \<Rightarrow> pt_on_stats (\<lambda>s. s\<lparr>ps_realized_pnl := ps_realized_pnl s + po_closed_pnl p,
           ps_current_balance := pt_current_balance pt\<rparr>) (pt\<lparr>pt_order_manager := om\<rparr>))
     (state_of (pt_close_position env i x r pt))"
  unfolding pt_close_position_def Let_def
  by (cases "om_close_position (re_now (pe_risk env)) i (Some x) r None (pt_order_manager pt)" rule: prod.exhaust)
    (simp split: option.split, simp add: record_and_close_same)


section \<open>The books over price updates and closings\<close>

definition books_agree :: "paper_trader \<Rightarrow> bool" where
  "books_agree pt \<longleftrightarrow> om_wf (pt_order_manager pt) \<and>
     ps_realized_pnl (pt_stats pt) = book_sum settled_value (om_positions (pt_order_manager pt))"

lemma books_agree_same: "pt_same pt pt' \<Longrightarrow> books_agree pt' = books_agree pt"
  by (simp add: pt_same_def pt_books_def books_agree_def)

definition open_under :: "order_manager \<Rightarrow> position \<Rightarrow> bool" where
  "open_under om p \<longleftrightarrow> map_of (om_positions om) (po_position_id p) = Some p \<and> po_status p = OPEN"

lemma open_positions_under:
  assumes "om_wf om"
  shows "list_all (open_under om) (om_get_open_positions om) \<and> distinct (map po_position_id (om_get_open_positions om)) \<and>
     book_sum open_value (om_positions om) = sum_list (map open_value (om_get_open_positions om))"
proof -
  have ok: "positions_ok (om_positions om)" using assms by (simp add: om_wf_def)
  have entry: "map_of (om_positions om) k = Some p \<and> po_position_id p = k" if "(k, p) \<in> set (om_positions om)" for k p
    using ok that by (simp add: positions_ok_def position_ok_def)
  have "open_under om p" if mem: "p \<in> set (om_get_open_positions om)" for p
  proof -
    obtain k where "(k, p) \<in> set (om_positions om)" "po_status p = OPEN"
      using mem by (auto simp: om_get_open_positions_def)
    then show ?thesis using entry[of k p] by (simp add: open_under_def)
  qed
  then have "list_all (open_under om) (om_get_open_positions om)" by (simp add: list_all_iff)
  moreover have ids: "map po_position_id (map snd (om_positions om)) = map fst (om_positions om)"
    using entry by (auto simp: comp_def)
  have "distinct (map po_position_id (map snd (om_positions om)))"
    unfolding ids using ok by (simp add: positions_ok_def)
  then have "distinct (map po_position_id (om_get_open_positions om))"
    unfolding om_get_open_positions_def by (rule distinct_map_filter)
  moreover have "book_sum open_value ps = sum_list (map open_value (filter (\<lambda>p. po_status p = OPEN) (map snd ps)))" for ps
    by (induction ps) (auto simp: open_value_def)
  ultimately show ?thesis by (simp add: om_get_open_positions_def)
qed

lemma open_under_other:
  assumes "list_all (open_under om) ps" and "k \<notin> po_position_id ` set ps"
    and "\<forall>j. j \<noteq> k \<longrightarrow> map_of (om_positions om') j = map_of (om_positions om) j"
  shows "list_all (open_under om') ps"
  using assms(1,2)
proof (induction ps)
  case (Cons p ps)
  then have "map_of (om_positions om') (po_position_id p) = map_of (om_positions om) (po_position_id p)"
    using assms(3) by auto
  with Cons show ?case by (simp add: open_under_def)
qed simp

text \<open>One position of the loop.\<close>

lemma price_loop_books:
  assumes "list_all (open_under (pt_order_manager pt)) ps" and "distinct (map po_position_id ps)" and "books_agree pt"
  shows "books_agree (state_of (pt_price_loop env prices bids asks ps s pt)) \<and>
     pt_starting_balance (state_of (pt_price_loop env prices bids asks ps s pt)) = pt_starting_balance pt \<and>
     pt_kill_switch (state_of (pt_price_loop env prices bids asks ps s pt)) = pt_kill_switch pt \<and>
     (case pt_price_loop env prices bids asks ps s pt of Exc e pt' \<Rightarrow> True | Ret s' pt' \<Rightarrow>
        list_all (\<lambda>p. map_of prices (po_symbol p) \<noteq> None) ps \<longrightarrow>
        s' - book_sum open_value (om_positions (pt_order_manager pt')) =
        s - book_sum open_value (om_positions (pt_order_manager pt)) + sum_list (map open_value ps))"
  using assms
proof (induction ps arbitrary: s pt)
  case (Cons p ps)
  show ?case
  proof (cases "map_of prices (po_symbol p)")
    case None
    then show ?thesis using Cons by (auto split: outcome.split)
  next
    case (Some price)
    define om where "om = snd (om_update_position (re_now (pe_risk env)) (po_position_id p) price
        (dget_or bids (po_symbol p) 0) (dget_or asks (po_symbol p) 0) None (pt_order_manager pt))"
    have p: "map_of (om_positions (pt_order_manager pt)) (po_position_id p) = Some p" "po_status p = OPEN"
      using Cons.prems(1) by (simp_all add: open_under_def)
    obtain q where q: "map_of (om_positions om) (po_position_id p) = Some q" "po_status q = OPEN \<or> po_status q = CLOSED"
      and sums: "\<And>f. book_sum f (om_positions om) = book_sum f (om_positions (pt_order_manager pt)) + f q - f p"
      and others: "\<forall>j. j \<noteq> po_position_id p \<longrightarrow> map_of (om_positions om) j = map_of (om_positions (pt_order_manager pt)) j"
      using update_entry[OF p(1)] p(2) unfolding om_def by metis
    have wf: "om_wf om" using Cons.prems(3) unfolding om_def books_agree_def by (simp add: update_wf)
    have rest: "list_all (open_under om) ps"
      by (rule open_under_other[OF _ _ others]) (use Cons.prems(1,2) in simp_all)
    show ?thesis
    proof (cases "po_status q = OPEN")
      case True
      have "books_agree (pt\<lparr>pt_order_manager := om\<rparr>)"
        using Cons.prems(3) wf by (simp add: books_agree_def sums open_values[OF p(2)] open_values[OF True])
      then show ?thesis
        using Cons.IH[of "pt\<lparr>pt_order_manager := om\<rparr>" "s + po_unrealized_pnl q"] rest Cons.prems(2) Some q(1) True
        by (simp add: om_def[symmetric] om_get_position_def sums split: outcome.splits)
           (auto simp: open_value_def)
    next
      case False
      then have closed_q: "po_status q = CLOSED" using q(2) by simp
      then have settled_q: "settled_value q = po_closed_pnl q" by (simp add: settled_value_def)
      define pt1 where "pt1 = pt\<lparr>pt_order_manager := om\<rparr>"
      define m where "m = pt_book_closed env q (or_default (po_close_reason q) []) pt1"
      have same: "pt_same (pt_on_stats (\<lambda>st. st\<lparr>ps_realized_pnl := ps_realized_pnl st + po_closed_pnl q\<rparr>) pt1) (state_of m)"
        unfolding m_def by (rule book_closed_same)
      have agree: "books_agree (state_of m)"
        unfolding books_agree_same[OF same] using Cons.prems(3) wf
        by (simp add: books_agree_def pt1_def sums open_values[OF p(2)] settled_q)
      have st: "pt_order_manager (state_of m) = om" "pt_starting_balance (state_of m) = pt_starting_balance pt"
          "pt_kill_switch (state_of m) = pt_kill_switch pt"
        using same by (simp_all add: pt_same_def pt_books_def pt1_def)
      have loop: "pt_price_loop env prices bids asks (p # ps) s pt = and_then m (\<lambda>_. pt_price_loop env prices bids asks ps s)"
        using Some q(1) closed_q by (simp add: om_def[symmetric] om_get_position_def m_def pt1_def)
      show ?thesis
      proof (cases m)
        case (Exc e pt')
        then show ?thesis using agree st unfolding loop by simp
      next
        case (Ret u pt')
        then show ?thesis
          using Cons.IH[of pt' s] rest Cons.prems(2) agree st sums[of open_value] unfolding loop
          by (auto simp: open_value_def[of q] closed_q split: outcome.splits)
      qed
    qed
  qed
qed simp


lemma close_entry:
  assumes "om_wf (pt_order_manager pt)" and "map_of (om_positions (pt_order_manager pt)) i = Some p"
    and "om_close_position now i (Some x) r None (pt_order_manager pt) = (qo, om)"
  obtains q where "qo = Some q" "map_of (om_positions om) i = Some q" "po_status q = CLOSED" "om_wf om"
    "\<And>f. book_sum f (om_positions om) = book_sum f (om_positions (pt_order_manager pt)) + f q - f p"
    "\<forall>j. j \<noteq> i \<longrightarrow> map_of (om_positions om) j = map_of (om_positions (pt_order_manager pt)) j"
proof -
  obtain q where q: "qo = Some q" "om_close now i p (Some x) r (Some (om_resolve_contract_size (po_symbol p) None))
      (pt_order_manager pt) = (q, om)"
    using assms(2,3) by (auto simp: om_close_position_def split: prod.splits)
  have om: "om = snd (om_close_position now i (Some x) r None (pt_order_manager pt))" using assms(3) by simp
  have "om_wf om" unfolding om using assms(1) by (rule close_wf)
  then show ?thesis
    using close_result[OF q(2)] assms(2) q(1) by (intro that[of q]) (auto simp: book_sum_update dict_simps)
qed

lemma settled_closed: "po_status q = CLOSED \<Longrightarrow> settled_value q = po_closed_pnl q \<and> open_value q = 0"
  by (simp add: settled_value_def open_value_def)

text \<open>Closing an open position (or an unknown one) keeps the books in agreement.\<close>

lemma close_position_books:
  assumes "books_agree pt"
    and "case map_of (om_positions (pt_order_manager pt)) i of None \<Rightarrow> True | Some p \<Rightarrow> po_status p = OPEN"
  shows "books_agree (state_of (pt_close_position env i x r pt))"
    and "\<forall>j. j \<noteq> i \<longrightarrow> map_of (om_positions (pt_order_manager (state_of (pt_close_position env i x r pt)))) j =
       map_of (om_positions (pt_order_manager pt)) j"
proof -
  let ?c = "om_close_position (re_now (pe_risk env)) i (Some x) r None (pt_order_manager pt)"
  let ?after = "case ?c of (None, om) \<Rightarrow> pt\<lparr>pt_order_manager := om\<rparr>
     | (Some p, om) \<Rightarrow> pt_on_stats (\<lambda>s. s\<lparr>ps_realized_pnl := ps_realized_pnl s + po_closed_pnl p,
           ps_current_balance := pt_current_balance pt\<rparr>) (pt\<lparr>pt_order_manager := om\<rparr>)"
  have "books_agree ?after \<and> (\<forall>j. j \<noteq> i \<longrightarrow> map_of (om_positions (pt_order_manager ?after)) j =
       map_of (om_positions (pt_order_manager pt)) j)"
  proof (cases "map_of (om_positions (pt_order_manager pt)) i")
    case None
    then show ?thesis using assms(1) by (simp add: om_close_position_def)
  next
    case (Some p)
    obtain qo om where c: "?c = (qo, om)" by (cases ?c)
    have wf: "om_wf (pt_order_manager pt)" using assms(1) by (simp add: books_agree_def)
    have p: "po_status p = OPEN" using assms(2) Some by simp
    from wf Some c show ?thesis
      by (rule close_entry) (use assms(1) c open_values[OF p] in \<open>auto simp: books_agree_def settled_closed\<close>)
  qed
  then show "books_agree (state_of (pt_close_position env i x r pt))"
    "\<forall>j. j \<noteq> i \<longrightarrow> map_of (om_positions (pt_order_manager (state_of (pt_close_position env i x r pt)))) j =
       map_of (om_positions (pt_order_manager pt)) j"
    using close_position_same[where env = env and i = i and x = x and r = r and pt = pt]
      books_agree_same[OF close_position_same[where env = env and i = i and x = x and r = r and pt = pt]]
    by (auto simp: pt_same_def pt_books_def)
qed

lemma close_loop_books:
  assumes "list_all (open_under (pt_order_manager pt)) ps" and "distinct (map po_position_id ps)" and "books_agree pt"
  shows "books_agree (state_of (pt_close_loop env x r ps pt))"
  using assms
proof (induction ps arbitrary: pt)
  case (Cons p ps)
  let ?m = "pt_close_position env (po_position_id p) x r pt"
  have c: "case map_of (om_positions (pt_order_manager pt)) (po_position_id p) of None \<Rightarrow> True | Some p \<Rightarrow> po_status p = OPEN"
    using Cons.prems(1) by (simp add: open_under_def)
  note b = close_position_books[OF Cons.prems(3) c]
  have "list_all (open_under (pt_order_manager (state_of ?m))) ps"
    by (rule open_under_other[OF _ _ b(2)]) (use Cons.prems in simp_all)
  moreover have "books_agree (state_of ?m)" by (rule b(1))
  ultimately show ?case using Cons.IH[of "state_of ?m"] Cons.prems(2) by (cases ?m) auto
qed simp

lemma clear_loop_books:
  assumes "list_all (open_under (pt_order_manager pt)) ps" and "distinct (map po_position_id ps)" and "books_agree pt"
  shows "books_agree (pt_clear_loop env ps pt) \<and> pt_kill_switch (pt_clear_loop env ps pt) = pt_kill_switch pt"
  using assms
proof (induction ps arbitrary: pt)
  case (Cons p ps)
  let ?x = "if po_current_price p \<noteq> 0 then po_current_price p else po_entry_price p"
  obtain qo om where c: "om_close_position (re_now (pe_risk env)) (po_position_id p) (Some ?x) ''synthetic_cleanup'' None
      (pt_order_manager pt) = (qo, om)" by fastforce
  have p: "map_of (om_positions (pt_order_manager pt)) (po_position_id p) = Some p" "po_status p = OPEN"
    using Cons.prems(1) by (simp_all add: open_under_def)
  have wf: "om_wf (pt_order_manager pt)" using Cons.prems(3) by (simp add: books_agree_def)
  obtain q where q: "map_of (om_positions om) (po_position_id p) = Some q" "po_status q = CLOSED" "om_wf om"
    and sums: "\<And>f. book_sum f (om_positions om) = book_sum f (om_positions (pt_order_manager pt)) + f q - f p"
    and others: "\<forall>j. j \<noteq> po_position_id p \<longrightarrow> map_of (om_positions om) j = map_of (om_positions (pt_order_manager pt)) j"
    by (rule close_entry[OF wf p(1) c]) (rule that)
  define pt1 where "pt1 = pt_on_stats (\<lambda>s. s\<lparr>ps_realized_pnl := ps_realized_pnl s + po_closed_pnl q\<rparr>) (pt\<lparr>pt_order_manager := om\<rparr>)"
  have "pt_clear_loop env (p # ps) pt = pt_clear_loop env ps pt1"
    using q by (simp add: c om_get_position_def pt1_def Let_def)
  moreover have "books_agree pt1"
    using Cons.prems(3) q(3) by (simp add: books_agree_def pt1_def sums settled_closed[OF q(2)] open_values[OF p(2)])
  moreover have "list_all (open_under (pt_order_manager pt1)) ps"
    by (rule open_under_other[of "pt_order_manager pt" _ "po_position_id p"]) (use Cons.prems(1,2) others in \<open>simp_all add: pt1_def\<close>)
  ultimately show ?case using Cons.IH[of pt1] Cons.prems(2) by (simp add: pt1_def)
qed simp


section \<open>Executing an order\<close>

text \<open>The identifier of the order an execution would create.\<close>

definition next_order_id :: "paper_env \<Rightarrow> paper_trader \<Rightarrow> string option" where
  "next_order_id env pt =
     (if pt_live_mode_enabled pt then map_option od_order_id (pe_sent env)
      else Some (''PAPER_'' @ stamp_digits (re_now (pe_risk env))))"

definition fresh_order :: "string option \<Rightarrow> order_manager \<Rightarrow> bool" where
  "fresh_order io om = (case io of None \<Rightarrow> True | Some i \<Rightarrow> map_of (om_positions om) (''POS_'' @ i) = None)"

text \<open>A change of the position book that opens at most one position under a fresh identifier.\<close>

definition opens_fresh :: "(string \<times> position) list \<Rightarrow> (string \<times> position) list \<Rightarrow> bool" where
  "opens_fresh ps ps' \<longleftrightarrow> ps' = ps \<or> (\<exists>k p. map_of ps k = None \<and> po_status p = OPEN \<and> ps' = AList.update k p ps)"

lemma opens_fresh_settled: "opens_fresh ps ps' \<Longrightarrow> book_sum settled_value ps' = book_sum settled_value ps"
  by (auto simp: opens_fresh_def book_sum_update open_values)

lemma opens_fresh_created:
  assumes "om_create_position_from_order now x = Some p" and "map_of ps (''POS_'' @ od_order_id x) = None"
  shows "opens_fresh ps (AList.update (po_position_id p) p ps)"
  unfolding opens_fresh_def using created_id[OF assms(1)] assms(2) by fastforce

lemma live_outcome_fresh:
  assumes "map_of (om_positions om) (''POS_'' @ od_order_id x) = None"
  shows "opens_fresh (om_positions om) (om_positions (snd (om_live_outcome now x om)))"
proof (cases "om_create_position_from_order now x")
  case None
  then show ?thesis by (simp add: om_live_outcome_def Let_def opens_fresh_def)
next
  case (Some p)
  then have "om_positions (snd (om_live_outcome now x om)) = AList.update (po_position_id p) p (om_positions om)"
    by (auto simp: om_live_outcome_def Let_def om_create_position_from_order_def om_put_position_def split: if_splits)
  then show ?thesis using opens_fresh_created[OF Some assms] by simp
qed

lemma live_order_fresh:
  assumes "fresh_order (map_option od_order_id sent) om"
  shows "opens_fresh (om_positions om) (om_positions (snd (om_execute_live_order now sent a om)))"
proof (cases "om_positions (snd (om_execute_live_order now sent a om)) = om_positions om")
  case False
  then obtain x where x: "sent = Some x" and e: "snd (om_execute_live_order now sent a om) =
      (let y = x\<lparr>od_take_profit_2 := la_take_profit_2 a, od_take_profit_3 := la_take_profit_3 a\<rparr>
       in snd (om_live_outcome now y (om_trigger_callback ''on_order_placed'' (CallOrder y) (om_put_order y om))))"
    by (auto simp: om_execute_live_order_def Let_def split: if_splits option.splits)
  show ?thesis unfolding e Let_def
    using live_outcome_fresh[of "om_trigger_callback ''on_order_placed''
        (CallOrder (x\<lparr>od_take_profit_2 := la_take_profit_2 a, od_take_profit_3 := la_take_profit_3 a\<rparr>))
        (om_put_order (x\<lparr>od_take_profit_2 := la_take_profit_2 a, od_take_profit_3 := la_take_profit_3 a\<rparr>) om)"
        "x\<lparr>od_take_profit_2 := la_take_profit_2 a, od_take_profit_3 := la_take_profit_3 a\<rparr>" now]
      assms by (simp add: fresh_order_def x)
qed (simp add: opens_fresh_def)

lemma paper_order_fresh:
  assumes "fresh_order (Some (''PAPER_'' @ stamp_digits now)) om"
  shows "opens_fresh (om_positions om) (om_positions (snd (om_execute_paper_order now u a om)))"
proof -
  define x where "x = the (er_order (fst (om_execute_paper_order now u a om)))"
  define p where "p = the (er_position (fst (om_execute_paper_order now u a om)))"
  have "om_create_position_from_order now x = Some p" "od_order_id x = ''PAPER_'' @ stamp_digits now"
    "om_positions (snd (om_execute_paper_order now u a om)) = AList.update (po_position_id p) p (om_positions om)"
    by (simp_all add: x_def p_def om_execute_paper_order_def Let_def om_create_position_from_order_def om_put_position_def)
  then show ?thesis using opens_fresh_created assms by (simp add: fresh_order_def)
qed

lemma filled_fresh:
  assumes "case ordo of None \<Rightarrow> True | Some x \<Rightarrow> fresh_order (Some (od_order_id x)) om"
  shows "opens_fresh (om_positions om) (om_positions (om_on_filled now ordo om))"
proof (cases "om_positions (om_on_filled now ordo om) = om_positions om")
  case False
  then obtain x p where "ordo = Some x" "om_create_position_from_order now x = Some p"
    "om_positions (om_on_filled now ordo om) = AList.update (po_position_id p) p (om_positions om)"
    by (auto simp: om_on_filled_def Let_def om_put_position_def split: option.splits if_splits)
  then show ?thesis using opens_fresh_created[of now x p] assms by (simp add: fresh_order_def)
qed (simp add: opens_fresh_def)

lemma execute_order_fresh:
  assumes "fresh_order (next_order_id env pt) (pt_order_manager pt)"
  shows "opens_fresh (om_positions (pt_order_manager pt)) (om_positions (snd (pt_execute_order env sg v sp b a pt)))"
  using assms by (auto simp: pt_execute_order_def Let_def next_order_id_def live_order_fresh paper_order_fresh)

lemma execute_order_wf: "om_wf (pt_order_manager pt) \<Longrightarrow> om_wf (snd (pt_execute_order env sg v sp b a pt))"
  by (simp add: pt_execute_order_def Let_def live_wf paper_wf)

lemma submit_same:
  "pt_same (pt\<lparr>pt_order_manager := snd (pt_execute_order env sg v sp b a pt)\<rparr>) (snd (pt_submit env sg v sp b a guard pt))"
proof -
  obtain res om where e: "pt_execute_order env sg v sp b a pt = (res, om)" by fastforce
  show ?thesis
    by (auto simp: pt_submit_def e Let_def pt_same_stats split: option.split intro!: record_open_same)
qed

lemma submit_books:
  assumes "books_agree pt" and "fresh_order (next_order_id env pt) (pt_order_manager pt)"
  shows "books_agree (snd (pt_submit env sg v sp b a guard pt))"
  unfolding books_agree_same[OF submit_same]
  using assms opens_fresh_settled[OF execute_order_fresh[OF assms(2)]] execute_order_wf by (simp add: books_agree_def)

text \<open>Up to the order: the state in which the order is submitted.\<close>

lemma guard_same_fields:
  "pt_guard m pt = Ret x pt1 \<Longrightarrow> pt_same pt pt1 \<and> pt_live_mode_enabled pt1 = pt_live_mode_enabled pt"
  by (cases m) (auto simp: pt_guard_def)

lemma process_signal_shape:
  "pt_same pt (state_of (pt_process_signal env sg sp b a pt)) \<or>
   (\<exists>v g pt1. pt_same pt pt1 \<and> pt_live_mode_enabled pt1 = pt_live_mode_enabled pt \<and>
      state_of (pt_process_signal env sg sp b a pt) = snd (pt_submit env sg v sp b a g pt1))"
proof -
  define pt0 where "pt0 = pt_on_stats (\<lambda>s. s\<lparr>ps_total_signals_processed := ps_total_signals_processed s + 1\<rparr>) pt"
  define risk where "risk = rg_check_signal (pe_risk env) (trade_signal.truncate sg) (pt_risk_guard pt0)"
  define m where "m v = pt_guard (rg_check_trade_allowed (pe_risk env)
      (pt_trade_request sg v (pt_current_balance pt0)) (pt_risk_guard pt0)) pt0" for v
  have pt0: "pt_same pt pt0" "pt_live_mode_enabled pt0 = pt_live_mode_enabled pt" by (simp_all add: pt0_def pt_same_stats)
  have bl: "pt_same pt (pt_blocked pt')" if "pt_same pt pt'" for pt'
    using that by (simp add: pt_blocked_def pt_same_stats)
  have e: "pt_process_signal env sg sp b a pt =
      (if \<not> rl_allowed risk then Ret (pt_refuse env sg (rl_message risk) (Some risk)) (pt_blocked pt0)
       else case pt_volume sg pt0 of Inl e \<Rightarrow> Exc e pt0
         | Inr volume \<Rightarrow> and_then (m volume) (\<lambda>check pt1.
             if \<not> rl_allowed check then Ret (pt_refuse env sg (rl_message check) (Some check)) (pt_blocked pt1)
             else if ks_is_globally_killed (pt_kill_switch pt1) then
               Ret (pt_refuse env sg [Lit ''kill_switch_active''] None) pt1
             else (let (result, pt2) = pt_submit env sg volume sp b a risk pt1 in Ret result pt2)))"
    unfolding pt_process_signal_def Let_def pt0_def risk_def m_def ..
  show ?thesis
  proof (cases "\<exists>v check pt1. pt_volume sg pt0 = Inr v \<and> m v = Ret check pt1 \<and> rl_allowed risk \<and> rl_allowed check \<and>
      \<not> ks_is_globally_killed (pt_kill_switch pt1)")
    case True
    then obtain v check pt1 where c: "pt_volume sg pt0 = Inr v" "m v = Ret check pt1" "rl_allowed risk" "rl_allowed check"
      "\<not> ks_is_globally_killed (pt_kill_switch pt1)" by blast
    then have "state_of (pt_process_signal env sg sp b a pt) = snd (pt_submit env sg v sp b a risk pt1)"
      by (simp add: e split: prod.split)
    moreover have "pt_same pt pt1 \<and> pt_live_mode_enabled pt1 = pt_live_mode_enabled pt"
      using guard_same_fields c(2) pt0 unfolding m_def by (metis pt_same_trans)
    ultimately show ?thesis by blast
  next
    case False
    have mv: "pt_same pt (state_of (m v))" for v unfolding m_def by (rule pt_guard_same[OF pt0(1)])
    show ?thesis
    proof (cases "pt_volume sg pt0")
      case (Inl e)
      then show ?thesis by (simp add: e bl pt0(1))
    next
      case (Inr v)
      show ?thesis
      proof (cases "m v")
        case (Ret check pt1)
        moreover from Ret have "pt_same pt pt1" using mv[of v] by simp
        ultimately show ?thesis using False Inr by (auto simp: e bl pt0(1))
      next
        case (Exc x pt1)
        moreover from Exc have "pt_same pt pt1" using mv[of v] by simp
        ultimately show ?thesis using Inr by (simp add: e bl pt0(1))
      qed
    qed
  qed
qed

lemma process_signal_books:
  assumes "books_agree pt" and "fresh_order (next_order_id env pt) (pt_order_manager pt)"
  shows "books_agree (state_of (pt_process_signal env sg sp b a pt))"
proof -
  have "books_agree (snd (pt_submit env sg v sp b a g pt'))"
    if s: "pt_same pt pt'" and l: "pt_live_mode_enabled pt' = pt_live_mode_enabled pt" for v g pt'
  proof -
    have "next_order_id env pt' = next_order_id env pt" by (simp add: next_order_id_def l)
    moreover have "pt_order_manager pt' = pt_order_manager pt" using s by (simp add: pt_same_def pt_books_def)
    ultimately show ?thesis using submit_books[of pt' env] books_agree_same[OF s] assms by simp
  qed
  then show ?thesis using process_signal_shape[of pt env sg sp b a] books_agree_same assms(1) by metis
qed

lemma process_signal_frames:
  "pt_starting_balance (state_of (pt_process_signal env sg sp b a pt)) = pt_starting_balance pt \<and>
   pt_kill_switch (state_of (pt_process_signal env sg sp b a pt)) = pt_kill_switch pt"
proof -
  have "pt_starting_balance (snd (pt_submit env sg v sp b a g pt')) = pt_starting_balance pt' \<and>
      pt_kill_switch (snd (pt_submit env sg v sp b a g pt')) = pt_kill_switch pt'" for v g pt'
    using submit_same[where pt = pt' and env = env and sg = sg and v = v and sp = sp and b = b and a = a and guard = g]
    by (simp add: pt_same_def pt_books_def)
  then show ?thesis using process_signal_shape[of pt env sg sp b a] by (auto simp: pt_same_def pt_books_def)
qed


section \<open>Runs\<close>

datatype pt_event =
    PtSignal paper_signal flt flt flt
  | PtPrices "(string \<times> flt) list" "(string \<times> flt) list" "(string \<times> flt) list"
  | PtClose string flt string
  | PtCloseAll flt string
  | PtClear
  | PtReset
  | PtRegister string nat
  | PtApi "api_client option"
  | PtFilled "order option"
  | PtFinal string "order option"

fun pt_step :: "paper_trader \<Rightarrow> paper_env \<times> pt_event \<Rightarrow> paper_trader" where
  "pt_step pt (env, PtSignal sg sp b a) = state_of (pt_process_signal env sg sp b a pt)"
| "pt_step pt (env, PtPrices ps bs as) = state_of (pt_update_market_prices env ps bs as pt)"
| "pt_step pt (env, PtClose i x r) = state_of (pt_close_position env i x r pt)"
| "pt_step pt (env, PtCloseAll x r) = state_of (pt_close_all_positions env x r pt)"
| "pt_step pt (env, PtClear) = snd (pt_clear_stuck_positions env pt)"
| "pt_step pt (env, PtReset) = state_of (pt_reset env pt)"
| "pt_step pt (env, PtRegister e c) = state_of (pt_register_callback e c pt)"
| "pt_step pt (env, PtApi api) = pt_set_api_client api pt"
| "pt_step pt (env, PtFilled x) = pt\<lparr>pt_order_manager := om_on_filled (re_now (pe_risk env)) x (pt_order_manager pt)\<rparr>"
| "pt_step pt (env, PtFinal e x) = pt\<lparr>pt_order_manager := om_on_final e x (pt_order_manager pt)\<rparr>"

text \<open>
  The regular use of the trader: orders carry identifiers without a position yet, closings name an open or
  an unknown position, and the trader is not reset.
\<close>

fun pt_regular :: "paper_trader \<Rightarrow> paper_env \<times> pt_event \<Rightarrow> bool" where
  "pt_regular pt (env, PtSignal sg sp b a) = fresh_order (next_order_id env pt) (pt_order_manager pt)"
| "pt_regular pt (env, PtClose i x r) =
     (case map_of (om_positions (pt_order_manager pt)) i of None \<Rightarrow> True | Some p \<Rightarrow> po_status p = OPEN)"
| "pt_regular pt (env, PtReset) = False"
| "pt_regular pt (env, PtFilled x) =
     (case x of None \<Rightarrow> True | Some ord \<Rightarrow> fresh_order (Some (od_order_id ord)) (pt_order_manager pt))"
| "pt_regular pt (env, _) = True"

inductive pt_run :: "paper_trader \<Rightarrow> paper_trader \<Rightarrow> bool" where
  run_start: "pt_run pt pt"
| run_step: "pt_run pt pt1 \<Longrightarrow> pt_regular pt1 e \<Longrightarrow> pt_run pt (pt_step pt1 e)"

lemma update_prices_state:
  "pt_same (state_of (pt_price_loop env ps bs as (om_get_open_positions (pt_order_manager pt)) 0 pt))
     (state_of (pt_update_market_prices env ps bs as pt))"
  unfolding pt_update_market_prices_def Let_def
  by (cases "pt_price_loop env ps bs as (om_get_open_positions (pt_order_manager pt)) 0 pt") (simp_all add: pt_same_stats)

lemma update_prices_books:
  assumes "books_agree pt"
  shows "books_agree (state_of (pt_update_market_prices env ps bs as pt))"
  unfolding books_agree_same[OF update_prices_state]
  using price_loop_books[of pt "om_get_open_positions (pt_order_manager pt)"] open_positions_under assms
  by (simp add: books_agree_def)

lemma set_api_frames:
  "om_positions (om_set_api_client api om) = om_positions om \<and> om_wf (om_set_api_client api om) = om_wf om"
  by (auto simp: om_set_api_client_def Let_def om_wf_def split: option.split)

lemma final_positions: "om_positions (om_on_final e x om) = om_positions om"
  by (simp add: om_on_final_def Let_def split: option.split)

lemma step_books:
  assumes "books_agree pt" and "pt_regular pt (env, e)"
  shows "books_agree (pt_step pt (env, e))"
proof (cases e)
  case (PtSignal sg sp b a)
  then show ?thesis using assms by (simp add: process_signal_books)
next
  case (PtPrices ps bs as)
  then show ?thesis using assms by (simp add: update_prices_books)
next
  case (PtClose i x r)
  then show ?thesis using assms by (simp add: close_position_books(1))
next
  case (PtCloseAll x r)
  have "om_wf (pt_order_manager pt)" using assms(1) by (simp add: books_agree_def)
  then show ?thesis
    using close_loop_books[of pt "om_get_open_positions (pt_order_manager pt)"] open_positions_under assms(1) PtCloseAll
    by (simp add: pt_close_all_positions_def)
next
  case PtClear
  have "om_wf (pt_order_manager pt)" using assms(1) by (simp add: books_agree_def)
  then have "books_agree (pt_clear_loop env (om_get_open_positions (pt_order_manager pt)) pt)"
    using clear_loop_books[of pt "om_get_open_positions (pt_order_manager pt)"] open_positions_under assms(1) by simp
  then show ?thesis using PtClear by (simp add: pt_clear_stuck_positions_def Let_def books_agree_def)
next
  case (PtRegister ev c)
  then show ?thesis using assms(1) by (simp add: pt_register_callback_def books_agree_def)
next
  case (PtApi api)
  then show ?thesis using assms(1) by (simp add: pt_set_api_client_def books_agree_def set_api_frames)
next
  case (PtFilled x)
  have "opens_fresh (om_positions (pt_order_manager pt)) (om_positions (om_on_filled (re_now (pe_risk env)) x (pt_order_manager pt)))"
    by (rule filled_fresh) (use assms(2) PtFilled in simp)
  then show ?thesis using PtFilled assms(1) by (simp add: books_agree_def filled_wf opens_fresh_settled)
next
  case (PtFinal ev x)
  then show ?thesis using assms(1) by (simp add: books_agree_def final_wf final_positions)
qed (use assms in simp)

lemma run_books: "pt_run pt0 pt \<Longrightarrow> books_agree pt0 \<Longrightarrow> books_agree pt"
proof (induction rule: pt_run.induct)
  case (run_step pt0 pt e)
  then show ?case using step_books[of pt "fst e" "snd e"] by simp
qed

lemma init_books: "pt_init env f c bal api d file rows = Inr pt \<Longrightarrow> books_agree pt"
proof -
  have "om_positions (om_init c api None) = []"
    by (simp add: om_init_def Let_def om_wire_live_callbacks_def split: option.split)
  then show "pt_init env f c bal api d file rows = Inr pt \<Longrightarrow> books_agree pt"
    by (auto simp: pt_init_def Let_def books_agree_def om_init_wf paper_stats_new_def split: outcome.splits)
qed


text \<open>The kill switch and the starting balance never change.\<close>

definition pt_fixed :: "paper_trader \<Rightarrow> kill_switch \<times> flt" where
  "pt_fixed pt = (pt_kill_switch pt, pt_starting_balance pt)"

lemma same_fixed: "pt_same pt pt' \<Longrightarrow> pt_fixed pt' = pt_fixed pt"
  by (simp add: pt_same_def pt_books_def pt_fixed_def)

lemma close_fixed: "pt_fixed (state_of (pt_close_position env i x r pt)) = pt_fixed pt"
  using same_fixed[OF close_position_same[where env = env and i = i and x = x and r = r and pt = pt]]
  by (auto simp: pt_fixed_def split: prod.splits option.splits)

lemma close_loop_fixed: "pt_fixed (state_of (pt_close_loop env x r ps pt)) = pt_fixed pt"
proof (induction ps arbitrary: pt)
  case (Cons p ps)
  then show ?case
    using close_fixed[of env "po_position_id p" x r pt] by (cases "pt_close_position env (po_position_id p) x r pt") auto
qed simp

lemma clear_loop_fixed: "pt_fixed (pt_clear_loop env ps pt) = pt_fixed pt"
  by (induction ps arbitrary: pt) (simp_all add: Let_def pt_fixed_def split: option.split)

lemma price_loop_fixed: "pt_fixed (state_of (pt_price_loop env prices bids asks ps s pt)) = pt_fixed pt"
proof (induction ps arbitrary: s pt)
  case (Cons p ps)
  have "pt_fixed (state_of (and_then (pt_book_closed env q r pt1) (\<lambda>_. pt_price_loop env prices bids asks ps s))) = pt_fixed pt1"
    for q r pt1
    using same_fixed[OF book_closed_same[where p = q and pt = pt1 and env = env and r = r]] Cons.IH
    by (cases "pt_book_closed env q r pt1") (auto simp: pt_fixed_def)
  then show ?case using Cons.IH by (simp add: Let_def split: option.split) (simp add: pt_fixed_def)
qed simp

lemma step_fixed: "pt_fixed (pt_step pt (env, e)) = pt_fixed pt"
proof (cases e)
  case (PtSignal sg sp b a)
  then show ?thesis using process_signal_frames[of env sg sp b a pt] by (simp add: pt_fixed_def)
next
  case (PtPrices ps bs as)
  then show ?thesis using same_fixed[OF update_prices_state[of env ps bs as pt]] by (simp add: price_loop_fixed)
next
  case PtReset
  define pt1 where "pt1 = pt\<lparr>pt_current_balance := pt_starting_balance pt, pt_stats := paper_stats_new (pt_starting_balance pt),
      pt_trade_history := []\<rparr>"
  have 1: "pt_fixed (state_of (pt_guard m pt1)) = pt_fixed pt" for m :: "bool rg_result"
    by (cases m) (simp_all add: pt_guard_def pt_fixed_def pt1_def)
  have "pt_fixed (state_of (and_then (pt_guard m pt1) (\<lambda>_ pt.
      Ret () (pt\<lparr>pt_risk_guard := rg_reset_daily_tracking (pt_risk_guard pt)\<rparr>)))) = pt_fixed pt" for m :: "bool rg_result"
    using 1[of m] by (cases "pt_guard m pt1") (simp_all add: pt_fixed_def)
  then show ?thesis using PtReset by (simp add: pt_reset_def Let_def pt1_def)
qed (simp_all add: close_fixed pt_close_all_positions_def close_loop_fixed pt_clear_stuck_positions_def Let_def clear_loop_fixed
    pt_register_callback_def pt_set_api_client_def, simp_all add: pt_fixed_def clear_loop_fixed[unfolded pt_fixed_def])

lemma steps_fixed: "pt_fixed (foldl pt_step pt es) = pt_fixed pt"
  by (induction es arbitrary: pt) (simp_all add: step_fixed del: pt_step.simps, metis prod.collapse step_fixed)

lemma run_fixed: "pt_run pt0 pt \<Longrightarrow> pt_fixed pt = pt_fixed pt0"
  by (induction rule: pt_run.induct) (metis prod.collapse step_fixed)+


section \<open>Price updates return\<close>

lemma trigger_returns: "re_tmp_ok env \<Longrightarrow> \<exists>g'. rg_trigger_circuit_breaker env t c l g = Ret () g'"
  by (simp add: rg_trigger_circuit_breaker_def Let_def rg_save_state_def)

lemma record_trade_returns:
  assumes "re_tmp_ok env"
  shows "\<exists>g'. rg_record_trade env pnl w n g = Ret () g'"
proof -
  have save: "\<exists>g'. rg_save_state env g = Ret () g'" for g using assms by (simp add: rg_save_state_def)
  have "\<exists>g'. and_then m (\<lambda>_. rg_save_state env) = Ret () g'" if "\<exists>g1. m = Ret () g1" for m
    using that save by auto
  then show ?thesis unfolding rg_record_trade_def Let_def using trigger_returns[OF assms] by simp
qed

lemma book_closed_returns: "re_tmp_ok (pe_risk env) \<Longrightarrow> \<exists>pt'. pt_book_closed env p r pt = Ret () pt'"
  using record_trade_returns[of "pe_risk env" "po_closed_pnl p" "po_closed_pnl p > 0" 1 "pt_risk_guard pt"]
  by (auto simp: pt_book_closed_def Let_def pt_guard_def)

lemma price_loop_returns:
  "re_tmp_ok (pe_risk env) \<Longrightarrow> \<exists>t pt'. pt_price_loop env prices bids asks ps s pt = Ret t pt'"
proof (induction ps arbitrary: s pt)
  case (Cons p ps)
  have "\<exists>t pt'. and_then (pt_book_closed env q r pt1) (\<lambda>_. pt_price_loop env prices bids asks ps s) = Ret t pt'" for q r pt1
    using book_closed_returns[OF Cons.prems, of q r pt1] Cons.IH[OF Cons.prems] by auto
  then show ?case using Cons.IH[OF Cons.prems] by (simp add: Let_def split: option.split)
qed simp

end
