(* ===== verification/PaperSafety.thy ===== *)
theory PaperSafety
  imports PaperBooks
begin

text \<open>
  Correctness of the paper trader: when a signal is executed, the kill switch gate, the realised
  profit and balance against the books of the order manager over runs, and what closing twice
  and closing by hand do.
\<close>

section \<open>Executing a signal\<close>

text \<open>
  The verdict of the two checks of the risk guard on a signal: the volume to trade, when both allow it.
\<close>

definition guard_verdict :: "risk_env \<Rightarrow> paper_signal \<Rightarrow> paper_trader \<Rightarrow> flt option" where
  "guard_verdict env sg pt =
     (if \<not> rl_allowed (rg_check_signal env (trade_signal.truncate sg) (pt_risk_guard pt)) then None
      else case pt_volume sg pt of
          Inl e \<Rightarrow> None
        | Inr v \<Rightarrow>
            (case rg_check_trade_allowed env (pt_trade_request sg v (pt_current_balance pt)) (pt_risk_guard pt) of
               Exc e g \<Rightarrow> None | Ret check g \<Rightarrow> if rl_allowed check then Some v else None))"

lemma paper_execution:
  assumes "\<not> pt_live_mode_enabled pt"
  shows "case pt_execute_order env sg v sp b a pt of (res, om) \<Rightarrow> er_success res \<and>
     (case er_position res of None \<Rightarrow> False | Some p \<Rightarrow>
        po_status p = OPEN \<and> po_symbol p = sig_symbol sg \<and> po_direction p = sig_direction sg \<and> po_volume p = v \<and>
        po_stop_loss p = Some (sig_stop_loss sg) \<and> po_take_profit p = Some (sig_take_profit_1 sg) \<and>
        po_unrealized_pnl p = 0 \<and> map_of (om_positions om) (po_position_id p) = Some p)"
  using assms
  by (simp add: pt_execute_order_def om_execute_paper_order_def om_create_position_from_order_def Let_def om_put_position_def
      dict_simps)

lemma record_open_stats: "pt_stats (pt_record_open env sg v res pt) = pt_stats pt"
  unfolding pt_record_open_def
proof (rule and_then_inv[where Q = "\<lambda>s. pt_stats s = pt_stats pt"])
  show "pt_stats (state_of (pt_get_stats_recorder env pt)) = pt_stats pt" by (simp add: pt_get_stats_recorder_def)
  have "pt_stats (state_of (pt_log m pt')) = pt_stats pt'" for m :: "(stats_log, string) outcome" and pt'
    by (cases m) (simp_all add: pt_log_def)
  then show "pt_stats s = pt_stats pt \<Longrightarrow> pt_stats (state_of (let position_id = (case er_position res of Some p \<Rightarrow> po_position_id p
             | None \<Rightarrow> (case er_order res of Some ord \<Rightarrow> od_order_id ord | None \<Rightarrow> []));
           signal_id = (if position_id \<noteq> [] then position_id else sig_strategy_id sg);
           pt1 = (if position_id \<noteq> [] \<and> signal_id \<noteq> []
                  then s\<lparr>pt_position_signal_id := AList.update position_id signal_id (pt_position_signal_id s)\<rparr> else s)
       in if signal_id = [] then Ret () pt1
          else pt_log (ss_record_signal (pe_stats env) (pt_open_record signal_id sg v) (pt_stats_log pt1)) pt1)) = pt_stats pt" for s
    by (simp add: Let_def)
qed

lemma trigger_stats [simp]: "pt_stats (pt_trigger_callback e x pt) = pt_stats pt"
  "pt_order_manager (pt_trigger_callback e x pt) = pt_order_manager pt"
  by (simp_all add: pt_trigger_callback_def)

text \<open>Submitting in paper mode always succeeds.\<close>

lemma paper_submit:
  assumes "\<not> pt_live_mode_enabled pt" and "pt_submit env sg v sp b a g pt = (res, pt')"
  shows "px_success res \<and> ps_trades_executed (pt_stats pt') = ps_trades_executed (pt_stats pt) + 1 \<and>
     ps_signals_blocked_by_risk (pt_stats pt') = ps_signals_blocked_by_risk (pt_stats pt) \<and>
     ps_trades_rejected (pt_stats pt') = ps_trades_rejected (pt_stats pt) \<and>
     ps_total_signals_processed (pt_stats pt') = ps_total_signals_processed (pt_stats pt) \<and>
     (case px_position res of None \<Rightarrow> False | Some p \<Rightarrow>
        po_status p = OPEN \<and> po_symbol p = sig_symbol sg \<and> po_direction p = sig_direction sg \<and> po_volume p = v \<and>
        po_stop_loss p = Some (sig_stop_loss sg) \<and> po_take_profit p = Some (sig_take_profit_1 sg) \<and>
        map_of (om_positions (pt_order_manager pt')) (po_position_id p) = Some p)"
proof -
  obtain r om p where e: "pt_execute_order env sg v sp b a pt = (r, om)" "er_success r" "er_position r = Some p"
      "po_status p = OPEN" "po_symbol p = sig_symbol sg" "po_direction p = sig_direction sg" "po_volume p = v"
      "po_stop_loss p = Some (sig_stop_loss sg)" "po_take_profit p = Some (sig_take_profit_1 sg)"
      "map_of (om_positions om) (po_position_id p) = Some p"
    using paper_execution[OF assms(1), where env = env and sg = sg and v = v and sp = sp and b = b and a = a]
    by (cases "pt_execute_order env sg v sp b a pt") (auto split: option.splits)
  have "pt_order_manager pt' = om"
    using submit_same[where pt = pt and env = env and sg = sg and v = v and sp = sp and b = b and a = a and guard = g] assms(2) e(1)
    by (simp add: pt_same_def pt_books_def)
  moreover have "res = fst (pt_submit env sg v sp b a g pt)" "pt' = snd (pt_submit env sg v sp b a g pt)"
    using assms(2) by simp_all
  ultimately show ?thesis using e by (simp add: pt_submit_def Let_def record_open_stats)
qed

lemma guard_stats: "pt_guard m pt = Ret x pt1 \<Longrightarrow> pt_stats pt1 = pt_stats pt \<and> pt_order_manager pt1 = pt_order_manager pt \<and>
    pt_kill_switch pt1 = pt_kill_switch pt \<and> pt_live_mode_enabled pt1 = pt_live_mode_enabled pt"
  by (cases m) (auto simp: pt_guard_def)

lemma signal_verdict:
  assumes "\<not> ks_is_globally_killed (pt_kill_switch pt)" and "\<not> pt_live_mode_enabled pt"
    and "pt_process_signal env sg sp b a pt = Ret res pt'"
  shows "ps_total_signals_processed (pt_stats pt') = ps_total_signals_processed (pt_stats pt) + 1 \<and>
     (case guard_verdict (pe_risk env) sg pt of
        None \<Rightarrow> \<not> px_success res \<and> pt_order_manager pt' = pt_order_manager pt \<and>
          ps_trades_executed (pt_stats pt') = ps_trades_executed (pt_stats pt) \<and>
          ps_signals_blocked_by_risk (pt_stats pt') = ps_signals_blocked_by_risk (pt_stats pt) + 1
      | Some v \<Rightarrow> px_success res \<and> ps_trades_executed (pt_stats pt') = ps_trades_executed (pt_stats pt) + 1 \<and>
          ps_signals_blocked_by_risk (pt_stats pt') = ps_signals_blocked_by_risk (pt_stats pt) \<and>
          (case px_position res of None \<Rightarrow> False | Some p \<Rightarrow>
             po_status p = OPEN \<and> po_symbol p = sig_symbol sg \<and> po_direction p = sig_direction sg \<and> po_volume p = v \<and>
             po_stop_loss p = Some (sig_stop_loss sg) \<and> po_take_profit p = Some (sig_take_profit_1 sg) \<and>
             map_of (om_positions (pt_order_manager pt')) (po_position_id p) = Some p))"
proof -
  define pt0 where "pt0 = pt_on_stats (\<lambda>s. s\<lparr>ps_total_signals_processed := ps_total_signals_processed s + 1\<rparr>) pt"
  define risk where "risk = rg_check_signal (pe_risk env) (trade_signal.truncate sg) (pt_risk_guard pt)"
  define m where "m v = rg_check_trade_allowed (pe_risk env) (pt_trade_request sg v (pt_current_balance pt)) (pt_risk_guard pt)" for v
  have s0: "pt_stats pt0 = (pt_stats pt)\<lparr>ps_total_signals_processed := ps_total_signals_processed (pt_stats pt) + 1\<rparr>"
    "pt_order_manager pt0 = pt_order_manager pt" "pt_kill_switch pt0 = pt_kill_switch pt"
    "pt_live_mode_enabled pt0 = pt_live_mode_enabled pt" "pt_risk_guard pt0 = pt_risk_guard pt"
    "pt_current_balance pt0 = pt_current_balance pt" by (simp_all add: pt0_def)
  have vol: "pt_volume sg pt0 = pt_volume sg pt" by (simp add: pt_volume_def s0)
  have e: "pt_process_signal env sg sp b a pt =
      (if \<not> rl_allowed risk then Ret (pt_refuse env sg (rl_message risk) (Some risk)) (pt_blocked pt0)
       else case pt_volume sg pt of Inl e \<Rightarrow> Exc e pt0
         | Inr volume \<Rightarrow> and_then (pt_guard (m volume) pt0) (\<lambda>check pt1.
             if \<not> rl_allowed check then Ret (pt_refuse env sg (rl_message check) (Some check)) (pt_blocked pt1)
             else if ks_is_globally_killed (pt_kill_switch pt1) then
               Ret (pt_refuse env sg [Lit ''kill_switch_active''] None) pt1
             else (let (result, pt2) = pt_submit env sg volume sp b a risk pt1 in Ret result pt2)))"
    unfolding pt_process_signal_def Let_def risk_def m_def pt0_def[symmetric] s0 vol ..
  have v: "guard_verdict (pe_risk env) sg pt =
      (if \<not> rl_allowed risk then None else case pt_volume sg pt of Inl e \<Rightarrow> None | Inr v \<Rightarrow>
        (case m v of Exc e g \<Rightarrow> None | Ret check g \<Rightarrow> if rl_allowed check then Some v else None))"
    unfolding guard_verdict_def risk_def m_def ..
  show ?thesis
  proof (cases "rl_allowed risk")
    case False
    then show ?thesis using assms(3) by (auto simp: e v pt_blocked_def s0 pt_refuse_def)
  next
    case True
    obtain vol where w: "pt_volume sg pt = Inr vol" using assms(3) True by (cases "pt_volume sg pt") (auto simp: e)
    obtain check g where c: "m vol = Ret check g"
      using assms(3) True w by (cases "m vol") (auto simp: e pt_guard_def)
    then obtain pt1 where g: "pt_guard (m vol) pt0 = Ret check pt1" by (simp add: pt_guard_def)
    note st = guard_stats[OF g]
    show ?thesis
    proof (cases "rl_allowed check")
      case False
      then show ?thesis using assms(3) True w c g st by (auto simp: e v pt_blocked_def s0 pt_refuse_def)
    next
      case ok: True
      then have "pt_submit env sg vol sp b a risk pt1 = (res, pt')"
        using assms(1,3) True w c g st by (auto simp: e s0 split: prod.splits)
      from paper_submit[OF _ this] show ?thesis using True w c ok st assms(2) by (simp add: v s0)
    qed
  qed
qed

text \<open>
  C39. When a paper trade happens: while the trader's kill switch is off, a signal that is processed without an
  exception is executed exactly when both checks of the risk guard allow it, at the volume the
  second check saw; it then opens one position with the signal's symbol, direction, stop and first
  target. Otherwise nothing is ordered. Each such signal is counted once in the total and once as
  executed or blocked.
\<close>

theorem paper_signal_executed_iff:
  assumes "\<not> ks_is_globally_killed (pt_kill_switch pt)" and "\<not> pt_live_mode_enabled pt"
    and "pt_process_signal env sg sp b a pt = Ret res pt'"
  shows "ps_total_signals_processed (pt_stats pt') = ps_total_signals_processed (pt_stats pt) + 1 \<and>
     (case guard_verdict (pe_risk env) sg pt of
        None \<Rightarrow> \<not> px_success res \<and> pt_order_manager pt' = pt_order_manager pt \<and>
          ps_trades_executed (pt_stats pt') = ps_trades_executed (pt_stats pt) \<and>
          ps_signals_blocked_by_risk (pt_stats pt') = ps_signals_blocked_by_risk (pt_stats pt) + 1
      | Some v \<Rightarrow> px_success res \<and> ps_trades_executed (pt_stats pt') = ps_trades_executed (pt_stats pt) + 1 \<and>
          ps_signals_blocked_by_risk (pt_stats pt') = ps_signals_blocked_by_risk (pt_stats pt) \<and>
          (case px_position res of None \<Rightarrow> False | Some p \<Rightarrow>
             po_status p = OPEN \<and> po_symbol p = sig_symbol sg \<and> po_direction p = sig_direction sg \<and> po_volume p = v \<and>
             po_stop_loss p = Some (sig_stop_loss sg) \<and> po_take_profit p = Some (sig_take_profit_1 sg) \<and>
             map_of (om_positions (pt_order_manager pt')) (po_position_id p) = Some p))"
  using assms by (rule signal_verdict)

text \<open>A trader built while a kill is persisted on the disk, and a signal for it.\<close>

definition killed_disk :: ks_disk where
  "killed_disk = blank_disk\<lparr>dk_state := Json (gk_to_dict (gk_default\<lparr>gk_active := PBool True\<rparr>))\<rparr>"

definition demo_paper_env :: paper_env where
  "demo_paper_env = \<lparr>pe_risk = demo_env, pe_draw = 1/2, pe_sent = None, pe_stats = demo_stats_env\<rparr>"

definition demo_signal :: paper_signal where
  "demo_signal =
     \<lparr>sig_symbol = ''EURUSD'', sig_direction = LONG, sig_entry_price = 11/10, sig_stop_loss = 1098/1000,
      sig_take_profit_1 = 1104/1000, sig_take_profit_2 = 1106/1000, sig_take_profit_3 = 1108/1000, sig_volume = 1/10,
      sig_confidence = 8/10, sig_rationale = [Lit ''orb''], sig_strategy_id = ''orb'', sig_timestamp = Naive 0\<rparr>"

definition demo_trader :: paper_trader where
  "demo_trader =
     \<lparr>pt_order_manager = om_init None None None, pt_risk_guard = (rg_init demo_env None 10000 [] 2 killed_disk RFMissing),
      pt_live_mode_enabled = False, pt_starting_balance = 10000, pt_current_balance = 10000,
      pt_stats = paper_stats_new 10000, pt_trade_history = [], pt_callbacks = [], pt_calls = [], pt_last_update = None,
      pt_kill_switch = \<lparr>ks_disabled = True, ks_state = gk_default\<lparr>gk_active := PBool True\<rparr>, ks_killed_cache = True,
        ks_frozen_cache = False, ks_strategies = [], ks_disk = killed_disk\<rparr>,
      pt_recorder_ready = False, pt_stats_log = [], pt_position_signal_id = []\<rparr>"

lemma demo_trader_init: "pt_init demo_paper_env None None 10000 None killed_disk RFMissing [] = Inr demo_trader"
proof -
  have safe: "\<not> (ks_is_harness_mode prod_env \<and> ks_is_production_state_dir prod_env)"
    using prod_env_safe by (simp add: ks_unsafe_def)
  have "ks_init prod_env None killed_disk = Ret () (pt_kill_switch demo_trader)"
    by (simp add: safe Let_def ks_init_def ks_load_state_def killed_disk_def blank_disk_def ks_load_strategy_states_def
        demo_trader_def gk_default_def)
  then show ?thesis
    by (simp add: pt_init_def demo_paper_env_def demo_env_def api_is_live_def demo_trader_def rg_init_def
        rg_restore_state_def)
qed

lemma demo_trader_simps:
  "pt_risk_guard demo_trader = rg_init demo_env None 10000 [] 2 killed_disk RFMissing"
  "pt_live_mode_enabled demo_trader = False" "pt_current_balance demo_trader = 10000"
  "pt_order_manager demo_trader = om_init None None None" "pt_stats demo_trader = paper_stats_new 10000"
  "ks_is_globally_killed (pt_kill_switch demo_trader) = False"
  by (simp_all add: demo_trader_def ks_is_globally_killed_def)

lemma demo_guard_simps:
  "rg_starting_balance (pt_risk_guard demo_trader) = 10000" "rg_current_balance (pt_risk_guard demo_trader) = 10000"
  "rg_daily_trade_count (pt_risk_guard demo_trader) = 0" "rg_config (pt_risk_guard demo_trader) = ftmo_config_default"
  "rg_circuit_breaker_triggered (pt_risk_guard demo_trader) = False" "rg_blocked_until (pt_risk_guard demo_trader) = None"
  "rg_current_day (pt_risk_guard demo_trader) = None" "rg_daily_start_balance (pt_risk_guard demo_trader) = 10000"
  by (simp_all add: demo_trader_simps rg_init_def rg_restore_state_def gate_config_default_def)

lemma demo_verdict: "guard_verdict demo_env demo_signal demo_trader = Some (1/10)"
proof -
  let ?req = "pt_trade_request demo_signal (1/10) 10000" and ?g = "pt_risk_guard demo_trader"
  have req: "tr_entry_price ?req = 11/10" "tr_stop_loss ?req = 1098/1000" "tr_take_profit ?req = 1104/1000"
    "tr_volume ?req = 1/10" "tr_symbol ?req = Some ''EURUSD''" "tr_spread ?req = 0" "tr_account_balance ?req = Some 10000"
    by (simp_all add: pt_trade_request_def demo_signal_def)
  have bal: "with_balance ?req ?g = ?g"
    by (simp add: with_balance_def req demo_trader_simps rg_init_def rg_restore_state_def)
  have "rg_limit_checks demo_env ?req (rg_update_daily_tracking demo_env ?g) =
      Ret (rl_pass LPositionSize [Lit ''Trade allowed'']) (rg_update_daily_tracking demo_env ?g)"
    by (simp add: rg_limit_checks_def Let_def rg_daily_loss_def rg_drawdown_def rg_size_checks_def rg_pip_info_def
        req demo_symbol rg_risk_pct_def demo_guard_simps config_default rg_update_daily_tracking_def)
  then have "rg_check_trade_allowed demo_env ?req ?g =
      Ret (rl_pass LPositionSize [Lit ''Trade allowed'']) (rg_update_daily_tracking demo_env ?g)"
    unfolding check_trade_unfold bal by (simp add: demo_guard_simps time_blocked_def req)
  moreover have "rl_allowed (rg_check_signal demo_env (trade_signal.truncate demo_signal) ?g)"
    by (simp add: rg_check_signal_def demo_guard_simps time_blocked_def rg_calculate_risk_reward_def Let_def
        demo_signal_def trade_signal.truncate_def config_default)
  ultimately show ?thesis
    by (simp add: guard_verdict_def pt_volume_def demo_trader_simps) (simp add: demo_signal_def)
qed

lemma demo_processed: "\<exists>res pt'. pt_process_signal demo_paper_env demo_signal 0 0 0 demo_trader = Ret res pt'"
proof -
  let ?pt0 = "pt_on_stats (\<lambda>s. s\<lparr>ps_total_signals_processed := ps_total_signals_processed s + 1\<rparr>) demo_trader"
  have v: "pt_volume demo_signal ?pt0 = Inr (1/10)" by (simp add: pt_volume_def demo_signal_def)
  obtain check g where "rg_check_trade_allowed demo_env (pt_trade_request demo_signal (1/10) 10000) (pt_risk_guard demo_trader) =
      Ret check g" and "rl_allowed check"
    and "rl_allowed (rg_check_signal demo_env (trade_signal.truncate demo_signal) (pt_risk_guard demo_trader))"
    using demo_verdict by (auto simp: guard_verdict_def pt_volume_def demo_signal_def demo_trader_simps
        split: if_splits outcome.splits)
  then show ?thesis
    unfolding pt_process_signal_def Let_def v
    by (auto simp: demo_paper_env_def pt_guard_def demo_trader_simps split: prod.split)
qed

theorem paper_signal_executed_iff_witness:
  "\<exists>res pt'. pt_process_signal demo_paper_env demo_signal 0 0 0 demo_trader = Ret res pt' \<and> px_success res \<and>
     ps_trades_executed (pt_stats pt') = 1"
proof -
  obtain res pt' where r: "pt_process_signal demo_paper_env demo_signal 0 0 0 demo_trader = Ret res pt'"
    using demo_processed by blast
  from paper_signal_executed_iff[OF _ _ r] r show ?thesis
    by (simp add: demo_trader_simps demo_paper_env_def demo_verdict paper_stats_new_def)
qed

section \<open>The kill switch of the trader\<close>

lemma init_disabled:
  assumes "ks_init env None disk = Ret u ks"
  shows "ks_disabled ks"
proof -
  have strat: "ks_disabled s' = ks_disabled s" if "ks_load_strategy_states s = Ret u s'" for s s' u
    using that by (auto simp: ks_load_strategy_states_def split: ks_file.splits pyv.splits sum.splits)
  from assms obtain s where "ks_load_state env \<lparr>ks_disabled = True, ks_state = gk_default, ks_killed_cache = False,
      ks_frozen_cache = False, ks_strategies = [], ks_disk = disk\<rparr> = Ret () s"
    and "ks_load_strategy_states (s\<lparr>ks_killed_cache := truthy (gk_active (ks_state s)) \<and> gk_mode (ks_state s) = MODE_KILL,
      ks_frozen_cache := truthy (gk_active (ks_state s)) \<and> gk_mode (ks_state s) = MODE_FREEZE\<rparr>) = Ret u ks"
    by (auto simp: ks_init_def Let_def and_then_Ret_iff split: if_splits)
  then show ?thesis using load_state_frames strat by fastforce
qed

lemma gate_off:
  assumes "pt_init env0 f c bal api disk file rows = Inr pt0"
  shows "\<not> ks_is_globally_killed (pt_kill_switch (foldl pt_step pt0 es))"
proof -
  have "ks_disabled (pt_kill_switch pt0)"
    using assms init_disabled by (fastforce simp: pt_init_def Let_def split: outcome.splits)
  moreover have "pt_kill_switch (foldl pt_step pt0 es) = pt_kill_switch pt0"
    using steps_fixed[of pt0 es] by (simp add: pt_fixed_def)
  ultimately show ?thesis by (simp add: ks_is_globally_killed_def)
qed

text \<open>
  The kill switch gate of the paper trader never fires: the trader builds its own manager, which has the
  class default of being disabled and is never replaced, so over every sequence of operations it reports
  no kill, whatever the kill switch files say. A paper signal is executed exactly when the risk
  guard allows it, also while a kill is active.
\<close>

theorem paper_kill_gate_never_fires:
  assumes "pt_init env0 f c bal api disk file rows = Inr pt0" and "pt = foldl pt_step pt0 es"
    and "\<not> pt_live_mode_enabled pt" and "pt_process_signal env sg sp b a pt = Ret res pt'"
  shows "\<not> ks_is_globally_killed (pt_kill_switch pt) \<and> (px_success res \<longleftrightarrow> guard_verdict (pe_risk env) sg pt \<noteq> None)"
proof -
  have off: "\<not> ks_is_globally_killed (pt_kill_switch pt)" unfolding assms(2) by (rule gate_off[OF assms(1)])
  show ?thesis using off signal_verdict[OF off assms(3,4)] by (auto split: option.splits)
qed

theorem paper_kill_gate_never_fires_witness:
  "dk_state killed_disk = Json (gk_to_dict (gk_default\<lparr>gk_active := PBool True\<rparr>)) \<and>
   (\<exists>pt res pt'. pt_init demo_paper_env None None 10000 None killed_disk RFMissing [] = Inr pt \<and>
      pt_process_signal demo_paper_env demo_signal 0 0 0 pt = Ret res pt' \<and> px_success res)"
proof -
  obtain res pt' where r: "pt_process_signal demo_paper_env demo_signal 0 0 0 demo_trader = Ret res pt'"
    using demo_processed by blast
  have "px_success res"
    using paper_kill_gate_never_fires[OF demo_trader_init _ _ r, of "[]"]
    by (simp add: demo_trader_simps demo_paper_env_def demo_verdict)
  then show ?thesis using demo_trader_init r by (auto simp: killed_disk_def)
qed

section \<open>Closing twice and closing by hand\<close>

text \<open>
  Closing a position that is closed already succeeds again and adds its new profit to the realised profit
  of the trader without taking the earlier one back: when the books agreed before, the trader's realised
  profit is afterwards too high by exactly the profit the position had closed with.
\<close>

theorem paper_close_twice_counts_twice:
  assumes "books_agree pt" and "map_of (om_positions (pt_order_manager pt)) i = Some p" and "po_status p = CLOSED"
    and "pt_close_position env i x r pt = Ret done1 pt'"
  shows "done1 \<and> ps_realized_pnl (pt_stats pt') = om_get_total_realized_pnl (pt_order_manager pt') + po_closed_pnl p"
proof -
  have wf: "om_wf (pt_order_manager pt)" using assms(1) by (simp add: books_agree_def)
  obtain qo om where c: "om_close_position (re_now (pe_risk env)) i (Some x) r None (pt_order_manager pt) = (qo, om)" by fastforce
  from wf assms(2) c obtain q where q: "qo = Some q" "po_status q = CLOSED"
    and sums: "\<And>f. book_sum f (om_positions om) = book_sum f (om_positions (pt_order_manager pt)) + f q - f p"
    by (rule close_entry) (rule that)
  have "done1" using assms(4) q(1) c by (auto simp: pt_close_position_def Let_def and_then_Ret_iff)
  moreover have "pt_order_manager pt' = om \<and> ps_realized_pnl (pt_stats pt') = ps_realized_pnl (pt_stats pt) + po_closed_pnl q"
    using close_position_same[where env = env and i = i and x = x and r = r and pt = pt] assms(4) q(1) c
    by (simp add: pt_same_def pt_books_def)
  ultimately show ?thesis
    using assms(1) sums[of settled_value] settled_closed[OF q(2)] settled_closed[OF assms(3)]
    by (simp add: books_agree_def total_realized_eq)
qed

lemma close_returns:
  assumes "re_tmp_ok (pe_risk env)" and "map_of (om_positions (pt_order_manager pt)) i = Some p"
  shows "\<exists>pt'. pt_close_position env i x r pt = Ret True pt'"
proof -
  obtain qo om where c: "om_close_position (re_now (pe_risk env)) i (Some x) r None (pt_order_manager pt) = (qo, om)"
    by fastforce
  obtain q where q: "qo = Some q"
    using assms(2) c by (cases qo) (auto simp: om_close_position_def split: prod.splits)
  have "\<exists>pt2. pt_guard (rg_record_trade (pe_risk env) y w n g) pt1 = Ret () pt2" for y w n g pt1
    using record_trade_returns[OF assms(1), of y w n g] by (auto simp: pt_guard_def)
  then have "\<exists>pt2. and_then (pt_guard (rg_record_trade (pe_risk env) y w n g) pt1) (\<lambda>_ pt. Ret True (f pt)) = Ret True pt2"
    for y w n g pt1 and f :: "paper_trader \<Rightarrow> paper_trader"
    by (metis and_then.simps(1))
  then show ?thesis by (simp add: pt_close_position_def c q Let_def)
qed

definition demo_closed :: position where
  "demo_closed =
     \<lparr>po_position_id = ''POS_1'', po_symbol = ''EURUSD'', po_direction = LONG, po_volume = 1/10, po_entry_price = 11/10,
      po_current_price = 1102/1000, po_stop_loss = None, po_take_profit = None, po_unrealized_pnl = 20,
      po_status = CLOSED, po_opened_at = Naive 0, po_closed_at = Some (Naive 0), po_closed_price = Some (1102/1000),
      po_closed_pnl = 20, po_comment = [], po_max_favorable_excursion = 0, po_max_adverse_excursion = 0,
      po_time_in_trade_sec = 0, po_high_water_mark = 0, po_low_water_mark = 0, po_take_profit_2 = None,
      po_take_profit_3 = None, po_tp_levels_fired = [], po_close_reason = Some ''tp_hit''\<rparr>"

definition closed_trader :: paper_trader where
  "closed_trader = demo_trader\<lparr>pt_order_manager := (om_init None None None)\<lparr>om_positions := [(''POS_1'', demo_closed)]\<rparr>,
     pt_stats := (paper_stats_new 10000)\<lparr>ps_realized_pnl := 20\<rparr>\<rparr>"

lemma closed_trader_books: "books_agree closed_trader"
  by (simp add: books_agree_def closed_trader_def om_wf_def positions_ok_def orders_ok_def stamps_ok_def om_init_def Let_def
      position_ok_def settled_value_def del: not_None_eq) (simp add: demo_closed_def del: not_None_eq)

theorem paper_close_twice_counts_twice_witness:
  "\<exists>pt'. pt_close_position demo_paper_env ''POS_1'' (1102/1000) ''manual'' closed_trader = Ret True pt' \<and>
     ps_realized_pnl (pt_stats pt') = om_get_total_realized_pnl (pt_order_manager pt') + 20"
proof -
  have p: "map_of (om_positions (pt_order_manager closed_trader)) ''POS_1'' = Some demo_closed"
    by (simp add: closed_trader_def)
  have "re_tmp_ok (pe_risk demo_paper_env)" by (simp add: demo_paper_env_def demo_env_def)
  from close_returns[OF this p] obtain pt' where
    c: "pt_close_position demo_paper_env ''POS_1'' (1102/1000) ''manual'' closed_trader = Ret True pt'" by blast
  have "po_status demo_closed = CLOSED" "po_closed_pnl demo_closed = 20" by (simp_all add: demo_closed_def)
  with paper_close_twice_counts_twice[OF closed_trader_books p _ c]
  have "ps_realized_pnl (pt_stats pt') = om_get_total_realized_pnl (pt_order_manager pt') + 20" by simp
  with c show ?thesis by blast
qed

section \<open>Profit and balance\<close>



section \<open>Closing by hand\<close>

lemma manual_outcome: "map_close_reason_to_outcome ''manual'' ''closed'' w = (if w then ''tp_hit'' else ''sl_hit'')"
  by (cases w) code_simp+

lemma hit_valid: "(if w then ''tp_hit'' else ''sl_hit'') \<in> set VALID_OUTCOMES"
  by (simp add: VALID_OUTCOMES_def)

lemma guard_log: "pt_guard m pt = Ret u pt1 \<Longrightarrow> pt_stats_log pt1 = pt_stats_log pt \<and>
    pt_position_signal_id pt1 = pt_position_signal_id pt \<and> pt_order_manager pt1 = pt_order_manager pt"
  by (cases m) (auto simp: pt_guard_def)

lemma record_close_row:
  assumes "se_dir_ok (pe_stats env)" and "se_write_ok (pe_stats env)" and "dget_or (pt_position_signal_id pt) key key \<noteq> []"
    and "po_closed_at p = Some (Naive c)" and "po_opened_at p = Naive t" and "po_status p = CLOSED"
  shows "\<exists>row. pt_stats_log (pt_record_close env key p ''manual'' pt) = pt_stats_log pt @ [row] \<and>
     map_of row ''outcome'' = Some (pstr (if po_closed_pnl p > 0 then ''tp_hit'' else ''sl_hit''))"
proof -
  have app: "ss_append_line (pe_stats env) row rows = Ret () (rows @ [row])" for row rows
    using assms(1,2) by (simp add: ss_append_line_def)
  have rec_ok: "\<exists>pt2. pt_get_stats_recorder env pt1 = Ret () pt2 \<and> pt_stats_log pt2 = pt_stats_log pt1" for pt1
    using assms(1) by (simp add: pt_get_stats_recorder_def)
  obtain pt2 where r: "pt_get_stats_recorder env (pt\<lparr>pt_position_signal_id := AList.delete key (pt_position_signal_id pt)\<rparr>) = Ret () pt2"
    and l: "pt_stats_log pt2 = pt_stats_log pt"
    using rec_ok[of "pt\<lparr>pt_position_signal_id := AList.delete key (pt_position_signal_id pt)\<rparr>"] by auto
  show ?thesis
    using assms(3-6)
    by (simp add: pt_record_close_def Let_def manual_outcome r ss_record_outcome_def hit_valid app pt_log_def l carried_fields_def)
qed

text \<open>
  A position closed by hand (the default reason \<open>manual\<close>) is recorded in the signal statistics as a target
  or stop hit, depending on the sign of its profit, never as the manual close the documentation promises.
\<close>

theorem paper_manual_close_logged_as_hit:
  assumes "map_of (om_positions (pt_order_manager pt)) i = Some p" and "po_opened_at p = Naive t"
    and "re_tmp_ok (pe_risk env)" and "se_dir_ok (pe_stats env)" and "se_write_ok (pe_stats env)"
    and "dget_or (pt_position_signal_id pt) i i \<noteq> []"
  shows "\<exists>pt' q row. pt_close_position env i x ''manual'' pt = Ret True pt' \<and>
     map_of (om_positions (pt_order_manager pt')) i = Some q \<and> po_status q = CLOSED \<and>
     pt_stats_log pt' = pt_stats_log pt @ [row] \<and>
     map_of row ''outcome'' = Some (pstr (if po_closed_pnl q > 0 then ''tp_hit'' else ''sl_hit''))"
proof -
  obtain q om where c: "om_close_position (re_now (pe_risk env)) i (Some x) ''manual'' None (pt_order_manager pt) = (Some q, om)"
    and q: "map_of (om_positions om) i = Some q" "po_status q = CLOSED" "po_opened_at q = Naive t"
      "po_closed_at q = Some (Naive (re_now (pe_risk env)))"
    using assms(1,2) by (simp add: om_close_position_def om_close_def Let_def dict_simps)
  define pt1 where "pt1 = pt_on_stats (\<lambda>s. s\<lparr>ps_realized_pnl := ps_realized_pnl s + po_closed_pnl q,
      ps_current_balance := pt_current_balance pt\<rparr>) (pt\<lparr>pt_order_manager := om\<rparr>)"
  obtain g where "rg_record_trade (pe_risk env) (po_closed_pnl q) (po_closed_pnl q > 0) 1 (pt_risk_guard pt1) = Ret () g"
    using record_trade_returns[OF assms(3)] by blast
  then obtain pt2 where g: "pt_guard (rg_record_trade (pe_risk env) (po_closed_pnl q) (po_closed_pnl q > 0) 1
      (pt_risk_guard pt1)) pt1 = Ret () pt2" by (simp add: pt_guard_def)
  have l: "pt_stats_log pt2 = pt_stats_log pt" "pt_position_signal_id pt2 = pt_position_signal_id pt" "pt_order_manager pt2 = om"
    using guard_log[OF g] by (simp_all add: pt1_def)
  let ?pt3 = "pt_record_close env i q ''manual'' pt2"
  obtain row where row: "pt_stats_log ?pt3 = pt_stats_log pt @ [row]"
      "map_of row ''outcome'' = Some (pstr (if po_closed_pnl q > 0 then ''tp_hit'' else ''sl_hit''))"
    using record_close_row[OF assms(4,5) _ q(4,3,2), of pt2 i] assms(6) l by auto
  have "pt_close_position env i x ''manual'' pt = Ret True (pt_trigger_callback ''on_position_closed'' (CallClosed q) ?pt3)"
    using g by (simp add: pt_close_position_def c Let_def pt1_def)
  moreover have "pt_order_manager ?pt3 = om"
    using record_close_same[of pt2 pt2 env i q "''manual''"] l(3) by (simp add: pt_same_def pt_books_def)
  ultimately show ?thesis using q row by (auto simp: pt_trigger_callback_def)
qed

theorem paper_manual_close_logged_as_hit_witness:
  "\<exists>pt' row. pt_close_position demo_paper_env ''POS_1'' (1102/1000) ''manual'' closed_trader = Ret True pt' \<and>
     pt_stats_log pt' = [row] \<and> map_of row ''outcome'' \<noteq> Some (pstr ''manual_close'')"
proof -
  have p: "map_of (om_positions (pt_order_manager closed_trader)) ''POS_1'' = Some demo_closed"
    by (simp add: closed_trader_def)
  have env: "re_tmp_ok (pe_risk demo_paper_env)" "se_dir_ok (pe_stats demo_paper_env)" "se_write_ok (pe_stats demo_paper_env)"
    by (simp_all add: demo_paper_env_def demo_env_def demo_stats_env_def)
  have t: "po_opened_at demo_closed = Naive 0" by (simp add: demo_closed_def)
  have "dget_or (pt_position_signal_id closed_trader) ''POS_1'' ''POS_1'' \<noteq> []" "pt_stats_log closed_trader = []"
    by (simp_all add: closed_trader_def demo_trader_def)
  with paper_manual_close_logged_as_hit[OF p t env] show ?thesis by fastforce
qed

end
