(* ===== verification/Connections.thy ===== *)
theory Connections
  imports ConnState Reconnect
begin

text \<open>
  The connection manager of \<open>adapters/ctrader/connection_manager.py\<close>: it owns the state machines of
  the market data and the trade execution connection, keeps their metrics, answers the two trading
  gates, decides about reconnects and retries authentication.

  The state managers are objects that the manager, the watchdog and the feeds share, so they live
  in a store (\<open>cx_objs\<close>, by address) and a registration holds an address. A subscriber of a state
  manager is a name: the closure the connection manager registers for a role (\<open>ManagerSub\<close>) or one
  of somebody else (\<open>OtherSub\<close>, a parameter). A transition of a stored state manager is
  \<open>cm_transition_to\<close> of \<open>ConnState\<close> with its subscribers turned into callbacks; the new state is
  written before they run. Foreign callbacks change their own world \<open>'x\<close> and may raise; they do
  not call back into the connection layer. \<open>cx_mono\<close> and \<open>cx_time\<close> are the readings of
  \<open>time.monotonic()\<close> and \<open>time.time()\<close>, read once per operation.
\<close>

section \<open>Data\<close>

datatype conn_role = MARKET_DATA | TRADE_EXECUTION

datatype role_arg = RoleStr string | RoleEnum conn_role

fun as_role :: "role_arg \<Rightarrow> pyexn + conn_role" where
  "as_role (RoleEnum r) = Inr r"
| "as_role (RoleStr s) =
     (if s = ''market_data'' then Inr MARKET_DATA
      else if s = ''trade_execution'' then Inr TRADE_EXECUTION
      else Inl ValueError)"

datatype subscriber = ManagerSub conn_role | OtherSub nat

record sm_obj =
  so_name :: string
  so_state :: conn_state
  so_subs :: "subscriber list"

record conn_transition =
  ct_time :: flt
  ct_old :: conn_state
  ct_new :: conn_state
  ct_reason :: ptext

record conn_metrics =
  cmx_role :: conn_role
  cmx_transitions :: "conn_transition list"
  cmx_start :: flt
  cmx_current :: conn_state

record conn_health =
  ch_role :: conn_role
  ch_state :: conn_state
  ch_uptime_1h :: flt
  ch_uptime_24h :: flt
  ch_reconnects_1h :: int
  ch_reconnects_24h :: int
  ch_degraded_1h :: flt
  ch_last_change :: "instant option"
  ch_last_reason :: ptext

record dual_health =
  dh_market :: conn_health
  dh_trade :: conn_health
  dh_fully :: bool
  dh_timestamp :: instant

record 'x conn_system =
  cx_objs :: "nat \<Rightarrow> sm_obj"
  cx_conns :: "(conn_role \<times> nat) list"
  cx_metrics :: "(conn_role \<times> conn_metrics) list"
  cx_callbacks :: "nat list"
  cx_tiers :: "(error_tier \<times> int) list"
  cx_strategy :: reconnect_strategy
  cx_token :: "string option"
  cx_attempt :: int
  cx_auth_failures :: int
  cx_mono :: flt
  cx_time :: flt
  cx_ext :: 'x

text \<open>The foreign callbacks: of a state manager, of the connection manager, of the watchdog.\<close>

record 'x conn_env =
  cxe_other :: "nat \<Rightarrow> conn_state \<Rightarrow> conn_state \<Rightarrow> ptext \<Rightarrow> pyv \<Rightarrow> 'x \<Rightarrow> ('x, unit) outcome"
  cxe_health :: "nat \<Rightarrow> dual_health \<Rightarrow> conn_role \<Rightarrow> conn_state \<Rightarrow> conn_state \<Rightarrow> ptext \<Rightarrow> 'x \<Rightarrow> ('x, unit) outcome"
  cxe_preemptive :: "nat \<Rightarrow> conn_role \<Rightarrow> flt \<Rightarrow> 'x \<Rightarrow> ('x, unit) outcome"

definition AUTH_RETRY_MAX_ATTEMPTS :: int where "AUTH_RETRY_MAX_ATTEMPTS = 3"
definition AUTH_RETRY_BACKOFF_SECONDS :: "flt list" where "AUTH_RETRY_BACKOFF_SECONDS = [1, 2, 4]"
definition AUTH_FULL_RECONNECT_THRESHOLD :: int where "AUTH_FULL_RECONNECT_THRESHOLD = 8"

definition cx_init :: "(nat \<Rightarrow> sm_obj) \<Rightarrow> flt \<Rightarrow> flt \<Rightarrow> 'x \<Rightarrow> 'x conn_system" where
  "cx_init objs mt time x =
     \<lparr>cx_objs = objs, cx_conns = [], cx_metrics = [], cx_callbacks = [],
      cx_tiers = [(TIER_1_TRANSIENT, 0), (TIER_2_BACKOFF, 0), (TIER_3A_OPERATION, 0), (TIER_3B_SYSTEM, 0)],
      cx_strategy = rs_init BASE_SLEEP_S CAP_SLEEP_S DEFAULT_MAX_ATTEMPTS, cx_token = None,
      cx_attempt = 0, cx_auth_failures = 0, cx_mono = mt, cx_time = time, cx_ext = x\<rparr>"

section \<open>Metrics\<close>

definition cmx_init :: "conn_role \<Rightarrow> flt \<Rightarrow> conn_metrics" where
  "cmx_init r mt = \<lparr>cmx_role = r, cmx_transitions = [], cmx_start = mt, cmx_current = DISCONNECTED\<rparr>"

text \<open>The deque keeps the last 10000 transitions.\<close>

definition keep_last :: "nat \<Rightarrow> 'a list \<Rightarrow> 'a list" where
  "keep_last n xs = drop (length xs - n) xs"

definition cmx_record_transition ::
  "conn_state \<Rightarrow> conn_state \<Rightarrow> ptext \<Rightarrow> flt \<Rightarrow> conn_metrics \<Rightarrow> conn_metrics" where
  "cmx_record_transition old new reason mt m =
     m\<lparr>cmx_transitions := keep_last 10000 (cmx_transitions m @
          [\<lparr>ct_time = mt, ct_old = old, ct_new = new, ct_reason = reason\<rparr>]),
       cmx_current := new\<rparr>"

definition good_state :: "conn_state \<Rightarrow> bool" where
  "good_state s \<longleftrightarrow> s = AUTHENTICATED \<or> s = DEGRADED"

fun uptime_loop :: "conn_transition list \<Rightarrow> flt \<Rightarrow> flt \<Rightarrow> conn_state \<Rightarrow> flt \<times> flt \<times> conn_state" where
  "uptime_loop [] good prev_time prev_state = (good, prev_time, prev_state)"
| "uptime_loop (t # ts) good prev_time prev_state =
     uptime_loop ts (if good_state prev_state then good + (ct_time t - prev_time) else good) (ct_time t) (ct_new t)"

definition cmx_calc_uptime :: "conn_metrics \<Rightarrow> conn_transition list \<Rightarrow> flt \<Rightarrow> flt \<Rightarrow> flt" where
  "cmx_calc_uptime m ts window_start now =
     (case ts of [] \<Rightarrow> (if good_state (cmx_current m) then 1 else 0)
      | t0 # _ \<Rightarrow>
        (let (good, prev_time, prev_state) = uptime_loop ts 0 window_start (ct_old t0);
             good' = (if good_state prev_state then good + (now - prev_time) else good);
             total_time = now - window_start
         in if total_time > 0 then min 1 (good' / total_time) else 0))"

text \<open>The loop over the hour's transitions that adds up the time in \<open>DEGRADED\<close>.\<close>

fun degraded_loop :: "conn_transition list \<Rightarrow> flt \<Rightarrow> flt option \<Rightarrow> flt \<times> flt option" where
  "degraded_loop [] acc start = (acc, start)"
| "degraded_loop (t # ts) acc start =
     (if ct_new t = DEGRADED then degraded_loop ts acc (Some (ct_time t))
      else case start of
        Some s \<Rightarrow> degraded_loop ts (acc + (ct_time t - s)) None
      | None \<Rightarrow> degraded_loop ts acc None)"

definition degraded_time :: "conn_transition list \<Rightarrow> flt \<Rightarrow> flt" where
  "degraded_time ts now =
     (case degraded_loop ts 0 None of (acc, Some s) \<Rightarrow> acc + (now - s) | (acc, None) \<Rightarrow> acc)"

text \<open>\<open>datetime.fromtimestamp(x, tz=utc)\<close>: seconds since the epoch, to the microsecond.\<close>

definition from_timestamp :: "flt \<Rightarrow> instant" where
  "from_timestamp x = round_half_even (x * 1000000)"

definition reconnects_in :: "conn_transition list \<Rightarrow> int" where
  "reconnects_in ts = int (length (filter (\<lambda>t. ct_new t = RECONNECTING) ts))"

definition transitions_since :: "flt \<Rightarrow> conn_metrics \<Rightarrow> conn_transition list" where
  "transitions_since window m = filter (\<lambda>t. ct_time t \<ge> window) (cmx_transitions m)"

definition cmx_get_health :: "conn_state \<Rightarrow> flt \<Rightarrow> conn_metrics \<Rightarrow> conn_health" where
  "cmx_get_health state now m =
     (let w1 = now - 3600; w24 = now - 86400;
          ts1 = transitions_since w1 m; ts24 = transitions_since w24 m
      in \<lparr>ch_role = cmx_role m, ch_state = state,
          ch_uptime_1h = py_round2 (cmx_calc_uptime m ts1 w1 now * 100),
          ch_uptime_24h = py_round2 (cmx_calc_uptime m ts24 w24 now * 100),
          ch_reconnects_1h = reconnects_in ts1, ch_reconnects_24h = reconnects_in ts24,
          ch_degraded_1h = py_round2 (degraded_time ts1 now),
          ch_last_change =
            (if cmx_transitions m = [] then None else Some (from_timestamp (ct_time (last (cmx_transitions m))))),
          ch_last_reason = (if cmx_transitions m = [] then [] else ct_reason (last (cmx_transitions m)))\<rparr>)"

section \<open>The gates\<close>

abbreviation role_obj :: "'x conn_system \<Rightarrow> conn_role \<Rightarrow> sm_obj option" where
  "role_obj S r \<equiv> map_option (cx_objs S) (map_of (cx_conns S) r)"

definition cx_is_fully_operational :: "'x conn_system \<Rightarrow> bool" where
  "cx_is_fully_operational S \<longleftrightarrow>
     cx_conns S \<noteq> [] \<and> list_all (\<lambda>(r, a). so_state (cx_objs S a) = AUTHENTICATED) (cx_conns S)"

definition cx_is_tradeable :: "'x conn_system \<Rightarrow> bool" where
  "cx_is_tradeable S \<longleftrightarrow>
     (case role_obj S TRADE_EXECUTION of None \<Rightarrow> False
      | Some trade \<Rightarrow>
          so_state trade = AUTHENTICATED \<and>
          (case role_obj S MARKET_DATA of None \<Rightarrow> False
           | Some market \<Rightarrow> so_state market = AUTHENTICATED \<or> so_state market = DEGRADED))"

definition cx_is_data_available :: "'x conn_system \<Rightarrow> bool" where
  "cx_is_data_available S \<longleftrightarrow>
     (case role_obj S MARKET_DATA of None \<Rightarrow> False
      | Some market \<Rightarrow> so_state market = AUTHENTICATED \<or> so_state market = DEGRADED)"

definition cx_connection_state :: "role_arg \<Rightarrow> 'x conn_system \<Rightarrow> pyexn + conn_state" where
  "cx_connection_state role S =
     (case as_role role of Inl e \<Rightarrow> Inl e
      | Inr r \<Rightarrow> Inr (case role_obj S r of Some ob \<Rightarrow> so_state ob | None \<Rightarrow> DISCONNECTED))"

text \<open>\<open>get_decision_context\<close>: both states, both gates and the time.\<close>

record conn_snapshot =
  cs_market_data_state :: conn_state
  cs_trade_execution_state :: conn_state
  cs_fully_operational :: bool
  cs_is_tradeable :: bool
  cs_timestamp :: frag

definition role_state :: "'x conn_system \<Rightarrow> conn_role \<Rightarrow> conn_state" where
  "role_state S r = (case role_obj S r of Some ob \<Rightarrow> so_state ob | None \<Rightarrow> DISCONNECTED)"

definition cx_get_decision_context :: "'x conn_system \<Rightarrow> conn_snapshot" where
  "cx_get_decision_context S =
     \<lparr>cs_market_data_state = role_state S MARKET_DATA,
      cs_trade_execution_state = role_state S TRADE_EXECUTION,
      cs_fully_operational = cx_is_fully_operational S, cs_is_tradeable = cx_is_tradeable S,
      cs_timestamp = FIso (from_timestamp (cx_time S))\<rparr>"

section \<open>Health\<close>

definition blank_health :: "conn_role \<Rightarrow> conn_health" where
  "blank_health r =
     \<lparr>ch_role = r, ch_state = DISCONNECTED, ch_uptime_1h = 0, ch_uptime_24h = 0,
      ch_reconnects_1h = 0, ch_reconnects_24h = 0, ch_degraded_1h = 0, ch_last_change = None,
      ch_last_reason = []\<rparr>"

definition role_health :: "'x conn_system \<Rightarrow> conn_role \<Rightarrow> conn_health" where
  "role_health S r =
     (case (role_obj S r, map_of (cx_metrics S) r) of
        (Some ob, Some m) \<Rightarrow> cmx_get_health (so_state ob) (cx_mono S) m
      | _ \<Rightarrow> blank_health r)"

definition cx_get_health :: "'x conn_system \<Rightarrow> dual_health" where
  "cx_get_health S =
     \<lparr>dh_market = role_health S MARKET_DATA, dh_trade = role_health S TRADE_EXECUTION,
      dh_fully = cx_is_fully_operational S, dh_timestamp = from_timestamp (cx_time S)\<rparr>"

section \<open>State changes\<close>

fun cx_fire_health ::
  "'x conn_env \<Rightarrow> nat list \<Rightarrow> dual_health \<Rightarrow> conn_role \<Rightarrow> conn_state \<Rightarrow> conn_state \<Rightarrow> ptext \<Rightarrow> 'x \<Rightarrow> 'x" where
  "cx_fire_health env [] h r old new reason x = x"
| "cx_fire_health env (i # is) h r old new reason x =
     cx_fire_health env is h r old new reason (state_of (cxe_health env i h r old new reason x))"

definition cx_on_state_change ::
  "'x conn_env \<Rightarrow> conn_role \<Rightarrow> conn_state \<Rightarrow> conn_state \<Rightarrow> ptext \<Rightarrow> 'x conn_system \<Rightarrow> 'x conn_system" where
  "cx_on_state_change env r old new reason S =
     (let S' = (case map_of (cx_metrics S) r of
                  Some m \<Rightarrow> S\<lparr>cx_metrics :=
                    AList.update r (cmx_record_transition old new reason (cx_mono S) m) (cx_metrics S)\<rparr>
                | None \<Rightarrow> S);
          health = cx_get_health S'
      in S'\<lparr>cx_ext := cx_fire_health env (cx_callbacks S') health r old new reason (cx_ext S')\<rparr>)"

fun sub_callback :: "'x conn_env \<Rightarrow> subscriber \<Rightarrow> 'x conn_system callback" where
  "sub_callback env (ManagerSub r) old new reason md S = Ret () (cx_on_state_change env r old new reason S)"
| "sub_callback env (OtherSub i) old new reason md S =
     (case cxe_other env i old new reason md (cx_ext S) of
        Ret u x \<Rightarrow> Ret () (S\<lparr>cx_ext := x\<rparr>)
      | Exc e x \<Rightarrow> Exc e (S\<lparr>cx_ext := x\<rparr>))"

definition set_obj_state :: "nat \<Rightarrow> conn_state \<Rightarrow> 'x conn_system \<Rightarrow> 'x conn_system" where
  "set_obj_state a s S = S\<lparr>cx_objs := (cx_objs S)(a := (cx_objs S a)\<lparr>so_state := s\<rparr>)\<rparr>"

text \<open>\<open>transition_to\<close> of the state manager at an address.\<close>

definition cx_transition ::
  "'x conn_env \<Rightarrow> nat \<Rightarrow> conn_state \<Rightarrow> ptext \<Rightarrow> 'x conn_system \<Rightarrow> bool \<times> 'x conn_system" where
  "cx_transition env a new reason S =
     (let ob = cx_objs S a;
          m = \<lparr>cm_name = so_name ob, cm_state = so_state ob,
               cm_callbacks = map (sub_callback env) (so_subs ob)\<rparr>;
          S' = (if is_valid_transition (so_state ob) new then set_obj_state a new S else S);
          (accepted, m', S'') = cm_transition_to new reason None (m, S')
      in (accepted, S''))"

section \<open>Registration\<close>

definition cx_register :: "role_arg \<Rightarrow> nat \<Rightarrow> 'x conn_system \<Rightarrow> ('x conn_system, unit) outcome" where
  "cx_register role a S =
     (case as_role role of
        Inl e \<Rightarrow> Exc e S
      | Inr r \<Rightarrow>
          Ret () (S\<lparr>cx_conns := AList.update r a (cx_conns S),
                    cx_metrics := AList.update r (cmx_init r (cx_mono S)) (cx_metrics S),
                    cx_objs := (cx_objs S)(a := (cx_objs S a)\<lparr>so_subs := so_subs (cx_objs S a) @ [ManagerSub r]\<rparr>)\<rparr>))"

definition cx_unregister :: "role_arg \<Rightarrow> 'x conn_system \<Rightarrow> ('x conn_system, unit) outcome" where
  "cx_unregister role S =
     (case as_role role of
        Inl e \<Rightarrow> Exc e S
      | Inr r \<Rightarrow> Ret () (S\<lparr>cx_conns := AList.delete r (cx_conns S), cx_metrics := AList.delete r (cx_metrics S)\<rparr>))"

definition cx_add_callback :: "nat \<Rightarrow> 'x conn_system \<Rightarrow> 'x conn_system" where
  "cx_add_callback i S = S\<lparr>cx_callbacks := cx_callbacks S @ [i]\<rparr>"

definition cx_observe_error :: "error_tier \<Rightarrow> 'x conn_system \<Rightarrow> 'x conn_system" where
  "cx_observe_error tier S = S\<lparr>cx_tiers := AList.update tier (dget_or (cx_tiers S) tier 0 + 1) (cx_tiers S)\<rparr>"

definition cx_handle_token_refresh :: "string \<Rightarrow> 'x conn_system \<Rightarrow> 'x conn_system" where
  "cx_handle_token_refresh t S = S\<lparr>cx_token := Some t\<rparr>"

section \<open>Reconnecting\<close>

text \<open>
  An exception as the code looks at it: its class name, its message, and the \<open>code\<close> and
  \<open>error_code\<close> attributes it may have (a string or a number).
\<close>

datatype code_attr = CodeStr string | CodeNum nat

record py_error =
  pe_class :: string
  pe_message :: string
  pe_code :: "code_attr option"
  pe_error_code :: "code_attr option"

fun code_truthy :: "code_attr \<Rightarrow> bool" where
  "code_truthy (CodeStr s) = (s \<noteq> [])"
| "code_truthy (CodeNum n) = (n \<noteq> 0)"

fun code_text :: "code_attr \<Rightarrow> string" where
  "code_text (CodeStr s) = s"
| "code_text (CodeNum n) = py_str_nat n"

definition direct_codes :: "(string \<times> string) list" where
  "direct_codes =
    [(''TIMEOUTERROR'', ''HEARTBEAT_TIMEOUT''),
     (''CONNECTIONERROR'', ''CONNECTION_LOST''),
     (''CONNECTIONRESETERROR'', ''TCP_RESET''),
     (''CONNECTIONREFUSEDERROR'', ''CONNECTION_LOST''),
     (''CONNECTIONABORTEDERROR'', ''TCP_RESET''),
     (''OSERROR'', ''CONNECTION_LOST'')]"

text \<open>The class name, when there is no code: the direct table, then three patterns in this order.\<close>

definition exception_name_code :: "string \<Rightarrow> string" where
  "exception_name_code name =
     (case map_of direct_codes name of
        Some c \<Rightarrow> c
      | None \<Rightarrow>
          if sublist ''AUTH'' name \<or> sublist ''TOKEN'' name \<or> sublist ''PERMISSION'' name then ''AUTH_EXPIRED''
          else if sublist ''TIMEOUT'' name then ''REQUEST_TIMEOUT''
          else if sublist ''CONNECTION'' name \<or> sublist ''SOCKET'' name then ''CONNECTION_LOST''
          else ''UNKNOWN'')"

definition exception_to_error_code :: "py_error \<Rightarrow> string" where
  "exception_to_error_code e =
     (let code = (case pe_code e of
                    Some c \<Rightarrow> (if code_truthy c then Some c else pe_error_code e)
                  | None \<Rightarrow> pe_error_code e);
          name = py_upper (pe_class e)
      in case code of
           Some c \<Rightarrow> (if code_truthy c then py_upper (code_text c) else exception_name_code name)
         | None \<Rightarrow> exception_name_code name)"

definition cx_decide_reconnect ::
  "py_error \<Rightarrow> int option \<Rightarrow> flt \<Rightarrow> 'x conn_system \<Rightarrow> reconnect_decision \<times> 'x conn_system" where
  "cx_decide_reconnect err attempt u S =
     (let S1 = (case attempt of None \<Rightarrow> S\<lparr>cx_attempt := cx_attempt S + 1\<rparr> | Some _ \<Rightarrow> S);
          n = (case attempt of None \<Rightarrow> cx_attempt S1 | Some k \<Rightarrow> k);
          msg = (if pe_message err = [] then pe_class err else pe_message err);
          classified = classify_error (exception_to_error_code err) msg;
          (decision, strategy) = rs_decide (Classified classified) n u (cx_strategy S1)
      in (decision, cx_observe_error (ce_tier classified) (S1\<lparr>cx_strategy := strategy\<rparr>)))"

definition cx_reset_reconnect_state :: "'x conn_system \<Rightarrow> 'x conn_system" where
  "cx_reset_reconnect_state S =
     S\<lparr>cx_attempt := 0, cx_auth_failures := 0, cx_strategy := rs_reset (cx_strategy S)\<rparr>"

definition cx_record_auth_success :: "'x conn_system \<Rightarrow> 'x conn_system" where
  "cx_record_auth_success S = S\<lparr>cx_auth_failures := 0\<rparr>"

definition cx_record_auth_failure :: "'x conn_system \<Rightarrow> bool \<times> 'x conn_system" where
  "cx_record_auth_failure S =
     (let n = cx_auth_failures S + 1 in
      if n \<ge> AUTH_FULL_RECONNECT_THRESHOLD then (True, S\<lparr>cx_auth_failures := 0\<rparr>)
      else (False, S\<lparr>cx_auth_failures := n\<rparr>))"

section \<open>Authentication with retry\<close>

text \<open>
  The authentication call is a parameter: it returns something truthy or falsy, or raises, and
  changes the system as it likes. The state of the loop is the system and the sleeps taken so
  far. The index into the schedule is \<open>min (attempt - 1) (len - 1)\<close>, which Python reads as \<open>-1\<close>
  on an empty schedule (and then raises); sleeping for a negative time raises too.
\<close>

type_synonym 'x auth_fn = "'x conn_system \<Rightarrow> ('x conn_system, bool) outcome"

definition backoff_at :: "flt list \<Rightarrow> int \<Rightarrow> pyexn + flt" where
  "backoff_at bs attempt =
     (let i = min (attempt - 1) (int (length bs) - 1) in
      if i < 0 then Inl IndexError
      else if bs ! nat i < 0 then Inl ValueError
      else Inr (bs ! nat i))"

fun auth_loop ::
  "'x auth_fn \<Rightarrow> int \<Rightarrow> flt list \<Rightarrow> int list \<Rightarrow> 'x conn_system \<times> flt list
     \<Rightarrow> ('x conn_system \<times> flt list, bool) outcome" where
  "auth_loop auth max_attempts bs [] st = Ret False st"
| "auth_loop auth max_attempts bs (attempt # rest) (S, slept) =
     (let res = auth S; S' = state_of res in
      if (case res of Ret ok _ \<Rightarrow> ok | Exc _ _ \<Rightarrow> False)
      then Ret True (cx_record_auth_success (cx_reset_reconnect_state S'), slept)
      else if attempt < max_attempts then
        (case backoff_at bs attempt of
           Inl e \<Rightarrow> Exc e (S', slept)
         | Inr t \<Rightarrow> auth_loop auth max_attempts bs rest (S', slept @ [t]))
      else auth_loop auth max_attempts bs rest (S', slept))"

definition cx_authenticate_with_retry ::
  "'x auth_fn \<Rightarrow> int \<Rightarrow> flt list \<Rightarrow> 'x conn_system \<Rightarrow> ('x conn_system \<times> flt list, bool) outcome" where
  "cx_authenticate_with_retry auth max_attempts bs S = auth_loop auth max_attempts bs [1..max_attempts] (S, [])"

section \<open>The metrics payload\<close>

fun conn_state_value :: "conn_state \<Rightarrow> string" where
  "conn_state_value DISCONNECTED = ''disconnected''"
| "conn_state_value CONNECTING = ''connecting''"
| "conn_state_value CONNECTED = ''connected''"
| "conn_state_value APP_AUTHENTICATING = ''app_authenticating''"
| "conn_state_value ACCT_AUTHENTICATING = ''acct_authenticating''"
| "conn_state_value AUTHENTICATED = ''authenticated''"
| "conn_state_value SUSPENDED = ''suspended''"
| "conn_state_value SUBSCRIBING = ''subscribing''"
| "conn_state_value DEGRADED = ''degraded''"
| "conn_state_value RECONNECTING = ''reconnecting''"
| "conn_state_value FAILED = ''failed''"

definition health_payload :: "conn_health \<Rightarrow> pyv" where
  "health_payload h =
     PDict [(''state'', pstr (conn_state_value (ch_state h))),
            (''uptime_1h'', PFloat (ch_uptime_1h h)),
            (''reconnects_1h'', PInt (ch_reconnects_1h h)),
            (''degraded_time_1h'', PFloat (ch_degraded_1h h))]"

definition cx_metrics_payload :: "'x conn_system \<Rightarrow> pyv" where
  "cx_metrics_payload S =
     (let h = cx_get_health S in
      PDict [(''timestamp'', PStr [FIso (dh_timestamp h)]),
             (''type'', pstr ''connection_metrics''),
             (''market_data'', health_payload (dh_market h)),
             (''trade_execution'', health_payload (dh_trade h)),
             (''fully_operational'', PBool (dh_fully h)),
             (''error_tiers'', PDict
                [(''t1'', PInt (dget_or (cx_tiers S) TIER_1_TRANSIENT 0)),
                 (''t2'', PInt (dget_or (cx_tiers S) TIER_2_BACKOFF 0)),
                 (''t3a'', PInt (dget_or (cx_tiers S) TIER_3A_OPERATION 0)),
                 (''t3b'', PInt (dget_or (cx_tiers S) TIER_3B_SYSTEM 0))])])"

end
