(* ===== verification/Watchdog.thy ===== *)
theory Watchdog
  imports Connections
begin

text \<open>
  The heartbeat watchdog of \<open>adapters/ctrader/connection_watchdog.py\<close> over the connection manager's
  store: the trackers, \<open>record_ping\<close>, one polling cycle, and the connection manager's
  \<open>start_watchdog\<close>. A cycle of the watchdog thread is one call of \<open>wd_check_all\<close>; the thread itself
  is the flag \<open>wd_running\<close>.
\<close>

section \<open>State\<close>

definition PRE_EMPTIVE_THRESHOLD_S :: flt where "PRE_EMPTIVE_THRESHOLD_S = 12"
definition DEGRADED_THRESHOLD_S :: flt where "DEGRADED_THRESHOLD_S = 15"
definition FAILED_THRESHOLD_S :: flt where "FAILED_THRESHOLD_S = 45"
definition POLL_INTERVAL_S :: flt where "POLL_INTERVAL_S = 5"

record role_tracker =
  tr_mgr :: nat
  tr_last_ping :: flt
  tr_preemptive :: bool
  tr_degraded :: bool
  tr_failed :: bool

definition tracker_new :: "nat \<Rightarrow> flt \<Rightarrow> role_tracker" where
  "tracker_new a now =
     \<lparr>tr_mgr = a, tr_last_ping = now, tr_preemptive = False, tr_degraded = False, tr_failed = False\<rparr>"

record watchdog =
  wd_degraded :: flt
  wd_failed :: flt
  wd_poll :: flt
  wd_preemptive :: flt
  wd_trackers :: "(conn_role \<times> role_tracker) list"
  wd_callbacks :: "nat list"
  wd_running :: bool

definition wd_init :: "flt \<Rightarrow> flt \<Rightarrow> flt \<Rightarrow> flt \<Rightarrow> watchdog" where
  "wd_init degraded failed poll preemptive =
     \<lparr>wd_degraded = degraded, wd_failed = failed, wd_poll = poll, wd_preemptive = preemptive,
      wd_trackers = [], wd_callbacks = [], wd_running = False\<rparr>"

definition wd_default :: watchdog where
  "wd_default = wd_init DEGRADED_THRESHOLD_S FAILED_THRESHOLD_S POLL_INTERVAL_S PRE_EMPTIVE_THRESHOLD_S"

definition wd_register :: "conn_role \<Rightarrow> nat \<Rightarrow> flt \<Rightarrow> watchdog \<Rightarrow> watchdog" where
  "wd_register r a now w = w\<lparr>wd_trackers := AList.update r (tracker_new a now) (wd_trackers w)\<rparr>"

definition wd_unregister :: "conn_role \<Rightarrow> watchdog \<Rightarrow> watchdog" where
  "wd_unregister r w = w\<lparr>wd_trackers := AList.delete r (wd_trackers w)\<rparr>"

definition wd_on_preemptive :: "nat \<Rightarrow> watchdog \<Rightarrow> watchdog" where
  "wd_on_preemptive i w = w\<lparr>wd_callbacks := wd_callbacks w @ [i]\<rparr>"

definition wd_start :: "watchdog \<Rightarrow> watchdog" where
  "wd_start w = (if wd_running w then w else w\<lparr>wd_running := True\<rparr>)"

definition wd_stop :: "watchdog \<Rightarrow> watchdog" where
  "wd_stop w = w\<lparr>wd_running := False\<rparr>"

definition wd_get_silence :: "conn_role \<Rightarrow> flt \<Rightarrow> watchdog \<Rightarrow> flt option" where
  "wd_get_silence r now w = map_option (\<lambda>t. now - tr_last_ping t) (map_of (wd_trackers w) r)"

section \<open>Heartbeats\<close>

definition wd_record_ping ::
  "'x conn_env \<Rightarrow> conn_role \<Rightarrow> watchdog \<times> 'x conn_system \<Rightarrow> watchdog \<times> 'x conn_system" where
  "wd_record_ping env r = (\<lambda>(w, S).
     case map_of (wd_trackers w) r of
       None \<Rightarrow> (w, S)
     | Some t \<Rightarrow>
         let w' = w\<lparr>wd_trackers := AList.update r
                 (t\<lparr>tr_last_ping := cx_time S, tr_preemptive := False, tr_degraded := False,
                    tr_failed := False\<rparr>) (wd_trackers w)\<rparr>
         in if tr_degraded t
            then (w', snd (cx_transition env (tr_mgr t) AUTHENTICATED [Lit ''heartbeat_recovered''] S))
            else (w', S))"

section \<open>One polling cycle\<close>

fun wd_fire_preemptive :: "'x conn_env \<Rightarrow> nat list \<Rightarrow> conn_role \<Rightarrow> flt \<Rightarrow> 'x \<Rightarrow> 'x" where
  "wd_fire_preemptive env [] r silence x = x"
| "wd_fire_preemptive env (i # is) r silence x =
     wd_fire_preemptive env is r silence (state_of (cxe_preemptive env i r silence x))"

text \<open>The body of the loop over the trackers: the tracker and the system after it.\<close>

definition wd_check_one ::
  "'x conn_env \<Rightarrow> watchdog \<Rightarrow> flt \<Rightarrow> conn_role \<Rightarrow> role_tracker \<Rightarrow> 'x conn_system \<Rightarrow> role_tracker \<times> 'x conn_system" where
  "wd_check_one env w now r t S =
     (let silence = now - tr_last_ping t;
          reason = [Lit ''heartbeat_silence_'', FFix 0 silence, Lit ''s''] in
      if silence \<ge> wd_failed w \<and> \<not> tr_failed t then
        (t\<lparr>tr_failed := True, tr_degraded := True, tr_preemptive := True\<rparr>,
         snd (cx_transition env (tr_mgr t) FAILED reason S))
      else if silence \<ge> wd_degraded w \<and> \<not> tr_degraded t then
        (t\<lparr>tr_degraded := True\<rparr>, snd (cx_transition env (tr_mgr t) DEGRADED reason S))
      else if silence \<ge> wd_preemptive w \<and> \<not> tr_preemptive t then
        (t\<lparr>tr_preemptive := True\<rparr>,
         S\<lparr>cx_ext := wd_fire_preemptive env (wd_callbacks w) r silence (cx_ext S)\<rparr>)
      else (t, S))"

fun wd_check_loop ::
  "'x conn_env \<Rightarrow> flt \<Rightarrow> (conn_role \<times> role_tracker) list \<Rightarrow> watchdog \<times> 'x conn_system \<Rightarrow> watchdog \<times> 'x conn_system" where
  "wd_check_loop env now [] (w, S) = (w, S)"
| "wd_check_loop env now ((r, t) # ts) (w, S) =
     (let (t', S') = wd_check_one env w now r t S
      in wd_check_loop env now ts (w\<lparr>wd_trackers := AList.update r t' (wd_trackers w)\<rparr>, S'))"

definition wd_check_all :: "'x conn_env \<Rightarrow> watchdog \<times> 'x conn_system \<Rightarrow> watchdog \<times> 'x conn_system" where
  "wd_check_all env = (\<lambda>(w, S). wd_check_loop env (cx_time S) (wd_trackers w) (w, S))"

section \<open>The connection manager's watchdog\<close>

fun register_all :: "(conn_role \<times> nat) list \<Rightarrow> flt \<Rightarrow> watchdog \<Rightarrow> watchdog" where
  "register_all [] now w = w"
| "register_all ((r, a) # cs) now w = register_all cs now (wd_register r a now w)"

definition cx_start_watchdog ::
  "flt \<Rightarrow> flt \<Rightarrow> flt \<Rightarrow> 'x conn_system \<Rightarrow> watchdog option \<Rightarrow> watchdog option" where
  "cx_start_watchdog degraded failed poll S wd =
     (if (case wd of Some w \<Rightarrow> wd_running w | None \<Rightarrow> False) then wd
      else Some (wd_start (register_all (cx_conns S) (cx_time S)
                   (wd_init degraded failed poll PRE_EMPTIVE_THRESHOLD_S))))"

text \<open>The defaults of \<open>start_watchdog\<close> are not the watchdog's own.\<close>

definition cx_start_watchdog_default :: "'x conn_system \<Rightarrow> watchdog option \<Rightarrow> watchdog option" where
  "cx_start_watchdog_default = cx_start_watchdog 30 90 5"

definition cx_stop_watchdog :: "watchdog option \<Rightarrow> watchdog option" where
  "cx_stop_watchdog wd = map_option wd_stop wd"

section \<open>What a transition leaves alone\<close>

text \<open>
  The subscribers only touch the metrics and the outside world, so a transition changes the state
  of the one object it is about.
\<close>

definition core_of where
  "core_of S = (cx_objs S, cx_conns S, cx_callbacks S, cx_tiers S, cx_strategy S, cx_token S,
                cx_attempt S, cx_auth_failures S, cx_mono S, cx_time S)"

lemma core_of_on_state_change [simp]: "core_of (cx_on_state_change env r old new reason S) = core_of S"
  by (simp add: core_of_def cx_on_state_change_def Let_def split: option.splits)

lemma core_of_sub_callback [simp]: "core_of (state_of (sub_callback env s old new reason md S)) = core_of S"
proof (cases s)
  case (OtherSub i)
  then show ?thesis
    by (cases "cxe_other env i old new reason md (cx_ext S)") (simp_all add: core_of_def)
qed simp

lemma core_of_fire [simp]:
  "core_of (cm_fire (map (sub_callback env) subs) old new reason md S) = core_of S"
  by (induction subs arbitrary: S) simp_all

lemma core_of_transition:
  "core_of (snd (cx_transition env a new reason S)) =
     core_of (if is_valid_transition (so_state (cx_objs S a)) new then set_obj_state a new S else S)"
  by (simp add: cx_transition_def cm_transition_to_def Let_def)

lemma cx_transition_accepted [simp]:
  "fst (cx_transition env a new reason S) = is_valid_transition (so_state (cx_objs S a)) new"
  by (simp add: cx_transition_def cm_transition_to_def Let_def)

lemma cx_transition_objs:
  "cx_objs (snd (cx_transition env a new reason S)) =
     (if is_valid_transition (so_state (cx_objs S a)) new
      then (cx_objs S)(a := (cx_objs S a)\<lparr>so_state := new\<rparr>) else cx_objs S)"
  using core_of_transition [of env a new reason S]
  by (auto simp: core_of_def set_obj_state_def split: if_splits)

lemma cx_transition_frame [simp]:
  "cx_conns (snd (cx_transition env a new reason S)) = cx_conns S"
  "cx_time (snd (cx_transition env a new reason S)) = cx_time S"
  "cx_mono (snd (cx_transition env a new reason S)) = cx_mono S"
  using core_of_transition [of env a new reason S]
  by (auto simp: core_of_def set_obj_state_def split: if_splits)

abbreviation obj_state :: "'x conn_system \<Rightarrow> nat \<Rightarrow> conn_state" where
  "obj_state S a \<equiv> so_state (cx_objs S a)"

lemma cx_transition_obj_state:
  "obj_state (snd (cx_transition env a new reason S)) b =
     (if b = a \<and> is_valid_transition (obj_state S a) new then new else obj_state S b)"
  by (simp add: cx_transition_objs)

section \<open>One cycle, tracker by tracker\<close>

lemma wd_check_one_frame [simp]:
  "tr_mgr (fst (wd_check_one env w now r t S)) = tr_mgr t"
  "tr_last_ping (fst (wd_check_one env w now r t S)) = tr_last_ping t"
  "cx_time (snd (wd_check_one env w now r t S)) = cx_time S"
  "cx_conns (snd (wd_check_one env w now r t S)) = cx_conns S"
  by (simp_all add: wd_check_one_def Let_def)

lemma wd_check_one_other:
  "b \<noteq> tr_mgr t \<Longrightarrow> obj_state (snd (wd_check_one env w now r t S)) b = obj_state S b"
  by (simp add: wd_check_one_def Let_def cx_transition_obj_state)

text \<open>The configuration of a watchdog never changes while it runs.\<close>

definition same_config :: "watchdog \<Rightarrow> watchdog \<Rightarrow> bool" where
  "same_config w v \<longleftrightarrow> wd_degraded w = wd_degraded v \<and> wd_failed w = wd_failed v \<and>
     wd_preemptive w = wd_preemptive v \<and> wd_callbacks w = wd_callbacks v"

lemma same_config_refl [simp]: "same_config w w"
  by (simp add: same_config_def)

lemma wd_check_one_config: "same_config w v \<Longrightarrow> wd_check_one env w = wd_check_one env v"
  by (intro ext) (simp add: wd_check_one_def same_config_def Let_def)

lemma wd_check_one_trackers [simp]:
  "wd_check_one env (w\<lparr>wd_trackers := ts\<rparr>) = wd_check_one env w"
  by (rule wd_check_one_config) (simp add: same_config_def)

lemma wd_check_loop_frame:
  "same_config (fst (wd_check_loop env now ts (w, S))) w \<and>
   cx_time (snd (wd_check_loop env now ts (w, S))) = cx_time S"
proof (induction ts arbitrary: w S)
  case (Cons rt ts)
  obtain r t where rt: "rt = (r, t)" by (cases rt)
  obtain t' S' where one: "wd_check_one env w now r t S = (t', S')" by fastforce
  have "cx_time S' = cx_time S" using wd_check_one_frame(3) [of env w now r t S] one by simp
  with Cons.IH [of "w\<lparr>wd_trackers := AList.update r t' (wd_trackers w)\<rparr>" S'] show ?case
    by (simp add: rt one same_config_def)
qed simp

text \<open>
  The part of the state that concerns one role: its tracker and the state of its object. When the
  trackers watch distinct objects, a cycle acts on each part by itself.
\<close>

definition wd_ok :: "watchdog \<Rightarrow> bool" where
  "wd_ok w \<longleftrightarrow> distinct (map fst (wd_trackers w)) \<and> distinct (map (\<lambda>rt. tr_mgr (snd rt)) (wd_trackers w))"

fun silence_step :: "watchdog \<Rightarrow> flt \<Rightarrow> role_tracker \<times> conn_state \<Rightarrow> role_tracker \<times> conn_state" where
  "silence_step w now (t, s) =
     (let silence = now - tr_last_ping t in
      if silence \<ge> wd_failed w \<and> \<not> tr_failed t then
        (t\<lparr>tr_failed := True, tr_degraded := True, tr_preemptive := True\<rparr>,
         if is_valid_transition s FAILED then FAILED else s)
      else if silence \<ge> wd_degraded w \<and> \<not> tr_degraded t then
        (t\<lparr>tr_degraded := True\<rparr>, if is_valid_transition s DEGRADED then DEGRADED else s)
      else if silence \<ge> wd_preemptive w \<and> \<not> tr_preemptive t then (t\<lparr>tr_preemptive := True\<rparr>, s)
      else (t, s))"

lemma silence_step_trackers [simp]: "silence_step (w\<lparr>wd_trackers := ts\<rparr>) = silence_step w"
  by (rule ext) (auto simp: Let_def)

declare silence_step.simps [simp del]

lemma silence_step_one:
  "silence_step w now (t, obj_state S (tr_mgr t)) =
     (fst (wd_check_one env w now r t S), obj_state (snd (wd_check_one env w now r t S)) (tr_mgr t))"
  by (simp add: silence_step.simps wd_check_one_def Let_def cx_transition_obj_state)

text \<open>The roles and the objects a cycle does not reach are left alone.\<close>

lemma wd_check_loop_other_role:
  "r \<notin> fst ` set ts \<Longrightarrow>
   map_of (wd_trackers (fst (wd_check_loop env now ts (w, S)))) r = map_of (wd_trackers w) r"
proof (induction ts arbitrary: w S)
  case (Cons rt ts)
  obtain q t where rt: "rt = (q, t)" by (cases rt)
  obtain t' S' where one: "wd_check_one env w now q t S = (t', S')" by fastforce
  from Cons.IH [of "w\<lparr>wd_trackers := AList.update q t' (wd_trackers w)\<rparr>" S'] Cons.prems show ?case
    by (simp add: rt one dict_simps)
qed simp

lemma wd_check_loop_other_obj:
  "b \<notin> (\<lambda>rt. tr_mgr (snd rt)) ` set ts \<Longrightarrow>
   obj_state (snd (wd_check_loop env now ts (w, S))) b = obj_state S b"
proof (induction ts arbitrary: w S)
  case (Cons rt ts)
  obtain q t where rt: "rt = (q, t)" by (cases rt)
  obtain t' S' where one: "wd_check_one env w now q t S = (t', S')" by fastforce
  have "obj_state S' b = obj_state S b"
    using wd_check_one_other [of b t env w now q S] Cons.prems by (simp add: rt one)
  with Cons.IH [of "w\<lparr>wd_trackers := AList.update q t' (wd_trackers w)\<rparr>" S'] Cons.prems show ?case
    by (simp add: rt one)
qed simp

lemma wd_check_loop_role:
  assumes "distinct (map fst ts)" and "distinct (map (\<lambda>rt. tr_mgr (snd rt)) ts)" and "(r, t) \<in> set ts"
  shows "(the (map_of (wd_trackers (fst (wd_check_loop env now ts (w, S)))) r),
          obj_state (snd (wd_check_loop env now ts (w, S))) (tr_mgr t)) =
         silence_step w now (t, obj_state S (tr_mgr t)) \<and>
         map_of (wd_trackers (fst (wd_check_loop env now ts (w, S)))) r \<noteq> None"
  using assms
proof (induction ts arbitrary: w S)
  case (Cons qu ts)
  obtain q u where qu: "qu = (q, u)" by (cases qu)
  obtain u' S' where one: "wd_check_one env w now q u S = (u', S')" by fastforce
  let ?w = "w\<lparr>wd_trackers := AList.update q u' (wd_trackers w)\<rparr>"
  have step: "wd_check_loop env now (qu # ts) (w, S) = wd_check_loop env now ts (?w, S')"
    by (simp add: qu one)
  show ?case
  proof (cases "(r, t) = (q, u)")
    case True
    with Cons.prems have fresh: "q \<notin> fst ` set ts" "tr_mgr u \<notin> (\<lambda>rt. tr_mgr (snd rt)) ` set ts"
      by (auto simp: qu)
    have "silence_step w now (u, obj_state S (tr_mgr u)) = (u', obj_state S' (tr_mgr u))"
      using silence_step_one [of w now u S env q] by (simp add: one)
    with True fresh show ?thesis
      unfolding step by (simp add: wd_check_loop_other_role wd_check_loop_other_obj dict_simps)
  next
    case False
    with Cons.prems have ts: "(r, t) \<in> set ts" "distinct (map fst ts)" "distinct (map (\<lambda>rt. tr_mgr (snd rt)) ts)"
      by (auto simp: qu)
    then have "tr_mgr t \<noteq> tr_mgr u" using Cons.prems(2) by (force simp: qu)
    then have "obj_state S' (tr_mgr t) = obj_state S (tr_mgr t)"
      using wd_check_one_other [of "tr_mgr t" u env w now q S] by (simp add: one)
    with Cons.IH [OF ts(2,3,1), of ?w S'] show ?thesis unfolding step by simp
  qed
qed simp

lemma update_same_keys: "map_of m k = Some v \<Longrightarrow> map fst (AList.update k w m) = map fst m"
  by (induction m) (auto split: if_splits)

lemma update_same_proj:
  "map_of m k = Some v \<Longrightarrow> f w = f v \<Longrightarrow> map (\<lambda>kv. f (snd kv)) (AList.update k w m) = map (\<lambda>kv. f (snd kv)) m"
  by (induction m) (auto split: if_splits)

lemma wd_check_loop_trackers:
  assumes "\<And>r t. (r, t) \<in> set ts \<Longrightarrow> \<exists>v. map_of (wd_trackers w) r = Some v \<and> tr_mgr v = tr_mgr t"
    and "distinct (map fst ts)"
  shows "map fst (wd_trackers (fst (wd_check_loop env now ts (w, S)))) = map fst (wd_trackers w) \<and>
    map (\<lambda>rt. tr_mgr (snd rt)) (wd_trackers (fst (wd_check_loop env now ts (w, S)))) =
      map (\<lambda>rt. tr_mgr (snd rt)) (wd_trackers w)"
  using assms
proof (induction ts arbitrary: w S)
  case (Cons qu ts)
  obtain q u where qu: "qu = (q, u)" by (cases qu)
  obtain u' S' where one: "wd_check_one env w now q u S = (u', S')" by fastforce
  let ?w = "w\<lparr>wd_trackers := AList.update q u' (wd_trackers w)\<rparr>"
  have mgr: "tr_mgr u' = tr_mgr u" using wd_check_one_frame(1) [of env w now q u S] by (simp add: one)
  obtain v where v: "map_of (wd_trackers w) q = Some v" "tr_mgr v = tr_mgr u"
    using Cons.prems(1) [of q u] by (auto simp: qu)
  have "map fst (wd_trackers (fst (wd_check_loop env now ts (?w, S')))) = map fst (wd_trackers ?w) \<and>
    map (\<lambda>rt. tr_mgr (snd rt)) (wd_trackers (fst (wd_check_loop env now ts (?w, S')))) =
      map (\<lambda>rt. tr_mgr (snd rt)) (wd_trackers ?w)"
  proof (rule Cons.IH)
    fix r t assume rt: "(r, t) \<in> set ts"
    then have "r \<noteq> q" using Cons.prems(2) by (force simp: qu)
    with Cons.prems(1) [of r t] rt show "\<exists>v. map_of (wd_trackers ?w) r = Some v \<and> tr_mgr v = tr_mgr t"
      by (simp add: dict_simps)
  qed (use Cons.prems(2) in simp)
  then show ?case
    using update_same_keys [OF v(1), of u'] update_same_proj [OF v(1), of tr_mgr u'] v(2) mgr
    by (simp add: qu one)
qed simp

lemma wd_ok_check_all: "wd_ok w \<Longrightarrow> wd_ok (fst (wd_check_all env (w, S)))"
proof -
  assume ok: "wd_ok w"
  have "\<exists>v. map_of (wd_trackers w) r = Some v \<and> tr_mgr v = tr_mgr t" if "(r, t) \<in> set (wd_trackers w)" for r t
    using ok that by (auto simp: wd_ok_def)
  from wd_check_loop_trackers [of "wd_trackers w" w env "cx_time S" S, OF this] ok show ?thesis
    by (simp add: wd_ok_def wd_check_all_def)
qed

text \<open>A cycle, for one role.\<close>

lemma wd_check_all_role:
  fixes S :: "'x conn_system" and env :: "'x conn_env"
  assumes "wd_ok w" and "map_of (wd_trackers w) r = Some t"
  defines "res \<equiv> wd_check_all env (w, S)"
  shows "map_of (wd_trackers (fst res)) r = Some (fst (silence_step w (cx_time S) (t, obj_state S (tr_mgr t))))"
    and "obj_state (snd res) (tr_mgr t) = snd (silence_step w (cx_time S) (t, obj_state S (tr_mgr t)))"
    and "same_config (fst res) w" and "cx_time (snd res) = cx_time S" and "wd_ok (fst res)"
proof -
  have "(r, t) \<in> set (wd_trackers w)" using assms(2) by (rule map_of_SomeD)
  from wd_check_loop_role [OF _ _ this, of env "cx_time S" w S] assms(1)
  have a: "(the (map_of (wd_trackers (fst res)) r), obj_state (snd res) (tr_mgr t)) =
      silence_step w (cx_time S) (t, obj_state S (tr_mgr t))" "map_of (wd_trackers (fst res)) r \<noteq> None"
    by (simp_all add: wd_ok_def res_def wd_check_all_def)
  then show "map_of (wd_trackers (fst res)) r = Some (fst (silence_step w (cx_time S) (t, obj_state S (tr_mgr t))))"
    and "obj_state (snd res) (tr_mgr t) = snd (silence_step w (cx_time S) (t, obj_state S (tr_mgr t)))"
    by (auto dest: sym)
  show "same_config (fst res) w" "cx_time (snd res) = cx_time S"
    using wd_check_loop_frame [of env "cx_time S" "wd_trackers w" w S] by (simp_all add: res_def wd_check_all_def)
  show "wd_ok (fst res)" unfolding res_def by (rule wd_ok_check_all [OF assms(1)])
qed

end
