(* ===== verification/ConnectionSafety.thy ===== *)
theory ConnectionSafety
  imports Watchdog
begin

text \<open>
  What the connection layer guarantees: detection of silent connections by the watchdog, the two
  trading gates, the bounds of the metrics, the escalation of authentication failures, and the
  ends of the retry loops.
\<close>

section \<open>Runs of the watchdog\<close>

text \<open>
  What happens around a watchdog: the clock advances, a heartbeat arrives, the thread polls, or
  some other part of the program asks an object for a transition.
\<close>

datatype wd_event = Advance flt | Beat conn_role | Poll | Request nat conn_state ptext

fun wd_step :: "'x conn_env \<Rightarrow> watchdog \<times> 'x conn_system \<Rightarrow> wd_event \<Rightarrow> watchdog \<times> 'x conn_system" where
  "wd_step env (w, S) (Advance d) = (w, S\<lparr>cx_time := cx_time S + d\<rparr>)"
| "wd_step env (w, S) (Beat r) = wd_record_ping env r (w, S)"
| "wd_step env (w, S) Poll = wd_check_all env (w, S)"
| "wd_step env (w, S) (Request a new reason) = (w, snd (cx_transition env a new reason S))"

text \<open>An event that is neither a heartbeat of the role nor a request on its object.\<close>

fun silent_for :: "conn_role \<Rightarrow> nat \<Rightarrow> wd_event \<Rightarrow> bool" where
  "silent_for r a (Advance d) = True"
| "silent_for r a (Beat q) = (q \<noteq> r)"
| "silent_for r a Poll = True"
| "silent_for r a (Request b new reason) = (b \<noteq> a)"

lemma same_config_trans: "same_config u v \<Longrightarrow> same_config v w \<Longrightarrow> same_config u w"
  by (simp add: same_config_def)

lemma wd_record_ping_ok: "wd_ok w \<Longrightarrow> wd_ok (fst (wd_record_ping env r (w, S)))"
  by (auto simp: wd_record_ping_def wd_ok_def Let_def update_same_keys
      update_same_proj [where f = tr_mgr] split: option.splits)

lemma wd_record_ping_config: "same_config (fst (wd_record_ping env r (w, S))) w"
  by (simp add: wd_record_ping_def same_config_def Let_def split: option.splits)

lemma wd_step_ok: "wd_ok w \<Longrightarrow> wd_ok (fst (wd_step env (w, S) e)) \<and> same_config (fst (wd_step env (w, S) e)) w"
proof (cases e)
  case Poll
  assume "wd_ok w"
  with wd_check_loop_frame [of env "cx_time S" "wd_trackers w" w S] show ?thesis
    by (simp add: Poll wd_ok_check_all) (simp add: wd_check_all_def)
qed (simp_all add: wd_record_ping_ok wd_record_ping_config)

lemma wd_ok_distinct_mgr:
  assumes "wd_ok w" "map_of (wd_trackers w) r = Some t" "map_of (wd_trackers w) q = Some u" "q \<noteq> r"
  shows "tr_mgr u \<noteq> tr_mgr t"
proof
  assume eq: "tr_mgr u = tr_mgr t"
  have "(r, t) \<in> set (wd_trackers w)" "(q, u) \<in> set (wd_trackers w)"
    using assms(2,3) by (auto dest: map_of_SomeD)
  moreover have "inj_on (\<lambda>rt. tr_mgr (snd rt)) (set (wd_trackers w))"
    using assms(1) by (simp add: wd_ok_def distinct_map)
  ultimately have "(q, u) = (r, t)" using eq by (metis inj_onD snd_conv)
  with assms(4) show False by simp
qed

text \<open>The effect of an event on one role's part, while the role is silent.\<close>

lemma wd_step_silent:
  fixes S :: "'x conn_system" and env :: "'x conn_env"
  assumes "wd_ok w" and "map_of (wd_trackers w) r = Some t" and "silent_for r (tr_mgr t) e"
  defines "res \<equiv> wd_step env (w, S) e"
  defines "ts \<equiv> (if e = Poll then silence_step w (cx_time S) (t, obj_state S (tr_mgr t)) else (t, obj_state S (tr_mgr t)))"
  shows "map_of (wd_trackers (fst res)) r = Some (fst ts) \<and> obj_state (snd res) (tr_mgr t) = snd ts"
proof (cases e)
  case (Beat q)
  with assms(3) have "q \<noteq> r" by simp
  then have other: "tr_mgr t \<noteq> tr_mgr u" if "map_of (wd_trackers w) q = Some u" for u
    using wd_ok_distinct_mgr [OF assms(1,2) that] by auto
  show ?thesis
  proof (cases "map_of (wd_trackers w) q")
    case (Some u)
    with other \<open>q \<noteq> r\<close> show ?thesis
      by (simp add: res_def ts_def Beat assms(2) wd_record_ping_def Let_def dict_simps cx_transition_obj_state)
  qed (simp add: res_def ts_def Beat assms(2) wd_record_ping_def)
next
  case Poll
  then show ?thesis using wd_check_all_role [OF assms(1,2), of env S] by (simp add: res_def ts_def)
qed (use assms in \<open>simp_all add: res_def ts_def cx_transition_obj_state\<close>)

section \<open>Silence is detected\<close>

lemma into_FAILED:
  "is_valid_transition s FAILED \<longleftrightarrow> s \<notin> {DISCONNECTED, CONNECTED, SUSPENDED, SUBSCRIBING}"
  by (cases s) (simp_all add: is_valid_transition_def valid_transitions_def)

text \<open>
  What holds of a role during its silence: it is still tracked, with the same last heartbeat, and
  its object is operational until the failure has been reported, and failed from then on.
\<close>

definition silent_inv :: "watchdog \<Rightarrow> conn_role \<Rightarrow> nat \<Rightarrow> flt \<Rightarrow> watchdog \<times> 'x conn_system \<Rightarrow> bool" where
  "silent_inv w0 r a ping = (\<lambda>(w, S). wd_ok w \<and> same_config w w0 \<and>
     (case map_of (wd_trackers w) r of None \<Rightarrow> False
      | Some t \<Rightarrow> tr_mgr t = a \<and> tr_last_ping t = ping \<and>
          (if tr_failed t then obj_state S a = FAILED
           else obj_state S a = AUTHENTICATED \<or> obj_state S a = DEGRADED)))"

lemma silent_inv_D:
  assumes "silent_inv w0 r a ping (w, S)"
  obtains t where "map_of (wd_trackers w) r = Some t" "tr_mgr t = a" "tr_last_ping t = ping"
    "wd_ok w" "same_config w w0" "tr_failed t \<longrightarrow> obj_state S a = FAILED"
    "\<not> tr_failed t \<longrightarrow> obj_state S a = AUTHENTICATED \<or> obj_state S a = DEGRADED"
  using assms by (auto simp: silent_inv_def split: option.splits if_splits)

lemma silence_step_keeps:
  assumes "silence_step w now (t, s) = (t', s')"
    and "tr_failed t \<longrightarrow> s = FAILED" and "\<not> tr_failed t \<longrightarrow> s = AUTHENTICATED \<or> s = DEGRADED"
  shows "tr_mgr t' = tr_mgr t" "tr_last_ping t' = tr_last_ping t" "tr_failed t' \<longrightarrow> s' = FAILED"
    and "\<not> tr_failed t' \<longrightarrow> s' = AUTHENTICATED \<or> s' = DEGRADED"
    and "now - tr_last_ping t \<ge> wd_failed w \<longrightarrow> tr_failed t'"
  using assms by (auto simp: silence_step.simps Let_def into_FAILED into_DEGRADED split: if_splits)

lemma silent_inv_step:
  assumes "silent_inv w0 r a ping (w, S)" and "silent_for r a e"
  shows "silent_inv w0 r a ping (wd_step env (w, S) e)"
proof -
  from assms(1) obtain t where t: "map_of (wd_trackers w) r = Some t" "tr_mgr t = a" "tr_last_ping t = ping"
    "wd_ok w" "same_config w w0" "tr_failed t \<longrightarrow> obj_state S a = FAILED"
    "\<not> tr_failed t \<longrightarrow> obj_state S a = AUTHENTICATED \<or> obj_state S a = DEGRADED"
    by (rule silent_inv_D)
  obtain w' S' where res: "wd_step env (w, S) e = (w', S')" by (metis surj_pair)
  obtain t' s' where part: "(if e = Poll then silence_step w (cx_time S) (t, obj_state S a) else (t, obj_state S a)) = (t', s')"
    by fastforce
  have "map_of (wd_trackers w') r = Some t' \<and> obj_state S' a = s'"
    using wd_step_silent [OF t(4,1), of e env S] assms(2) t(2) part by (auto simp: res split: if_splits)
  moreover have "tr_mgr t' = a \<and> tr_last_ping t' = ping \<and> (tr_failed t' \<longrightarrow> s' = FAILED) \<and>
      (\<not> tr_failed t' \<longrightarrow> s' = AUTHENTICATED \<or> s' = DEGRADED)"
  proof (cases "e = Poll")
    case True
    then have "silence_step w (cx_time S) (t, obj_state S a) = (t', s')" using part by simp
    from silence_step_keeps(1-4) [OF this t(6,7)] t(2,3) show ?thesis by simp
  next
    case False
    then have "t' = t" "s' = obj_state S a" using part by simp_all
    with t(2,3,6,7) show ?thesis by simp
  qed
  moreover have "wd_ok w'" "same_config w' w0"
    using wd_step_ok [OF t(4), of env S e] same_config_trans [OF _ t(5)] by (simp_all add: res)
  ultimately show ?thesis by (simp add: silent_inv_def res)
qed

interpretation silence: invariant_machine "wd_step env" "silent_for r a" "silent_inv w0 r a ping"
  for env w0 r a ping
  by unfold_locales (metis silent_inv_step surj_pair)


definition demo_env :: "unit conn_env" where
  "demo_env = \<lparr>cxe_other = (\<lambda>i old new reason md x. Ret () x),
     cxe_health = (\<lambda>i h r old new reason x. Ret () x), cxe_preemptive = (\<lambda>i r s x. Ret () x)\<rparr>"

definition demo_obj :: "conn_state \<Rightarrow> sm_obj" where
  "demo_obj s = \<lparr>so_name = ''spot'', so_state = s, so_subs = []\<rparr>"

definition demo_system :: "'x \<Rightarrow> 'x conn_system" where
  "demo_system x = cx_init (\<lambda>a. demo_obj AUTHENTICATED) 0 100 x"

definition demo_watchdog :: watchdog where
  "demo_watchdog = wd_register TRADE_EXECUTION 1 100 (wd_register MARKET_DATA 0 100 (wd_on_preemptive 7 wd_default))"

lemmas demo_wd_defs = demo_watchdog_def demo_system_def demo_obj_def wd_register_def wd_on_preemptive_def
  wd_default_def wd_init_def tracker_new_def cx_init_def DEGRADED_THRESHOLD_S_def FAILED_THRESHOLD_S_def
  PRE_EMPTIVE_THRESHOLD_S_def


section \<open>Pre-emptive alerts\<close>

text \<open>To count alerts, the outside world is the list of the calls of the pre-emptive callbacks.\<close>

type_synonym alert = "nat \<times> conn_role \<times> flt"

definition alert_env :: "alert list conn_env" where
  "alert_env = \<lparr>cxe_other = (\<lambda>i old new reason md x. Ret () x),
     cxe_health = (\<lambda>i h r old new reason x. Ret () x),
     cxe_preemptive = (\<lambda>i r s x. Ret () (x @ [(i, r, s)]))\<rparr>"

definition role_alerts :: "conn_role \<Rightarrow> alert list \<Rightarrow> alert list" where
  "role_alerts r x = filter (\<lambda>(i, q, s). q = r) x"

definition alerts_at :: "watchdog \<Rightarrow> conn_role \<Rightarrow> flt \<Rightarrow> alert list" where
  "alerts_at w r silence = map (\<lambda>i. (i, r, silence)) (wd_callbacks w)"

lemma role_alerts_append [simp]: "role_alerts r (x @ y) = role_alerts r x @ role_alerts r y"
  by (simp add: role_alerts_def)

lemma role_alerts_at [simp]: "role_alerts r (alerts_at w q s) = (if q = r then alerts_at w q s else [])"
  by (auto simp: role_alerts_def alerts_at_def)

lemma role_alerts_Nil [simp]: "role_alerts r [] = []"
  by (simp add: role_alerts_def)

lemma alert_env_fire [simp]:
  "wd_fire_preemptive alert_env is r s x = x @ map (\<lambda>i. (i, r, s)) is"
  by (induction "is" arbitrary: x) (simp_all add: alert_env_def)

lemma alert_env_health [simp]: "cx_fire_health alert_env is h r old new reason x = x"
  by (induction "is") (simp_all add: alert_env_def)

lemma alert_env_sub [simp]: "cx_ext (state_of (sub_callback alert_env b old new reason md S)) = cx_ext S"
proof (cases b)
  case (ManagerSub r)
  then show ?thesis by (simp add: cx_on_state_change_def Let_def split: option.splits)
next
  case (OtherSub i)
  then show ?thesis by (simp add: alert_env_def)
qed

lemma alert_env_cm_fire [simp]:
  "cx_ext (cm_fire (map (sub_callback alert_env) subs) old new reason md S) = cx_ext S"
  by (induction subs arbitrary: S) simp_all

lemma alert_env_transition [simp]: "cx_ext (snd (cx_transition alert_env a new reason S)) = cx_ext S"
  by (simp add: cx_transition_def cm_transition_to_def set_obj_state_def Let_def)

definition alerts_of :: "watchdog \<Rightarrow> flt \<Rightarrow> conn_role \<Rightarrow> role_tracker \<Rightarrow> alert list" where
  "alerts_of w now r t =
     (let silence = now - tr_last_ping t in
      if \<not> (silence \<ge> wd_failed w \<and> \<not> tr_failed t) \<and> \<not> (silence \<ge> wd_degraded w \<and> \<not> tr_degraded t) \<and>
         silence \<ge> wd_preemptive w \<and> \<not> tr_preemptive t
      then alerts_at w r silence else [])"

lemma alerts_of_trackers [simp]: "alerts_of (w\<lparr>wd_trackers := ts\<rparr>) = alerts_of w"
  by (intro ext) (auto simp: alerts_of_def alerts_at_def Let_def)

lemma wd_check_one_alerts:
  "cx_ext (snd (wd_check_one alert_env w now r t S)) = cx_ext S @ alerts_of w now r t"
  by (auto simp: wd_check_one_def alerts_of_def alerts_at_def Let_def)

lemma role_alerts_of [simp]: "role_alerts r (alerts_of w now q t) = (if q = r then alerts_of w now q t else [])"
  by (auto simp: alerts_of_def Let_def)

lemma wd_check_loop_alerts:
  "distinct (map fst ts) \<Longrightarrow>
   role_alerts r (cx_ext (snd (wd_check_loop alert_env now ts (w, S)))) =
     role_alerts r (cx_ext S) @ (case map_of ts r of Some t \<Rightarrow> alerts_of w now r t | None \<Rightarrow> [])"
proof (induction ts arbitrary: w S)
  case (Cons qu ts)
  obtain q u where qu: "qu = (q, u)" by (cases qu)
  obtain u' S' where one: "wd_check_one alert_env w now q u S = (u', S')" by fastforce
  have "cx_ext S' = cx_ext S @ alerts_of w now q u"
    using wd_check_one_alerts [of w now q u S] by (simp add: one)
  moreover have "map_of ts q = None" using Cons.prems by (simp add: qu map_of_eq_None_iff)
  ultimately show ?case using Cons by (simp add: qu one cong: option.case_cong)
qed simp

text \<open>One event, while the role is silent.\<close>

lemma wd_step_alerts:
  assumes "wd_ok w" and "map_of (wd_trackers w) r = Some t"
  shows "role_alerts r (cx_ext (snd (wd_step alert_env (w, S) e))) =
    role_alerts r (cx_ext S) @ (if e = Poll then alerts_of w (cx_time S) r t else [])"
proof (cases e)
  case (Beat q)
  then show ?thesis by (simp add: wd_record_ping_def Let_def split: option.splits)
next
  case Poll
  then show ?thesis
    using wd_check_loop_alerts [of "wd_trackers w" r "cx_time S" w S] assms
    by (simp add: wd_check_all_def wd_ok_def)
qed simp_all

text \<open>
  During a silence: nothing has been called for the role while its flag is down, and afterwards
  nothing or one round of all callbacks, at or past the threshold.
\<close>

definition alert_inv :: "watchdog \<Rightarrow> conn_role \<Rightarrow> nat \<Rightarrow> alert list \<Rightarrow> watchdog \<times> alert list conn_system \<Rightarrow> bool" where
  "alert_inv w0 r a old = (\<lambda>(w, S). wd_ok w \<and> same_config w w0 \<and>
     (\<exists>t. map_of (wd_trackers w) r = Some t \<and> tr_mgr t = a \<and>
       (role_alerts r (cx_ext S) = old \<or>
        tr_preemptive t \<and> (\<exists>s\<ge>wd_preemptive w0. role_alerts r (cx_ext S) = old @ alerts_at w0 r s))))"

lemma silence_step_alert:
  assumes "silence_step w now (t, s) = (t', s')"
  shows "tr_mgr t' = tr_mgr t"
    and "tr_preemptive t \<longrightarrow> tr_preemptive t' \<and> alerts_of w now r t = []"
    and "alerts_of w now r t = [] \<or>
      tr_preemptive t' \<and> (\<exists>s\<ge>wd_preemptive w. alerts_of w now r t = alerts_at w r s)"
  using assms by (auto simp: silence_step.simps alerts_of_def Let_def split: if_splits)

lemma alert_inv_step:
  assumes "alert_inv w0 r a old (w, S)" and "silent_for r a e"
  shows "alert_inv w0 r a old (wd_step alert_env (w, S) e)"
proof -
  from assms(1) obtain t where t: "map_of (wd_trackers w) r = Some t" "tr_mgr t = a" "wd_ok w" "same_config w w0"
    "role_alerts r (cx_ext S) = old \<or>
     tr_preemptive t \<and> (\<exists>s\<ge>wd_preemptive w0. role_alerts r (cx_ext S) = old @ alerts_at w0 r s)"
    by (auto simp: alert_inv_def)
  obtain w' S' where res: "wd_step alert_env (w, S) e = (w', S')" by (metis surj_pair)
  have ok: "wd_ok w'" "same_config w' w0"
    using wd_step_ok [OF t(3), of alert_env S e] same_config_trans [OF _ t(4)] by (simp_all add: res)
  have cfg: "wd_preemptive w = wd_preemptive w0" "alerts_at w = alerts_at w0"
    using t(4) by (auto simp: same_config_def alerts_at_def intro!: ext)
  have alerts: "role_alerts r (cx_ext S') =
      role_alerts r (cx_ext S) @ (if e = Poll then alerts_of w (cx_time S) r t else [])"
    using wd_step_alerts [OF t(3,1), of S e] by (simp add: res)
  have part: "map_of (wd_trackers w') r = Some (fst (if e = Poll then silence_step w (cx_time S) (t, obj_state S a) else (t, obj_state S a)))"
    using wd_step_silent [OF t(3,1), of e alert_env S] assms(2) t(2) by (simp add: res)
  show ?thesis
    unfolding res
  proof (cases "e = Poll")
    case True
    obtain t' s' where step: "silence_step w (cx_time S) (t, obj_state S a) = (t', s')" by fastforce
    from silence_step_alert(1) [OF step] silence_step_alert(2,3) [OF step, of r] t(2,5) alerts part
    show "alert_inv w0 r a old (w', S')"
      by (auto simp: True step alert_inv_def ok cfg)
  next
    case False
    with t(2,5) alerts part show "alert_inv w0 r a old (w', S')" by (simp add: alert_inv_def ok)
  qed
qed

interpretation alerting: invariant_machine "wd_step alert_env" "silent_for r a" "alert_inv w0 r a old"
  for w0 r a old
  by unfold_locales (metis alert_inv_step surj_pair)

text \<open>
  Pre-emptive callbacks fire at most once per silence: however often the watchdog polls and
  whatever else happens while no heartbeat of the role arrives, the calls for the role are those
  from before and at most one round, in which every registered callback is called exactly once
  with the same silence, which has reached the threshold.
\<close>

theorem watchdog_alerts_once:
  fixes S :: "alert list conn_system"
  assumes "wd_ok w" and "map_of (wd_trackers w) r = Some t"
    and "list_all (silent_for r (tr_mgr t)) es"
  defines "calls \<equiv> \<lambda>es. role_alerts r (cx_ext (snd (foldl (wd_step alert_env) (w, S) es)))"
  shows "\<exists>added. calls es = calls [] @ added \<and>
    (added = [] \<or> (\<exists>s. wd_preemptive w \<le> s \<and> added = map (\<lambda>i. (i, r, s)) (wd_callbacks w)))"
proof -
  have "alert_inv w r (tr_mgr t) (role_alerts r (cx_ext S)) (w, S)"
    using assms(1,2) by (simp add: alert_inv_def)
  from alerting.run_inv [OF this assms(3)] show ?thesis
    by (auto simp: alert_inv_def calls_def alerts_at_def split: prod.splits)
qed

theorem watchdog_alerts_once_witness:
  "\<exists>added. role_alerts TRADE_EXECUTION (cx_ext (snd (foldl (wd_step alert_env) (demo_watchdog, demo_system [])
       [Advance 13, Poll, Poll, Advance 1, Poll]))) = role_alerts TRADE_EXECUTION [] @ added \<and>
    (added = [] \<or> (\<exists>s. 12 \<le> s \<and> added = map (\<lambda>i. (i, TRADE_EXECUTION, s)) [7]))"
proof -
  have f: "wd_ok demo_watchdog" "map_of (wd_trackers demo_watchdog) TRADE_EXECUTION = Some (tracker_new 1 100)"
    "wd_preemptive demo_watchdog = 12" "wd_callbacks demo_watchdog = [7]" "cx_ext (demo_system []) = []"
    by (simp_all add: demo_wd_defs wd_ok_def)
  show ?thesis using watchdog_alerts_once [of demo_watchdog TRADE_EXECUTION "tracker_new 1 100"
      "[Advance 13, Poll, Poll, Advance 1, Poll]" "demo_system []"]
    by (simp add: f del: wd_step.simps foldl_Cons list.map)
qed

text \<open>The part of a role and the alerts so far, step by step.\<close>

definition part_is ::
  "watchdog \<Rightarrow> conn_role \<Rightarrow> role_tracker \<Rightarrow> conn_state \<Rightarrow> flt \<Rightarrow> alert list
     \<Rightarrow> watchdog \<times> alert list conn_system \<Rightarrow> bool" where
  "part_is w0 r t s now al = (\<lambda>(w, S). wd_ok w \<and> same_config w w0 \<and>
     map_of (wd_trackers w) r = Some t \<and> obj_state S (tr_mgr t) = s \<and> cx_time S = now \<and>
     role_alerts r (cx_ext S) = al)"

lemma part_Advance:
  "part_is w0 r t s now al wS \<Longrightarrow> part_is w0 r t s (now + d) al (wd_step alert_env wS (Advance d))"
  by (cases wS) (simp add: part_is_def)

lemma part_Poll:
  assumes "part_is w0 r t s now al wS" and "silence_step w0 now (t, s) = (t', s')"
  shows "part_is w0 r t' s' now (al @ alerts_of w0 now r t) (wd_step alert_env wS Poll)"
proof -
  obtain w S where wS: "wS = (w, S)" by (cases wS)
  with assms(1) have w: "wd_ok w" "same_config w w0" "map_of (wd_trackers w) r = Some t"
    "obj_state S (tr_mgr t) = s" "cx_time S = now" "role_alerts r (cx_ext S) = al"
    by (simp_all add: part_is_def)
  have cfg: "silence_step w = silence_step w0" "alerts_of w = alerts_of w0"
    using w(2) by (auto simp: same_config_def alerts_of_def alerts_at_def silence_step.simps Let_def intro!: ext)
  have "tr_mgr t' = tr_mgr t" using silence_step_alert(1) [OF assms(2)] .
  moreover have "role_alerts r (cx_ext (snd (wd_step alert_env (w, S) Poll))) = al @ alerts_of w0 now r t"
    using wd_step_alerts [OF w(1,3), of S Poll] w(5,6) by (simp add: cfg)
  moreover have "same_config (fst (wd_check_all alert_env (w, S))) w0"
    using wd_check_all_role(3) [OF w(1,3)] w(2) by (rule same_config_trans)
  ultimately show ?thesis
    using wd_check_all_role(1,2,4,5) [OF w(1,3), of alert_env S] assms(2) w(4,5)
    by (auto simp: wS part_is_def cfg split: prod.splits)
qed

text \<open>
  The pre-emptive alert can come after the damage: with the watchdog's own thresholds (12, 15
  and 45 seconds) and its polling interval of 5 seconds, an authenticated connection that was
  silent for at least 10 and less than 12 seconds at a poll is DEGRADED at the next poll
  without any callback having been called, and the callbacks run at the poll after that, on the
  connection that is DEGRADED already.
\<close>

theorem watchdog_alert_after_degraded:
  fixes S :: "alert list conn_system"
  assumes "wd_ok w" and "map_of (wd_trackers w) r = Some t"
    and "wd_preemptive w = 12" and "wd_degraded w = 15" and "wd_failed w = 45"
    and "\<not> tr_preemptive t" and "\<not> tr_degraded t" and "\<not> tr_failed t"
    and "obj_state S (tr_mgr t) = AUTHENTICATED"
    and "cx_time S - tr_last_ping t = s" and "10 \<le> s" and "s < 12"
  defines "after \<equiv> \<lambda>es. snd (foldl (wd_step alert_env) (w, S) es)"
  shows "obj_state (after [Poll, Advance 5, Poll]) (tr_mgr t) = DEGRADED \<and>
    role_alerts r (cx_ext (after [Poll, Advance 5, Poll])) = role_alerts r (cx_ext S) \<and>
    obj_state (after [Poll, Advance 5, Poll, Advance 5, Poll]) (tr_mgr t) = DEGRADED \<and>
    role_alerts r (cx_ext (after [Poll, Advance 5, Poll, Advance 5, Poll])) =
      role_alerts r (cx_ext S) @ map (\<lambda>i. (i, r, s + 10)) (wd_callbacks w)"
proof -
  let ?p = "tr_last_ping t" and ?al = "role_alerts r (cx_ext S)"
  let ?t1 = "t\<lparr>tr_degraded := True\<rparr>"
  have now: "cx_time S = ?p + s" using assms(10) by simp
  have "part_is w r t AUTHENTICATED (?p + s) ?al (w, S)"
    using assms(1,2,9) now by (simp add: part_is_def)
  from part_Poll [OF this, of t AUTHENTICATED]
  have "part_is w r t AUTHENTICATED (?p + s) ?al (wd_step alert_env (w, S) Poll)"
    using assms(3-5,12) by (simp add: silence_step.simps alerts_of_def Let_def)
  from part_Poll [OF part_Advance [OF this, of 5], of ?t1 DEGRADED]
  have two: "part_is w r ?t1 DEGRADED (?p + s + 5) ?al
      (wd_step alert_env (wd_step alert_env (wd_step alert_env (w, S) Poll) (Advance 5)) Poll)"
    using assms(3-8,11,12) by (simp add: silence_step.simps alerts_of_def into_DEGRADED Let_def)
  from part_Poll [OF part_Advance [OF this, of 5], of "?t1\<lparr>tr_preemptive := True\<rparr>" DEGRADED]
  have three: "part_is w r (?t1\<lparr>tr_preemptive := True\<rparr>) DEGRADED (?p + s + 10) (?al @ alerts_at w r (s + 10))
      (wd_step alert_env (wd_step alert_env (wd_step alert_env (wd_step alert_env
        (wd_step alert_env (w, S) Poll) (Advance 5)) Poll) (Advance 5)) Poll)"
    using assms(3-8,11,12) by (simp add: silence_step.simps alerts_of_def add.commute Let_def)
  show ?thesis
    using two three by (simp add: after_def part_is_def alerts_at_def split: prod.splits)
qed

theorem watchdog_alert_after_degraded_witness:
  "let after = \<lambda>es. snd (foldl (wd_step alert_env) (demo_watchdog, (demo_system [])\<lparr>cx_time := 111\<rparr>) es) in
   obj_state (after [Poll, Advance 5, Poll]) 1 = DEGRADED \<and>
   role_alerts TRADE_EXECUTION (cx_ext (after [Poll, Advance 5, Poll])) = [] \<and>
   role_alerts TRADE_EXECUTION (cx_ext (after [Poll, Advance 5, Poll, Advance 5, Poll])) =
     [(7, TRADE_EXECUTION, 21)]"
proof -
  have f: "wd_ok demo_watchdog" "map_of (wd_trackers demo_watchdog) TRADE_EXECUTION = Some (tracker_new 1 100)"
    "wd_preemptive demo_watchdog = 12" "wd_degraded demo_watchdog = 15" "wd_failed demo_watchdog = 45"
    "wd_callbacks demo_watchdog = [7]"
    by (simp_all add: demo_wd_defs wd_ok_def)
  have t: "\<not> tr_preemptive (tracker_new 1 100)" "\<not> tr_degraded (tracker_new 1 100)" "\<not> tr_failed (tracker_new 1 100)"
    "tr_mgr (tracker_new 1 100) = 1"
    by (simp_all add: tracker_new_def)
  have S: "obj_state ((demo_system [])\<lparr>cx_time := 111\<rparr>) (tr_mgr (tracker_new 1 100)) = AUTHENTICATED"
    "cx_time ((demo_system [])\<lparr>cx_time := 111\<rparr>) - tr_last_ping (tracker_new 1 100) = 11"
    "cx_ext ((demo_system [])\<lparr>cx_time := 111\<rparr>) = []"
    by (simp_all add: demo_wd_defs)
  have "(10 :: flt) \<le> 11" "(11 :: flt) < 12" by simp_all
  from watchdog_alert_after_degraded [OF f(1-5) t(1-3) S(1,2) this] show ?thesis
    by (simp only: Let_def f(6) t(4) S(3) role_alerts_Nil list.map append_Nil) simp
qed

text \<open>
  A failure that is reported at the wrong moment is lost. When a cycle finds a role silent past
  the FAILED threshold while its state cannot go to FAILED (DISCONNECTED, CONNECTED, SUSPENDED,
  SUBSCRIBING), the request is rejected but the role is noted as reported; if the connection then
  changes to another state without a heartbeat (from SUBSCRIBING back to AUTHENTICATED, say), no
  later cycle touches it again, however long the silence lasts.
\<close>

definition reported_inv :: "conn_role \<Rightarrow> nat \<Rightarrow> conn_state \<Rightarrow> watchdog \<times> 'x conn_system \<Rightarrow> bool" where
  "reported_inv r a s = (\<lambda>(w, S). wd_ok w \<and> obj_state S a = s \<and>
     (case map_of (wd_trackers w) r of None \<Rightarrow> False
      | Some t \<Rightarrow> tr_mgr t = a \<and> tr_failed t \<and> tr_degraded t \<and> tr_preemptive t))"

lemma reported_inv_step:
  assumes "reported_inv r a s (w, S)" and "silent_for r a e"
  shows "reported_inv r a s (wd_step env (w, S) e)"
proof -
  from assms(1) obtain t where t: "map_of (wd_trackers w) r = Some t" "tr_mgr t = a" "wd_ok w"
    "obj_state S a = s" "tr_failed t" "tr_degraded t" "tr_preemptive t"
    by (auto simp: reported_inv_def split: option.splits)
  obtain w' S' where res: "wd_step env (w, S) e = (w', S')" by (metis surj_pair)
  have "silence_step w (cx_time S) (t, s) = (t, s)" using t(5-7) by (simp add: silence_step.simps Let_def)
  then have "map_of (wd_trackers w') r = Some t \<and> obj_state S' a = s"
    using wd_step_silent [OF t(3,1), of e env S] assms(2) t(2,4) by (simp add: res)
  with wd_step_ok [OF t(3), of env S e] t show ?thesis by (simp add: res reported_inv_def)
qed

interpretation reported: invariant_machine "wd_step env" "silent_for r a" "reported_inv r a s"
  for env r a s
  by unfold_locales (metis reported_inv_step surj_pair)

theorem watchdog_failure_lost:
  assumes "wd_ok w" and "map_of (wd_trackers w) r = Some t" and "\<not> tr_failed t"
    and "cx_time S - tr_last_ping t \<ge> wd_failed w"
    and "obj_state S (tr_mgr t) \<in> {DISCONNECTED, CONNECTED, SUSPENDED, SUBSCRIBING}"
    and "is_valid_transition (obj_state S (tr_mgr t)) new"
    and "list_all (silent_for r (tr_mgr t)) es"
  shows "obj_state (snd (foldl (wd_step env) (w, S) ([Poll, Request (tr_mgr t) new reason] @ es))) (tr_mgr t) = new"
proof -
  let ?a = "tr_mgr t"
  have step: "silence_step w (cx_time S) (t, obj_state S ?a) =
      (t\<lparr>tr_failed := True, tr_degraded := True, tr_preemptive := True\<rparr>, obj_state S ?a)"
    using assms(3-5) by (auto simp: silence_step.simps into_FAILED Let_def)
  obtain w1 S1 where one: "wd_check_all env (w, S) = (w1, S1)" by (metis surj_pair)
  from wd_check_all_role [OF assms(1,2), of env S] step
  have w1: "wd_ok w1" "obj_state S1 ?a = obj_state S ?a"
    "map_of (wd_trackers w1) r = Some (t\<lparr>tr_failed := True, tr_degraded := True, tr_preemptive := True\<rparr>)"
    by (simp_all add: one)
  have "reported_inv r ?a new (wd_step env (w1, S1) (Request ?a new reason))"
    using w1 assms(6) by (simp add: reported_inv_def cx_transition_obj_state)
  from reported.run_inv [OF this assms(7), where env = env]
  have "reported_inv r ?a new (foldl (wd_step env) (w, S) ([Poll, Request ?a new reason] @ es))"
    by (simp add: one)
  then show ?thesis by (simp add: reported_inv_def split_beta)
qed

theorem watchdog_failure_lost_witness:
  "obj_state (snd (foldl (wd_step demo_env)
     (demo_watchdog, (demo_system ())\<lparr>cx_time := 150, cx_objs := \<lambda>a. demo_obj SUBSCRIBING\<rparr>)
     ([Poll, Request 1 AUTHENTICATED []] @ [Advance 1000, Poll, Poll]))) 1 = AUTHENTICATED"
proof -
  let ?S = "(demo_system ())\<lparr>cx_time := 150, cx_objs := \<lambda>a. demo_obj SUBSCRIBING\<rparr>"
  have "obj_state (snd (foldl (wd_step demo_env) (demo_watchdog, ?S)
     ([Poll, Request (tr_mgr (tracker_new 1 100)) AUTHENTICATED []] @ [Advance 1000, Poll, Poll])))
     (tr_mgr (tracker_new 1 100)) = AUTHENTICATED"
  proof (rule watchdog_failure_lost [where r = TRADE_EXECUTION])
    show "is_valid_transition (obj_state ?S (tr_mgr (tracker_new 1 100))) AUTHENTICATED"
      by (simp add: demo_obj_def into_AUTHENTICATED)
  qed (simp_all add: demo_wd_defs wd_ok_def)
  then show ?thesis by (simp add: tracker_new_def)
qed

section \<open>The gates\<close>

text \<open>
  The two trading gates. With both connections registered, \<open>is_fully_operational\<close> is true
  exactly when both are AUTHENTICATED, and it implies \<open>is_tradeable\<close>, which asks for an
  authenticated trade connection and an operational feed. With one connection registered the
  stricter gate is the weaker one: it opens on that connection alone, while \<open>is_tradeable\<close> stays
  shut.
\<close>

theorem split_brain_gate:
  assumes "distinct (map fst (cx_conns S))"
  defines "auth \<equiv> \<lambda>r. role_state S r = AUTHENTICATED"
  shows "(map_of (cx_conns S) MARKET_DATA \<noteq> None \<and> map_of (cx_conns S) TRADE_EXECUTION \<noteq> None \<longrightarrow>
      (cx_is_fully_operational S \<longleftrightarrow> auth MARKET_DATA \<and> auth TRADE_EXECUTION) \<and>
      (cx_is_fully_operational S \<longrightarrow> cx_is_tradeable S)) \<and>
    (map fst (cx_conns S) = [r] \<longrightarrow> (cx_is_fully_operational S \<longleftrightarrow> auth r) \<and> \<not> cx_is_tradeable S)"
proof -
  have all: "list_all (\<lambda>(r, a). obj_state S a = AUTHENTICATED) cs \<longleftrightarrow>
      (\<forall>r a. map_of cs r = Some a \<longrightarrow> obj_state S a = AUTHENTICATED)"
    if "distinct (map fst cs)" for cs :: "(conn_role \<times> nat) list"
    using that by (force simp: list_all_iff map_of_eq_Some_iff)
  have one: "\<exists>a. cx_conns S = [(r, a)]" if "map fst (cx_conns S) = [r]"
    using that by (cases "cx_conns S") auto
  show ?thesis
    using one by (auto simp: cx_is_fully_operational_def cx_is_tradeable_def role_state_def auth_def
        all [OF assms(1)] split: if_splits) (metis conn_role.exhaust option.inject)
qed

theorem split_brain_gate_witness:
  "cx_is_fully_operational (demo_system ()\<lparr>cx_conns := [(MARKET_DATA, 0)]\<rparr>) \<and>
   \<not> cx_is_tradeable (demo_system ()\<lparr>cx_conns := [(MARKET_DATA, 0)]\<rparr>)"
  using split_brain_gate [of "demo_system ()\<lparr>cx_conns := [(MARKET_DATA, 0)]\<rparr>" MARKET_DATA]
  by (simp add: demo_wd_defs role_state_def)

end
