(* ===== verification/ManagerSafety.thy ===== *)
theory ManagerSafety
  imports ConnectionSafety
begin

text \<open>
  What the connection manager's own bookkeeping guarantees: the bounds of the health metrics, what
  a repeated registration does, and the ends of its retry loops.
\<close>

section \<open>Runs of the connection manager\<close>

datatype cx_event = Elapse flt | Transit nat conn_state ptext | Register role_arg nat | Unregister role_arg

fun cx_step :: "'x conn_env \<Rightarrow> 'x conn_system \<Rightarrow> cx_event \<Rightarrow> 'x conn_system" where
  "cx_step env S (Elapse d) = S\<lparr>cx_mono := cx_mono S + d\<rparr>"
| "cx_step env S (Transit a new reason) = snd (cx_transition env a new reason S)"
| "cx_step env S (Register role a) = state_of (cx_register role a S)"
| "cx_step env S (Unregister role) = state_of (cx_unregister role S)"

text \<open>\<open>time.monotonic()\<close> does not go back.\<close>

fun elapses :: "cx_event \<Rightarrow> bool" where
  "elapses (Elapse d) = (0 \<le> d)"
| "elapses _ = True"

text \<open>The history of a connection is in the order of time.\<close>

definition history_ok :: "flt \<Rightarrow> conn_metrics \<Rightarrow> bool" where
  "history_ok now m \<longleftrightarrow> sorted (map ct_time (cmx_transitions m)) \<and> (\<forall>t\<in>set (cmx_transitions m). ct_time t \<le> now)"

definition histories_ok :: "'x conn_system \<Rightarrow> bool" where
  "histories_ok S \<longleftrightarrow> (\<forall>r m. map_of (cx_metrics S) r = Some m \<longrightarrow> history_ok (cx_mono S) m)"

lemma keep_last_sorted: "sorted (map f xs) \<Longrightarrow> sorted (map f (keep_last n xs))"
  by (metis drop_map keep_last_def sorted_wrt_drop)

lemma keep_last_member: "x \<in> set (keep_last n xs) \<Longrightarrow> x \<in> set xs"
  by (auto simp: keep_last_def dest: in_set_dropD)

lemma history_ok_record:
  "history_ok now m \<Longrightarrow> history_ok now (cmx_record_transition old new reason now m)"
  by (auto simp: history_ok_def cmx_record_transition_def sorted_append
      intro!: keep_last_sorted dest!: keep_last_member)

lemma history_ok_later: "history_ok now m \<Longrightarrow> now \<le> later \<Longrightarrow> history_ok later m"
  by (force simp: history_ok_def)

lemma histories_ok_on_state_change:
  "histories_ok S \<Longrightarrow> histories_ok (cx_on_state_change env r old new reason S)"
  by (auto simp: histories_ok_def cx_on_state_change_def Let_def dict_simps history_ok_record
      split: option.splits)

lemma histories_ok_fire:
  "histories_ok S \<Longrightarrow> histories_ok (cm_fire (map (sub_callback env) subs) old new reason md S)"
proof (induction subs arbitrary: S)
  case (Cons b subs)
  have "histories_ok (state_of (sub_callback env b old new reason md S))"
  proof (cases b)
    case (OtherSub i)
    with Cons.prems show ?thesis
      by (cases "cxe_other env i old new reason md (cx_ext S)") (simp_all add: histories_ok_def)
  qed (simp add: histories_ok_on_state_change Cons.prems)
  then show ?case using Cons.IH by simp
qed simp

lemma histories_ok_transition: "histories_ok S \<Longrightarrow> histories_ok (snd (cx_transition env a new reason S))"
proof -
  assume ok: "histories_ok S"
  have set: "histories_ok (set_obj_state a new S)" using ok by (simp add: histories_ok_def set_obj_state_def)
  show ?thesis
    by (simp add: cx_transition_def cm_transition_to_def Let_def ok set histories_ok_fire)
qed

interpretation history: invariant_machine "cx_step env" elapses histories_ok for env
proof
  fix S :: "'a conn_system" and e
  assume ok: "histories_ok S" and e: "elapses e"
  show "histories_ok (cx_step env S e)"
  proof (cases e)
    case (Register role a)
    with ok show ?thesis
      by (auto simp: histories_ok_def cx_register_def dict_simps history_ok_def cmx_init_def split: sum.splits)
  next
    case (Unregister role)
    with ok show ?thesis
      by (auto simp: histories_ok_def cx_unregister_def dict_simps split: sum.splits if_splits)
  next
    case (Elapse d)
    with ok e show ?thesis by (auto simp: histories_ok_def intro: history_ok_later [of "cx_mono S"])
  qed (simp add: ok histories_ok_transition)
qed

section \<open>Bounds of the metrics\<close>

lemma uptime_loop_bounds:
  assumes "sorted (prev # map ct_time ts)" and "\<forall>t\<in>set ts. ct_time t \<le> now" and "prev \<le> now"
    and "uptime_loop ts good prev s = (g, p, s')"
  shows "good \<le> g \<and> g - good \<le> p - prev \<and> p \<le> now"
  using assms
proof (induction ts arbitrary: good prev s)
  case (Cons t ts)
  let ?good = "if good_state s then good + (ct_time t - prev) else good"
  have "?good \<le> g \<and> g - ?good \<le> p - ct_time t \<and> p \<le> now"
    using Cons.prems by (intro Cons.IH) simp_all
  moreover have "prev \<le> ct_time t" using Cons.prems(1) by simp
  ultimately show ?case by (auto split: if_splits)
qed simp

lemma calc_uptime_bounds:
  assumes "sorted (map ct_time ts)" and "\<forall>t\<in>set ts. start \<le> ct_time t \<and> ct_time t \<le> now"
  shows "0 \<le> cmx_calc_uptime m ts start now \<and> cmx_calc_uptime m ts start now \<le> 1"
proof (cases ts)
  case Nil
  then show ?thesis by (simp add: cmx_calc_uptime_def)
next
  case (Cons t0 rest)
  obtain g p s' where loop: "uptime_loop ts 0 start (ct_old t0) = (g, p, s')" by (metis prod_cases3)
  have "start \<le> now" using assms(2) Cons by force
  moreover have "sorted (start # map ct_time ts)" using assms by simp
  ultimately have b: "0 \<le> g \<and> g \<le> p - start \<and> p \<le> now"
    using uptime_loop_bounds [OF _ _ _ loop, of now] assms(2) by simp
  have "cmx_calc_uptime m ts start now =
      (if now - start > 0 then min 1 ((if good_state s' then g + (now - p) else g) / (now - start)) else 0)"
    using loop by (simp add: cmx_calc_uptime_def Cons Let_def)
  moreover have "0 \<le> (if good_state s' then g + (now - p) else g)" using b by auto
  ultimately show ?thesis by (simp add: divide_nonneg_pos)
qed

text \<open>The degraded time that is still open, and a bound for all of it.\<close>

definition open_time :: "flt \<Rightarrow> flt \<times> flt option \<Rightarrow> flt" where
  "open_time now = (\<lambda>(acc, start). acc + (case start of Some s \<Rightarrow> now - s | None \<Rightarrow> 0))"

lemma degraded_time_open: "degraded_time ts now = open_time now (degraded_loop ts 0 None)"
  by (simp add: degraded_time_def open_time_def split: prod.splits option.splits)

lemma degraded_loop_bounds:
  assumes "sorted (p # map ct_time ts)" and "\<forall>t\<in>set ts. ct_time t \<le> now" and "p \<le> now"
    and "case start of Some s \<Rightarrow> s \<le> p | None \<Rightarrow> True"
  shows "acc \<le> open_time now (degraded_loop ts acc start) \<and>
    open_time now (degraded_loop ts acc start) \<le> acc + (case start of Some s \<Rightarrow> now - s | None \<Rightarrow> now - p)"
  using assms
proof (induction ts arbitrary: p acc start)
  case Nil
  then show ?case by (auto simp: open_time_def split: option.splits)
next
  case (Cons t ts)
  have p: "p \<le> ct_time t" "ct_time t \<le> now" "sorted (ct_time t # map ct_time ts)" "\<forall>t\<in>set ts. ct_time t \<le> now"
    using Cons.prems by auto
  note IH = Cons.IH [OF p(3,4,2)]
  show ?case
  proof (cases "ct_new t = DEGRADED")
    case True
    with IH [of "Some (ct_time t)" acc] p(1) Cons.prems(4) show ?thesis by (auto split: option.splits)
  next
    case False
    show ?thesis
    proof (cases start)
      case None
      with False IH [of None acc] p(1) show ?thesis by simp
    next
      case (Some s)
      with Cons.prems(4) p(1) have "s \<le> ct_time t" by simp
      with Some False IH [of None "acc + (ct_time t - s)"] show ?thesis by simp
    qed
  qed
qed

lemma degraded_time_bounds:
  assumes "sorted (map ct_time ts)" and "\<forall>t\<in>set ts. start \<le> ct_time t \<and> ct_time t \<le> now" and "start \<le> now"
  shows "0 \<le> degraded_time ts now \<and> degraded_time ts now \<le> now - start"
  using degraded_loop_bounds [of start ts now None 0] assms by (simp add: degraded_time_open)

lemma history_window:
  assumes "history_ok now m"
  shows "sorted (map ct_time (transitions_since w m))"
    and "\<forall>t\<in>set (transitions_since w m). w \<le> ct_time t \<and> ct_time t \<le> now"
  using assms by (auto simp: history_ok_def transitions_since_def intro: sorted_filter)

lemma reconnects_in_mono: "w \<le> v \<Longrightarrow> reconnects_in (transitions_since v m) \<le> reconnects_in (transitions_since w m)"
proof -
  have "length (filter P xs) \<le> length (filter Q xs)" if "\<forall>x. P x \<longrightarrow> Q x" for P Q and xs :: "conn_transition list"
    using that by (induction xs) (auto intro: le_SucI)
  note filter_le = this
  show "reconnects_in (transitions_since v m) \<le> reconnects_in (transitions_since w m)" if "w \<le> v"
    using that by (auto simp: reconnects_in_def transitions_since_def intro!: filter_le)
qed

lemma get_health_bounds:
  fixes state :: conn_state
  assumes "history_ok now m"
  defines "h \<equiv> cmx_get_health state now m"
  shows "0 \<le> ch_uptime_1h h \<and> ch_uptime_1h h \<le> 100 \<and> 0 \<le> ch_uptime_24h h \<and> ch_uptime_24h h \<le> 100 \<and>
    0 \<le> ch_degraded_1h h \<and> ch_degraded_1h h \<le> 3600 \<and>
    0 \<le> ch_reconnects_1h h \<and> ch_reconnects_1h h \<le> ch_reconnects_24h h"
proof -
  have pct: "0 \<le> py_round2 (x * 100) \<and> py_round2 (x * 100) \<le> 100" if "0 \<le> x \<and> x \<le> 1" for x
    using py_round2_between [of 0 "x * 100" 10000] that by simp
  have hour: "0 \<le> py_round2 x \<and> py_round2 x \<le> 3600" if "0 \<le> x \<and> x \<le> 3600" for x
    using py_round2_between [of 0 x 360000] that by simp
  note u = calc_uptime_bounds [OF history_window [OF assms(1)], where m = m]
  have d: "0 \<le> degraded_time (transitions_since (now - 3600) m) now \<and>
      degraded_time (transitions_since (now - 3600) m) now \<le> 3600"
    using degraded_time_bounds [OF history_window [OF assms(1)], of "now - 3600"] by simp
  show ?thesis
    using pct [OF u [of "now - 3600"]] pct [OF u [of "now - 86400"]] hour [OF d]
      reconnects_in_mono [of "now - 86400" "now - 3600" m]
    by (simp add: h_def cmx_get_health_def Let_def) (simp add: reconnects_in_def)
qed

text \<open>
  C12. The health figures are always sane: after any sequence of registrations, transitions (accepted
  or not) and time passing, the uptimes the manager reports lie between 0 and 100 percent, the
  degraded time of the hour between 0 and 3600 seconds, and the reconnects of the hour are at most
  those of the day.
\<close>

theorem connection_metrics_bounded:
  fixes env :: "'x conn_env" and objs mt time x r
  assumes "list_all elapses es"
  defines "h \<equiv> role_health (foldl (cx_step env) (cx_init objs mt time x) es) r"
  shows "0 \<le> ch_uptime_1h h \<and> ch_uptime_1h h \<le> 100 \<and> 0 \<le> ch_uptime_24h h \<and> ch_uptime_24h h \<le> 100 \<and>
    0 \<le> ch_degraded_1h h \<and> ch_degraded_1h h \<le> 3600 \<and>
    0 \<le> ch_reconnects_1h h \<and> ch_reconnects_1h h \<le> ch_reconnects_24h h"
proof -
  have "histories_ok (cx_init objs mt time x)" by (simp add: histories_ok_def cx_init_def)
  from history.run_inv [OF this assms(1), where env = env]
  have "histories_ok (foldl (cx_step env) (cx_init objs mt time x) es)" .
  then show ?thesis
    by (auto simp: h_def role_health_def histories_ok_def blank_health_def get_health_bounds split: option.splits)
qed

theorem connection_metrics_bounded_witness:
  "let h = role_health (foldl (cx_step demo_env) (cx_init (\<lambda>a. demo_obj AUTHENTICATED) 0 0 ())
     [Register (RoleEnum MARKET_DATA) 0, Elapse 100, Transit 0 DEGRADED [], Elapse 20, Transit 0 RECONNECTING []]) MARKET_DATA in
   ch_uptime_1h h \<le> 100 \<and> ch_degraded_1h h \<le> 3600 \<and> ch_reconnects_1h h \<le> ch_reconnects_24h h"
proof -
  have "list_all elapses [Register (RoleEnum MARKET_DATA) 0, Elapse 100, Transit 0 DEGRADED [], Elapse 20,
      Transit 0 RECONNECTING []]"
    by simp
  from connection_metrics_bounded [OF this, of demo_env "\<lambda>a. demo_obj AUTHENTICATED" 0 0 "()" MARKET_DATA]
  show ?thesis by (simp only: Let_def)
qed

section \<open>Registering twice\<close>

text \<open>
  \<open>register\<close> subscribes again every time and \<open>unregister\<close> never unsubscribes: after a connection
  has been registered, unregistered and registered again, one single reconnect of it is counted
  twice in its health figures.
\<close>

theorem connection_reregistered_counts_twice:
  fixes env :: "'x conn_env" and S :: "'x conn_system" and a r
  assumes "so_subs (cx_objs S a) = []" and "obj_state S a \<noteq> RECONNECTING"
    and "is_valid_transition (obj_state S a) RECONNECTING"
  defines "registered \<equiv> foldl (cx_step env) S
    [Register (RoleEnum r) a, Unregister (RoleEnum r), Register (RoleEnum r) a]"
  shows "ch_reconnects_1h (role_health registered r) = 0 \<and>
    ch_reconnects_1h (role_health (cx_step env registered (Transit a RECONNECTING reason)) r) = 2"
proof -
  let ?S = registered
  have S: "so_subs (cx_objs ?S a) = [ManagerSub r, ManagerSub r]" "obj_state ?S a = obj_state S a"
    "map_of (cx_conns ?S) r = Some a" "map_of (cx_metrics ?S) r = Some (cmx_init r (cx_mono ?S))"
    using assms(1) by (simp_all add: registered_def cx_register_def cx_unregister_def dict_simps)
  let ?T = "set_obj_state a RECONNECTING ?S"
  have T: "map_of (cx_metrics ?T) r = Some (cmx_init r (cx_mono ?S))" "cx_mono ?T = cx_mono ?S"
    by (simp_all add: set_obj_state_def S)
  let ?f = "cx_on_state_change env r (obj_state S a) RECONNECTING reason"
  have rec: "map_of (cx_metrics (?f U)) r =
      Some (cmx_record_transition (obj_state S a) RECONNECTING reason (cx_mono U) m)"
    "cx_mono (?f U) = cx_mono U"
    if "map_of (cx_metrics U) r = Some m" for U :: "'x conn_system" and m
    using that by (simp_all add: cx_on_state_change_def Let_def dict_simps)
  let ?m = "cmx_record_transition (obj_state S a) RECONNECTING reason (cx_mono ?S)"
  have step: "cx_step env ?S (Transit a RECONNECTING reason) = ?f (?f ?T)"
    using assms(2,3) by (simp add: cx_transition_def cm_transition_to_def Let_def S)
  have metrics: "map_of (cx_metrics (?f (?f ?T))) r = Some (?m (?m (cmx_init r (cx_mono ?S))))"
    "cx_mono (?f (?f ?T)) = cx_mono ?S"
    using rec [OF T(1)] rec [OF rec(1) [OF T(1)]] T(2) by simp_all
  have conns: "map_of (cx_conns (?f (?f ?T))) r = Some a"
    using S(3) by (simp add: cx_on_state_change_def set_obj_state_def Let_def split: option.splits)
  show ?thesis
    unfolding step role_health_def conns metrics S(3,4)
    by (simp add: cmx_get_health_def transitions_since_def reconnects_in_def cmx_init_def
        cmx_record_transition_def keep_last_def metrics Let_def)
qed

theorem connection_reregistered_counts_twice_witness:
  "ch_reconnects_1h (role_health (foldl (cx_step demo_env) (demo_system ())
     ([Register (RoleEnum MARKET_DATA) 0, Unregister (RoleEnum MARKET_DATA), Register (RoleEnum MARKET_DATA) 0] @
      [Transit 0 RECONNECTING []])) MARKET_DATA) = 2"
proof -
  have "so_subs (cx_objs (demo_system ()) 0) = []" "obj_state (demo_system ()) 0 \<noteq> RECONNECTING"
    "is_valid_transition (obj_state (demo_system ()) 0) RECONNECTING"
    by (simp_all add: demo_wd_defs is_valid_transition_def valid_transitions_def)
  from connection_reregistered_counts_twice [OF this, of demo_env MARKET_DATA "[]"]
  show ?thesis unfolding foldl_append by (simp only: foldl_Cons foldl_Nil)
qed

section \<open>Authentication with retry\<close>

text \<open>The system after \<open>k\<close> calls of the authentication function, and whether a call succeeds.\<close>

fun auth_after :: "'x auth_fn \<Rightarrow> nat \<Rightarrow> 'x conn_system \<Rightarrow> 'x conn_system" where
  "auth_after auth 0 S = S"
| "auth_after auth (Suc k) S = auth_after auth k (state_of (auth S))"

definition auth_succeeds :: "'x auth_fn \<Rightarrow> 'x conn_system \<Rightarrow> bool" where
  "auth_succeeds auth S = (case auth S of Ret ok _ \<Rightarrow> ok | Exc _ _ \<Rightarrow> False)"

text \<open>The sleeps before the calls with the 0-based numbers from \<open>i\<close> to \<open>j\<close>.\<close>

definition schedule :: "flt list \<Rightarrow> nat \<Rightarrow> nat \<Rightarrow> flt list" where
  "schedule bs i j = map (\<lambda>k. bs ! min k (length bs - 1)) [i..<j]"

lemma schedule_cons: "i < j \<Longrightarrow> schedule bs i j = bs ! min i (length bs - 1) # schedule bs (Suc i) j"
  by (simp add: schedule_def upt_conv_Cons)

lemma schedule_nil [simp]: "j \<le> i \<Longrightarrow> schedule bs i j = []"
  by (simp add: schedule_def)

lemma backoff_at_nth:
  assumes "bs \<noteq> []" and "list_all (\<lambda>t. 0 \<le> t) bs"
  shows "backoff_at bs (int i + 1) = Inr (bs ! min i (length bs - 1))"
proof -
  have len: "0 < length bs" using assms(1) by simp
  then have "nat (min (int i) (int (length bs) - 1)) = min i (length bs - 1)" by linarith
  moreover have "0 \<le> bs ! min i (length bs - 1)"
    using assms(2) len by (simp add: list_all_length min_less_iff_disj)
  moreover have "\<not> min (int i) (int (length bs) - 1) < 0" using len by (simp add: min_less_iff_disj)
  ultimately show ?thesis by (simp add: backoff_at_def Let_def)
qed

lemma upto_attempts:
  "i < n \<Longrightarrow> [int i + 1..int n] = (int i + 1) # [int (Suc i) + 1..int n]"
  by (simp add: upto_rec1 add.commute)

lemma auth_loop_exhausted:
  assumes "bs \<noteq> []" and "list_all (\<lambda>t. 0 \<le> t) bs" and "i \<le> n"
    and "\<forall>k<n - i. \<not> auth_succeeds auth (auth_after auth k S)"
  shows "auth_loop auth (int n) bs [int i + 1..int n] (S, sl) =
    Ret False (auth_after auth (n - i) S, sl @ schedule bs i (n - 1))"
  using assms(3,4)
proof (induction "n - i" arbitrary: i S sl)
  case (Suc d)
  have i: "i < n" "Suc i \<le> n" "d = n - Suc i" "n - i = Suc (n - Suc i)" using Suc.hyps(2) by linarith+
  have fails: "\<not> auth_succeeds auth S" using Suc.prems(2) i(4) by force
  have rest: "\<forall>k<n - Suc i. \<not> auth_succeeds auth (auth_after auth k (state_of (auth S)))"
  proof (intro allI impI)
    fix k assume "k < n - Suc i"
    then have "Suc k < n - i" using i by linarith
    with Suc.prems(2) show "\<not> auth_succeeds auth (auth_after auth k (state_of (auth S)))" by fastforce
  qed
  note IH = Suc.hyps(1) [OF i(3,2) rest]
  show ?case
  proof (cases "Suc i < n")
    case True
    then have "schedule bs i (n - 1) = bs ! min i (length bs - 1) # schedule bs (Suc i) (n - 1)"
      by (intro schedule_cons) linarith
    with fails True IH [of "sl @ [bs ! min i (length bs - 1)]"] show ?thesis
      unfolding upto_attempts [OF i(1)] i(4)
      by (simp add: auth_succeeds_def backoff_at_nth [OF assms(1,2)] Let_def)
  next
    case False
    with i(1) have "n = Suc i" by linarith
    with fails show ?thesis by (simp add: upto_attempts auth_succeeds_def add.commute Let_def)
  qed
qed simp

lemma auth_loop_succeeds:
  assumes "bs \<noteq> []" and "list_all (\<lambda>t. 0 \<le> t) bs"
    and "i + k < n" and "auth_succeeds auth (auth_after auth k S)"
    and "\<forall>j<k. \<not> auth_succeeds auth (auth_after auth j S)"
  shows "auth_loop auth (int n) bs [int i + 1..int n] (S, sl) =
    Ret True (cx_record_auth_success (cx_reset_reconnect_state (auth_after auth (Suc k) S)), sl @ schedule bs i (i + k))"
  using assms(3-5)
proof (induction k arbitrary: i S sl)
  case 0
  then have i: "i < n" by simp
  with 0 show ?case
    unfolding upto_attempts [OF i] by (simp add: auth_succeeds_def Let_def split: outcome.splits)
next
  case (Suc k)
  have i: "i < n" "int i + 1 < int n" using Suc.prems(1) by linarith+
  have fails: "\<not> auth_succeeds auth S" using Suc.prems(3) by force
  have rest: "\<forall>j<k. \<not> auth_succeeds auth (auth_after auth j (state_of (auth S)))"
    using Suc.prems(3) by fastforce
  have "schedule bs i (i + Suc k) = bs ! min i (length bs - 1) # schedule bs (Suc i) (Suc i + k)"
    using schedule_cons [of i "i + Suc k" bs] by simp
  with fails i(2) Suc.IH [of "Suc i" "state_of (auth S)" "sl @ [bs ! min i (length bs - 1)]"] rest Suc.prems
  show ?case
    unfolding upto_attempts [OF i(1)]
    by (simp add: auth_succeeds_def backoff_at_nth [OF assms(1,2)] Let_def)
qed

text \<open>
  C11. Authentication with retry always comes back, and with the right answer. For every
  authentication function, however it behaves or raises, and every non-empty schedule of
  non-negative sleeps: if the first success among the first \<open>n\<close> calls is call number \<open>k\<close>, then
  it returns True after exactly those calls and the sleeps between them, with all reconnect
  counters cleared; if there is none, it returns False after exactly \<open>n\<close> calls and \<open>n - 1\<close>
  sleeps. Nothing else happens, and no exception of the function gets out.
\<close>

theorem auth_retry_complete:
  fixes auth :: "'x auth_fn" and n :: nat and S :: "'x conn_system"
  assumes "bs \<noteq> []" and "list_all (\<lambda>t. 0 \<le> t) bs"
  defines "first \<equiv> \<lambda>k. k < n \<and> auth_succeeds auth (auth_after auth k S) \<and>
    (\<forall>j<k. \<not> auth_succeeds auth (auth_after auth j S))"
  shows "(first k \<longrightarrow> cx_authenticate_with_retry auth (int n) bs S =
      Ret True ((auth_after auth (Suc k) S)\<lparr>cx_attempt := 0, cx_auth_failures := 0,
                  cx_strategy := rs_reset (cx_strategy (auth_after auth (Suc k) S))\<rparr>, schedule bs 0 k)) \<and>
    ((\<forall>k. \<not> first k) \<longrightarrow> cx_authenticate_with_retry auth (int n) bs S =
      Ret False (auth_after auth n S, schedule bs 0 (n - 1)))"
proof (intro conjI impI)
  assume "first k"
  with auth_loop_succeeds [OF assms(1,2), of 0 k n auth S "[]"] show
    "cx_authenticate_with_retry auth (int n) bs S =
      Ret True ((auth_after auth (Suc k) S)\<lparr>cx_attempt := 0, cx_auth_failures := 0,
                  cx_strategy := rs_reset (cx_strategy (auth_after auth (Suc k) S))\<rparr>, schedule bs 0 k)"
    by (simp add: first_def cx_authenticate_with_retry_def cx_record_auth_success_def cx_reset_reconnect_state_def)
next
  assume none: "\<forall>k. \<not> first k"
  have "\<not> auth_succeeds auth (auth_after auth k S)" if "k < n" for k
    using that
  proof (induction k rule: less_induct)
    case (less k)
    with none [THEN spec, of k] show ?case by (auto simp: first_def)
  qed
  with auth_loop_exhausted [OF assms(1,2), of 0 n auth S "[]"] show
    "cx_authenticate_with_retry auth (int n) bs S = Ret False (auth_after auth n S, schedule bs 0 (n - 1))"
    by (simp add: cx_authenticate_with_retry_def)
qed

text \<open>A function that raises twice and then succeeds, counting its calls.\<close>

definition flaky_auth :: "nat auth_fn" where
  "flaky_auth S =
     (let S' = S\<lparr>cx_ext := cx_ext S + 1\<rparr> in if cx_ext S < 2 then Exc RuntimeError S' else Ret True S')"

theorem auth_retry_complete_witness:
  "cx_authenticate_with_retry flaky_auth 3 AUTH_RETRY_BACKOFF_SECONDS (demo_system 0) =
     Ret True ((demo_system 3)\<lparr>cx_attempt := 0\<rparr>, [1, 2])"
proof -
  have sched: "AUTH_RETRY_BACKOFF_SECONDS \<noteq> []" "list_all (\<lambda>t. 0 \<le> t) AUTH_RETRY_BACKOFF_SECONDS"
    by (simp_all add: AUTH_RETRY_BACKOFF_SECONDS_def)
  have step: "state_of (flaky_auth (demo_system k)) = demo_system (k + 1)"
    "auth_succeeds flaky_auth (demo_system k) \<longleftrightarrow> 2 \<le> k" for k
    by (auto simp: flaky_auth_def demo_system_def cx_init_def auth_succeeds_def Let_def)
  have after: "auth_after flaky_auth 0 (demo_system 0) = demo_system 0"
    "auth_after flaky_auth 1 (demo_system 0) = demo_system 1"
    "auth_after flaky_auth 2 (demo_system 0) = demo_system 2"
    "auth_after flaky_auth (Suc 2) (demo_system 0) = demo_system 3"
    by (simp_all add: step numeral_eq_Suc)
  have first: "(2::nat) < 3 \<and> auth_succeeds flaky_auth (auth_after flaky_auth 2 (demo_system 0)) \<and>
      (\<forall>j<2. \<not> auth_succeeds flaky_auth (auth_after flaky_auth j (demo_system 0)))"
  proof -
    let ?P = "\<lambda>k. auth_succeeds flaky_auth (auth_after flaky_auth k (demo_system 0))"
    have calls: "\<not> auth_succeeds flaky_auth (auth_after flaky_auth 0 (demo_system 0))"
      "\<not> auth_succeeds flaky_auth (auth_after flaky_auth 1 (demo_system 0))"
      "auth_succeeds flaky_auth (auth_after flaky_auth 2 (demo_system 0))"
      unfolding after step by simp_all
    have first_two: "(2::nat) < 3 \<and> P 2 \<and> (\<forall>j<2. \<not> P j)" if "\<not> P 0" "\<not> P 1" "P 2" for P :: "nat \<Rightarrow> bool"
      using that by (auto simp: less_2_cases_iff)
    show ?thesis by (rule first_two [where P = ?P, OF calls])
  qed
  have "cx_authenticate_with_retry flaky_auth (int 3) AUTH_RETRY_BACKOFF_SECONDS (demo_system 0) =
      Ret True ((demo_system 3)\<lparr>cx_attempt := 0, cx_auth_failures := 0,
        cx_strategy := rs_reset (cx_strategy (demo_system (3::nat)))\<rparr>, schedule AUTH_RETRY_BACKOFF_SECONDS 0 2)"
    using conjunct1 [OF auth_retry_complete [OF sched, where n = 3 and k = 2 and auth = flaky_auth
          and S = "demo_system 0"], THEN mp, OF first]
    by (simp only: after(4))
  then show ?thesis
    by (simp add: schedule_def AUTH_RETRY_BACKOFF_SECONDS_def demo_system_def cx_init_def rs_reset_def
        rs_init_def upt_conv_Cons)
qed

section \<open>Escalation of authentication failures\<close>

fun record_failures :: "nat \<Rightarrow> 'x conn_system \<Rightarrow> 'x conn_system" where
  "record_failures 0 S = S"
| "record_failures (Suc n) S = snd (cx_record_auth_failure (record_failures n S))"

lemma record_failures_counter:
  "cx_auth_failures S = 0 \<Longrightarrow> cx_auth_failures (record_failures n S) = int n mod 8"
proof (induction n)
  case (Suc n)
  then show ?case
    by (auto simp: cx_record_auth_failure_def AUTH_FULL_RECONNECT_THRESHOLD_def Let_def) presburger+
qed simp

text \<open>
  A full reconnect is recommended on exactly every eighth authentication failure since the last
  success or reset, and on no other, and the recommendation touches nothing but the counter.
\<close>

theorem auth_failure_escalation:
  "(fst (cx_record_auth_failure (record_failures n (cx_record_auth_success S))) \<longleftrightarrow> 8 dvd Suc n) \<and>
   (record_failures n S)\<lparr>cx_auth_failures := 0\<rparr> = S\<lparr>cx_auth_failures := 0\<rparr>"
proof
  have "cx_auth_failures (record_failures n (cx_record_auth_success S)) = int n mod 8"
    by (rule record_failures_counter) (simp add: cx_record_auth_success_def)
  moreover have "int n mod 8 + 1 \<ge> 8 \<longleftrightarrow> 8 dvd Suc n" by presburger
  ultimately show "fst (cx_record_auth_failure (record_failures n (cx_record_auth_success S))) \<longleftrightarrow> 8 dvd Suc n"
    by (simp add: cx_record_auth_failure_def AUTH_FULL_RECONNECT_THRESHOLD_def Let_def)
  show "(record_failures n S)\<lparr>cx_auth_failures := 0\<rparr> = S\<lparr>cx_auth_failures := 0\<rparr>"
    by (induction n) (auto simp: cx_record_auth_failure_def Let_def)
qed

section \<open>Reconnect decisions\<close>

text \<open>What an exception without a code attribute leads to, by its class name.\<close>

lemma direct_codes_transient:
  "map_of direct_codes name = Some c \<Longrightarrow> ce_tier (classify_error c d) = TIER_1_TRANSIENT"
proof -
  have "list_all (\<lambda>(k, c). c \<in> {''HEARTBEAT_TIMEOUT'', ''CONNECTION_LOST'', ''TCP_RESET''}) direct_codes"
    by (simp add: direct_codes_def)
  moreover assume "map_of direct_codes name = Some c"
  then have "(name, c) \<in> set direct_codes" by (rule map_of_SomeD)
  ultimately have "c \<in> {''HEARTBEAT_TIMEOUT'', ''CONNECTION_LOST'', ''TCP_RESET''}"
    by (auto simp: list_all_iff)
  moreover have "ce_tier (classify_error ''HEARTBEAT_TIMEOUT'' d) = TIER_1_TRANSIENT"
    "ce_tier (classify_error ''CONNECTION_LOST'' d) = TIER_1_TRANSIENT"
    "ce_tier (classify_error ''TCP_RESET'' d) = TIER_1_TRANSIENT"
    by code_simp+
  ultimately show ?thesis by auto
qed

lemma pattern_codes_tier:
  "ce_tier (classify_error ''AUTH_EXPIRED'' d) = TIER_3B_SYSTEM"
  "ce_tier (classify_error ''REQUEST_TIMEOUT'' d) = TIER_2_BACKOFF"
  "ce_tier (classify_error ''CONNECTION_LOST'' d) = TIER_1_TRANSIENT"
  "ce_tier (classify_error ''UNKNOWN'' d) = TIER_3A_OPERATION"
  by code_simp+

lemma rs_decide_action:
  "rd_action (fst (rs_decide (Classified c) n u s)) =
     (if n \<ge> rs_max_attempts s then NO_RETRY
      else case ce_tier c of TIER_1_TRANSIENT \<Rightarrow> RETRY | TIER_2_BACKOFF \<Rightarrow> RETRY
           | TIER_3A_OPERATION \<Rightarrow> NO_RETRY | TIER_3B_SYSTEM \<Rightarrow> HALT)"
  by (simp add: rs_decide_def Let_def split_beta split: error_tier.splits)

definition names_any :: "string list \<Rightarrow> py_error \<Rightarrow> bool" where
  "names_any parts e \<longleftrightarrow> list_ex (\<lambda>p. sublist p (py_upper (pe_class e))) parts"

text \<open>
  The decision for an exception that carries no code: while attempts are left, the six built-in
  classes of the direct table are retried, other classes halt if their name has AUTH, TOKEN or
  PERMISSION in it, are retried if it has TIMEOUT, CONNECTION or SOCKET, and are given up
  otherwise.
\<close>

theorem reconnect_by_exception_class:
  assumes "pe_code e = None" and "pe_error_code e = None" and "n < rs_max_attempts (cx_strategy S)"
  defines "direct \<equiv> map_of direct_codes (py_upper (pe_class e)) \<noteq> None"
  defines "auth \<equiv> names_any [''AUTH'', ''TOKEN'', ''PERMISSION''] e"
  defines "net \<equiv> names_any [''TIMEOUT'', ''CONNECTION'', ''SOCKET''] e"
  shows "rd_action (fst (cx_decide_reconnect e (Some n) u S)) =
    (if direct then RETRY else if auth then HALT else if net then RETRY else NO_RETRY)"
proof -
  have "rd_action (fst (cx_decide_reconnect e (Some n) u S)) =
      (case ce_tier (classify_error (exception_to_error_code e)
              (if pe_message e = [] then pe_class e else pe_message e)) of
         TIER_1_TRANSIENT \<Rightarrow> RETRY | TIER_2_BACKOFF \<Rightarrow> RETRY | TIER_3A_OPERATION \<Rightarrow> NO_RETRY | TIER_3B_SYSTEM \<Rightarrow> HALT)"
    using assms(3) rs_decide_action by (simp add: cx_decide_reconnect_def Let_def split_beta)
  moreover have "exception_to_error_code e = exception_name_code (py_upper (pe_class e))"
    using assms(1,2) by (simp add: exception_to_error_code_def Let_def)
  ultimately show ?thesis
    by (cases "map_of direct_codes (py_upper (pe_class e))")
      (auto simp: exception_name_code_def direct_def auth_def net_def names_any_def
        direct_codes_transient pattern_codes_tier)
qed

theorem reconnect_by_exception_class_witness:
  "let e = \<lambda>c. \<lparr>pe_class = c, pe_message = [], pe_code = None, pe_error_code = None\<rparr>;
       act = \<lambda>c. rd_action (fst (cx_decide_reconnect (e c) (Some 1) 0 (demo_system ()))) in
   act ''ConnectionResetError'' = RETRY \<and> act ''InvalidTokenError'' = HALT \<and>
   act ''gaierror'' = NO_RETRY \<and> act ''BrokenPipeError'' = NO_RETRY"
proof -
  let ?e = "\<lambda>c. \<lparr>pe_class = c, pe_message = [], pe_code = None, pe_error_code = None\<rparr>"
  have max: "1 < rs_max_attempts (cx_strategy (demo_system ()))"
    by (simp add: demo_system_def cx_init_def rs_init_def DEFAULT_MAX_ATTEMPTS_def)
  have act: "rd_action (fst (cx_decide_reconnect (?e c) (Some 1) 0 (demo_system ()))) =
    (if map_of direct_codes (py_upper c) \<noteq> None then RETRY
     else if names_any [''AUTH'', ''TOKEN'', ''PERMISSION''] (?e c) then HALT
     else if names_any [''TIMEOUT'', ''CONNECTION'', ''SOCKET''] (?e c) then RETRY else NO_RETRY)" for c
    using reconnect_by_exception_class [of "?e c" 1 "demo_system ()" 0] max by simp
  have "map_of direct_codes (py_upper ''ConnectionResetError'') \<noteq> None" by code_simp
  moreover have "map_of direct_codes (py_upper ''InvalidTokenError'') = None" by code_simp
  moreover have "names_any [''AUTH'', ''TOKEN'', ''PERMISSION''] (?e ''InvalidTokenError'')" by code_simp
  moreover have "map_of direct_codes (py_upper ''gaierror'') = None" by code_simp
  moreover have "\<not> names_any [''AUTH'', ''TOKEN'', ''PERMISSION''] (?e ''gaierror'')" by code_simp
  moreover have "\<not> names_any [''TIMEOUT'', ''CONNECTION'', ''SOCKET''] (?e ''gaierror'')" by code_simp
  moreover have "map_of direct_codes (py_upper ''BrokenPipeError'') = None" by code_simp
  moreover have "\<not> names_any [''AUTH'', ''TOKEN'', ''PERMISSION''] (?e ''BrokenPipeError'')" by code_simp
  moreover have "\<not> names_any [''TIMEOUT'', ''CONNECTION'', ''SOCKET''] (?e ''BrokenPipeError'')" by code_simp
  ultimately show ?thesis unfolding Let_def act by simp
qed

text \<open>
  A client that reconnects for as long as it is told to: the decisions it gets for a sequence of
  failures, up to and including the first that is not a retry.
\<close>

fun reconnect_loop :: "(py_error \<times> flt) list \<Rightarrow> 'x conn_system \<Rightarrow> reconnect_decision list" where
  "reconnect_loop [] S = []"
| "reconnect_loop ((e, u) # es) S =
     (let (d, S') = cx_decide_reconnect e None u S
      in if rd_action d = RETRY then d # reconnect_loop es S' else [d])"

lemma cx_decide_reconnect_counts:
  "cx_attempt (snd (cx_decide_reconnect e None u S)) = cx_attempt S + 1"
  "rs_max_attempts (cx_strategy (snd (cx_decide_reconnect e None u S))) = rs_max_attempts (cx_strategy S)"
  by (simp_all add: cx_decide_reconnect_def cx_observe_error_def Let_def split_beta)

lemma cx_decide_reconnect_stops:
  "rs_max_attempts (cx_strategy S) \<le> cx_attempt S + 1 \<Longrightarrow>
   rd_action (fst (cx_decide_reconnect e None u S)) = NO_RETRY"
  by (simp add: cx_decide_reconnect_def Let_def split_beta rs_decide_action)

text \<open>
  The reconnect loop ends. However many failures of whatever kind there are, a client that starts
  after a reset gets at most as many decisions as the strategy allows attempts, all of them
  retries but the last one.
\<close>

theorem reconnect_loop_ends:
  assumes "1 \<le> rs_max_attempts (cx_strategy S)"
  shows "int (length (reconnect_loop es (cx_reset_reconnect_state S))) \<le> rs_max_attempts (cx_strategy S) \<and>
    list_all (\<lambda>d. rd_action d = RETRY) (butlast (reconnect_loop es (cx_reset_reconnect_state S)))"
proof -
  have "int (length (reconnect_loop es T)) \<le> rs_max_attempts (cx_strategy T) - cx_attempt T \<and>
      list_all (\<lambda>d. rd_action d = RETRY) (butlast (reconnect_loop es T))"
    if "cx_attempt T + 1 \<le> rs_max_attempts (cx_strategy T)" for T :: "'a conn_system"
    using that
  proof (induction es arbitrary: T)
    case (Cons eu es)
    obtain e u where eu: "eu = (e, u)" by (cases eu)
    obtain d T' where d: "cx_decide_reconnect e None u T = (d, T')" by (metis surj_pair)
    have T': "cx_attempt T' = cx_attempt T + 1" "rs_max_attempts (cx_strategy T') = rs_max_attempts (cx_strategy T)"
      using cx_decide_reconnect_counts [of e u T] by (simp_all add: d)
    show ?case
    proof (cases "rd_action d = RETRY")
      case True
      with cx_decide_reconnect_stops [of T e u] have "cx_attempt T' + 1 \<le> rs_max_attempts (cx_strategy T')"
        by (cases "rs_max_attempts (cx_strategy T) \<le> cx_attempt T + 1") (simp_all add: d T')
      from Cons.IH [OF this] True T' show ?thesis by (auto simp: eu d)
    next
      case False
      with Cons.prems show ?thesis by (simp add: eu d)
    qed
  qed simp
  from this [of "cx_reset_reconnect_state S"] assms show ?thesis
    by (simp add: cx_reset_reconnect_state_def rs_reset_def)
qed

theorem reconnect_loop_ends_witness:
  "length (reconnect_loop (replicate 50 (\<lparr>pe_class = ''TimeoutError'', pe_message = [], pe_code = None,
     pe_error_code = None\<rparr>, 1/2)) (cx_reset_reconnect_state (demo_system ()))) \<le> 10"
proof -
  have max: "rs_max_attempts (cx_strategy (demo_system ())) = 10"
    by (simp add: demo_system_def cx_init_def rs_init_def DEFAULT_MAX_ATTEMPTS_def)
  have "1 \<le> rs_max_attempts (cx_strategy (demo_system ()))" by (simp add: max)
  from reconnect_loop_ends [OF this, of "replicate 50 (\<lparr>pe_class = ''TimeoutError'', pe_message = [],
      pe_code = None, pe_error_code = None\<rparr>, 1/2)"]
  show ?thesis by (simp only: max) linarith
qed

end
