(* ===== verification/Tokens.thy ===== *)
theory Tokens
  imports KillSwitchSafety
begin

text \<open>
  The OAuth token lifecycle of \<open>adapters/ctrader/token_lifecycle.py\<close> over the credential store of
  \<open>adapters/ctrader/credential_store.py\<close>: validity with the refresh buffer, the refresh with its
  error classes and advisory validation, the count of consecutive failures that arms the kill
  switch, and one round of the proactive timer.

  The \<open>.env\<close> file is kept as the credentials its text holds (\<open>cst_file\<close>); other processes may
  rewrite it. The answers of the OAuth endpoint, of the validation call, of the file lock and of
  the file write are fields of the environment. Token fields of an answer are strings; an absent
  or null field is None.
\<close>

section \<open>The credential store\<close>

record credentials =
  cr_client_id :: string
  cr_client_secret :: string
  cr_access_token :: string
  cr_refresh_token :: string
  cr_account_id :: int
  cr_trader_login :: int
  cr_expires_at :: "instant option"

record cred_store =
  cst_file :: "credentials option" \<comment> \<open>None: there is no \<open>.env\<close>\<close>
  cst_cached :: "credentials option"

definition blank_credentials :: credentials where
  "blank_credentials =
     \<lparr>cr_client_id = '''', cr_client_secret = '''', cr_access_token = '''', cr_refresh_token = '''',
      cr_account_id = 0, cr_trader_login = 0, cr_expires_at = None\<rparr>"

definition cst_load :: "cred_store \<Rightarrow> (cred_store, credentials) outcome" where
  "cst_load st =
     (case cst_file st of
        None \<Rightarrow> Exc RuntimeError st
      | Some c \<Rightarrow> if cr_access_token c = '''' then Exc RuntimeError st else Ret c (st\<lparr>cst_cached := Some c\<rparr>))"

definition cst_get :: "cred_store \<Rightarrow> (cred_store, credentials) outcome" where
  "cst_get st = (case cst_cached st of Some c \<Rightarrow> Ret c st | None \<Rightarrow> cst_load st)"

text \<open>\<open>timedelta(seconds=x)\<close> in microseconds; only a number can be a number of seconds.\<close>

definition timedelta_seconds :: "pyv \<Rightarrow> pyexn + int" where
  "timedelta_seconds v = (case as_flt v of Some x \<Rightarrow> Inr (round_half_even (x * 1000000)) | None \<Rightarrow> Inl TypeError)"

definition with_tokens :: "string \<Rightarrow> string \<Rightarrow> instant \<Rightarrow> credentials \<Rightarrow> credentials" where
  "with_tokens access refresh expires c =
     c\<lparr>cr_access_token := access, cr_refresh_token := refresh, cr_expires_at := Some expires\<rparr>"

definition cst_update_tokens ::
  "instant \<Rightarrow> bool \<Rightarrow> string \<Rightarrow> string \<Rightarrow> pyv \<Rightarrow> cred_store \<Rightarrow> (cred_store, unit) outcome" where
  "cst_update_tokens now write_ok access refresh expires_in st =
     (case timedelta_seconds expires_in of
        Inl e \<Rightarrow> Exc e st
      | Inr d \<Rightarrow>
          if \<not> write_ok then Exc OSError st
          else
            let file = with_tokens access refresh (now + d) (or_default (cst_file st) blank_credentials);
                current = (case cst_cached st of Some c \<Rightarrow> c | None \<Rightarrow> file)
            in Ret () \<lparr>cst_file = Some file, cst_cached = Some (with_tokens access refresh (now + d) current)\<rparr>)"

section \<open>The lifecycle\<close>

definition REFRESH_BUFFER :: int where "REFRESH_BUFFER = 5 * day_us"
definition DEFAULT_AUTH_FAILURE_THRESHOLD :: int where "DEFAULT_AUTH_FAILURE_THRESHOLD = 5"

record oauth_body =
  ob_accessToken :: "string option"
  ob_access_token :: "string option"
  ob_refreshToken :: "string option"
  ob_refresh_token :: "string option"
  ob_expiresIn :: "pyv option"
  ob_expires_in :: "pyv option"

text \<open>
  The answer of the token endpoint: no answer, a status other than 200, or 200 with a JSON object,
  with other JSON, or with no JSON.
\<close>

datatype oauth_reply = NetworkError | Status int | OkBody oauth_body | OkNotObject | OkNotJson

datatype validation_reply = ValidationError | ValidationStatus int

record token_env =
  te_now :: instant
  te_lock_ok :: bool
  te_write_ok :: bool
  te_post :: "string \<Rightarrow> oauth_reply" \<comment> \<open>by the refresh token that is sent\<close>
  te_validate :: "string \<Rightarrow> validation_reply"
  te_ks :: ks_env

record token_lifecycle =
  tl_store :: cred_store
  tl_client_id :: string
  tl_client_secret :: string
  tl_threshold :: int
  tl_kill_switch :: "kill_switch option"
  tl_access_token :: string
  tl_expires_at :: "instant option"
  tl_issued_at :: instant
  tl_strict :: bool
  tl_failures :: int
  tl_refresh_disabled :: bool

definition tl_init ::
  "cred_store \<Rightarrow> bool \<Rightarrow> int \<Rightarrow> kill_switch option \<Rightarrow> instant \<Rightarrow> pyexn + token_lifecycle" where
  "tl_init store strict threshold ks now =
     (case cst_get store of
        Exc e st \<Rightarrow> Inl e
      | Ret c st \<Rightarrow> Inr
          \<lparr>tl_store = st, tl_client_id = cr_client_id c, tl_client_secret = cr_client_secret c,
           tl_threshold = max 1 threshold, tl_kill_switch = ks, tl_access_token = cr_access_token c,
           tl_expires_at = cr_expires_at c, tl_issued_at = now, tl_strict = strict, tl_failures = 0,
           tl_refresh_disabled = False\<rparr>)"

definition tl_is_valid :: "instant \<Rightarrow> token_lifecycle \<Rightarrow> bool" where
  "tl_is_valid now L = (case tl_expires_at L of None \<Rightarrow> True | Some t \<Rightarrow> t - now > REFRESH_BUFFER)"

definition tl_token_age_s :: "instant \<Rightarrow> token_lifecycle \<Rightarrow> flt" where
  "tl_token_age_s now L = max 0 (of_int (now - tl_issued_at L) / 1000000)"

type_synonym 'a tl_result = "(token_lifecycle, 'a) outcome"

text \<open>A call of the credential store.\<close>

definition on_store :: "(cred_store \<Rightarrow> (cred_store, 'a) outcome) \<Rightarrow> token_lifecycle \<Rightarrow> 'a tl_result" where
  "on_store f L =
     (case f (tl_store L) of
        Ret a st \<Rightarrow> Ret a (L\<lparr>tl_store := st\<rparr>)
      | Exc e st \<Rightarrow> Exc e (L\<lparr>tl_store := st\<rparr>))"

definition tl_sync_from_store :: "token_lifecycle \<Rightarrow> unit tl_result" where
  "tl_sync_from_store L = and_then (on_store cst_get L) (\<lambda>c L.
     Ret () (L\<lparr>tl_access_token := cr_access_token c, tl_expires_at := cr_expires_at c\<rparr>))"

section \<open>Failures\<close>

definition tl_arm_global_freeze :: "token_env \<Rightarrow> string \<Rightarrow> token_lifecycle \<Rightarrow> token_lifecycle" where
  "tl_arm_global_freeze env kind L =
     (case tl_kill_switch L of
        None \<Rightarrow> L
      | Some ks \<Rightarrow>
          let reason = [Lit ''token_refresh_re_arm: '', FInt (tl_failures L), Lit '' consecutive auth failures (kind='',
                Lit kind, Lit '', threshold='', FInt (tl_threshold L), Lit '')'']
          in L\<lparr>tl_kill_switch := Some (state_of (ks_activate_global_freeze (te_ks env) reason ''token_lifecycle'' ks))\<rparr>)"

definition tl_record_auth_failure :: "token_env \<Rightarrow> bool \<Rightarrow> string \<Rightarrow> token_lifecycle \<Rightarrow> token_lifecycle" where
  "tl_record_auth_failure env retryable kind L =
     (if \<not> retryable then L
      else
        let tl1 = L\<lparr>tl_failures := tl_failures L + 1\<rparr>
        in if tl_failures tl1 \<ge> tl_threshold tl1 then tl_arm_global_freeze env kind tl1 else tl1)"

section \<open>Refresh\<close>

definition tl_validate_token :: "token_env \<Rightarrow> string \<Rightarrow> bool" where
  "tl_validate_token env access =
     (case te_validate env access of
        ValidationError \<Rightarrow> True
      | ValidationStatus n \<Rightarrow> if n = 200 then True else if n = 401 \<or> n = 403 then False else True)"

text \<open>\<open>data.get(a) or data.get(b, default)\<close> on token fields and on the lifetime.\<close>

definition token_field :: "string option \<Rightarrow> string option \<Rightarrow> string" where
  "token_field a b = (case a of Some t \<Rightarrow> if t \<noteq> '''' then t else or_default b '''' | None \<Rightarrow> or_default b '''')"

definition expires_field :: "oauth_body \<Rightarrow> pyv" where
  "expires_field b =
     (case ob_expiresIn b of
        Some v \<Rightarrow> if truthy v then v else or_default (ob_expires_in b) (PInt 3600)
      | None \<Rightarrow> or_default (ob_expires_in b) (PInt 3600))"

text \<open>The end of a refresh, once the endpoint has answered with an object.\<close>

definition tl_accept_tokens :: "token_env \<Rightarrow> string \<Rightarrow> oauth_body \<Rightarrow> token_lifecycle \<Rightarrow> string tl_result" where
  "tl_accept_tokens env refresh_token body L =
     (let new_access = token_field (ob_accessToken body) (ob_access_token body);
          returned = token_field (ob_refreshToken body) (ob_refresh_token body);
          expires_in = expires_field body
      in if new_access = '''' then Exc (TokenRefreshError False) L
         else
           let new_refresh = (if returned = '''' then refresh_token else returned)
           in if \<not> tl_validate_token env new_access \<and> tl_strict L
              then Exc (TokenRefreshError False) (tl_record_auth_failure env False ''strict_validation'' L)
              else
                and_then (on_store (cst_update_tokens (te_now env) (te_write_ok env) new_access new_refresh expires_in) L)
                  (\<lambda>_ L. and_then (on_store cst_get L) (\<lambda>c L.
                    let L' = L\<lparr>tl_access_token := cr_access_token c, tl_expires_at := cr_expires_at c,
                                 tl_issued_at := te_now env, tl_failures := 0\<rparr>
                    in Ret (tl_access_token L') L')))"

definition tl_do_refresh_inner :: "token_env \<Rightarrow> token_lifecycle \<Rightarrow> string tl_result" where
  "tl_do_refresh_inner env L =
     and_then (on_store cst_get L) (\<lambda>c L.
       let refresh_token = cr_refresh_token c in
       if refresh_token = '''' then Exc (TokenRefreshError False) L
       else case te_post env refresh_token of
         NetworkError \<Rightarrow> Exc (TokenRefreshError True) (tl_record_auth_failure env True ''network_error'' L)
       | Status n \<Rightarrow>
           if n = 400 then Exc (TokenRefreshError False) L
           else if n \<ge> 500 then
             Exc (TokenRefreshError True) (tl_record_auth_failure env True (''http_'' @ py_str_int n) L)
           else Exc (TokenRefreshError False) L
       | OkNotJson \<Rightarrow> Exc ValueError L
       | OkNotObject \<Rightarrow> Exc AttributeError L
       | OkBody body \<Rightarrow> tl_accept_tokens env refresh_token body L)"

definition tl_do_refresh :: "token_env \<Rightarrow> bool \<Rightarrow> token_lifecycle \<Rightarrow> string tl_result" where
  "tl_do_refresh env force L =
     (if \<not> te_lock_ok env then Exc (TokenRefreshError True) L
      else if force then tl_do_refresh_inner env L
      else and_then (tl_sync_from_store L) (\<lambda>_ L.
             if tl_is_valid (te_now env) L then Ret (tl_access_token L) L else tl_do_refresh_inner env L))"

definition tl_ensure_valid :: "token_env \<Rightarrow> token_lifecycle \<Rightarrow> string tl_result" where
  "tl_ensure_valid env L =
     (if tl_refresh_disabled L then Ret (tl_access_token L) L
      else if tl_is_valid (te_now env) L then Ret (tl_access_token L) L
      else tl_do_refresh env False L)"

definition tl_force_refresh :: "token_env \<Rightarrow> token_lifecycle \<Rightarrow> string tl_result" where
  "tl_force_refresh env L =
     (if tl_refresh_disabled L then Ret (tl_access_token L) L else tl_do_refresh env True L)"

text \<open>
  One round of the proactive timer: the tokens handed to \<open>on_refreshed\<close> (which may raise; every
  exception of a round is caught) and the lifecycle after it.
\<close>

definition tl_timer_round :: "token_env \<Rightarrow> token_lifecycle \<Rightarrow> string list \<times> token_lifecycle" where
  "tl_timer_round env L =
     (if tl_is_valid (te_now env) L then ([], L)
      else case tl_force_refresh env L of
        Ret t L' \<Rightarrow> ([t], L')
      | Exc e L' \<Rightarrow> ([], L'))"

end
