(* ===== verification/TokenSafety.thy ===== *)
theory TokenSafety
  imports Tokens
begin

text \<open>
  What the token lifecycle guarantees: an outage of the token endpoint freezes trading after the
  threshold and not before, a successful refresh installs exactly the tokens it got, and what the
  cached credential store and short lifetimes do to it.
\<close>

section \<open>Outages\<close>

text \<open>An answer that counts as a failed attempt, and one that does not but fails as well.\<close>

definition outage :: "oauth_reply \<Rightarrow> bool" where
  "outage r = (case r of NetworkError \<Rightarrow> True | Status n \<Rightarrow> n \<ge> 500 | _ \<Rightarrow> False)"

definition permanent :: "oauth_reply \<Rightarrow> bool" where
  "permanent r = (case r of Status n \<Rightarrow> n < 500 | _ \<Rightarrow> False)"

text \<open>The store has its credentials in memory, with a refresh token.\<close>

definition has_refresh_token :: "string \<Rightarrow> token_lifecycle \<Rightarrow> bool" where
  "has_refresh_token t L \<longleftrightarrow>
     t \<noteq> '''' \<and> (case cst_cached (tl_store L) of Some c \<Rightarrow> cr_refresh_token c = t | None \<Rightarrow> False)"

lemma on_store_get_cached:
  "cst_cached (tl_store L) = Some c \<Longrightarrow> on_store cst_get L = Ret c L"
  by (simp add: on_store_def cst_get_def)

lemma refresh_outage:
  assumes "has_refresh_token t L" and "outage (te_post env t)" and "te_lock_ok env" and "\<not> tl_refresh_disabled L"
  shows "\<exists>kind. tl_force_refresh env L = Exc (TokenRefreshError True) (tl_record_auth_failure env True kind L)"
proof -
  from assms(1) obtain c where c: "cst_cached (tl_store L) = Some c" "cr_refresh_token c = t" "t \<noteq> ''''"
    by (auto simp: has_refresh_token_def split: option.splits)
  show ?thesis
    using assms(2-4) c
    by (auto simp: tl_force_refresh_def tl_do_refresh_def tl_do_refresh_inner_def on_store_get_cached Let_def
        outage_def split: oauth_reply.splits)
qed

text \<open>A sequence of forced refreshes, each in its own environment.\<close>

fun tl_attempts :: "token_env list \<Rightarrow> token_lifecycle \<Rightarrow> token_lifecycle" where
  "tl_attempts [] L = L"
| "tl_attempts (env # envs) L = tl_attempts envs (state_of (tl_force_refresh env L))"

text \<open>What an outage leaves alone: everything but the counter and the kill switch.\<close>

definition tokens_of where
  "tokens_of L = (tl_store L, tl_access_token L, tl_expires_at L, tl_issued_at L, tl_threshold L, tl_refresh_disabled L)"

lemma record_failure_frame [simp]:
  "tokens_of (tl_record_auth_failure env b kind L) = tokens_of L"
  "tl_failures (tl_record_auth_failure env b kind L) = tl_failures L + (if b then 1 else 0)"
  by (simp_all add: tl_record_auth_failure_def tl_arm_global_freeze_def tokens_of_def Let_def split: option.splits)

lemma has_refresh_token_tokens: "tokens_of L = tokens_of L' \<Longrightarrow> has_refresh_token t L = has_refresh_token t L'"
  by (simp add: tokens_of_def has_refresh_token_def)

text \<open>The kill switch after a counted failure: frozen from the threshold on, untouched before.\<close>

lemma record_failure_switch:
  "tl_kill_switch L = Some ks \<Longrightarrow> \<exists>ks'. tl_kill_switch (tl_record_auth_failure env True kind L) = Some ks' \<and>
     ks_disabled ks' = ks_disabled ks \<and>
     (if tl_threshold L \<le> tl_failures L + 1
      then \<not> ks_disabled ks \<longrightarrow> ks_is_globally_frozen ks' \<and> \<not> ks_is_globally_killed ks' \<and> ks_blocked ks' \<and>
             gk_positions_closed (ks_state ks') = PBool True
      else ks' = ks)"
  by (auto simp: tl_record_auth_failure_def tl_arm_global_freeze_def freeze_state ks_queries
      ks_blocked_def Let_def split: option.splits)

lemma attempts_outage:
  assumes "list_all (\<lambda>env. outage (te_post env t) \<and> te_lock_ok env) envs"
    and "has_refresh_token t L" and "\<not> tl_refresh_disabled L" and "tl_kill_switch L = Some ks" and "\<not> ks_disabled ks"
  shows "tokens_of (tl_attempts envs L) = tokens_of L \<and>
    tl_failures (tl_attempts envs L) = tl_failures L + int (length envs) \<and>
    (\<exists>ks'. tl_kill_switch (tl_attempts envs L) = Some ks' \<and> \<not> ks_disabled ks' \<and>
      (if envs \<noteq> [] \<and> tl_threshold L \<le> tl_failures L + int (length envs)
       then ks_is_globally_frozen ks' \<and> \<not> ks_is_globally_killed ks' \<and> ks_blocked ks' \<and>
            gk_positions_closed (ks_state ks') = PBool True
       else ks' = ks))"
  using assms
proof (induction envs arbitrary: L ks rule: rev_induct)
  case Nil
  then show ?case by simp
next
  case (snoc env envs)
  have app: "tl_attempts (xs @ [env]) K = state_of (tl_force_refresh env (tl_attempts xs K))" for xs K
    by (induction xs arbitrary: K) simp_all
  let ?K = "tl_attempts envs L"
  from snoc.prems(1) have envs: "list_all (\<lambda>env. outage (te_post env t) \<and> te_lock_ok env) envs"
    and env: "outage (te_post env t)" "te_lock_ok env" by simp_all
  from snoc.IH [OF envs snoc.prems(2-5)] obtain ks' where K: "tokens_of ?K = tokens_of L"
    "tl_failures ?K = tl_failures L + int (length envs)" "tl_kill_switch ?K = Some ks'" "\<not> ks_disabled ks'"
    "if envs \<noteq> [] \<and> tl_threshold L \<le> tl_failures L + int (length envs)
     then ks_is_globally_frozen ks' \<and> \<not> ks_is_globally_killed ks' \<and> ks_blocked ks' \<and>
          gk_positions_closed (ks_state ks') = PBool True
     else ks' = ks"
    by blast
  have "has_refresh_token t ?K" "\<not> tl_refresh_disabled ?K" "tl_threshold ?K = tl_threshold L"
    using has_refresh_token_tokens [OF K(1), of t] K(1) snoc.prems(2,3) by (simp_all add: tokens_of_def)
  note frame = this
  from refresh_outage [OF frame(1) env frame(2)] obtain kind where
    step: "state_of (tl_force_refresh env ?K) = tl_record_auth_failure env True kind ?K" by auto
  from record_failure_switch [OF K(3), of env kind] obtain ks'' where
    ks'': "tl_kill_switch (tl_record_auth_failure env True kind ?K) = Some ks''" "ks_disabled ks'' = ks_disabled ks'"
    "if tl_threshold L \<le> tl_failures ?K + 1
     then \<not> ks_disabled ks' \<longrightarrow> ks_is_globally_frozen ks'' \<and> \<not> ks_is_globally_killed ks'' \<and> ks_blocked ks'' \<and>
            gk_positions_closed (ks_state ks'') = PBool True
     else ks'' = ks'"
    using frame(3) by auto
  have frozen: "ks_is_globally_frozen ks'' \<and> \<not> ks_is_globally_killed ks'' \<and> ks_blocked ks'' \<and>
      gk_positions_closed (ks_state ks'') = PBool True" if "tl_threshold L \<le> tl_failures L + int (length envs) + 1"
    using ks''(3) K(2,4) that by simp
  have kept: "ks'' = ks" if "\<not> tl_threshold L \<le> tl_failures L + int (length envs) + 1"
  proof -
    have "\<not> tl_threshold L \<le> tl_failures L + int (length envs)" using that by linarith
    with K(2,5) ks''(3) that show ?thesis by simp
  qed
  have "tl_failures L + int (length (envs @ [env])) = tl_failures L + int (length envs) + 1" by simp
  with frozen kept K(1,2,4) ks''(1,2) show ?case
    unfolding app step by (simp only: record_failure_frame) auto
qed

text \<open>
  C27. An outage of the token endpoint stops trading, at the threshold and not before. If each of \<open>n\<close>
  refreshes in a row ends in a network error or a server error, every token stays as it was, and
  an enabled kill switch is untouched after fewer failures than the threshold and globally frozen
  (trading blocked) from the threshold on. Statuses below 500 are never counted.
\<close>

theorem token_outage_freezes:
  assumes "list_all (\<lambda>env. outage (te_post env t) \<and> te_lock_ok env) envs" and "envs \<noteq> []"
    and "has_refresh_token t L" and "\<not> tl_refresh_disabled L" and "tl_failures L = 0"
    and "tl_kill_switch L = Some ks" and "\<not> ks_disabled ks"
  shows "tokens_of (tl_attempts envs L) = tokens_of L \<and>
    (\<exists>ks'. tl_kill_switch (tl_attempts envs L) = Some ks' \<and>
      (if int (length envs) < tl_threshold L then ks' = ks else ks_is_globally_frozen ks' \<and> ks_blocked ks'))"
  using attempts_outage [OF assms(1,3,4,6,7)] assms(2,5) by (auto split: if_splits)

definition down_env :: token_env where
  "down_env = \<lparr>te_now = 0, te_lock_ok = True, te_write_ok = True, te_post = (\<lambda>t. Status 503),
     te_validate = (\<lambda>t. ValidationError), te_ks = prod_env\<rparr>"

definition demo_credentials :: credentials where
  "demo_credentials = with_tokens ''acc'' ''ref'' day_us (blank_credentials\<lparr>cr_client_id := ''id''\<rparr>)"

definition demo_lifecycle :: "kill_switch option \<Rightarrow> token_lifecycle" where
  "demo_lifecycle ks = \<lparr>tl_store = \<lparr>cst_file = Some demo_credentials, cst_cached = Some demo_credentials\<rparr>,
     tl_client_id = ''id'', tl_client_secret = '''', tl_threshold = DEFAULT_AUTH_FAILURE_THRESHOLD,
     tl_kill_switch = ks, tl_access_token = ''acc'', tl_expires_at = Some day_us, tl_issued_at = 0, tl_strict = False,
     tl_failures = 0, tl_refresh_disabled = False\<rparr>"

lemmas demo_token_defs = demo_lifecycle_def demo_credentials_def with_tokens_def blank_credentials_def
  down_env_def DEFAULT_AUTH_FAILURE_THRESHOLD_def

lemma demo_has_refresh_token: "has_refresh_token ''ref'' (demo_lifecycle ks)"
  by (simp add: has_refresh_token_def demo_token_defs)

theorem token_outage_freezes_witness:
  "(\<exists>ks'. tl_kill_switch (tl_attempts (replicate 4 down_env) (demo_lifecycle (Some fresh_ks))) = Some ks' \<and> ks' = fresh_ks) \<and>
   (\<exists>ks'. tl_kill_switch (tl_attempts (replicate 5 down_env) (demo_lifecycle (Some fresh_ks))) = Some ks' \<and>
      ks_is_globally_frozen ks')"
proof -
  have down: "list_all (\<lambda>env. outage (te_post env t) \<and> te_lock_ok env) (replicate n down_env)" for t n
    by (simp add: list_all_iff outage_def down_env_def)
  have L: "\<not> tl_refresh_disabled (demo_lifecycle (Some fresh_ks))" "tl_failures (demo_lifecycle (Some fresh_ks)) = 0"
    "tl_kill_switch (demo_lifecycle (Some fresh_ks)) = Some fresh_ks"
    "tl_threshold (demo_lifecycle (Some fresh_ks)) = 5"
    by (simp_all add: demo_token_defs)
  have "replicate 4 down_env \<noteq> []" "replicate 5 down_env \<noteq> []" by simp_all
  from token_outage_freezes [OF down this(1) demo_has_refresh_token L(1-3) fresh_ks_enabled]
    token_outage_freezes [OF down this(2) demo_has_refresh_token L(1-3) fresh_ks_enabled]
  show ?thesis by (simp add: L(4)) blast
qed

text \<open>
  The freeze of an outage replaces a kill. When the kill switch is already in a global kill whose
  positions are still open, reaching the threshold downgrades it to a freeze, and the record says
  from then on that the positions are closed.
\<close>

theorem token_outage_overrides_kill:
  assumes "list_all (\<lambda>env. outage (te_post env t) \<and> te_lock_ok env) envs"
    and "envs \<noteq> []" and "tl_threshold L \<le> int (length envs)"
    and "has_refresh_token t L" and "\<not> tl_refresh_disabled L" and "tl_failures L = 0"
    and "tl_kill_switch L = Some ks" and "ks_is_globally_killed ks"
  shows "\<exists>ks'. tl_kill_switch (tl_attempts envs L) = Some ks' \<and> \<not> ks_is_globally_killed ks' \<and>
    ks_is_globally_frozen ks' \<and> gk_positions_closed (ks_state ks') = PBool True"
proof -
  have "\<not> ks_disabled ks" using assms(8) by (simp add: ks_is_globally_killed_def split: if_splits)
  from attempts_outage [OF assms(1,4,5,7) this] assms(2,3,6) show ?thesis by auto
qed

theorem token_outage_overrides_kill_witness:
  "let ks = ks_step fresh_ks (prod_env, OpKill [] ''api'' True) in
   ks_is_globally_killed ks \<and> gk_positions_closed (ks_state ks) = PBool False \<and>
   (\<exists>ks'. tl_kill_switch (tl_attempts (replicate 5 down_env) (demo_lifecycle (Some ks))) = Some ks' \<and>
      \<not> ks_is_globally_killed ks' \<and> gk_positions_closed (ks_state ks') = PBool True)"
proof -
  define ks where "ks = ks_step fresh_ks (prod_env, OpKill [] ''api'' True)"
  have down: "list_all (\<lambda>env. outage (te_post env ''ref'') \<and> te_lock_ok env) (replicate 5 down_env)"
    by (simp add: list_all_iff outage_def down_env_def)
  have k: "ks_is_globally_killed ks" "gk_positions_closed (ks_state ks) = PBool False"
    by (simp_all add: ks_def kill_state ks_queries fresh_ks_def)
  have L: "tl_threshold (demo_lifecycle (Some ks)) \<le> int (length (replicate 5 down_env))"
    "\<not> tl_refresh_disabled (demo_lifecycle (Some ks))" "tl_failures (demo_lifecycle (Some ks)) = 0"
    "tl_kill_switch (demo_lifecycle (Some ks)) = Some ks"
    by (simp_all add: demo_token_defs)
  have "replicate 5 down_env \<noteq> []" by simp
  from token_outage_overrides_kill [OF down this L(1) demo_has_refresh_token L(2-4) k(1)] k show ?thesis
    unfolding Let_def ks_def [symmetric] by blast
qed

section \<open>A successful refresh\<close>

lemma timedelta_3600: "timedelta_seconds (PInt 3600) = Inr (3600 * second_us)"
proof -
  have "round_half_even (of_int 3600000000) = 3600000000" by (rule round_half_even_of_int)
  then show ?thesis by (simp add: timedelta_seconds_def)
qed

text \<open>
  A refresh that the endpoint grants takes effect everywhere at once. It returns the granted
  access token; memory, cache and file hold that token, the granted refresh token (the old one
  when none came) and the expiry computed from the granted lifetime; the failure count is zero and
  the kill switch is left alone, frozen or not. A process started afterwards on the file
  gets the same token and expiry.
\<close>

theorem token_refresh_installs:
  fixes L :: token_lifecycle and t now_k
  assumes "has_refresh_token t L" and "te_post env t = OkBody body"
    and "te_lock_ok env" and "te_write_ok env" and "\<not> tl_refresh_disabled L"
    and "access = token_field (ob_accessToken body) (ob_access_token body)" and "access \<noteq> ''''"
    and "\<not> tl_strict L \<or> tl_validate_token env access"
    and "timedelta_seconds (expires_field body) = Inr d"
  defines "returned \<equiv> token_field (ob_refreshToken body) (ob_refresh_token body)"
  defines "refresh \<equiv> if returned = '''' then t else returned"
  shows "\<exists>L'. tl_force_refresh env L = Ret access L' \<and>
    tl_access_token L' = access \<and> tl_expires_at L' = Some (te_now env + d) \<and> tl_failures L' = 0 \<and>
    tl_kill_switch L' = tl_kill_switch L \<and> has_refresh_token refresh L' \<and>
    tl_is_valid (te_now env) L' = (REFRESH_BUFFER < d) \<and>
    (\<exists>K. tl_init \<lparr>cst_file = cst_file (tl_store L'), cst_cached = None\<rparr> strict threshold switch now_k = Inr K \<and>
      tl_access_token K = access \<and> tl_expires_at K = Some (te_now env + d) \<and> has_refresh_token refresh K)"
proof -
  from assms(1) obtain c where c: "cst_cached (tl_store L) = Some c" "cr_refresh_token c = t" "t \<noteq> ''''"
    by (auto simp: has_refresh_token_def split: option.splits)
  have refresh: "refresh \<noteq> ''''" using c(3) by (simp add: refresh_def)
  let ?file = "with_tokens access refresh (te_now env + d) (or_default (cst_file (tl_store L)) blank_credentials)"
  let ?st = "\<lparr>cst_file = Some ?file, cst_cached = Some (with_tokens access refresh (te_now env + d) c)\<rparr>"
  let ?L = "L\<lparr>tl_store := ?st, tl_access_token := access, tl_expires_at := Some (te_now env + d),
      tl_issued_at := te_now env, tl_failures := 0\<rparr>"
  have update: "cst_update_tokens (te_now env) True access refresh (expires_field body) (tl_store L) = Ret () ?st"
    using assms(9) c(1) by (simp add: cst_update_tokens_def Let_def)
  have "tl_accept_tokens env t body L = Ret access ?L"
    using assms(4,6,7,8) update
    by (auto simp: tl_accept_tokens_def returned_def refresh_def on_store_def cst_get_def with_tokens_def Let_def)
  then have res: "tl_force_refresh env L = Ret access ?L"
    using assms(2,3,5) c by (simp add: tl_force_refresh_def tl_do_refresh_def tl_do_refresh_inner_def
        on_store_get_cached)
  show ?thesis
    by (intro exI [of _ ?L]) (use assms(7) refresh in \<open>simp add: res has_refresh_token_def tl_is_valid_def tl_init_def
        cst_get_def cst_load_def with_tokens_def\<close>)
qed

definition granting_env :: "pyv option \<Rightarrow> token_env" where
  "granting_env lifetime = down_env\<lparr>te_now := 2 * day_us, te_post := (\<lambda>t. OkBody
     \<lparr>ob_accessToken = Some ''acc2'', ob_access_token = None, ob_refreshToken = Some ''ref2'', ob_refresh_token = None,
      ob_expiresIn = lifetime, ob_expires_in = None\<rparr>)\<rparr>"

theorem token_refresh_installs_witness:
  "\<exists>L'. tl_force_refresh (granting_env (Some (PInt 3600))) (demo_lifecycle None) = Ret ''acc2'' L' \<and>
     tl_expires_at L' = Some (2 * day_us + 3600 * second_us) \<and> has_refresh_token ''ref2'' L'"
proof -
  have p: "te_post (granting_env (Some (PInt 3600))) ''ref'' = OkBody
     \<lparr>ob_accessToken = Some ''acc2'', ob_access_token = None, ob_refreshToken = Some ''ref2'', ob_refresh_token = None,
      ob_expiresIn = Some (PInt 3600), ob_expires_in = None\<rparr>" (is "_ = OkBody ?b")
    by (simp add: granting_env_def)
  have e: "te_lock_ok (granting_env (Some (PInt 3600)))" "te_write_ok (granting_env (Some (PInt 3600)))"
    "te_now (granting_env (Some (PInt 3600))) = 2 * day_us"
    by (simp_all add: granting_env_def down_env_def)
  have L: "\<not> tl_refresh_disabled (demo_lifecycle None)"
    "\<not> tl_strict (demo_lifecycle None) \<or> tl_validate_token (granting_env (Some (PInt 3600))) ''acc2''"
    by (simp_all add: demo_token_defs)
  have f: "''acc2'' = token_field (ob_accessToken ?b) (ob_access_token ?b)" "''acc2'' \<noteq> ''''"
    "timedelta_seconds (expires_field ?b) = Inr (3600 * second_us)"
    "token_field (ob_refreshToken ?b) (ob_refresh_token ?b) = ''ref2''"
    using timedelta_3600 by (simp_all add: token_field_def expires_field_def)
  from token_refresh_installs [OF demo_has_refresh_token p e(1,2) L(1) f(1,2) L(2) f(3),
      where strict = False and threshold = 5 and switch = None and now_k = 0] f(4) e(3)
  show ?thesis by auto
qed

text \<open>
  A granted lifetime within the refresh buffer of five days makes a token that is never valid: this
  includes the default of one hour that is used when the answer has no lifetime. The refresh
  succeeds, but at every later moment the token counts as expiring, so that every round of the
  timer and every \<open>ensure_valid\<close> calls the endpoint again.
\<close>

theorem token_default_lifetime_never_valid:
  assumes "has_refresh_token t L" and "te_post env t = OkBody body"
    and "ob_expiresIn body = None" and "ob_expires_in body = None"
    and "tl_force_refresh env L = Ret access L'" and "te_now env \<le> te_now later" and "\<not> tl_refresh_disabled L"
  shows "\<not> tl_is_valid (te_now later) L' \<and> tl_ensure_valid later L' = tl_do_refresh later False L'"
proof -
  from assms(1) obtain c where c: "cst_cached (tl_store L) = Some c" "cr_refresh_token c = t" "t \<noteq> ''''"
    by (auto simp: has_refresh_token_def split: option.splits)
  have d: "timedelta_seconds (expires_field body) = Inr (3600 * second_us)"
    using assms(3,4) timedelta_3600 by (simp add: expires_field_def)
  from assms(2,5,7) c have acc: "te_lock_ok env" "tl_accept_tokens env t body L = Ret access L'"
    by (auto simp: tl_force_refresh_def tl_do_refresh_def tl_do_refresh_inner_def on_store_get_cached split: if_splits)
  have "tl_expires_at L' = Some (te_now env + 3600 * second_us) \<and> \<not> tl_refresh_disabled L'"
    using acc(2) d assms(7)
    by (auto simp: tl_accept_tokens_def on_store_def cst_update_tokens_def cst_get_def with_tokens_def Let_def
        split: if_splits)
  then show ?thesis
    using assms(6) by (simp add: tl_is_valid_def REFRESH_BUFFER_def tl_ensure_valid_def)
qed

theorem token_default_lifetime_never_valid_witness:
  "\<exists>L'. tl_force_refresh (granting_env None) (demo_lifecycle None) = Ret ''acc2'' L' \<and>
     \<not> tl_is_valid (2 * day_us) L'"
proof -
  have p: "te_post (granting_env None) ''ref'' = OkBody
     \<lparr>ob_accessToken = Some ''acc2'', ob_access_token = None, ob_refreshToken = Some ''ref2'', ob_refresh_token = None,
      ob_expiresIn = None, ob_expires_in = None\<rparr>" (is "_ = OkBody ?b")
    by (simp add: granting_env_def)
  have now: "te_now (granting_env None) = 2 * day_us" by (simp add: granting_env_def)
  have "\<exists>L'. tl_force_refresh (granting_env None) (demo_lifecycle None) = Ret ''acc2'' L'"
    using timedelta_3600
    by (simp add: tl_force_refresh_def tl_do_refresh_def tl_do_refresh_inner_def tl_accept_tokens_def on_store_def
        cst_get_def cst_update_tokens_def token_field_def expires_field_def granting_env_def demo_token_defs Let_def)
  then obtain L' where L': "tl_force_refresh (granting_env None) (demo_lifecycle None) = Ret ''acc2'' L'" by blast
  have "\<not> tl_refresh_disabled (demo_lifecycle None)" by (simp add: demo_token_defs)
  from token_default_lifetime_never_valid [OF demo_has_refresh_token p _ _ L' order.refl this] L' now
  show ?thesis by auto
qed

section \<open>Several processes\<close>

text \<open>
  The check for a refresh by another process cannot see one. \<open>_sync_from_store\<close> reads the
  credential store's cache, not the file: when another process has written fresh tokens to the
  file, a process whose cached token is expiring still sends its old refresh token, and if the
  endpoint has revoked that one (400), \<open>ensure_valid\<close> raises a permanent error although a valid
  token is in the file.
\<close>

theorem token_other_process_unseen:
  assumes "cst_cached (tl_store L) = Some old" and "tl_expires_at L = cr_expires_at old" and "tl_access_token L = cr_access_token old"
    and "cr_refresh_token old = t" and "t \<noteq> ''''" and "\<not> tl_is_valid (te_now env) L" and "te_lock_ok env"
    and "\<not> tl_refresh_disabled L" and "te_post env t = Status 400"
  shows "tl_ensure_valid env (L\<lparr>tl_store := (tl_store L)\<lparr>cst_file := Some fresh\<rparr>\<rparr>) =
    Exc (TokenRefreshError False) (L\<lparr>tl_store := (tl_store L)\<lparr>cst_file := Some fresh\<rparr>\<rparr>)"
proof -
  let ?L = "L\<lparr>tl_store := (tl_store L)\<lparr>cst_file := Some fresh\<rparr>\<rparr>"
  have get: "on_store cst_get ?L = Ret old ?L" using assms(1) by (simp add: on_store_get_cached)
  have "tl_sync_from_store ?L = Ret () ?L"
    using assms(2,3) by (simp add: tl_sync_from_store_def get)
  moreover have "\<not> tl_is_valid (te_now env) ?L" using assms(6) by (simp add: tl_is_valid_def)
  moreover have "tl_do_refresh_inner env ?L = Exc (TokenRefreshError False) ?L"
    using assms(4,5,9) by (simp add: tl_do_refresh_inner_def get)
  ultimately show ?thesis
    using assms(7,8) by (simp add: tl_ensure_valid_def tl_do_refresh_def)
qed

theorem token_other_process_unseen_witness:
  "let L = demo_lifecycle None; env = down_env\<lparr>te_post := (\<lambda>t. Status 400)\<rparr>;
       fresh = with_tokens ''acc3'' ''ref3'' (30 * day_us) demo_credentials in
   \<exists>L'. tl_ensure_valid env (L\<lparr>tl_store := (tl_store L)\<lparr>cst_file := Some fresh\<rparr>\<rparr>) = Exc (TokenRefreshError False) L'"
  using token_other_process_unseen [of "demo_lifecycle None" demo_credentials "''ref''"
      "down_env\<lparr>te_post := (\<lambda>t. Status 400)\<rparr>"]
  by (simp add: demo_token_defs tl_is_valid_def REFRESH_BUFFER_def)

end
