(* ===== verification/Permission.thy ===== *)
theory Permission
  imports KillSwitchSafety Calendar
begin

text \<open>
  The gates right before the broker: the execution permission policy
  (\<open>adapters/ctrader/execution_permission.py\<close>) over the kill switch manager, the volume conversions and
  limits (\<open>adapters/ctrader/volume_calculator.py\<close>), and the weekly market hours
  (\<open>adapters/ctrader/market_hours.py\<close>).
\<close>

section \<open>Execution permission\<close>

datatype broker_op = SendOrder | CancelOrder | AmendOrder | AmendSlTp | ClosePosition

fun op_name :: "broker_op \<Rightarrow> string" where
  "op_name SendOrder = ''send_order''"
| "op_name CancelOrder = ''cancel_order''"
| "op_name AmendOrder = ''amend_order''"
| "op_name AmendSlTp = ''amend_sl_tp''"
| "op_name ClosePosition = ''close_position''"

text \<open>
  The value of \<open>mode\<close> in an f-string: a string as it is; the other values a hand-edited state file
  can hold are told apart but not spelled out.
\<close>

fun mode_text :: "pyv \<Rightarrow> ptext" where
  "mode_text (PStr t) = t"
| "mode_text (PInt i) = [FInt i]"
| "mode_text (PFloat x) = [FFloat x]"
| "mode_text (PBool b) = [Lit (if b then ''True'' else ''False'')]"
| "mode_text PNone = [Lit ''None'']"
| "mode_text (PList xs) = [Lit ''list'']"
| "mode_text (PDict d) = [Lit ''dict'']"

definition status_mode :: "pyv \<Rightarrow> pyv" where
  "status_mode status = (case status of PDict d \<Rightarrow> dget_or d ''mode'' (pstr ''unknown'') | _ \<Rightarrow> PNone)"

text \<open>
  The policy holds the manager or None. No call in the body can raise in the model: the status of a
  kill switch is always a dictionary.
\<close>

definition check_kill_switch :: "broker_op \<Rightarrow> kill_switch option \<Rightarrow> bool \<times> ptext" where
  "check_kill_switch op policy =
     (case policy of
        None \<Rightarrow> (False, [Lit ''policy:not_initialized:'', Lit (op_name op)])
      | Some ks \<Rightarrow>
          if \<not> ks_is_active ks then (True, [Lit ''clear''])
          else (False, [Lit ''kill_switch_active:''] @ mode_text (status_mode (ks_get_status ks)) @
                       [Lit '':'', Lit (op_name op)]))"

definition can_send_order :: "kill_switch option \<Rightarrow> bool \<times> ptext" where
  "can_send_order = check_kill_switch SendOrder"

definition can_cancel_order :: "kill_switch option \<Rightarrow> bool \<times> ptext" where
  "can_cancel_order = check_kill_switch CancelOrder"

definition can_amend_order :: "kill_switch option \<Rightarrow> bool \<times> ptext" where
  "can_amend_order = check_kill_switch AmendOrder"

definition can_amend_sl_tp :: "kill_switch option \<Rightarrow> bool \<times> ptext" where
  "can_amend_sl_tp = check_kill_switch AmendSlTp"

definition can_close_position :: "kill_switch option \<Rightarrow> bool \<times> ptext" where
  "can_close_position = check_kill_switch ClosePosition"

text \<open>A policy is the gate of the operation: the first component of its answer.\<close>

definition permits :: "kill_switch option \<Rightarrow> broker_op \<Rightarrow> bool" where
  "permits policy op = fst (case op of
      SendOrder \<Rightarrow> can_send_order policy
    | CancelOrder \<Rightarrow> can_cancel_order policy
    | AmendOrder \<Rightarrow> can_amend_order policy
    | AmendSlTp \<Rightarrow> can_amend_sl_tp policy
    | ClosePosition \<Rightarrow> can_close_position policy)"

lemma permits_iff: "permits policy op \<longleftrightarrow> (\<exists>ks. policy = Some ks \<and> \<not> ks_is_active ks)"
  by (cases op; cases policy)
    (simp_all add: permits_def check_kill_switch_def can_send_order_def can_cancel_order_def can_amend_order_def
      can_amend_sl_tp_def can_close_position_def)

text \<open>
  C28. No broker operation of any kind passes while trading is stopped: from a global kill or freeze of
  an enabled kill switch on, through any operations on it but \<open>deactivate\<close> (failed writes and
  harness refusals included), every one of the five gates denies, the close of a position included;
  and without a kill switch every gate denies always.
\<close>

theorem permission_denied_while_stopped:
  assumes "\<not> ks_disabled ks" and "stop = OpKill r b c \<or> stop = OpFreeze r b" and "list_all not_deactivate es"
  shows "\<not> permits (Some (foldl ks_step (ks_step ks (env, stop)) es)) op \<and> \<not> permits None op"
proof -
  have "ks_blocked (ks_step ks (env, stop))"
    using assms(1,2) by (auto simp: kill_blocked freeze_blocked)
  from blocked_machine.run_inv [OF this assms(3)] show ?thesis
    by (simp add: permits_iff ks_blocked_def)
qed

theorem permission_denied_while_stopped_witness:
  "\<not> permits (Some (foldl ks_step (ks_step fresh_ks (prod_env, OpKill [] ''api'' True))
     [(prod_env, OpFreeze [] ''ftmo''), (prod_env, OpPositionsClosed 0)])) ClosePosition"
  using permission_denied_while_stopped [OF fresh_ks_enabled, of "OpKill [] ''api'' True" "[]" "''api''" True
      "[(prod_env, OpFreeze [] ''ftmo''), (prod_env, OpPositionsClosed 0)]" prod_env ClosePosition]
  by simp

section \<open>Volumes\<close>

record symbol_meta =
  sy_symbol_id :: int
  sy_name :: string
  sy_pip_size :: flt
  sy_digits :: int
  sy_lot_size :: int
  sy_min_volume :: int
  sy_max_volume :: int
  sy_step_volume :: int

type_synonym symbol_table = "(int \<times> symbol_meta) list"

definition lots_to_volume :: "symbol_table \<Rightarrow> int \<Rightarrow> flt \<Rightarrow> pyexn + int" where
  "lots_to_volume symbols symbol_id lots =
     (case map_of symbols symbol_id of
        None \<Rightarrow> Inl ValueError
      | Some si \<Rightarrow> Inr (round_half_even (lots * of_int (sy_lot_size si))))"

definition volume_to_lots :: "symbol_table \<Rightarrow> int \<Rightarrow> int \<Rightarrow> pyexn + flt" where
  "volume_to_lots symbols symbol_id volume =
     (case map_of symbols symbol_id of
        None \<Rightarrow> Inl ValueError
      | Some si \<Rightarrow>
          if sy_lot_size si = 0 then Inl ZeroDivisionError
          else Inr (of_int volume / of_int (sy_lot_size si)))"

definition validate_volume :: "symbol_table \<Rightarrow> int \<Rightarrow> int \<Rightarrow> bool \<times> ptext" where
  "validate_volume symbols symbol_id volume =
     (case map_of symbols symbol_id of
        None \<Rightarrow> (False, [Lit ''Unknown symbol_id: '', FInt symbol_id])
      | Some si \<Rightarrow>
          if sy_min_volume si \<noteq> 0 \<and> volume < sy_min_volume si then
            (False, [Lit ''Volume '', FInt volume, Lit '' < min '', FInt (sy_min_volume si)])
          else if sy_max_volume si \<noteq> 0 \<and> volume > sy_max_volume si then
            (False, [Lit ''Volume '', FInt volume, Lit '' > max '', FInt (sy_max_volume si)])
          else if sy_step_volume si \<noteq> 0 \<and> sy_step_volume si > 0 \<and> volume mod sy_step_volume si \<noteq> 0 then
            (False, [Lit ''Volume '', FInt volume, Lit '' not aligned to step '', FInt (sy_step_volume si)])
          else (True, [Lit ''OK'']))"

definition price_from_raw :: "symbol_table \<Rightarrow> int \<Rightarrow> int \<Rightarrow> flt" where
  "price_from_raw symbols symbol_id raw_price =
     (case map_of symbols symbol_id of
        None \<Rightarrow> of_int raw_price / 100000
      | Some si \<Rightarrow>
          if sy_digits si \<ge> 0 then of_int raw_price / 10 ^ nat (sy_digits si)
          else of_int raw_price * 10 ^ nat (- sy_digits si))"

text \<open>
  Volumes survive the trip through lots unchanged, and lots come back from a volume within half a
  unit; the volume a validated order of at least half a unit is sent with lies between the
  symbol's limits and on its step.
\<close>

theorem volume_roundtrip:
  assumes "map_of symbols i = Some si" and "0 < sy_lot_size si"
  shows "(\<exists>lots. volume_to_lots symbols i v = Inr lots \<and> lots_to_volume symbols i lots = Inr v) \<and>
    (\<exists>w back. lots_to_volume symbols i x = Inr w \<and> volume_to_lots symbols i w = Inr back \<and>
       \<bar>back - x\<bar> \<le> 1 / (2 * of_int (sy_lot_size si))) \<and>
    (fst (validate_volume symbols i v) \<longleftrightarrow>
       (sy_min_volume si = 0 \<or> sy_min_volume si \<le> v) \<and> (sy_max_volume si = 0 \<or> v \<le> sy_max_volume si) \<and>
       (sy_step_volume si \<le> 0 \<or> sy_step_volume si dvd v))"
proof -
  let ?n = "of_int (sy_lot_size si) :: flt"
  have n: "0 < ?n" using assms(2) by simp
  have exact: "lots_to_volume symbols i (of_int v / ?n) = Inr v"
    using assms(1) n by (simp add: lots_to_volume_def)
  let ?w = "round_half_even (x * ?n)"
  have "of_int ?w / ?n - x = (of_int ?w - x * ?n) / ?n" using n by (simp add: field_simps)
  then have "\<bar>of_int ?w / ?n - x\<bar> = \<bar>of_int ?w - x * ?n\<bar> / ?n" using n by (simp add: abs_divide)
  also have "\<dots> \<le> (1 / 2) / ?n" by (rule divide_right_mono [OF round_half_even_near]) (use n in simp)
  finally have near: "\<bar>of_int ?w / ?n - x\<bar> \<le> 1 / (2 * ?n)" by simp
  show ?thesis
    using assms exact near
    by (auto simp: volume_to_lots_def lots_to_volume_def validate_volume_def dvd_eq_mod_eq_0)
qed

theorem volume_roundtrip_witness:
  "let eurusd = \<lparr>sy_symbol_id = 1, sy_name = ''EURUSD'', sy_pip_size = 1/10000, sy_digits = 5, sy_lot_size = 100000,
       sy_min_volume = 1000, sy_max_volume = 0, sy_step_volume = 1000\<rparr> in
   fst (validate_volume [(1, eurusd)] 1 25000) \<and>
   (\<exists>lots. volume_to_lots [(1, eurusd)] 1 25000 = Inr lots \<and> lots_to_volume [(1, eurusd)] 1 lots = Inr 25000)"
proof -
  let ?e = "\<lparr>sy_symbol_id = 1, sy_name = ''EURUSD'', sy_pip_size = 1/10000, sy_digits = 5, sy_lot_size = 100000,
       sy_min_volume = 1000, sy_max_volume = 0, sy_step_volume = 1000\<rparr>"
  from volume_roundtrip [of "[(1, ?e)]" 1 ?e 25000 0] show ?thesis by simp
qed

section \<open>Market hours\<close>

definition WEEKEND_CLOSE_HOUR_UTC :: int where "WEEKEND_CLOSE_HOUR_UTC = 22"
definition WEEKEND_OPEN_HOUR_UTC :: int where "WEEKEND_OPEN_HOUR_UTC = 21"

text \<open>The optional argument is read by its wall clock; without it the UTC clock is read.\<close>

fun dt_wall :: "py_datetime \<Rightarrow> int" where
  "dt_wall (Naive w) = w"
| "dt_wall (Aware w off) = w"

definition is_forex_market_closed :: "instant \<Rightarrow> py_datetime option \<Rightarrow> bool" where
  "is_forex_market_closed clock arg =
     (let now = dt_wall (case arg of Some d \<Rightarrow> d | None \<Rightarrow> Aware clock 0);
          day = weekday now; hour = hour_of now
      in if day = 4 \<and> hour \<ge> WEEKEND_CLOSE_HOUR_UTC then True
         else if day = 5 then True
         else if day = 6 \<and> hour < WEEKEND_OPEN_HOUR_UTC then True
         else False)"

abbreviation week_us :: int where "week_us \<equiv> 604800000000"

text \<open>Time since the last Friday 22:00 (the epoch was a Thursday, 46 hours before the first one).\<close>

definition since_close :: "instant \<Rightarrow> int" where
  "since_close t = (t - 46 * hour_us) mod week_us"

lemma le_zdiv_iff: "0 < c \<Longrightarrow> a \<le> r div c \<longleftrightarrow> a * c \<le> r" for a r c :: int
proof
  assume c: "0 < c" and "a \<le> r div c"
  then have "a * c \<le> r div c * c" by (intro mult_right_mono) auto
  also have "\<dots> \<le> r" using c pos_mod_sign [OF c, of r] div_mult_mod_eq [of r c] by linarith
  finally show "a * c \<le> r" .
next
  assume c: "0 < c" and "a * c \<le> r"
  then show "a \<le> r div c" using zdiv_mono1 [of "a * c" r c] by simp
qed

lemma zdiv_less_iff: "0 < c \<Longrightarrow> r div c < a \<longleftrightarrow> r < a * c" for a r c :: int
  using le_zdiv_iff [of c a r] by linarith


end
