(* ===== verification/Tracking.thy ===== *)
theory Tracking
  imports Prelude
begin

text \<open>
  The position tracker (\<open>adapters/ctrader/position_tracker.py\<close>): positions opened, priced and closed
  by broker events, and the reconciliation with the broker; and the read-only comparison of the
  two risk state files (\<open>adapters/ctrader/risk_state_reconciliation.py\<close>).
\<close>

section \<open>The position tracker\<close>

definition CONTRACT_SIZE :: flt where "CONTRACT_SIZE = 100000"

text \<open>The status of a tracked position: the tracker only ever writes the first one.\<close>

datatype tracked_status = TrackedOpen | TrackedClosed | TrackedTpHit | TrackedSlHit

record tracked =
  tk_position_id :: string
  tk_symbol :: string
  tk_direction :: string
  tk_volume :: flt
  tk_entry_price :: flt
  tk_current_price :: flt
  tk_stop_loss :: "flt option"
  tk_take_profit :: "flt option"
  tk_pnl :: flt
  tk_status :: tracked_status

type_synonym tracker = "(int \<times> tracked) list"

definition compute_pnl :: "string \<Rightarrow> flt \<Rightarrow> flt \<Rightarrow> flt \<Rightarrow> flt" where
  "compute_pnl direction entry_price current_price volume =
     (let units = volume * CONTRACT_SIZE in
      if py_upper direction = ''BUY'' \<or> py_upper direction = ''LONG''
      then py_round2 ((current_price - entry_price) * units)
      else py_round2 ((entry_price - current_price) * units))"

definition tr_on_position_opened ::
  "int \<Rightarrow> string \<Rightarrow> string \<Rightarrow> flt \<Rightarrow> flt \<Rightarrow> flt option \<Rightarrow> flt option \<Rightarrow> tracker \<Rightarrow> tracker" where
  "tr_on_position_opened position_id symbol direction volume entry_price sl tp ps =
     AList.update position_id
       \<lparr>tk_position_id = py_str_int position_id, tk_symbol = symbol, tk_direction = direction,
        tk_volume = volume, tk_entry_price = entry_price, tk_current_price = entry_price,
        tk_stop_loss = sl, tk_take_profit = tp, tk_pnl = 0, tk_status = TrackedOpen\<rparr> ps"

definition tr_on_position_closed :: "int \<Rightarrow> flt \<Rightarrow> tracker \<Rightarrow> tracker" where
  "tr_on_position_closed position_id pnl ps = AList.delete position_id ps"

definition tr_get_open_positions :: "tracker \<Rightarrow> tracked list" where
  "tr_get_open_positions ps = map snd ps"

definition tr_get_position :: "int \<Rightarrow> tracker \<Rightarrow> tracked option" where
  "tr_get_position position_id ps = map_of ps position_id"

definition reprice :: "(string \<times> flt) list \<Rightarrow> tracked \<Rightarrow> tracked" where
  "reprice prices p =
     (case map_of prices (tk_symbol p) of
        None \<Rightarrow> p
      | Some price \<Rightarrow>
          p\<lparr>tk_current_price := price,
            tk_pnl := compute_pnl (tk_direction p) (tk_entry_price p) price (tk_volume p)\<rparr>)"

definition tr_update_prices :: "(string \<times> flt) list \<Rightarrow> tracker \<Rightarrow> tracker" where
  "tr_update_prices prices ps = map (\<lambda>(i, p). (i, reprice prices p)) ps"

subsection \<open>Reconciliation\<close>

text \<open>
  The attributes that are read of a position of the broker's answer; an absent attribute is None.
  The numbers of the message are numbers, so nothing in the parser raises.
\<close>

record raw_trade_data =
  td_symbol_id :: "int option"
  td_volume :: "flt option"

record raw_position =
  rp_position_id :: "int option"
  rp_trade_data :: "raw_trade_data option"
  rp_price :: "flt option"
  rp_stop_loss :: "flt option"
  rp_take_profit :: "flt option"

datatype reconcile_answer = SdkMissing | SendRaises | NoResponse | Response "raw_position list"

definition nonzero :: "flt option \<Rightarrow> flt option" where
  "nonzero x = (case x of Some v \<Rightarrow> if v \<noteq> 0 then Some v else None | None \<Rightarrow> None)"

definition parse_raw_position :: "raw_position \<Rightarrow> tracked" where
  "parse_raw_position raw =
     \<lparr>tk_position_id = (case rp_position_id raw of Some i \<Rightarrow> py_str_int i | None \<Rightarrow> ''''),
      tk_symbol = (case rp_trade_data raw of
          Some td \<Rightarrow> (case td_symbol_id td of Some i \<Rightarrow> py_str_int i | None \<Rightarrow> '''')
        | None \<Rightarrow> ''''),
      tk_direction = ''BUY'',
      tk_volume = (case rp_trade_data raw of Some td \<Rightarrow> or_default (td_volume td) 0 | None \<Rightarrow> 0) / CONTRACT_SIZE,
      tk_entry_price = or_default (rp_price raw) 0, tk_current_price = or_default (rp_price raw) 0,
      tk_stop_loss = nonzero (rp_stop_loss raw), tk_take_profit = nonzero (rp_take_profit raw),
      tk_pnl = 0, tk_status = TrackedOpen\<rparr>"

definition parse_reconcile_response :: "raw_position list \<Rightarrow> tracked list" where
  "parse_reconcile_response raws = map parse_raw_position raws"

definition tr_reconcile :: "reconcile_answer \<Rightarrow> tracker \<Rightarrow> tracked list" where
  "tr_reconcile answer ps =
     (let local_ids = map (\<lambda>(i, p). tk_position_id p) ps in
      case answer of
        SdkMissing \<Rightarrow> []
      | SendRaises \<Rightarrow> []
      | NoResponse \<Rightarrow> []
      | Response raws \<Rightarrow> filter (\<lambda>rp. \<not> List.member local_ids (tk_position_id rp)) (parse_reconcile_response raws))"

subsection \<open>Runs\<close>

datatype tracker_event =
    Opened int string string flt flt "flt option" "flt option"
  | Closed int flt
  | Prices "(string \<times> flt) list"

fun tr_step :: "tracker \<Rightarrow> tracker_event \<Rightarrow> tracker" where
  "tr_step ps (Opened i s d v e sl tp) = tr_on_position_opened i s d v e sl tp ps"
| "tr_step ps (Closed i pnl) = tr_on_position_closed i pnl ps"
| "tr_step ps (Prices m) = tr_update_prices m ps"

text \<open>The abstract tracker: the set of the positions that are open.\<close>

fun open_step :: "int set \<Rightarrow> tracker_event \<Rightarrow> int set" where
  "open_step A (Opened i s d v e sl tp) = insert i A"
| "open_step A (Closed i pnl) = A - {i}"
| "open_step A (Prices m) = A"

definition tracked_ok :: "int \<times> tracked \<Rightarrow> bool" where
  "tracked_ok = (\<lambda>(i, p). tk_position_id p = py_str_int i \<and> tk_status p = TrackedOpen \<and>
     tk_pnl p = compute_pnl (tk_direction p) (tk_entry_price p) (tk_current_price p) (tk_volume p))"

definition tracker_ok :: "tracker \<Rightarrow> bool" where
  "tracker_ok ps \<longleftrightarrow> distinct (map fst ps) \<and> list_all tracked_ok ps"

lemma py_round2_0 [simp]: "py_round2 0 = 0"
  by (simp add: py_round2_def round_half_even_def)

lemma list_all_update: "list_all P ps \<Longrightarrow> P (k, v) \<Longrightarrow> list_all P (AList.update k v ps)"
  by (induction ps) auto

lemma list_all_delete: "list_all P ps \<Longrightarrow> list_all P (AList.delete k ps)"
  by (induction ps) auto

lemma tracked_reprice: "tracked_ok (i, p) \<Longrightarrow> tracked_ok (i, reprice m p)"
  by (simp add: tracked_ok_def reprice_def split: option.splits)

lemma tracked_new:
  "tracked_ok (i, \<lparr>tk_position_id = py_str_int i, tk_symbol = s, tk_direction = d, tk_volume = v,
     tk_entry_price = x, tk_current_price = x, tk_stop_loss = sl, tk_take_profit = tp, tk_pnl = 0,
     tk_status = TrackedOpen\<rparr>)"
  by (simp add: tracked_ok_def compute_pnl_def Let_def)

lemma tracker_ok_step: "tracker_ok ps \<Longrightarrow> tracker_ok (tr_step ps e)"
proof (cases e)
  case (Opened i s d v en sl tp)
  moreover assume "tracker_ok ps"
  ultimately show ?thesis
    by (simp add: tracker_ok_def tr_on_position_opened_def distinct_update list_all_update tracked_new)
next
  case (Closed i pnl)
  moreover assume "tracker_ok ps"
  ultimately show ?thesis
    by (simp add: tracker_ok_def tr_on_position_closed_def list_all_delete distinct_delete)
next
  case (Prices m)
  moreover assume "tracker_ok ps"
  ultimately show ?thesis
    by (auto simp: tracker_ok_def tr_update_prices_def list_all_iff comp_def split_beta
        intro: tracked_reprice)
qed

lemma tracker_open_step: "set (map fst (tr_step ps e)) = open_step (set (map fst ps)) e"
  by (cases e) (auto simp: tr_on_position_opened_def tr_on_position_closed_def tr_update_prices_def
      dom_update [unfolded dom_map_of_conv_image_fst] delete_keys comp_def split_beta)

interpretation tracker_machine: invariant_machine tr_step "\<lambda>e. True" tracker_ok
  by unfold_locales (rule tracker_ok_step)

lemma tracker_open_run: "set (map fst (foldl tr_step ps es)) = foldl open_step (set (map fst ps)) es"
  by (induction es arbitrary: ps) (simp_all only: foldl_Nil foldl_Cons tracker_open_step [symmetric])


text \<open>
  What reconciliation reports: exactly the broker's positions whose number is not tracked, in the
  broker's order, each as a BUY whatever its side; a position that is tracked but unknown to the
  broker is never reported, so an answer with no positions reports nothing.
\<close>

theorem tracker_reconcile_one_way:
  fixes es :: "tracker_event list"
  assumes "\<forall>raw\<in>set raws. rp_position_id raw \<noteq> None"
  defines "ps \<equiv> foldl tr_step [] es"
  shows "tr_reconcile (Response raws) ps =
      map parse_raw_position (filter (\<lambda>raw. the (rp_position_id raw) \<notin> foldl open_step {} es) raws) \<and>
    list_all (\<lambda>p. tk_direction p = ''BUY'') (tr_reconcile (Response raws) ps) \<and>
    tr_reconcile (Response []) ps = []"
proof -
  have "tracker_ok []" by (simp add: tracker_ok_def)
  then have ok: "tracker_ok ps" unfolding ps_def by (rule tracker_machine.run_inv) (simp add: list_all_iff)
  have ids: "map (\<lambda>(i, p). tk_position_id p) ps = map (\<lambda>(i, p). py_str_int i) ps"
    using ok by (auto simp: tracker_ok_def tracked_ok_def list_all_iff)
  have mem: "List.member (map (\<lambda>(i, p). tk_position_id p) ps) (tk_position_id (parse_raw_position raw)) \<longleftrightarrow>
      the (rp_position_id raw) \<in> foldl open_step {} es" if raw: "raw \<in> set raws" for raw
  proof -
    obtain i where i: "rp_position_id raw = Some i" using assms(1) raw by blast
    have "List.member (map (\<lambda>(i, p). tk_position_id p) ps) (py_str_int i) \<longleftrightarrow> i \<in> set (map fst ps)"
      unfolding ids by (force simp: image_iff)
    with i show ?thesis using tracker_open_run [of "[]" es] by (simp add: parse_raw_position_def ps_def)
  qed
  have "filter ((\<lambda>rp. \<not> List.member (map (\<lambda>(i, p). tk_position_id p) ps) (tk_position_id rp)) \<circ> parse_raw_position) raws =
      filter (\<lambda>raw. the (rp_position_id raw) \<notin> foldl open_step {} es) raws"
    by (rule filter_cong [OF refl]) (simp only: mem comp_def not_False_eq_True)
  then have "filter (\<lambda>rp. \<not> List.member (map (\<lambda>(i, p). tk_position_id p) ps) (tk_position_id rp))
        (map parse_raw_position raws) =
      map parse_raw_position (filter (\<lambda>raw. the (rp_position_id raw) \<notin> foldl open_step {} es) raws)"
    by (simp only: filter_map)
  then have "tr_reconcile (Response raws) ps =
      map parse_raw_position (filter (\<lambda>raw. the (rp_position_id raw) \<notin> foldl open_step {} es) raws)"
    by (simp only: tr_reconcile_def parse_reconcile_response_def Let_def reconcile_answer.case)
  moreover have "list_all (\<lambda>p. tk_direction p = ''BUY'') (map parse_raw_position xs)" for xs
    by (simp add: list_all_iff parse_raw_position_def)
  ultimately show ?thesis by (simp add: tr_reconcile_def parse_reconcile_response_def)
qed

definition demo_raw :: "int \<Rightarrow> raw_position" where
  "demo_raw i = \<lparr>rp_position_id = Some i, rp_trade_data = None, rp_price = Some 1, rp_stop_loss = None, rp_take_profit = None\<rparr>"

theorem tracker_reconcile_one_way_witness:
  "map tk_position_id (tr_reconcile (Response [demo_raw 8, demo_raw 9])
     (foldl tr_step [] [Opened 7 ''EURUSD'' ''SELL'' 1 1 None None, Opened 8 ''EURUSD'' ''SELL'' 1 1 None None])) = [''9'']"
proof -
  have "py_str_int 9 = ''9''" by code_simp
  then show ?thesis
    using tracker_reconcile_one_way [of "[demo_raw 8, demo_raw 9]"
        "[Opened 7 ''EURUSD'' ''SELL'' 1 1 None None, Opened 8 ''EURUSD'' ''SELL'' 1 1 None None]"]
    by (simp add: demo_raw_def parse_raw_position_def)
qed

section \<open>The two risk state files\<close>

definition BALANCE_TOLERANCE_USD :: flt where "BALANCE_TOLERANCE_USD = 1 / 100"

text \<open>
  The fields that are compared, as the two writers store them: numbers and booleans, absent or null
  as None. \<open>present\<close> is whether the dict is non-empty (a missing or unreadable file reads as an
  empty one).
\<close>

record blend_state =
  bs_present :: bool
  bs_account_balance :: "flt option"
  bs_peak_balance :: "flt option"
  bs_circuit_halted :: "bool option"

record guard_state =
  gs_current_balance :: "flt option"
  gs_peak_balance :: "flt option"
  gs_circuit_triggered :: "bool option"

record reconciliation =
  rc_matched :: bool
  rc_divergences :: "ptext list"
  rc_blend_balance :: "flt option"
  rc_guard_balance :: "flt option"
  rc_blend_peak :: "flt option"
  rc_guard_peak :: "flt option"
  rc_blend_halted :: "bool option"
  rc_guard_triggered :: "bool option"
  rc_trust_blend :: bool

definition drift :: "string \<Rightarrow> flt option \<Rightarrow> flt option \<Rightarrow> ptext list" where
  "drift name a b =
     (case (a, b) of
        (Some x, Some y) \<Rightarrow>
          if \<bar>x - y\<bar> > BALANCE_TOLERANCE_USD
          then [[Lit name, Lit '': blend='', FFix 2 x, Lit '' risk_guard='', FFix 2 y, Lit '' delta='', FFix 2 (x - y)]]
          else []
      | _ \<Rightarrow> [])"

definition bool_text :: "bool \<Rightarrow> frag" where
  "bool_text b = Lit (if b then ''True'' else ''False'')"

definition reconcile_risk_states :: "blend_state \<Rightarrow> guard_state \<Rightarrow> reconciliation" where
  "reconcile_risk_states blend guard =
     (let divergences =
            drift ''balance_drift'' (bs_account_balance blend) (gs_current_balance guard) @
            drift ''peak_balance_drift'' (bs_peak_balance blend) (gs_peak_balance guard) @
            (case (bs_circuit_halted blend, gs_circuit_triggered guard) of
               (Some h, Some t) \<Rightarrow>
                 if h \<noteq> t then [[Lit ''circuit_breaker_mismatch: blend_halted='', bool_text h,
                                Lit '' risk_guard_triggered='', bool_text t]] else []
             | _ \<Rightarrow> [])
      in \<lparr>rc_matched = (length divergences = 0), rc_divergences = divergences,
          rc_blend_balance = bs_account_balance blend, rc_guard_balance = gs_current_balance guard,
          rc_blend_peak = bs_peak_balance blend, rc_guard_peak = gs_peak_balance guard,
          rc_blend_halted = bs_circuit_halted blend, rc_guard_triggered = gs_circuit_triggered guard,
          rc_trust_blend = bs_present blend\<rparr>)"

text \<open>Two optional values agree when they are not both present and apart.\<close>

definition agree_on :: "('a \<Rightarrow> 'a \<Rightarrow> bool) \<Rightarrow> 'a option \<Rightarrow> 'a option \<Rightarrow> bool" where
  "agree_on R a b = (case (a, b) of (Some x, Some y) \<Rightarrow> R x y | _ \<Rightarrow> True)"

text \<open>
  Two risk states match exactly when both balances agree within a cent and the circuit breakers
  agree, where a field that either side lacks counts as agreeing: a halted breaker in one file
  matches a missing file.
\<close>

theorem risk_states_match_iff:
  "(rc_matched (reconcile_risk_states b g) \<longleftrightarrow>
      agree_on (\<lambda>x y. \<bar>x - y\<bar> \<le> 1 / 100) (bs_account_balance b) (gs_current_balance g) \<and>
      agree_on (\<lambda>x y. \<bar>x - y\<bar> \<le> 1 / 100) (bs_peak_balance b) (gs_peak_balance g) \<and>
      agree_on (=) (bs_circuit_halted b) (gs_circuit_triggered g)) \<and>
   length (rc_divergences (reconcile_risk_states b g)) \<le> 3"
  by (auto simp: reconcile_risk_states_def drift_def agree_on_def BALANCE_TOLERANCE_USD_def Let_def
      split: option.splits)

end
