(* ===== verification/Instruments.thy ===== *)
theory Instruments
  imports Gates
begin

text \<open>
  The instrument model of \<open>models/instrument.py\<close> and the symbol routing of
  \<open>confidence/symbol_type_gating.py\<close>: the asset class of a symbol and the detectors it selects.
\<close>

section \<open>Data\<close>

datatype symbol_type = Crypto_perp | Crypto_spot | Forex_major | Forex_cross | Forex_exotic | Metal | Broad_index

fun detector_stack :: "symbol_type \<Rightarrow> string list" where
  "detector_stack Crypto_perp = [''open_interest'', ''funding_rate'', ''liquidations'']"
| "detector_stack Crypto_spot = [''open_interest'']"
| "detector_stack Forex_major = [''cot_positioning'', ''rate_differential'', ''order_flow_proxy'']"
| "detector_stack Forex_cross = [''cot_positioning'', ''rate_differential'', ''order_flow_proxy'']"
| "detector_stack Forex_exotic = [''cot_positioning'', ''rate_differential'']"
| "detector_stack Metal = [''cot_positioning'', ''rate_differential'']"
| "detector_stack Broad_index = [''cot_positioning'']"

definition type_is_forex :: "symbol_type \<Rightarrow> bool" where
  "type_is_forex t \<longleftrightarrow> t \<in> {Forex_major, Forex_cross, Forex_exotic}"

definition type_is_crypto :: "symbol_type \<Rightarrow> bool" where
  "type_is_crypto t \<longleftrightarrow> t \<in> {Crypto_perp, Crypto_spot}"

record instrument =
  in_symbol :: string
  in_symbol_type :: symbol_type
  in_pip_size :: flt
  in_lot_size :: flt
  in_pip_value_per_lot :: flt

definition default_instruments :: "(string \<times> instrument) list" where
  "default_instruments =
     [(''EURUSD'', \<lparr>in_symbol = ''EURUSD'', in_symbol_type = Forex_major, in_pip_size = 1/10000,
                    in_lot_size = 100000, in_pip_value_per_lot = 10\<rparr>),
      (''GBPUSD'', \<lparr>in_symbol = ''GBPUSD'', in_symbol_type = Forex_major, in_pip_size = 1/10000,
                    in_lot_size = 100000, in_pip_value_per_lot = 10\<rparr>),
      (''USDJPY'', \<lparr>in_symbol = ''USDJPY'', in_symbol_type = Forex_major, in_pip_size = 1/100,
                    in_lot_size = 100000, in_pip_value_per_lot = 13/2\<rparr>),
      (''XAUUSD'', \<lparr>in_symbol = ''XAUUSD'', in_symbol_type = Metal, in_pip_size = 1/10,
                    in_lot_size = 100, in_pip_value_per_lot = 10\<rparr>),
      (''BTCUSDT_PERP'', \<lparr>in_symbol = ''BTCUSDT_PERP'', in_symbol_type = Crypto_perp, in_pip_size = 1,
                          in_lot_size = 1/1000, in_pip_value_per_lot = 1/1000\<rparr>),
      (''ETHUSDT_PERP'', \<lparr>in_symbol = ''ETHUSDT_PERP'', in_symbol_type = Crypto_perp, in_pip_size = 1/10,
                          in_lot_size = 1/100, in_pip_value_per_lot = 1/1000\<rparr>),
      (''SOLUSDT_PERP'', \<lparr>in_symbol = ''SOLUSDT_PERP'', in_symbol_type = Crypto_perp, in_pip_size = 1/100,
                          in_lot_size = 1, in_pip_value_per_lot = 1/100\<rparr>)]"

section \<open>Classification\<close>

definition forex_major_currencies :: "string list" where
  "forex_major_currencies = [''USD'', ''EUR'', ''GBP'', ''JPY'', ''AUD'', ''CAD'', ''NZD'', ''CHF'']"

definition classify_symbol :: "string \<Rightarrow> symbol_type" where
  "classify_symbol symbol =
     (let s = py_strip (py_upper symbol) in
      if suffix ''USDT'' s \<or> suffix ''PERP'' s then Crypto_perp
      else if s = ''BTCUSD'' \<or> s = ''ETHUSD'' then Crypto_spot
      else if sublist ''XAU'' s \<or> sublist ''XAG'' s then Metal
      else if s \<in> set [''US500'', ''NAS100'', ''US30'', ''US100'', ''GER40'', ''UK100''] then Broad_index
      else if length s = 6 \<and> take 3 s \<in> set forex_major_currencies \<and> drop 3 s \<in> set forex_major_currencies
      then Forex_major
      else Forex_exotic)"

section \<open>Routing\<close>

record symbol_type_routing =
  rt_symbol :: string
  rt_symbol_type :: symbol_type
  rt_detectors :: "string list"
  rt_is_crypto :: bool
  rt_is_forex :: bool

text \<open>Explicit override, then the registry, then the heuristic.\<close>

definition resolve_symbol_type :: "(string \<times> instrument) list \<Rightarrow> symbol_type option \<Rightarrow> string \<Rightarrow> symbol_type" where
  "resolve_symbol_type registry explicit symbol =
     (case explicit of Some t \<Rightarrow> t
      | None \<Rightarrow> (case map_of registry symbol of Some i \<Rightarrow> in_symbol_type i | None \<Rightarrow> classify_symbol symbol))"

definition type_gate_route ::
  "(string \<times> instrument) list \<Rightarrow> symbol_type option \<Rightarrow> string \<Rightarrow> symbol_type_routing" where
  "type_gate_route registry explicit symbol =
     (let t = resolve_symbol_type registry explicit symbol in
      \<lparr>rt_symbol = symbol, rt_symbol_type = t, rt_detectors = detector_stack t,
       rt_is_crypto = type_is_crypto t, rt_is_forex = type_is_forex t\<rparr>)"

text \<open>
  As a gate it always passes and only attaches its reason; an f-string shows a list of strings by
  their quoted forms.
\<close>

fun type_value :: "symbol_type \<Rightarrow> string" where
  "type_value Crypto_perp = ''crypto_perp''"
| "type_value Crypto_spot = ''crypto_spot''"
| "type_value Forex_major = ''forex_major''"
| "type_value Forex_cross = ''forex_cross''"
| "type_value Forex_exotic = ''forex_exotic''"
| "type_value Metal = ''metal''"
| "type_value Broad_index = ''index''"

definition py_repr_strings :: "string list \<Rightarrow> string" where
  "py_repr_strings xs =
     ''['' @ concat (case xs of [] \<Rightarrow> [] | x # r \<Rightarrow>
       (CHR 39 # x @ [CHR 39]) # map (\<lambda>y. '', '' @ CHR 39 # y @ [CHR 39]) r) @ '']''"

definition type_gate_check :: "(string \<times> instrument) list \<Rightarrow> symbol_type option \<Rightarrow> string \<Rightarrow> gate_check" where
  "type_gate_check registry explicit symbol =
     (let t = resolve_symbol_type registry explicit symbol in
      \<lparr>gc_gate_name = ''symbol_type_gate'', gc_passed = True,
       gc_reason = [Lit ''symbol_type='', Lit (type_value t), Lit '', stack='',
         Lit (if type_is_crypto t then ''crypto'' else if type_is_forex t then ''forex'' else ''other''),
         Lit '', detectors='', Lit (py_repr_strings (detector_stack t))],
       gc_boost = 0\<rparr>)"

section \<open>Properties\<close>

lemma class_exclusive: "\<not> (type_is_crypto t \<and> type_is_forex t)"
  by (cases t) (simp_all add: type_is_crypto_def type_is_forex_def)

lemma detector_stack_nonempty: "detector_stack t \<noteq> []"
  by (cases t) simp_all

lemma classify_never_cross: "classify_symbol s \<noteq> Forex_cross"
  by (simp add: classify_symbol_def Let_def)

lemma registry_never_cross: "map_of default_instruments s = Some i \<Longrightarrow> in_symbol_type i \<noteq> Forex_cross"
  by (drule map_of_SomeD) (auto simp: default_instruments_def)

text \<open>
  No symbol is ever routed as a cross: neither the default registry nor the heuristic produces
  \<open>forex_cross\<close>, so EURJPY and GBPJPY are majors; and a symbol the heuristic does not know is an exotic.
\<close>

theorem forex_cross_unreachable:
  "rt_symbol_type (type_gate_route default_instruments None s) \<noteq> Forex_cross \<and>
   rt_symbol_type (type_gate_route default_instruments None ''EURJPY'') = Forex_major \<and>
   rt_symbol_type (type_gate_route default_instruments None ''UNKNOWN'') = Forex_exotic"
proof (intro conjI)
  show "rt_symbol_type (type_gate_route default_instruments None s) \<noteq> Forex_cross"
    using registry_never_cross classify_never_cross
    by (auto simp: type_gate_route_def resolve_symbol_type_def Let_def split: option.split)
qed code_simp+

end
