(* ===== verification/Sizer.thy ===== *)
theory Sizer
  imports Instruments
begin

text \<open>
  The stop-loss position sizer of \<open>risk/sl_position_sizer.py\<close>: how many lots to trade so that a hit
  of the stop costs the intended amount, the budget of open risk keyed by signal, its circuit breaker,
  and the rebuild from the broker's positions.
\<close>

section \<open>Instruments\<close>

record instrument_spec =
  isp_symbol :: string
  isp_pip_size :: flt
  isp_lot_size :: flt
  isp_pip_value_per_lot :: flt

definition sizer_instruments :: "(string \<times> instrument_spec) list" where
  "sizer_instruments =
     [(''EURUSD'', \<lparr>isp_symbol = ''EURUSD'', isp_pip_size = 1/10000, isp_lot_size = 100000, isp_pip_value_per_lot = 10\<rparr>),
      (''GBPUSD'', \<lparr>isp_symbol = ''GBPUSD'', isp_pip_size = 1/10000, isp_lot_size = 100000, isp_pip_value_per_lot = 10\<rparr>),
      (''USDJPY'', \<lparr>isp_symbol = ''USDJPY'', isp_pip_size = 1/100, isp_lot_size = 100000, isp_pip_value_per_lot = 13/2\<rparr>),
      (''AUDUSD'', \<lparr>isp_symbol = ''AUDUSD'', isp_pip_size = 1/10000, isp_lot_size = 100000, isp_pip_value_per_lot = 10\<rparr>),
      (''USDCHF'', \<lparr>isp_symbol = ''USDCHF'', isp_pip_size = 1/10000, isp_lot_size = 100000, isp_pip_value_per_lot = 10\<rparr>),
      (''USDCAD'', \<lparr>isp_symbol = ''USDCAD'', isp_pip_size = 1/10000, isp_lot_size = 100000, isp_pip_value_per_lot = 10\<rparr>),
      (''XAUUSD'', \<lparr>isp_symbol = ''XAUUSD'', isp_pip_size = 1/10, isp_lot_size = 100, isp_pip_value_per_lot = 10\<rparr>),
      (''BTCUSDT_PERP'', \<lparr>isp_symbol = ''BTCUSDT_PERP'', isp_pip_size = 1, isp_lot_size = 1/1000,
                          isp_pip_value_per_lot = 1/1000\<rparr>),
      (''ETHUSDT_PERP'', \<lparr>isp_symbol = ''ETHUSDT_PERP'', isp_pip_size = 1/10, isp_lot_size = 1/100,
                          isp_pip_value_per_lot = 1/1000\<rparr>),
      (''SOLUSDT_PERP'', \<lparr>isp_symbol = ''SOLUSDT_PERP'', isp_pip_size = 1/100, isp_lot_size = 1,
                          isp_pip_value_per_lot = 1/100\<rparr>)]"

text \<open>The value of a pip: from the contract face for what the router calls crypto, else the listed one.\<close>

definition pip_value_of :: "string \<Rightarrow> instrument_spec \<Rightarrow> flt" where
  "pip_value_of symbol spec =
     (if rt_is_crypto (type_gate_route default_instruments None symbol)
      then isp_lot_size spec * isp_pip_size spec else isp_pip_value_per_lot spec)"

record position_size_result =
  ps_lots :: flt
  ps_risk_amount :: flt
  ps_sl_distance_pips :: flt
  ps_sl_distance_price :: flt
  ps_pip_value :: flt
  ps_warnings :: "ptext list"
  ps_blocked :: bool
  ps_block_reason :: ptext

definition ps_block :: "flt \<Rightarrow> flt \<Rightarrow> flt \<Rightarrow> ptext \<Rightarrow> position_size_result" where
  "ps_block pips gap pv reason =
     \<lparr>ps_lots = 0, ps_risk_amount = 0, ps_sl_distance_pips = pips, ps_sl_distance_price = gap,
      ps_pip_value = pv, ps_warnings = [], ps_blocked = True, ps_block_reason = reason\<rparr>"

section \<open>Circuit breaker\<close>

record breaker =
  br_recent_trades :: "bool list"
  br_max_trades_tracked :: int
  br_min_win_rate :: flt
  br_daily_dd_pct :: flt
  br_daily_dd_limit :: flt
  br_account_dd_pct :: flt
  br_account_dd_limit :: flt
  br_halted :: bool
  br_halted_until :: "py_datetime option"
  br_halt_reason :: ptext

definition breaker_init :: breaker where
  "breaker_init =
     \<lparr>br_recent_trades = [], br_max_trades_tracked = 20, br_min_win_rate = 1/4, br_daily_dd_pct = 0,
      br_daily_dd_limit = 3/100, br_account_dd_pct = 0, br_account_dd_limit = 7/100, br_halted = False,
      br_halted_until = None, br_halt_reason = []\<rparr>"

definition br_record_trade :: "bool \<Rightarrow> breaker \<Rightarrow> breaker" where
  "br_record_trade win b =
     (let ts = br_recent_trades b @ [win] in
      b\<lparr>br_recent_trades :=
          (if int (length ts) > br_max_trades_tracked b then py_last (br_max_trades_tracked b) ts else ts)\<rparr>)"

definition br_win_rate :: "breaker \<Rightarrow> flt" where
  "br_win_rate b =
     (if br_recent_trades b = [] then 1
      else of_nat (length (filter id (br_recent_trades b))) / of_nat (length (br_recent_trades b)))"

text \<open>The checks after the halt: win rate, daily drawdown, account drawdown.\<close>

definition br_conditions :: "breaker \<Rightarrow> ptext option" where
  "br_conditions b =
     (if length (br_recent_trades b) \<ge> 10 \<and> br_win_rate b < br_min_win_rate b then
        Some [Lit ''Win rate '', FPercent 0 (br_win_rate b), Lit '' < '', FPercent 0 (br_min_win_rate b),
              Lit '' over last '', FInt (int (length (br_recent_trades b))), Lit '' trades'']
      else if br_daily_dd_pct b \<ge> br_daily_dd_limit b then
        Some [Lit ''Daily drawdown '', FPercent 1 (br_daily_dd_pct b), Lit '' >= '', FPercent 1 (br_daily_dd_limit b)]
      else if br_account_dd_pct b \<ge> br_account_dd_limit b then
        Some [Lit ''Account drawdown '', FPercent 1 (br_account_dd_pct b), Lit '' >= '', FPercent 1 (br_account_dd_limit b)]
      else None)"

definition check_breakers :: "instant \<Rightarrow> breaker \<Rightarrow> (breaker, ptext option) outcome" where
  "check_breakers now b =
     (if \<not> br_halted b then Ret (br_conditions b) b
      else case br_halted_until b of
        Some (Aware w off) \<Rightarrow>
          if now \<ge> w - off then
            (let b1 = b\<lparr>br_halted := False, br_halted_until := None, br_halt_reason := [], br_daily_dd_pct := 0\<rparr>
             in Ret (br_conditions b1) b1)
          else Ret (Some ([Lit ''Trading halted until '', FIsoDt (Aware w off), Lit '': ''] @ br_halt_reason b)) b
      | _ \<Rightarrow> Exc TypeError b)"

definition br_halt :: "instant \<Rightarrow> ptext \<Rightarrow> flt \<Rightarrow> breaker \<Rightarrow> breaker" where
  "br_halt now reason hours b =
     b\<lparr>br_halted := True, br_halted_until := Some (Aware (now + round_half_even (hours * 3600000000)) 0),
       br_halt_reason := reason\<rparr>"

section \<open>The sizer\<close>

record sizer =
  sz_account_balance :: flt
  sz_risk_per_trade_pct :: flt
  sz_max_lot_size :: flt
  sz_daily_risk_cap_pct :: flt
  sz_min_sl_pips :: flt
  sz_max_positions_per_symbol :: int
  sz_max_total_open_risk :: flt
  sz_daily_risk_used :: flt
  sz_open_positions :: "(string \<times> flt) list"
  sz_position_symbols :: "(string \<times> string) list"
  sz_peak_balance :: flt
  sz_breaker :: breaker

type_synonym 'a sz_result = "(sizer, 'a) outcome"

definition sizer_init :: "flt \<Rightarrow> flt \<Rightarrow> flt \<Rightarrow> sizer" where
  "sizer_init balance risk_per_trade_pct daily_risk_cap_pct =
     \<lparr>sz_account_balance = balance, sz_risk_per_trade_pct = risk_per_trade_pct, sz_max_lot_size = 1,
      sz_daily_risk_cap_pct = daily_risk_cap_pct, sz_min_sl_pips = 5, sz_max_positions_per_symbol = 1,
      sz_max_total_open_risk = 150, sz_daily_risk_used = 0, sz_open_positions = [], sz_position_symbols = [],
      sz_peak_balance = balance, sz_breaker = breaker_init\<rparr>"

definition sz_open_risk :: "sizer \<Rightarrow> flt" where
  "sz_open_risk sz = sum_list (map snd (sz_open_positions sz))"

text \<open>The setter of the scalar view, used when state is restored.\<close>

definition sz_set_open_risk :: "flt \<Rightarrow> sizer \<Rightarrow> sizer" where
  "sz_set_open_risk v sz =
     (if v \<le> 0 \<and> sz_open_positions sz = [] then sz\<lparr>sz_open_positions := [], sz_position_symbols := []\<rparr>
      else if v > 0 then sz\<lparr>sz_open_positions := AList.update ''_legacy_open_risk'' v (sz_open_positions sz)\<rparr>
      else sz\<lparr>sz_open_positions := AList.delete ''_legacy_open_risk'' (sz_open_positions sz)\<rparr>)"

definition sz_risk_per_trade :: "sizer \<Rightarrow> flt" where
  "sz_risk_per_trade sz = sz_account_balance sz * sz_risk_per_trade_pct sz"

definition sz_daily_risk_remaining :: "sizer \<Rightarrow> flt" where
  "sz_daily_risk_remaining sz =
     max 0 (sz_account_balance sz * sz_daily_risk_cap_pct sz - sz_daily_risk_used sz - sz_open_risk sz)"

definition sz_count_for_symbol :: "string \<Rightarrow> sizer \<Rightarrow> nat" where
  "sz_count_for_symbol symbol sz = length (filter (\<lambda>s. s = symbol) (map snd (sz_position_symbols sz)))"

definition account_dd :: "flt \<Rightarrow> sizer \<Rightarrow> sizer" where
  "account_dd balance sz =
     (if sz_peak_balance sz > 0
      then sz\<lparr>sz_breaker := (sz_breaker sz)\<lparr>br_account_dd_pct := (sz_peak_balance sz - balance) / sz_peak_balance sz\<rparr>\<rparr>
      else sz)"

definition sz_update_balance :: "flt \<Rightarrow> sizer \<Rightarrow> sizer" where
  "sz_update_balance balance sz =
     (let sz1 = (if balance > sz_peak_balance sz then sz\<lparr>sz_peak_balance := balance\<rparr> else sz)
      in account_dd balance (sz1\<lparr>sz_account_balance := balance\<rparr>))"

definition sz_register :: "string \<Rightarrow> flt \<Rightarrow> string \<Rightarrow> sizer \<Rightarrow> unit sz_result" where
  "sz_register sid risk symbol sz =
     (if map_of (sz_open_positions sz) sid \<noteq> None then Exc ValueError sz
      else Ret () (sz\<lparr>sz_open_positions := AList.update sid risk (sz_open_positions sz),
                      sz_position_symbols := (if symbol \<noteq> [] then AList.update sid symbol (sz_position_symbols sz)
                                              else sz_position_symbols sz)\<rparr>))"

definition sz_cancel :: "string \<Rightarrow> sizer \<Rightarrow> sizer" where
  "sz_cancel sid sz =
     (if map_of (sz_open_positions sz) sid = None then sz
      else sz\<lparr>sz_open_positions := AList.delete sid (sz_open_positions sz),
              sz_position_symbols := AList.delete sid (sz_position_symbols sz)\<rparr>)"

definition sz_close :: "string \<Rightarrow> flt \<Rightarrow> sizer \<Rightarrow> unit sz_result" where
  "sz_close sid pnl sz =
     (if map_of (sz_open_positions sz) sid = None then Exc KeyError sz
      else
        let win = (pnl > 0);
            sz1 = sz\<lparr>sz_open_positions := AList.delete sid (sz_open_positions sz),
                     sz_position_symbols := AList.delete sid (sz_position_symbols sz)\<rparr>;
            sz2 = (if \<not> win \<and> pnl < 0 then sz1\<lparr>sz_daily_risk_used := sz_daily_risk_used sz1 + \<bar>pnl\<bar>\<rparr> else sz1);
            sz3 = sz2\<lparr>sz_breaker := br_record_trade win (sz_breaker sz2)\<rparr>;
            new_balance = sz_account_balance sz3 + pnl;
            sz4 = (if new_balance > sz_peak_balance sz3 then sz3\<lparr>sz_peak_balance := new_balance\<rparr> else sz3)
        in Ret () (account_dd new_balance (sz4\<lparr>sz_account_balance := new_balance\<rparr>)))"

section \<open>Legacy operations without a key\<close>

text \<open>\<open>obj_id\<close> is the identity of the sizer object, which names its legacy entries.\<close>

definition legacy_key :: "nat \<Rightarrow> sizer \<Rightarrow> string" where
  "legacy_key obj_id sz = ''_legacy_'' @ py_str_nat obj_id @ ''_'' @ py_str_nat (length (sz_open_positions sz))"

definition sz_register_open_position :: "nat \<Rightarrow> flt \<Rightarrow> sizer \<Rightarrow> unit sz_result" where
  "sz_register_open_position obj_id risk sz = sz_register (legacy_key obj_id sz) risk [] sz"

definition sz_cancel_position :: "flt \<Rightarrow> sizer \<Rightarrow> unit sz_result" where
  "sz_cancel_position risk sz =
     (case filter (prefix ''_legacy_'') (map fst (sz_open_positions sz)) of
        key # _ \<Rightarrow>
          let current = dget_or (sz_open_positions sz) key 0 in
          if current > risk + 1/1000000000
          then Ret () (sz\<lparr>sz_open_positions := AList.update key (current - risk) (sz_open_positions sz)\<rparr>)
          else Ret () (sz_cancel key sz)
      | [] \<Rightarrow>
          (case sz_open_positions sz of
             (first_key, _) # _ \<Rightarrow> Ret () (sz_cancel first_key sz)
           | [] \<Rightarrow> Exc KeyError sz))"

definition sz_close_position :: "flt \<Rightarrow> flt \<Rightarrow> sizer \<Rightarrow> unit sz_result" where
  "sz_close_position pnl risk sz =
     (case filter (\<lambda>(key, amount). \<bar>amount - risk\<bar> < 1/1000000000) (sz_open_positions sz) of
        (key, _) # _ \<Rightarrow> sz_close key pnl sz
      | [] \<Rightarrow>
          (case sz_open_positions sz of
             (first_key, _) # _ \<Rightarrow> sz_close first_key pnl sz
           | [] \<Rightarrow> Exc KeyError sz))"

definition sz_reset_daily :: "sizer \<Rightarrow> sizer" where
  "sz_reset_daily sz = sz\<lparr>sz_daily_risk_used := 0, sz_breaker := (sz_breaker sz)\<lparr>br_daily_dd_pct := 0\<rparr>\<rparr>"

section \<open>Rebuilding from the broker\<close>

text \<open>
  A position of the broker, of either dataclass: an attribute the class lacks, or that is \<open>None\<close>, is \<open>None\<close>
  here (\<open>models.Position\<close> has \<open>volume\<close>, \<open>entry_price\<close> and \<open>stop_loss\<close>, \<open>account_state.Position\<close> has
  \<open>volume_lots\<close>, \<open>entry_price\<close> and \<open>sl\<close>; both identify it by a string).
\<close>

record broker_position =
  bp_position_id :: string
  bp_symbol :: string
  bp_volume :: "flt option"
  bp_volume_lots :: "flt option"
  bp_entry_price :: "flt option"
  bp_price :: "flt option"
  bp_stop_loss :: "flt option"
  bp_sl :: "flt option"

definition first_of :: "'a option \<Rightarrow> 'a option \<Rightarrow> 'a option" where
  "first_of x y = (case x of Some v \<Rightarrow> Some v | None \<Rightarrow> y)"

definition compute_position_risk_usd :: "string \<Rightarrow> flt \<Rightarrow> flt option \<Rightarrow> flt \<Rightarrow> flt" where
  "compute_position_risk_usd symbol entry_price sl_price lots =
     (let spec = (case map_of sizer_instruments (py_upper symbol) of Some s \<Rightarrow> s
                  | None \<Rightarrow> \<lparr>isp_symbol = symbol, isp_pip_size = 1/10000, isp_lot_size = 100000,
                             isp_pip_value_per_lot = 10\<rparr>)
      in case sl_price of
           None \<Rightarrow> lots * 100
         | Some sl \<Rightarrow>
             if sl \<le> 0 \<or> entry_price \<le> 0 \<or> lots \<le> 0 then lots * 100
             else
               let pv = pip_value_of symbol spec;
                   gap = \<bar>entry_price - sl\<bar>;
                   pips = (if isp_pip_size spec > 0 then gap / isp_pip_size spec else 0)
               in pips * lots * pv)"

definition broker_risk :: "broker_position \<Rightarrow> flt" where
  "broker_risk p =
     compute_position_risk_usd (bp_symbol p)
       (or_default (first_of (bp_entry_price p) (bp_price p)) 0)
       (first_of (bp_stop_loss p) (bp_sl p))
       (or_default (first_of (bp_volume p) (bp_volume_lots p)) 0)"

record reconcile_result =
  rr_before_count :: int
  rr_after_count :: int
  rr_seeded_count :: int
  rr_before_open_risk :: flt
  rr_after_open_risk :: flt
  rr_removed_count :: int
  rr_diverged :: bool
  rr_missing_position_ids :: "string list"
  rr_ran_at :: instant

definition seeded_key :: "string \<Rightarrow> string" where
  "seeded_key pid = ''seeded_'' @ pid"

type_synonym seed_acc = "sizer \<times> int \<times> flt \<times> string list"

fun seed_one :: "broker_position \<Rightarrow> seed_acc \<Rightarrow> seed_acc" where
  "seed_one p (sz, seeded, risk, missing) =
     (if bp_position_id p = [] then (sz, seeded, risk, missing @ [''<missing-id>''])
      else case sz_register (seeded_key (bp_position_id p)) (broker_risk p) (bp_symbol p) sz of
             Ret _ sz1 \<Rightarrow> (sz1, seeded + 1, risk + broker_risk p, missing)
           | Exc _ sz1 \<Rightarrow> (sz1, seeded, risk, missing @ [bp_position_id p]))"

definition sz_reconcile_with_broker ::
  "instant \<Rightarrow> broker_position list \<Rightarrow> sizer \<Rightarrow> reconcile_result \<times> sizer" where
  "sz_reconcile_with_broker now ps sz =
     (let before_count = int (length (sz_open_positions sz));
          before_open_risk = sum_list (map snd (sz_open_positions sz));
          cleared = sz\<lparr>sz_open_positions := [], sz_position_symbols := []\<rparr>;
          (sz1, seeded, risk, missing) = fold seed_one ps (cleared, 0, 0, []);
          after_count = int (length (sz_open_positions sz1))
      in (\<lparr>rr_before_count = before_count, rr_after_count = after_count, rr_seeded_count = seeded,
           rr_before_open_risk = before_open_risk, rr_after_open_risk = risk,
           rr_removed_count = before_count - after_count, rr_diverged = (before_count \<noteq> after_count),
           rr_missing_position_ids = missing, rr_ran_at = now\<rparr>, sz1))"

section \<open>Sizing\<close>

text \<open>The part of \<open>calculate\<close> behind the circuit breaker; it reads the sizer and never changes it.\<close>

definition sz_size :: "string \<Rightarrow> flt \<Rightarrow> flt \<Rightarrow> string \<Rightarrow> sizer \<Rightarrow> pyexn + position_size_result" where
  "sz_size symbol entry_price sl_price profile sz =
     (case map_of sizer_instruments symbol of
        None \<Rightarrow> Inr (ps_block 0 0 0 [Lit ''Unknown instrument: '', Lit symbol])
      | Some spec \<Rightarrow>
          let pv = pip_value_of symbol spec;
              gap = \<bar>entry_price - sl_price\<bar>;
              pips = gap / isp_pip_size spec;
              base0 = sz_risk_per_trade sz
          in if pips < sz_min_sl_pips sz - 1/100 then
               Inr (ps_block pips gap pv
                 [Lit ''SL distance '', FFix 1 pips, Lit '' pips < minimum '', FFloat (sz_min_sl_pips sz), Lit '' pips''])
             else if base0 \<le> 0 then Inr (ps_block pips gap pv [Lit ''Account risk amount is zero''])
             else if profile \<noteq> ''sniper'' \<and> profile \<noteq> ''swarm'' then
               Inr (ps_block pips gap pv [Lit ''Unknown profile: '', Lit profile])
             else
               let base = (if profile = ''swarm'' then base0 * (1/2) else base0);
                   open_risk = sz_open_risk sz
               in if int (sz_count_for_symbol symbol sz) \<ge> sz_max_positions_per_symbol sz then
                    Inr (ps_block pips gap pv
                      [Lit ''Max '', FInt (sz_max_positions_per_symbol sz), Lit '' position(s) already open for '', Lit symbol])
                  else if open_risk + base > sz_max_total_open_risk sz then
                    Inr (ps_block pips gap pv
                      [Lit ''Total open risk $'', FFix 2 open_risk, Lit '' + new $'', FFix 2 base, Lit '' = $'',
                       FFix 2 (open_risk + base), Lit '' exceeds max $'', FFix 2 (sz_max_total_open_risk sz)])
                  else if base > sz_daily_risk_remaining sz then
                    Inr (ps_block pips gap pv
                      [Lit ''Trade risk $'', FFix 2 base, Lit '' exceeds daily remaining $'',
                       FFix 2 (sz_daily_risk_remaining sz)])
                  else if pips * pv = 0 then Inl ZeroDivisionError
                  else
                    let lots0 = base / (pips * pv);
                        capped = (lots0 > sz_max_lot_size sz);
                        warnings = (if capped then [[Lit ''Lots '', FFix 4 lots0, Lit '' capped to max '',
                                                     FFloat (sz_max_lot_size sz)]] else []);
                        lots1 = (if capped then sz_max_lot_size sz else lots0);
                        actual = (if capped then lots1 * pips * pv else base);
                        lots = py_round2 lots1
                    in if lots < 1/100 then
                         Inr (ps_block pips gap pv
                           [Lit ''Calculated lots '', FFix 4 lots, Lit '' below minimum 0.01''])
                       else
                         Inr \<lparr>ps_lots = lots, ps_risk_amount = actual, ps_sl_distance_pips = pips,
                              ps_sl_distance_price = gap, ps_pip_value = pv, ps_warnings = warnings,
                              ps_blocked = False, ps_block_reason = []\<rparr>)"

text \<open>\<open>profile\<close> is the string, or the value of the enum.\<close>

definition sz_calculate ::
  "instant \<Rightarrow> string \<Rightarrow> flt \<Rightarrow> flt \<Rightarrow> string \<Rightarrow> sizer \<Rightarrow> position_size_result sz_result" where
  "sz_calculate now symbol entry_price sl_price profile sz =
     (case check_breakers now (sz_breaker sz) of
        Exc e b \<Rightarrow> Exc e (sz\<lparr>sz_breaker := b\<rparr>)
      | Ret reason b \<Rightarrow>
          let sz1 = sz\<lparr>sz_breaker := b\<rparr> in
          (case reason of
             Some r \<Rightarrow> Ret (ps_block 0 0 0 r) sz1
           | None \<Rightarrow>
               (case sz_size symbol entry_price sl_price (py_lower profile) sz1 of
                  Inl e \<Rightarrow> Exc e sz1
                | Inr res \<Rightarrow> Ret res sz1)))"

end
