(* ===== verification/SizerSafety.thy ===== *)
theory SizerSafety
  imports Sizer
begin

text \<open>
  What the position sizer guarantees: the loss at the stop of an accepted size, the budget of open
  risk over every run, the permanence of the win-rate breaker, and the rebuild from the broker.
\<close>

section \<open>Ledgers of reserved risk\<close>

text \<open>
  The interface between a sizer and whoever reserves through it: amounts under keys, with their sum.
  A client that only reserves what still fits under a limit stays under it, whatever it releases.
\<close>

locale risk_ledger =
  fixes amount :: "'s \<Rightarrow> 'k \<Rightarrow> flt option"
    and total_risk :: "'s \<Rightarrow> flt"
    and reserve :: "'k \<Rightarrow> flt \<Rightarrow> 's \<Rightarrow> 's"
    and release :: "'k \<Rightarrow> 's \<Rightarrow> 's"
    and wf :: "'s \<Rightarrow> bool"
  assumes wf_reserve: "wf s \<Longrightarrow> wf (reserve k r s)"
    and wf_release: "wf s \<Longrightarrow> wf (release k s)"
    and amount_reserve: "wf s \<Longrightarrow> amount s k = None \<Longrightarrow> amount (reserve k r s) j = (if j = k then Some r else amount s j)"
    and amount_release: "wf s \<Longrightarrow> amount (release k s) j = (if j = k then None else amount s j)"
    and total_reserve: "wf s \<Longrightarrow> amount s k = None \<Longrightarrow> total_risk (reserve k r s) = total_risk s + r"
    and total_release: "wf s \<Longrightarrow> amount s k = Some r \<Longrightarrow> total_risk (release k s) = total_risk s - r"
    and reserve_taken: "wf s \<Longrightarrow> amount s k \<noteq> None \<Longrightarrow> reserve k r s = s"
    and release_free: "wf s \<Longrightarrow> amount s k = None \<Longrightarrow> total_risk (release k s) = total_risk s"
begin

definition nonneg :: "'s \<Rightarrow> bool" where
  "nonneg s \<longleftrightarrow> (\<forall>k r. amount s k = Some r \<longrightarrow> 0 \<le> r)"

definition under_limit :: "flt \<Rightarrow> 's \<Rightarrow> bool" where
  "under_limit limit s \<longleftrightarrow> wf s \<and> nonneg s \<and> total_risk s \<le> limit"

lemma under_reserve:
  assumes "under_limit limit s" and "0 \<le> r" and "total_risk s + r \<le> limit"
  shows "under_limit limit (reserve k r s)"
proof (cases "amount s k")
  case None
  with assms show ?thesis
    by (auto simp: under_limit_def nonneg_def wf_reserve amount_reserve total_reserve)
next
  case (Some v)
  with assms show ?thesis by (simp add: under_limit_def reserve_taken)
qed

lemma under_release:
  assumes "under_limit limit s"
  shows "under_limit limit (release k s)"
proof (cases "amount s k")
  case None
  with assms show ?thesis by (auto simp: under_limit_def nonneg_def wf_release amount_release release_free)
next
  case (Some v)
  with assms have "0 \<le> v" by (auto simp: under_limit_def nonneg_def)
  with assms have "total_risk s - v \<le> limit" by (simp add: under_limit_def)
  with assms Some show ?thesis by (auto simp: under_limit_def nonneg_def wf_release amount_release total_release)
qed

lemma reserve_release_total:
  "wf s \<Longrightarrow> amount s k = None \<Longrightarrow> total_risk (release k (reserve k r s)) = total_risk s"
  by (simp add: wf_reserve amount_reserve total_release total_reserve)

end

section \<open>The sizer as a ledger\<close>

lemma update_fresh: "map_of d k = None \<Longrightarrow> AList.update k v d = d @ [(k, v)]"
  by (induction d) (auto split: if_splits)

lemma delete_fresh: "map_of d k = None \<Longrightarrow> AList.delete k d = d"
  by (induction d) (auto split: if_splits)

lemma sum_update_fresh:
  fixes v :: flt
  shows "map_of d k = None \<Longrightarrow> sum_list (map snd (AList.update k v d)) = sum_list (map snd d) + v"
  by (simp add: update_fresh)

lemma sum_delete:
  fixes v :: flt
  shows "distinct (map fst d) \<Longrightarrow> map_of d k = Some v \<Longrightarrow>
    sum_list (map snd (AList.delete k d)) = sum_list (map snd d) - v"
proof (induction d)
  case (Cons p d)
  show ?case
  proof (cases "fst p = k")
    case True
    with Cons.prems have "map_of d k = None" by (auto simp: map_of_eq_None_iff)
    with True Cons.prems show ?thesis by (simp add: delete_fresh)
  next
    case False
    with Cons show ?thesis by auto
  qed
qed simp

lemma keys_delete: "fst ` set (AList.delete k d) = fst ` set d - {k}"
  by (induction d) auto

lemma keys_update: "fst ` set (AList.update k v d) = insert k (fst ` set d)"
  by (induction d) auto

definition sizer_wf :: "sizer \<Rightarrow> bool" where
  "sizer_wf sz \<longleftrightarrow> distinct (map fst (sz_open_positions sz)) \<and> distinct (map fst (sz_position_symbols sz)) \<and>
     fst ` set (sz_position_symbols sz) \<subseteq> fst ` set (sz_open_positions sz)"

lemma sizer_wf_frame:
  "sz_open_positions s = sz_open_positions t \<Longrightarrow> sz_position_symbols s = sz_position_symbols t \<Longrightarrow>
   sizer_wf s = sizer_wf t"
  by (simp add: sizer_wf_def)

lemma sizer_wf_register: "sizer_wf sz \<Longrightarrow> sizer_wf (state_of (sz_register sid r symbol sz))"
  by (auto simp: sizer_wf_def sz_register_def distinct_update keys_update)

lemma sizer_wf_cancel: "sizer_wf sz \<Longrightarrow> sizer_wf (sz_cancel sid sz)"
  by (auto simp: sizer_wf_def sz_cancel_def distinct_delete keys_delete)

lemma account_dd_frame [simp]:
  "sz_open_positions (account_dd b sz) = sz_open_positions sz"
  "sz_position_symbols (account_dd b sz) = sz_position_symbols sz"
  "sz_max_total_open_risk (account_dd b sz) = sz_max_total_open_risk sz"
  "sz_max_positions_per_symbol (account_dd b sz) = sz_max_positions_per_symbol sz"
  "sz_account_balance (account_dd b sz) = sz_account_balance sz"
  "sz_peak_balance (account_dd b sz) = sz_peak_balance sz"
  "sz_daily_risk_used (account_dd b sz) = sz_daily_risk_used sz"
  "br_recent_trades (sz_breaker (account_dd b sz)) = br_recent_trades (sz_breaker sz)"
  "br_daily_dd_pct (sz_breaker (account_dd b sz)) = br_daily_dd_pct (sz_breaker sz)"
  "br_min_win_rate (sz_breaker (account_dd b sz)) = br_min_win_rate (sz_breaker sz)"
  "br_halted (sz_breaker (account_dd b sz)) = br_halted (sz_breaker sz)"
  "br_daily_dd_limit (sz_breaker (account_dd b sz)) = br_daily_dd_limit (sz_breaker sz)"
  by (simp_all add: account_dd_def)

lemma close_as_cancel:
  "sz_open_positions (state_of (sz_close sid pnl sz)) = sz_open_positions (sz_cancel sid sz)"
  "sz_position_symbols (state_of (sz_close sid pnl sz)) = sz_position_symbols (sz_cancel sid sz)"
  "sz_max_total_open_risk (state_of (sz_close sid pnl sz)) = sz_max_total_open_risk sz"
  "sz_max_positions_per_symbol (state_of (sz_close sid pnl sz)) = sz_max_positions_per_symbol sz"
  by (auto simp: sz_close_def sz_cancel_def Let_def)

interpretation ledger: risk_ledger "\<lambda>sz. map_of (sz_open_positions sz)" sz_open_risk
  "\<lambda>sid r sz. state_of (sz_register sid r symbol sz)" sz_cancel sizer_wf for symbol
proof (unfold_locales, goal_cases)
  case (1 s k r) then show ?case by (rule sizer_wf_register)
next
  case (2 s k) then show ?case by (rule sizer_wf_cancel)
next
  case (3 s k r j) then show ?case by (simp add: sz_register_def update_conv')
next
  case (4 s k j) then show ?case by (auto simp: sz_cancel_def delete_conv')
next
  case (5 s k r) then show ?case by (simp add: sz_register_def sz_open_risk_def sum_update_fresh)
next
  case (6 s k r) then show ?case by (simp add: sz_cancel_def sz_open_risk_def sum_delete sizer_wf_def)
next
  case (7 s k r) then show ?case by (simp add: sz_register_def)
next
  case (8 s k) then show ?case by (simp add: sz_cancel_def)
qed

section \<open>An accepted size\<close>

lemma instrument_positive:
  assumes "map_of sizer_instruments symbol = Some spec"
  shows "0 < isp_pip_size spec" and "0 < pip_value_of symbol spec" and "symbol \<noteq> []"
proof -
  have "(symbol, spec) \<in> set sizer_instruments" using assms by (rule map_of_SomeD)
  then show "0 < isp_pip_size spec" "symbol \<noteq> []" by (auto simp: sizer_instruments_def)
  have "0 < isp_lot_size spec \<and> 0 < isp_pip_value_per_lot spec \<and> 0 < isp_pip_size spec"
    using \<open>(symbol, spec) \<in> set sizer_instruments\<close> by (auto simp: sizer_instruments_def)
  then show "0 < pip_value_of symbol spec" by (simp add: pip_value_of_def)
qed

definition trade_base :: "string \<Rightarrow> sizer \<Rightarrow> flt" where
  "trade_base profile sz = (if profile = ''swarm'' then sz_risk_per_trade sz * (1/2) else sz_risk_per_trade sz)"

text \<open>Everything an accepted size guarantees.\<close>

definition accepted_size :: "string \<Rightarrow> flt \<Rightarrow> flt \<Rightarrow> string \<Rightarrow> sizer \<Rightarrow> position_size_result \<Rightarrow> bool" where
  "accepted_size symbol e sl profile sz r \<longleftrightarrow>
     (case map_of sizer_instruments symbol of None \<Rightarrow> False | Some spec \<Rightarrow>
        ps_pip_value r = pip_value_of symbol spec \<and> ps_sl_distance_pips r = \<bar>e - sl\<bar> / isp_pip_size spec) \<and>
     0 < ps_sl_distance_pips r * ps_pip_value r \<and>
     int (sz_count_for_symbol symbol sz) < sz_max_positions_per_symbol sz \<and>
     sz_open_risk sz + trade_base profile sz \<le> sz_max_total_open_risk sz \<and>
     trade_base profile sz \<le> sz_daily_risk_remaining sz \<and>
     1/100 \<le> ps_lots r \<and> ps_lots r \<le> py_round2 (sz_max_lot_size sz) \<and>
     0 < ps_risk_amount r \<and> ps_risk_amount r \<le> trade_base profile sz \<and>
     \<bar>ps_lots r * ps_sl_distance_pips r * ps_pip_value r - ps_risk_amount r\<bar> \<le> ps_sl_distance_pips r * ps_pip_value r / 200"

lemma py_round2_mono_ge: "x \<le> y \<Longrightarrow> py_round2 x \<le> py_round2 y"
proof -
  assume "x \<le> y"
  have "round_half_even (x * 100) \<le> round_half_even (y * 100)"
  proof (rule ccontr)
    assume less: "\<not> ?thesis"
    then have "of_int (round_half_even (y * 100)) + 1 \<le> (of_int (round_half_even (x * 100)) :: rat)" by linarith
    moreover have near: "\<bar>of_int (round_half_even (x * 100)) - x * 100\<bar> \<le> 1/2" "\<bar>of_int (round_half_even (y * 100)) - y * 100\<bar> \<le> 1/2"
      by (rule round_half_even_near)+
    ultimately have "x * 100 = y * 100" using \<open>x \<le> y\<close> by (simp add: abs_le_iff)
    with less show False by simp
  qed
  then show ?thesis by (simp add: py_round2_def divide_right_mono)
qed

lemma sz_size_accepts:
  assumes "sz_size symbol e sl profile sz = Inr r" and "\<not> ps_blocked r"
  shows "accepted_size symbol e sl profile sz r"
proof -
  obtain spec where spec: "map_of sizer_instruments symbol = Some spec"
    using assms by (cases "map_of sizer_instruments symbol") (auto simp: sz_size_def ps_block_def)
  note pos = instrument_positive [OF spec]
  define pv pips base where "pv = pip_value_of symbol spec" and "pips = \<bar>e - sl\<bar> / isp_pip_size spec"
    and "base = trade_base profile sz"
  define lots0 where "lots0 = base / (pips * pv)"
  define lots1 where "lots1 = (if lots0 > sz_max_lot_size sz then sz_max_lot_size sz else lots0)"
  have pips: "0 \<le> pips" using pos by (simp add: pips_def)
  have guards: "int (sz_count_for_symbol symbol sz) < sz_max_positions_per_symbol sz"
    "sz_open_risk sz + base \<le> sz_max_total_open_risk sz" "base \<le> sz_daily_risk_remaining sz"
    "pips * pv \<noteq> 0" "1/100 \<le> py_round2 lots1" "0 < base"
    and r: "r = \<lparr>ps_lots = py_round2 lots1, ps_risk_amount = (if lots0 > sz_max_lot_size sz then lots1 * pips * pv else base),
       ps_sl_distance_pips = pips, ps_sl_distance_price = \<bar>e - sl\<bar>, ps_pip_value = pv,
       ps_warnings = ps_warnings r, ps_blocked = False, ps_block_reason = []\<rparr>"
    using assms spec
    by (auto simp: sz_size_def Let_def ps_block_def pv_def pips_def base_def trade_base_def lots0_def lots1_def
        not_less not_le split: if_splits)
  have pp: "0 < pips * pv" using pips pos guards(4) by (simp add: pv_def order.not_eq_order_implies_strict zero_less_mult_iff)
  have lots1: "lots1 \<le> lots0" "lots1 \<le> sz_max_lot_size sz" by (auto simp: lots1_def)
  have near: "\<bar>py_round2 lots1 - lots1\<bar> \<le> 1/200" by (rule py_round2_near)
  have lots_pos: "0 < lots1" using abs_le_D1 [OF near] guards(5) by linarith
  have eq0: "lots0 * (pips * pv) = base" unfolding lots0_def by (metis guards(4) nonzero_divide_eq_eq)
  have act: "ps_risk_amount r = lots1 * (pips * pv)"
    using eq0 by (subst r) (auto simp: lots1_def mult.assoc)
  have act_le: "lots1 * (pips * pv) \<le> base"
    using mult_right_mono [OF lots1(1), of "pips * pv"] pp eq0 by simp
  have "\<bar>py_round2 lots1 * (pips * pv) - lots1 * (pips * pv)\<bar> = \<bar>py_round2 lots1 - lots1\<bar> * (pips * pv)"
    by (simp only: left_diff_distrib [symmetric] abs_mult [of _ "pips * pv"] abs_of_pos [OF pp])
  also have "\<dots> \<le> 1/200 * (pips * pv)" using pp near by (intro mult_right_mono) simp_all
  finally have diff: "\<bar>py_round2 lots1 * pips * pv - lots1 * (pips * pv)\<bar> \<le> pips * pv / 200" by (simp add: mult.assoc)
  have fields: "ps_lots r = py_round2 lots1" "ps_sl_distance_pips r = pips" "ps_pip_value r = pv"
    by (subst r, simp)+
  show ?thesis
    unfolding accepted_size_def fields act spec option.case
    using pp guards lots1 act_le diff py_round2_mono_ge [OF lots1(2)] mult_pos_pos [OF lots_pos pp]
    by (simp add: pv_def [symmetric] pips_def [symmetric] base_def [symmetric])
qed

section \<open>Runs\<close>

text \<open>
  One interaction of a client with the sizer: a signal that is sized and, when the size is accepted,
  registered under its id; a cancel, a close with its result, the daily reset, a new balance.
\<close>

datatype sizer_event =
    ZSignal instant string string flt flt string
  | ZCancel string
  | ZClose string flt
  | ZReset
  | ZBalance flt

fun sizer_step :: "sizer \<Rightarrow> sizer_event \<Rightarrow> sizer" where
  "sizer_step sz (ZSignal now sid symbol e sl profile) =
     (case sz_calculate now symbol e sl profile sz of
        Exc _ sz1 \<Rightarrow> sz1
      | Ret r sz1 \<Rightarrow> if ps_blocked r then sz1 else state_of (sz_register sid (ps_risk_amount r) symbol sz1))"
| "sizer_step sz (ZCancel sid) = sz_cancel sid sz"
| "sizer_step sz (ZClose sid pnl) = state_of (sz_close sid pnl sz)"
| "sizer_step sz ZReset = sz_reset_daily sz"
| "sizer_step sz (ZBalance b) = sz_update_balance b sz"

lemma calculate_state:
  "\<exists>b. state_of (sz_calculate now symbol e sl profile sz) = sz\<lparr>sz_breaker := b\<rparr> \<and>
       b = state_of (check_breakers now (sz_breaker sz))"
  by (auto simp: sz_calculate_def Let_def split: outcome.split option.split sum.split)

lemma calculate_accepts:
  assumes "sz_calculate now symbol e sl profile sz = Ret r sz1" and "\<not> ps_blocked r"
  shows "accepted_size symbol e sl (py_lower profile) sz1 r"
    and "sz1 = sz\<lparr>sz_breaker := state_of (check_breakers now (sz_breaker sz))\<rparr>"
    and "check_breakers now (sz_breaker sz) = Ret None (sz_breaker sz1)"
  using assms
  by (auto simp: sz_calculate_def Let_def ps_block_def intro: sz_size_accepts
      split: outcome.splits option.splits sum.splits)

text \<open>The budget: positive amounts under distinct keys, their sum and the counts per symbol within the limits.\<close>

definition symbol_counts_ok :: "sizer \<Rightarrow> bool" where
  "symbol_counts_ok sz \<longleftrightarrow> (\<forall>symbol. int (sz_count_for_symbol symbol sz) \<le> sz_max_positions_per_symbol sz)"

definition budget_ok :: "flt \<Rightarrow> sizer \<Rightarrow> bool" where
  "budget_ok limit sz \<longleftrightarrow> ledger.under_limit limit sz \<and> symbol_counts_ok sz \<and> sz_max_total_open_risk sz = limit"

lemma under_limit_frame:
  "sz_open_positions s = sz_open_positions t \<Longrightarrow> sz_position_symbols s = sz_position_symbols t \<Longrightarrow>
   ledger.under_limit limit s = ledger.under_limit limit t"
  by (simp add: ledger.under_limit_def ledger.nonneg_def sz_open_risk_def sizer_wf_def)

lemma counts_frame:
  "sz_position_symbols s = sz_position_symbols t \<Longrightarrow> sz_count_for_symbol symbol s = sz_count_for_symbol symbol t"
  by (simp add: sz_count_for_symbol_def)

lemma budget_frame:
  assumes "sz_open_positions s = sz_open_positions t" "sz_position_symbols s = sz_position_symbols t"
    "sz_max_total_open_risk s = sz_max_total_open_risk t" "sz_max_positions_per_symbol s = sz_max_positions_per_symbol t"
  shows "budget_ok limit s = budget_ok limit t"
  using under_limit_frame [OF assms(1,2)] counts_frame [OF assms(2)] assms(3,4)
  by (simp add: budget_ok_def symbol_counts_ok_def)

lemma filter_delete_le:
  "length (filter P (map snd (AList.delete k d))) \<le> length (filter P (map snd d))"
  by (induction d) auto

lemma count_cancel: "sz_count_for_symbol symbol (sz_cancel sid sz) \<le> sz_count_for_symbol symbol sz"
  using filter_delete_le [of "\<lambda>s. s = symbol" sid "sz_position_symbols sz"]
  by (simp add: sz_count_for_symbol_def sz_cancel_def)

lemma cancel_frame [simp]:
  "sz_max_total_open_risk (sz_cancel sid sz) = sz_max_total_open_risk sz"
  "sz_max_positions_per_symbol (sz_cancel sid sz) = sz_max_positions_per_symbol sz"
  "sz_breaker (sz_cancel sid sz) = sz_breaker sz"
  by (simp_all add: sz_cancel_def)

lemma budget_cancel: "budget_ok limit sz \<Longrightarrow> budget_ok limit (sz_cancel sid sz)"
  by (auto simp: budget_ok_def symbol_counts_ok_def
      intro: ledger.under_release order_trans [OF of_nat_mono [OF count_cancel]])

lemma count_register:
  assumes "sizer_wf sz" and "map_of (sz_open_positions sz) sid = None" and "s \<noteq> []"
  shows "sz_count_for_symbol symbol (state_of (sz_register sid r s sz)) =
           sz_count_for_symbol symbol sz + (if s = symbol then 1 else 0)"
proof -
  have "sid \<notin> fst ` set (sz_position_symbols sz)"
    using assms(1,2) by (auto simp: sizer_wf_def map_of_eq_None_iff)
  then have "map_of (sz_position_symbols sz) sid = None" by (simp add: map_of_eq_None_iff)
  with assms show ?thesis by (simp add: sz_register_def sz_count_for_symbol_def update_fresh)
qed

lemma register_frame [simp]:
  "sz_max_total_open_risk (state_of (sz_register sid r s sz)) = sz_max_total_open_risk sz"
  "sz_max_positions_per_symbol (state_of (sz_register sid r s sz)) = sz_max_positions_per_symbol sz"
  "sz_breaker (state_of (sz_register sid r s sz)) = sz_breaker sz"
  by (simp_all add: sz_register_def)

lemma budget_register:
  assumes ok: "budget_ok limit sz" and acc: "accepted_size symbol e sl profile sz r"
  shows "budget_ok limit (state_of (sz_register sid (ps_risk_amount r) symbol sz))"
proof (cases "map_of (sz_open_positions sz) sid")
  case (Some v)
  with ok show ?thesis by (simp add: sz_register_def)
next
  case None
  have nonempty: "symbol \<noteq> []"
    using acc instrument_positive(3) by (auto simp: accepted_size_def split: option.splits)
  have wf: "sizer_wf sz" using ok by (simp add: budget_ok_def ledger.under_limit_def)
  have "sz_open_risk sz + ps_risk_amount r \<le> limit" "0 \<le> ps_risk_amount r"
    using acc ok by (auto simp: accepted_size_def budget_ok_def)
  with ok have "ledger.under_limit limit (state_of (sz_register sid (ps_risk_amount r) symbol sz))"
    by (auto simp: budget_ok_def intro: ledger.under_reserve)
  moreover have "symbol_counts_ok (state_of (sz_register sid (ps_risk_amount r) symbol sz))"
    using ok acc by (auto simp: budget_ok_def symbol_counts_ok_def accepted_size_def count_register [OF wf None nonempty])
  ultimately show ?thesis using ok by (simp add: budget_ok_def)
qed

lemma budget_step: "budget_ok limit sz \<Longrightarrow> budget_ok limit (sizer_step sz ev)"
proof (cases ev)
  case (ZSignal now sid symbol e sl profile)
  assume ok: "budget_ok limit sz"
  show ?thesis
  proof (cases "sz_calculate now symbol e sl profile sz")
    case (Ret r sz1)
    obtain b where sz1: "sz1 = sz\<lparr>sz_breaker := b\<rparr>" using calculate_state [of now symbol e sl profile sz] Ret by auto
    then have ok1: "budget_ok limit sz1" using ok budget_frame [of sz1 sz] by simp
    show ?thesis
    proof (cases "ps_blocked r")
      case False
      then show ?thesis using budget_register [OF ok1 calculate_accepts(1) [OF Ret]] Ret ZSignal by simp
    qed (use ok1 Ret ZSignal in simp)
  next
    case (Exc e' sz1)
    obtain b where "sz1 = sz\<lparr>sz_breaker := b\<rparr>" using calculate_state [of now symbol e sl profile sz] Exc by auto
    then show ?thesis using ok budget_frame [of sz1 sz] Exc ZSignal by simp
  qed
next
  case (ZClose sid pnl)
  assume "budget_ok limit sz"
  then have "budget_ok limit (sz_cancel sid sz)" by (rule budget_cancel)
  then show ?thesis using ZClose budget_frame [of "state_of (sz_close sid pnl sz)" "sz_cancel sid sz"]
    by (simp add: close_as_cancel)
qed (auto simp: budget_cancel sz_reset_daily_def sz_update_balance_def Let_def cong: budget_frame
     intro!: budget_frame [THEN iffD1, rotated -1])

interpretation budget: invariant_machine sizer_step "\<lambda>_. True" "budget_ok limit" for limit
  by unfold_locales (rule budget_step)


text \<open>
  What an accepted size costs at its stop: the lots lie between the micro lot and the rounded maximum,
  the reported risk is positive and at most the per-trade risk, and the money lost when the price
  moves by the stop distance differs from it by at most half a micro lot.
\<close>

theorem sizer_stop_costs_risk:
  assumes "sz_calculate now symbol entry sl profile sz = Ret r sz'" and "\<not> ps_blocked r"
  shows "1/100 \<le> ps_lots r \<and> ps_lots r \<le> py_round2 (sz_max_lot_size sz) \<and>
    0 < ps_risk_amount r \<and> ps_risk_amount r \<le> sz_risk_per_trade sz \<and>
    \<bar>ps_lots r * ps_sl_distance_pips r * ps_pip_value r - ps_risk_amount r\<bar> \<le> ps_sl_distance_pips r * ps_pip_value r / 200"
proof -
  note acc = calculate_accepts(1) [OF assms] and sz' = calculate_accepts(2) [OF assms]
  have same: "sz_risk_per_trade sz' = sz_risk_per_trade sz" "sz_max_lot_size sz' = sz_max_lot_size sz"
    by (simp_all add: sz' sz_risk_per_trade_def)
  have "trade_base (py_lower profile) sz' \<le> sz_risk_per_trade sz"
    using acc by (auto simp: accepted_size_def trade_base_def same split: if_splits)
  with acc show ?thesis by (auto simp: accepted_size_def same)
qed

theorem sizer_stop_costs_risk_witness:
  "\<exists>r sz'. sz_calculate 0 ''EURUSD'' (11/10) (1095/1000) ''sniper'' (sizer_init 10000 (1/200) (3/100)) = Ret r sz' \<and>
     ps_lots r = 1/10 \<and> 1/100 \<le> ps_lots r \<and> ps_risk_amount r = 50"
proof -
  define r where "r = \<lparr>ps_lots = 1/10, ps_risk_amount = 50, ps_sl_distance_pips = 50, ps_sl_distance_price = 5/1000,
    ps_pip_value = 10, ps_warnings = [], ps_blocked = False, ps_block_reason = []\<rparr>"
  have calc: "sz_calculate 0 ''EURUSD'' (11/10) (1095/1000) ''sniper'' (sizer_init 10000 (1/200) (3/100)) =
      Ret r (sizer_init 10000 (1/200) (3/100))"
    unfolding r_def by code_simp
  have "\<not> ps_blocked r" by (simp add: r_def)
  from sizer_stop_costs_risk [OF calc this] calc show ?thesis by (auto simp: r_def)
qed

section \<open>The breaker\<close>

definition win_rate_stuck :: "sizer \<Rightarrow> bool" where
  "win_rate_stuck sz \<longleftrightarrow> sz_open_positions sz = [] \<and> \<not> br_halted (sz_breaker sz) \<and>
     10 \<le> length (br_recent_trades (sz_breaker sz)) \<and> br_win_rate (sz_breaker sz) < br_min_win_rate (sz_breaker sz)"

lemma stuck_blocks:
  assumes "win_rate_stuck sz"
  shows "\<exists>r. sz_calculate now symbol e sl profile sz = Ret r sz \<and> ps_blocked r"
  using assms by (auto simp: win_rate_stuck_def sz_calculate_def check_breakers_def br_conditions_def ps_block_def)

lemma stuck_step: "win_rate_stuck sz \<Longrightarrow> win_rate_stuck (sizer_step sz ev)"
proof (cases ev)
  case (ZSignal now sid symbol e sl profile)
  assume "win_rate_stuck sz"
  then show ?thesis using stuck_blocks [of sz now symbol e sl profile] ZSignal by auto
qed (auto simp: win_rate_stuck_def sz_cancel_def sz_close_def sz_reset_daily_def sz_update_balance_def br_win_rate_def Let_def)

interpretation stuck: invariant_machine sizer_step "\<lambda>_. True" win_rate_stuck
  by unfold_locales (rule stuck_step)

text \<open>
  C33. The win-rate breaker is permanent: once at least ten recent trades have a win rate below the minimum
  and no position is open, every later signal is blocked, whatever time passes and whatever signals,
  cancels, closes, daily resets and balance updates come in between; only a new closed trade could
  change the rate, and none can be opened.
\<close>

theorem sizer_win_rate_block_permanent:
  assumes "win_rate_stuck sz"
  shows "\<exists>r. sz_calculate now symbol entry sl profile (foldl sizer_step sz es) = Ret r (foldl sizer_step sz es) \<and> ps_blocked r"
  by (rule stuck_blocks, rule stuck.run_inv [OF assms]) (simp add: list_all_iff)

definition losing_sizer :: sizer where
  "losing_sizer =
     (sizer_init 10000 (1/200) (3/100))\<lparr>sz_breaker := breaker_init\<lparr>br_recent_trades := replicate 8 False @ [True, True]\<rparr>\<rparr>"

theorem sizer_win_rate_block_permanent_witness:
  "\<exists>r. sz_calculate (30 * day_us) ''EURUSD'' (11/10) (1095/1000) ''sniper''
     (foldl sizer_step
       losing_sizer
       [ZReset, ZReset]) = Ret r
     (foldl sizer_step
       losing_sizer
       [ZReset, ZReset]) \<and> ps_blocked r"
  by (rule sizer_win_rate_block_permanent)
    (simp add: losing_sizer_def win_rate_stuck_def sizer_init_def breaker_init_def br_win_rate_def)

lemma breaker_quiet_step:
  assumes "br_daily_dd_pct (sz_breaker sz) = 0 \<and> \<not> br_halted (sz_breaker sz)"
  shows "br_daily_dd_pct (sz_breaker (sizer_step sz ev)) = 0 \<and> \<not> br_halted (sz_breaker (sizer_step sz ev))"
proof (cases ev)
  case (ZSignal now sid symbol e sl profile)
  have "check_breakers now (sz_breaker sz) = Ret (br_conditions (sz_breaker sz)) (sz_breaker sz)"
    using assms by (simp add: check_breakers_def)
  then have "state_of (sz_calculate now symbol e sl profile sz) = sz"
    using calculate_state [of now symbol e sl profile sz] by auto
  then show ?thesis using assms ZSignal by (auto split: outcome.split)
qed (use assms in \<open>auto simp: sz_close_def sz_reset_daily_def sz_update_balance_def br_record_trade_def Let_def\<close>)

interpretation quiet: invariant_machine sizer_step "\<lambda>_. True"
  "\<lambda>sz. br_daily_dd_pct (sz_breaker sz) = 0 \<and> \<not> br_halted (sz_breaker sz)"
  by unfold_locales (rule breaker_quiet_step)

text \<open>
  The sizer never halts itself and never sees a daily drawdown: over every run the halt flag stays
  down and the daily drawdown stays zero, whatever losses are closed, so of the three conditions the
  daily one can never block.
\<close>

theorem sizer_daily_breaker_dead:
  "br_daily_dd_pct (sz_breaker (foldl sizer_step (sizer_init balance risk_pct cap_pct) es)) = 0 \<and>
   \<not> br_halted (sz_breaker (foldl sizer_step (sizer_init balance risk_pct cap_pct) es))"
  by (rule quiet.run_inv) (simp_all add: sizer_init_def breaker_init_def list_all_iff)

section \<open>Rebuilding from the broker\<close>

text \<open>The positions that count: those with an id, each id once, at its first occurrence.\<close>

fun first_by_id :: "string list \<Rightarrow> broker_position list \<Rightarrow> broker_position list" where
  "first_by_id seen [] = []"
| "first_by_id seen (p # ps) =
     (if bp_position_id p = [] \<or> bp_position_id p \<in> set seen then first_by_id seen ps
      else p # first_by_id (bp_position_id p # seen) ps)"

definition seeded_entries :: "broker_position list \<Rightarrow> (string \<times> flt) list" where
  "seeded_entries ps = map (\<lambda>p. (seeded_key (bp_position_id p), broker_risk p)) ps"

lemma seeded_key_inject [simp]: "seeded_key a = seeded_key b \<longleftrightarrow> a = b"
  by (simp add: seeded_key_def)

lemma seeded_lookup:
  "map_of (seeded_entries qs) (seeded_key i) = None \<longleftrightarrow> i \<notin> bp_position_id ` set qs"
  by (auto simp: map_of_eq_None_iff seeded_entries_def image_image)

declare seed_one.simps [simp del]

lemma seed_loop:
  assumes "sz_open_positions sz = seeded_entries qs" and "set seen = bp_position_id ` set qs"
    and "n = int (length qs)" and "r = sum_list (map broker_risk qs)"
  shows "\<exists>sz' missing'. fold seed_one ps (sz, n, r, missing) =
      (sz', int (length (qs @ first_by_id seen ps)), sum_list (map broker_risk (qs @ first_by_id seen ps)), missing @ missing') \<and>
    sz_open_positions sz' = seeded_entries (qs @ first_by_id seen ps) \<and>
    sz_daily_risk_used sz' = sz_daily_risk_used sz \<and> sz_breaker sz' = sz_breaker sz \<and>
    sz_account_balance sz' = sz_account_balance sz \<and>
    length missing' + length (first_by_id seen ps) = length ps"
  using assms
proof (induction ps arbitrary: sz qs seen n r missing)
  case (Cons p ps)
  show ?case
  proof (cases "bp_position_id p = [] \<or> bp_position_id p \<in> set seen")
    case True
    define m where "m = (if bp_position_id p = [] then ''<missing-id>'' else bp_position_id p)"
    have "map_of (sz_open_positions sz) (seeded_key (bp_position_id p)) \<noteq> None" if "bp_position_id p \<noteq> []"
      using that True Cons.prems(1,2) by (simp add: seeded_lookup del: not_None_eq)
    then have one: "seed_one p (sz, n, r, missing) = (sz, n, r, missing @ [m])"
      by (auto simp: sz_register_def m_def seed_one.simps)
    obtain sz' missing' where "fold seed_one ps (sz, n, r, missing @ [m]) =
        (sz', int (length (qs @ first_by_id seen ps)), sum_list (map broker_risk (qs @ first_by_id seen ps)),
         (missing @ [m]) @ missing')"
      "sz_open_positions sz' = seeded_entries (qs @ first_by_id seen ps)"
      "sz_daily_risk_used sz' = sz_daily_risk_used sz" "sz_breaker sz' = sz_breaker sz"
      "sz_account_balance sz' = sz_account_balance sz" "length missing' + length (first_by_id seen ps) = length ps"
      using Cons.IH [OF Cons.prems, of "missing @ [m]"] by blast
    then show ?thesis
      using True by (intro exI [of _ sz'] exI [of _ "m # missing'"]) (auto simp: one)
  next
    case False
    define sz1 where "sz1 = state_of (sz_register (seeded_key (bp_position_id p)) (broker_risk p) (bp_symbol p) sz)"
    have free: "map_of (sz_open_positions sz) (seeded_key (bp_position_id p)) = None"
      using False Cons.prems(1,2) by (simp add: seeded_lookup)
    then have one: "seed_one p (sz, n, r, missing) = (sz1, n + 1, r + broker_risk p, missing)"
      using False by (simp add: sz_register_def sz1_def seed_one.simps)
    have "sz_open_positions sz1 = seeded_entries (qs @ [p])"
      "sz_daily_risk_used sz1 = sz_daily_risk_used sz" "sz_breaker sz1 = sz_breaker sz"
      "sz_account_balance sz1 = sz_account_balance sz"
      using free Cons.prems(1) by (simp_all add: sz1_def sz_register_def update_fresh seeded_entries_def)
    moreover have step: "fold seed_one (p # ps) (sz, n, r, missing) = fold seed_one ps (sz1, n + 1, r + broker_risk p, missing)"
      by (simp add: one)
    ultimately show ?thesis
      using Cons.IH [of sz1 "qs @ [p]" "bp_position_id p # seen" "n + 1" "r + broker_risk p" missing] False Cons.prems
      unfolding step by auto
  qed
qed simp

text \<open>
  Whatever the sizer held before, after the rebuild it holds exactly the broker's positions: one entry
  per id, in the broker's order, under its seeded key and at its computed risk. The reported counts and
  risks are those of the result, each position is either seeded or reported missing, and the daily
  losses, the balance and the breaker are untouched.
\<close>

theorem sizer_reconcile_rebuilds:
  assumes "sz_reconcile_with_broker now ps sz = (res, sz')"
  shows "sz_open_positions sz' = seeded_entries (first_by_id [] ps) \<and>
    rr_after_open_risk res = sz_open_risk sz' \<and> rr_before_open_risk res = sz_open_risk sz \<and>
    rr_seeded_count res = rr_after_count res \<and>
    rr_after_count res = int (length (sz_open_positions sz')) \<and>
    rr_removed_count res = int (length (sz_open_positions sz)) - int (length (sz_open_positions sz')) \<and>
    rr_seeded_count res + int (length (rr_missing_position_ids res)) = int (length ps) \<and>
    sz_daily_risk_used sz' = sz_daily_risk_used sz \<and> sz_breaker sz' = sz_breaker sz \<and>
    sz_account_balance sz' = sz_account_balance sz"
proof -
  let ?cleared = "sz\<lparr>sz_open_positions := [], sz_position_symbols := []\<rparr>"
  obtain sz1 missing' where loop: "fold seed_one ps (?cleared, 0, 0, []) =
      (sz1, int (length (first_by_id [] ps)), sum_list (map broker_risk (first_by_id [] ps)), missing')"
    "sz_open_positions sz1 = seeded_entries (first_by_id [] ps)" "sz_daily_risk_used sz1 = sz_daily_risk_used sz"
    "sz_breaker sz1 = sz_breaker sz" "sz_account_balance sz1 = sz_account_balance sz"
    "length missing' + length (first_by_id [] ps) = length ps"
    using seed_loop [of ?cleared "[]" "[]" 0 0 ps "[]"] by (auto simp: seeded_entries_def)
  have "sz_open_risk sz1 = sum_list (map broker_risk (first_by_id [] ps))"
    by (simp add: sz_open_risk_def loop(2) seeded_entries_def o_def)
  then show ?thesis
    using assms loop by (auto simp: sz_reconcile_with_broker_def sz_open_risk_def Let_def seeded_entries_def)
qed

definition example_broker_position :: broker_position where
  "example_broker_position =
     \<lparr>bp_position_id = ''7'', bp_symbol = ''EURUSD'', bp_volume = Some (1/10), bp_volume_lots = None,
      bp_entry_price = Some (11/10), bp_price = None, bp_stop_loss = Some (1095/1000), bp_sl = None\<rparr>"

theorem sizer_reconcile_rebuilds_witness:
  "\<exists>res sz'. sz_reconcile_with_broker 0 [example_broker_position, example_broker_position] (sizer_init 10000 (1/200) (3/100)) =
     (res, sz') \<and> rr_seeded_count res + int (length (rr_missing_position_ids res)) = 2 \<and> rr_after_open_risk res = 50"
proof -
  obtain res sz' where run: "sz_reconcile_with_broker 0 [example_broker_position, example_broker_position]
      (sizer_init 10000 (1/200) (3/100)) = (res, sz')" by (cases "sz_reconcile_with_broker 0 [example_broker_position, example_broker_position]
      (sizer_init 10000 (1/200) (3/100))")
  have "rr_after_open_risk (fst (sz_reconcile_with_broker 0 [example_broker_position, example_broker_position]
      (sizer_init 10000 (1/200) (3/100)))) = 50" by code_simp
  then show ?thesis using sizer_reconcile_rebuilds [OF run] run by auto
qed

section \<open>Legacy keys\<close>

text \<open>
  The keyless registration names its entry by the number of open entries, so it reuses a name: after
  two registrations and the cancel of the first one, the next registration collides with the second
  and raises \<open>ValueError\<close>, reserving nothing.
\<close>

theorem sizer_legacy_register_collides:
  "let s0 = sizer_init balance risk_pct cap_pct;
       s1 = state_of (sz_register_open_position obj_id r1 s0);
       s2 = state_of (sz_register_open_position obj_id r2 s1);
       s3 = sz_cancel (legacy_key obj_id s0) s2
   in sz_register_open_position obj_id r3 s3 = Exc ValueError s3"
  by (simp add: sz_register_open_position_def sz_register_def sz_cancel_def legacy_key_def sizer_init_def Let_def)

end
