(* ===== verification/SizerState.thy ===== *)
theory SizerState
  imports SizerSafety
begin

text \<open>
  The state file of \<open>risk/state_persistence.py\<close>: what of the position sizer survives a restart, the
  per-strategy metrics beside it, and the comparison of their counts with the broker's.
\<close>

section \<open>The file\<close>

text \<open>
  A file as \<open>save\<close> writes it, each key possibly absent; the stamp of a halt is classified by what
  \<open>datetime.fromisoformat\<close> makes of it (an absent, null or empty one is \<open>NoStamp\<close>). A file can also be
  missing, unreadable as JSON, or JSON that is not an object.
\<close>

datatype stamp = NoStamp | Stamp py_datetime | BadStamp

record saved_breaker =
  sb_halted :: "bool option"
  sb_halted_until :: stamp
  sb_halt_reason :: "ptext option"
  sb_recent_trades :: "bool list option"
  sb_daily_dd_pct :: "flt option"
  sb_account_dd_pct :: "flt option"

record saved_metrics =
  sm_consecutive_losses :: "int option"
  sm_daily_pnl :: "flt option"
  sm_daily_dd_pct :: "flt option"
  sm_open_positions :: "int option"
  sm_last_slippage_pips :: "flt option"

record saved_tracker =
  stk_version :: int
  stk_strategies :: "(string \<times> saved_metrics) list option"

record saved_state =
  sv_account_balance :: "flt option"
  sv_peak_balance :: "flt option"
  sv_daily_risk_used :: "flt option"
  sv_open_risk :: "flt option"
  sv_circuit_breaker :: "saved_breaker option"
  sv_strategy_tracker :: "saved_tracker option"

datatype state_file = FileMissing | FileCorrupt | FileNotObject | FileState saved_state

section \<open>Strategy metrics\<close>

record strategy_metrics =
  tm_consecutive_losses :: int
  tm_daily_pnl :: flt
  tm_daily_dd_pct :: flt
  tm_open_positions :: int
  tm_last_slippage_pips :: flt

type_synonym strategy_tracker = "(string \<times> strategy_metrics) list"

definition metrics_zero :: strategy_metrics where
  "metrics_zero =
     \<lparr>tm_consecutive_losses = 0, tm_daily_pnl = 0, tm_daily_dd_pct = 0, tm_open_positions = 0,
      tm_last_slippage_pips = 0\<rparr>"

definition st_register :: "string \<Rightarrow> strategy_tracker \<Rightarrow> strategy_tracker" where
  "st_register sid t = (if map_of t sid = None then AList.update sid metrics_zero t else t)"

text \<open>The keyword arguments left at \<open>None\<close> keep their field.\<close>

definition st_update :: "string \<Rightarrow> saved_metrics \<Rightarrow> strategy_tracker \<Rightarrow> strategy_tracker" where
  "st_update sid u t =
     (let t1 = st_register sid t; m = dget_or t1 sid metrics_zero in
      AList.update sid
        \<lparr>tm_consecutive_losses = or_default (sm_consecutive_losses u) (tm_consecutive_losses m),
         tm_daily_pnl = or_default (sm_daily_pnl u) (tm_daily_pnl m),
         tm_daily_dd_pct = or_default (sm_daily_dd_pct u) (tm_daily_dd_pct m),
         tm_open_positions = or_default (sm_open_positions u) (tm_open_positions m),
         tm_last_slippage_pips = or_default (sm_last_slippage_pips u) (tm_last_slippage_pips m)\<rparr> t1)"

definition st_reset_daily :: "strategy_tracker \<Rightarrow> strategy_tracker" where
  "st_reset_daily t =
     map (\<lambda>(sid, m). (sid, m\<lparr>tm_consecutive_losses := 0, tm_daily_pnl := 0, tm_daily_dd_pct := 0\<rparr>)) t"

definition metrics_saved :: "strategy_metrics \<Rightarrow> saved_metrics" where
  "metrics_saved m =
     \<lparr>sm_consecutive_losses = Some (tm_consecutive_losses m), sm_daily_pnl = Some (tm_daily_pnl m),
      sm_daily_dd_pct = Some (tm_daily_dd_pct m), sm_open_positions = Some (tm_open_positions m),
      sm_last_slippage_pips = Some (tm_last_slippage_pips m)\<rparr>"

definition st_to_dict :: "strategy_tracker \<Rightarrow> saved_tracker" where
  "st_to_dict t = \<lparr>stk_version = 1, stk_strategies = Some (map (\<lambda>(sid, m). (sid, metrics_saved m)) t)\<rparr>"

definition metrics_loaded :: "saved_metrics \<Rightarrow> strategy_metrics" where
  "metrics_loaded d =
     \<lparr>tm_consecutive_losses = or_default (sm_consecutive_losses d) 0, tm_daily_pnl = or_default (sm_daily_pnl d) 0,
      tm_daily_dd_pct = or_default (sm_daily_dd_pct d) 0, tm_open_positions = or_default (sm_open_positions d) 0,
      tm_last_slippage_pips = or_default (sm_last_slippage_pips d) 0\<rparr>"

definition st_from_dict :: "saved_tracker \<Rightarrow> strategy_tracker" where
  "st_from_dict d =
     fold (\<lambda>(sid, m) t. AList.update sid (metrics_loaded m) t) (or_default (stk_strategies d) []) []"

section \<open>Saving and restoring\<close>

definition sp_get_state :: "sizer \<Rightarrow> saved_state" where
  "sp_get_state sz =
     (let b = sz_breaker sz in
      \<lparr>sv_account_balance = Some (sz_account_balance sz), sv_peak_balance = Some (sz_peak_balance sz),
       sv_daily_risk_used = Some (sz_daily_risk_used sz), sv_open_risk = Some (sz_open_risk sz),
       sv_circuit_breaker = Some
         \<lparr>sb_halted = Some (br_halted b),
          sb_halted_until = (case br_halted_until b of Some d \<Rightarrow> Stamp d | None \<Rightarrow> NoStamp),
          sb_halt_reason = Some (br_halt_reason b), sb_recent_trades = Some (br_recent_trades b),
          sb_daily_dd_pct = Some (br_daily_dd_pct b), sb_account_dd_pct = Some (br_account_dd_pct b)\<rparr>,
       sv_strategy_tracker = None\<rparr>)"

text \<open>\<open>write_ok\<close>: the temporary file could be written and renamed; otherwise the error is raised again.\<close>

definition sp_save :: "bool \<Rightarrow> sizer \<Rightarrow> strategy_tracker option \<Rightarrow> state_file \<Rightarrow> (state_file, unit) outcome" where
  "sp_save write_ok sz tracker file =
     (let state = (sp_get_state sz)\<lparr>sv_strategy_tracker := map_option st_to_dict tracker\<rparr> in
      if write_ok then Ret () (FileState state) else Exc OSError file)"

definition saved_breaker_empty :: saved_breaker where
  "saved_breaker_empty =
     \<lparr>sb_halted = None, sb_halted_until = NoStamp, sb_halt_reason = None, sb_recent_trades = None,
      sb_daily_dd_pct = None, sb_account_dd_pct = None\<rparr>"

text \<open>Everything before the stamp of the halt is parsed.\<close>

definition restore_fields :: "saved_state \<Rightarrow> sizer \<Rightarrow> sizer" where
  "restore_fields raw sz =
     (let sz1 = sz\<lparr>sz_account_balance := or_default (sv_account_balance raw) (sz_account_balance sz)\<rparr>;
          sz2 = sz1\<lparr>sz_peak_balance := or_default (sv_peak_balance raw) (sz_account_balance sz1)\<rparr>;
          sz3 = sz2\<lparr>sz_daily_risk_used := or_default (sv_daily_risk_used raw) 0\<rparr>;
          sz4 = sz_set_open_risk (or_default (sv_open_risk raw) 0) sz3;
          cb = or_default (sv_circuit_breaker raw) saved_breaker_empty
      in sz4\<lparr>sz_breaker := (sz_breaker sz4)
               \<lparr>br_halted := or_default (sb_halted cb) False, br_halt_reason := or_default (sb_halt_reason cb) [],
                br_recent_trades := or_default (sb_recent_trades cb) [],
                br_daily_dd_pct := or_default (sb_daily_dd_pct cb) 0,
                br_account_dd_pct := or_default (sb_account_dd_pct cb) 0\<rparr>\<rparr>)"

definition sp_restore :: "state_file \<Rightarrow> sizer \<Rightarrow> bool \<times> sizer" where
  "sp_restore file sz =
     (case file of
        FileState raw \<Rightarrow>
          let sz1 = restore_fields raw sz; cb = or_default (sv_circuit_breaker raw) saved_breaker_empty in
          (case sb_halted_until cb of
             Stamp d \<Rightarrow> (True, sz1\<lparr>sz_breaker := (sz_breaker sz1)\<lparr>br_halted_until := Some d\<rparr>\<rparr>)
           | NoStamp \<Rightarrow> (True, sz1\<lparr>sz_breaker := (sz_breaker sz1)\<lparr>br_halted_until := None\<rparr>\<rparr>)
           | BadStamp \<Rightarrow> (False, sz1))
      | _ \<Rightarrow> (False, sz))"

definition sp_restore_strategy_tracker :: "state_file \<Rightarrow> (unit, strategy_tracker option) outcome" where
  "sp_restore_strategy_tracker file =
     (case file of
        FileState raw \<Rightarrow> Ret (map_option st_from_dict (sv_strategy_tracker raw)) ()
      | FileNotObject \<Rightarrow> Exc AttributeError ()
      | _ \<Rightarrow> Ret None ())"

datatype position_mismatch = CountMismatch string int int | HighSlippage string flt

record position_comparison =
  pc_matched :: bool
  pc_local_count :: int
  pc_broker_count :: int
  pc_mismatches :: "position_mismatch list"

definition sp_reconcile_positions :: "strategy_tracker \<Rightarrow> string \<Rightarrow> 'a list \<Rightarrow> position_comparison" where
  "sp_reconcile_positions t sid broker_positions =
     (let m = map_of t sid;
          local_count = (case m of Some x \<Rightarrow> tm_open_positions x | None \<Rightarrow> 0);
          broker_count = int (length broker_positions);
          mismatches = (if local_count \<noteq> broker_count then [CountMismatch sid local_count broker_count] else []) @
            (case m of Some x \<Rightarrow> (if tm_last_slippage_pips x > 5 then [HighSlippage sid (tm_last_slippage_pips x)] else [])
             | None \<Rightarrow> [])
      in \<lparr>pc_matched = (mismatches = []), pc_local_count = local_count, pc_broker_count = broker_count,
          pc_mismatches = mismatches\<rparr>)"

section \<open>Properties\<close>


definition busy_sizer :: sizer where
  "busy_sizer =
     state_of (sz_register ''ttc_1'' 40 ''XAUUSD'' (state_of (sz_register ''ttc_0'' 50 ''EURUSD'' (sizer_init 10000 (1/200) (3/100)))))"


text \<open>
  A bad stamp poisons the sizer: when the file says halted and its stamp does not parse, \<open>restore\<close>
  reports failure after having set the halt flag, and from then on every sizing of a sizer without
  an earlier stamp raises \<open>TypeError\<close>, whatever the signal and the time.
\<close>

theorem sizer_bad_stamp_poisons:
  assumes "sv_circuit_breaker raw = Some cb" and "sb_halted cb = Some True" and "sb_halted_until cb = BadStamp"
    and "br_halted_until (sz_breaker sz) = None"
  shows "\<not> fst (sp_restore (FileState raw) sz) \<and>
    sz_calculate now symbol entry sl profile (snd (sp_restore (FileState raw) sz)) =
      Exc TypeError (snd (sp_restore (FileState raw) sz))"
  using assms
  by (simp add: sp_restore_def restore_fields_def sz_set_open_risk_def sz_calculate_def check_breakers_def Let_def)

theorem sizer_bad_stamp_poisons_witness:
  "\<not> fst (sp_restore (FileState \<lparr>sv_account_balance = Some 9000, sv_peak_balance = None, sv_daily_risk_used = None,
      sv_open_risk = None, sv_circuit_breaker = Some (saved_breaker_empty\<lparr>sb_halted := Some True, sb_halted_until := BadStamp\<rparr>),
      sv_strategy_tracker = None\<rparr>) (sizer_init 10000 (1/200) (3/100)))"
  by (rule sizer_bad_stamp_poisons [THEN conjunct1, of _ "saved_breaker_empty\<lparr>sb_halted := Some True, sb_halted_until := BadStamp\<rparr>"])
    (simp_all add: saved_breaker_empty_def sizer_init_def breaker_init_def)

lemma loaded_saved [simp]: "metrics_loaded (metrics_saved m) = m"
  by (simp add: metrics_loaded_def metrics_saved_def)

lemma from_dict_fold:
  "distinct (map fst (t @ d)) \<Longrightarrow>
   fold (\<lambda>(sid, m) t. AList.update sid (metrics_loaded m) t) (map (\<lambda>(sid, m). (sid, metrics_saved m)) d) t = t @ d"
proof (induction d arbitrary: t)
  case (Cons p d)
  then have "map_of t (fst p) = None" by (auto simp: map_of_eq_None_iff)
  with Cons.IH [of "t @ [p]"] Cons.prems show ?case by (auto simp: update_fresh split_beta)
qed simp

text \<open>The tracker's metrics survive the file unchanged, in their order.\<close>

theorem tracker_file_roundtrip:
  assumes "distinct (map fst t)"
  shows "sp_restore_strategy_tracker (state_of (sp_save True sz (Some t) file)) = Ret (Some t) ()"
  using from_dict_fold [of "[]" t] assms
  by (simp add: sp_restore_strategy_tracker_def sp_save_def st_from_dict_def st_to_dict_def Let_def)

theorem tracker_file_roundtrip_witness:
  "sp_restore_strategy_tracker (state_of (sp_save True busy_sizer
     (Some [(''ttc'', metrics_zero\<lparr>tm_open_positions := 2\<rparr>), (''srmr'', metrics_zero)]) FileMissing)) =
   Ret (Some [(''ttc'', metrics_zero\<lparr>tm_open_positions := 2\<rparr>), (''srmr'', metrics_zero)]) ()"
  by (rule tracker_file_roundtrip) simp

end
