(* ===== verification/Confidence.thy ===== *)
theory Confidence
  imports Gates
begin

text \<open>
  The confidence score of a signal: \<open>confidence/engine.py\<close> (clamp, confluence boost, gates), the
  confluence detector of \<open>confidence/confluence.py\<close> and the strategy registry it consults
  (\<open>strategies/registry.py\<close>). Time stamps are aware instants.
\<close>

section \<open>Strategies\<close>

record strategy_config =
  sc_strategy_id :: string
  sc_name :: string
  sc_strategy_type :: string
  sc_symbols :: "string list"
  sc_timeframes :: "string list"
  sc_typical_confidence_range :: "flt \<times> flt"
  sc_active :: bool

type_synonym registry = "(string \<times> strategy_config) list"

definition reg_register :: "strategy_config \<Rightarrow> registry \<Rightarrow> registry" where
  "reg_register c r = AList.update (sc_strategy_id c) c r"

definition reg_get_for_symbol :: "string \<Rightarrow> registry \<Rightarrow> strategy_config list" where
  "reg_get_for_symbol symbol r =
     filter (\<lambda>s. sc_active s \<and> List.member (map py_upper (sc_symbols s)) (py_upper symbol)) (map snd r)"

definition reg_get_all_active :: "registry \<Rightarrow> strategy_config list" where
  "reg_get_all_active r = filter sc_active (map snd r)"

section \<open>Confluence\<close>

record confluence_result =
  cr_agreeing_strategies :: "string list"
  cr_agreeing_types :: "string list"
  cr_agreeing_timeframes :: "string list"
  cr_cross_type_agreement :: bool
  cr_confluence_score :: flt

record recorded_signal =
  rsg_strategy_id :: string
  rsg_symbol :: string
  rsg_direction :: string
  rsg_confidence :: flt
  rsg_timestamp :: instant

record confluence_detector =
  cd_registry :: registry
  cd_window :: int \<comment> \<open>microseconds\<close>
  cd_signals :: "recorded_signal list"

definition cd_init :: "registry \<Rightarrow> int \<Rightarrow> confluence_detector" where
  "cd_init r window_minutes = \<lparr>cd_registry = r, cd_window = window_minutes * 60000000, cd_signals = []\<rparr>"

definition cd_record_signal ::
  "string \<Rightarrow> string \<Rightarrow> string \<Rightarrow> flt \<Rightarrow> instant \<Rightarrow> confluence_detector \<Rightarrow> confluence_detector" where
  "cd_record_signal sid symbol direction confidence timestamp d =
     (let ss = cd_signals d @ [\<lparr>rsg_strategy_id = sid, rsg_symbol = symbol, rsg_direction = py_lower direction,
                               rsg_confidence = confidence, rsg_timestamp = timestamp\<rparr>];
          cutoff = timestamp - cd_window d
      in d\<lparr>cd_signals := filter (\<lambda>s. rsg_timestamp s \<ge> cutoff) ss\<rparr>)"

text \<open>\<open>if x not in seen: seen.add(x); out.append(x)\<close> for each of a list.\<close>

definition add_new :: "'a list \<Rightarrow> 'a list \<Rightarrow> 'a list" where
  "add_new xs seen = fold (\<lambda>x acc. if List.member acc x then acc else acc @ [x]) xs seen"

type_synonym agreeing = "string list \<times> string list \<times> string list"

definition agree_one :: "registry \<Rightarrow> recorded_signal \<Rightarrow> agreeing \<Rightarrow> agreeing" where
  "agree_one reg s a =
     (case a of (ids, types, tfs) \<Rightarrow>
        if List.member ids (rsg_strategy_id s) then (ids, types, tfs)
        else case map_of reg (rsg_strategy_id s) of
               None \<Rightarrow> (ids @ [rsg_strategy_id s], types, tfs)
             | Some c \<Rightarrow> (ids @ [rsg_strategy_id s], add_new [sc_strategy_type c] types, add_new (sc_timeframes c) tfs))"

definition confluence_points :: "nat \<Rightarrow> nat \<Rightarrow> flt" where
  "confluence_points n_strategies n_types =
     min (if n_strategies \<le> 1 then 0
          else if n_strategies = 2 then (if n_types = 1 then 3/10 else 5/10)
          else (if n_types = 1 then 7/10 else 9/10)) 1"

definition cd_get_confluence :: "string \<Rightarrow> string \<Rightarrow> instant \<Rightarrow> confluence_detector \<Rightarrow> confluence_result" where
  "cd_get_confluence symbol direction timestamp d =
     (let cutoff = timestamp - cd_window d;
          matching = filter (\<lambda>s. py_upper (rsg_symbol s) = py_upper symbol \<and> rsg_direction s = py_lower direction \<and>
                                 rsg_timestamp s \<ge> cutoff) (cd_signals d);
          (ids, types, tfs) = fold (agree_one (cd_registry d)) matching ([], [], [])
      in \<lparr>cr_agreeing_strategies = ids, cr_agreeing_types = types, cr_agreeing_timeframes = tfs,
          cr_cross_type_agreement = (length types > 1), cr_confluence_score = confluence_points (length ids) (length types)\<rparr>)"

section \<open>The engine\<close>

record confidence_result =
  cf_final_score :: flt
  cf_strategy_score :: flt
  cf_confluence_boost :: flt
  cf_gates_passed :: "string list"
  cf_gates_failed :: "string list"
  cf_blocked :: bool
  cf_block_reason :: ptext

record confidence_engine =
  ce_gates :: "(gate_ctx \<Rightarrow> gate_check) list"
  ce_detector :: "confluence_detector option"

definition ce_init :: "gate_config option \<Rightarrow> confluence_detector option \<Rightarrow> confidence_engine" where
  "ce_init cfg detector =
     (let c = or_default cfg gate_config_default in
      \<lparr>ce_gates = [spread_gate_check c, session_gate_check c, volatility_gate_check c None], ce_detector = detector\<rparr>)"

definition ce_add_gate :: "(gate_ctx \<Rightarrow> gate_check) \<Rightarrow> confidence_engine \<Rightarrow> confidence_engine" where
  "ce_add_gate g ce = ce\<lparr>ce_gates := ce_gates ce @ [g]\<rparr>"

text \<open>An explicit confluence; an absent key is the empty string.\<close>

record confluence =
  cn_strategy :: string
  cn_direction :: string
  cn_timeframe :: string

fun boost_loop :: "string \<Rightarrow> confluence list \<Rightarrow> string list \<Rightarrow> string list \<Rightarrow> flt \<Rightarrow> flt" where
  "boost_loop direction [] seen_s seen_t boost = boost"
| "boost_loop direction (c # cs) seen_s seen_t boost =
     (let name = cn_strategy c; tf = cn_timeframe c;
          new_s = (name \<noteq> [] \<and> \<not> List.member seen_s name \<and> cn_direction c = direction);
          new_t = (tf \<noteq> [] \<and> \<not> List.member seen_t tf \<and> cn_direction c = direction)
      in boost_loop direction cs (if new_s then name # seen_s else seen_s) (if new_t then tf # seen_t else seen_t)
           (boost + (if new_s then 5/100 else 0) + (if new_t then 25/1000 else 0)))"

definition calc_confluence_boost :: "confluence list option \<Rightarrow> string \<Rightarrow> flt \<Rightarrow> flt" where
  "calc_confluence_boost confluences direction current_score =
     (case confluences of
        None \<Rightarrow> 0
      | Some cs \<Rightarrow>
          if cs = [] then 0
          else
            let boost = min (boost_loop direction cs [] [] 0) (15/100)
            in if current_score + boost > 1 then max 0 (1 - current_score) else boost)"

text \<open>The gates in order; the score after them and the names passed, or the first that failed.\<close>

fun run_gates ::
  "(gate_ctx \<Rightarrow> gate_check) list \<Rightarrow> gate_ctx \<Rightarrow> flt \<Rightarrow> string list \<Rightarrow> (flt \<times> string list \<times> gate_check) + (flt \<times> string list)" where
  "run_gates [] ctx score passed = Inr (score, passed)"
| "run_gates (g # gs) ctx score passed =
     (let r = g ctx in
      if gc_passed r then run_gates gs ctx (min 1 (score + gc_boost r)) (passed @ [gc_gate_name r])
      else Inl (score, passed, r))"

text \<open>The keyword arguments of \<open>score\<close>.\<close>

record score_args =
  sa_symbol :: string
  sa_direction :: string
  sa_spread :: flt
  sa_atr :: flt
  sa_hour_utc :: int
  sa_confluences :: "confluence list option"

definition gate_context :: "score_args \<Rightarrow> gate_ctx" where
  "gate_context a =
     \<lparr>gx_symbol = Some (sa_symbol a), gx_spread = Some (sa_spread a), gx_hour_utc = Some (sa_hour_utc a),
      gx_atr = Some (sa_atr a)\<rparr>"

definition detector_boost :: "instant \<Rightarrow> score_args \<Rightarrow> confluence_detector option \<Rightarrow> flt \<Rightarrow> flt" where
  "detector_boost now a detector boost =
     (case detector of
        None \<Rightarrow> boost
      | Some d \<Rightarrow>
          let r = cd_get_confluence (sa_symbol a) (sa_direction a) now d
          in if cr_confluence_score r > 0 then min (boost + cr_confluence_score r * (15/100)) (30/100) else boost)"

definition ce_score :: "instant \<Rightarrow> flt \<Rightarrow> score_args \<Rightarrow> confidence_engine \<Rightarrow> confidence_result" where
  "ce_score now raw a ce =
     (let score0 = max 0 (min 1 raw);
          boost = detector_boost now a (ce_detector ce)
                    (calc_confluence_boost (sa_confluences a) (sa_direction a) score0)
      in case run_gates (ce_gates ce) (gate_context a) score0 [] of
           Inl (score, passed, r) \<Rightarrow>
             \<lparr>cf_final_score = 0, cf_strategy_score = score, cf_confluence_boost = boost, cf_gates_passed = passed,
              cf_gates_failed = [gc_gate_name r], cf_blocked = True, cf_block_reason = gc_reason r\<rparr>
         | Inr (score, passed) \<Rightarrow>
             \<lparr>cf_final_score = min 1 (score + boost), cf_strategy_score = score, cf_confluence_boost = boost,
              cf_gates_passed = passed, cf_gates_failed = [], cf_blocked = False, cf_block_reason = []\<rparr>)"

section \<open>The built-in gates\<close>

lemma builtin_boost:
  "gc_boost (spread_gate_check c x) = 0" "gc_boost (session_gate_check c x) = 0"
  "gc_boost (volatility_gate_check c p x) = 0"
  by (auto simp: spread_gate_check_def session_gate_check_def volatility_gate_check_def Let_def split: option.split)

lemma boost_loop_ge: "boost \<le> boost_loop d cs s t boost"
proof (induction cs arbitrary: s t boost)
  case (Cons c cs)
  show ?case unfolding boost_loop.simps Let_def by (rule order_trans [OF _ Cons.IH]) simp
qed simp

lemma calc_boost_bounds:
  "0 \<le> calc_confluence_boost cs d score" "calc_confluence_boost cs d score \<le> 15/100"
proof -
  show "0 \<le> calc_confluence_boost cs d score"
    using boost_loop_ge [of 0 d _ "[]" "[]"]
    by (auto simp: calc_confluence_boost_def Let_def min_def split: option.split)
  show "calc_confluence_boost cs d score \<le> 15/100"
    by (auto simp: calc_confluence_boost_def Let_def min_def max_def split: option.split if_splits)
qed

lemma detector_boost_bounds:
  assumes "0 \<le> b" and "b \<le> 15/100"
  shows "0 \<le> detector_boost now a det b" and "detector_boost now a det b \<le> 30/100"
  using assms by (auto simp: detector_boost_def Let_def min_def split: option.split)

definition gates_boost_nonneg :: "confidence_engine \<Rightarrow> bool" where
  "gates_boost_nonneg ce \<longleftrightarrow> (\<forall>g \<in> set (ce_gates ce). \<forall>x. 0 \<le> gc_boost (g x))"

lemma run_gates_score:
  "(\<forall>g \<in> set gs. \<forall>x. 0 \<le> gc_boost (g x)) \<Longrightarrow> s \<le> 1 \<Longrightarrow> run_gates gs ctx s passed = Inr (s', passed') \<Longrightarrow> s \<le> s' \<and> s' \<le> 1"
proof (induction gs arbitrary: s passed)
  case (Cons g gs)
  have "0 \<le> gc_boost (g ctx)" using Cons.prems(1) by simp
  with Cons.prems have "run_gates gs ctx (min 1 (s + gc_boost (g ctx))) (passed @ [gc_gate_name (g ctx)]) = Inr (s', passed')"
    by (auto simp: Let_def split: if_splits)
  with Cons.IH [OF _ _ this] Cons.prems(1) have "min 1 (s + gc_boost (g ctx)) \<le> s'" "s' \<le> 1" by auto
  moreover have "s \<le> min 1 (s + gc_boost (g ctx))" using Cons.prems(2) \<open>0 \<le> gc_boost (g ctx)\<close> by simp
  ultimately show ?case by (blast intro: order_trans)
qed simp

lemma init_boost_nonneg [simp]: "gates_boost_nonneg (ce_init cfg det)"
  by (simp add: gates_boost_nonneg_def ce_init_def builtin_boost Let_def)

lemma score_range:
  assumes "gates_boost_nonneg ce"
  shows "0 \<le> cf_final_score (ce_score now raw a ce)" and "cf_final_score (ce_score now raw a ce) \<le> 1"
    and "\<not> cf_blocked (ce_score now raw a ce) \<Longrightarrow> max 0 (min 1 raw) \<le> cf_final_score (ce_score now raw a ce)"
proof -
  define s0 where "s0 = max 0 (min 1 raw)"
  define b where "b = detector_boost now a (ce_detector ce) (calc_confluence_boost (sa_confluences a) (sa_direction a) s0)"
  have b: "0 \<le> b" unfolding b_def by (rule detector_boost_bounds(1) [OF calc_boost_bounds])
  have s0: "0 \<le> s0" "s0 \<le> 1" by (auto simp: s0_def)
  have gates: "s0 \<le> s \<and> s \<le> 1" if "run_gates (ce_gates ce) (gate_context a) s0 [] = Inr (s, p)" for s p
    using run_gates_score [OF _ s0(2) that] assms by (simp add: gates_boost_nonneg_def)
  show "0 \<le> cf_final_score (ce_score now raw a ce)" "cf_final_score (ce_score now raw a ce) \<le> 1"
    "\<not> cf_blocked (ce_score now raw a ce) \<Longrightarrow> max 0 (min 1 raw) \<le> cf_final_score (ce_score now raw a ce)"
    unfolding ce_score_def Let_def s0_def [symmetric] b_def [symmetric]
    using b s0 gates by (auto split: sum.split)
qed

section \<open>Properties\<close>

text \<open>
  The score of the engine as it is built, for every input and at every time: it lies between 0 and 1,
  is 0 exactly for what a gate blocks or what has neither score nor boost, and a signal no gate blocks
  never scores below its own clamped confidence. Its boost is at most 0.15 without a detector and
  0.30 with one.
\<close>

theorem confidence_score_bounds:
  "let r = ce_score now raw a (ce_init cfg det) in
     0 \<le> cf_final_score r \<and> cf_final_score r \<le> 1 \<and>
     (if cf_blocked r then cf_final_score r = 0 else max 0 (min 1 raw) \<le> cf_final_score r) \<and>
     0 \<le> cf_confluence_boost r \<and> cf_confluence_boost r \<le> (if det = None then 15/100 else 30/100) \<and>
     (cf_blocked r \<longleftrightarrow> cf_gates_failed r \<noteq> [])"
proof -
  define r where "r = ce_score now raw a (ce_init cfg det)"
  have "cf_confluence_boost r = detector_boost now a det (calc_confluence_boost (sa_confluences a) (sa_direction a) (max 0 (min 1 raw)))"
    by (auto simp: r_def ce_score_def ce_init_def Let_def split: sum.split)
  then have boost: "0 \<le> cf_confluence_boost r" "cf_confluence_boost r \<le> (if det = None then 15/100 else 30/100)"
    using detector_boost_bounds [OF calc_boost_bounds] calc_boost_bounds by (auto simp: detector_boost_def)
  have "cf_blocked r \<Longrightarrow> cf_final_score r = 0" "cf_blocked r \<longleftrightarrow> cf_gates_failed r \<noteq> []"
    by (auto simp: r_def ce_score_def Let_def split: sum.split)
  then show ?thesis
    using boost score_range [OF init_boost_nonneg, of now raw a cfg det] unfolding r_def [symmetric] Let_def by auto
qed

text \<open>
  The detector takes strategies it does not know for a confluence of different types: two unregistered
  strategies that agree score 0.5, as two of different types do and more than two of the same type,
  although no agreement across types is reported.
\<close>

theorem confluence_unregistered_scores_cross:
  assumes "map_of (cd_registry d) a = None" and "map_of (cd_registry d) b = None" and "a \<noteq> b" and "0 \<le> cd_window d"
    and "cd_signals d = []"
  shows "let r = cd_get_confluence symbol direction t
                   (cd_record_signal b symbol direction cb t (cd_record_signal a symbol direction ca t d))
         in cr_confluence_score r = 1/2 \<and> cr_agreeing_strategies r = [a, b] \<and> \<not> cr_cross_type_agreement r"
  using assms by (simp add: cd_get_confluence_def cd_record_signal_def agree_one_def confluence_points_def Let_def)

theorem confluence_unregistered_scores_cross_witness:
  "cr_confluence_score (cd_get_confluence ''EURUSD'' ''LONG'' 0
     (cd_record_signal ''b'' ''EURUSD'' ''LONG'' 1 0 (cd_record_signal ''a'' ''EURUSD'' ''LONG'' 1 0 (cd_init [] 60)))) = 1/2"
  using confluence_unregistered_scores_cross [of "cd_init [] 60" "''a''" "''b''" "''EURUSD''" "''LONG''" 0 1 1]
  by (simp add: cd_init_def Let_def)

end
