(* ===== verification/Profiles.thy ===== *)
theory Profiles
  imports Prelude
begin

text \<open>
  Where a scored signal is sent and how much of it is used: the profile router of
  \<open>risk/profile_router.py\<close>, the regime thresholds of \<open>risk/regime_thresholds.py\<close> and the edge telemetry of
  \<open>risk/edge_telemetry.py\<close>.
\<close>

section \<open>Profile router\<close>

datatype profile = SNIPER | SWARM

record profile_router =
  pr_sniper_threshold :: flt
  pr_swarm_threshold :: flt
  pr_max_sniper :: int
  pr_max_swarm :: int
  pr_sniper_open :: int
  pr_swarm_open :: int
  pr_positions :: "(string \<times> profile) list"

definition pr_init :: "flt \<Rightarrow> flt \<Rightarrow> int \<Rightarrow> int \<Rightarrow> profile_router" where
  "pr_init sniper_threshold swarm_threshold max_sniper max_swarm =
     \<lparr>pr_sniper_threshold = sniper_threshold, pr_swarm_threshold = swarm_threshold, pr_max_sniper = max_sniper,
      pr_max_swarm = max_swarm, pr_sniper_open = 0, pr_swarm_open = 0, pr_positions = []\<rparr>"

definition pr_route :: "flt \<Rightarrow> profile_router \<Rightarrow> pyexn + profile option" where
  "pr_route confidence r =
     (if confidence < 0 \<or> confidence > 1 then Inl ValueError
      else if confidence < pr_swarm_threshold r then Inr None
      else if confidence \<ge> pr_sniper_threshold r then
        (if pr_sniper_open r \<ge> pr_max_sniper r then
           (if pr_swarm_open r \<ge> pr_max_swarm r then Inr None else Inr (Some SWARM))
         else Inr (Some SNIPER))
      else if pr_swarm_open r \<ge> pr_max_swarm r then Inr None
      else Inr (Some SWARM))"

definition pr_register_open :: "string \<Rightarrow> profile \<Rightarrow> profile_router \<Rightarrow> (profile_router, unit) outcome" where
  "pr_register_open pid p r =
     (if map_of (pr_positions r) pid \<noteq> None then Exc ValueError r
      else
        let r1 = r\<lparr>pr_positions := AList.update pid p (pr_positions r)\<rparr>
        in Ret () (if p = SNIPER then r1\<lparr>pr_sniper_open := pr_sniper_open r1 + 1\<rparr>
                   else r1\<lparr>pr_swarm_open := pr_swarm_open r1 + 1\<rparr>))"

definition pr_close :: "string \<Rightarrow> profile_router \<Rightarrow> (profile_router, unit) outcome" where
  "pr_close pid r =
     (case map_of (pr_positions r) pid of
        None \<Rightarrow> Exc ValueError r
      | Some p \<Rightarrow>
          let r1 = r\<lparr>pr_positions := AList.delete pid (pr_positions r)\<rparr>
          in Ret () (if p = SNIPER then r1\<lparr>pr_sniper_open := max 0 (pr_sniper_open r1 - 1)\<rparr>
                     else r1\<lparr>pr_swarm_open := max 0 (pr_swarm_open r1 - 1)\<rparr>))"

text \<open>A caller that routes a score and registers the profile it gets, and closes positions.\<close>

datatype router_event = RouteOpen string flt | RouteClose string

fun pr_step :: "profile_router \<Rightarrow> router_event \<Rightarrow> profile_router" where
  "pr_step r (RouteOpen pid c) =
     (case pr_route c r of Inr (Some p) \<Rightarrow> state_of (pr_register_open pid p r) | _ \<Rightarrow> r)"
| "pr_step r (RouteClose pid) = state_of (pr_close pid r)"

definition pr_count :: "profile \<Rightarrow> (string \<times> profile) list \<Rightarrow> int" where
  "pr_count p ps = int (length (filter (\<lambda>e. snd e = p) ps))"

definition pr_inv :: "profile_router \<Rightarrow> bool" where
  "pr_inv r \<longleftrightarrow> distinct (map fst (pr_positions r)) \<and>
     pr_sniper_open r = pr_count SNIPER (pr_positions r) \<and> pr_swarm_open r = pr_count SWARM (pr_positions r) \<and>
     pr_sniper_open r \<le> max 0 (pr_max_sniper r) \<and> pr_swarm_open r \<le> max 0 (pr_max_swarm r)"

lemma pr_count_update:
  "map_of ps pid = None \<Longrightarrow> pr_count p (AList.update pid q ps) = pr_count p ps + (if p = q then 1 else 0)"
  by (induction ps) (auto simp: pr_count_def split: if_splits)

lemma pr_count_delete:
  "distinct (map fst ps) \<Longrightarrow> map_of ps pid = Some q \<Longrightarrow>
   pr_count p (AList.delete pid ps) = pr_count p ps - (if p = q then 1 else 0)"
proof (induction ps)
  case (Cons e ps)
  have fresh: "map_of xs pid = None \<Longrightarrow> AList.delete pid xs = xs" for xs :: "(string \<times> profile) list"
    by (induction xs) (auto split: if_splits)
  show ?case
  proof (cases "fst e = pid")
    case True
    with Cons.prems have "map_of ps pid = None" by (auto simp: map_of_eq_None_iff)
    with True Cons.prems show ?thesis by (auto simp: fresh pr_count_def)
  next
    case False
    with Cons show ?thesis by (auto simp: pr_count_def split: if_splits)
  qed
qed simp

lemma pr_count_nonneg: "0 \<le> pr_count p ps"
  by (simp add: pr_count_def)

lemma pr_count_pos: "map_of ps pid = Some p \<Longrightarrow> 1 \<le> pr_count p ps"
proof -
  assume "map_of ps pid = Some p"
  then have "(pid, p) \<in> set (filter (\<lambda>e. snd e = p) ps)" by (auto dest: map_of_SomeD)
  then have "0 < length (filter (\<lambda>e. snd e = p) ps)" by (rule length_pos_if_in_set)
  then show ?thesis unfolding pr_count_def by linarith
qed

lemma pr_inv_step: "pr_inv r \<Longrightarrow> pr_inv (pr_step r ev)"
proof (cases ev)
  case (RouteOpen pid c)
  assume inv: "pr_inv r"
  show ?thesis
  proof (cases "map_of (pr_positions r) pid = None")
    case True
    then show ?thesis
      using inv RouteOpen
      by (auto simp: pr_inv_def pr_route_def pr_register_open_def pr_count_update distinct_update Let_def)
  next
    case False
    then have same: "state_of (pr_register_open pid p r) = r" for p by (auto simp: pr_register_open_def)
    show ?thesis using inv by (simp add: RouteOpen same split: sum.split option.split)
  qed
next
  case (RouteClose pid)
  assume inv: "pr_inv r"
  show ?thesis
  proof (cases "map_of (pr_positions r) pid")
    case (Some p)
    then show ?thesis
      using inv RouteClose pr_count_pos [OF Some]
      by (cases p) (auto simp: pr_inv_def pr_close_def pr_count_delete distinct_delete Let_def)
  qed (use inv RouteClose in \<open>simp add: pr_close_def\<close>)
qed

interpretation router: invariant_machine pr_step "\<lambda>_. True" pr_inv
  by unfold_locales (rule pr_inv_step)

text \<open>
  C36. Capacities hold over every run of a caller that registers what it routes: the counters are the
  numbers of registered positions of each profile and stay within their maxima.
\<close>

theorem router_capacity_kept:
  assumes "0 \<le> max_sniper" and "0 \<le> max_swarm"
  shows "let r = foldl pr_step (pr_init t1 t2 max_sniper max_swarm) es in
     pr_sniper_open r = pr_count SNIPER (pr_positions r) \<and> pr_swarm_open r = pr_count SWARM (pr_positions r) \<and>
     pr_sniper_open r \<le> max_sniper \<and> pr_swarm_open r \<le> max_swarm"
proof -
  let ?r0 = "pr_init t1 t2 max_sniper max_swarm"
  have "pr_inv ?r0" using assms by (simp add: pr_inv_def pr_init_def pr_count_def)
  then have inv: "pr_inv (foldl pr_step ?r0 es)" by (rule router.run_inv) (simp add: list_all_iff)
  have cfg: "pr_max_sniper (foldl pr_step r es) = pr_max_sniper r \<and> pr_max_swarm (foldl pr_step r es) = pr_max_swarm r" for r
  proof (induction es arbitrary: r)
    case (Cons ev es)
    have "pr_max_sniper (pr_step r ev) = pr_max_sniper r \<and> pr_max_swarm (pr_step r ev) = pr_max_swarm r"
      by (cases ev) (auto simp: pr_register_open_def pr_close_def Let_def split: sum.split option.split)
    with Cons show ?case by simp
  qed simp
  show ?thesis using inv cfg [of ?r0] assms by (simp add: pr_inv_def pr_init_def Let_def)
qed

theorem router_capacity_kept_witness:
  "pr_sniper_open (foldl pr_step (pr_init (7/10) (4/10) 1 5) [RouteOpen ''a'' 1, RouteOpen ''b'' 1]) \<le> 1"
  using router_capacity_kept [of 1 5 "7/10" "4/10" "[RouteOpen ''a'' 1, RouteOpen ''b'' 1]"] by (simp add: Let_def)

section \<open>Regime thresholds\<close>

datatype regime = STABLE | BREAKDOWN | TRANSITION

text \<open>\<open>Regime(text.upper())\<close>.\<close>

definition parse_regime :: "string \<Rightarrow> pyexn + regime" where
  "parse_regime s =
     (let u = py_upper s in
      if u = ''STABLE'' then Inr STABLE else if u = ''BREAKDOWN'' then Inr BREAKDOWN
      else if u = ''TRANSITION'' then Inr TRANSITION else Inl ValueError)"

record regime_thresholds =
  th_sigma_mult :: flt
  th_corr_threshold :: flt
  th_pip_threshold_pct :: flt

fun default_thresholds :: "regime \<Rightarrow> regime_thresholds" where
  "default_thresholds STABLE = \<lparr>th_sigma_mult = 3/2, th_corr_threshold = 65/100, th_pip_threshold_pct = 3/100\<rparr>"
| "default_thresholds BREAKDOWN = \<lparr>th_sigma_mult = 5/2, th_corr_threshold = 75/100, th_pip_threshold_pct = 8/100\<rparr>"
| "default_thresholds TRANSITION = \<lparr>th_sigma_mult = 3/2, th_corr_threshold = 65/100, th_pip_threshold_pct = 3/100\<rparr>"

fun exposure_multiplier :: "regime \<Rightarrow> flt" where
  "exposure_multiplier STABLE = 1"
| "exposure_multiplier BREAKDOWN = 1/2"
| "exposure_multiplier TRANSITION = 1"

text \<open>The overrides are total maps here; the state is the last confident regime.\<close>

record regime_aware =
  ra_thresholds :: "regime \<Rightarrow> regime_thresholds"
  ra_exposure_multipliers :: "regime \<Rightarrow> flt"
  ra_previous_confident_regime :: regime

definition ra_init :: regime_aware where
  "ra_init = \<lparr>ra_thresholds = default_thresholds, ra_exposure_multipliers = exposure_multiplier,
              ra_previous_confident_regime = STABLE\<rparr>"

definition ra_get_thresholds :: "regime \<Rightarrow> regime_aware \<Rightarrow> regime_thresholds \<times> regime_aware" where
  "ra_get_thresholds g ra =
     (if g = TRANSITION then (ra_thresholds ra (ra_previous_confident_regime ra), ra)
      else (ra_thresholds ra g, ra\<lparr>ra_previous_confident_regime := g\<rparr>))"

definition ra_get_exposure_multiplier :: "regime \<Rightarrow> regime_aware \<Rightarrow> flt" where
  "ra_get_exposure_multiplier g ra = ra_exposure_multipliers ra g"

definition ra_classify_signal ::
  "regime \<Rightarrow> flt \<Rightarrow> flt \<Rightarrow> flt \<Rightarrow> regime_aware \<Rightarrow> (bool \<times> ptext) \<times> regime_aware" where
  "ra_classify_signal g z_score correlation price_move_pct ra =
     (let (t, ra1) = ra_get_thresholds g ra in
      (if z_score < th_sigma_mult t then
         (False, [Lit ''z_score '', FFix 2 z_score, Lit '' < '', FFix 1 (th_sigma_mult t), Lit '' sigma threshold''])
       else if \<bar>correlation\<bar> < th_corr_threshold t then
         (False, [Lit ''correlation '', FFix 2 \<bar>correlation\<bar>, Lit '' < '', FFix 2 (th_corr_threshold t), Lit '' threshold''])
       else if price_move_pct < th_pip_threshold_pct t then
         (False, [Lit ''price move '', FFix 3 price_move_pct, Lit ''% < '', FFix 3 (th_pip_threshold_pct t), Lit ''% threshold''])
       else (True, [Lit ''pass'']), ra1))"

definition last_confident :: "regime list \<Rightarrow> regime" where
  "last_confident gs = (let cs = filter (\<lambda>g. g \<noteq> TRANSITION) gs in if cs = [] then STABLE else last cs)"

text \<open>
  During a transition the thresholds of the last confident regime are held, and those of STABLE
  before any: after every sequence of observed regimes.
\<close>

theorem regime_transition_holds:
  "fst (ra_get_thresholds TRANSITION (foldl (\<lambda>ra g. snd (ra_get_thresholds g ra)) ra_init gs)) =
     default_thresholds (last_confident gs)"
proof -
  let ?run = "\<lambda>gs. foldl (\<lambda>ra g. snd (ra_get_thresholds g ra)) ra_init gs"
  have "?run gs = ra_init\<lparr>ra_previous_confident_regime := last_confident gs\<rparr>" for gs
  proof (induction gs rule: rev_induct)
    case (snoc g gs)
    then show ?case
      by (cases g) (auto simp: ra_get_thresholds_def ra_init_def last_confident_def Let_def)
  qed (simp add: ra_init_def last_confident_def)
  then show ?thesis by (simp add: ra_get_thresholds_def ra_init_def)
qed

section \<open>Edge telemetry\<close>

record edge_trade =
  et_strategy_id :: string
  et_symbol :: string
  et_risk_amount :: flt
  et_pnl :: flt
  et_r_multiple :: flt
  et_timestamp :: ptext
  et_signal_id :: "string option"

definition et_win :: "edge_trade \<Rightarrow> bool" where
  "et_win t \<longleftrightarrow> et_pnl t > 0"

record edge_stats =
  es_strategy_id :: string
  es_symbol :: string
  es_trades :: "edge_trade list" \<comment> \<open>the last 50\<close>
  es_total_trades :: int
  es_wins :: int
  es_losses :: int
  es_total_pnl :: flt
  es_total_risk :: flt
  es_best_r :: flt
  es_worst_r :: flt

definition edge_stats_new :: "string \<Rightarrow> string \<Rightarrow> edge_stats" where
  "edge_stats_new sid symbol =
     \<lparr>es_strategy_id = sid, es_symbol = symbol, es_trades = [], es_total_trades = 0, es_wins = 0, es_losses = 0,
      es_total_pnl = 0, es_total_risk = 0, es_best_r = 0, es_worst_r = 0\<rparr>"

definition mean_of :: "('a \<Rightarrow> flt) \<Rightarrow> 'a list \<Rightarrow> flt" where
  "mean_of f xs = (if xs = [] then 0 else sum_list (map f xs) / of_nat (length xs))"

definition es_expectancy :: "edge_stats \<Rightarrow> flt" where
  "es_expectancy s = mean_of et_r_multiple (es_trades s)"

definition es_win_rate :: "edge_stats \<Rightarrow> flt" where
  "es_win_rate s = mean_of (\<lambda>t. if et_win t then 1 else 0) (es_trades s)"

definition es_profit_factor :: "edge_stats \<Rightarrow> xflt" where
  "es_profit_factor s =
     (let profit = sum_list (map et_pnl (filter (\<lambda>t. et_pnl t > 0) (es_trades s)));
          loss = \<bar>sum_list (map et_pnl (filter (\<lambda>t. et_pnl t < 0) (es_trades s)))\<bar>
      in if loss = 0 then (if profit > 0 then PosInf else Fin 0) else Fin (profit / loss))"

definition es_avg_risk :: "edge_stats \<Rightarrow> flt" where
  "es_avg_risk s = mean_of et_risk_amount (es_trades s)"

text \<open>\<open>deque(maxlen=50).append\<close>.\<close>

definition deque_append :: "nat \<Rightarrow> 'a \<Rightarrow> 'a list \<Rightarrow> 'a list" where
  "deque_append n x xs = drop (length xs + 1 - n) (xs @ [x])"

record edge_tracker =
  ed_stats :: "((string \<times> string) \<times> edge_stats) list"
  ed_file :: "edge_trade list" \<comment> \<open>the rows of the JSONL file\<close>

definition ed_record :: "string \<Rightarrow> string \<Rightarrow> flt \<Rightarrow> flt \<Rightarrow> string option \<Rightarrow> ptext \<Rightarrow> edge_trade" where
  "ed_record sid symbol risk pnl signal_id ts =
     \<lparr>et_strategy_id = sid, et_symbol = symbol, et_risk_amount = risk, et_pnl = pnl,
      et_r_multiple = (if risk > 0 then pnl / risk else 0), et_timestamp = ts, et_signal_id = signal_id\<rparr>"

definition stats_add :: "edge_trade \<Rightarrow> edge_stats \<Rightarrow> edge_stats" where
  "stats_add t s =
     s\<lparr>es_trades := deque_append 50 t (es_trades s), es_total_trades := es_total_trades s + 1,
       es_total_pnl := es_total_pnl s + et_pnl t, es_total_risk := es_total_risk s + et_risk_amount t,
       es_wins := es_wins s + (if et_win t then 1 else 0), es_losses := es_losses s + (if et_win t then 0 else 1),
       es_best_r := (if et_r_multiple t > es_best_r s then et_r_multiple t else es_best_r s),
       es_worst_r := (if et_r_multiple t < es_worst_r s then et_r_multiple t else es_worst_r s)\<rparr>"

definition ed_apply_record :: "edge_trade \<Rightarrow> edge_tracker \<Rightarrow> edge_tracker" where
  "ed_apply_record t ed =
     (let key = (et_strategy_id t, et_symbol t); s = dget_or (ed_stats ed) key (edge_stats_new (fst key) (snd key))
      in ed\<lparr>ed_stats := AList.update key (stats_add t s) (ed_stats ed)\<rparr>)"

text \<open>A row is appended when the file can be written; a failure is only logged.\<close>

definition ed_record_close ::
  "instant \<Rightarrow> bool \<Rightarrow> string \<Rightarrow> string \<Rightarrow> flt \<Rightarrow> flt \<Rightarrow> string option \<Rightarrow> edge_tracker \<Rightarrow> edge_trade \<times> edge_tracker" where
  "ed_record_close now write_ok sid symbol risk pnl signal_id ed =
     (let t = ed_record sid symbol risk pnl signal_id [FIso now]; ed1 = ed_apply_record t ed
      in (t, if write_ok then ed1\<lparr>ed_file := ed_file ed1 @ [t]\<rparr> else ed1))"

text \<open>Loading replays the rows of the file through the same step, with the time stamp of the row.\<close>

definition ed_load :: "edge_trade list \<Rightarrow> edge_tracker" where
  "ed_load rows =
     fold (\<lambda>r ed. ed_apply_record
              (ed_record (et_strategy_id r) (et_symbol r) (et_risk_amount r) (et_pnl r) (et_signal_id r) (et_timestamp r)) ed)
       rows \<lparr>ed_stats = [], ed_file = rows\<rparr>"

definition ed_get_expectancy :: "string \<Rightarrow> string \<Rightarrow> edge_tracker \<Rightarrow> flt" where
  "ed_get_expectancy sid symbol ed = (case map_of (ed_stats ed) (sid, symbol) of Some s \<Rightarrow> es_expectancy s | None \<Rightarrow> 0)"

definition ed_get_risk_multiplier :: "string \<Rightarrow> string \<Rightarrow> edge_tracker \<Rightarrow> flt" where
  "ed_get_risk_multiplier sid symbol ed =
     (case map_of (ed_stats ed) (sid, symbol) of
        None \<Rightarrow> 1
      | Some s \<Rightarrow>
          if length (es_trades s) < 5 then 1
          else if es_expectancy s > 1/2 then 3/2
          else if es_expectancy s > 0 then 1
          else 6/10)"

record edge_summary =
  ey_strategy_id :: string
  ey_symbol :: string
  ey_total_trades :: int
  ey_rolling_trades :: nat
  ey_wins :: int
  ey_losses :: int
  ey_win_rate :: flt
  ey_expectancy :: flt
  ey_profit_factor :: "flt option"
  ey_total_pnl :: flt
  ey_avg_risk :: flt
  ey_best_r :: flt
  ey_worst_r :: flt

definition es_to_dict :: "edge_stats \<Rightarrow> edge_summary" where
  "es_to_dict s =
     \<lparr>ey_strategy_id = es_strategy_id s, ey_symbol = es_symbol s, ey_total_trades = es_total_trades s,
      ey_rolling_trades = length (es_trades s), ey_wins = es_wins s, ey_losses = es_losses s,
      ey_win_rate = py_round 4 (es_win_rate s), ey_expectancy = py_round 4 (es_expectancy s),
      ey_profit_factor = (case es_profit_factor s of Fin x \<Rightarrow> Some (py_round 4 x) | _ \<Rightarrow> None),
      ey_total_pnl = py_round2 (es_total_pnl s), ey_avg_risk = py_round2 (es_avg_risk s),
      ey_best_r = py_round 4 (es_best_r s), ey_worst_r = py_round 4 (es_worst_r s)\<rparr>"

definition ed_get_all_stats :: "edge_tracker \<Rightarrow> edge_summary list" where
  "ed_get_all_stats ed = map es_to_dict (filter (\<lambda>s. es_total_trades s > 0) (map snd (ed_stats ed)))"

definition ed_write_state_snapshot :: "edge_tracker \<Rightarrow> int \<times> int \<times> edge_summary list" where
  "ed_write_state_snapshot ed =
     (let ss = ed_get_all_stats ed in (int (length ss), sum_list (map ey_total_trades ss), ss))"

lemma ed_record_fields [simp]:
  "et_strategy_id (ed_record sid symbol risk pnl signal_id ts) = sid" "et_symbol (ed_record sid symbol risk pnl signal_id ts) = symbol"
  "et_risk_amount (ed_record sid symbol risk pnl signal_id ts) = risk" "et_pnl (ed_record sid symbol risk pnl signal_id ts) = pnl"
  "et_signal_id (ed_record sid symbol risk pnl signal_id ts) = signal_id" "et_timestamp (ed_record sid symbol risk pnl signal_id ts) = ts"
  by (simp_all add: ed_record_def)

lemma apply_record_file [simp]: "ed_file (ed_apply_record t ed) = ed_file ed"
  by (simp add: ed_apply_record_def Let_def)

lemma apply_record_frame: "ed_apply_record t (ed\<lparr>ed_file := f\<rparr>) = (ed_apply_record t ed)\<lparr>ed_file := f\<rparr>"
  by (simp add: ed_apply_record_def Let_def)

definition replay :: "edge_trade \<Rightarrow> edge_tracker \<Rightarrow> edge_tracker" where
  "replay r ed = ed_apply_record
     (ed_record (et_strategy_id r) (et_symbol r) (et_risk_amount r) (et_pnl r) (et_signal_id r) (et_timestamp r)) ed"

lemma ed_load_replay: "ed_load rows = fold replay rows \<lparr>ed_stats = [], ed_file = rows\<rparr>"
  by (simp add: ed_load_def replay_def [abs_def])

lemma fold_replay_frame: "fold replay xs (ed\<lparr>ed_file := f\<rparr>) = (fold replay xs ed)\<lparr>ed_file := f\<rparr>"
  by (induction xs arbitrary: ed) (simp_all add: replay_def apply_record_frame)

lemma ed_load_snoc:
  "ed_load (rows @ [ed_record sid symbol risk pnl signal_id ts]) =
     (ed_apply_record (ed_record sid symbol risk pnl signal_id ts) (ed_load rows))
       \<lparr>ed_file := rows @ [ed_record sid symbol risk pnl signal_id ts]\<rparr>"
proof -
  have "replay (ed_record sid symbol risk pnl signal_id ts) ed = ed_apply_record (ed_record sid symbol risk pnl signal_id ts) ed" for ed
    by (simp add: replay_def)
  then show ?thesis
    using fold_replay_frame [of "rows @ [ed_record sid symbol risk pnl signal_id ts]" "rows @ [ed_record sid symbol risk pnl signal_id ts]"
        "\<lparr>ed_stats = [], ed_file = rows\<rparr>"]
    by (simp add: ed_load_replay)
qed

text \<open>
  C35. A restart rebuilds the telemetry: when every write succeeded, the tracker loaded from the file is
  the tracker in memory, in every statistic, after any sequence of closed trades.
\<close>

theorem edge_restart_rebuilds:
  "let ed = foldl (\<lambda>ed (now, sid, symbol, risk, pnl, signal_id). snd (ed_record_close now True sid symbol risk pnl signal_id ed))
              (ed_load []) closes
   in ed_load (ed_file ed) = ed"
proof -
  define step where "step = (\<lambda>ed (now, sid, symbol, risk, pnl, signal_id). snd (ed_record_close now True sid symbol risk pnl signal_id ed))"
  have "ed_load (ed_file (foldl step (ed_load []) closes)) = foldl step (ed_load []) closes"
  proof (induction closes rule: rev_induct)
    case (snoc c cs)
    obtain now sid symbol risk pnl signal_id where c: "c = (now, sid, symbol, risk, pnl, signal_id)" by (cases c)
    define ed where "ed = foldl step (ed_load []) cs"
    have IH: "ed_load (ed_file ed) = ed" using snoc by (simp add: ed_def)
    have "step ed c = (ed_apply_record (ed_record sid symbol risk pnl signal_id [FIso now]) ed)
        \<lparr>ed_file := ed_file ed @ [ed_record sid symbol risk pnl signal_id [FIso now]]\<rparr>"
      by (simp add: c step_def ed_record_close_def Let_def)
    then show ?case by (simp add: ed_def [symmetric] ed_load_snoc IH)
  qed (simp add: ed_load_def)
  then show ?thesis by (simp add: step_def Let_def)
qed

lemma deque_append_length: "0 < n \<Longrightarrow> length (deque_append n x xs) \<le> n"
  by (simp add: deque_append_def)

end
