(* ===== verification/Orchestrator.thy ===== *)
theory Orchestrator
  imports Confidence Profiles SizerState
begin

text \<open>
  The pipeline of \<open>orchestrator/signal_orchestrator.py\<close> and the adapter of
  \<open>orchestrator/strategy_adapter.py\<close>: a strategy's output becomes a signal, is scored, routed to a
  profile and sized.
\<close>

section \<open>Signals\<close>

text \<open>The metadata of a signal; an absent key is \<open>None\<close>.\<close>

record signal_metadata =
  md_spread :: "flt option"
  md_atr :: "flt option"
  md_confluences :: "confluence list option"
  md_confluence_strategies :: "string list option"
  md_confluence_timeframes :: "string list option"
  md_rationale :: "string option"

record orch_signal =
  og_strategy_id :: string
  og_symbol :: string
  og_direction :: string
  og_entry_price :: flt
  og_stop_loss :: flt
  og_take_profit :: flt
  og_confidence :: flt
  og_timestamp :: instant
  og_metadata :: signal_metadata

text \<open>The output dict of a strategy: its keys, absent ones (for the required keys also null ones) as \<open>None\<close>.\<close>

record strategy_output =
  so_symbol :: "string option"
  so_direction :: "string option"
  so_entry_price :: "flt option"
  so_stop_loss :: "flt option"
  so_take_profit :: "flt option"
  so_confidence :: "flt option"
  so_confluence_strategies :: "string list option"
  so_confluence_timeframes :: "string list option"
  so_spread :: "flt option"
  so_atr :: "flt option"
  so_timestamp :: "instant option"

definition adapt_signal :: "instant \<Rightarrow> string \<Rightarrow> strategy_output \<Rightarrow> pyexn + orch_signal" where
  "adapt_signal now sid out =
     (case (so_symbol out, so_direction out, so_entry_price out, so_stop_loss out) of
        (Some symbol, Some direction, Some entry, Some sl) \<Rightarrow>
          let d = py_upper direction;
              d1 = (if d \<noteq> ''LONG'' \<and> d \<noteq> ''SHORT'' then ''LONG'' else d)
          in Inr \<lparr>og_strategy_id = sid, og_symbol = symbol, og_direction = d1, og_entry_price = entry,
                  og_stop_loss = sl, og_take_profit = or_default (so_take_profit out) 0,
                  og_confidence = or_default (so_confidence out) (1/2),
                  og_timestamp = or_default (so_timestamp out) now,
                  og_metadata = \<lparr>md_spread = so_spread out, md_atr = so_atr out, md_confluences = None,
                                 md_confluence_strategies = so_confluence_strategies out,
                                 md_confluence_timeframes = so_confluence_timeframes out, md_rationale = None\<rparr>\<rparr>
      | _ \<Rightarrow> Inl ValueError)"

section \<open>The pipeline\<close>

record orch_order =
  oo_signal :: orch_signal
  oo_profile :: profile
  oo_confidence_final :: flt
  oo_lots :: flt
  oo_risk_amount :: flt
  oo_sl_distance_pips :: flt
  oo_gates_passed :: "string list"
  oo_rejected :: bool
  oo_rejection_reason :: ptext

text \<open>The sizer is the orchestrator's reference to the object its owner shares with it.\<close>

record orchestrator =
  oc_engine :: confidence_engine
  oc_router :: profile_router
  oc_sizer :: sizer
  oc_account_balance :: flt

definition oc_init :: "confidence_engine \<Rightarrow> profile_router \<Rightarrow> sizer \<Rightarrow> flt \<Rightarrow> orchestrator" where
  "oc_init ce pr sz balance = \<lparr>oc_engine = ce, oc_router = pr, oc_sizer = sz, oc_account_balance = balance\<rparr>"

fun profile_value :: "profile \<Rightarrow> string" where
  "profile_value SNIPER = ''sniper''"
| "profile_value SWARM = ''swarm''"

text \<open>The keyword arguments of the scorer: the hour is left at its default.\<close>

definition signal_score_args :: "orch_signal \<Rightarrow> score_args" where
  "signal_score_args s =
     \<lparr>sa_symbol = og_symbol s, sa_direction = og_direction s,
      sa_spread = or_default (md_spread (og_metadata s)) 0, sa_atr = or_default (md_atr (og_metadata s)) 0,
      sa_hour_utc = 0, sa_confluences = md_confluences (og_metadata s)\<rparr>"

definition reject_order :: "orch_signal \<Rightarrow> flt \<Rightarrow> string list \<Rightarrow> ptext \<Rightarrow> orch_order" where
  "reject_order s score passed reason =
     \<lparr>oo_signal = s, oo_profile = SNIPER, oo_confidence_final = score, oo_lots = 0, oo_risk_amount = 0,
      oo_sl_distance_pips = 0, oo_gates_passed = passed, oo_rejected = True, oo_rejection_reason = reason\<rparr>"

definition oc_process_signal :: "instant \<Rightarrow> orch_signal \<Rightarrow> orchestrator \<Rightarrow> (orchestrator, orch_order) outcome" where
  "oc_process_signal now s oc =
     (let r = ce_score now (og_confidence s) (signal_score_args s) (oc_engine oc) in
      if cf_blocked r then Ret (reject_order s (cf_final_score r) (cf_gates_passed r) (cf_block_reason r)) oc
      else case pr_route (cf_final_score r) (oc_router oc) of
        Inl e \<Rightarrow> Exc e oc
      | Inr None \<Rightarrow>
          Ret (reject_order s (cf_final_score r) (cf_gates_passed r) [Lit ''Below minimum confidence threshold'']) oc
      | Inr (Some p) \<Rightarrow>
          (case sz_calculate now (og_symbol s) (og_entry_price s) (og_stop_loss s) (profile_value p) (oc_sizer oc) of
             Exc e sz \<Rightarrow> Exc e (oc\<lparr>oc_sizer := sz\<rparr>)
           | Ret z sz \<Rightarrow>
               Ret \<lparr>oo_signal = s, oo_profile = p, oo_confidence_final = cf_final_score r, oo_lots = ps_lots z,
                    oo_risk_amount = ps_risk_amount z, oo_sl_distance_pips = ps_sl_distance_pips z,
                    oo_gates_passed = cf_gates_passed r, oo_rejected = ps_blocked z,
                    oo_rejection_reason = ps_block_reason z\<rparr> (oc\<lparr>oc_sizer := sz\<rparr>)))"

definition oc_update_balance :: "flt \<Rightarrow> orchestrator \<Rightarrow> orchestrator" where
  "oc_update_balance b oc = oc\<lparr>oc_account_balance := b, oc_sizer := sz_update_balance b (oc_sizer oc)\<rparr>"

section \<open>Properties\<close>

text \<open>Every exception of the pipeline comes from the sizer.\<close>

lemma score_routes: "\<exists>v. pr_route (cf_final_score (ce_score now raw a (ce_init cfg det))) r = Inr v"
  using score_range(1,2) [OF init_boost_nonneg, of now raw a cfg det] by (auto simp: pr_route_def not_less)

lemma process_frame:
  "oc_engine (state_of (oc_process_signal now s oc)) = oc_engine oc"
  "oc_router (state_of (oc_process_signal now s oc)) = oc_router oc"
  by (auto simp: oc_process_signal_def Let_def split: sum.split option.split outcome.split)

lemma process_sizer:
  "\<exists>b. oc_sizer (state_of (oc_process_signal now s oc)) = (oc_sizer oc)\<lparr>sz_breaker := b\<rparr> \<and>
       (b = sz_breaker (oc_sizer oc) \<or> b = state_of (check_breakers now (sz_breaker (oc_sizer oc))))"
proof -
  define f where "f p = state_of (sz_calculate now (og_symbol s) (og_entry_price s) (og_stop_loss s) p (oc_sizer oc))" for p
  have "oc_sizer (state_of (oc_process_signal now s oc)) = oc_sizer oc \<or>
      (\<exists>p. oc_sizer (state_of (oc_process_signal now s oc)) = f (profile_value p))"
  proof (cases "pr_route (cf_final_score (ce_score now (og_confidence s) (signal_score_args s) (oc_engine oc))) (oc_router oc)")
    case (Inr v)
    show ?thesis
    proof (cases v)
      case (Some p)
      have "oc_sizer (state_of (oc_process_signal now s oc)) \<in> {oc_sizer oc, f (profile_value p)}"
        using Inr Some by (simp add: oc_process_signal_def f_def Let_def split: outcome.split)
      then show ?thesis by blast
    qed (use Inr in \<open>simp add: oc_process_signal_def Let_def\<close>)
  qed (simp add: oc_process_signal_def Let_def)
  moreover have "oc_sizer oc = (oc_sizer oc)\<lparr>sz_breaker := sz_breaker (oc_sizer oc)\<rparr>" by simp
  ultimately show ?thesis using calculate_state [of now "og_symbol s" "og_entry_price s" "og_stop_loss s" _ "oc_sizer oc"]
    unfolding f_def by metis
qed

lemma process_accepts:
  assumes "oc_process_signal now s oc = Ret o' oc'" and "\<not> oo_rejected o'"
  shows "\<exists>z. sz_calculate now (og_symbol s) (og_entry_price s) (og_stop_loss s) (profile_value (oo_profile o')) (oc_sizer oc)
              = Ret z (oc_sizer oc') \<and> \<not> ps_blocked z \<and> oo_risk_amount o' = ps_risk_amount z \<and> oo_lots o' = ps_lots z \<and>
            oo_sl_distance_pips o' = ps_sl_distance_pips z \<and> oc' = oc\<lparr>oc_sizer := oc_sizer oc'\<rparr> \<and> oo_signal o' = s \<and>
            pr_route (oo_confidence_final o') (oc_router oc) = Inr (Some (oo_profile o'))"
  using assms by (auto simp: oc_process_signal_def reject_order_def Let_def split: if_splits sum.splits option.splits outcome.splits)


definition demo_orchestrator :: orchestrator where
  "demo_orchestrator =
     oc_init (ce_init None None) (pr_init (7/10) (4/10) 3 5) (sizer_init 10000 (1/200) (3/100)) 10000"

definition demo_orch_signal :: "string \<Rightarrow> instant \<Rightarrow> orch_signal" where
  "demo_orch_signal sid t =
     \<lparr>og_strategy_id = sid, og_symbol = ''EURUSD'', og_direction = ''LONG'', og_entry_price = 11/10,
      og_stop_loss = 219/200, og_take_profit = 0, og_confidence = 1/2, og_timestamp = t,
      og_metadata = \<lparr>md_spread = Some 1, md_atr = None, md_confluences = None, md_confluence_strategies = None,
                     md_confluence_timeframes = None, md_rationale = None\<rparr>\<rparr>"

definition demo_orch_order :: "string \<Rightarrow> instant \<Rightarrow> orch_order" where
  "demo_orch_order sid t =
     \<lparr>oo_signal = demo_orch_signal sid t, oo_profile = SWARM, oo_confidence_final = 1/2, oo_lots = 1/20, oo_risk_amount = 25,
      oo_sl_distance_pips = 50, oo_gates_passed = [''spread'', ''session'', ''volatility''], oo_rejected = False,
      oo_rejection_reason = []\<rparr>"

lemma demo_score:
  "ce_score 0 (1/2) (signal_score_args (demo_orch_signal sid t)) (ce_init None None) =
     \<lparr>cf_final_score = 1/2, cf_strategy_score = 1/2, cf_confluence_boost = 0,
      cf_gates_passed = [''spread'', ''session'', ''volatility''], cf_gates_failed = [], cf_blocked = False, cf_block_reason = []\<rparr>"
  by (simp add: ce_score_def ce_init_def demo_orch_signal_def signal_score_args_def gate_context_def spread_gate_check_def
      session_gate_check_def session_in_range_def volatility_gate_check_def gate_config_default_def
      calc_confluence_boost_def detector_boost_def Let_def)

lemma demo_size:
  "sz_calculate 0 ''EURUSD'' (11/10) (219/200) ''swarm'' (sizer_init 10000 (1/200) (3/100)) =
     Ret \<lparr>ps_lots = 1/20, ps_risk_amount = 25, ps_sl_distance_pips = 50, ps_sl_distance_price = 1/200,
          ps_pip_value = 10, ps_warnings = [], ps_blocked = False, ps_block_reason = []\<rparr> (sizer_init 10000 (1/200) (3/100))"
  by code_simp

lemma demo_orch_processed: "oc_process_signal 0 (demo_orch_signal sid t) demo_orchestrator = Ret (demo_orch_order sid t) demo_orchestrator"
proof -
  have args: "og_confidence (demo_orch_signal sid t) = 1/2" "og_symbol (demo_orch_signal sid t) = ''EURUSD''"
    "og_entry_price (demo_orch_signal sid t) = 11/10" "og_stop_loss (demo_orch_signal sid t) = 219/200"
    by (simp_all add: demo_orch_signal_def)
  have parts: "oc_engine demo_orchestrator = ce_init None None" "oc_sizer demo_orchestrator = sizer_init 10000 (1/200) (3/100)"
    "pr_route (1/2) (oc_router demo_orchestrator) = Inr (Some SWARM)"
    by (simp_all add: demo_orchestrator_def oc_init_def pr_init_def pr_route_def)
  have same: "demo_orchestrator\<lparr>oc_sizer := sizer_init 10000 (1/200) (3/100)\<rparr> = demo_orchestrator"
    by (simp add: demo_orchestrator_def oc_init_def)
  show ?thesis
    by (simp add: oc_process_signal_def args parts demo_score demo_size same Let_def del: One_nat_def) (simp add: demo_orch_order_def)
qed


text \<open>
  The session never decides: with the engine as it is built the orchestrator scores every signal at
  hour 0, inside the default Asian session, so at every time a signal is blocked by a gate exactly when
  the spread or the volatility gate blocks it.
\<close>

theorem orchestrator_session_gate_dead:
  assumes "oc_engine oc = ce_init None det"
  shows "cf_blocked (ce_score now (og_confidence s) (signal_score_args s) (oc_engine oc)) \<longleftrightarrow>
     \<not> gc_passed (spread_gate_check gate_config_default (gate_context (signal_score_args s))) \<or>
     \<not> gc_passed (volatility_gate_check gate_config_default None (gate_context (signal_score_args s)))"
proof -
  have "gc_passed (session_gate_check gate_config_default (gate_context (signal_score_args s)))"
    by (simp add: session_gate_check_def session_in_range_def gate_config_default_def gate_context_def signal_score_args_def Let_def)
  then show ?thesis
    by (simp add: assms ce_score_def ce_init_def Let_def)
qed

theorem orchestrator_session_gate_dead_witness:
  "\<not> cf_blocked (ce_score (22 * hour_us) (og_confidence (demo_orch_signal ''ttc'' (22 * hour_us))) (signal_score_args (demo_orch_signal ''ttc'' (22 * hour_us))) (oc_engine demo_orchestrator))"
  by (subst orchestrator_session_gate_dead [of demo_orchestrator None])
    (simp_all add: demo_orchestrator_def oc_init_def, code_simp)

text \<open>
  The pipeline raises only what the sizer raises: a signal through an engine as it is built never
  fails in the router, and without a halted breaker the only exception left is a division by zero.
\<close>

theorem orchestrator_exceptions:
  assumes "oc_engine oc = ce_init cfg det" and "oc_process_signal now s oc = Exc e oc'"
  shows "e = ZeroDivisionError \<or> e = TypeError \<and> br_halted (sz_breaker (oc_sizer oc))"
proof -
  obtain p where p: "sz_calculate now (og_symbol s) (og_entry_price s) (og_stop_loss s) p (oc_sizer oc) = Exc e (oc_sizer oc')"
    using assms score_routes [of now "og_confidence s" "signal_score_args s" cfg det "oc_router oc"]
    by (auto simp: oc_process_signal_def Let_def split: if_splits option.splits outcome.splits)
  have size: "sz_size a b c d z = Inl e' \<Longrightarrow> e' = ZeroDivisionError" for a b c d z e'
    by (auto simp: sz_size_def Let_def split: option.splits if_splits)
  show ?thesis
    using p size
    by (auto simp: sz_calculate_def check_breakers_def Let_def split: outcome.splits option.splits sum.splits if_splits py_datetime.splits)
qed

end
