(* ===== verification/Identifiers.thy ===== *)
theory Identifiers
  imports Prelude
begin

text \<open>
  The text of a time stamp inside a signal identifier, and how the runner reads it back: the pieces of
  Python's \<open>str\<close>, \<open>rsplit\<close> and \<open>float\<close> that \<open>forward_test/blend_runner.py\<close> uses.
\<close>

section \<open>Identifiers\<close>

text \<open>
  \<open>str(timestamp.timestamp())\<close>: the shortest numeral of a float that is a count of microseconds, for
  instants that are zero or at least 100 microseconds and less than 285 years from the epoch.
\<close>

definition frac_digits :: "nat \<Rightarrow> string" where
  "frac_digits us =
     (let s = py_str_nat us; padded = replicate (6 - length s) (CHR ''0'') @ s;
          t = rev (dropWhile (\<lambda>c. c = CHR ''0'') (rev padded))
      in if t = [] then ''0'' else t)"

definition py_timestamp_str :: "instant \<Rightarrow> string" where
  "py_timestamp_str t =
     (let n = nat \<bar>t\<bar> in
      (if t < 0 then ''-'' else []) @ py_str_nat (n div 1000000) @ ''.'' @ frac_digits (n mod 1000000))"

text \<open>\<open>s.rsplit("_", 1)[-1]\<close>.\<close>

definition rsplit_last :: "string \<Rightarrow> string" where
  "rsplit_last s = rev (takeWhile (\<lambda>c. c \<noteq> CHR ''_'') (rev s))"

text \<open>
  \<open>float(s)\<close> for text without underscores; the words for infinities and NaN are \<open>None\<close>, as no difference
  with them is within any bound.
\<close>

definition all_digits :: "string \<Rightarrow> bool" where
  "all_digits s = list_all (\<lambda>c. let n = (of_char c :: nat) in 48 \<le> n \<and> n \<le> 57) s"

definition py_mantissa :: "string \<Rightarrow> flt option" where
  "py_mantissa s =
     (let a = takeWhile (\<lambda>c. c \<noteq> CHR ''.'') s; b = drop 1 (dropWhile (\<lambda>c. c \<noteq> CHR ''.'') s)
      in if all_digits a \<and> all_digits b \<and> (a \<noteq> [] \<or> b \<noteq> [])
         then Some (of_nat (nat_of_digits (a @ b)) / 10 ^ length b) else None)"

fun unsign :: "string \<Rightarrow> bool \<times> string" where
  "unsign (c # s) = (if c = CHR ''-'' then (True, s) else if c = CHR ''+'' then (False, s) else (False, c # s))"
| "unsign [] = (False, [])"

definition py_float :: "string \<Rightarrow> flt option" where
  "py_float s =
     (let (neg, body) = unsign (py_strip s);
          is_e = (\<lambda>c. c = CHR ''e'' \<or> c = CHR ''E'');
          m = py_mantissa (takeWhile (\<lambda>c. \<not> is_e c) body);
          rest = dropWhile (\<lambda>c. \<not> is_e c) body;
          (eneg, ebody) = unsign (drop 1 rest)
      in case m of
           None \<Rightarrow> None
         | Some x \<Rightarrow>
             let v = (if neg then - x else x) in
             if rest = [] then Some v
             else if ebody = [] \<or> \<not> all_digits ebody then None
             else if eneg then Some (v / 10 ^ nat_of_digits ebody) else Some (v * 10 ^ nat_of_digits ebody))"

section \<open>Reading back\<close>

lemma nat_of_digits_append: "nat_of_digits (a @ b) = nat_of_digits a * 10 ^ length b + nat_of_digits b"
proof -
  have "foldl (\<lambda>n c. 10 * n + (of_char c - 48)) x b = x * 10 ^ length b + foldl (\<lambda>n c. 10 * n + (of_char c - 48)) 0 b" for x :: nat
  proof (induction b arbitrary: x)
    case (Cons c b)
    show ?case
      using Cons.IH [of "10 * x + (of_char c - 48)"] Cons.IH [of "of_char c - 48"] by (simp add: algebra_simps)
  qed simp
  from this [of "nat_of_digits a"] show ?thesis by (simp add: nat_of_digits_def)
qed

lemma nat_of_digits_zeros [simp]: "nat_of_digits (replicate k (CHR ''0'')) = 0"
  by (induction k) (simp_all add: nat_of_digits_def)

lemma all_digits_append [simp]: "all_digits (a @ b) \<longleftrightarrow> all_digits a \<and> all_digits b"
  by (simp add: all_digits_def)

lemma all_digits_zeros [simp]: "all_digits (replicate k (CHR ''0''))"
  by (induction k) (simp_all add: all_digits_def)

lemma all_digits_str [simp]: "all_digits (py_str_nat n)"
proof (induction n rule: py_str_nat.induct)
  case (1 n)
  have "all_digits [char_of (48 + d)]" if "d < 10" for d :: nat
    using that of_char_of_digit [OF that] by (simp add: all_digits_def)
  with 1 show ?case by (subst py_str_nat.simps) simp
qed

lemma digit_chars: "all_digits s \<Longrightarrow> c \<in> set s \<Longrightarrow> c \<notin> {CHR ''.'', CHR ''-'', CHR ''+'', CHR ''_'', CHR ''e'', CHR ''E''} \<and> \<not> py_isspace c"
  by (auto simp: all_digits_def list_all_iff py_isspace_def Let_def dest: bspec)

lemma trailing: "\<exists>j. s = rev (dropWhile (\<lambda>x. x = c) (rev s)) @ replicate j c"
proof -
  have "takeWhile (\<lambda>x. x = c) (rev s) = replicate (length (takeWhile (\<lambda>x. x = c) (rev s))) c"
    by (rule replicate_eqI) (auto dest: set_takeWhileD)
  moreover have "s = rev (dropWhile (\<lambda>x. x = c) (rev s)) @ rev (takeWhile (\<lambda>x. x = c) (rev s))"
    by (metis rev_append rev_rev_ident takeWhile_dropWhile_id)
  ultimately show ?thesis by (metis rev_replicate)
qed

lemma length_py_str_nat: "n < 10 ^ Suc k \<Longrightarrow> length (py_str_nat n) \<le> Suc k"
proof (induction k arbitrary: n)
  case 0
  then show ?case by (subst py_str_nat.simps) simp
next
  case (Suc k)
  then have "n div 10 < 10 ^ Suc k" by simp
  from Suc.IH [OF this] show ?case by (subst py_str_nat.simps) simp
qed

lemma frac_digits_value:
  assumes "us < 1000000"
  shows "all_digits (frac_digits us)" and "frac_digits us \<noteq> []"
    and "of_nat (nat_of_digits (frac_digits us)) / 10 ^ length (frac_digits us) = (of_nat us / 1000000 :: flt)"
proof -
  define padded where "padded = replicate (6 - length (py_str_nat us)) (CHR ''0'') @ py_str_nat us"
  define t where "t = rev (dropWhile (\<lambda>c. c = CHR ''0'') (rev padded))"
  have frac: "frac_digits us = (if t = [] then ''0'' else t)" unfolding frac_digits_def t_def padded_def Let_def by (rule refl)
  have "length (py_str_nat us) \<le> 6" using length_py_str_nat [of us 5] assms by simp
  then have len: "length padded = 6" by (simp add: padded_def)
  have val: "nat_of_digits padded = us" by (simp add: padded_def nat_of_digits_append)
  obtain j where j: "padded = t @ replicate j (CHR ''0'')" using trailing [of padded "CHR ''0''"] by (auto simp: t_def)
  have dig: "all_digits padded" by (simp add: padded_def)
  then show "all_digits (frac_digits us)" "frac_digits us \<noteq> []" using j by (auto simp: frac all_digits_def)
  have us: "nat_of_digits t * 10 ^ j = us" using val j by (simp add: nat_of_digits_append)
  have lt: "length t + j = 6" using len j by simp
  have "of_nat (nat_of_digits t) / 10 ^ length t = (of_nat us / 1000000 :: flt)"
  proof -
    have "(of_nat us :: flt) / 10 ^ (length t + j) = of_nat (nat_of_digits t) / 10 ^ length t"
      by (simp add: us [symmetric] power_add)
    then show ?thesis by (simp add: lt)
  qed
  then show "of_nat (nat_of_digits (frac_digits us)) / 10 ^ length (frac_digits us) = (of_nat us / 1000000 :: flt)"
    by (auto simp: frac nat_of_digits_def)
qed

lemma py_strip_clean: "list_all (\<lambda>c. \<not> py_isspace c) s \<Longrightarrow> py_strip s = s"
proof -
  have keep: "list_all (\<lambda>c. \<not> py_isspace c) xs \<Longrightarrow> dropWhile py_isspace xs = xs" for xs by (cases xs) auto
  assume "list_all (\<lambda>c. \<not> py_isspace c) s"
  then show ?thesis using keep [of s] keep [of "rev s"] by (simp add: py_strip_def)
qed

lemma takeWhile_upto: "c \<notin> set a \<Longrightarrow> takeWhile (\<lambda>x. x \<noteq> c) (a @ c # b) = a \<and> dropWhile (\<lambda>x. x \<noteq> c) (a @ c # b) = c # b"
  by (induction a) auto

lemma not_space [simp]: "\<not> py_isspace (CHR ''.'')" "\<not> py_isspace (CHR ''-'')"
  by (simp_all add: py_isspace_def)

lemma py_float_decimal:
  assumes "all_digits a" "a \<noteq> []" "all_digits b"
  shows "py_float ((if neg then ''-'' else []) @ a @ ''.'' @ b) =
     Some ((if neg then -1 else 1) * (of_nat (nat_of_digits a) + of_nat (nat_of_digits b) / 10 ^ length b))"
proof -
  define body where "body = a @ CHR ''.'' # b"
  have arg: "(if neg then ''-'' else []) @ a @ ''.'' @ b = (if neg then ''-'' else []) @ body" by (simp add: body_def)
  have chars: "c \<notin> {CHR ''-'', CHR ''+'', CHR ''_'', CHR ''e'', CHR ''E''} \<and> \<not> py_isspace c" if "c \<in> set body" for c
    using that digit_chars [OF assms(1)] digit_chars [OF assms(3)] by (auto simp: body_def)
  have clean: "list_all (\<lambda>c. \<not> py_isspace c) body" unfolding list_all_iff using chars by blast
  have strip: "py_strip ((if neg then ''-'' else []) @ body) = (if neg then ''-'' else []) @ body"
    by (rule py_strip_clean) (use clean in \<open>cases neg; simp\<close>)
  obtain c rest where ac: "a = c # rest" using assms(2) by (cases a) auto
  have unchars: "c \<noteq> CHR ''-''" "c \<noteq> CHR ''+''" using chars [of c] by (simp_all add: ac body_def)
  have un: "unsign ((if neg then ''-'' else []) @ body) = (neg, body)"
    using unchars by (cases neg) (simp_all add: ac body_def)
  have notin: "CHR ''.'' \<notin> set a" using digit_chars [OF assms(1)] by auto
  have noe: "takeWhile (\<lambda>c. c \<noteq> CHR ''e'' \<and> c \<noteq> CHR ''E'') body = body" "dropWhile (\<lambda>c. c \<noteq> CHR ''e'' \<and> c \<noteq> CHR ''E'') body = []"
    using chars unfolding takeWhile_eq_all_conv dropWhile_eq_Nil_conv by blast+
  have mant: "py_mantissa body = Some (of_nat (nat_of_digits (a @ b)) / 10 ^ length b)"
    using takeWhile_upto [OF notin, of b] assms by (simp add: py_mantissa_def body_def Let_def)
  have val: "of_nat (nat_of_digits (a @ b)) / 10 ^ length b = (of_nat (nat_of_digits a) + of_nat (nat_of_digits b) / 10 ^ length b :: flt)"
    by (simp add: nat_of_digits_append add_divide_distrib)
  show ?thesis
    unfolding py_float_def arg strip un by (cases neg) (simp_all add: noe mant val Let_def)
qed

end
