(* ===== verification/BlendRunner.thy ===== *)
theory BlendRunner
  imports Orchestrator Orders SignalStats FtmoGuard Identifiers
begin

text \<open>
  The production runner of the forward test, \<open>forward_test/blend_runner.py\<close>: it adapts, scores, routes
  and sizes the signals of its strategies, reserves their risk, maps execution positions to signals,
  books the fills, and keeps the statistics, the edge telemetry and the state file.
\<close>

section \<open>State\<close>

record tracked_signal =
  bt_order :: orch_order
  bt_risk_amount :: flt

text \<open>
  The sizer lives in the orchestrator, which shares it with the runner. \<open>bl_paper\<close> is the position dict
  of the order manager of the bound paper trader, \<open>bl_file\<close> the state file, \<open>bl_log\<close> the signal statistics.
\<close>

record blend_runner =
  bl_orchestrator :: orchestrator
  bl_balance :: flt
  bl_regime_thresholds :: regime_aware
  bl_current_regime :: regime
  bl_regime_history :: "(regime \<times> flt) list"
  bl_edge :: edge_tracker
  bl_open_positions :: "(string \<times> tracked_signal) list"
  bl_current_day :: "day option"
  bl_pos_to_sig :: "(string \<times> string) list"
  bl_sig_to_pos :: "(string \<times> string) list"
  bl_unmapped :: "string list"
  bl_mapped :: "string list"
  bl_log :: stats_log
  bl_heartbeat :: heartbeat
  bl_file :: state_file
  bl_paper :: "(string \<times> position) list option"

type_synonym 'a bl_result = "(blend_runner, 'a) outcome"

text \<open>The clock, the Toronto offset, and whether the files can be written.\<close>

record blend_env =
  be_now :: instant
  be_tz :: "instant \<Rightarrow> int"
  be_stats :: stats_env
  be_edge_ok :: bool
  be_save_ok :: bool

definition bl_sizer :: "blend_runner \<Rightarrow> sizer" where
  "bl_sizer r = oc_sizer (bl_orchestrator r)"

definition bl_set_sizer :: "sizer \<Rightarrow> blend_runner \<Rightarrow> blend_runner" where
  "bl_set_sizer sz r = r\<lparr>bl_orchestrator := (bl_orchestrator r)\<lparr>oc_sizer := sz\<rparr>\<rparr>"

record blend_config =
  bc_account_balance :: flt
  bc_risk_per_trade_pct :: flt
  bc_daily_risk_cap_pct :: flt
  bc_max_sniper :: int
  bc_max_swarm :: int
  bc_spread_pips :: "(string \<times> flt) list"

definition bl_init :: "blend_config \<Rightarrow> edge_trade list \<Rightarrow> stats_log \<Rightarrow> heartbeat \<Rightarrow> state_file \<Rightarrow> blend_runner" where
  "bl_init c edge_rows log_rows hb file =
     (let balance = bc_account_balance c;
          gate_cfg = gate_config_default\<lparr>default_max_spread := 2, symbol_max_spreads := bc_spread_pips c\<rparr>;
          sz = sizer_init balance (bc_risk_per_trade_pct c) (bc_daily_risk_cap_pct c)
      in \<lparr>bl_orchestrator = oc_init (ce_init (Some gate_cfg) None)
                             (pr_init (7/10) (4/10) (bc_max_sniper c) (bc_max_swarm c)) sz balance,
          bl_balance = balance, bl_regime_thresholds = ra_init, bl_current_regime = STABLE, bl_regime_history = [],
          bl_edge = ed_load edge_rows, bl_open_positions = [], bl_current_day = None, bl_pos_to_sig = [],
          bl_sig_to_pos = [], bl_unmapped = [], bl_mapped = [], bl_log = log_rows, bl_heartbeat = hb, bl_file = file,
          bl_paper = None\<rparr>)"

definition bl_update_balance :: "flt \<Rightarrow> blend_runner \<Rightarrow> blend_runner" where
  "bl_update_balance b r = r\<lparr>bl_orchestrator := oc_update_balance b (bl_orchestrator r)\<rparr>"

definition bl_start :: "blend_runner \<Rightarrow> blend_runner" where
  "bl_start r =
     (let r1 = bl_set_sizer (snd (sp_restore (bl_file r) (bl_sizer r))) r;
          b = sz_account_balance (bl_sizer r1)
      in bl_update_balance b (r1\<lparr>bl_balance := b\<rparr>))"

definition bl_reconcile_with_broker :: "blend_env \<Rightarrow> broker_position list \<Rightarrow> blend_runner \<Rightarrow> reconcile_result \<times> blend_runner" where
  "bl_reconcile_with_broker env ps r =
     (let (res, sz) = sz_reconcile_with_broker (be_now env) ps (bl_sizer r); r1 = bl_set_sizer sz r
      in (res, bl_update_balance (sz_account_balance sz) r1))"

definition bl_save :: "blend_env \<Rightarrow> blend_runner \<Rightarrow> unit bl_result" where
  "bl_save env r =
     (case sp_save (be_save_ok env) (bl_sizer r) None (bl_file r) of
        Ret _ f \<Rightarrow> Ret () (r\<lparr>bl_file := f\<rparr>)
      | Exc e f \<Rightarrow> Exc e (r\<lparr>bl_file := f\<rparr>))"

definition bl_stop :: "blend_env \<Rightarrow> blend_runner \<Rightarrow> unit bl_result" where
  "bl_stop env r = bl_save env r"

section \<open>Days\<close>

definition bl_check_daily_reset :: "blend_env \<Rightarrow> instant \<Rightarrow> blend_runner \<Rightarrow> blend_runner" where
  "bl_check_daily_reset env ts r =
     (let d = trading_date (be_tz env) ts;
          r1 = (case bl_current_day r of
                  Some c \<Rightarrow> (if d \<noteq> c then bl_set_sizer (sz_reset_daily (bl_sizer r)) r else r)
                | None \<Rightarrow> r)
      in r1\<lparr>bl_current_day := Some d\<rparr>)"

definition bl_daily_reset :: "blend_env \<Rightarrow> instant option \<Rightarrow> blend_runner \<Rightarrow> blend_runner" where
  "bl_daily_reset env now r =
     (bl_set_sizer (sz_reset_daily (bl_sizer r)) r)
       \<lparr>bl_current_day := Some (trading_date (be_tz env) (or_default now (be_now env)))\<rparr>"

section \<open>Regime\<close>

text \<open>The bars are their highs and lows.\<close>

definition bl_update_regime :: "(flt \<times> flt) list \<Rightarrow> blend_runner \<Rightarrow> blend_runner" where
  "bl_update_regime bars r =
     (if length bars < 20 then r
      else
        let ranges = map (\<lambda>(h, l). h - l) (py_last 20 bars) in
        if Max (set ranges) = 0 then r
        else
          let current = last ranges; avg = sum_list ranges / of_nat (length ranges) in
          if avg = 0 then r
          else
            let ratio = current / avg;
                g = (if ratio \<ge> 2 then BREAKDOWN else if ratio \<ge> 3/2 then TRANSITION else STABLE)
            in if g \<noteq> bl_current_regime r
               then r\<lparr>bl_current_regime := g, bl_regime_history := bl_regime_history r @ [(g, ratio)]\<rparr> else r)"

section \<open>Identity of signals and positions\<close>

definition make_signal_id :: "orch_signal \<Rightarrow> string" where
  "make_signal_id s = og_strategy_id s @ ''_'' @ py_timestamp_str (og_timestamp s)"

definition bl_queue_signal :: "string \<Rightarrow> blend_runner \<Rightarrow> blend_runner" where
  "bl_queue_signal sid r =
     (if List.member (bl_mapped r) sid \<or> List.member (bl_unmapped r) sid then r
      else r\<lparr>bl_unmapped := bl_unmapped r @ [sid]\<rparr>)"

definition bl_forget_mapping :: "string \<Rightarrow> blend_runner \<Rightarrow> blend_runner" where
  "bl_forget_mapping sid r =
     r\<lparr>bl_mapped := removeAll sid (bl_mapped r), bl_sig_to_pos := AList.delete sid (bl_sig_to_pos r),
       bl_unmapped := remove1 sid (bl_unmapped r)\<rparr>"

definition bl_resolve_registered :: "string \<Rightarrow> blend_runner \<Rightarrow> string" where
  "bl_resolve_registered identity r =
     (let sizer_open = sz_open_positions (bl_sizer r) in
      if map_of (bl_open_positions r) identity \<noteq> None then identity
      else if map_of sizer_open identity \<noteq> None then identity
      else case py_float (rsplit_last identity) of
        None \<Rightarrow> identity
      | Some requested \<Rightarrow>
          (case filter (\<lambda>c. map_of sizer_open c \<noteq> None \<and>
                   (case py_float (rsplit_last c) of Some x \<Rightarrow> \<bar>x - requested\<bar> \<le> 1 | None \<Rightarrow> False)) (bl_unmapped r) of
             [c] \<Rightarrow> c
           | _ \<Rightarrow> identity))"

definition bl_resolve_unmapped :: "blend_runner \<Rightarrow> string option" where
  "bl_resolve_unmapped r =
     (let pending = filter (\<lambda>sid. map_of (bl_open_positions r) sid \<noteq> None) (bl_unmapped r);
          sizer_open = sz_open_positions (bl_sizer r)
      in if pending = [] then None
         else if sizer_open \<noteq> [] then
           List.find (\<lambda>sid. map_of sizer_open sid \<noteq> None \<and> \<not> List.member (bl_mapped r) sid) pending
         else if length pending = 1 then Some (hd pending)
         else None)"

definition bl_bind_mapping :: "string \<Rightarrow> string \<Rightarrow> blend_runner \<Rightarrow> blend_runner" where
  "bl_bind_mapping pid sid r =
     (let p2s = (case map_of (bl_sig_to_pos r) sid of
                   Some old \<Rightarrow> (if old \<noteq> pid then AList.delete old (bl_pos_to_sig r) else bl_pos_to_sig r)
                 | None \<Rightarrow> bl_pos_to_sig r)
      in r\<lparr>bl_pos_to_sig := AList.update pid sid p2s, bl_sig_to_pos := AList.update sid pid (bl_sig_to_pos r),
           bl_mapped := List.insert sid (bl_mapped r), bl_unmapped := remove1 sid (bl_unmapped r)\<rparr>)"

definition resolve_mirror_direction :: "string \<Rightarrow> trade_direction option" where
  "resolve_mirror_direction raw =
     (let n = py_upper (py_strip raw) in
      if n = ''LONG'' \<or> n = ''BUY'' then Some LONG
      else if n = ''SHORT'' \<or> n = ''SELL'' then Some SHORT else None)"

definition mirrored_position :: "instant \<Rightarrow> string \<Rightarrow> trade_direction \<Rightarrow> orch_order \<Rightarrow> position" where
  "mirrored_position now pid d ord =
     \<lparr>po_position_id = pid, po_symbol = og_symbol (oo_signal ord), po_direction = d, po_volume = oo_lots ord,
      po_entry_price = og_entry_price (oo_signal ord), po_current_price = og_entry_price (oo_signal ord),
      po_stop_loss = Some (og_stop_loss (oo_signal ord)), po_take_profit = Some (og_take_profit (oo_signal ord)),
      po_unrealized_pnl = 0, po_status = OPEN, po_opened_at = Naive now, po_closed_at = None, po_closed_price = None,
      po_closed_pnl = 0, po_comment = [], po_max_favorable_excursion = 0, po_max_adverse_excursion = 0,
      po_time_in_trade_sec = 0, po_high_water_mark = 0, po_low_water_mark = 0, po_take_profit_2 = None,
      po_take_profit_3 = None, po_tp_levels_fired = [], po_close_reason = None\<rparr>"

definition bl_mirror_position :: "blend_env \<Rightarrow> string \<Rightarrow> string \<Rightarrow> blend_runner \<Rightarrow> blend_runner" where
  "bl_mirror_position env pid sid r =
     (case (bl_paper r, map_of (bl_open_positions r) sid) of
        (Some positions, Some t) \<Rightarrow>
          if map_of positions pid \<noteq> None then r
          else
            let ord = bt_order t in
            (case resolve_mirror_direction (og_direction (oo_signal ord)) of
               None \<Rightarrow> r
             | Some d \<Rightarrow>
                 if oo_lots ord \<le> 0 \<or> og_entry_price (oo_signal ord) \<le> 0 then r
                 else r\<lparr>bl_paper := Some (AList.update pid (mirrored_position (be_now env) pid d ord) positions)\<rparr>)
      | _ \<Rightarrow> r)"

text \<open>\<open>paper\<close>: the positions of the trader the caller passes, if any.\<close>

definition bl_register_position_mapping ::
  "blend_env \<Rightarrow> string \<Rightarrow> string \<Rightarrow> (string \<times> position) list option \<Rightarrow> blend_runner \<Rightarrow> blend_runner" where
  "bl_register_position_mapping env pid raw paper r =
     (let r1 = (case paper of Some ps \<Rightarrow> r\<lparr>bl_paper := Some ps\<rparr> | None \<Rightarrow> r);
          resolved = (if map_of (bl_open_positions r1) raw = None then bl_resolve_unmapped r1 else Some raw)
      in case resolved of
           None \<Rightarrow> r1\<lparr>bl_pos_to_sig := AList.update pid raw (bl_pos_to_sig r1)\<rparr>
         | Some sid \<Rightarrow> bl_mirror_position env pid sid (bl_bind_mapping pid sid r1))"

section \<open>Signals\<close>

definition adjusted_order :: "blend_runner \<Rightarrow> string \<Rightarrow> orch_order \<Rightarrow> orch_order" where
  "adjusted_order r sid ord =
     (let exposure = ra_get_exposure_multiplier (bl_current_regime r) (bl_regime_thresholds r);
          edge = ed_get_risk_multiplier sid (og_symbol (oo_signal ord)) (bl_edge r);
          combined = exposure * edge
      in if combined < 1 then ord\<lparr>oo_risk_amount := oo_risk_amount ord * combined, oo_lots := oo_lots ord * combined\<rparr>
         else if edge > 1 then ord\<lparr>oo_risk_amount := oo_risk_amount ord * edge, oo_lots := oo_lots ord * edge\<rparr>
         else ord)"

definition signal_stats_record :: "string \<Rightarrow> string \<Rightarrow> orch_signal \<Rightarrow> orch_order \<Rightarrow> signal_record" where
  "signal_stats_record signal_id sid s ord =
     \<lparr>sr_signal_id = signal_id, sr_timestamp = [FIso (og_timestamp s)], sr_strategy = sid, sr_symbol = og_symbol s,
      sr_direction = og_direction s, sr_confidence = og_confidence s,
      sr_rationale_tags = [[Lit (or_default (md_rationale (og_metadata s)) [])]], sr_confluence_score = 0,
      sr_lots = oo_lots ord, sr_entry_price = og_entry_price s, sr_sl_price = og_stop_loss s,
      sr_tp_price = og_take_profit s, sr_outcome = None, sr_pips_realized = None, sr_time_to_close_seconds = None,
      sr_closed_at = None, sr_rejection_reason = None, sr_error_code = None\<rparr>"

text \<open>A failure of the recorder is caught.\<close>

definition bl_record :: "(stats_log \<Rightarrow> (stats_log, 'a) outcome) \<Rightarrow> blend_runner \<Rightarrow> blend_runner" where
  "bl_record f r = r\<lparr>bl_log := state_of (f (bl_log r))\<rparr>"

definition bl_accept :: "blend_env \<Rightarrow> string \<Rightarrow> orch_signal \<Rightarrow> orch_order \<Rightarrow> blend_runner \<Rightarrow> orch_order bl_result" where
  "bl_accept env sid s ord0 r =
     (let ord = adjusted_order r sid ord0; signal_id = make_signal_id s;
          r1 = r\<lparr>bl_open_positions :=
                   AList.update signal_id \<lparr>bt_order = ord, bt_risk_amount = oo_risk_amount ord\<rparr> (bl_open_positions r)\<rparr>
      in case sz_register signal_id (oo_risk_amount ord) [] (bl_sizer r1) of
           Exc e sz \<Rightarrow> Exc e (bl_set_sizer sz r1)
         | Ret _ sz \<Rightarrow>
             Ret ord (bl_record (ss_record_signal (be_stats env) (signal_stats_record signal_id sid s ord))
                        (bl_queue_signal signal_id (bl_set_sizer sz r1))))"

definition bl_count_order :: "blend_env \<Rightarrow> orch_order \<Rightarrow> blend_runner \<Rightarrow> blend_runner" where
  "bl_count_order env ord r =
     (let h = (if oo_rejected ord then hb_record_regime_filtered (bl_heartbeat r) else hb_record_traded (bl_heartbeat r))
      in r\<lparr>bl_heartbeat := snd (hb_maybe_emit (be_stats env) h)\<rparr>)"

definition bl_on_signal :: "blend_env \<Rightarrow> string \<Rightarrow> strategy_output \<Rightarrow> blend_runner \<Rightarrow> orch_order bl_result" where
  "bl_on_signal env sid out r =
     (let r0 = r\<lparr>bl_heartbeat := hb_record_signal_generated (bl_heartbeat r)\<rparr> in
      case adapt_signal (be_now env) sid out of
        Inl e \<Rightarrow> Exc e r0
      | Inr s \<Rightarrow>
          let r1 = bl_check_daily_reset env (og_timestamp s) r0 in
          (case oc_process_signal (be_now env) s (bl_orchestrator r1) of
             Exc e oc \<Rightarrow> Exc e (r1\<lparr>bl_orchestrator := oc\<rparr>)
           | Ret ord oc \<Rightarrow>
               let r2 = bl_count_order env ord (r1\<lparr>bl_orchestrator := oc\<rparr>) in
               if oo_rejected ord then
                 Ret ord (bl_record (ss_record_rejection (be_stats env) (make_signal_id s) (oo_rejection_reason ord) []) r2)
               else bl_accept env sid s ord r2))"

definition bl_cancel_risk :: "string \<Rightarrow> blend_runner \<Rightarrow> blend_runner" where
  "bl_cancel_risk sid r =
     (let resolved = bl_resolve_registered sid r; r1 = bl_forget_mapping resolved r
      in bl_set_sizer (sz_cancel resolved (bl_sizer r1)) r1)"

section \<open>Fills\<close>

definition close_seconds :: "instant \<Rightarrow> tracked_signal option \<Rightarrow> int" where
  "close_seconds now pos =
     (case pos of Some t \<Rightarrow> max 0 ((now - og_timestamp (oo_signal (bt_order t))) div 1000000) | None \<Rightarrow> 0)"

definition bl_edge_close :: "blend_env \<Rightarrow> string \<Rightarrow> flt \<Rightarrow> tracked_signal option \<Rightarrow> blend_runner \<Rightarrow> blend_runner" where
  "bl_edge_close env order_id pnl pos r =
     (case pos of
        Some t \<Rightarrow>
          let sid = og_strategy_id (oo_signal (bt_order t)) in
          if sid \<noteq> ''unknown'' \<and> bt_risk_amount t > 0
          then r\<lparr>bl_edge := snd (ed_record_close (be_now env) (be_edge_ok env) sid (og_symbol (oo_signal (bt_order t)))
                                   (bt_risk_amount t) pnl (Some order_id) (bl_edge r))\<rparr>
          else r
      | None \<Rightarrow> r)"

definition bl_on_fill :: "blend_env \<Rightarrow> string \<Rightarrow> flt \<Rightarrow> blend_runner \<Rightarrow> unit bl_result" where
  "bl_on_fill env raw_id pnl r =
     (let order_id = bl_resolve_registered raw_id r;
          pos = map_of (bl_open_positions r) order_id;
          r1 = r\<lparr>bl_open_positions := AList.delete order_id (bl_open_positions r)\<rparr>
      in case sz_close order_id pnl (bl_sizer r1) of
           Exc _ sz \<Rightarrow>
             Ret () (case pos of
                       Some t \<Rightarrow> r1\<lparr>bl_open_positions := AList.update order_id t (bl_open_positions r1)\<rparr>
                     | None \<Rightarrow> r1)
         | Ret _ sz \<Rightarrow>
             let r2 = bl_forget_mapping order_id (bl_set_sizer sz r1);
                 b = sz_account_balance (bl_sizer r2);
                 r3 = bl_edge_close env order_id pnl pos (bl_update_balance b (r2\<lparr>bl_balance := b\<rparr>));
                 r4 = bl_record (ss_record_outcome (be_stats env) order_id (if pnl > 0 then ''tp_hit'' else ''sl_hit'') pnl
                                   (close_seconds (be_now env) pos)) r3
             in bl_save env r4)"

definition bl_close_position :: "blend_env \<Rightarrow> string \<Rightarrow> flt \<Rightarrow> blend_runner \<Rightarrow> unit bl_result" where
  "bl_close_position env pid pnl r =
     (let sid = dget_or (bl_pos_to_sig r) pid pid;
          r1 = r\<lparr>bl_pos_to_sig := AList.delete pid (bl_pos_to_sig r)\<rparr>
      in bl_on_fill env (bl_resolve_registered sid r1) pnl r1)"

section \<open>Bars\<close>

record blend_bar =
  bb_symbol :: "string option"
  bb_high :: flt
  bb_low :: flt
  bb_close :: flt
  bb_spread_pips :: "flt option"

text \<open>
  What a strategy's \<open>evaluate\<close> gives for the bars: an exception (\<open>None\<close>), no signal, a dict, or an object
  read by its attributes (an attribute that is missing or null is \<open>None\<close>).
\<close>

datatype evaluation = EvalRaised | EvalNone | EvalDict strategy_output | EvalObject strategy_output

definition result_to_dict :: "evaluation \<Rightarrow> blend_bar \<Rightarrow> strategy_output option" where
  "result_to_dict ev bar =
     (let bar_spread = or_default (bb_spread_pips bar) 0 in
      case ev of
        EvalDict d \<Rightarrow> Some (if so_spread d = None then d\<lparr>so_spread := Some bar_spread\<rparr> else d)
      | EvalObject a \<Rightarrow>
          let entry = or_default (so_entry_price a) (bb_close bar); sl = or_default (so_stop_loss a) 0 in
          if entry = 0 \<or> sl = 0 then None
          else Some \<lparr>so_symbol = Some (or_default (so_symbol a) (or_default (bb_symbol bar) ''XAUUSD'')),
                     so_direction = Some (or_default (so_direction a) ''LONG''), so_entry_price = Some entry,
                     so_stop_loss = Some sl, so_take_profit = Some (or_default (so_take_profit a) 0),
                     so_confidence = Some (or_default (so_confidence a) (1/2)), so_confluence_strategies = None,
                     so_confluence_timeframes = None, so_spread = Some bar_spread, so_atr = None, so_timestamp = None\<rparr>
      | _ \<Rightarrow> None)"

type_synonym strategy_fn = "string \<times> (blend_bar list \<Rightarrow> blend_bar \<Rightarrow> evaluation)"

fun evaluate_loop ::
  "blend_env \<Rightarrow> blend_bar list \<Rightarrow> blend_bar \<Rightarrow> strategy_fn list \<Rightarrow> orch_order list \<Rightarrow> blend_runner \<Rightarrow> orch_order list bl_result" where
  "evaluate_loop env bars bar [] orders r = Ret orders r"
| "evaluate_loop env bars bar ((name, evaluate) # ss) orders r =
     (case result_to_dict (evaluate bars bar) bar of
        None \<Rightarrow> evaluate_loop env bars bar ss orders r
      | Some out \<Rightarrow>
          (case bl_on_signal env name out r of
             Exc e r1 \<Rightarrow> Exc e r1
           | Ret ord r1 \<Rightarrow> evaluate_loop env bars bar ss (orders @ [ord]) r1))"

definition bl_evaluate_bars ::
  "blend_env \<Rightarrow> strategy_fn list \<Rightarrow> blend_bar list \<Rightarrow> blend_bar option \<Rightarrow> blend_runner \<Rightarrow> orch_order list bl_result" where
  "bl_evaluate_bars env strategies bars latest_bar r =
     (if strategies = [] then Ret [] r
      else case (case latest_bar of Some b \<Rightarrow> Some b | None \<Rightarrow> if bars = [] then None else Some (last bars)) of
        None \<Rightarrow> Ret [] r
      | Some bar \<Rightarrow>
          evaluate_loop env bars bar strategies [] (bl_update_regime (map (\<lambda>b. (bb_high b, bb_low b)) bars) r))"

record health_snapshot =
  hs_open_positions :: nat
  hs_open_risk :: flt
  hs_daily_risk_used :: flt
  hs_daily_risk_remaining :: flt
  hs_balance :: flt

definition bl_health_snapshot :: "blend_runner \<Rightarrow> health_snapshot" where
  "bl_health_snapshot r =
     \<lparr>hs_open_positions = length (sz_open_positions (bl_sizer r)), hs_open_risk = py_round2 (sz_open_risk (bl_sizer r)),
      hs_daily_risk_used = py_round2 (sz_daily_risk_used (bl_sizer r)),
      hs_daily_risk_remaining = py_round2 (sz_daily_risk_remaining (bl_sizer r)), hs_balance = py_round2 (bl_balance r)\<rparr>"

end
