(* ===== verification/BlendSafety.thy ===== *)
theory BlendSafety
  imports BlendRunner
begin

text \<open>
  What the blend runner guarantees and where it leaks: its books over every run, the reserved risk of
  an accepted signal, the per-symbol limit, fills after a reconciliation, and the identifiers.
\<close>

section \<open>Frames\<close>

lemma sizer_set [simp]: "bl_sizer (bl_set_sizer sz r) = sz"
  by (simp add: bl_sizer_def bl_set_sizer_def)

lemma set_sizer_frame [simp]:
  "bl_balance (bl_set_sizer sz r) = bl_balance r" "bl_open_positions (bl_set_sizer sz r) = bl_open_positions r"
  "bl_unmapped (bl_set_sizer sz r) = bl_unmapped r" "bl_log (bl_set_sizer sz r) = bl_log r"
  "bl_pos_to_sig (bl_set_sizer sz r) = bl_pos_to_sig r" "bl_edge (bl_set_sizer sz r) = bl_edge r"
  "bl_current_regime (bl_set_sizer sz r) = bl_current_regime r" "bl_file (bl_set_sizer sz r) = bl_file r"
  "bl_regime_thresholds (bl_set_sizer sz r) = bl_regime_thresholds r"
  by (simp_all add: bl_set_sizer_def)

lemma orchestrator_frame [simp]:
  "bl_sizer (bl_open_positions_update f r) = bl_sizer r" "bl_sizer (bl_heartbeat_update g r) = bl_sizer r"
  "bl_sizer (bl_log_update h r) = bl_sizer r" "bl_sizer (bl_pos_to_sig_update p r) = bl_sizer r"
  "bl_sizer (bl_balance_update b r) = bl_sizer r" "bl_sizer (bl_edge_update e r) = bl_sizer r"
  "bl_sizer (bl_file_update k r) = bl_sizer r" "bl_sizer (bl_current_day_update d r) = bl_sizer r"
  "bl_sizer (bl_paper_update q r) = bl_sizer r" "bl_sizer (bl_unmapped_update u r) = bl_sizer r"
  "bl_sizer (bl_mapped_update m r) = bl_sizer r" "bl_sizer (bl_sig_to_pos_update t r) = bl_sizer r"
  "bl_sizer (bl_current_regime_update x r) = bl_sizer r" "bl_sizer (bl_regime_history_update y r) = bl_sizer r"
  by (simp_all add: bl_sizer_def)

lemma sizer_of_orchestrator [simp]: "bl_sizer (bl_orchestrator_update (\<lambda>_. oc) r) = oc_sizer oc"
  by (simp add: bl_sizer_def)

lemma forget_frame [simp]:
  "bl_sizer (bl_forget_mapping sid r) = bl_sizer r" "bl_balance (bl_forget_mapping sid r) = bl_balance r"
  "bl_open_positions (bl_forget_mapping sid r) = bl_open_positions r" "bl_log (bl_forget_mapping sid r) = bl_log r"
  by (simp_all add: bl_forget_mapping_def)

lemma record_frame [simp]:
  "bl_sizer (bl_record f r) = bl_sizer r" "bl_balance (bl_record f r) = bl_balance r"
  "bl_open_positions (bl_record f r) = bl_open_positions r"
  by (simp_all add: bl_record_def)

lemma queue_frame [simp]:
  "bl_sizer (bl_queue_signal sid r) = bl_sizer r" "bl_balance (bl_queue_signal sid r) = bl_balance r"
  "bl_open_positions (bl_queue_signal sid r) = bl_open_positions r"
  by (simp_all add: bl_queue_signal_def)

lemma update_balance_frame [simp]:
  "bl_sizer (bl_update_balance b r) = sz_update_balance b (bl_sizer r)"
  "bl_balance (bl_update_balance b r) = bl_balance r" "bl_open_positions (bl_update_balance b r) = bl_open_positions r"
  by (simp_all add: bl_update_balance_def bl_sizer_def oc_update_balance_def)

lemma edge_close_frame [simp]:
  "bl_sizer (bl_edge_close env i pnl pos r) = bl_sizer r" "bl_balance (bl_edge_close env i pnl pos r) = bl_balance r"
  "bl_open_positions (bl_edge_close env i pnl pos r) = bl_open_positions r"
  by (auto simp: bl_edge_close_def Let_def split: option.split)

lemma save_frame [simp]:
  "bl_sizer (state_of (bl_save env r)) = bl_sizer r" "bl_balance (state_of (bl_save env r)) = bl_balance r"
  "bl_open_positions (state_of (bl_save env r)) = bl_open_positions r"
  by (auto simp: bl_save_def split: outcome.split)

lemma count_order_frame [simp]:
  "bl_sizer (bl_count_order env ord r) = bl_sizer r" "bl_balance (bl_count_order env ord r) = bl_balance r"
  "bl_open_positions (bl_count_order env ord r) = bl_open_positions r"
  by (simp_all add: bl_count_order_def Let_def)

lemma mapping_frame [simp]:
  "bl_sizer (bl_bind_mapping pid sid r) = bl_sizer r" "bl_balance (bl_bind_mapping pid sid r) = bl_balance r"
  "bl_open_positions (bl_bind_mapping pid sid r) = bl_open_positions r"
  "bl_sizer (bl_mirror_position env pid sid r) = bl_sizer r" "bl_balance (bl_mirror_position env pid sid r) = bl_balance r"
  "bl_open_positions (bl_mirror_position env pid sid r) = bl_open_positions r"
  by (auto simp: bl_bind_mapping_def bl_mirror_position_def Let_def split: option.split)

lemma register_mapping_frame [simp]:
  "bl_sizer (bl_register_position_mapping env pid sid paper r) = bl_sizer r"
  "bl_balance (bl_register_position_mapping env pid sid paper r) = bl_balance r"
  "bl_open_positions (bl_register_position_mapping env pid sid paper r) = bl_open_positions r"
  by (auto simp: bl_register_position_mapping_def Let_def split: option.split)

lemma regime_frame [simp]:
  "bl_sizer (bl_update_regime bars r) = bl_sizer r" "bl_balance (bl_update_regime bars r) = bl_balance r"
  "bl_open_positions (bl_update_regime bars r) = bl_open_positions r"
  by (simp_all add: bl_update_regime_def Let_def)

lemma daily_check_frame [simp]:
  "bl_balance (bl_check_daily_reset env ts r) = bl_balance r"
  "bl_open_positions (bl_check_daily_reset env ts r) = bl_open_positions r"
  by (auto simp: bl_check_daily_reset_def Let_def split: option.split)

lemma daily_check_sizer:
  "bl_sizer (bl_check_daily_reset env ts r) \<in> {bl_sizer r, sz_reset_daily (bl_sizer r)}"
  by (auto simp: bl_check_daily_reset_def Let_def split: option.split)

section \<open>Runs\<close>

datatype blend_event =
    BSignal string strategy_output
  | BCancel string
  | BFill string flt
  | BClose string flt
  | BMap string string
  | BDaily "instant option"
  | BBars "(flt \<times> flt) list"

fun bl_step :: "blend_runner \<Rightarrow> blend_env \<times> blend_event \<Rightarrow> blend_runner" where
  "bl_step r (env, BSignal sid out) = state_of (bl_on_signal env sid out r)"
| "bl_step r (env, BCancel sid) = bl_cancel_risk sid r"
| "bl_step r (env, BFill sid pnl) = state_of (bl_on_fill env sid pnl r)"
| "bl_step r (env, BClose pid pnl) = state_of (bl_close_position env pid pnl r)"
| "bl_step r (env, BMap pid sid) = bl_register_position_mapping env pid sid None r"
| "bl_step r (env, BDaily now) = bl_daily_reset env now r"
| "bl_step r (env, BBars bars) = bl_update_regime bars r"

text \<open>The sizer a signal is registered in: that of the runner up to its breaker and daily counters.\<close>

definition sizer_like :: "sizer \<Rightarrow> sizer \<Rightarrow> bool" where
  "sizer_like s t \<longleftrightarrow> sz_open_positions s = sz_open_positions t \<and> sz_position_symbols s = sz_position_symbols t \<and>
     sz_account_balance s = sz_account_balance t \<and> sz_max_total_open_risk s = sz_max_total_open_risk t \<and>
     sz_risk_per_trade_pct s = sz_risk_per_trade_pct t"

lemma sizer_like_refl [simp]: "sizer_like s s"
  by (simp add: sizer_like_def)

lemma sizer_like_trans: "sizer_like s t \<Longrightarrow> sizer_like t u \<Longrightarrow> sizer_like s u"
  by (simp add: sizer_like_def)

lemma sizer_like_reset [simp]: "sizer_like (sz_reset_daily s) s"
  by (simp add: sizer_like_def sz_reset_daily_def)

lemma sizer_like_breaker [simp]: "sizer_like (s\<lparr>sz_breaker := b\<rparr>) s"
  by (simp add: sizer_like_def)

text \<open>
  A signal either leaves the books alone, or is accepted: then it is tracked under its id with its
  adjusted risk, and the sizer, whose state is otherwise that before the signal, registers it.
\<close>

lemma on_signal_cases:
  obtains (quiet) "sizer_like (bl_sizer (state_of (bl_on_signal env sid out r))) (bl_sizer r)"
      "bl_open_positions (state_of (bl_on_signal env sid out r)) = bl_open_positions r"
      "\<And>ord r'. bl_on_signal env sid out r = Ret ord r' \<Longrightarrow> oo_rejected ord"
  | (accept) s sz ord0 ord r1 where "adapt_signal (be_now env) sid out = Inr s" "sizer_like sz (bl_sizer r)"
      "bl_sizer r1 = sz" "bl_edge r1 = bl_edge r" "bl_current_regime r1 = bl_current_regime r" "bl_regime_thresholds r1 = bl_regime_thresholds r"
      "bl_open_positions r1 = bl_open_positions r"
      "\<exists>z szb. sz_calculate (be_now env) (og_symbol s) (og_entry_price s) (og_stop_loss s) (profile_value (oo_profile ord0)) szb
          = Ret z sz \<and> \<not> ps_blocked z \<and> oo_risk_amount ord0 = ps_risk_amount z"
      "ord = adjusted_order r1 sid ord0" "oo_signal ord0 = s" "\<not> oo_rejected ord0"
      "bl_on_signal env sid out r = bl_accept env sid s ord0 r1"
proof -
  define r0 where "r0 = r\<lparr>bl_heartbeat := hb_record_signal_generated (bl_heartbeat r)\<rparr>"
  show thesis
  proof (cases "adapt_signal (be_now env) sid out")
    case (Inl e)
    then show thesis by (intro quiet) (simp_all add: bl_on_signal_def Let_def)
  next
    case (Inr s)
    define r1 where "r1 = bl_check_daily_reset env (og_timestamp s) r0"
    have like1: "sizer_like (bl_sizer r1) (bl_sizer r)"
      using daily_check_sizer [of env "og_timestamp s" r0] by (auto simp: r1_def r0_def)
    obtain b where b: "oc_sizer (state_of (oc_process_signal (be_now env) s (bl_orchestrator r1))) = (bl_sizer r1)\<lparr>sz_breaker := b\<rparr>"
      using process_sizer [of "be_now env" s "bl_orchestrator r1"] by (auto simp: bl_sizer_def)
    then have like2: "sizer_like (oc_sizer (state_of (oc_process_signal (be_now env) s (bl_orchestrator r1)))) (bl_sizer r)"
      using sizer_like_trans [OF sizer_like_breaker like1] by simp
    show thesis
    proof (cases "oc_process_signal (be_now env) s (bl_orchestrator r1)")
      case (Exc e oc)
      then show thesis using like2 Inr
        by (intro quiet) (simp_all add: bl_on_signal_def Let_def r0_def [symmetric] r1_def [symmetric], simp_all add: r1_def r0_def)
    next
      case (Ret ord0 oc)
      define r2 where "r2 = bl_count_order env ord0 (r1\<lparr>bl_orchestrator := oc\<rparr>)"
      show thesis
      proof (cases "oo_rejected ord0")
        case True
        then show thesis using like2 Inr Ret
          by (intro quiet) (simp_all add: bl_on_signal_def Let_def r0_def [symmetric] r1_def [symmetric], simp_all add: r1_def r0_def)
      next
        case False
        obtain z where z: "sz_calculate (be_now env) (og_symbol s) (og_entry_price s) (og_stop_loss s) (profile_value (oo_profile ord0))
            (oc_sizer (bl_orchestrator r1)) = Ret z (oc_sizer oc)" "\<not> ps_blocked z" "oo_risk_amount ord0 = ps_risk_amount z" "oo_signal ord0 = s"
          using process_accepts [OF Ret False] by blast
        show thesis
        proof (rule accept [of s "oc_sizer oc" r2 ord0])
          show "bl_on_signal env sid out r = bl_accept env sid s ord0 r2"
            using Inr Ret False by (simp add: bl_on_signal_def Let_def r0_def [symmetric] r1_def [symmetric] r2_def [symmetric])
        qed (use Inr Ret like2 False z in \<open>auto simp: r2_def bl_count_order_def r1_def r0_def Let_def bl_check_daily_reset_def split: option.splits\<close>)
      qed
    qed
  qed
qed

lemma adjusted_signal [simp]: "oo_signal (adjusted_order r sid ord) = oo_signal ord"
  "oo_rejected (adjusted_order r sid ord) = oo_rejected ord"
  by (simp_all add: adjusted_order_def Let_def)

lemma accept_state:
  "bl_sizer (state_of (bl_accept env sid s ord0 r)) =
     state_of (sz_register (make_signal_id s) (oo_risk_amount (adjusted_order r sid ord0)) [] (bl_sizer r))"
  "bl_open_positions (state_of (bl_accept env sid s ord0 r)) =
     AList.update (make_signal_id s)
       \<lparr>bt_order = adjusted_order r sid ord0, bt_risk_amount = oo_risk_amount (adjusted_order r sid ord0)\<rparr> (bl_open_positions r)"
  "bl_balance (state_of (bl_accept env sid s ord0 r)) = bl_balance r"
  by (auto simp: bl_accept_def Let_def split: outcome.split)

lemma on_signal_balance [simp]: "bl_balance (state_of (bl_on_signal env sid out r)) = bl_balance r"
  by (auto simp: bl_on_signal_def accept_state Let_def split: sum.split outcome.split)

lemma register_parts:
  "sz_position_symbols (state_of (sz_register sid risk [] sz)) = sz_position_symbols sz"
  "sz_account_balance (state_of (sz_register sid risk [] sz)) = sz_account_balance sz"
  by (simp_all add: sz_register_def)

lemma signal_sizer_parts:
  "sz_position_symbols (bl_sizer (state_of (bl_on_signal env sid out r))) = sz_position_symbols (bl_sizer r)"
  "sz_account_balance (bl_sizer (state_of (bl_on_signal env sid out r))) = sz_account_balance (bl_sizer r)"
  by (cases rule: on_signal_cases [of env sid out r]; simp add: accept_state register_parts sizer_like_def)+

lemma update_balance_parts [simp]:
  "sz_open_positions (sz_update_balance b sz) = sz_open_positions sz"
  "sz_position_symbols (sz_update_balance b sz) = sz_position_symbols sz"
  "sz_account_balance (sz_update_balance b sz) = b"
  by (simp_all add: sz_update_balance_def Let_def)

lemma close_parts:
  assumes "sz_close sid pnl sz = Ret u sz'"
  shows "sz_open_positions sz' = AList.delete sid (sz_open_positions sz)"
    "sz_position_symbols sz' = AList.delete sid (sz_position_symbols sz)"
    "sz_account_balance sz' = sz_account_balance sz + pnl"
  using assms by (auto simp: sz_close_def Let_def split: if_splits)

text \<open>A fill of a signal the sizer knows is booked; of another it changes nothing but the order of the tracked ones.\<close>

definition fill_known :: "string \<Rightarrow> blend_runner \<Rightarrow> bool" where
  "fill_known raw r \<longleftrightarrow> map_of (sz_open_positions (bl_sizer r)) (bl_resolve_registered raw r) \<noteq> None"

lemma fill_booked:
  assumes "fill_known raw r"
  shows "sz_open_positions (bl_sizer (state_of (bl_on_fill env raw pnl r))) =
      AList.delete (bl_resolve_registered raw r) (sz_open_positions (bl_sizer r))"
    "sz_position_symbols (bl_sizer (state_of (bl_on_fill env raw pnl r))) =
      AList.delete (bl_resolve_registered raw r) (sz_position_symbols (bl_sizer r))"
    "sz_account_balance (bl_sizer (state_of (bl_on_fill env raw pnl r))) = sz_account_balance (bl_sizer r) + pnl"
    "bl_balance (state_of (bl_on_fill env raw pnl r)) = sz_account_balance (bl_sizer r) + pnl"
    "bl_open_positions (state_of (bl_on_fill env raw pnl r)) = AList.delete (bl_resolve_registered raw r) (bl_open_positions r)"
proof -
  obtain sz' where close: "sz_close (bl_resolve_registered raw r) pnl (bl_sizer r) = Ret () sz'"
    using assms by (auto simp: fill_known_def sz_close_def Let_def)
  note parts = close_parts [OF close]
  show "sz_open_positions (bl_sizer (state_of (bl_on_fill env raw pnl r))) =
      AList.delete (bl_resolve_registered raw r) (sz_open_positions (bl_sizer r))"
    "sz_position_symbols (bl_sizer (state_of (bl_on_fill env raw pnl r))) =
      AList.delete (bl_resolve_registered raw r) (sz_position_symbols (bl_sizer r))"
    "sz_account_balance (bl_sizer (state_of (bl_on_fill env raw pnl r))) = sz_account_balance (bl_sizer r) + pnl"
    "bl_balance (state_of (bl_on_fill env raw pnl r)) = sz_account_balance (bl_sizer r) + pnl"
    "bl_open_positions (state_of (bl_on_fill env raw pnl r)) = AList.delete (bl_resolve_registered raw r) (bl_open_positions r)"
    by (simp_all add: bl_on_fill_def close parts Let_def)
qed

lemma update_after_delete: "map_of d k = Some t \<Longrightarrow> map_of (AList.update k t (AList.delete k d)) = map_of d"
  by (rule ext) (simp add: update_conv' delete_conv')

lemma fill_unknown:
  assumes "\<not> fill_known raw r"
  shows "\<exists>r'. bl_on_fill env raw pnl r = Ret () r' \<and> bl_sizer r' = bl_sizer r \<and> bl_balance r' = bl_balance r \<and>
    map_of (bl_open_positions r') = map_of (bl_open_positions r) \<and> bl_log r' = bl_log r \<and>
    bl_pos_to_sig r' = bl_pos_to_sig r"
proof -
  have "sz_close (bl_resolve_registered raw r) pnl (bl_sizer r) = Exc KeyError (bl_sizer r)"
    using assms by (simp add: fill_known_def sz_close_def)
  then show ?thesis
    by (auto simp: bl_on_fill_def Let_def update_after_delete delete_conv' split: option.split)
qed

section \<open>The balance\<close>

text \<open>What a step books: the result of a fill whose signal the sizer knows.\<close>

fun booked :: "blend_runner \<Rightarrow> blend_env \<times> blend_event \<Rightarrow> flt" where
  "booked r (env, BFill sid pnl) = (if fill_known sid r then pnl else 0)"
| "booked r (env, BClose pid pnl) =
     (let r1 = r\<lparr>bl_pos_to_sig := AList.delete pid (bl_pos_to_sig r)\<rparr>
      in if fill_known (bl_resolve_registered (dget_or (bl_pos_to_sig r) pid pid) r1) r1 then pnl else 0)"
| "booked r _ = 0"

fun booked_run :: "blend_runner \<Rightarrow> (blend_env \<times> blend_event) list \<Rightarrow> flt" where
  "booked_run r [] = 0"
| "booked_run r (e # es) = booked r e + booked_run (bl_step r e) es"

definition balance_synced :: "blend_runner \<Rightarrow> bool" where
  "balance_synced r \<longleftrightarrow> bl_balance r = sz_account_balance (bl_sizer r)"

lemma fill_balance:
  assumes "balance_synced r"
  shows "balance_synced (state_of (bl_on_fill env raw pnl r)) \<and>
    bl_balance (state_of (bl_on_fill env raw pnl r)) = bl_balance r + (if fill_known raw r then pnl else 0)"
proof (cases "fill_known raw r")
  case True
  then show ?thesis using fill_booked [OF True] assms by (simp add: balance_synced_def)
next
  case False
  then obtain r' where "bl_on_fill env raw pnl r = Ret () r'" "bl_sizer r' = bl_sizer r" "bl_balance r' = bl_balance r"
    using fill_unknown [OF False] by blast
  with False assms show ?thesis by (simp add: balance_synced_def)
qed

lemma cancel_risk_sizer: "bl_sizer (bl_cancel_risk sid r) = sz_cancel (bl_resolve_registered sid r) (bl_sizer r)"
  "bl_balance (bl_cancel_risk sid r) = bl_balance r" "bl_open_positions (bl_cancel_risk sid r) = bl_open_positions r"
  by (simp_all add: bl_cancel_risk_def Let_def)

lemma step_balance:
  assumes "balance_synced r"
  shows "balance_synced (bl_step r e) \<and> bl_balance (bl_step r e) = bl_balance r + booked r e"
proof -
  obtain env ev where e: "e = (env, ev)" by (cases e)
  show ?thesis
  proof (cases ev)
    case (BFill sid pnl)
    then show ?thesis using fill_balance [OF assms] by (simp add: e)
  next
    case (BClose pid pnl)
    define r1 where "r1 = r\<lparr>bl_pos_to_sig := AList.delete pid (bl_pos_to_sig r)\<rparr>"
    have "balance_synced r1" "bl_balance r1 = bl_balance r" using assms by (simp_all add: r1_def balance_synced_def)
    then show ?thesis
      using fill_balance [of r1 env "bl_resolve_registered (dget_or (bl_pos_to_sig r) pid pid) r1" pnl] BClose
      by (simp add: e bl_close_position_def r1_def [symmetric] Let_def)
  next
    case (BSignal sid out)
    then show ?thesis using assms by (simp add: e balance_synced_def signal_sizer_parts)
  next
    case (BCancel sid)
    then show ?thesis using assms by (simp add: e balance_synced_def cancel_risk_sizer sz_cancel_def)
  next
    case (BDaily now)
    then show ?thesis using assms by (simp add: e balance_synced_def bl_daily_reset_def sz_reset_daily_def)
  qed (use assms in \<open>simp_all add: e balance_synced_def\<close>)
qed

lemma init_sizer: "bl_sizer (bl_init c rows lg hb file) = sizer_init (bc_account_balance c) (bc_risk_per_trade_pct c) (bc_daily_risk_cap_pct c)"
  "bl_balance (bl_init c rows lg hb file) = bc_account_balance c"
  by (simp_all add: bl_init_def bl_sizer_def oc_init_def Let_def)


section \<open>The limit per symbol\<close>

lemma step_symbols:
  assumes "sz_position_symbols (bl_sizer r) = []"
  shows "sz_position_symbols (bl_sizer (bl_step r e)) = []"
proof -
  obtain env ev where e: "e = (env, ev)" by (cases e)
  have fill: "sz_position_symbols (bl_sizer (state_of (bl_on_fill env raw pnl r'))) = []"
    if "sz_position_symbols (bl_sizer r') = []" for raw pnl r'
  proof (cases "fill_known raw r'")
    case True
    then show ?thesis using fill_booked(2) [OF True] that by simp
  next
    case False
    then show ?thesis using fill_unknown [OF False, of env pnl] that by auto
  qed
  show ?thesis
  proof (cases ev)
    case (BClose pid pnl)
    then show ?thesis using fill [of "r\<lparr>bl_pos_to_sig := AList.delete pid (bl_pos_to_sig r)\<rparr>"] assms
      by (simp add: e bl_close_position_def Let_def)
  qed (use assms fill in \<open>simp_all add: e signal_sizer_parts cancel_risk_sizer sz_cancel_def bl_daily_reset_def sz_reset_daily_def\<close>)
qed

interpretation symbols: invariant_machine bl_step "\<lambda>_. True" "\<lambda>r. sz_position_symbols (bl_sizer r) = []"
  by unfold_locales (rule step_symbols)

text \<open>
  The limit per symbol never counts a position of this runner: it registers the risk of a signal
  without its symbol, so over every run each symbol has a count of zero, whatever is open on it.
\<close>

theorem blend_symbol_limit_dead:
  "sz_count_for_symbol symbol (bl_sizer (foldl bl_step (bl_init c rows lg hb file) es)) = 0"
proof -
  have "sz_position_symbols (bl_sizer (foldl bl_step (bl_init c rows lg hb file) es)) = []"
    by (rule symbols.run_inv) (simp_all add: init_sizer sizer_init_def list_all_iff)
  then show ?thesis by (simp add: sz_count_for_symbol_def)
qed

section \<open>The reserved risk\<close>

lemma multiplier_range: "ed_get_risk_multiplier sid symbol ed \<in> {6/10, 1, 3/2}"
  by (auto simp: ed_get_risk_multiplier_def split: option.split)

lemma exposure_range: "exposure_multiplier g \<in> {1/2, 1}"
  by (cases g) simp_all

lemma adjusted_risk:
  assumes "ra_exposure_multipliers (bl_regime_thresholds r) = exposure_multiplier"
  shows "\<exists>m. oo_risk_amount (adjusted_order r sid ord) = oo_risk_amount ord * m \<and> 3/10 \<le> m \<and> m \<le> 3/2"
proof -
  define x where "x = exposure_multiplier (bl_current_regime r)"
  define y where "y = ed_get_risk_multiplier sid (og_symbol (oo_signal ord)) (bl_edge r)"
  define m where "m = (if x * y < 1 then x * y else if y > 1 then y else 1)"
  have "x = 1/2 \<or> x = 1" "y = 6/10 \<or> y = 1 \<or> y = 3/2"
    using exposure_range [of "bl_current_regime r"] multiplier_range [of sid "og_symbol (oo_signal ord)" "bl_edge r"]
    unfolding x_def y_def by blast+
  then have "3/10 \<le> m \<and> m \<le> 3/2" by (elim disjE) (simp_all only: m_def, simp_all)
  moreover have "oo_risk_amount (adjusted_order r sid ord) = oo_risk_amount ord * m"
    using assms by (simp add: adjusted_order_def ra_get_exposure_multiplier_def m_def x_def y_def Let_def)
  ultimately show ?thesis by blast
qed

text \<open>
  An accepted signal reserves its final risk under its own id, once, and tracks the same amount: the
  open risk grows by exactly that amount, which is positive, at most one and a half times the
  per-trade risk, and leaves the open risk at most half a per-trade risk above the total limit.
\<close>

theorem blend_accepted_reserves:
  assumes "bl_on_signal env sid out r = Ret ord r'" and "\<not> oo_rejected ord"
    and "ra_exposure_multipliers (bl_regime_thresholds r) = exposure_multiplier"
  shows "let signal_id = make_signal_id (oo_signal ord) in
     map_of (sz_open_positions (bl_sizer r)) signal_id = None \<and>
     map_of (sz_open_positions (bl_sizer r')) signal_id = Some (oo_risk_amount ord) \<and>
     map_of (bl_open_positions r') signal_id = Some \<lparr>bt_order = ord, bt_risk_amount = oo_risk_amount ord\<rparr> \<and>
     sz_open_risk (bl_sizer r') = sz_open_risk (bl_sizer r) + oo_risk_amount ord \<and>
     0 < oo_risk_amount ord \<and> oo_risk_amount ord \<le> 3/2 * sz_risk_per_trade (bl_sizer r) \<and>
     sz_open_risk (bl_sizer r') \<le> sz_max_total_open_risk (bl_sizer r) + 1/2 * sz_risk_per_trade (bl_sizer r)"
proof (cases rule: on_signal_cases [of env sid out r])
  case quiet
  with assms show ?thesis by blast
next
  case (accept s sz ord0 ord' r1)
  obtain z szb where z: "sz_calculate (be_now env) (og_symbol s) (og_entry_price s) (og_stop_loss s) (profile_value (oo_profile ord0)) szb
      = Ret z sz" "\<not> ps_blocked z" "oo_risk_amount ord0 = ps_risk_amount z"
    using accept(8) by blast
  note acc = calculate_accepts(1) [OF z(1,2)]
  have like: "sz_open_positions sz = sz_open_positions (bl_sizer r)" "sz_open_risk sz = sz_open_risk (bl_sizer r)"
    "sz_risk_per_trade sz = sz_risk_per_trade (bl_sizer r)" "sz_max_total_open_risk sz = sz_max_total_open_risk (bl_sizer r)"
    using accept(2) by (simp_all add: sizer_like_def sz_open_risk_def sz_risk_per_trade_def)
  define base where "base = sz_risk_per_trade (bl_sizer r)"
  have base0: "0 < oo_risk_amount ord0" "oo_risk_amount ord0 \<le> base" "sz_open_risk (bl_sizer r) + oo_risk_amount ord0 \<le> sz_max_total_open_risk (bl_sizer r)"
    using acc like z(3) by (auto simp: accepted_size_def trade_base_def base_def split: if_splits)
  obtain m where m: "oo_risk_amount ord' = oo_risk_amount ord0 * m" "3/10 \<le> m" "m \<le> 3/2"
    using adjusted_risk [of r1 sid ord0] assms(3) accept(6,9) by auto
  have run: "bl_accept env sid s ord0 r1 = Ret ord r'" using assms(1) accept(12) by simp
  then have free: "map_of (sz_open_positions (bl_sizer r)) (make_signal_id s) = None" and ord: "ord = ord'"
    using accept(3,9) like(1) by (auto simp: bl_accept_def sz_register_def bl_record_def Let_def split: outcome.splits if_splits)
  note st = accept_state [of env sid s ord0 r1, unfolded run state_of.simps]
  have sizer: "bl_sizer r' = state_of (sz_register (make_signal_id s) (oo_risk_amount ord) [] sz)"
    using st(1) accept(3,9) ord by simp
  have risk: "0 < oo_risk_amount ord" "oo_risk_amount ord \<le> oo_risk_amount ord0 * (3/2)"
    using m base0(1) by (auto simp: ord intro!: mult_left_mono)
  have open_risk: "sz_open_risk (bl_sizer r') = sz_open_risk (bl_sizer r) + oo_risk_amount ord"
    using free by (simp add: sizer sz_register_def like sz_open_risk_def sum_update_fresh)
  have sig: "oo_signal ord = s" using accept(9,10) ord by simp
  show ?thesis
    unfolding Let_def sig open_risk base_def [symmetric]
    using free risk base0 st(2) accept(9) ord
    by (auto simp: sizer sz_register_def like update_conv' base_def [symmetric])
qed

section \<open>Fills after a reconciliation\<close>

text \<open>
  C34. A reconciliation orphans the live signals: it renames the broker's positions to seeded keys, so a
  fill of a signal that was open before is not booked: it returns, and leaves the balance, the sizer,
  the log and the tracked position as they are.
\<close>

theorem blend_fill_after_reconcile_lost:
  assumes "map_of (bl_open_positions r) sid = Some t" and "\<not> prefix ''seeded_'' sid"
  shows "\<exists>r''. bl_on_fill env sid pnl (snd (bl_reconcile_with_broker env0 ps r)) = Ret () r'' \<and>
     bl_balance r'' = bl_balance r \<and> bl_sizer r'' = bl_sizer (snd (bl_reconcile_with_broker env0 ps r)) \<and>
     bl_log r'' = bl_log r \<and> map_of (bl_open_positions r'') sid = Some t"
proof -
  define r' where "r' = snd (bl_reconcile_with_broker env0 ps r)"
  obtain res sz where rec: "sz_reconcile_with_broker (be_now env0) ps (bl_sizer r) = (res, sz)"
    by (cases "sz_reconcile_with_broker (be_now env0) ps (bl_sizer r)")
  obtain missing' sz1 where "sz_open_positions sz = seeded_entries (first_by_id [] ps)"
    using seed_loop [of "(bl_sizer r)\<lparr>sz_open_positions := [], sz_position_symbols := []\<rparr>" "[]" "[]" 0 0 ps "[]"] rec
    by (auto simp: sz_reconcile_with_broker_def seeded_entries_def Let_def)
  moreover have "bl_sizer r' = sz_update_balance (sz_account_balance sz) sz" by (simp add: r'_def bl_reconcile_with_broker_def rec)
  ultimately have positions: "sz_open_positions (bl_sizer r') = seeded_entries (first_by_id [] ps)" by simp
  have live: "seeded_key i \<noteq> sid" for i using assms(2) by (auto simp: seeded_key_def)
  have unknown: "map_of (sz_open_positions (bl_sizer r')) sid = None"
    by (auto simp: positions map_of_eq_None_iff seeded_entries_def live [symmetric])
  have same: "bl_open_positions r' = bl_open_positions r" "bl_balance r' = bl_balance r" "bl_log r' = bl_log r"
    by (simp_all add: r'_def bl_reconcile_with_broker_def rec bl_update_balance_def Let_def)
  then have "bl_resolve_registered sid r' = sid" using assms(1) by (simp add: bl_resolve_registered_def)
  then have "\<not> fill_known sid r'" using unknown by (simp add: fill_known_def)
  from fill_unknown [OF this, of env pnl] show ?thesis
    using same assms(1) unfolding r'_def [symmetric] by auto
qed

text \<open>
  A close that fails cannot be retried: \<open>close_position\<close> drops the mapping of the position before the
  fill is booked, so when the sizer does not know the signal, nothing is booked and the position is no
  longer mapped to its signal, which stays tracked.
\<close>

theorem blend_failed_close_unmaps:
  assumes "map_of (bl_pos_to_sig r) pid = Some sid" and "map_of (bl_open_positions r) sid = Some t"
    and "map_of (sz_open_positions (bl_sizer r)) sid = None"
  shows "\<exists>r'. bl_close_position env pid pnl r = Ret () r' \<and> bl_balance r' = bl_balance r \<and> bl_sizer r' = bl_sizer r \<and>
     map_of (bl_pos_to_sig r') pid = None \<and> map_of (bl_open_positions r') sid = Some t"
proof -
  define r1 where "r1 = r\<lparr>bl_pos_to_sig := AList.delete pid (bl_pos_to_sig r)\<rparr>"
  have res: "bl_resolve_registered sid r1 = sid" using assms(2) by (simp add: bl_resolve_registered_def r1_def)
  have "\<not> fill_known sid r1" using assms(3) by (simp add: fill_known_def res) (simp add: r1_def)
  from fill_unknown [OF this, of env pnl] obtain r' where
    "bl_on_fill env sid pnl r1 = Ret () r'" "bl_sizer r' = bl_sizer r1" "bl_balance r' = bl_balance r1"
    "map_of (bl_open_positions r') = map_of (bl_open_positions r1)" "bl_pos_to_sig r' = bl_pos_to_sig r1" by blast
  then show ?thesis
    using assms by (simp add: bl_close_position_def dget_or_def r1_def [symmetric] res Let_def)
      (simp add: r1_def delete_conv')
qed

text \<open>
  A signal id carries its time: the part after the last underscore reads back, as the code's alias
  resolution reads it, to the exact time stamp in seconds, whatever underscores the strategy's name has.
\<close>

theorem signal_id_time_roundtrip:
  "py_float (rsplit_last (make_signal_id s)) = Some (of_int (og_timestamp s) / 1000000)"
proof -
  define n where "n = nat \<bar>og_timestamp s\<bar>"
  let ?sign = "if og_timestamp s < 0 then ''-'' else []"
  let ?ts = "?sign @ py_str_nat (n div 1000000) @ ''.'' @ frac_digits (n mod 1000000)"
  have lt: "n mod 1000000 < 1000000" by simp
  note frac = frac_digits_value [OF lt]
  have ts: "make_signal_id s = og_strategy_id s @ CHR ''_'' # ?ts"
    by (simp add: make_signal_id_def py_timestamp_str_def n_def Let_def)
  have "CHR ''_'' \<notin> set ?ts" using digit_chars [OF all_digits_str] digit_chars [OF frac(1)] by auto
  then have "rsplit_last (make_signal_id s) = ?ts"
    using takeWhile_upto [of "CHR ''_''" "rev ?ts" "rev (og_strategy_id s)"] by (simp only: ts rsplit_last_def rev_append rev.simps append.assoc) simp
  moreover have "py_str_nat (n div 1000000) \<noteq> []" by (subst py_str_nat.simps) simp
  ultimately have "py_float (rsplit_last (make_signal_id s)) =
      Some ((if og_timestamp s < 0 then -1 else 1) * (of_nat (n div 1000000) + of_nat (n mod 1000000) / 1000000))"
    using py_float_decimal [OF all_digits_str _ frac(1), of "n div 1000000" "og_timestamp s < 0"] frac(3) by simp
  moreover have "(of_nat (n div 1000000) + of_nat (n mod 1000000) / 1000000 :: flt) = of_nat n / 1000000"
  proof -
    have "(of_nat n :: flt) = of_nat (n div 1000000) * 1000000 + of_nat (n mod 1000000)"
      by (metis div_mult_mod_eq of_nat_add of_nat_mult of_nat_numeral)
    then show ?thesis by (simp add: field_simps)
  qed
  moreover have "(if og_timestamp s < 0 then -1 else 1) * (of_nat n / 1000000 :: flt) = of_int (og_timestamp s) / 1000000"
    by (auto simp: n_def)
  ultimately show ?thesis by simp
qed

section \<open>Concrete runs\<close>

definition demo_blend_env :: blend_env where
  "demo_blend_env =
     \<lparr>be_now = 0, be_tz = (\<lambda>_. 0), be_stats = demo_stats_env, be_edge_ok = True, be_save_ok = True\<rparr>"

definition demo_output :: strategy_output where
  "demo_output =
     \<lparr>so_symbol = Some ''EURUSD'', so_direction = Some ''long'', so_entry_price = Some (11/10), so_stop_loss = Some (219/200),
      so_take_profit = None, so_confidence = Some (8/10), so_confluence_strategies = None, so_confluence_timeframes = None,
      so_spread = Some 1, so_atr = None, so_timestamp = Some 0\<rparr>"

definition winning_trade :: edge_trade where
  "winning_trade =
     \<lparr>et_strategy_id = ''ttc'', et_symbol = ''EURUSD'', et_risk_amount = 10, et_pnl = 10, et_r_multiple = 1,
      et_timestamp = [], et_signal_id = None\<rparr>"

text \<open>A runner with a strategy of high edge, and 100 of open risk on two other signals.\<close>

definition edge_runner :: blend_runner where
  "edge_runner =
     bl_set_sizer (state_of (sz_register ''b'' 50 [] (state_of (sz_register ''a'' 50 [] (sizer_init 10000 (1/200) (3/100))))))
       (bl_init \<lparr>bc_account_balance = 10000, bc_risk_per_trade_pct = 1/200, bc_daily_risk_cap_pct = 3/100,
                 bc_max_sniper = 3, bc_max_swarm = 5, bc_spread_pips = []\<rparr>
          (replicate 5 winning_trade) [] (hb_init 0 []) FileMissing)"

definition edge_signal :: orch_signal where
  "edge_signal =
     \<lparr>og_strategy_id = ''ttc'', og_symbol = ''EURUSD'', og_direction = ''LONG'', og_entry_price = 11/10, og_stop_loss = 219/200,
      og_take_profit = 0, og_confidence = 8/10, og_timestamp = 0,
      og_metadata = \<lparr>md_spread = Some 1, md_atr = None, md_confluences = None, md_confluence_strategies = None,
                     md_confluence_timeframes = None, md_rationale = None\<rparr>\<rparr>"

definition edge_sizer :: sizer where
  "edge_sizer = (sizer_init 10000 (1/200) (3/100))\<lparr>sz_open_positions := [(''a'', 50), (''b'', 50)]\<rparr>"

definition edge_order :: orch_order where
  "edge_order =
     \<lparr>oo_signal = edge_signal, oo_profile = SNIPER, oo_confidence_final = 8/10, oo_lots = 1/10, oo_risk_amount = 50,
      oo_sl_distance_pips = 50, oo_gates_passed = [''spread'', ''session'', ''volatility''], oo_rejected = False,
      oo_rejection_reason = []\<rparr>"

lemma edge_adapted: "adapt_signal 0 ''ttc'' demo_output = Inr edge_signal"
  by (simp add: adapt_signal_def demo_output_def edge_signal_def py_upper_def py_upper_char_def Let_def)

lemma edge_runner_parts:
  "bl_sizer edge_runner = edge_sizer" "bl_current_day edge_runner = None" "bl_current_regime edge_runner = STABLE"
  "bl_regime_thresholds edge_runner = ra_init" "bl_edge edge_runner = ed_load (replicate 5 winning_trade)"
  "oc_engine (bl_orchestrator edge_runner) = ce_init (Some (gate_config_default\<lparr>default_max_spread := 2, symbol_max_spreads := []\<rparr>)) None"
  "oc_router (bl_orchestrator edge_runner) = pr_init (7/10) (4/10) 3 5"
  by (simp_all add: edge_runner_def bl_init_def bl_set_sizer_def bl_sizer_def oc_init_def edge_sizer_def sz_register_def sizer_init_def Let_def)

lemma edge_score:
  "ce_score 0 (8/10) (signal_score_args edge_signal)
     (ce_init (Some (gate_config_default\<lparr>default_max_spread := 2, symbol_max_spreads := []\<rparr>)) None) =
   \<lparr>cf_final_score = 8/10, cf_strategy_score = 8/10, cf_confluence_boost = 0,
    cf_gates_passed = [''spread'', ''session'', ''volatility''], cf_gates_failed = [], cf_blocked = False, cf_block_reason = []\<rparr>"
  by (simp add: ce_score_def ce_init_def edge_signal_def signal_score_args_def gate_context_def spread_gate_check_def
      session_gate_check_def session_in_range_def volatility_gate_check_def gate_config_default_def
      calc_confluence_boost_def detector_boost_def Let_def)

lemma edge_size:
  "sz_calculate 0 ''EURUSD'' (11/10) (219/200) ''sniper'' edge_sizer =
     Ret \<lparr>ps_lots = 1/10, ps_risk_amount = 50, ps_sl_distance_pips = 50, ps_sl_distance_price = 1/200,
          ps_pip_value = 10, ps_warnings = [], ps_blocked = False, ps_block_reason = []\<rparr> edge_sizer"
  by code_simp

lemma edge_processed:
  assumes "oc_engine oc = ce_init (Some (gate_config_default\<lparr>default_max_spread := 2, symbol_max_spreads := []\<rparr>)) None"
    and "oc_router oc = pr_init (7/10) (4/10) 3 5" and "oc_sizer oc = edge_sizer"
  shows "oc_process_signal 0 edge_signal oc = Ret edge_order oc"
proof -
  have fields: "og_confidence edge_signal = 8/10" "og_symbol edge_signal = ''EURUSD''" "og_entry_price edge_signal = 11/10"
    "og_stop_loss edge_signal = 219/200"
    by (simp_all add: edge_signal_def)
  have route: "pr_route (8/10) (pr_init (7/10) (4/10) 3 5) = Inr (Some SNIPER)" by (simp add: pr_route_def pr_init_def)
  have same: "oc\<lparr>oc_sizer := edge_sizer\<rparr> = oc" using assms(3) by (metis orchestrator.surjective orchestrator.update_convs(3) assms(3))
  show ?thesis
    unfolding oc_process_signal_def fields assms edge_score Let_def confidence_result.simps if_False route sum.case option.case
      profile_value.simps edge_size outcome.case same edge_order_def by simp
qed

lemma edge_multiplier: "ed_get_risk_multiplier ''ttc'' ''EURUSD'' (ed_load (replicate 5 winning_trade)) = 3/2"
  by code_simp

theorem blend_accepted_reserves_witness:
  "\<exists>ord r'. bl_on_signal demo_blend_env ''ttc'' demo_output edge_runner = Ret ord r' \<and>
     sz_open_risk (bl_sizer r') = 175 \<and> sz_max_total_open_risk (bl_sizer edge_runner) = 150 \<and>
     oo_risk_amount ord \<le> 3/2 * sz_risk_per_trade (bl_sizer edge_runner)"
proof -
  define r1 where "r1 = bl_check_daily_reset demo_blend_env 0 (edge_runner\<lparr>bl_heartbeat := hb_record_signal_generated (bl_heartbeat edge_runner)\<rparr>)"
  have r1: "bl_orchestrator r1 = bl_orchestrator edge_runner" "bl_edge r1 = bl_edge edge_runner"
    "bl_current_regime r1 = STABLE" "bl_regime_thresholds r1 = ra_init"
    by (simp_all add: r1_def bl_check_daily_reset_def edge_runner_parts Let_def)
  have proc: "oc_process_signal 0 edge_signal (bl_orchestrator r1) = Ret edge_order (bl_orchestrator r1)"
    by (rule edge_processed) (simp_all add: r1 edge_runner_parts flip: bl_sizer_def)
  define r2 where "r2 = bl_count_order demo_blend_env edge_order r1"
  have r2: "bl_sizer r2 = edge_sizer" "bl_edge r2 = ed_load (replicate 5 winning_trade)" "bl_current_regime r2 = STABLE"
    "bl_regime_thresholds r2 = ra_init"
    using r1 edge_runner_parts by (simp_all add: r2_def bl_count_order_def bl_sizer_def Let_def)
  have now: "be_now demo_blend_env = 0" "og_timestamp edge_signal = 0" by (simp_all add: demo_blend_env_def edge_signal_def)
  have run: "bl_on_signal demo_blend_env ''ttc'' demo_output edge_runner = bl_accept demo_blend_env ''ttc'' edge_signal edge_order r2"
    by (simp add: bl_on_signal_def now edge_adapted r1_def [symmetric] proc r2_def edge_order_def Let_def)
  define ord where "ord = adjusted_order r2 ''ttc'' edge_order"
  have risk: "oo_risk_amount ord = 75" "\<not> oo_rejected ord"
    by (simp_all add: ord_def adjusted_order_def r2 edge_order_def edge_signal_def edge_multiplier ra_init_def ra_get_exposure_multiplier_def Let_def)
  have "map_of (sz_open_positions edge_sizer) (make_signal_id edge_signal) = None"
    by (simp add: edge_sizer_def make_signal_id_def edge_signal_def)
  then obtain r' where ret: "bl_on_signal demo_blend_env ''ttc'' demo_output edge_runner = Ret ord r'"
    unfolding run by (simp add: bl_accept_def r2 ord_def [symmetric] sz_register_def Let_def)
  have "ra_exposure_multipliers (bl_regime_thresholds edge_runner) = exposure_multiplier"
    by (simp add: edge_runner_parts ra_init_def)
  from blend_accepted_reserves [OF ret risk(2) this] ret show ?thesis
    by (auto simp: Let_def edge_runner_parts edge_sizer_def sizer_init_def sz_open_risk_def risk(1))
qed

definition live_runner :: blend_runner where
  "live_runner = edge_runner
     \<lparr>bl_open_positions := [(''a'', \<lparr>bt_order = demo_orch_order ''a'' 0, bt_risk_amount = 50\<rparr>)], bl_pos_to_sig := [(''P1'', ''a'')]\<rparr>"

theorem blend_fill_after_reconcile_lost_witness:
  "\<exists>r''. bl_on_fill demo_blend_env ''a'' 25 (snd (bl_reconcile_with_broker demo_blend_env [example_broker_position] live_runner))
     = Ret () r'' \<and> bl_balance r'' = bl_balance live_runner"
proof -
  have "map_of (bl_open_positions live_runner) ''a'' = Some \<lparr>bt_order = demo_orch_order ''a'' 0, bt_risk_amount = 50\<rparr>"
    "\<not> prefix ''seeded_'' ''a''"
    by (simp_all add: live_runner_def)
  from blend_fill_after_reconcile_lost [OF this, of demo_blend_env 25 demo_blend_env "[example_broker_position]"]
  show ?thesis by blast
qed

theorem blend_failed_close_unmaps_witness:
  "\<exists>r'. bl_close_position demo_blend_env ''P1'' 25 (bl_set_sizer (sizer_init 10000 (1/200) (3/100)) live_runner) = Ret () r' \<and>
     map_of (bl_pos_to_sig r') ''P1'' = None"
proof -
  let ?r = "bl_set_sizer (sizer_init 10000 (1/200) (3/100)) live_runner"
  have "map_of (bl_pos_to_sig ?r) ''P1'' = Some ''a''"
    "map_of (bl_open_positions ?r) ''a'' = Some \<lparr>bt_order = demo_orch_order ''a'' 0, bt_risk_amount = 50\<rparr>"
    "map_of (sz_open_positions (bl_sizer ?r)) ''a'' = None"
    by (simp_all add: live_runner_def sizer_init_def)
  from blend_failed_close_unmaps [OF this, of demo_blend_env 25] show ?thesis by blast
qed

end
