(* ===== verification/KillSwitchTypes.thy ===== *)
theory KillSwitchTypes
  imports KillSwitchSafety
begin

text \<open>
  The annotations of the two state classes of the kill switch as a type system for the dynamically
  typed values their fields hold: what \<open>from_dict\<close> takes from a well-typed file is well typed, every
  operation keeps the types, and the files written are well typed again, so they load. The modes are
  part of the type: an active switch of another mode would block nothing.
\<close>

datatype py_type = TBool | TInt | TFloat | TStr | TOptStr | TDict | TOneOf "string list"

fun has_type :: "pyv \<Rightarrow> py_type \<Rightarrow> bool" where
  "has_type (PBool _) t = (t = TBool)"
| "has_type (PInt _) t = (t = TInt \<or> t = TFloat)"
| "has_type (PFloat _) t = (t = TFloat)"
| "has_type PNone t = (t = TOptStr)"
| "has_type (PDict _) t = (t = TDict)"
| "has_type (PList _) t = False"
| "has_type (PStr s) t =
     (case t of TStr \<Rightarrow> True | TOptStr \<Rightarrow> True | TOneOf vs \<Rightarrow> list_ex (\<lambda>v. s = [Lit v]) vs | _ \<Rightarrow> False)"

type_synonym schema = "(string \<times> py_type) list"

text \<open>The fields of \<open>GlobalKillState\<close> and \<open>StrategyFreezeState\<close>.\<close>

definition GLOBAL_SCHEMA :: schema where
  "GLOBAL_SCHEMA = [(''version'', TInt), (''active'', TBool), (''level'', TOneOf [''global'']),
     (''mode'', TOneOf [''kill'', ''freeze'']), (''reason'', TStr), (''triggered_by'', TStr),
     (''triggered_at'', TOptStr), (''positions_closed'', TBool), (''close_count'', TInt), (''metadata'', TDict)]"

definition STRATEGY_SCHEMA :: schema where
  "STRATEGY_SCHEMA = [(''strategy_id'', TStr), (''frozen'', TBool), (''reason'', TStr), (''triggered_by'', TStr),
     (''triggered_at'', TOptStr), (''consecutive_losses'', TInt), (''daily_dd_pct'', TFloat),
     (''last_slippage_pips'', TFloat), (''metadata'', TDict)]"

text \<open>A dict whose entries for the fields of the schema have their types; other keys are free, as in the code.\<close>

definition typed_as :: "schema \<Rightarrow> pyv \<Rightarrow> bool" where
  "typed_as sch v =
     (case v of
        PDict d \<Rightarrow> list_all (\<lambda>(k, t). case map_of d k of None \<Rightarrow> True | Some w \<Rightarrow> has_type w t) sch
      | _ \<Rightarrow> False)"

definition gk_typed :: "global_kill_state \<Rightarrow> bool" where
  "gk_typed g \<longleftrightarrow> typed_as GLOBAL_SCHEMA (gk_to_dict g)"

definition sf_typed :: "strategy_freeze_state \<Rightarrow> bool" where
  "sf_typed st \<longleftrightarrow> typed_as STRATEGY_SCHEMA (sf_to_dict st)"

fun strategies_typed :: "pyv \<Rightarrow> bool" where
  "strategies_typed (PDict d) =
     (case dget_or d ''strategies'' (PDict []) of
        PDict sts \<Rightarrow> list_all (\<lambda>(_, v). typed_as STRATEGY_SCHEMA v) sts
      | _ \<Rightarrow> False)"
| "strategies_typed _ = False"

fun file_typed :: "(pyv \<Rightarrow> bool) \<Rightarrow> ks_file \<Rightarrow> bool" where
  "file_typed P (Json v) = P v"
| "file_typed P Unreadable = False"
| "file_typed P _ = True"

definition disk_typed :: "ks_disk \<Rightarrow> bool" where
  "disk_typed d \<longleftrightarrow> file_typed (typed_as GLOBAL_SCHEMA) (dk_state d) \<and> file_typed strategies_typed (dk_strategies d)"

definition ks_typed :: "kill_switch \<Rightarrow> bool" where
  "ks_typed ks \<longleftrightarrow> gk_typed (ks_state ks) \<and> list_all (\<lambda>(_, st). sf_typed st) (ks_strategies ks) \<and> disk_typed (ks_disk ks)"

section \<open>Values and files\<close>

lemma has_type_str [simp]: "has_type (PStr s) TStr" "has_type (PStr s) TOptStr"
  by simp_all

lemma typed_dget:
  "typed_as sch (PDict d) \<Longrightarrow> (k, t) \<in> set sch \<Longrightarrow> has_type v t \<Longrightarrow> has_type (dget_or d k v) t"
  by (auto simp: typed_as_def dget_or_def list_all_iff split: option.splits)

lemma gk_typed_iff:
  "gk_typed g \<longleftrightarrow> has_type (gk_version g) TInt \<and> has_type (gk_active g) TBool \<and>
     has_type (gk_level g) (TOneOf [''global'']) \<and> has_type (gk_mode g) (TOneOf [''kill'', ''freeze'']) \<and>
     has_type (gk_reason g) TStr \<and> has_type (gk_triggered_by g) TStr \<and> has_type (gk_triggered_at g) TOptStr \<and>
     has_type (gk_positions_closed g) TBool \<and> has_type (gk_close_count g) TInt \<and> has_type (gk_metadata g) TDict"
  by (simp add: gk_typed_def typed_as_def GLOBAL_SCHEMA_def gk_to_dict_def)

lemma sf_typed_iff:
  "sf_typed st \<longleftrightarrow> has_type (sf_strategy_id st) TStr \<and> has_type (sf_frozen st) TBool \<and> has_type (sf_reason st) TStr \<and>
     has_type (sf_triggered_by st) TStr \<and> has_type (sf_triggered_at st) TOptStr \<and>
     has_type (sf_consecutive_losses st) TInt \<and> has_type (sf_daily_dd_pct st) TFloat \<and>
     has_type (sf_last_slippage_pips st) TFloat \<and> has_type (sf_metadata st) TDict"
  by (simp add: sf_typed_def typed_as_def STRATEGY_SCHEMA_def sf_to_dict_def)

lemma gk_load_typed:
  assumes "typed_as GLOBAL_SCHEMA v"
  obtains g where "gk_from_dict v = Inr g" and "gk_typed g"
proof -
  obtain d where v: "v = PDict d" using assms by (cases v) (auto simp: typed_as_def)
  note entry = typed_dget[OF assms[unfolded v]]
  have "gk_from_dict v = Inr (projr (gk_from_dict v))" by (simp add: v)
  moreover have "gk_typed (projr (gk_from_dict v))" by (simp add: v gk_typed_iff entry GLOBAL_SCHEMA_def)
  ultimately show ?thesis by (rule that)
qed

lemma sf_load_typed:
  assumes "typed_as STRATEGY_SCHEMA v"
  obtains st where "sf_from_dict v = Inr st" and "sf_typed st"
proof -
  obtain d where v: "v = PDict d" using assms by (cases v) (auto simp: typed_as_def)
  note entry = typed_dget[OF assms[unfolded v]]
  have "sf_from_dict v = Inr (projr (sf_from_dict v))" by (simp add: v)
  moreover have "sf_typed (projr (sf_from_dict v))" by (simp add: v sf_typed_iff entry STRATEGY_SCHEMA_def)
  ultimately show ?thesis by (rule that)
qed

lemma sf_load_all_typed:
  "list_all (\<lambda>(_, v). typed_as STRATEGY_SCHEMA v) sts \<Longrightarrow>
   \<exists>ss. sf_load_all sts = Inr ss \<and> list_all (\<lambda>(_, st). sf_typed st) ss"
  by (induction sts) (auto elim!: sf_load_typed)

lemma strategies_saved_typed:
  "list_all (\<lambda>(_, st). sf_typed st) ss \<Longrightarrow> strategies_typed (ks_strategies_dict ss)"
  by (auto simp: ks_strategies_dict_def list_all_iff sf_typed_def)

section \<open>Loading\<close>

lemma gk_default_typed [simp]: "gk_typed gk_default"
  by (simp add: gk_typed_iff gk_default_def)

lemma load_state_typed:
  assumes "ks_typed ks" and "\<not> ks_unsafe env"
  shows "\<exists>ks'. ks_load_state env ks = Ret () ks' \<and> ks_typed ks' \<and> ks_strategies ks' = ks_strategies ks"
proof (cases "dk_state (ks_disk ks)")
  case (Json v)
  then have "typed_as GLOBAL_SCHEMA v" using assms(1) by (simp add: ks_typed_def disk_typed_def)
  from gk_load_typed[OF this] obtain g where "gk_from_dict v = Inr g" "gk_typed g" by blast
  then show ?thesis using assms(1) Json by (simp add: ks_load_state_def ks_typed_def)
next
  case (Corrupt err)
  then show ?thesis using assms
    by (simp add: ks_load_state_def persist ks_typed_def disk_typed_def gk_typed_iff gk_default_def typed_as_def
        GLOBAL_SCHEMA_def gk_to_dict_def)
qed (use assms in \<open>auto simp: ks_load_state_def ks_typed_def disk_typed_def\<close>)

lemma load_strategies_typed:
  assumes "ks_typed ks"
  shows "\<exists>ks'. ks_load_strategy_states ks = Ret () ks' \<and> ks_typed ks'"
proof (cases "dk_strategies (ks_disk ks)")
  case (Json v)
  then obtain d sts where v: "v = PDict d" "dget_or d ''strategies'' (PDict []) = PDict sts"
      "list_all (\<lambda>(_, v). typed_as STRATEGY_SCHEMA v) sts"
    using assms by (cases v) (auto simp: ks_typed_def disk_typed_def split: pyv.splits)
  with sf_load_all_typed[OF v(3)] show ?thesis
    using assms Json by (auto simp: ks_load_strategy_states_def ks_typed_def)
qed (use assms in \<open>auto simp: ks_load_strategy_states_def ks_typed_def disk_typed_def\<close>)

lemma typed_caches [simp]:
  "ks_typed (ks\<lparr>ks_killed_cache := a, ks_frozen_cache := b\<rparr>) = ks_typed ks"
  by (simp add: ks_typed_def)

lemma init_typed:
  assumes "disk_typed disk" and safe: "\<not> ks_unsafe env"
  shows "\<exists>ks. ks_init env dis disk = Ret () ks \<and> ks_typed ks"
proof -
  let ?ks = "\<lparr>ks_disabled = (case dis of Some b \<Rightarrow> b | None \<Rightarrow> True), ks_state = gk_default, ks_killed_cache = False,
              ks_frozen_cache = False, ks_strategies = [], ks_disk = disk\<rparr>"
  have "ks_typed ?ks" using assms(1) by (simp add: ks_typed_def)
  then obtain ks1 where "ks_load_state env ?ks = Ret () ks1" "ks_typed ks1"
    using load_state_typed safe by blast
  moreover note load_strategies_typed[of "ks1\<lparr>ks_killed_cache := truthy (gk_active (ks_state ks1)) \<and> gk_mode (ks_state ks1) = MODE_KILL,
      ks_frozen_cache := truthy (gk_active (ks_state ks1)) \<and> gk_mode (ks_state ks1) = MODE_FREEZE\<rparr>"]
  ultimately show ?thesis using safe by (auto simp: ks_init_def Let_def ks_unsafe_def)
qed

section \<open>Operations\<close>

lemma save_global_typed: "ks_typed ks \<Longrightarrow> ks_typed (save_global env ev ks)"
  by (simp add: ks_typed_def disk_typed_def save_global_def gk_typed_def)

lemma save_strategy_typed: "ks_typed ks \<Longrightarrow> ks_typed (save_strategy env ev ks)"
  by (simp add: ks_typed_def disk_typed_def save_strategy_def strategies_saved_typed)

lemma global_typed:
  "ks_typed ks \<Longrightarrow> gk_typed g \<Longrightarrow> ks_typed (ks\<lparr>ks_state := g, ks_killed_cache := a, ks_frozen_cache := b\<rparr>)"
  "ks_typed ks \<Longrightarrow> gk_typed g \<Longrightarrow> ks_typed (ks\<lparr>ks_state := g\<rparr>)"
  by (simp_all add: ks_typed_def)

lemma update_all: "list_all (\<lambda>(_, v). P v) xs \<Longrightarrow> P v \<Longrightarrow> list_all (\<lambda>(_, v). P v) (AList.update k v xs)"
  by (induction xs) auto

lemma put_typed: "ks_typed ks \<Longrightarrow> sf_typed st \<Longrightarrow> ks_typed (ks_put sid st ks)"
  by (simp add: ks_typed_def update_all)

lemma sf_new_typed [simp]: "sf_typed (sf_new sid)"
  by (simp add: sf_typed_iff sf_new_def)

lemma entry_typed: "ks_typed ks \<Longrightarrow> map_of (ks_strategies ks) sid = Some st \<Longrightarrow> sf_typed st"
  by (auto simp: ks_typed_def list_all_iff dest: map_of_SomeD)

lemma entry_or_new_typed: "ks_typed ks \<Longrightarrow> sf_typed (dget_or (ks_strategies ks) sid (sf_new sid))"
  by (auto simp: dget_or_def entry_typed split: option.split)

lemma frozen_typed:
  "sf_typed st \<Longrightarrow> sf_typed (st\<lparr>sf_frozen := PBool b, sf_reason := PStr r, sf_triggered_by := PStr t, sf_triggered_at := PStr a\<rparr>)"
  by (simp add: sf_typed_iff)

lemma counters_typed:
  "sf_typed st \<Longrightarrow> sf_typed (st\<lparr>sf_consecutive_losses := PInt n, sf_daily_dd_pct := PFloat d, sf_last_slippage_pips := PFloat p\<rparr>)"
  by (simp add: sf_typed_iff)

lemma freeze_typed: "ks_typed ks \<Longrightarrow> ks_typed (state_of (ks_activate_global_freeze env r b ks))"
  by (simp add: freeze_state save_global_typed global_typed gk_typed_iff)

lemma typed_step:
  assumes ty: "ks_typed ks"
  shows "ks_typed (ks_step ks (env, op))"
proof (cases op)
  case (OpKill r b c)
  then show ?thesis using ty by (simp add: kill_state save_global_typed global_typed gk_typed_iff)
next
  case (OpFreeze r b)
  then show ?thesis using ty by (simp add: freeze_typed)
next
  case (OpProfitTarget b x t)
  then show ?thesis using freeze_typed[OF ty] profit_state[of env b x t ks] by auto
next
  case (OpDeactivate r)
  then show ?thesis using ty by (simp add: deactivate_state save_global_typed global_typed)
next
  case (OpPositionsClosed n)
  have "gk_typed ((ks_state ks)\<lparr>gk_positions_closed := PBool True, gk_close_count := PInt n\<rparr>)"
    using ty by (simp add: ks_typed_def gk_typed_iff)
  then show ?thesis using OpPositionsClosed ty by (simp add: closed_state save_global_typed global_typed)
next
  case (OpRegister sid)
  then show ?thesis using put_typed[OF ty sf_new_typed, of sid sid] ty
    by (auto simp: register_state ks_typed_def disk_typed_def strategies_saved_typed)
next
  case (OpFreezeStrategy sid r b)
  then show ?thesis using freeze_strategy_state[of env sid r b ks] ty
    by (auto simp: Let_def intro!: save_strategy_typed put_typed frozen_typed entry_or_new_typed split: if_splits)
next
  case (OpUnfreezeStrategy sid r)
  have "map_of (ks_strategies ks) sid = Some st \<Longrightarrow> sf_typed (st\<lparr>sf_frozen := PBool False, sf_reason := py_empty, sf_triggered_by := py_empty,
      sf_triggered_at := PNone, sf_consecutive_losses := PInt 0, sf_daily_dd_pct := PFloat 0\<rparr>)" for st
    using entry_typed[OF ty] by (auto simp: sf_typed_iff)
  then show ?thesis using OpUnfreezeStrategy unfreeze_strategy_state[of env sid r ks] ty
    by (cases "map_of (ks_strategies ks) sid")
      (auto intro!: save_strategy_typed put_typed split: if_splits)
next
  case (OpCheckAutoFreeze sid n d p)
  have "sf_typed (auto_entry sid n d p ks)"
    unfolding auto_entry_def by (intro counters_typed entry_or_new_typed ty)
  then show ?thesis using OpCheckAutoFreeze check_auto_state[of env sid n d p ks] ty
    by (auto simp: Let_def intro!: save_strategy_typed put_typed frozen_typed split: if_splits)
qed

interpretation typed_machine: invariant_machine ks_step "\<lambda>_. True" ks_typed
  by unfold_locales (metis typed_step surj_pair)

lemma typed_active:
  "ks_typed ks \<Longrightarrow> ks_coherent ks \<Longrightarrow> ks_is_active ks = (ks_is_globally_killed ks \<noteq> ks_is_globally_frozen ks)"
  by (cases "gk_mode (ks_state ks)")
    (auto simp: ks_typed_def gk_typed_iff ks_coherent_def ks_is_active_def ks_is_globally_killed_def
      ks_is_globally_frozen_def)

text \<open>
  C9. Types are kept: a manager constructed on well-typed files (absent or corrupt ones included)
  has, after any operations under any environments, a well-typed status and well-typed strategy
  entries, its files are well typed, so that a restart in a safe process always succeeds, and the switch
  is active exactly when it reports one of killed and frozen.
\<close>

theorem kill_switch_typed:
  assumes "ks_init env dis disk = Ret u ks0" and "disk_typed disk" and "\<not> ks_unsafe env'"
  shows "let ks = foldl ks_step ks0 es in
     typed_as GLOBAL_SCHEMA (ks_get_status ks) \<and> typed_as STRATEGY_SCHEMA (ks_get_strategy_status sid ks)
   \<and> disk_typed (ks_disk ks) \<and> (\<exists>ks'. ks_init env' dis' (ks_disk ks) = Ret () ks')
   \<and> ks_is_active ks = (ks_is_globally_killed ks \<noteq> ks_is_globally_frozen ks)"
proof -
  have "\<not> ks_unsafe env" using assms(1) by (auto simp: ks_init_def Let_def ks_unsafe_def split: if_splits)
  then have "ks_typed ks0" using init_typed[OF assms(2), of env dis] assms(1) by simp
  then have ty: "ks_typed (foldl ks_step ks0 es)"
    by (rule typed_machine.run_inv) (simp add: list_all_iff)
  have co: "ks_coherent (foldl ks_step ks0 es)"
    by (rule coherent_machine.run_inv[OF init_coherent[OF assms(1)]]) (simp add: list_all_iff)
  have d: "disk_typed (ks_disk (foldl ks_step ks0 es))" using ty by (simp add: ks_typed_def)
  have "typed_as STRATEGY_SCHEMA (ks_get_strategy_status sid (foldl ks_step ks0 es))"
    using entry_typed[OF ty, of sid]
    by (auto simp: ks_get_strategy_status_def sf_typed_iff sf_to_dict_def typed_as_def STRATEGY_SCHEMA_def split: option.split)
  then show ?thesis
    using ty d init_typed[OF d assms(3)] typed_active[OF ty co]
    by (auto simp: Let_def ks_typed_def gk_typed_def ks_get_status_def)
qed

theorem kill_switch_typed_witness:
  "let ks = foldl ks_step fresh_ks sample_ops in
     typed_as GLOBAL_SCHEMA (ks_get_status ks) \<and> typed_as STRATEGY_SCHEMA (ks_get_strategy_status ''orb'' ks)
   \<and> disk_typed (ks_disk ks) \<and> (\<exists>ks'. ks_init prod_env None (ks_disk ks) = Ret () ks')
   \<and> ks_is_active ks = (ks_is_globally_killed ks \<noteq> ks_is_globally_frozen ks)"
  by (rule kill_switch_typed[OF fresh_ks_init _ prod_env_safe]) (simp add: disk_typed_def blank_disk_def)

end
