(* ===== verification/Spec2Isabelle.thy ===== *)
theory Spec2Isabelle
  imports ConnState Reconnect Gates Policy Models KillSwitchSafety FtmoSafety RiskSafety Portfolio Recovery BarBuilder
    Guardrail OrderSafety PosMonitorSafety ExecSafety Calendar PaperSafety ManagerSafety TokenSafety Permission Tracking SizerState BlendSafety KillSwitchTypes
begin

text \<open>
  Ayumi is an algorithmic trading system in Python. This library models the part of it that decides
  whether, how and at what size an order reaches the broker, and what happens to it afterwards: the
  cTrader adapter, the risk engines, the entry policies and their persisted state
  (\<open>src/src/forex_bot/\<close>). Each definition translates the code it names; the theorems state what the code
  does, including where that differs from what its comments promise.

  \<^bold>\<open>How the parts interact.\<close> Ticks are aggregated into bars (\<open>BarBuilder\<close>). A strategy's signal is
  scored and gated (\<open>Policy\<close>, \<open>Gates\<close>) and then meets the risk guard (\<open>RiskGuard\<close>), directly in the paper
  trader (\<open>Paper\<close>) or through the portfolio facade (\<open>Portfolio\<close>). An allowed signal becomes an order of the
  order manager (\<open>Orders\<close>), which opens, updates and closes positions; broker answers come back through
  the execution event handler (\<open>ExecEvents\<close>), and the position monitor (\<open>PosMonitor\<close>) tracks and ratchets open
  positions. Balance updates reach the FTMO guard (\<open>FtmoGuard\<close>) and the guardrail engine (\<open>Guardrail\<close>); a breach
  in the FTMO guard or the risk guard calls the kill switch (\<open>KillSwitch\<close>), whose state is persisted and
  survives a restart, and the recovery protocol (\<open>Recovery\<close>) gives trading back. The connection
  (\<open>ConnState\<close>, \<open>Reconnect\<close>) and the signal statistics (\<open>SignalStats\<close>) stand beside this path.

  \<^bold>\<open>Theories and sources.\<close>
  \<^item> \<open>Prelude\<close>: Python values, exceptions and outcomes of methods, naive and aware datetimes, strings,
    rounding, dicts as association lists, and the two interfaces the components share: the locale
    \<open>dictionary\<close> and the locales \<open>invariant_machine\<close> and \<open>monotone_machine\<close> of machines over events.
    \<open>Calendar\<close>: the calendar behind \<open>datetime\<close>. \<open>FtmoParams\<close>: \<open>risk/ftmo_params.py\<close>.
  \<^item> \<open>KillSwitch\<close>, \<open>KillSwitchSafety\<close>: \<open>adapters/ctrader/kill_switch.py\<close>. The latch, the coherence of the
    cached flags, restart from the files, the harness guard, strategy freezes.
  \<^item> \<open>FtmoGuard\<close>, \<open>FtmoSafety\<close>: \<open>risk/ftmo_guard.py\<close>. The guard reaches the kill switch through the
    interface \<open>kill_api\<close>; the decision table, the run invariant, the floor, the freeze rules.
  \<^item> \<open>RiskGuard\<close>, \<open>RiskSafety\<close>, \<open>Portfolio\<close>: \<open>adapters/ctrader/risk_guard.py\<close>, \<open>portfolio_risk_guard.py\<close>. What an
    allowed trade satisfies, the breakers and their resets, the kill of a breach, persistence.
  \<^item> \<open>Guardrail\<close>: \<open>risk/engine.py\<close>. The verdict of the ten checks and the daily limit over sequential trades.
  \<^item> \<open>Recovery\<close>: \<open>risk/recovery_protocol.py\<close>. When a recovery attempt succeeds, and its timeline.
  \<^item> \<open>Orders\<close>, \<open>OrderSafety\<close>: \<open>adapters/ctrader/order_manager.py\<close> and the records of \<open>models.py\<close>. The books over
    any run, the refinement of an abstract ledger, fills, brackets, sizing, the pending timeout.
  \<^item> \<open>PosMonitor\<close>, \<open>PosMonitorSafety\<close>: \<open>adapters/ctrader/position_monitor.py\<close>. Excursions and the ratchet.
  \<^item> \<open>ExecEvents\<close>, \<open>ExecSafety\<close>: \<open>adapters/ctrader/execution_event_handler.py\<close>. The refinement of a set of
    waiters, terminal events, late fills.
  \<^item> \<open>Paper\<close>, \<open>PaperBooks\<close>, \<open>PaperSafety\<close>: \<open>adapters/ctrader/paper_trader.py\<close>, composed from the order manager,
    the risk guard, the kill switch and the statistics. Profit and balance over runs, when a signal is
    executed, the kill gate.
  \<^item> \<open>SignalStats\<close>: \<open>signal_engine/signal_stats.py\<close>. Totals, the round trip of a signal, the heartbeat.
  \<^item> \<open>Gates\<close>, \<open>Policy\<close>, \<open>Models\<close>: \<open>confidence/gates.py\<close>, \<open>core/conviction.py\<close>, \<open>policy/kill_criteria.py\<close>,
    \<open>policy/behavioral.py\<close>, the symbol metadata and pip sizes.
  \<^item> \<open>BarBuilder\<close>, \<open>ConnState\<close>, \<open>Reconnect\<close>: \<open>adapters/ctrader/bar_builder.py\<close>, \<open>connection_state.py\<close>,
    \<open>error_classifier.py\<close>, \<open>reconnect_strategy.py\<close>.

  \<^bold>\<open>How the code is modelled.\<close> An object is a record and a method a function on it that gives an
  \<open>outcome\<close>: a value or an exception, with the state it leaves in both cases. A \<open>float\<close> is an exact
  rational: comparisons, \<open>min\<close> and \<open>max\<close> are exact, the rounding of float arithmetic is not modelled, and
  results on sums and quotients hold for exact arithmetic. The clock, random draws, environment
  variables, time zone offsets, the success of file writes and the answers of the broker client are
  arguments of the operation that reads them, with no assumption on them unless a theorem states it.
  The text of log and error messages is kept symbolically. A registered callback is a recorded call;
  where the code swallows its exceptions, so does the model. A block under a lock is one atomic step, so
  the runs of the theorems are sequences of whole operations in any order. Every loop of the code is a
  structural recursion over the list it iterates, so no definition needs fuel.

  \<^bold>\<open>Not modelled.\<close> Sockets, Twisted and protobuf, OAuth, threads and their sleeping, logging and
  notification; the strategies, indicators, regime and machine-learning code and the backtesters, whose
  content is floating-point numerics over data frames; the cBots (C#); scripts, dashboards and tests.
  The manifest lists each of these parts with its reason.

  \<^bold>\<open>Plan.\<close> Next are the execution permission policy and volumes, the connection manager and watchdog,
  token lifecycle, position tracking and reconciliation, the exposure and persistence modules of the
  risk package, the engine layer (router, registry, anomaly monitor) and the confidence engine.
\<close>

end
